(* ===== verification/Prelude.thy ===== *)
theory Prelude
  imports Complex_Main "HOL-Library.State_Monad"
begin

text \<open>
  Shared vocabulary of the development: table operations on lists of rows (the meaning of the
  SQL statements that the Go code sends), the state monad rules the handlers are proved with,
  and the lemma collections.

  A table is a list of rows in insertion order. \<open>upd_where\<close>, \<open>del_where\<close>,
  \<open>count_where\<close> are \<open>UPDATE .. WHERE\<close>, \<open>DELETE .. WHERE\<close> and \<open>SELECT COUNT(*) .. WHERE\<close>;
  \<open>find_where\<close> is the first row of a \<open>SELECT\<close>.
\<close>

named_theorems run_simps \<open>unfolding a handler's run\<close>
named_theorems row_simps \<open>reading rows after an update\<close>

definition upd_where :: "('r \<Rightarrow> bool) \<Rightarrow> ('r \<Rightarrow> 'r) \<Rightarrow> 'r list \<Rightarrow> 'r list" where
  "upd_where P f rows = map (\<lambda>r. if P r then f r else r) rows"

definition del_where :: "('r \<Rightarrow> bool) \<Rightarrow> 'r list \<Rightarrow> 'r list" where
  "del_where P rows = filter (\<lambda>r. \<not> P r) rows"

definition count_where :: "('r \<Rightarrow> bool) \<Rightarrow> 'r list \<Rightarrow> nat" where
  "count_where P rows = length (filter P rows)"

definition find_where :: "('r \<Rightarrow> bool) \<Rightarrow> 'r list \<Rightarrow> 'r option" where
  "find_where P rows = find P rows"

lemma length_upd_where [simp]: "length (upd_where P f rows) = length rows"
  by (simp add: upd_where_def)

lemma set_upd_where: "set (upd_where P f rows) = (\<lambda>r. if P r then f r else r) ` set rows"
  by (simp add: upd_where_def)

lemma in_upd_whereE:
  assumes "r \<in> set (upd_where P f rows)"
  obtains r0 where "r0 \<in> set rows" "r = (if P r0 then f r0 else r0)"
  using assms by (auto simp: set_upd_where)

lemma in_upd_whereI: "r \<in> set rows \<Longrightarrow> (if P r then f r else r) \<in> set (upd_where P f rows)"
  by (simp add: set_upd_where)

lemma upd_where_hit: "r \<in> set rows \<Longrightarrow> P r \<Longrightarrow> f r \<in> set (upd_where P f rows)"
  by (auto simp: set_upd_where)

lemma upd_where_miss: "r \<in> set rows \<Longrightarrow> \<not> P r \<Longrightarrow> r \<in> set (upd_where P f rows)"
  by (force simp: set_upd_where)

lemma upd_where_none: "(\<And>r. r \<in> set rows \<Longrightarrow> \<not> P r) \<Longrightarrow> upd_where P f rows = rows"
  by (induction rows) (auto simp: upd_where_def)

lemma upd_where_Nil [simp]: "upd_where P f [] = []"
  by (simp add: upd_where_def)

lemma upd_where_Cons [simp]:
  "upd_where P f (r # rows) = (if P r then f r else r) # upd_where P f rows"
  by (simp add: upd_where_def)

lemma map_upd_where: "(\<And>r. g (f r) = g r) \<Longrightarrow> map g (upd_where P f rows) = map g rows"
  by (simp add: upd_where_def)

lemma set_del_where: "set (del_where P rows) = {r \<in> set rows. \<not> P r}"
  by (auto simp: del_where_def)

lemma del_where_Nil [simp]: "del_where P [] = []"
  by (simp add: del_where_def)

lemma del_where_Cons [simp]:
  "del_where P (r # rows) = (if P r then del_where P rows else r # del_where P rows)"
  by (simp add: del_where_def)

lemma in_del_where [simp]: "r \<in> set (del_where P rows) \<longleftrightarrow> r \<in> set rows \<and> \<not> P r"
  by (simp add: set_del_where)

lemma distinct_map_del_where: "distinct (map g rows) \<Longrightarrow> distinct (map g (del_where P rows))"
  by (simp add: del_where_def distinct_map_filter)

lemma count_where_Nil [simp]: "count_where P [] = 0"
  by (simp add: count_where_def)

lemma count_where_Cons [simp]:
  "count_where P (r # rows) = (if P r then Suc (count_where P rows) else count_where P rows)"
  by (simp add: count_where_def)

lemma count_where_append [simp]:
  "count_where P (xs @ ys) = count_where P xs + count_where P ys"
  by (simp add: count_where_def)

lemma count_where_0: "count_where P rows = 0 \<longleftrightarrow> (\<forall>r \<in> set rows. \<not> P r)"
  by (simp add: count_where_def filter_empty_conv)

lemma count_where_pos: "0 < count_where P rows \<longleftrightarrow> (\<exists>r \<in> set rows. P r)"
  using count_where_0 [of P rows] by auto

lemma count_where_mono:
  "(\<And>r. r \<in> set rows \<Longrightarrow> P r \<Longrightarrow> Q r) \<Longrightarrow> count_where P rows \<le> count_where Q rows"
  by (induction rows) (auto intro: le_SucI)

lemma count_where_del_where:
  "count_where P (del_where Q rows) + count_where (\<lambda>r. P r \<and> Q r) rows = count_where P rows"
  by (induction rows) auto

lemma count_where_upd_where:
  "(\<And>r. r \<in> set rows \<Longrightarrow> P r \<Longrightarrow> Q (f r) = Q r) \<Longrightarrow> count_where Q (upd_where P f rows) = count_where Q rows"
  by (induction rows) auto

lemma find_where_Nil [simp]: "find_where P [] = None"
  by (simp add: find_where_def)

lemma find_where_Cons [simp]:
  "find_where P (r # rows) = (if P r then Some r else find_where P rows)"
  by (simp add: find_where_def)

lemma find_where_Some: "find_where P rows = Some r \<Longrightarrow> r \<in> set rows \<and> P r"
  by (induction rows) (auto split: if_splits)

lemma find_where_None: "find_where P rows = None \<longleftrightarrow> (\<forall>r \<in> set rows. \<not> P r)"
  by (induction rows) auto

lemma find_where_append:
  "find_where P (xs @ ys) = (case find_where P xs of None \<Rightarrow> find_where P ys | Some r \<Rightarrow> Some r)"
  by (induction xs) auto

lemma find_where_SomeD [dest]:
  "find_where P rows = Some r \<Longrightarrow> r \<in> set rows"
  "find_where P rows = Some r \<Longrightarrow> P r"
  by (auto dest: find_where_Some)

text \<open>With a key that is unique in the table, a row found by its key is the only one.\<close>

lemma distinct_key_eq:
  "distinct (map key rows) \<Longrightarrow> r \<in> set rows \<Longrightarrow> r' \<in> set rows \<Longrightarrow> key r = key r' \<Longrightarrow> r = r'"
  by (metis distinct_map inj_onD)

lemma find_where_key:
  "distinct (map key rows) \<Longrightarrow> r \<in> set rows \<Longrightarrow> P r \<Longrightarrow> (\<And>r'. P r' \<Longrightarrow> key r' = key r)
   \<Longrightarrow> find_where P rows = Some r"
  by (cases "find_where P rows") (auto simp: find_where_None dest!: find_where_Some intro: distinct_key_eq)

lemma count_where_key_le1:
  "distinct (map key rows) \<Longrightarrow> (\<And>r. P r \<Longrightarrow> key r = k) \<Longrightarrow> count_where P rows \<le> 1"
proof (induction rows)
  case (Cons r rows)
  show ?case
  proof (cases "P r")
    case True
    with Cons.prems have "\<forall>r' \<in> set rows. \<not> P r'"
      by (metis distinct.simps(2) imageI list.set_map list.simps(9))
    with True show ?thesis by (simp add: count_where_0 [THEN iffD2])
  next
    case False
    with Cons show ?thesis by simp
  qed
qed simp

subsection \<open>Rows that keep their place\<close>

text \<open>
  \<open>rows_rel Q old new\<close>: every old row is still at its place in the table and \<open>Q\<close> relates it to
  what it has become; new rows may follow. \<open>rows_within T\<close> is the case "unchanged unless \<open>T\<close>
  allowed it to be touched".
\<close>

definition rows_rel :: "('r \<Rightarrow> 'r \<Rightarrow> bool) \<Rightarrow> 'r list \<Rightarrow> 'r list \<Rightarrow> bool" where
  "rows_rel Q old new \<longleftrightarrow> length old \<le> length new \<and> (\<forall>i < length old. Q (old ! i) (new ! i))"

lemma rows_rel_refl: "(\<And>r. Q r r) \<Longrightarrow> rows_rel Q rows rows"
  by (simp add: rows_rel_def)

lemma rows_rel_trans:
  "(\<And>a b c. Q a b \<Longrightarrow> Q b c \<Longrightarrow> Q a c) \<Longrightarrow> rows_rel Q x y \<Longrightarrow> rows_rel Q y z \<Longrightarrow> rows_rel Q x z"
  unfolding rows_rel_def by (meson less_le_trans order_trans)

lemma rows_rel_upd:
  "(\<And>r. Q r r) \<Longrightarrow> (\<And>r. r \<in> set rows \<Longrightarrow> P r \<Longrightarrow> Q r (f r)) \<Longrightarrow> rows_rel Q rows (upd_where P f rows)"
  by (auto simp: rows_rel_def upd_where_def)

lemma rows_rel_append: "(\<And>r. Q r r) \<Longrightarrow> rows_rel Q rows (rows @ extra)"
  by (simp add: rows_rel_def nth_append)

lemma rows_rel_in: "rows_rel Q old new \<Longrightarrow> r \<in> set old \<Longrightarrow> \<exists>r' \<in> set new. Q r r'"
  unfolding rows_rel_def by (metis in_set_conv_nth less_le_trans nth_mem)

lemma find_upd_rel:
  assumes "find_where P rows = Some r" "rows_rel Q (upd_where P f rows) new"
  shows "\<exists>r' \<in> set new. Q (f r) r'"
proof -
  from assms(1) have "r \<in> set rows" "P r" by auto
  then have "f r \<in> set (upd_where P f rows)" by (metis in_upd_whereI)
  from rows_rel_in [OF assms(2) this] show ?thesis .
qed

definition rows_within :: "('r \<Rightarrow> bool) \<Rightarrow> 'r list \<Rightarrow> 'r list \<Rightarrow> bool" where
  "rows_within T = rows_rel (\<lambda>a b. b = a \<or> T a)"

lemma rows_within_kept:
  "rows_within T old new \<Longrightarrow> r \<in> set old \<Longrightarrow> \<not> T r \<Longrightarrow> r \<in> set new"
  unfolding rows_within_def using rows_rel_in by fastforce

subsection \<open>Runs of the state monad\<close>

lemmas [run_simps] = run_state_bind run_state_return run_state_get run_state_set

text \<open>
  \<open>preserves I m\<close>: the computation keeps the invariant. \<open>state_io_rel R m\<close> (of the library)
  relates the state before with the state after. Both are closed under the monad's operations,
  so a handler is checked by walking its text.
\<close>

definition preserves :: "('s \<Rightarrow> bool) \<Rightarrow> ('s, 'a) state \<Rightarrow> bool" where
  "preserves I m \<longleftrightarrow> (\<forall>s. I s \<longrightarrow> I (snd (run_state m s)))"

lemma preservesI: "(\<And>s. I s \<Longrightarrow> I (snd (run_state m s))) \<Longrightarrow> preserves I m"
  by (simp add: preserves_def)

lemma preservesD: "preserves I m \<Longrightarrow> I s \<Longrightarrow> I (snd (run_state m s))"
  by (simp add: preserves_def)

locale step_relation =
  fixes R :: "'s \<Rightarrow> 's \<Rightarrow> bool"
  assumes refl: "R s s"
    and trans: "R s t \<Longrightarrow> R t u \<Longrightarrow> R s u"
begin

lemma return: "state_io_rel R (State_Monad.return x)"
  by (simp add: state_io_rel_def refl)

lemma get: "state_io_rel R State_Monad.get"
  by (simp add: state_io_rel_def refl)

lemma bind:
  assumes "state_io_rel R m" and "\<And>x. state_io_rel R (f x)"
  shows "state_io_rel R (State_Monad.bind m f)"
  using assms by (auto simp: state_io_rel_def split: prod.splits intro: trans)

text \<open>A loop over a list of inputs relates its first state with its last.\<close>

lemma traverse:
  "(\<And>x. x \<in> set xs \<Longrightarrow> state_io_rel R (f x)) \<Longrightarrow> state_io_rel R (State_Monad.traverse_list f xs)"
proof (induction xs)
  case Nil
  show ?case unfolding State_Monad.traverse_list.simps by (rule return)
next
  case (Cons x xs)
  then show ?case unfolding State_Monad.traverse_list.simps by (intro bind return) simp_all
qed

lemma ite:
  "(b \<Longrightarrow> state_io_rel R m) \<Longrightarrow> (\<not> b \<Longrightarrow> state_io_rel R n) \<Longrightarrow> state_io_rel R (if b then m else n)"
  by simp

lemma case_opt:
  "(x = None \<Longrightarrow> state_io_rel R m) \<Longrightarrow> (\<And>y. x = Some y \<Longrightarrow> state_io_rel R (f y))
   \<Longrightarrow> state_io_rel R (case x of None \<Rightarrow> m | Some y \<Rightarrow> f y)"
  by (cases x) auto

lemma case_sum:
  "(\<And>e. x = Inl e \<Longrightarrow> state_io_rel R (f e)) \<Longrightarrow> (\<And>y. x = Inr y \<Longrightarrow> state_io_rel R (g y))
   \<Longrightarrow> state_io_rel R (case x of Inl e \<Rightarrow> f e | Inr y \<Rightarrow> g y)"
  by (cases x) auto

lemma letting: "(\<And>x. x = a \<Longrightarrow> state_io_rel R (f x)) \<Longrightarrow> state_io_rel R (let x = a in f x)"
  by simp

lemma case_pair: "(\<And>x y. p = (x, y) \<Longrightarrow> state_io_rel R (f x y)) \<Longrightarrow> state_io_rel R (case p of (x, y) \<Rightarrow> f x y)"
  by (cases p) auto

lemmas walk = return get bind ite case_opt case_sum letting case_pair

end

text \<open>An invariant is the step relation "if it held, it still holds".\<close>

lemma preserves_io_rel: "preserves I m \<longleftrightarrow> state_io_rel (\<lambda>s t. I s \<longrightarrow> I t) m"
  by (simp add: preserves_def state_io_rel_def)

subsection \<open>Machines and their reachable states\<close>

text \<open>
  The interface of a component with state: initial states, steps, and an invariant that both
  respect. A client gets that every reachable state satisfies it.
\<close>

inductive reach :: "('s \<Rightarrow> bool) \<Rightarrow> ('s \<Rightarrow> 's \<Rightarrow> bool) \<Rightarrow> 's \<Rightarrow> bool"
  for start :: "'s \<Rightarrow> bool" and step :: "'s \<Rightarrow> 's \<Rightarrow> bool" where
  reach_start: "start s \<Longrightarrow> reach start step s"
| reach_step: "reach start step s \<Longrightarrow> step s t \<Longrightarrow> reach start step t"

locale machine =
  fixes start :: "'s \<Rightarrow> bool" and step :: "'s \<Rightarrow> 's \<Rightarrow> bool" and inv :: "'s \<Rightarrow> bool"
  assumes start_inv: "start s \<Longrightarrow> inv s"
    and step_inv: "inv s \<Longrightarrow> step s t \<Longrightarrow> inv t"
begin

lemma reachable_inv: "reach start step s \<Longrightarrow> inv s"
  by (induction rule: reach.induct) (auto intro: start_inv step_inv)

lemma run_inv: "step\<^sup>*\<^sup>* s t \<Longrightarrow> inv s \<Longrightarrow> inv t"
  by (induction rule: rtranclp_induct) (auto intro: step_inv)

end

end
