(* ===== verification/Go_Strings.thy ===== *)
theory Go_Strings
  imports Prelude
begin

text \<open>
  The parts of Go's \<open>strings\<close>, \<open>strconv\<close> and \<open>fmt\<close> the program relies on. A Go string is a
  sequence of bytes, as \<open>string\<close> (a list of 8-bit characters) is; \<open>len\<close> counts bytes.
\<close>

definition has_prefix :: "string \<Rightarrow> string \<Rightarrow> bool" where
  "has_prefix s p \<longleftrightarrow> take (length p) s = p"

definition has_suffix :: "string \<Rightarrow> string \<Rightarrow> bool" where
  "has_suffix s p \<longleftrightarrow> length p \<le> length s \<and> drop (length s - length p) s = p"

definition trim_prefix :: "string \<Rightarrow> string \<Rightarrow> string" where
  "trim_prefix s p = (if has_prefix s p then drop (length p) s else s)"

definition trim_suffix :: "string \<Rightarrow> string \<Rightarrow> string" where
  "trim_suffix s p = (if has_suffix s p then take (length s - length p) s else s)"

lemma has_prefix_append [simp]: "has_prefix (p @ s) p"
  by (simp add: has_prefix_def)

lemma has_prefixE: "has_prefix s p \<Longrightarrow> \<exists>t. s = p @ t"
  unfolding has_prefix_def by (metis append_take_drop_id)

lemma has_suffix_append [simp]: "has_suffix (s @ p) p"
  by (simp add: has_suffix_def)

lemma has_suffixE: "has_suffix s p \<Longrightarrow> \<exists>t. s = t @ p"
  unfolding has_suffix_def by (metis append_take_drop_id)

lemma trim_suffix_append [simp]: "trim_suffix (s @ p) p = s"
  by (simp add: trim_suffix_def)

lemma trim_suffix_other: "\<not> has_suffix s p \<Longrightarrow> trim_suffix s p = s"
  by (simp add: trim_suffix_def)

text \<open>\<open>strings.Contains\<close> and \<open>strings.Index\<close>: the first position of a substring.\<close>

fun index_of :: "string \<Rightarrow> string \<Rightarrow> nat option" where
  "index_of [] p = (if p = [] then Some 0 else None)"
| "index_of (c # s) p = (if has_prefix (c # s) p then Some 0 else map_option Suc (index_of s p))"

definition contains :: "string \<Rightarrow> string \<Rightarrow> bool" where
  "contains s p \<longleftrightarrow> index_of s p \<noteq> None"

lemma index_of_Some:
  "index_of s p = Some i \<Longrightarrow> i + length p \<le> length s \<and> take (length p) (drop i s) = p"
proof (induction s arbitrary: i)
  case Nil
  then show ?case by (auto split: if_splits)
next
  case (Cons c s)
  show ?case
  proof (cases "has_prefix (c # s) p")
    case True
    with Cons.prems have "i = 0" by simp
    moreover from True obtain t where "c # s = p @ t" by (blast dest: has_prefixE)
    moreover from \<open>c # s = p @ t\<close> have "length p \<le> length (c # s)"
      by (metis length_append le_add1)
    ultimately show ?thesis by simp
  next
    case False
    with Cons.prems obtain j where "index_of s p = Some j" "i = Suc j" by auto
    with Cons.IH show ?thesis by auto
  qed
qed

lemma index_of_eq: "index_of s p = Some i \<Longrightarrow> s = take i s @ p @ drop (i + length p) s"
proof -
  assume "index_of s p = Some i"
  then have "take (length p) (drop i s) = p" using index_of_Some by blast
  then have "drop i s = p @ drop (length p) (drop i s)" by (metis append_take_drop_id)
  then show ?thesis by (metis append_take_drop_id drop_drop add.commute)
qed

lemma contains_append: "contains (a @ p @ b) p"
proof -
  have "index_of (a @ p @ b) p \<noteq> None"
  proof (induction a)
    case Nil
    show ?case by (cases "p @ b") (auto simp: has_prefix_def, metis append_eq_conv_conj)
  qed auto
  then show ?thesis by (simp add: contains_def)
qed

lemma containsE: "contains s p \<Longrightarrow> \<exists>a b. s = a @ p @ b"
  using index_of_eq unfolding contains_def by blast

text \<open>\<open>strings.Split\<close> on a non-empty separator; \<open>strings.Join\<close>.\<close>

fun split_aux :: "nat \<Rightarrow> string \<Rightarrow> string \<Rightarrow> string list" where
  "split_aux 0 s sep = [s]"
| "split_aux (Suc n) s sep = (case index_of s sep of
     None \<Rightarrow> [s]
   | Some i \<Rightarrow> take i s # split_aux n (drop (i + length sep) s) sep)"

definition split :: "string \<Rightarrow> string \<Rightarrow> string list" where
  "split s sep = split_aux (length s) s sep"

fun join :: "string list \<Rightarrow> string \<Rightarrow> string" where
  "join [] sep = []"
| "join [x] sep = x"
| "join (x # y # xs) sep = x @ sep @ join (y # xs) sep"

lemma split_aux_nonempty: "split_aux n s sep \<noteq> []"
  by (cases n) (auto split: option.splits)

lemma join_Cons: "xs \<noteq> [] \<Longrightarrow> join (x # xs) sep = x @ sep @ join xs sep"
  by (cases xs) auto

lemma join_split_aux: "join (split_aux n s sep) sep = s"
proof (induction n arbitrary: s)
  case (Suc n)
  show ?case
  proof (cases "index_of s sep")
    case (Some i)
    from index_of_eq [OF Some] Suc Some show ?thesis
      by (simp add: join_Cons split_aux_nonempty)
  qed simp
qed simp

lemma join_split: "join (split s sep) sep = s"
  by (simp add: split_def join_split_aux)

text \<open>
  The fuel of \<open>split_aux\<close> is enough: when the separator is not empty, every round consumes at
  least one byte, so the last piece holds no separator.
\<close>

lemma split_aux_complete:
  "sep \<noteq> [] \<Longrightarrow> length s \<le> n \<Longrightarrow> x \<in> set (split_aux n s sep) \<Longrightarrow> \<not> contains x sep \<or> s = []"
proof (induction n arbitrary: s)
  case (Suc n)
  show ?case
  proof (cases "index_of s sep")
    case None
    with Suc.prems show ?thesis by (simp add: contains_def)
  next
    case (Some i)
    have first: "\<not> contains (take i s) sep"
      if "index_of s sep = Some i" for s i using that
    proof (induction s arbitrary: i)
      case Nil
      with Suc.prems(1) show ?case by simp
    next
      case (Cons c s)
      show ?case
      proof (cases "has_prefix (c # s) sep")
        case True
        with Cons.prems Suc.prems(1) show ?thesis by (auto simp: contains_def)
      next
        case False
        with Cons.prems obtain j where j: "index_of s sep = Some j" "i = Suc j" by auto
        have "\<not> has_prefix (c # take j s) sep"
        proof
          assume "has_prefix (c # take j s) sep"
          then obtain t where "c # take j s = sep @ t" by (blast dest: has_prefixE)
          then have "c # s = sep @ (t @ drop j s)" by (metis append_Cons append_assoc append_take_drop_id)
          with False show False by (metis has_prefix_append)
        qed
        with j Cons.IH [OF j(1)] show ?thesis by (simp add: contains_def)
      qed
    qed
    from Suc.prems Some have "x = take i s \<or> x \<in> set (split_aux n (drop (i + length sep) s) sep)"
      by simp
    then show ?thesis
    proof
      assume "x = take i s"
      with first [OF Some] show ?thesis by simp
    next
      assume x: "x \<in> set (split_aux n (drop (i + length sep) s) sep)"
      have "length (drop (i + length sep) s) \<le> n"
        using Suc.prems(1,2) by (cases sep) auto
      from Suc.IH [OF Suc.prems(1) this x]
      have "\<not> contains x sep \<or> drop (i + length sep) s = []" .
      moreover have "\<not> contains x sep" if "drop (i + length sep) s = []"
        using x that Suc.prems(1) by (cases n) (auto simp: contains_def)
      ultimately show ?thesis by blast
    qed
  qed
qed simp

text \<open>\<open>strconv.Itoa\<close> and the \<open>%d\<close> verb.\<close>

definition digit :: "nat \<Rightarrow> char" where
  "digit d = char_of (48 + d)"

fun itoa_nat :: "nat \<Rightarrow> string" where
  "itoa_nat n = (if n < 10 then [digit n] else itoa_nat (n div 10) @ [digit (n mod 10)])"

declare itoa_nat.simps [simp del]

definition itoa :: "int \<Rightarrow> string" where
  "itoa n = (if n < 0 then ''-'' @ itoa_nat (nat (- n)) else itoa_nat (nat n))"

text \<open>\<open>%0wd\<close> of a non-negative number: padded with zeros on the left to width \<open>w\<close>.\<close>

definition pad0 :: "nat \<Rightarrow> string \<Rightarrow> string" where
  "pad0 w s = replicate (w - length s) (CHR ''0'') @ s"

text \<open>
  \<open>strings.TrimSpace\<close> removes leading and trailing Unicode white space; \<open>space_runes\<close> are the
  UTF-8 encodings of the code points for which \<open>unicode.IsSpace\<close> holds.
\<close>

definition space_runes :: "string list" where
  "space_runes =
    [[CHR 0x09], [CHR 0x0A], [CHR 0x0B], [CHR 0x0C], [CHR 0x0D], [CHR 0x20],
     [CHR 0xC2, CHR 0x85], [CHR 0xC2, CHR 0xA0], [CHR 0xE1, CHR 0x9A, CHR 0x80]] @
    map (\<lambda>b. [CHR 0xE2, CHR 0x80, char_of b]) ([0x80..<0x8B] @ [0xA8, 0xA9, 0xAF :: nat]) @
    [[CHR 0xE2, CHR 0x81, CHR 0x9F], [CHR 0xE3, CHR 0x80, CHR 0x80]]"

fun trim_left_aux :: "nat \<Rightarrow> string list \<Rightarrow> string \<Rightarrow> string" where
  "trim_left_aux 0 sp s = s"
| "trim_left_aux (Suc n) sp s = (case find (has_prefix s) sp of
     None \<Rightarrow> s
   | Some p \<Rightarrow> trim_left_aux n sp (drop (length p) s))"

definition trim_space :: "string \<Rightarrow> string" where
  "trim_space s =
     (let l = trim_left_aux (length s) space_runes s
      in rev (trim_left_aux (length l) (map rev space_runes) (rev l)))"

lemma trim_left_aux_suffix: "\<exists>p. s = p @ trim_left_aux n sp s"
proof (induction n arbitrary: s)
  case (Suc n)
  show ?case
  proof (cases "find (has_prefix s) sp")
    case (Some p)
    then have "has_prefix s p" by (auto simp: find_Some_iff)
    then obtain t where "s = p @ t" by (blast dest: has_prefixE)
    with Some Suc [of t] show ?thesis by (auto, metis append_assoc)
  qed simp
qed simp

lemma trim_left_aux_length: "length (trim_left_aux n sp s) \<le> length s"
  using trim_left_aux_suffix [of s n sp] by (metis le_add2 length_append)

lemma trim_space_infix: "\<exists>a b. s = a @ trim_space s @ b"
proof -
  let ?l = "trim_left_aux (length s) space_runes s"
  obtain a where a: "s = a @ ?l" using trim_left_aux_suffix by blast
  obtain b where "rev ?l = b @ trim_left_aux (length ?l) (map rev space_runes) (rev ?l)"
    using trim_left_aux_suffix by blast
  then have "rev (rev ?l) = rev (b @ trim_left_aux (length ?l) (map rev space_runes) (rev ?l))"
    by (rule arg_cong)
  then have "?l = trim_space s @ rev b" by (simp add: trim_space_def Let_def)
  with a show ?thesis by metis
qed

lemma trim_space_length: "length (trim_space s) \<le> length s"
  using trim_space_infix [of s] by (metis add_leE le_add1 length_append add.commute le_refl)

subsection \<open>UTF-8\<close>

text \<open>
  The length of the well-formed rune a string starts with, 0 when it does not start with one (Go's
  \<open>utf8.DecodeRuneInString\<close>: no overlong forms, no surrogates, nothing above U+10FFFF), and
  \<open>strings.ToValidUTF8(s, "")\<close>, which drops the bytes that belong to no such rune.
\<close>

definition byte_in :: "nat \<Rightarrow> nat \<Rightarrow> char \<Rightarrow> bool" where
  "byte_in lo hi c \<longleftrightarrow> lo \<le> of_char c \<and> of_char c \<le> hi"

definition rune3 :: "char \<Rightarrow> char \<Rightarrow> char \<Rightarrow> bool" where
  "rune3 a b c \<longleftrightarrow> byte_in 0xE0 0xEF a \<and>
     byte_in (if a = CHR 0xE0 then 0xA0 else 0x80) (if a = CHR 0xED then 0x9F else 0xBF) b \<and> byte_in 0x80 0xBF c"

definition rune4 :: "char \<Rightarrow> char \<Rightarrow> char \<Rightarrow> char \<Rightarrow> bool" where
  "rune4 a b c d \<longleftrightarrow> byte_in 0xF0 0xF4 a \<and>
     byte_in (if a = CHR 0xF0 then 0x90 else 0x80) (if a = CHR 0xF4 then 0x8F else 0xBF) b \<and>
     byte_in 0x80 0xBF c \<and> byte_in 0x80 0xBF d"

definition rune_length :: "string \<Rightarrow> nat" where
  "rune_length s =
     (if 1 \<le> length s \<and> byte_in 0 0x7F (s ! 0) then 1
      else if 2 \<le> length s \<and> byte_in 0xC2 0xDF (s ! 0) \<and> byte_in 0x80 0xBF (s ! 1) then 2
      else if 3 \<le> length s \<and> rune3 (s ! 0) (s ! 1) (s ! 2) then 3
      else if 4 \<le> length s \<and> rune4 (s ! 0) (s ! 1) (s ! 2) (s ! 3) then 4
      else 0)"

fun to_valid_utf8_aux :: "nat \<Rightarrow> string \<Rightarrow> string" where
  "to_valid_utf8_aux 0 s = []"
| "to_valid_utf8_aux (Suc n) [] = []"
| "to_valid_utf8_aux (Suc n) (a # s) = (let k = rune_length (a # s) in
     if k = 0 then to_valid_utf8_aux n s
     else take k (a # s) @ to_valid_utf8_aux n (drop k (a # s)))"

definition to_valid_utf8 :: "string \<Rightarrow> string" where
  "to_valid_utf8 s = to_valid_utf8_aux (length s) s"

lemma rune_length_le: "rune_length s \<le> length s"
  by (simp add: rune_length_def)

lemma rune_length_1: "byte_in 0 0x7F (s ! 0) \<Longrightarrow> 1 \<le> length s \<Longrightarrow> rune_length s = 1"
  by (simp add: rune_length_def)

lemma rune_length_2:
  "\<not> byte_in 0 0x7F (s ! 0) \<Longrightarrow> byte_in 0xC2 0xDF (s ! 0) \<Longrightarrow> byte_in 0x80 0xBF (s ! 1) \<Longrightarrow> 2 \<le> length s
   \<Longrightarrow> rune_length s = 2"
  by (simp add: rune_length_def)

lemma rune_length_3:
  "\<not> byte_in 0 0x7F (s ! 0) \<Longrightarrow> \<not> byte_in 0xC2 0xDF (s ! 0) \<Longrightarrow> rune3 (s ! 0) (s ! 1) (s ! 2) \<Longrightarrow>
   3 \<le> length s \<Longrightarrow> rune_length s = 3"
  by (simp add: rune_length_def)

lemma rune_length_4:
  "\<not> byte_in 0 0x7F (s ! 0) \<Longrightarrow> \<not> byte_in 0xC2 0xDF (s ! 0) \<Longrightarrow> \<not> byte_in 0xE0 0xEF (s ! 0) \<Longrightarrow>
   rune4 (s ! 0) (s ! 1) (s ! 2) (s ! 3) \<Longrightarrow> 4 \<le> length s \<Longrightarrow> rune_length s = 4"
  by (simp add: rune_length_def rune3_def)

lemma byte_in_disjoint: "byte_in a b c \<Longrightarrow> b < x \<Longrightarrow> \<not> byte_in x y c"
  "byte_in x y c \<Longrightarrow> b < x \<Longrightarrow> \<not> byte_in a b c"
  by (simp_all add: byte_in_def)

lemma rune_length_cases:
  assumes "0 < rune_length s"
  obtains "rune_length s = 1" "1 \<le> length s" "byte_in 0 0x7F (s ! 0)"
  | "rune_length s = 2" "2 \<le> length s" "\<not> byte_in 0 0x7F (s ! 0)" "byte_in 0xC2 0xDF (s ! 0)" "byte_in 0x80 0xBF (s ! 1)"
  | "rune_length s = 3" "3 \<le> length s" "\<not> byte_in 0 0x7F (s ! 0)" "\<not> byte_in 0xC2 0xDF (s ! 0)" "rune3 (s ! 0) (s ! 1) (s ! 2)"
  | "rune_length s = 4" "4 \<le> length s" "\<not> byte_in 0 0x7F (s ! 0)" "\<not> byte_in 0xC2 0xDF (s ! 0)"
    "\<not> byte_in 0xE0 0xEF (s ! 0)" "rune4 (s ! 0) (s ! 1) (s ! 2) (s ! 3)"
proof -
  let ?c1 = "1 \<le> length s \<and> byte_in 0 0x7F (s ! 0)"
  let ?c2 = "2 \<le> length s \<and> byte_in 0xC2 0xDF (s ! 0) \<and> byte_in 0x80 0xBF (s ! 1)"
  let ?c3 = "3 \<le> length s \<and> rune3 (s ! 0) (s ! 1) (s ! 2)"
  let ?c4 = "4 \<le> length s \<and> rune4 (s ! 0) (s ! 1) (s ! 2) (s ! 3)"
  have len: "1 \<le> length s" using assms by (cases s) (simp_all add: rune_length_def)
  have e: "rune_length s = (if ?c1 then 1 else if ?c2 then 2 else if ?c3 then 3 else if ?c4 then 4 else 0)"
    by (simp only: rune_length_def)
  have "?c1 \<or> ?c2 \<or> ?c3 \<or> ?c4" using e assms by (metis less_irrefl)
  then consider (a) ?c1 | (b) "\<not> ?c1" ?c2 | (c) "\<not> ?c1" "\<not> ?c2" ?c3 | (d) "\<not> ?c1" "\<not> ?c2" "\<not> ?c3" ?c4
    by blast
  then show thesis
  proof cases
    case a
    with that(1) e show ?thesis by presburger
  next
    case b
    with len that(2) e show ?thesis by presburger
  next
    case c
    then have "byte_in 0xE0 0xEF (s ! 0)" by (simp add: rune3_def)
    with byte_in_disjoint(2) have "\<not> byte_in 0xC2 0xDF (s ! 0)" by fastforce
    with c len that(3) e show ?thesis by presburger
  next
    case d
    then have "byte_in 0xF0 0xF4 (s ! 0)" by (simp add: rune4_def)
    with byte_in_disjoint(2) have "\<not> byte_in 0xC2 0xDF (s ! 0)" "\<not> byte_in 0xE0 0xEF (s ! 0)" by fastforce+
    with d len that(4) e show ?thesis by presburger
  qed
qed

lemma rune_length_take:
  assumes "0 < rune_length s" shows "rune_length (take (rune_length s) s @ t) = rune_length s"
proof -
  let ?u = "take (rune_length s) s @ t"
  have nth: "i < rune_length s \<Longrightarrow> ?u ! i = s ! i" for i
    using rune_length_le [of s] by (simp add: nth_append)
  have len: "rune_length s \<le> length ?u" using rune_length_le [of s] by simp
  from assms show ?thesis
  proof (cases rule: rune_length_cases)
    case 1
    with nth len show ?thesis using rune_length_1 [of ?u] by simp
  next
    case 2
    with nth len show ?thesis using rune_length_2 [of ?u] by simp
  next
    case 3
    with nth len show ?thesis using rune_length_3 [of ?u] by simp
  next
    case 4
    with nth len show ?thesis using rune_length_4 [of ?u] by simp
  qed
qed

text \<open>A well-formed UTF-8 text is a sequence of well-formed runes.\<close>

inductive valid_utf8 :: "string \<Rightarrow> bool" where
  valid_Nil: "valid_utf8 []"
| valid_rune: "0 < rune_length s \<Longrightarrow> rune_length s = length s \<Longrightarrow> valid_utf8 t \<Longrightarrow> valid_utf8 (s @ t)"

lemma to_valid_utf8_aux_valid: "valid_utf8 (to_valid_utf8_aux n s)"
proof (induction n s rule: to_valid_utf8_aux.induct)
  case (3 n a s)
  let ?k = "rune_length (a # s)"
  show ?case
  proof (cases "?k = 0")
    case True
    with 3 show ?thesis by simp
  next
    case False
    have "rune_length (take ?k (a # s)) = ?k"
      using rune_length_take [of "a # s" "[]"] False by simp
    moreover have "length (take ?k (a # s)) = ?k" using rune_length_le [of "a # s"] by simp
    ultimately have "valid_utf8 (take ?k (a # s) @ to_valid_utf8_aux n (drop ?k (a # s)))"
      using 3(2) False by (intro valid_rune) simp_all
    with False show ?thesis by (simp add: Let_def)
  qed
qed (simp_all add: valid_Nil)

lemma to_valid_utf8_valid: "valid_utf8 (to_valid_utf8 s)"
  by (simp add: to_valid_utf8_def to_valid_utf8_aux_valid)

text \<open>Removing a byte below 128 from a well-formed text leaves a well-formed text: such a byte is a rune of its own.\<close>

definition high :: "char \<Rightarrow> bool" where
  "high c \<longleftrightarrow> 0x80 \<le> (of_char c :: nat)"

lemma byte_in_high: "byte_in lo hi c \<Longrightarrow> 0x80 \<le> lo \<Longrightarrow> high c"
  by (simp add: byte_in_def high_def)

lemma rune3_high: "rune3 a b c \<Longrightarrow> high a \<and> high b \<and> high c"
  by (auto simp: rune3_def intro: byte_in_high split: if_splits)

lemma rune4_high: "rune4 a b c d \<Longrightarrow> high a \<and> high b \<and> high c \<and> high d"
  by (auto simp: rune4_def intro: byte_in_high split: if_splits)

lemma rune2_high: "byte_in 0xC2 0xDF a \<and> byte_in 0x80 0xBF b \<Longrightarrow> high a \<and> high b"
  by (auto intro: byte_in_high)

lemma rune_high:
  assumes "rune_length s = length s" "2 \<le> length s" "i < length s"
  shows "high (s ! i)"
proof -
  consider "length s = 2" "byte_in 0xC2 0xDF (s ! 0) \<and> byte_in 0x80 0xBF (s ! 1)"
    | "length s = 3" "rune3 (s ! 0) (s ! 1) (s ! 2)" | "length s = 4" "rune4 (s ! 0) (s ! 1) (s ! 2) (s ! 3)"
    using assms(1,2) unfolding rune_length_def by (simp split: if_splits)
  then show ?thesis
  proof cases
    case 1
    with assms(3) have "i = 0 \<or> i = 1" by linarith
    with rune2_high [OF 1(2)] show ?thesis by auto
  next
    case 2
    with assms(3) have "i = 0 \<or> i = 1 \<or> i = 2" by linarith
    with rune3_high [OF 2(2)] show ?thesis by auto
  next
    case 3
    with assms(3) have "i = 0 \<or> i = 1 \<or> i = 2 \<or> i = 3" by linarith
    with rune4_high [OF 3(2)] show ?thesis by auto
  qed
qed

lemma rune_no_ascii:
  assumes "rune_length s = length s" "0 < length s" "c \<in> set s" "byte_in 0 0x7F c" shows "s = [c]"
proof (cases "2 \<le> length s")
  case True
  from assms(3) obtain i where "i < length s" "s ! i = c" by (auto simp: in_set_conv_nth)
  with rune_high [OF assms(1) True, of i] assms(4) show ?thesis by (simp add: high_def byte_in_def)
next
  case False
  with assms(2,3) show ?thesis by (cases s; cases "tl s") auto
qed

lemma valid_utf8_filter:
  assumes "valid_utf8 s" "\<And>c. \<not> P c \<Longrightarrow> byte_in 0 0x7F c"
  shows "valid_utf8 (filter P s)"
  using assms(1)
proof induction
  case (valid_rune s t)
  show ?case
  proof (cases "\<forall>c \<in> set s. P c")
    case True
    then have "filter P s = s" by simp
    with valid_rune show ?thesis by (simp add: valid_utf8.valid_rune)
  next
    case False
    then obtain c where c: "c \<in> set s" "\<not> P c" by blast
    with rune_no_ascii [OF valid_rune(2)] valid_rune(1,2) assms(2) have "s = [c]" by simp
    with c valid_rune show ?thesis by simp
  qed
qed (simp add: valid_Nil)

end
