(* ===== verification/Float64.thy ===== *)
theory Float64
  imports Prelude
begin

text \<open>
  Go's \<open>float64\<close> (IEEE 754 binary64, round to nearest, ties to even), as the program uses it:
  finite values that come from JSON numbers, from Postgres integers and from arithmetic on them.
  A value is the rational it denotes; every operation is the exact one followed by \<open>rnd64\<close>,
  the rounding to 53 significant bits with gradual underflow at \<open>2^-1074\<close>. Overflow to infinity
  and NaN are outside the model: no modelled computation reaches \<open>2^1024\<close> and none divides by 0.
\<close>

type_synonym float64 = rat

subsection \<open>Rounding to an integer, ties to even\<close>

definition rhe :: "rat \<Rightarrow> int" where
  "rhe y = (let f = \<lfloor>y\<rfloor>; r = y - of_int f in
     if r < 1/2 then f else if 1/2 < r then f + 1 else if even f then f else f + 1)"

lemma rhe_of_int [simp]: "rhe (of_int n) = n"
  by (simp add: rhe_def)

lemma rhe_bounds: "\<lfloor>y\<rfloor> \<le> rhe y" "rhe y \<le> \<lfloor>y\<rfloor> + 1"
  by (simp_all add: rhe_def Let_def)

lemma rhe_mono: "y \<le> z \<Longrightarrow> rhe y \<le> rhe z"
proof -
  assume le: "y \<le> z"
  then have "\<lfloor>y\<rfloor> < \<lfloor>z\<rfloor> \<or> \<lfloor>y\<rfloor> = \<lfloor>z\<rfloor>"
    using floor_mono [OF le] by linarith
  then show ?thesis
  proof
    assume "\<lfloor>y\<rfloor> < \<lfloor>z\<rfloor>"
    then show ?thesis using rhe_bounds [of y] rhe_bounds [of z] by linarith
  next
    assume "\<lfloor>y\<rfloor> = \<lfloor>z\<rfloor>"
    with le show ?thesis by (auto simp: rhe_def Let_def)
  qed
qed

lemma rhe_near: "\<bar>of_int (rhe y) - y\<bar> \<le> 1/2"
proof -
  have "of_int \<lfloor>y\<rfloor> \<le> y" "y < of_int \<lfloor>y\<rfloor> + 1" by linarith+
  then show ?thesis by (auto simp: rhe_def Let_def abs_le_iff)
qed

lemma rhe_le: "y \<le> of_int n \<Longrightarrow> rhe y \<le> n"
  using rhe_mono [of y "of_int n"] by simp

lemma rhe_ge: "of_int n \<le> y \<Longrightarrow> n \<le> rhe y"
  using rhe_mono [of "of_int n" y] by simp

subsection \<open>The binary exponent\<close>

fun flog2 :: "nat \<Rightarrow> nat" where
  "flog2 n = (if n < 2 then 0 else Suc (flog2 (n div 2)))"

declare flog2.simps [simp del]

lemma flog2_bounds: "0 < n \<Longrightarrow> 2 ^ flog2 n \<le> n \<and> n < 2 ^ Suc (flog2 n)"
proof (induction n rule: flog2.induct)
  case (1 n)
  show ?case
  proof (cases "n < 2")
    case True
    with 1 show ?thesis by (simp add: flog2.simps [of n])
  next
    case False
    with 1 have "2 ^ flog2 (n div 2) \<le> n div 2 \<and> n div 2 < 2 ^ Suc (flog2 (n div 2))" by simp
    with False show ?thesis by (auto simp: flog2.simps [of n])
  qed
qed

definition clog2 :: "nat \<Rightarrow> nat" where
  "clog2 n = (if n \<le> 1 then 0 else Suc (flog2 (n - 1)))"

lemma clog2_bounds: "1 < n \<Longrightarrow> n \<le> 2 ^ clog2 n \<and> 2 ^ (clog2 n - 1) < n"
  using flog2_bounds [of "n - 1"] by (auto simp: clog2_def)

lemma less_le_pred: "(a::nat) < n \<Longrightarrow> a \<le> n - 1"
  by simp

lemma clog2_ge1: "1 < n \<Longrightarrow> 1 \<le> clog2 n"
  by (simp add: clog2_def)

text \<open>\<open>2 powi ilog x \<le> x < 2 powi (ilog x + 1)\<close> for positive \<open>x\<close>.\<close>

definition ilog :: "rat \<Rightarrow> int" where
  "ilog x = (if 1 \<le> x then int (flog2 (nat \<lfloor>x\<rfloor>)) else - int (clog2 (nat \<lceil>1 / x\<rceil>)))"

abbreviation pow2 :: "int \<Rightarrow> rat" where "pow2 e \<equiv> 2 powi e"

lemma pow2_pos [simp]: "0 < pow2 e"
  by simp

lemma pow2_of_nat: "pow2 (int n) = 2 ^ n"
  by (simp add: power_int_def)

lemma pow2_add: "pow2 (a + b) = pow2 a * pow2 b"
  by (rule power_int_add) simp

lemma pow2_Suc: "pow2 (a + 1) = 2 * pow2 a"
  by (simp add: pow2_add)

lemma pow2_mono: "a \<le> b \<Longrightarrow> pow2 a \<le> pow2 b"
  by (rule power_int_increasing) simp_all

lemma pow2_mono_iff [simp]: "pow2 a \<le> pow2 b \<longleftrightarrow> a \<le> b"
  using power_int_strict_increasing [of b a "2::rat"] pow2_mono [of a b] by (metis linorder_not_le one_less_numeral_iff semiring_norm(76))

lemma pow2_less_iff [simp]: "pow2 a < pow2 b \<longleftrightarrow> a < b"
  using pow2_mono_iff [of b a] by (metis linorder_not_le)

lemma pow2_int: "0 \<le> e \<Longrightarrow> \<exists>n::int. pow2 e = of_int n"
  by (metis nonneg_int_cases of_int_numeral of_int_power pow2_of_nat)

lemma ilog_ge1:
  assumes "1 \<le> x"
  shows "pow2 (ilog x) \<le> x \<and> x < pow2 (ilog x + 1)"
proof -
  let ?n = "nat \<lfloor>x\<rfloor>"
  have pos: "0 < ?n" and fl: "rat_of_nat ?n = of_int \<lfloor>x\<rfloor>" using assms by auto
  from flog2_bounds [OF pos] have b: "2 ^ flog2 ?n \<le> ?n" "?n + 1 \<le> 2 ^ Suc (flog2 ?n)" by auto
  have "rat_of_nat (2 ^ flog2 ?n) \<le> x"
    using b(1) fl by (metis floor_le_iff le_floor_iff of_int_of_nat_eq of_nat_le_iff order_trans order_refl)
  moreover have "x < rat_of_nat (2 ^ Suc (flog2 ?n))"
  proof -
    have "x < of_int \<lfloor>x\<rfloor> + 1" by linarith
    also have "\<dots> = rat_of_nat (?n + 1)" using fl by simp
    also have "\<dots> \<le> rat_of_nat (2 ^ Suc (flog2 ?n))" using b(2) by (rule of_nat_mono)
    finally show ?thesis .
  qed
  ultimately show ?thesis using assms by (simp add: ilog_def pow2_Suc pow2_of_nat)
qed

lemma ilog_lt1:
  assumes "0 < x" "x < 1"
  shows "pow2 (ilog x) \<le> x \<and> x < pow2 (ilog x + 1)"
proof -
  let ?n = "nat \<lceil>1 / x\<rceil>" and ?k = "clog2 (nat \<lceil>1 / x\<rceil>)"
  have gt: "1 < 1 / x" using assms by simp
  then have c1: "1 < \<lceil>1 / x\<rceil>" by (simp only: less_ceiling_iff of_int_1)
  have n1: "1 < ?n" by (rule zless_nat_eq_int_zless [THEN iffD2]) (simp only: of_nat_1 c1)
  have cl: "rat_of_nat ?n = of_int \<lceil>1 / x\<rceil>" using gt by simp
  from clog2_bounds [OF n1] have b: "?n \<le> 2 ^ ?k" "2 ^ (?k - 1) < ?n" by auto
  have k1: "1 \<le> ?k" by (rule clog2_ge1 [OF n1])
  have "1 / x \<le> of_int \<lceil>1 / x\<rceil>" by linarith
  also have "\<dots> \<le> rat_of_nat (2 ^ ?k)" unfolding cl [symmetric] using b(1) by (rule of_nat_mono)
  finally have "1 \<le> x * 2 ^ ?k" using assms by (simp add: field_simps)
  then have lo: "pow2 (- int ?k) \<le> x"
    by (simp add: power_int_minus pow2_of_nat field_simps)
  have "rat_of_nat (2 ^ (?k - 1)) \<le> rat_of_nat (?n - 1)"
    by (intro of_nat_mono less_le_pred b(2))
  also have "\<dots> = of_int \<lceil>1 / x\<rceil> - 1"
    unfolding of_nat_diff [OF less_imp_le [OF n1]] cl of_nat_1 by (rule refl)
  also have "\<dots> < 1 / x" by linarith
  finally have "x * 2 ^ (?k - 1) < 1" using assms by (simp add: field_simps)
  then have hi: "x < pow2 (- int (?k - 1))"
    by (simp add: power_int_minus pow2_of_nat field_simps)
  have "- int (?k - 1) = - int ?k + 1" using k1 by simp
  with lo hi assms show ?thesis by (simp add: ilog_def)
qed

lemma ilog_bounds: "0 < x \<Longrightarrow> pow2 (ilog x) \<le> x \<and> x < pow2 (ilog x + 1)"
  by (cases "1 \<le> x") (use ilog_ge1 ilog_lt1 in auto)

lemma ilog_unique:
  assumes "pow2 k \<le> x" "x < pow2 (k + 1)"
  shows "ilog x = k"
proof -
  have "0 < x" using assms(1) pow2_pos [of k] by linarith
  from ilog_bounds [OF this] assms have "pow2 (ilog x) < pow2 (k + 1)" "pow2 k < pow2 (ilog x + 1)"
    by linarith+
  then show ?thesis by simp
qed

lemma ilog_mono: "0 < x \<Longrightarrow> x \<le> y \<Longrightarrow> ilog x \<le> ilog y"
proof -
  assume "0 < x" "x \<le> y"
  with ilog_bounds [of x] ilog_bounds [of y] have "pow2 (ilog x) < pow2 (ilog y + 1)" by linarith
  then show ?thesis by simp
qed

subsection \<open>Rounding to a float64\<close>

definition ulp_exp :: "rat \<Rightarrow> int" where
  "ulp_exp x = max (ilog x - 52) (- 1074)"

definition rnd_pos :: "rat \<Rightarrow> rat" where
  "rnd_pos x = (if x = 0 then 0
     else of_int (rhe (x / pow2 (ulp_exp x))) * pow2 (ulp_exp x))"

definition rnd64 :: "rat \<Rightarrow> float64" where
  "rnd64 x = (if x < 0 then - rnd_pos (- x) else rnd_pos x)"

text \<open>A multiple of the unit in the last place is not rounded.\<close>

lemma rnd_pos_exact:
  assumes "x = of_int n * pow2 e" "ulp_exp x \<le> e"
  shows "rnd_pos x = x"
proof -
  obtain m :: int where m: "pow2 (e - ulp_exp x) = of_int m"
    using pow2_int [of "e - ulp_exp x"] assms(2) by auto
  have "pow2 e = of_int m * pow2 (ulp_exp x)"
    using pow2_add [of "e - ulp_exp x" "ulp_exp x"] m by simp
  with assms(1) have x: "x = of_int (n * m) * pow2 (ulp_exp x)" by simp
  then have "x / pow2 (ulp_exp x) = of_int (n * m)"
    by (subst nonzero_divide_eq_eq) simp_all
  then have "rhe (x / pow2 (ulp_exp x)) = n * m" by (simp only: rhe_of_int)
  with x show ?thesis by (simp only: rnd_pos_def) simp
qed

lemma pow2_ulp_le:
  assumes "0 < x" shows "pow2 (ulp_exp x) * 2 ^ 52 \<le> x \<or> ulp_exp x = - 1074"
proof -
  have "ulp_exp x = ilog x - 52 \<or> ulp_exp x = - 1074" by (auto simp: ulp_exp_def)
  moreover have "pow2 (ilog x - 52) * 2 ^ 52 = pow2 (ilog x)"
    using pow2_add [of "ilog x - 52" 52] by simp
  ultimately show ?thesis using ilog_bounds [OF assms] by auto
qed

text \<open>The result stays within the binade, its upper end included.\<close>

lemma rnd_pos_le_pow2:
  assumes "0 < x" "x \<le> pow2 k" "ulp_exp x \<le> k"
  shows "rnd_pos x \<le> pow2 k"
proof -
  obtain m :: int where m: "pow2 (k - ulp_exp x) = of_int m"
    using pow2_int [of "k - ulp_exp x"] assms(3) by auto
  have k: "pow2 k = of_int m * pow2 (ulp_exp x)"
    by (simp flip: m pow2_add)
  with assms(2) have "x / pow2 (ulp_exp x) \<le> of_int m" by (simp add: divide_le_eq)
  then have "rhe (x / pow2 (ulp_exp x)) \<le> m" by (rule rhe_le)
  then have "of_int (rhe (x / pow2 (ulp_exp x))) * pow2 (ulp_exp x) \<le> of_int m * pow2 (ulp_exp x)"
    by (intro mult_right_mono) simp_all
  with assms(1) k show ?thesis by (simp add: rnd_pos_def)
qed

lemma rnd_pos_ge_pow2:
  assumes "pow2 k \<le> x" "ulp_exp x \<le> k"
  shows "pow2 k \<le> rnd_pos x"
proof -
  have pos: "0 < x" using assms(1) pow2_pos [of k] by linarith
  obtain m :: int where m: "pow2 (k - ulp_exp x) = of_int m"
    using pow2_int [of "k - ulp_exp x"] assms(2) by auto
  have k: "pow2 k = of_int m * pow2 (ulp_exp x)"
    by (simp flip: m pow2_add)
  with assms(1) have "of_int m \<le> x / pow2 (ulp_exp x)" by (simp add: le_divide_eq)
  then have "m \<le> rhe (x / pow2 (ulp_exp x))" by (rule rhe_ge)
  then have "of_int m * pow2 (ulp_exp x) \<le> of_int (rhe (x / pow2 (ulp_exp x))) * pow2 (ulp_exp x)"
    by (intro mult_right_mono) simp_all
  with pos k show ?thesis by (simp add: rnd_pos_def)
qed

lemma rnd_pos_nonneg: "0 \<le> x \<Longrightarrow> 0 \<le> rnd_pos x"
  using rhe_ge [of 0 "x / pow2 (ulp_exp x)"] by (simp add: rnd_pos_def)

lemma rnd_pos_mono:
  assumes "0 \<le> x" "x \<le> y" shows "rnd_pos x \<le> rnd_pos y"
proof (cases "x = 0")
  case True
  then show ?thesis using rnd_pos_nonneg [of y] assms by (simp add: rnd_pos_def)
next
  case False
  with assms have pos: "0 < x" "0 < y" by auto
  have le: "ulp_exp x \<le> ulp_exp y" using ilog_mono [of x y] pos assms by (simp add: ulp_exp_def)
  show ?thesis
  proof (cases "ulp_exp x = ulp_exp y")
    case True
    have "rhe (x / pow2 (ulp_exp x)) \<le> rhe (y / pow2 (ulp_exp x))"
      by (rule rhe_mono) (simp add: assms(2) divide_right_mono)
    with True pos show ?thesis by (simp add: rnd_pos_def)
  next
    case False
    with le have y: "ulp_exp y = ilog y - 52" and lt: "ulp_exp x < ulp_exp y"
      by (auto simp: ulp_exp_def)
    have "ilog x < ilog y" using lt y by (simp add: ulp_exp_def)
    then have "x \<le> pow2 (ilog y)"
      using ilog_bounds [OF pos(1)] pow2_mono [of "ilog x + 1" "ilog y"] by linarith
    then have "rnd_pos x \<le> pow2 (ilog y)"
      using lt y by (intro rnd_pos_le_pow2 pos) simp_all
    moreover have "pow2 (ilog y) \<le> rnd_pos y"
      using ilog_bounds [OF pos(2)] y by (intro rnd_pos_ge_pow2) simp_all
    ultimately show ?thesis by linarith
  qed
qed

lemma rnd_pos_near: "0 \<le> x \<Longrightarrow> \<bar>rnd_pos x - x\<bar> \<le> pow2 (ulp_exp x) / 2"
proof -
  assume x: "0 \<le> x"
  show ?thesis
  proof (cases "x = 0")
    case False
    let ?u = "pow2 (ulp_exp x)"
    have "rnd_pos x - x = (of_int (rhe (x / ?u)) - x / ?u) * ?u"
      using False by (simp add: rnd_pos_def algebra_simps)
    then have "\<bar>rnd_pos x - x\<bar> = \<bar>of_int (rhe (x / ?u)) - x / ?u\<bar> * ?u"
      by (simp add: abs_mult)
    also have "\<dots> \<le> 1/2 * ?u" by (intro mult_right_mono rhe_near) simp
    finally show ?thesis by simp
  qed (simp add: rnd_pos_def)
qed

lemma rnd64_0 [simp]: "rnd64 0 = 0"
  by (simp add: rnd64_def rnd_pos_def)

lemma rnd64_mono: "x \<le> y \<Longrightarrow> rnd64 x \<le> rnd64 y"
  using rnd_pos_mono [of x y] rnd_pos_mono [of "- y" "- x"]
    rnd_pos_nonneg [of y] rnd_pos_nonneg [of "- x"]
  by (auto simp: rnd64_def not_less intro: order_trans)

lemma rnd64_minus: "rnd64 (- x) = - rnd64 x"
  by (auto simp: rnd64_def rnd_pos_def)

text \<open>Integers up to \<open>2^53\<close> are float64 values.\<close>

lemma rnd64_of_nat: "n \<le> 2 ^ 53 \<Longrightarrow> rnd64 (of_nat n) = of_nat n"
proof -
  assume n: "n \<le> 2 ^ 53"
  show ?thesis
  proof (cases "n = 0")
    case False
    then have pos: "0 < rat_of_nat n" by simp
    have le: "rat_of_nat n \<le> pow2 53"
      using of_nat_mono [OF n, where 'a = rat] by simp
    show ?thesis
    proof (cases "n = 2 ^ 53")
      case True
      have "ilog (rat_of_nat n) = 53" by (rule ilog_unique) (simp_all add: True)
      then have "rnd_pos (rat_of_nat n) = rat_of_nat n"
        by (intro rnd_pos_exact [where n = 1 and e = 53]) (simp_all add: True ulp_exp_def)
      then show ?thesis by (simp add: rnd64_def)
    next
      case False
      with n have "n < 2 ^ 53" by simp
      then have "rat_of_nat n < pow2 53" using of_nat_less_iff [of n "2 ^ 53", where 'a = rat] by simp
      then have "pow2 (ilog (rat_of_nat n)) < pow2 53" using ilog_bounds [OF pos] by linarith
      then have "ilog (rat_of_nat n) < 53" by (simp only: pow2_less_iff)
      then have "ulp_exp (rat_of_nat n) \<le> 0" by (simp add: ulp_exp_def)
      then have "rnd_pos (rat_of_nat n) = rat_of_nat n"
        by (intro rnd_pos_exact [where n = "int n" and e = 0]) simp_all
      then show ?thesis by (simp add: rnd64_def)
    qed
  qed simp
qed

lemma rnd64_of_int: "\<bar>n\<bar> \<le> 2 ^ 53 \<Longrightarrow> rnd64 (of_int n) = of_int n"
proof -
  assume n: "\<bar>n\<bar> \<le> 2 ^ 53"
  have *: "rnd64 (rat_of_nat (nat \<bar>n\<bar>)) = rat_of_nat (nat \<bar>n\<bar>)"
    using n by (intro rnd64_of_nat) (simp add: nat_le_iff)
  show ?thesis
  proof (cases "0 \<le> n")
    case True
    then have "rat_of_int n = rat_of_nat (nat \<bar>n\<bar>)" by simp
    with * show ?thesis by (simp only:)
  next
    case False
    then have "rat_of_int n = - rat_of_nat (nat \<bar>n\<bar>)" by simp
    with * show ?thesis by (simp only: rnd64_minus)
  qed
qed

subsection \<open>Operations\<close>

definition f_add :: "float64 \<Rightarrow> float64 \<Rightarrow> float64" where "f_add x y = rnd64 (x + y)"
definition f_sub :: "float64 \<Rightarrow> float64 \<Rightarrow> float64" where "f_sub x y = rnd64 (x - y)"
definition f_mul :: "float64 \<Rightarrow> float64 \<Rightarrow> float64" where "f_mul x y = rnd64 (x * y)"
definition f_div :: "float64 \<Rightarrow> float64 \<Rightarrow> float64" where "f_div x y = rnd64 (x / y)"

text \<open>\<open>float64(n)\<close> of an integer, and \<open>int(x)\<close>, which truncates towards zero.\<close>

definition f_of_int :: "int \<Rightarrow> float64" where "f_of_int n = rnd64 (of_int n)"

definition f_to_int :: "float64 \<Rightarrow> int" where
  "f_to_int x = (if x < 0 then - \<lfloor>- x\<rfloor> else \<lfloor>x\<rfloor>)"

text \<open>
  What the arithmetic relies on, as an interface: a monotone rounding that keeps the integers a
  Postgres \<open>INTEGER\<close> column can hold.
\<close>

locale rounding =
  fixes rnd :: "rat \<Rightarrow> rat" and bound :: int
  assumes mono: "x \<le> y \<Longrightarrow> rnd x \<le> rnd y"
    and int_exact: "\<bar>n\<bar> \<le> bound \<Longrightarrow> rnd (of_int n) = of_int n"
    and bound_ge: "1 \<le> bound"
begin

lemma zero: "rnd 0 = 0"
  using int_exact [of 0] bound_ge by simp

lemma nonneg: "0 \<le> x \<Longrightarrow> 0 \<le> rnd x"
  using mono [of 0 x] zero by simp

lemma nonpos: "x \<le> 0 \<Longrightarrow> rnd x \<le> 0"
  using mono [of x 0] zero by simp

lemma le_int: "\<bar>n\<bar> \<le> bound \<Longrightarrow> x \<le> of_int n \<Longrightarrow> rnd x \<le> of_int n"
  using mono [of x "of_int n"] int_exact [of n] by simp

lemma ge_int: "\<bar>n\<bar> \<le> bound \<Longrightarrow> of_int n \<le> x \<Longrightarrow> of_int n \<le> rnd x"
  using mono [of "of_int n" x] int_exact [of n] by simp

text \<open>A sum of non-negative terms, accumulated in any order, stays non-negative and monotone.\<close>

lemma foldl_nonneg:
  "0 \<le> a \<Longrightarrow> (\<And>x. x \<in> set xs \<Longrightarrow> 0 \<le> f x) \<Longrightarrow> 0 \<le> foldl (\<lambda>acc x. rnd (acc + f x)) a xs"
proof (induction xs arbitrary: a)
  case (Cons x xs)
  have "0 \<le> rnd (a + f x)" using Cons.prems by (intro nonneg) simp
  then show ?case using Cons by simp
qed simp

end

interpretation f64: rounding rnd64 "2 ^ 53"
  by unfold_locales (auto intro: rnd64_mono rnd64_of_int)

lemma f_of_int_exact: "\<bar>n\<bar> \<le> 2 ^ 53 \<Longrightarrow> f_of_int n = of_int n"
  by (simp add: f_of_int_def rnd64_of_int)

lemma f_sub_pos_nonneg: "y \<le> x \<Longrightarrow> 0 \<le> f_sub x y"
  by (simp add: f_sub_def f64.nonneg)

lemma f_sub_le: "\<bar>n\<bar> \<le> 2 ^ 53 \<Longrightarrow> 0 \<le> y \<Longrightarrow> x \<le> of_int n \<Longrightarrow> f_sub x y \<le> of_int n"
  unfolding f_sub_def by (rule f64.le_int) auto

lemma f_to_int_ge: "0 \<le> n \<Longrightarrow> of_int n \<le> x \<Longrightarrow> n \<le> f_to_int x"
  using of_int_0_le_iff [of n, where 'a = rat] by (simp add: f_to_int_def le_floor_iff)

lemma f_to_int_le: "0 \<le> n \<Longrightarrow> x \<le> of_int n \<Longrightarrow> f_to_int x \<le> n"
proof -
  assume n: "0 \<le> n" "x \<le> of_int n"
  then have "\<lfloor>x\<rfloor> \<le> n" by (metis floor_mono floor_of_int)
  moreover have "- \<lfloor>- x\<rfloor> \<le> n" if "x < 0"
  proof -
    have "0 \<le> \<lfloor>- x\<rfloor>" using that by simp
    with n(1) show ?thesis by linarith
  qed
  ultimately show ?thesis by (simp add: f_to_int_def)
qed

lemma rnd64_near:
  assumes "0 \<le> x" "x \<le> pow2 k" "- 1000 \<le> k"
  shows "\<bar>rnd64 x - x\<bar> \<le> pow2 (k - 53)"
proof (cases "x = 0")
  case False
  with assms(1) have x: "0 < x" by simp
  have "pow2 (ilog x) \<le> pow2 k" using ilog_bounds [OF x] assms(2) by linarith
  then have "ilog x \<le> k" by simp
  then have "ulp_exp x \<le> k - 52" using assms(3) by (simp add: ulp_exp_def)
  then have "pow2 (ulp_exp x) / 2 \<le> pow2 (k - 52) / 2" by simp
  also have "\<dots> = pow2 (k - 53)" using pow2_Suc [of "k - 53"] by simp
  finally have "pow2 (ulp_exp x) / 2 \<le> pow2 (k - 53)" .
  with rnd_pos_near [OF assms(1)] assms(1) show ?thesis by (simp add: rnd64_def)
qed simp

end
