(* ===== verification/Encodings.thy ===== *)
theory Encodings
  imports Go_Strings
begin

text \<open>
  Encodings the sign-in and the integrations use: \<open>encoding/base64\<close> (the standard and the URL alphabet, with and
  without padding), \<open>url.QueryEscape\<close>, and values of JSON as \<open>encoding/json\<close> hands them out.
\<close>

subsection \<open>Base64\<close>

definition letters :: string where
  "letters = ''ABCDEFGHIJKLMNOPQRSTUVWXYZabcdefghijklmnopqrstuvwxyz0123456789''"

definition std_alphabet :: string where "std_alphabet = letters @ ''+/''"
definition url_alphabet :: string where "url_alphabet = letters @ ''-_''"

fun b64_encode :: "string \<Rightarrow> bool \<Rightarrow> nat list \<Rightarrow> string" where
  "b64_encode al pad [] = []"
| "b64_encode al pad [a] = [al ! (a div 4), al ! (a mod 4 * 16)] @ (if pad then ''=='' else [])"
| "b64_encode al pad [a, b] = [al ! (a div 4), al ! (a mod 4 * 16 + b div 16), al ! (b mod 16 * 4)] @ (if pad then ''='' else [])"
| "b64_encode al pad (a # b # c # s) =
     [al ! (a div 4), al ! (a mod 4 * 16 + b div 16), al ! (b mod 16 * 4 + c div 64), al ! (c mod 64)] @ b64_encode al pad s"

text \<open>The value of a digit.\<close>

fun b64_value :: "string \<Rightarrow> char \<Rightarrow> nat option" where
  "b64_value [] c = None"
| "b64_value (d # al) c = (if d = c then Some 0 else map_option Suc (b64_value al c))"

definition two_digits :: "string \<Rightarrow> char \<Rightarrow> char \<Rightarrow> nat list option" where
  "two_digits al a b = (case (b64_value al a, b64_value al b) of
     (Some x, Some y) \<Rightarrow> Some [x * 4 + y div 16] | _ \<Rightarrow> None)"

definition three_digits :: "string \<Rightarrow> char \<Rightarrow> char \<Rightarrow> char \<Rightarrow> nat list option" where
  "three_digits al a b c = (case (b64_value al a, b64_value al b, b64_value al c) of
     (Some x, Some y, Some z) \<Rightarrow> Some [x * 4 + y div 16, y mod 16 * 16 + z div 4] | _ \<Rightarrow> None)"

definition four_digits :: "string \<Rightarrow> char \<Rightarrow> char \<Rightarrow> char \<Rightarrow> char \<Rightarrow> nat list option" where
  "four_digits al a b c d = (case (b64_value al a, b64_value al b, b64_value al c, b64_value al d) of
     (Some x, Some y, Some z, Some u) \<Rightarrow> Some [x * 4 + y div 16, y mod 16 * 16 + z div 4, z mod 4 * 64 + u] | _ \<Rightarrow> None)"

fun b64_quanta :: "string \<Rightarrow> bool \<Rightarrow> string \<Rightarrow> nat list option" where
  "b64_quanta al pad [] = Some []"
| "b64_quanta al pad [a] = None"
| "b64_quanta al pad [a, b] = (if pad then None else two_digits al a b)"
| "b64_quanta al pad [a, b, c] = (if pad then None else three_digits al a b c)"
| "b64_quanta al pad (a # b # c # d # s) =
     (if pad \<and> s = [] \<and> c = CHR ''='' \<and> d = CHR ''='' then two_digits al a b
      else if pad \<and> s = [] \<and> d = CHR ''='' then three_digits al a b c
      else case four_digits al a b c d of None \<Rightarrow> None
        | Some xs \<Rightarrow> map_option (\<lambda>ys. xs @ ys) (b64_quanta al pad s))"

text \<open>\<open>DecodeString\<close> passes over line breaks wherever they stand.\<close>

definition b64_decode :: "string \<Rightarrow> bool \<Rightarrow> string \<Rightarrow> nat list option" where
  "b64_decode al pad s = b64_quanta al pad (filter (\<lambda>c. c \<noteq> CHR 0x0D \<and> c \<noteq> CHR 0x0A) s)"

definition bytes_of :: "string \<Rightarrow> nat list" where "bytes_of s = map of_char s"
definition string_of :: "nat list \<Rightarrow> string" where "string_of s = map char_of s"

lemma string_of_bytes [simp]: "string_of (bytes_of s) = s"
  by (simp add: string_of_def bytes_of_def o_def)

lemma bytes_of_less: "x \<in> set (bytes_of s) \<Longrightarrow> x < 256"
  by (auto simp: bytes_of_def)

definition StdEncode :: "string \<Rightarrow> string" where
  "StdEncode s = b64_encode std_alphabet True (bytes_of s)"

definition StdDecode :: "string \<Rightarrow> string option" where
  "StdDecode s = map_option string_of (b64_decode std_alphabet True s)"

definition RawURLEncode :: "string \<Rightarrow> string" where
  "RawURLEncode s = b64_encode url_alphabet False (bytes_of s)"

definition RawStdDecode :: "string \<Rightarrow> string option" where
  "RawStdDecode s = map_option string_of (b64_decode std_alphabet False s)"

text \<open>An alphabet is good when each digit has its place as its value and no digit is a padding sign or a line break.\<close>

definition alphabet :: "string \<Rightarrow> bool" where
  "alphabet al \<longleftrightarrow> length al = 64 \<and> list_all (\<lambda>n. b64_value al (al ! n) = Some n \<and>
     al ! n \<noteq> CHR ''='' \<and> al ! n \<noteq> CHR 0x0D \<and> al ! n \<noteq> CHR 0x0A) [0..<64]"

lemma alphabets: "alphabet std_alphabet" "alphabet url_alphabet"
  by code_simp+

lemma alphabet_nth:
  assumes "alphabet al" "n < 64"
  shows "b64_value al (al ! n) = Some n" "al ! n \<noteq> CHR ''=''" "al ! n \<noteq> CHR 0x0D" "al ! n \<noteq> CHR 0x0A"
  using assms by (auto simp: alphabet_def list_all_iff)

lemma digit_bounds:
  fixes a b c :: nat assumes "a < 256" "b < 256"
  shows "a div 4 < 64" "a mod 4 * 16 < 64" "a mod 4 * 16 + b div 16 < 64" "b mod 16 * 4 < 64"
    "b mod 16 * 4 + a div 64 < 64" "c mod 64 < 64"
proof -
  show "a div 4 < 64" using assms by (simp add: less_mult_imp_div_less)
  have m: "a mod 4 < 4" "b mod 16 < 16" "b div 16 < 16" "a div 64 < 4"
    using assms by (simp_all add: less_mult_imp_div_less)
  then show "a mod 4 * 16 < 64" "a mod 4 * 16 + b div 16 < 64" "b mod 16 * 4 < 64" "b mod 16 * 4 + a div 64 < 64" by linarith+
qed simp

lemma quantum_parts:
  fixes a b c :: nat assumes "a < 256" "b < 256" "c < 256"
  shows "a div 4 * 4 + a mod 4 * 16 div 16 = a"
    "a div 4 * 4 + (a mod 4 * 16 + b div 16) div 16 = a"
    "(a mod 4 * 16 + b div 16) mod 16 * 16 + b mod 16 * 4 div 4 = b"
    "(a mod 4 * 16 + b div 16) mod 16 * 16 + (b mod 16 * 4 + c div 64) div 4 = b"
    "(b mod 16 * 4 + c div 64) mod 4 * 64 + c mod 64 = c"
proof -
  have s: "b div 16 < 16" "c div 64 < 4" using assms by (simp_all add: less_mult_imp_div_less)
  have d: "(a mod 4 * 16 + b div 16) div 16 = a mod 4" "(a mod 4 * 16 + b div 16) mod 16 = b div 16"
    "(b mod 16 * 4 + c div 64) div 4 = b mod 16" "(b mod 16 * 4 + c div 64) mod 4 = c div 64"
    using s by simp_all
  show "a div 4 * 4 + a mod 4 * 16 div 16 = a" by simp
  show "a div 4 * 4 + (a mod 4 * 16 + b div 16) div 16 = a" unfolding d by simp
  show "(a mod 4 * 16 + b div 16) mod 16 * 16 + b mod 16 * 4 div 4 = b" unfolding d by simp
  show "(a mod 4 * 16 + b div 16) mod 16 * 16 + (b mod 16 * 4 + c div 64) div 4 = b" unfolding d by simp
  show "(b mod 16 * 4 + c div 64) mod 4 * 64 + c mod 64 = c" unfolding d by simp
qed

lemma digits_encode:
  assumes "alphabet al" "x < 64" "y < 64"
  shows "two_digits al (al ! x) (al ! y) = Some [x * 4 + y div 16]"
    and "z < 64 \<Longrightarrow> three_digits al (al ! x) (al ! y) (al ! z) = Some [x * 4 + y div 16, y mod 16 * 16 + z div 4]"
    and "z < 64 \<Longrightarrow> u < 64 \<Longrightarrow> four_digits al (al ! x) (al ! y) (al ! z) (al ! u) =
      Some [x * 4 + y div 16, y mod 16 * 16 + z div 4, z mod 4 * 64 + u]"
  using assms by (simp_all add: two_digits_def three_digits_def four_digits_def alphabet_nth)

lemma quanta_padded:
  "b64_quanta al True [a, b, CHR ''='', CHR ''=''] = two_digits al a b"
  "c \<noteq> CHR ''='' \<Longrightarrow> b64_quanta al True [a, b, c, CHR ''=''] = three_digits al a b c"
  "d \<noteq> CHR ''='' \<Longrightarrow> four_digits al a b c d = Some xs \<Longrightarrow>
     b64_quanta al pad (a # b # c # d # s) = map_option (\<lambda>ys. xs @ ys) (b64_quanta al pad s)"
  by simp_all

lemma b64_quanta_encode:
  "alphabet al \<Longrightarrow> \<forall>x \<in> set s. x < 256 \<Longrightarrow> b64_quanta al pad (b64_encode al pad s) = Some s"
proof (induction al pad s rule: b64_encode.induct)
  case (1 al pad)
  show ?case by simp
next
  case (2 al pad a)
  then have "a < 256" by simp
  then show ?case
    using digits_encode(1) [OF 2(1) digit_bounds(1,2) [of a a]] quantum_parts(1) [of a a a]
    by (cases pad) (simp_all only: b64_encode.simps if_True if_False append.simps b64_quanta.simps simp_thms)
next
  case (3 al pad a b)
  then have "a < 256" "b < 256" by simp_all
  then show ?case
    using digits_encode(2) [OF 3(1) digit_bounds(1,3) [of a b] digit_bounds(4) [of b b]] quantum_parts(2,3) [of a b a]
      alphabet_nth(2) [OF 3(1) digit_bounds(4) [of b b]]
    by (cases pad) (simp_all only: b64_encode.simps if_True if_False append.simps b64_quanta.simps simp_thms)
next
  case (4 al pad a b c s)
  then have l: "a < 256" "b < 256" "c < 256" by simp_all
  have ih: "b64_quanta al pad (b64_encode al pad s) = Some s" using 4 by simp
  show ?case
    unfolding b64_encode.simps append.simps
    using quanta_padded(3) [OF alphabet_nth(2) [OF 4(2) digit_bounds(6)]
        digits_encode(3) [OF 4(2) digit_bounds(1,3) [OF l(1,2)] digit_bounds(5) [OF l(3,2)] digit_bounds(6) [OF l(1,2)]]]
      quantum_parts(2,4,5) [OF l] l
    by (simp only: ih option.map append.simps)
qed

lemma b64_encode_chars:
  "alphabet al \<Longrightarrow> \<forall>x \<in> set s. x < 256 \<Longrightarrow> c \<in> set (b64_encode al pad s) \<Longrightarrow> c \<noteq> CHR 0x0D \<and> c \<noteq> CHR 0x0A"
proof (induction al pad s rule: b64_encode.induct)
  case (1 al pad)
  then show ?case by simp
next
  case (2 al pad a)
  then have a: "a < 256" by simp
  have "c = CHR ''='' \<or> c = al ! (a div 4) \<or> c = al ! (a mod 4 * 16)" using 2(3) by (auto split: if_splits)
  then show ?case using alphabet_nth(3,4) [OF 2(1) digit_bounds(1) [OF a a]] alphabet_nth(3,4) [OF 2(1) digit_bounds(2) [OF a a]]
    by (elim disjE) simp_all
next
  case (3 al pad a b)
  then have l: "a < 256" "b < 256" by simp_all
  have "c = CHR ''='' \<or> c = al ! (a div 4) \<or> c = al ! (a mod 4 * 16 + b div 16) \<or> c = al ! (b mod 16 * 4)"
    using 3(3) by (auto split: if_splits)
  then show ?case using alphabet_nth(3,4) [OF 3(1) digit_bounds(1) [OF l]] alphabet_nth(3,4) [OF 3(1) digit_bounds(3) [OF l]]
      alphabet_nth(3,4) [OF 3(1) digit_bounds(4) [OF l]]
    by (elim disjE) simp_all
next
  case (4 al pad a b d s)
  then have l: "a < 256" "b < 256" "d < 256" by simp_all
  have "c = al ! (a div 4) \<or> c = al ! (a mod 4 * 16 + b div 16) \<or> c = al ! (b mod 16 * 4 + d div 64) \<or> c = al ! (d mod 64) \<or>
      c \<in> set (b64_encode al pad s)"
    using 4(4) by auto
  then show ?case
    using alphabet_nth(3,4) [OF 4(2) digit_bounds(1) [OF l(1,2)]] alphabet_nth(3,4) [OF 4(2) digit_bounds(3) [OF l(1,2)]]
      alphabet_nth(3,4) [OF 4(2) digit_bounds(5) [OF l(3,2)]] alphabet_nth(3,4) [OF 4(2) digit_bounds(6) [OF l(1,2)]] 4(1) 4(2,3)
    by (elim disjE) simp_all
qed

text \<open>What is encoded is decoded again.\<close>

lemma StdDecode_Encode: "StdDecode (StdEncode s) = Some s"
proof -
  have b: "\<forall>x \<in> set (bytes_of s). x < 256" using bytes_of_less by blast
  have "filter (\<lambda>c. c \<noteq> CHR 0x0D \<and> c \<noteq> CHR 0x0A) (b64_encode std_alphabet True (bytes_of s)) = b64_encode std_alphabet True (bytes_of s)"
    using b64_encode_chars [OF alphabets(1) b] by (intro filter_True) blast
  then show ?thesis by (simp add: StdDecode_def StdEncode_def b64_decode_def b64_quanta_encode [OF alphabets(1) b])
qed

subsection \<open>Queries\<close>

definition upper_hex :: "nat \<Rightarrow> char" where
  "upper_hex n = ''0123456789ABCDEF'' ! n"

definition QueryEscape :: "string \<Rightarrow> string" where
  "QueryEscape s = concat (map (\<lambda>c.
     if byte_in 0x61 0x7A c \<or> byte_in 0x41 0x5A c \<or> byte_in 0x30 0x39 c \<or> c \<in> set ''-_.~'' then [c]
     else if c = CHR '' '' then ''+''
     else [CHR ''%'', upper_hex (of_char c div 16), upper_hex (of_char c mod 16)]) s)"

subsection \<open>JSON\<close>

text \<open>A value an interface holds after decoding; the last of several members of one name counts.\<close>

datatype json = JString string | JBool bool | JObject "(string \<times> json) list" | JOther string

definition json_member :: "string \<Rightarrow> (string \<times> json) list \<Rightarrow> json option" where
  "json_member k ms = map_of (rev ms) k"

end
