(* ===== verification/World.thy ===== *)
theory World
  imports Go_Strings Float64 Encodings
begin

text \<open>
  The state the handlers and workers share: the database (the columns of \<open>migrations/\<close> that
  the modelled code reads or writes), the jobs started with \<open>go func\<close> that have not run yet,
  the calls made on outside services, and the outcomes those services have in store.

  Every SQL statement and every call on the object store goes through \<open>call\<close>, which takes the
  next entry of \<open>faults\<close>: \<open>Some msg\<close> makes the call fail with that message and leaves the
  database as it was, \<open>None\<close> (also when the list is used up) lets it run. A statement is atomic,
  a handler is not: what it did before a failing call stays done, as without a transaction.
\<close>

subsection \<open>Rows\<close>

type_synonym time = int \<comment> \<open>microseconds, the resolution of a Postgres timestamp\<close>

abbreviation seconds :: "int \<Rightarrow> time" where "seconds n \<equiv> n * 1000000"
abbreviation minutes :: "int \<Rightarrow> time" where "minutes n \<equiv> seconds (60 * n)"
abbreviation hours :: "int \<Rightarrow> time" where "hours n \<equiv> minutes (60 * n)"
abbreviation days :: "int \<Rightarrow> time" where "days n \<equiv> hours (24 * n)"

datatype video_status = Uploading | Processing | Ready | Deleted

datatype work_status = WNone | WPending | WProcessing | WReady | WFailed | WNoAudio | WTooShort

record transcript_segment =
  seg_start :: float64
  seg_end :: float64
  seg_text :: string
  seg_speaker :: string

record segment_range =
  sr_start :: float64
  sr_end :: float64

text \<open>\<open>brandingSettingsResponse\<close>: the branding columns of a user, of a workspace or of a video (which has no CSS).\<close>

record branding =
  b_CompanyName :: "string option"
  b_LogoKey :: "string option"
  b_ColorBackground :: "string option"
  b_ColorSurface :: "string option"
  b_ColorText :: "string option"
  b_ColorAccent :: "string option"
  b_FooterText :: "string option"
  b_CustomCSS :: "string option"

definition no_branding :: branding where
  "no_branding = \<lparr>b_CompanyName = None, b_LogoKey = None, b_ColorBackground = None, b_ColorSurface = None,
     b_ColorText = None, b_ColorAccent = None, b_FooterText = None, b_CustomCSS = None\<rparr>"

record video =
  v_id :: string
  v_user_id :: string
  v_organization_id :: "string option"
  v_title :: string
  v_status :: video_status
  v_duration :: int
  v_file_size :: int
  v_file_key :: string
  v_share_token :: string
  v_content_type :: string
  v_created_at :: time
  v_updated_at :: time
  v_processing_started_at :: "time option"
  v_share_expires_at :: "time option"
  v_share_password :: "string option"
  v_email_gate_enabled :: bool
  v_download_enabled :: bool
  v_cta_text :: "string option"
  v_cta_url :: "string option"
  v_pinned :: bool
  v_retention_warned_at :: "time option"
  v_file_purged_at :: "time option"
  v_thumbnail_key :: "string option"
  v_webcam_key :: "string option"
  v_folder_id :: "string option"
  v_noise_reduction :: bool
  v_ios_normalized :: bool
  v_cues_fixed :: bool
  v_transcode_attempts :: int
  v_transcode_error :: "string option"
  v_transcript_key :: "string option"
  v_transcript_json :: "transcript_segment list option"
  v_transcript_status :: work_status
  v_transcript_started_at :: "time option"
  v_transcription_language :: "string option"
  v_summary :: "string option"
  v_chapters :: "(string \<times> float64) list option"
  v_summary_status :: work_status
  v_summary_started_at :: "time option"
  v_document :: "string option"
  v_document_status :: work_status
  v_document_started_at :: "time option"
  v_suggested_title :: "string option"
  v_comment_mode :: string
  v_view_notification :: "string option"
  v_branding :: branding

record user =
  u_id :: string
  u_email :: string
  u_name :: string
  u_plan :: string
  u_subscription_id :: "string option"
  u_customer_id :: "string option"
  u_noise_reduction :: bool
  u_transcription_language :: string
  u_retention_days :: int
  u_password :: string \<comment> \<open>the hash\<close>
  u_email_verified :: bool
  u_created_at :: time
  u_day2_sent_at :: "time option"
  u_day7_sent_at :: "time option"

record organization =
  o_id :: string
  o_name :: string
  o_slug :: string
  o_plan :: string
  o_subscription_id :: "string option"
  o_customer_id :: "string option"
  o_retention_days :: int
  o_created_at :: time
  o_updated_at :: time

record membership =
  m_organization_id :: string
  m_user_id :: string
  m_role :: string
  m_joined_at :: time

record invite =
  i_id :: string
  i_organization_id :: string
  i_email :: string
  i_role :: string
  i_invited_by :: string
  i_token_hash :: string
  i_expires_at :: time
  i_accepted_at :: "time option"
  i_created_at :: time

record folder =
  f_id :: string
  f_user_id :: string
  f_organization_id :: "string option"
  f_name :: string
  f_position :: int
  f_created_at :: time

record tag =
  t_id :: string
  t_user_id :: string
  t_organization_id :: "string option"
  t_name :: string
  t_color :: "string option"
  t_created_at :: time

record playlist =
  p_id :: string
  p_user_id :: string
  p_title :: string
  p_description :: "string option"
  p_share_token :: "string option"
  p_is_shared :: bool
  p_share_password :: "string option"
  p_require_email :: bool
  p_position :: int
  p_created_at :: time
  p_updated_at :: time

record video_comment =
  c_id :: string
  c_video_id :: string
  c_user_id :: "string option"
  c_author_name :: string
  c_author_email :: string
  c_body :: string
  c_is_private :: bool
  c_video_timestamp :: "float64 option"
  c_created_at :: time

record playlist_video =
  pv_playlist_id :: string
  pv_video_id :: string
  pv_position :: int

record video_tag =
  vt_video_id :: string
  vt_tag_id :: string

record video_viewer =
  vv_video_id :: string
  vv_email :: string
  vv_viewer_hash :: string
  vv_created_at :: time

record creem_event =
  ce_event_id :: string
  ce_event_type :: string
  ce_user_id :: "string option"
  ce_created_at :: time

record refresh_token =
  rt_token_id :: string
  rt_user_id :: string
  rt_expires_at :: time
  rt_revoked :: bool

text \<open>A row of \<open>password_resets\<close> or of \<open>email_confirmations\<close>.\<close>

record mailed_token =
  mt_token_hash :: string
  mt_user_id :: string
  mt_expires_at :: time
  mt_used_at :: "time option"

record api_key =
  ak_id :: string
  ak_user_id :: string
  ak_key_hash :: string
  ak_name :: string
  ak_created_at :: time
  ak_last_used_at :: "time option"

record sso_config =
  sc_organization_id :: string
  sc_provider :: string
  sc_issuer_url :: "string option"
  sc_client_id :: "string option"
  sc_client_secret_encrypted :: "string option"
  sc_enforce_sso :: bool
  sc_saml_metadata_url :: "string option"
  sc_saml_entity_id :: "string option"
  sc_saml_sso_url :: "string option"
  sc_saml_certificate :: "string option"
  sc_saml_metadata_xml :: "string option"

record scim_token =
  st_organization_id :: string
  st_token_hash :: string
  st_created_at :: time

record external_identity =
  ei_user_id :: string
  ei_provider :: string
  ei_external_id :: string
  ei_email :: string
  ei_created_at :: time

text \<open>The configuration is a JSON object.\<close>

record integration_row =
  in_id :: string
  in_user_id :: string
  in_provider :: string
  in_config :: "string \<rightharpoonup> json"
  in_created_at :: time
  in_updated_at :: time

record branding_row =
  ub_user_id :: string
  ub_organization_id :: "string option"
  ub_branding :: branding

record notification_prefs =
  np_user_id :: string
  np_view_notification :: string
  np_slack_webhook_url :: "string option"
  np_webhook_url :: "string option"
  np_webhook_secret :: "string option"

record webhook_delivery =
  wd_user_id :: string
  wd_event :: string
  wd_payload :: string
  wd_status_code :: "int option"
  wd_response_body :: string
  wd_attempt :: int
  wd_created_at :: time

record video_view =
  vw_video_id :: string
  vw_viewer_hash :: string
  vw_referrer :: string
  vw_browser :: string
  vw_device :: string
  vw_country :: string
  vw_city :: string
  vw_created_at :: time

record view_milestone =
  vm_video_id :: string
  vm_viewer_hash :: string
  vm_milestone :: int
  vm_created_at :: time

record cta_click =
  cc_video_id :: string
  cc_viewer_hash :: string
  cc_created_at :: time

record segment_count =
  se_video_id :: string
  se_segment_index :: int
  se_watch_count :: int

subsection \<open>Jobs and calls on outside services\<close>

text \<open>One constructor per \<open>go func\<close> of the modelled code, with the values it captures.\<close>

datatype job =
    JobThumbnail string string string \<comment> \<open>video, file key, thumbnail key\<close>
  | JobTranscode string string string \<comment> \<open>video, file key, audio filter\<close>
  | JobNormalize string string string
  | JobProbe string string
  | JobComposite string string string string string \<comment> \<open>video, file, webcam, thumbnail key, content type\<close>
  | JobTrim string string string string float64 float64
  | JobRemoveSegments string string string string "segment_range list" int
  | JobDeleteFiles "string + string" string "string option" "string option" "string option"
      \<comment> \<open>mark purged by file key (\<open>Inl\<close>) or by id (\<open>Inr\<close>); file, thumbnail, webcam, transcript\<close>
  | JobWebhook string string string \<comment> \<open>user, event name, video\<close>
  | JobRecordViewer string string string \<comment> \<open>video, email, viewer hash\<close>
  | JobNotifyComment string string string string string bool
      \<comment> \<open>video, owner, share token, author, body, whether to mail\<close>
  | JobTouchApiKey string
  | JobRecordView video_view user string string string "string option"
      \<comment> \<open>the row, the owner, title, share token, viewer's user id, the video's notification mode\<close>
  | JobCtaClick string string \<comment> \<open>video, viewer hash\<close>
  | JobMilestone string string int
  | JobSegments string "int list"

text \<open>
  An issue as it is sent to a tracker (\<open>integration/github.go\<close>, \<open>jira.go\<close>): title and body, or project, summary,
  a description in the Atlassian document format and the type of issue.
\<close>

datatype adf =
    ADFDoc "adf list"
  | ADFParagraph "adf list"
  | ADFText string
  | ADFInlineCard string
  | ADFCodeBlock "adf list"

datatype issue_payload =
    GitHubIssue string string
  | JiraIssue string string adf string

datatype effect =
    StoreUpload string string \<comment> \<open>key, content type\<close>
  | StoreDelete string
  | StoreDownload string
  | EmailRetention string "(string \<times> string) list"
  | EmailInvite string string string string \<comment> \<open>to, organization, inviter, link\<close>
  | EmailReset string string \<comment> \<open>to, link\<close>
  | EmailConfirm string string
  | EmailWelcome string
  | BillingCancel string \<comment> \<open>subscription cancelled at the payment provider\<close>
  | BillingUpgrade string string
  | BillingCheckout string
  | WebhookPost string string string \<comment> \<open>url, body, signature\<close>
  | SlackTest string
  | SlackComment string string string string \<comment> \<open>to, title, author, body\<close>
  | SlackView string string
  | EmailComment string string string string
  | EmailView string string
  | EmailDigest string "(string \<times> nat \<times> nat \<times> string) list" \<comment> \<open>to; title, views, comments, link\<close>
  | EmailOnboarding nat string \<comment> \<open>the day, to\<close>
  | IssuePost string string issue_payload \<comment> \<open>url, \<open>Authorization\<close>, the issue\<close>

record world =
  now :: time
  faults :: "string option list"
  videos :: "video list"
  users :: "user list"
  organizations :: "organization list"
  members :: "membership list"
  invites :: "invite list"
  folders :: "folder list"
  tags :: "tag list"
  video_tags :: "video_tag list"
  playlist_videos :: "playlist_video list"
  video_viewers :: "video_viewer list"
  creem_events :: "creem_event list"
  playlists :: "playlist list"
  comments :: "video_comment list"
  refresh_tokens :: "refresh_token list"
  password_resets :: "mailed_token list"
  email_confirmations :: "mailed_token list"
  api_keys :: "api_key list"
  sso_configs :: "sso_config list"
  scim_tokens :: "scim_token list"
  external_identities :: "external_identity list"
  user_integrations :: "integration_row list"
  user_branding :: "branding_row list"
  notification_preferences :: "notification_prefs list"
  webhook_deliveries :: "webhook_delivery list"
  video_views :: "video_view list"
  view_milestones :: "view_milestone list"
  cta_clicks :: "cta_click list"
  segment_engagement :: "segment_count list"
  jobs :: "job list"
  effects :: "effect list"

definition empty_world :: "time \<Rightarrow> world" where
  "empty_world t = \<lparr>now = t, faults = [], videos = [], users = [], organizations = [], members = [],
     invites = [], folders = [], tags = [], video_tags = [], playlist_videos = [],
     video_viewers = [], creem_events = [], playlists = [], comments = [], refresh_tokens = [],
     password_resets = [], email_confirmations = [], api_keys = [], sso_configs = [], scim_tokens = [],
     external_identities = [], user_integrations = [], user_branding = [], notification_preferences = [], webhook_deliveries = [],
     video_views = [], view_milestones = [], cta_clicks = [], segment_engagement = [], jobs = [], effects = []\<rparr>"

type_synonym 'a prog = "(world, 'a) state"

subsection \<open>Responses\<close>

text \<open>
  \<open>httputil.WriteError\<close> (status and message), \<open>w.WriteHeader\<close> (status alone) and
  \<open>httputil.WriteJSON\<close> (status and body).
\<close>

datatype 'b response = WriteError int string | WriteHeader int | WriteJSON int 'b

fun status_code :: "'b response \<Rightarrow> int" where
  "status_code (WriteError c m) = c"
| "status_code (WriteHeader c) = c"
| "status_code (WriteJSON c b) = c"

text \<open>The request context: who calls, and in which workspace (\<open>''''\<close> for none).\<close>

record rctx =
  UserID :: string
  OrgID :: string
  OrgRole :: string

subsection \<open>Statements\<close>

datatype db_error = NoRows | UniqueViolation | DbFail string

fun db_error_text :: "db_error \<Rightarrow> string" where
  "db_error_text NoRows = ''no rows in result set''"
| "db_error_text UniqueViolation = ''duplicate key value violates unique constraint''"
| "db_error_text (DbFail msg) = msg"

definition modify :: "(world \<Rightarrow> world) \<Rightarrow> unit prog" where
  "modify f = State (\<lambda>w. ((), f w))"

definition next_fault :: "world \<Rightarrow> string option" where
  "next_fault w = (case faults w of [] \<Rightarrow> None | f # fs \<Rightarrow> f)"

definition tick :: "world \<Rightarrow> world" where
  "tick w = w\<lparr>faults := tl (faults w)\<rparr>"

definition call :: "string option prog" where
  "call = State (\<lambda>w. (next_fault w, tick w))"

definition db_stmt :: "(world \<Rightarrow> (db_error + 'a) \<times> world) \<Rightarrow> (db_error + 'a) prog" where
  "db_stmt f = do {
     e \<leftarrow> call;
     case e of
       Some msg \<Rightarrow> State_Monad.return (Inl (DbFail msg))
     | None \<Rightarrow> State f
   }"

definition select_row :: "(world \<Rightarrow> 'a option) \<Rightarrow> (db_error + 'a) prog" where
  "select_row q = db_stmt (\<lambda>w. (case q w of None \<Rightarrow> Inl NoRows | Some r \<Rightarrow> Inr r, w))"

definition select_rows :: "(world \<Rightarrow> 'a) \<Rightarrow> (db_error + 'a) prog" where
  "select_rows q = db_stmt (\<lambda>w. (Inr (q w), w))"

definition update_videos :: "(world \<Rightarrow> video \<Rightarrow> bool) \<Rightarrow> (world \<Rightarrow> video \<Rightarrow> video) \<Rightarrow> (db_error + nat) prog" where
  "update_videos P f = db_stmt (\<lambda>w.
     (Inr (count_where (P w) (videos w)), w\<lparr>videos := upd_where (P w) (f w) (videos w)\<rparr>))"

text \<open>\<open>UPDATE .. RETURNING\<close> read with \<open>QueryRow\<close>: the first updated row, as it is afterwards.\<close>

definition update_video_returning :: "(world \<Rightarrow> video \<Rightarrow> bool) \<Rightarrow> (world \<Rightarrow> video \<Rightarrow> video) \<Rightarrow> (db_error + video) prog" where
  "update_video_returning P f = db_stmt (\<lambda>w.
     (case find_where (P w) (videos w) of None \<Rightarrow> Inl NoRows | Some v \<Rightarrow> Inr (f w v),
      w\<lparr>videos := upd_where (P w) (f w) (videos w)\<rparr>))"

definition update_videos_returning :: "(world \<Rightarrow> video \<Rightarrow> bool) \<Rightarrow> (world \<Rightarrow> video \<Rightarrow> video) \<Rightarrow> (db_error + video list) prog" where
  "update_videos_returning P f = db_stmt (\<lambda>w.
     (Inr (map (f w) (filter (P w) (videos w))),
      w\<lparr>videos := upd_where (P w) (f w) (videos w)\<rparr>))"

text \<open>\<open>INSERT INTO videos .. RETURNING id\<close>: the primary key and the share token are unique.\<close>

definition insert_video :: "(world \<Rightarrow> video) \<Rightarrow> (db_error + string) prog" where
  "insert_video mk = db_stmt (\<lambda>w. let v = mk w in
     if v_id v \<in> v_id ` set (videos w) \<or> v_share_token v \<in> v_share_token ` set (videos w)
     then (Inl UniqueViolation, w)
     else (Inr (v_id v), w\<lparr>videos := videos w @ [v]\<rparr>))"

definition exec_world :: "(world \<Rightarrow> world) \<Rightarrow> (db_error + unit) prog" where
  "exec_world f = db_stmt (\<lambda>w. (Inr (), f w))"

definition spawn :: "job \<Rightarrow> unit prog" where
  "spawn j = modify (\<lambda>w. w\<lparr>jobs := jobs w @ [j]\<rparr>)"

text \<open>A call on an outside service: recorded when it succeeds.\<close>

definition service :: "effect \<Rightarrow> string option prog" where
  "service eff = do {
     e \<leftarrow> call;
     case e of
       Some msg \<Rightarrow> State_Monad.return (Some msg)
     | None \<Rightarrow> do { modify (\<lambda>w. w\<lparr>effects := effects w @ [eff]\<rparr>); State_Monad.return None }
   }"

definition row_of :: "(db_error + 'a) \<Rightarrow> 'a option" where
  "row_of r = (case r of Inl _ \<Rightarrow> None | Inr x \<Rightarrow> Some x)"

subsection \<open>Runs\<close>

lemma tick_fields [simp]:
  "now (tick w) = now w" "videos (tick w) = videos w" "users (tick w) = users w"
  "organizations (tick w) = organizations w" "members (tick w) = members w"
  "invites (tick w) = invites w" "folders (tick w) = folders w" "tags (tick w) = tags w"
  "video_tags (tick w) = video_tags w" "playlist_videos (tick w) = playlist_videos w"
  "video_viewers (tick w) = video_viewers w" "creem_events (tick w) = creem_events w"
  "playlists (tick w) = playlists w" "comments (tick w) = comments w"
  "refresh_tokens (tick w) = refresh_tokens w" "password_resets (tick w) = password_resets w"
  "email_confirmations (tick w) = email_confirmations w" "api_keys (tick w) = api_keys w"
  "sso_configs (tick w) = sso_configs w" "scim_tokens (tick w) = scim_tokens w"
  "external_identities (tick w) = external_identities w" "user_integrations (tick w) = user_integrations w" "user_branding (tick w) = user_branding w"
  "notification_preferences (tick w) = notification_preferences w"
  "webhook_deliveries (tick w) = webhook_deliveries w" "video_views (tick w) = video_views w"
  "view_milestones (tick w) = view_milestones w" "cta_clicks (tick w) = cta_clicks w"
  "segment_engagement (tick w) = segment_engagement w"
  "jobs (tick w) = jobs w" "effects (tick w) = effects w"
  by (simp_all add: tick_def)

lemma run_modify [run_simps]: "run_state (modify f) w = ((), f w)"
  by (simp add: modify_def)

lemma run_call [run_simps]: "run_state call w = (next_fault w, tick w)"
  by (simp add: call_def)

lemma run_db_stmt:
  "run_state (db_stmt f) w =
     (case next_fault w of Some msg \<Rightarrow> (Inl (DbFail msg), tick w) | None \<Rightarrow> f (tick w))"
  by (simp add: db_stmt_def run_simps split: option.split)

lemma run_select_row [run_simps]:
  "run_state (select_row q) w =
     (case next_fault w of Some msg \<Rightarrow> (Inl (DbFail msg), tick w)
      | None \<Rightarrow> (case q (tick w) of None \<Rightarrow> Inl NoRows | Some r \<Rightarrow> Inr r, tick w))"
  by (simp add: select_row_def run_db_stmt)

lemma run_select_rows [run_simps]:
  "run_state (select_rows q) w =
     (case next_fault w of Some msg \<Rightarrow> (Inl (DbFail msg), tick w) | None \<Rightarrow> (Inr (q (tick w)), tick w))"
  by (simp add: select_rows_def run_db_stmt)

lemma run_update_videos [run_simps]:
  "run_state (update_videos P f) w =
     (case next_fault w of Some msg \<Rightarrow> (Inl (DbFail msg), tick w)
      | None \<Rightarrow> (Inr (count_where (P (tick w)) (videos w)),
          (tick w)\<lparr>videos := upd_where (P (tick w)) (f (tick w)) (videos w)\<rparr>))"
  by (simp add: update_videos_def run_db_stmt split: option.split)

lemma run_update_video_returning [run_simps]:
  "run_state (update_video_returning P f) w =
     (case next_fault w of Some msg \<Rightarrow> (Inl (DbFail msg), tick w)
      | None \<Rightarrow> (case find_where (P (tick w)) (videos w) of None \<Rightarrow> Inl NoRows | Some v \<Rightarrow> Inr (f (tick w) v),
          (tick w)\<lparr>videos := upd_where (P (tick w)) (f (tick w)) (videos w)\<rparr>))"
  by (simp add: update_video_returning_def run_db_stmt split: option.split)

lemma run_update_videos_returning [run_simps]:
  "run_state (update_videos_returning P f) w =
     (case next_fault w of Some msg \<Rightarrow> (Inl (DbFail msg), tick w)
      | None \<Rightarrow> (Inr (map (f (tick w)) (filter (P (tick w)) (videos w))),
          (tick w)\<lparr>videos := upd_where (P (tick w)) (f (tick w)) (videos w)\<rparr>))"
  by (simp add: update_videos_returning_def run_db_stmt split: option.split)

lemma run_insert_video [run_simps]:
  "run_state (insert_video mk) w =
     (case next_fault w of Some msg \<Rightarrow> (Inl (DbFail msg), tick w)
      | None \<Rightarrow> (let v = mk (tick w) in
          if v_id v \<in> v_id ` set (videos w) \<or> v_share_token v \<in> v_share_token ` set (videos w)
          then (Inl UniqueViolation, tick w)
          else (Inr (v_id v), (tick w)\<lparr>videos := videos w @ [v]\<rparr>)))"
  by (simp add: insert_video_def run_db_stmt Let_def split: option.split)

lemma run_exec_world [run_simps]:
  "run_state (exec_world f) w =
     (case next_fault w of Some msg \<Rightarrow> (Inl (DbFail msg), tick w) | None \<Rightarrow> (Inr (), f (tick w)))"
  by (simp add: exec_world_def run_db_stmt)

lemma run_spawn [run_simps]: "run_state (spawn j) w = ((), w\<lparr>jobs := jobs w @ [j]\<rparr>)"
  by (simp add: spawn_def run_simps)

lemma run_service [run_simps]:
  "run_state (service e) w =
     (case next_fault w of Some msg \<Rightarrow> (Some msg, tick w)
      | None \<Rightarrow> (None, (tick w)\<lparr>effects := effects w @ [e]\<rparr>))"
  by (simp add: service_def run_simps split: option.split)

text \<open>Without faults nothing fails; a concrete run is evaluated with these.\<close>

lemma no_faults [simp]: "faults w = [] \<Longrightarrow> next_fault w = None" "faults w = [] \<Longrightarrow> tick w = w"
  by (simp_all add: next_fault_def tick_def)

subsection \<open>Weakest preconditions\<close>

text \<open>
  \<open>wp m Q w\<close>: the run of \<open>m\<close> from \<open>w\<close> ends in a result and a state that satisfy \<open>Q\<close>. The rules
  walk through a handler in the order of its text; a branch that answers with an error is closed
  by the postcondition as soon as it is met.
\<close>

definition wp :: "'a prog \<Rightarrow> ('a \<Rightarrow> world \<Rightarrow> bool) \<Rightarrow> world \<Rightarrow> bool" where
  "wp m Q w = (case run_state m w of (r, w') \<Rightarrow> Q r w')"

lemma wpI: "wp m Q w \<Longrightarrow> run_state m w = (r, w') \<Longrightarrow> Q r w'"
  by (simp add: wp_def)

lemma wp_run: "(\<And>r w'. run_state m w = (r, w') \<Longrightarrow> Q r w') \<Longrightarrow> wp m Q w"
  by (cases "run_state m w") (simp add: wp_def)

lemma wp_return [simp]: "wp (State_Monad.return x) Q w = Q x w"
  by (simp add: wp_def)

lemma wp_return_eta: "wp (State_Monad.return x) Q = Q x"
  by (simp add: fun_eq_iff)

lemma wp_get [simp]: "wp State_Monad.get Q w = Q w w"
  by (simp add: wp_def run_state_get)

lemma wp_bind [simp]: "wp (State_Monad.bind m f) Q w = wp m (\<lambda>x. wp (f x) Q) w"
  by (simp add: wp_def split: prod.split)

lemma wp_if [simp]: "wp (if b then m else n) Q w = (if b then wp m Q w else wp n Q w)"
  by simp

lemma wp_case_option [simp]:
  "wp (case x of None \<Rightarrow> m | Some y \<Rightarrow> f y) Q w = (case x of None \<Rightarrow> wp m Q w | Some y \<Rightarrow> wp (f y) Q w)"
  by (cases x) simp_all

lemma wp_case_sum [simp]:
  "wp (case x of Inl e \<Rightarrow> f e | Inr y \<Rightarrow> g y) Q w = (case x of Inl e \<Rightarrow> wp (f e) Q w | Inr y \<Rightarrow> wp (g y) Q w)"
  by (cases x) simp_all

lemma wp_modify [simp]: "wp (modify f) Q w = Q () (f w)"
  by (simp add: wp_def run_simps)

lemma wp_call [simp]: "wp call Q w = Q (next_fault w) (tick w)"
  by (simp add: wp_def run_simps)

lemma wp_db_stmt [simp]:
  "wp (db_stmt f) Q w = (case next_fault w of Some msg \<Rightarrow> Q (Inl (DbFail msg)) (tick w)
     | None \<Rightarrow> (case f (tick w) of (r, w') \<Rightarrow> Q r w'))"
  by (simp add: wp_def run_db_stmt split: option.split)

lemma wp_select_row [simp]:
  "wp (select_row q) Q w =
     (case next_fault w of Some msg \<Rightarrow> Q (Inl (DbFail msg)) (tick w)
      | None \<Rightarrow> (case q (tick w) of None \<Rightarrow> Q (Inl NoRows) (tick w) | Some r \<Rightarrow> Q (Inr r) (tick w)))"
  by (simp add: wp_def run_simps split: option.split)

lemma wp_select_rows [simp]:
  "wp (select_rows q) Q w =
     (case next_fault w of Some msg \<Rightarrow> Q (Inl (DbFail msg)) (tick w) | None \<Rightarrow> Q (Inr (q (tick w))) (tick w))"
  by (simp add: wp_def run_simps split: option.split)

lemma wp_update_videos [simp]:
  "wp (update_videos P f) Q w =
     (case next_fault w of Some msg \<Rightarrow> Q (Inl (DbFail msg)) (tick w)
      | None \<Rightarrow> Q (Inr (count_where (P (tick w)) (videos w)))
          ((tick w)\<lparr>videos := upd_where (P (tick w)) (f (tick w)) (videos w)\<rparr>))"
  by (simp add: wp_def run_simps split: option.split)

lemma wp_update_video_returning [simp]:
  "wp (update_video_returning P f) Q w =
     (case next_fault w of Some msg \<Rightarrow> Q (Inl (DbFail msg)) (tick w)
      | None \<Rightarrow> (case find_where (P (tick w)) (videos w) of
            None \<Rightarrow> Q (Inl NoRows) ((tick w)\<lparr>videos := upd_where (P (tick w)) (f (tick w)) (videos w)\<rparr>)
          | Some v \<Rightarrow> Q (Inr (f (tick w) v)) ((tick w)\<lparr>videos := upd_where (P (tick w)) (f (tick w)) (videos w)\<rparr>)))"
  by (simp add: wp_def run_simps split: option.split)

lemma wp_update_videos_returning [simp]:
  "wp (update_videos_returning P f) Q w =
     (case next_fault w of Some msg \<Rightarrow> Q (Inl (DbFail msg)) (tick w)
      | None \<Rightarrow> Q (Inr (map (f (tick w)) (filter (P (tick w)) (videos w))))
          ((tick w)\<lparr>videos := upd_where (P (tick w)) (f (tick w)) (videos w)\<rparr>))"
  by (simp add: wp_def run_simps split: option.split)

lemma wp_insert_video [simp]:
  "wp (insert_video mk) Q w =
     (case next_fault w of Some msg \<Rightarrow> Q (Inl (DbFail msg)) (tick w)
      | None \<Rightarrow> (if v_id (mk (tick w)) \<in> v_id ` set (videos w) \<or>
            v_share_token (mk (tick w)) \<in> v_share_token ` set (videos w)
          then Q (Inl UniqueViolation) (tick w)
          else Q (Inr (v_id (mk (tick w)))) ((tick w)\<lparr>videos := videos w @ [mk (tick w)]\<rparr>)))"
  by (simp add: wp_def run_simps Let_def split: option.split)

lemma wp_exec_world [simp]:
  "wp (exec_world f) Q w =
     (case next_fault w of Some msg \<Rightarrow> Q (Inl (DbFail msg)) (tick w) | None \<Rightarrow> Q (Inr ()) (f (tick w)))"
  by (simp add: wp_def run_simps split: option.split)

lemma wp_spawn [simp]: "wp (spawn j) Q w = Q () (w\<lparr>jobs := jobs w @ [j]\<rparr>)"
  by (simp add: wp_def run_simps)

lemma wp_service [simp]:
  "wp (service e) Q w =
     (case next_fault w of Some msg \<Rightarrow> Q (Some msg) (tick w)
      | None \<Rightarrow> Q None ((tick w)\<lparr>effects := effects w @ [e]\<rparr>))"
  by (simp add: wp_def run_simps split: option.split)

lemma wp_mono: "wp m P w \<Longrightarrow> (\<And>r w'. P r w' \<Longrightarrow> Q r w') \<Longrightarrow> wp m Q w"
  by (auto simp: wp_def split: prod.splits)

lemma wp_cong_run: "run_state m w = (r, w') \<Longrightarrow> wp m Q w = Q r w'"
  by (simp add: wp_def)

lemma wp_io_rel: "state_io_rel R m \<longleftrightarrow> (\<forall>w. wp m (\<lambda>_. R w) w)"
  by (simp add: state_io_rel_def wp_def case_prod_beta)

lemma wp_conj: "wp m P w \<Longrightarrow> wp m Q w \<Longrightarrow> wp m (\<lambda>r w'. P r w' \<and> Q r w') w"
  by (auto simp: wp_def)

lemma preserves_wp: "preserves I m \<longleftrightarrow> (\<forall>w. I w \<longrightarrow> wp m (\<lambda>_. I) w)"
  by (simp add: preserves_def wp_def split_beta)

lemma wp_preserves: "preserves I m \<Longrightarrow> I w \<Longrightarrow> (\<And>r t. I t \<Longrightarrow> Q r t) \<Longrightarrow> wp m Q w"
  unfolding preserves_wp by (blast intro: wp_mono)

lemma wp_rel: "state_io_rel R m \<Longrightarrow> wp m (\<lambda>_ w'. R w w') w"
  by (simp add: wp_io_rel)

text \<open>
  The same rules for \<open>intro\<close>: a proof about a handler walks through its text with \<open>wp_walk\<close> and is
  left with one goal for each \<open>return\<close>, whose premises are the path to it.
\<close>

lemma wp_ifI: "(b \<Longrightarrow> wp m Q w) \<Longrightarrow> (\<not> b \<Longrightarrow> wp n Q w) \<Longrightarrow> wp (if b then m else n) Q w"
  by simp

lemma wp_letI: "(\<And>x. x = a \<Longrightarrow> wp (f x) Q w) \<Longrightarrow> wp (let x = a in f x) Q w"
  by simp

lemma wp_case_pairI: "(\<And>x y. p = (x, y) \<Longrightarrow> wp (f x y) Q w) \<Longrightarrow> wp (case p of (x, y) \<Rightarrow> f x y) Q w"
  by (cases p) simp

lemma wp_case_sumI:
  "(\<And>e. x = Inl e \<Longrightarrow> wp (f e) Q w) \<Longrightarrow> (\<And>y. x = Inr y \<Longrightarrow> wp (g y) Q w)
   \<Longrightarrow> wp (case x of Inl e \<Rightarrow> f e | Inr y \<Rightarrow> g y) Q w"
  by (cases x) simp_all

lemma wp_case_optionI:
  "(x = None \<Longrightarrow> wp f Q w) \<Longrightarrow> (\<And>y. x = Some y \<Longrightarrow> wp (g y) Q w)
   \<Longrightarrow> wp (case x of None \<Rightarrow> f | Some y \<Rightarrow> g y) Q w"
  by (cases x) simp_all

lemma wp_case_known:
  "wp (f e) Q w \<Longrightarrow> wp (case Inl e of Inl e \<Rightarrow> f e | Inr y \<Rightarrow> g y) Q w"
  "wp (g y) Q w \<Longrightarrow> wp (case Inr y of Inl e \<Rightarrow> f e | Inr y \<Rightarrow> g y) Q w"
  "wp m Q w \<Longrightarrow> wp (case None of None \<Rightarrow> m | Some y \<Rightarrow> k y) Q w"
  "wp (k y) Q w \<Longrightarrow> wp (case Some y of None \<Rightarrow> m | Some y \<Rightarrow> k y) Q w"
  by simp_all

lemma wp_callI:
  "(\<And>m. next_fault w = Some m \<Longrightarrow> Q (Some m) (tick w)) \<Longrightarrow> (next_fault w = None \<Longrightarrow> Q None (tick w))
   \<Longrightarrow> wp call Q w"
  by (cases "next_fault w") simp_all

lemma wp_db_stmtI:
  "(\<And>m. next_fault w = Some m \<Longrightarrow> Q (Inl (DbFail m)) (tick w)) \<Longrightarrow>
   (\<And>r w'. next_fault w = None \<Longrightarrow> f (tick w) = (r, w') \<Longrightarrow> Q r w') \<Longrightarrow> wp (db_stmt f) Q w"
  by (simp split: option.split prod.split)

lemma wp_serviceI:
  "(\<And>m. next_fault w = Some m \<Longrightarrow> Q (Some m) (tick w)) \<Longrightarrow>
   (next_fault w = None \<Longrightarrow> Q None ((tick w)\<lparr>effects := effects w @ [e]\<rparr>)) \<Longrightarrow> wp (service e) Q w"
  by (simp split: option.split)

lemma wp_select_rowI:
  "(\<And>m. next_fault w = Some m \<Longrightarrow> Q (Inl (DbFail m)) (tick w)) \<Longrightarrow>
   (next_fault w = None \<Longrightarrow> q (tick w) = None \<Longrightarrow> Q (Inl NoRows) (tick w)) \<Longrightarrow>
   (\<And>r. next_fault w = None \<Longrightarrow> q (tick w) = Some r \<Longrightarrow> Q (Inr r) (tick w)) \<Longrightarrow> wp (select_row q) Q w"
  by (simp split: option.split)

lemma wp_select_rowsI:
  "(\<And>m. next_fault w = Some m \<Longrightarrow> Q (Inl (DbFail m)) (tick w)) \<Longrightarrow>
   (\<And>r. next_fault w = None \<Longrightarrow> r = q (tick w) \<Longrightarrow> Q (Inr r) (tick w)) \<Longrightarrow> wp (select_rows q) Q w"
  by (simp split: option.split)

lemma wp_insert_videoI:
  "(\<And>m. next_fault w = Some m \<Longrightarrow> Q (Inl (DbFail m)) (tick w)) \<Longrightarrow>
   (next_fault w = None \<Longrightarrow> Q (Inl UniqueViolation) (tick w)) \<Longrightarrow>
   (\<And>v. next_fault w = None \<Longrightarrow> v = mk (tick w) \<Longrightarrow> v_id v \<notin> v_id ` set (videos w) \<Longrightarrow>
      v_share_token v \<notin> v_share_token ` set (videos w) \<Longrightarrow>
      Q (Inr (v_id v)) ((tick w)\<lparr>videos := videos w @ [v]\<rparr>)) \<Longrightarrow> wp (insert_video mk) Q w"
  by (simp split: option.split)

lemma wp_update_videosI:
  "(\<And>m. next_fault w = Some m \<Longrightarrow> Q (Inl (DbFail m)) (tick w)) \<Longrightarrow>
   (\<And>n. next_fault w = None \<Longrightarrow> n = count_where (P (tick w)) (videos w) \<Longrightarrow>
      Q (Inr n) ((tick w)\<lparr>videos := upd_where (P (tick w)) (f (tick w)) (videos w)\<rparr>))
   \<Longrightarrow> wp (update_videos P f) Q w"
  by (simp split: option.split)

lemma wp_update_video_returningI:
  "(\<And>m. next_fault w = Some m \<Longrightarrow> Q (Inl (DbFail m)) (tick w)) \<Longrightarrow>
   (next_fault w = None \<Longrightarrow> find_where (P (tick w)) (videos w) = None \<Longrightarrow>
      Q (Inl NoRows) ((tick w)\<lparr>videos := upd_where (P (tick w)) (f (tick w)) (videos w)\<rparr>)) \<Longrightarrow>
   (\<And>v. next_fault w = None \<Longrightarrow> find_where (P (tick w)) (videos w) = Some v \<Longrightarrow>
      Q (Inr (f (tick w) v)) ((tick w)\<lparr>videos := upd_where (P (tick w)) (f (tick w)) (videos w)\<rparr>))
   \<Longrightarrow> wp (update_video_returning P f) Q w"
  by (simp split: option.split)

lemma wp_update_videos_returningI:
  "(\<And>m. next_fault w = Some m \<Longrightarrow> Q (Inl (DbFail m)) (tick w)) \<Longrightarrow>
   (\<And>vs. next_fault w = None \<Longrightarrow> vs = map (f (tick w)) (filter (P (tick w)) (videos w)) \<Longrightarrow>
      Q (Inr vs) ((tick w)\<lparr>videos := upd_where (P (tick w)) (f (tick w)) (videos w)\<rparr>))
   \<Longrightarrow> wp (update_videos_returning P f) Q w"
  by (simp split: option.split)

lemma wp_exec_worldI:
  "(\<And>m. next_fault w = Some m \<Longrightarrow> Q (Inl (DbFail m)) (tick w)) \<Longrightarrow>
   (next_fault w = None \<Longrightarrow> Q (Inr ()) (f (tick w))) \<Longrightarrow> wp (exec_world f) Q w"
  by (simp split: option.split)

lemmas wp_walk = wp_return [THEN iffD2] wp_bind [THEN iffD2] wp_ifI wp_letI wp_case_pairI wp_case_known
  wp_case_sumI wp_case_optionI wp_callI wp_db_stmtI wp_modify [THEN iffD2] wp_spawn [THEN iffD2] wp_serviceI
  wp_select_rowI wp_select_rowsI wp_insert_videoI wp_update_videosI wp_update_video_returningI
  wp_update_videos_returningI wp_exec_worldI

text \<open>
  \<open>wp_steps\<close>: the same walk for a property that holds whatever fails. Every call may then fail, so
  its premises do not mention \<open>faults\<close>.
\<close>

lemma wp_call_any: "(\<And>e. Q e (tick w)) \<Longrightarrow> wp call Q w"
  by simp

lemma wp_service_any:
  "(\<And>m. Q (Some m) (tick w)) \<Longrightarrow> Q None ((tick w)\<lparr>effects := effects w @ [e]\<rparr>) \<Longrightarrow> wp (service e) Q w"
  by (simp split: option.split)

lemma wp_db_stmt_any:
  "(\<And>m. Q (Inl (DbFail m)) (tick w)) \<Longrightarrow> (\<And>r w'. f (tick w) = (r, w') \<Longrightarrow> Q r w') \<Longrightarrow> wp (db_stmt f) Q w"
  by (simp split: option.split prod.split)

lemma wp_select_row_any:
  "(\<And>e. Q (Inl e) (tick w)) \<Longrightarrow> (\<And>r. q (tick w) = Some r \<Longrightarrow> Q (Inr r) (tick w)) \<Longrightarrow> wp (select_row q) Q w"
  by (simp split: option.split)

lemma wp_select_rows_any:
  "(\<And>e. Q (Inl e) (tick w)) \<Longrightarrow> (\<And>r. r = q (tick w) \<Longrightarrow> Q (Inr r) (tick w)) \<Longrightarrow> wp (select_rows q) Q w"
  by (simp split: option.split)

lemma wp_insert_video_any:
  "(\<And>e. Q (Inl e) (tick w)) \<Longrightarrow>
   (\<And>v. v = mk (tick w) \<Longrightarrow> v_id v \<notin> v_id ` set (videos w) \<Longrightarrow>
      v_share_token v \<notin> v_share_token ` set (videos w) \<Longrightarrow>
      Q (Inr (v_id v)) ((tick w)\<lparr>videos := videos w @ [v]\<rparr>)) \<Longrightarrow> wp (insert_video mk) Q w"
  by (simp split: option.split)

lemma wp_update_videos_any:
  "(\<And>e. Q (Inl e) (tick w)) \<Longrightarrow>
   (\<And>n. n = count_where (P (tick w)) (videos w) \<Longrightarrow>
      Q (Inr n) ((tick w)\<lparr>videos := upd_where (P (tick w)) (f (tick w)) (videos w)\<rparr>))
   \<Longrightarrow> wp (update_videos P f) Q w"
  by (simp split: option.split)

lemma tick_videos [simp]: "(tick w)\<lparr>videos := videos w\<rparr> = tick w"
  by (cases w) (simp add: tick_def)

lemma wp_update_video_returning_any:
  "(\<And>m. Q (Inl (DbFail m)) (tick w)) \<Longrightarrow>
   (find_where (P (tick w)) (videos w) = None \<Longrightarrow> Q (Inl NoRows) (tick w)) \<Longrightarrow>
   (\<And>v. find_where (P (tick w)) (videos w) = Some v \<Longrightarrow>
      Q (Inr (f (tick w) v)) ((tick w)\<lparr>videos := upd_where (P (tick w)) (f (tick w)) (videos w)\<rparr>))
   \<Longrightarrow> wp (update_video_returning P f) Q w"
  by (auto simp: upd_where_none find_where_None split: option.split)

lemma wp_update_videos_returning_any:
  "(\<And>e. Q (Inl e) (tick w)) \<Longrightarrow>
   (\<And>vs. vs = map (f (tick w)) (filter (P (tick w)) (videos w)) \<Longrightarrow>
      Q (Inr vs) ((tick w)\<lparr>videos := upd_where (P (tick w)) (f (tick w)) (videos w)\<rparr>))
   \<Longrightarrow> wp (update_videos_returning P f) Q w"
  by (simp split: option.split)

lemma wp_exec_world_any:
  "(\<And>e. Q (Inl e) (tick w)) \<Longrightarrow> Q (Inr ()) (f (tick w)) \<Longrightarrow> wp (exec_world f) Q w"
  by (simp split: option.split)

lemmas wp_steps = wp_return [THEN iffD2] wp_bind [THEN iffD2] wp_ifI wp_letI wp_case_pairI wp_case_known
  wp_case_sumI wp_case_optionI wp_call_any wp_db_stmt_any wp_modify [THEN iffD2] wp_spawn [THEN iffD2]
  wp_service_any wp_select_row_any wp_select_rows_any wp_insert_video_any wp_update_videos_any
  wp_update_video_returning_any wp_update_videos_returning_any wp_exec_world_any

text \<open>The splits a walk needs: the outcome of each call, each guard of the code.\<close>

lemmas wp_splits = option.split sum.split prod.split if_split

subsection \<open>What a handler may do to the videos table\<close>

text \<open>
  The contract a statement-by-statement walk through a handler establishes: \<open>Q\<close> relates every
  row before with the same row after. It only has to be checked at the \<open>UPDATE\<close>s; everything
  else in a handler keeps the table.
\<close>

locale video_relation =
  fixes Q :: "video \<Rightarrow> video \<Rightarrow> bool"
  assumes Q_refl: "Q v v"
    and Q_trans: "Q a b \<Longrightarrow> Q b c \<Longrightarrow> Q a c"
begin

abbreviation R :: "world \<Rightarrow> world \<Rightarrow> bool" where
  "R w t \<equiv> rows_rel Q (videos w) (videos t)"

sublocale step_relation R
  by unfold_locales (auto intro: rows_rel_refl Q_refl rows_rel_trans [OF Q_trans])

lemma keeps: "(\<And>w. videos (snd (run_state m w)) = videos w) \<Longrightarrow> state_io_rel R m"
  by (simp add: state_io_rel_def rows_rel_refl Q_refl)

lemma call: "state_io_rel R call"
  by (rule keeps) (simp add: run_simps)

lemma select: "state_io_rel R (select_row q)" "state_io_rel R (select_rows q')"
  by (rule keeps, simp add: run_simps split: option.split)+

lemma modify: "(\<And>w. videos (f w) = videos w) \<Longrightarrow> state_io_rel R (modify f)"
  by (rule keeps) (simp add: run_simps)

lemma stmt: "(\<And>w. videos (snd (f w)) = videos w) \<Longrightarrow> state_io_rel R (db_stmt f)"
  by (rule keeps) (simp add: run_db_stmt split: option.split)

lemma exec: "(\<And>w. videos (f w) = videos w) \<Longrightarrow> state_io_rel R (exec_world f)"
  by (rule keeps) (simp add: run_simps split: option.split)

lemma spawn: "state_io_rel R (spawn j)"
  by (rule keeps) (simp add: run_simps)

lemma service: "state_io_rel R (service e)"
  by (rule keeps) (simp add: run_simps split: option.split)

lemma insert: "state_io_rel R (insert_video mk)"
  by (auto simp: state_io_rel_def run_simps Let_def Q_refl rows_rel_refl rows_rel_append split: option.split)

lemma update:
  assumes "\<And>w v. v \<in> set (videos w) \<Longrightarrow> P w v \<Longrightarrow> Q v (f w v)"
  shows "state_io_rel R (update_videos P f)"
    and "state_io_rel R (update_video_returning P f)"
    and "state_io_rel R (update_videos_returning P f)"
  using assms
  by (auto simp: state_io_rel_def run_simps Q_refl rows_rel_refl split: option.split
      intro!: rows_rel_upd)

lemmas walk_all = walk call select spawn service insert update exec modify stmt

end

subsection \<open>Invariants of the rows\<close>

text \<open>
  The contract for a property \<open>I\<close> of single rows: a handler keeps it when its inserts establish it and
  its updates keep it.
\<close>

locale row_invariant =
  fixes I :: "video \<Rightarrow> bool"
begin

abbreviation all_rows :: "world \<Rightarrow> world \<Rightarrow> bool" where
  "all_rows w t \<equiv> list_all I (videos w) \<longrightarrow> list_all I (videos t)"

sublocale step_relation all_rows
  by unfold_locales auto

lemma keeps: "(\<And>w. videos (snd (run_state m w)) = videos w) \<Longrightarrow> state_io_rel all_rows m"
  by (simp add: state_io_rel_def)

lemma others:
  "state_io_rel all_rows State_Monad.get"
  "state_io_rel all_rows call" "state_io_rel all_rows (select_row q)" "state_io_rel all_rows (select_rows q')"
  "state_io_rel all_rows (spawn j)" "state_io_rel all_rows (service e)"
  by (rule keeps, simp add: run_simps split: option.split)+

lemma modify: "(\<And>w. videos (f w) = videos w) \<Longrightarrow> state_io_rel all_rows (modify f)"
  by (rule keeps) (simp add: run_simps)

lemma exec: "(\<And>w. videos (f w) = videos w) \<Longrightarrow> state_io_rel all_rows (exec_world f)"
  by (rule keeps) (simp add: run_simps split: option.split)

lemma stmt: "(\<And>w. videos (snd (f w)) = videos w) \<Longrightarrow> state_io_rel all_rows (db_stmt f)"
  by (rule keeps) (simp add: run_db_stmt split: option.split)

lemma insert: "(\<And>w. I (mk w)) \<Longrightarrow> state_io_rel all_rows (insert_video mk)"
  by (auto simp: state_io_rel_def run_simps Let_def split: option.split)

lemma update:
  assumes "\<And>w v. P w v \<Longrightarrow> I v \<Longrightarrow> I (f w v)"
  shows "state_io_rel all_rows (update_videos P f)"
    and "state_io_rel all_rows (update_video_returning P f)"
    and "state_io_rel all_rows (update_videos_returning P f)"
  using assms
  by (auto simp: state_io_rel_def run_simps upd_where_def list_all_iff split: option.split)

lemmas walk_all = walk others modify exec stmt insert update

end

end
