(* ===== verification/Policy.thy ===== *)
theory Policy
  imports World
begin

text \<open>
  The rules shared by all handlers: plans (\<open>internal/plans\<close>), roles
  (\<open>internal/organization/role.go\<close>), field limits (\<open>internal/validate\<close>), and the scope of a
  caller over the videos (\<open>orgVideoFilter\<close>).
\<close>

subsection \<open>Plans\<close>

definition Rank :: "string \<Rightarrow> int" where
  "Rank plan = (if plan = ''business'' then 2 else if plan = ''pro'' then 1 else 0)"

definition IsPaid :: "string \<Rightarrow> bool" where
  "IsPaid plan \<longleftrightarrow> Rank plan > 0"

record free_plan =
  MaxVideosPerMonth :: int
  MaxVideoDurationSeconds :: int
  MaxPlaylists :: int
  MaxOrgsOwned :: int
  MaxOrgMembers :: int

text \<open>The values of \<open>internal/plans/free.json\<close>, embedded at build time.\<close>

definition Free :: free_plan where
  "Free = \<lparr>MaxVideosPerMonth = 25, MaxVideoDurationSeconds = 300, MaxPlaylists = 3,
     MaxOrgsOwned = 1, MaxOrgMembers = 3\<rparr>"

subsection \<open>Roles\<close>

definition IsAdminOrOwner :: "string \<Rightarrow> bool" where
  "IsAdminOrOwner role \<longleftrightarrow> role = ''owner'' \<or> role = ''admin''"

subsection \<open>Field limits\<close>

text \<open>The empty message means valid.\<close>

definition checkLen :: "string \<Rightarrow> nat \<Rightarrow> string \<Rightarrow> string" where
  "checkLen value mx field =
     (if length value > mx then field @ '' must be '' @ itoa (int mx) @ '' characters or fewer'' else [])"

definition validate_Title :: "string \<Rightarrow> string" where
  "validate_Title s = checkLen s 500 ''title''"

definition validate_Name :: "string \<Rightarrow> string" where
  "validate_Name s = checkLen s 100 ''name''"

definition validate_PlaylistTitle :: "string \<Rightarrow> string" where
  "validate_PlaylistTitle s = checkLen s 200 ''playlist title''"

definition validate_PlaylistDescription :: "string \<Rightarrow> string" where
  "validate_PlaylistDescription s = checkLen s 2000 ''playlist description''"

definition validate_FolderName :: "string \<Rightarrow> string" where
  "validate_FolderName s = checkLen s 100 ''folder name''"

definition validate_TagName :: "string \<Rightarrow> string" where
  "validate_TagName s = checkLen s 50 ''tag name''"

definition validate_CommentBody :: "string \<Rightarrow> string" where
  "validate_CommentBody s = checkLen s 5000 ''comment''"

definition validate_APIKeyName :: "string \<Rightarrow> string" where
  "validate_APIKeyName s = checkLen s 100 ''API key name''"

definition validate_CompanyName :: "string \<Rightarrow> string" where
  "validate_CompanyName s = checkLen s 200 ''company name''"

definition validate_FooterText :: "string \<Rightarrow> string" where
  "validate_FooterText s = checkLen s 500 ''footer text''"

definition validate_CustomCSS :: "string \<Rightarrow> string" where
  "validate_CustomCSS s = checkLen s (10 * 1024) ''custom CSS''"

definition validate_SlackWebhookURL :: "string \<Rightarrow> string" where
  "validate_SlackWebhookURL s = checkLen s 500 ''Slack webhook URL''"

definition validate_WebhookURL :: "string \<Rightarrow> string" where
  "validate_WebhookURL s = checkLen s 500 ''webhook URL''"

definition validate_OrgName :: "string \<Rightarrow> string" where
  "validate_OrgName s = checkLen s 200 ''organization name''"

definition validate_OrgSlug :: "string \<Rightarrow> string" where
  "validate_OrgSlug s = checkLen s 100 ''organization slug''"

definition validate_RetentionDays :: "int \<Rightarrow> string" where
  "validate_RetentionDays d = (if d \<in> {0, 30, 60, 90, 180, 365} then []
     else ''invalid retention days: must be 0, 30, 60, 90, 180, or 365'')"

definition validate_Password :: "string \<Rightarrow> string" where
  "validate_Password s = (if length s < 8 then ''password must be at least 8 characters''
     else if 72 < length s then ''password must be at most 72 characters'' else [])"

lemma checkLen_ok: "checkLen s n f = [] \<longleftrightarrow> length s \<le> n"
  by (simp add: checkLen_def)

lemma validate_Title_ok: "validate_Title s = [] \<longleftrightarrow> length s \<le> 500"
  by (simp add: validate_Title_def checkLen_ok)

subsection \<open>The scope of a caller\<close>

text \<open>
  \<open>orgVideoFilter\<close> without its suffix: owners and admins reach every video of their
  workspace, other members their own videos in it, and a personal request the caller's own
  videos outside any workspace.
\<close>

definition in_scope :: "rctx \<Rightarrow> video \<Rightarrow> bool" where
  "in_scope c v \<longleftrightarrow>
     (if OrgID c \<noteq> [] then
        if IsAdminOrOwner (OrgRole c) then v_organization_id v = Some (OrgID c)
        else v_user_id v = UserID c \<and> v_organization_id v = Some (OrgID c)
      else v_user_id v = UserID c \<and> v_organization_id v = None)"

definition orgVideoFilter :: "rctx \<Rightarrow> string \<Rightarrow> (video \<Rightarrow> bool) \<Rightarrow> video \<Rightarrow> bool" where
  "orgVideoFilter c videoID suffix v \<longleftrightarrow> v_id v = videoID \<and> in_scope c v \<and> suffix v"

definition orgScope :: "rctx \<Rightarrow> string option" where
  "orgScope c = (if OrgID c = [] then None else Some (OrgID c))"

lemma orgVideoFilter_scope: "orgVideoFilter c vid P v \<Longrightarrow> in_scope c v"
  by (simp add: orgVideoFilter_def)

lemma orgVideoFilter_id: "orgVideoFilter c vid P v \<Longrightarrow> v_id v = vid"
  by (simp add: orgVideoFilter_def)

text \<open>A personal request never reaches a workspace video, and a workspace request never a
  video of another workspace or outside of any.\<close>

lemma in_scope_org: "in_scope c v \<Longrightarrow> v_organization_id v = orgScope c"
  by (auto simp: in_scope_def orgScope_def split: if_splits)

subsection \<open>The handler's configuration and the services it calls\<close>

record config =
  baseURL :: string
  maxUploadBytes :: int
  maxVideosPerMonth :: int
  maxVideoDurationSeconds :: int
  noiseReductionFilter :: string
  aiEnabled :: bool
  transcriptionEnv :: bool \<comment> \<open>\<open>isTranscriptionEnabled()\<close>: the environment of the process\<close>
  hasWebhookClient :: bool
  secureCookies :: bool
  hmacSecret :: string
  maxPlaylists :: int
  brandingEnabled :: bool
  transcriptionEnabled :: bool
  hasCommentNotifier :: bool
  hasViewNotifier :: bool
  hasSlackNotifier :: bool
  analyticsScript :: string

text \<open>
  What the code asks of services outside the repository: the size and type \<open>HeadObject\<close> reports,
  the URLs the object store signs, and Postgres' \<open>date_trunc('month', .)\<close>.
\<close>

record services =
  head_object :: "string \<Rightarrow> int \<times> string"
  upload_url :: "string \<Rightarrow> string \<Rightarrow> int \<Rightarrow> string"
  download_url :: "string \<Rightarrow> string \<Rightarrow> string"
  month_start :: "time \<Rightarrow> time"

subsection \<open>The life of a video row\<close>

text \<open>
  The order in which a status may move: out of \<open>uploading\<close> to anything, between \<open>processing\<close> and
  \<open>ready\<close> and on to \<open>deleted\<close>, and never out of \<open>deleted\<close>.
\<close>

fun status_le :: "video_status \<Rightarrow> video_status \<Rightarrow> bool" where
  "status_le Uploading s = True"
| "status_le Processing s = (s \<noteq> Uploading)"
| "status_le Ready s = (s \<noteq> Uploading)"
| "status_le Deleted s = (s = Deleted)"

lemma status_le_refl [simp]: "status_le s s"
  by (cases s) simp_all

lemma status_le_trans: "status_le a b \<Longrightarrow> status_le b c \<Longrightarrow> status_le a c"
  by (cases a; cases b; cases c) simp_all

lemma status_le_Deleted [simp]: "status_le s Deleted"
  by (cases s) simp_all

text \<open>What identifies a row: set when it is inserted, written by no statement afterwards.\<close>

definition same_identity :: "video \<Rightarrow> video \<Rightarrow> bool" where
  "same_identity a b \<longleftrightarrow> v_id b = v_id a \<and> v_user_id b = v_user_id a \<and>
     v_share_token b = v_share_token a \<and> v_created_at b = v_created_at a"

definition row_ages :: "video \<Rightarrow> video \<Rightarrow> bool" where
  "row_ages a b \<longleftrightarrow> same_identity a b \<and> status_le (v_status a) (v_status b)"

definition own_or_scope :: "rctx \<Rightarrow> video \<Rightarrow> bool" where
  "own_or_scope c v \<longleftrightarrow> in_scope c v \<or> v_user_id v = UserID c"

interpretation ident: video_relation same_identity
  by unfold_locales (auto simp: same_identity_def)

interpretation ages: video_relation row_ages
  by unfold_locales (auto simp: row_ages_def same_identity_def intro: status_le_trans)

text \<open>Only the rows that satisfy \<open>T\<close> may be touched.\<close>

interpretation within: video_relation "\<lambda>a b. b = a \<or> T a" for T
  by unfold_locales auto

abbreviation only_rows :: "(video \<Rightarrow> bool) \<Rightarrow> world \<Rightarrow> world \<Rightarrow> bool" where
  "only_rows T w t \<equiv> rows_rel (\<lambda>a b. b = a \<or> T a) (videos w) (videos t)"

abbreviation rows_age :: "world \<Rightarrow> world \<Rightarrow> bool" where
  "rows_age w t \<equiv> rows_rel row_ages (videos w) (videos t)"

lemma only_rows_kept:
  "state_io_rel (only_rows T) m \<Longrightarrow> v \<in> set (videos w) \<Longrightarrow> \<not> T v \<Longrightarrow> v \<in> set (videos (snd (run_state m w)))"
  unfolding state_io_rel_def using rows_rel_in by fastforce

lemma rows_age_Deleted:
  assumes "state_io_rel rows_age m" "v \<in> set (videos w)" "v_status v = Deleted"
  shows "\<exists>v' \<in> set (videos (snd (run_state m w))). v_id v' = v_id v \<and> v_status v' = Deleted"
proof -
  have "rows_age w (snd (run_state m w))" using assms(1) by (simp add: state_io_rel_def)
  from rows_rel_in [OF this assms(2)] assms(3) show ?thesis
    by (auto simp: row_ages_def same_identity_def)
qed

subsection \<open>A small installation for the examples\<close>

text \<open>
  One free user \<open>u1\<close>, a limit of two videos a month, an object store that reports an MP4 of 1000
  bytes for every key. The examples run the handlers on it.
\<close>

definition sample_config :: config where
  "sample_config = \<lparr>baseURL = ''https://app'', maxUploadBytes = 500000, maxVideosPerMonth = 2,
     maxVideoDurationSeconds = 300, noiseReductionFilter = [], aiEnabled = True,
     transcriptionEnv = True, hasWebhookClient = False, secureCookies = True, hmacSecret = ''secret'',
     maxPlaylists = 3, brandingEnabled = True, transcriptionEnabled = True, hasCommentNotifier = False,
     hasViewNotifier = False, hasSlackNotifier = False, analyticsScript = []\<rparr>"

definition sample_services :: services where
  "sample_services = \<lparr>head_object = (\<lambda>k. (1000, ''video/mp4'')), upload_url = (\<lambda>k ct n. ''put:'' @ k),
     download_url = (\<lambda>k n. ''get:'' @ k), month_start = (\<lambda>t. 0)\<rparr>"

definition sample_user :: user where
  "sample_user = \<lparr>u_id = ''u1'', u_email = ''a@x'', u_name = ''Ann'', u_plan = ''free'',
     u_subscription_id = None, u_customer_id = None, u_noise_reduction = False,
     u_transcription_language = [], u_retention_days = 30,
     u_password = ''hash'', u_email_verified = True, u_created_at = days 5, u_day2_sent_at = None,
     u_day7_sent_at = None\<rparr>"

definition sample_world :: world where
  "sample_world = (empty_world (days 40))\<lparr>users := [sample_user]\<rparr>"

definition sample_caller :: rctx where
  "sample_caller = \<lparr>UserID = ''u1'', OrgID = [], OrgRole = []\<rparr>"

lemmas sample_defs = sample_config_def sample_services_def sample_user_def sample_world_def
  sample_caller_def empty_world_def

lemma sample_fields [simp]:
  "maxUploadBytes sample_config = 500000" "maxVideosPerMonth sample_config = 2"
  "maxVideoDurationSeconds sample_config = 300" "noiseReductionFilter sample_config = []"
  "aiEnabled sample_config" "transcriptionEnv sample_config" "\<not> hasWebhookClient sample_config"
  "secureCookies sample_config" "hmacSecret sample_config = ''secret''" "baseURL sample_config = ''https://app''"
  "maxPlaylists sample_config = 3" "brandingEnabled sample_config" "\<not> hasCommentNotifier sample_config"
  "\<not> hasViewNotifier sample_config" "\<not> hasSlackNotifier sample_config"
  "head_object sample_services k = (1000, ''video/mp4'')"
  "upload_url sample_services k ct n = ''put:'' @ k" "download_url sample_services k nm = ''get:'' @ k"
  "month_start sample_services t = 0"
  "u_id sample_user = ''u1''" "u_email sample_user = ''a@x''" "u_name sample_user = ''Ann''"
  "u_plan sample_user = ''free''" "u_retention_days sample_user = 30"
  "u_transcription_language sample_user = []" "\<not> u_noise_reduction sample_user"
  "UserID sample_caller = ''u1''" "OrgID sample_caller = []" "OrgRole sample_caller = []"
  by (simp_all add: sample_config_def sample_services_def sample_user_def sample_caller_def)

lemma sample_world_fields [simp]:
  "videos sample_world = []" "now sample_world = days 40" "faults sample_world = []"
  "users sample_world = [sample_user]" "jobs sample_world = []" "effects sample_world = []"
  "organizations sample_world = []" "members sample_world = []"
  by (simp_all add: sample_world_def empty_world_def)

end
