(* ===== verification/Video_Crud.thy ===== *)
theory Video_Crud
  imports Policy
begin

text \<open>
  \<open>internal/video/video_crud.go\<close> with what it calls of \<open>handler.go\<close>, \<open>jobs.go\<close>,
  \<open>video_query.go\<close>, \<open>thumbnail.go\<close>, \<open>transcribe_worker.go\<close> and \<open>video_helpers.go\<close>: the requests
  that create a video, finalize its upload, rename, trim and delete it. A request body is
  \<open>None\<close> when it does not decode. Values drawn at random (share token, row id) are arguments.
\<close>

subsection \<open>Keys\<close>

definition extensionForContentType :: "string \<Rightarrow> string" where
  "extensionForContentType ct = (if ct = ''video/mp4'' then ''.mp4''
     else if ct = ''video/quicktime'' then ''.mov'' else ''.webm'')"

definition videoFileKey :: "string \<Rightarrow> string \<Rightarrow> string \<Rightarrow> string" where
  "videoFileKey userID shareToken contentType =
     ''recordings/'' @ userID @ ''/'' @ shareToken @ extensionForContentType contentType"

definition webcamFileKey :: "string \<Rightarrow> string \<Rightarrow> string \<Rightarrow> string" where
  "webcamFileKey userID shareToken contentType =
     ''recordings/'' @ userID @ ''/'' @ shareToken @ ''_webcam'' @ extensionForContentType contentType"

definition thumbnailFileKey :: "string \<Rightarrow> string \<Rightarrow> string" where
  "thumbnailFileKey userID shareToken = ''recordings/'' @ userID @ ''/'' @ shareToken @ ''.jpg''"

definition transcriptFileKey :: "string \<Rightarrow> string \<Rightarrow> string" where
  "transcriptFileKey userID shareToken = ''recordings/'' @ userID @ ''/'' @ shareToken @ ''.vtt''"

subsection \<open>Helpers\<close>

definition dispatchWebhook :: "config \<Rightarrow> string \<Rightarrow> string \<Rightarrow> string \<Rightarrow> unit prog" where
  "dispatchWebhook h userID name videoID =
     (if \<not> hasWebhookClient h then State_Monad.return () else spawn (JobWebhook userID name videoID))"

definition getUserPlan :: "string \<Rightarrow> string prog" where
  "getUserPlan userID = do {
     r \<leftarrow> select_row (\<lambda>w. map_option u_plan (find_where (\<lambda>u. u_id u = userID) (users w)));
     State_Monad.return (case r of Inl _ \<Rightarrow> ''free'' | Inr plan \<Rightarrow> plan)
   }"

definition getOrgPlan :: "string \<Rightarrow> string prog" where
  "getOrgPlan orgID = do {
     r \<leftarrow> select_row (\<lambda>w. map_option o_plan (find_where (\<lambda>x. o_id x = orgID) (organizations w)));
     State_Monad.return (case r of Inl _ \<Rightarrow> ''free'' | Inr plan \<Rightarrow> plan)
   }"

definition videosThisMonth :: "services \<Rightarrow> (video \<Rightarrow> bool) \<Rightarrow> world \<Rightarrow> nat" where
  "videosThisMonth sv P w = count_where
     (\<lambda>v. P v \<and> v_created_at v \<ge> month_start sv (now w) \<and> v_status v \<noteq> Deleted) (videos w)"

definition countVideosThisMonth :: "services \<Rightarrow> string \<Rightarrow> (db_error + nat) prog" where
  "countVideosThisMonth sv userID = select_rows (videosThisMonth sv (\<lambda>v. v_user_id v = userID))"

definition countOrgVideosThisMonth :: "services \<Rightarrow> string \<Rightarrow> (db_error + nat) prog" where
  "countOrgVideosThisMonth sv orgID =
     select_rows (videosThisMonth sv (\<lambda>v. v_organization_id v = Some orgID))"

definition EnqueueTranscription :: "config \<Rightarrow> string \<Rightarrow> db_error option prog" where
  "EnqueueTranscription h videoID =
     (if \<not> transcriptionEnv h then State_Monad.return None
      else do {
        r \<leftarrow> update_videos (\<lambda>w v. v_id v = videoID \<and> v_status v \<noteq> Deleted)
               (\<lambda>w v. v\<lparr>v_transcript_status := WPending, v_updated_at := now w\<rparr>);
        State_Monad.return (case r of Inl e \<Rightarrow> Some e | Inr n \<Rightarrow> None)
      })"

text \<open>
  The two blocks \<open>Create\<close> and \<open>Upload\<close> begin with: the plan that applies to the caller (a failed
  lookup counts as free), and the number of videos of this month, read only under a limit.
\<close>

definition callerPlan :: "rctx \<Rightarrow> string prog" where
  "callerPlan c = (if OrgID c \<noteq> [] then getOrgPlan (OrgID c) else getUserPlan (UserID c))"

definition checkQuota :: "services \<Rightarrow> rctx \<Rightarrow> int \<Rightarrow> (db_error + nat) prog" where
  "checkQuota sv c maxVideos = (if maxVideos > 0 then
       if OrgID c \<noteq> [] then countOrgVideosThisMonth sv (OrgID c)
       else countVideosThisMonth sv (UserID c)
     else State_Monad.return (Inr 0))"

text \<open>A limit of the configuration, lifted (0) for a paid plan.\<close>

definition plan_limit :: "string \<Rightarrow> int \<Rightarrow> int" where
  "plan_limit plan n = (if IsPaid plan then 0 else n)"

text \<open>\<open>if x == "" { x = d }\<close>\<close>

definition or_default :: "string \<Rightarrow> string \<Rightarrow> string" where
  "or_default x d = (if x = [] then d else x)"

datatype job_type = JobTypeThumbnail | JobTypeTranscode | JobTypeTranscribe | JobTypeNormalize
  | JobTypeProbe | JobTypeComposite

text \<open>\<open>payload["k"].(string)\<close> is the empty string when the key is missing.\<close>

type_synonym payload = "(string \<times> string) list"

definition payload_get :: "payload \<Rightarrow> string \<Rightarrow> string" where
  "payload_get p k = (case map_of p k of None \<Rightarrow> [] | Some x \<Rightarrow> x)"

fun EnqueueJob :: "config \<Rightarrow> job_type \<Rightarrow> string \<Rightarrow> payload \<Rightarrow> unit prog" where
  "EnqueueJob h JobTypeThumbnail videoID p =
     spawn (JobThumbnail videoID (payload_get p ''fileKey'') (payload_get p ''thumbnailKey''))"
| "EnqueueJob h JobTypeTranscode videoID p =
     spawn (JobTranscode videoID (payload_get p ''fileKey'') (payload_get p ''audioFilter''))"
| "EnqueueJob h JobTypeTranscribe videoID p =
     do { _ \<leftarrow> EnqueueTranscription h videoID; State_Monad.return () }"
| "EnqueueJob h JobTypeNormalize videoID p =
     spawn (JobNormalize videoID (payload_get p ''fileKey'') (payload_get p ''audioFilter''))"
| "EnqueueJob h JobTypeProbe videoID p = spawn (JobProbe videoID (payload_get p ''fileKey''))"
| "EnqueueJob h JobTypeComposite videoID p =
     spawn (JobComposite videoID (payload_get p ''fileKey'') (payload_get p ''webcamKey'')
       (payload_get p ''thumbnailKey'') (payload_get p ''contentType''))"

text \<open>\<open>if_do b m\<close> is \<open>if b { m }\<close>.\<close>

definition if_do :: "bool \<Rightarrow> unit prog \<Rightarrow> unit prog" where
  "if_do b m = (if b then m else State_Monad.return ())"

subsection \<open>Create and Upload\<close>

record create_request =
  cr_Title :: string
  cr_Duration :: int
  cr_FileSize :: int
  cr_WebcamFileSize :: int
  cr_ContentType :: string
  cr_WebcamContentType :: string

record create_response =
  rs_ID :: string
  rs_UploadURL :: string
  rs_ShareToken :: string
  rs_WebcamUploadURL :: string

text \<open>A row as the \<open>INSERT\<close> leaves it: the columns it names, the schema's defaults elsewhere.\<close>

definition new_video :: "string \<Rightarrow> string \<Rightarrow> string option \<Rightarrow> string \<Rightarrow> int \<Rightarrow> int \<Rightarrow> string \<Rightarrow> string
    \<Rightarrow> string option \<Rightarrow> string \<Rightarrow> time \<Rightarrow> video" where
  "new_video vid uid org title duration fsize key token webcam ct t =
     \<lparr>v_id = vid, v_user_id = uid, v_organization_id = org, v_title = title, v_status = Uploading,
      v_duration = duration, v_file_size = fsize, v_file_key = key, v_share_token = token,
      v_content_type = ct, v_created_at = t, v_updated_at = t, v_processing_started_at = None,
      v_share_expires_at = None, v_share_password = None, v_email_gate_enabled = False,
      v_download_enabled = True, v_cta_text = None, v_cta_url = None, v_pinned = False,
      v_retention_warned_at = None, v_file_purged_at = None, v_thumbnail_key = None,
      v_webcam_key = webcam, v_folder_id = None, v_noise_reduction = False,
      v_ios_normalized = False, v_cues_fixed = False, v_transcode_attempts = 0,
      v_transcode_error = None, v_transcript_key = None, v_transcript_json = None,
      v_transcript_status = WNone, v_transcript_started_at = None,
      v_transcription_language = None, v_summary = None, v_chapters = None,
      v_summary_status = WNone, v_summary_started_at = None, v_document = None,
      v_document_status = WNone, v_document_started_at = None, v_suggested_title = None,
      v_comment_mode = ''disabled'', v_view_notification = None, v_branding = no_branding\<rparr>"

definition webcam_key_for :: "string \<Rightarrow> string \<Rightarrow> string \<Rightarrow> int \<Rightarrow> string option" where
  "webcam_key_for userID shareToken ct wsize =
     (if wsize > 0 then Some (webcamFileKey userID shareToken ct) else None)"

definition limit_reached :: "int \<Rightarrow> string" where
  "limit_reached n = ''monthly video limit of '' @ itoa n @ '' reached''"

definition Create :: "config \<Rightarrow> services \<Rightarrow> rctx \<Rightarrow> string option \<Rightarrow> string \<Rightarrow> create_request option
    \<Rightarrow> create_response response prog" where
  "Create h sv c token newID body = do {
     plan \<leftarrow> callerPlan c;
     let maxVideos = plan_limit plan (maxVideosPerMonth h);
     let maxDuration = plan_limit plan (maxVideoDurationSeconds h);
     case body of None \<Rightarrow> State_Monad.return (WriteError 400 ''invalid request body'')
     | Some req \<Rightarrow>
     if cr_FileSize req \<le> 0 then State_Monad.return (WriteError 400 ''fileSize must be positive'')
     else if cr_Duration req < 1
       then State_Monad.return (WriteError 400 ''video duration must be at least 1 second'')
     else if maxUploadBytes h > 0 \<and> cr_FileSize req > maxUploadBytes h
       then State_Monad.return (WriteError 400 ''file too large'')
     else if maxDuration > 0 \<and> cr_Duration req > maxDuration
       then State_Monad.return (WriteError 400
         (''video duration exceeds the maximum of '' @ itoa (maxDuration div 60) @ '' minutes''))
     else do {
       quota \<leftarrow> checkQuota sv c maxVideos;
       case quota of Inl _ \<Rightarrow> State_Monad.return (WriteError 500 ''failed to check video limit'')
       | Inr count \<Rightarrow>
       if maxVideos > 0 \<and> int count \<ge> maxVideos
         then State_Monad.return (WriteError 403 (limit_reached maxVideos))
       else
         let title = or_default (cr_Title req) ''Untitled Recording'';
             contentType = or_default (cr_ContentType req) ''video/webm''
         in
         if validate_Title title \<noteq> [] then State_Monad.return (WriteError 400 (validate_Title title))
         else if contentType \<noteq> ''video/webm'' \<and> contentType \<noteq> ''video/mp4''
           then State_Monad.return (WriteError 400 ''only video/webm and video/mp4 recordings are supported'')
         else case token of
           None \<Rightarrow> State_Monad.return (WriteError 500 ''failed to generate share token'')
         | Some shareToken \<Rightarrow>
           let fileKey = videoFileKey (UserID c) shareToken contentType;
               webcamContentType = or_default (cr_WebcamContentType req) ''video/webm'';
               webcamKey = webcam_key_for (UserID c) shareToken webcamContentType (cr_WebcamFileSize req)
           in do {
             ins \<leftarrow> insert_video (\<lambda>w. new_video newID (UserID c) (orgScope c) title (cr_Duration req)
                      (cr_FileSize req) fileKey shareToken webcamKey contentType (now w));
             case ins of Inl _ \<Rightarrow> State_Monad.return (WriteError 500 ''failed to create video'')
             | Inr videoID \<Rightarrow> do {
                 dispatchWebhook h (UserID c) ''video.created'' videoID;
                 e \<leftarrow> call;
                 if e \<noteq> None then State_Monad.return (WriteError 500 ''failed to generate upload URL'')
                 else let resp = \<lparr>rs_ID = videoID,
                     rs_UploadURL = upload_url sv fileKey contentType (cr_FileSize req),
                     rs_ShareToken = shareToken, rs_WebcamUploadURL = []\<rparr>
                   in case webcamKey of
                     None \<Rightarrow> State_Monad.return (WriteJSON 201 resp)
                   | Some key \<Rightarrow> do {
                       e \<leftarrow> call;
                       if e \<noteq> None
                       then State_Monad.return (WriteError 500 ''failed to generate webcam upload URL'')
                       else State_Monad.return (WriteJSON 201 (resp\<lparr>rs_WebcamUploadURL :=
                         upload_url sv key webcamContentType (cr_WebcamFileSize req)\<rparr>))
                     }
               }
           }
     }
   }"

record upload_request =
  up_Title :: string
  up_FileSize :: int
  up_ContentType :: string

definition Upload :: "config \<Rightarrow> services \<Rightarrow> rctx \<Rightarrow> string option \<Rightarrow> string \<Rightarrow> upload_request option
    \<Rightarrow> create_response response prog" where
  "Upload h sv c token newID body = do {
     plan \<leftarrow> callerPlan c;
     let maxVideos = plan_limit plan (maxVideosPerMonth h);
     case body of None \<Rightarrow> State_Monad.return (WriteError 400 ''invalid request body'')
     | Some req \<Rightarrow>
     if up_ContentType req \<noteq> ''video/mp4'' \<and> up_ContentType req \<noteq> ''video/webm'' \<and>
        up_ContentType req \<noteq> ''video/quicktime''
       then State_Monad.return (WriteError 400
         ''only video/mp4, video/webm, and video/quicktime uploads are supported'')
     else if up_FileSize req \<le> 0 then State_Monad.return (WriteError 400 ''fileSize must be positive'')
     else if maxUploadBytes h > 0 \<and> up_FileSize req > maxUploadBytes h
       then State_Monad.return (WriteError 400 ''file too large'')
     else do {
       quota \<leftarrow> checkQuota sv c maxVideos;
       case quota of Inl _ \<Rightarrow> State_Monad.return (WriteError 500 ''failed to check video limit'')
       | Inr count \<Rightarrow>
       if maxVideos > 0 \<and> int count \<ge> maxVideos
         then State_Monad.return (WriteError 403 (limit_reached maxVideos))
       else
         let title = or_default (up_Title req) ''Untitled Video'' in
         if validate_Title title \<noteq> [] then State_Monad.return (WriteError 400 (validate_Title title))
         else case token of
           None \<Rightarrow> State_Monad.return (WriteError 500 ''failed to generate share token'')
         | Some shareToken \<Rightarrow>
           let fileKey = videoFileKey (UserID c) shareToken (up_ContentType req) in do {
             ins \<leftarrow> insert_video (\<lambda>w. new_video newID (UserID c) (orgScope c) title 0
                      (up_FileSize req) fileKey shareToken None (up_ContentType req) (now w));
             case ins of Inl _ \<Rightarrow> State_Monad.return (WriteError 500 ''failed to create video'')
             | Inr videoID \<Rightarrow> do {
                 e \<leftarrow> call;
                 if e \<noteq> None then State_Monad.return (WriteError 500 ''failed to generate upload URL'')
                 else State_Monad.return (WriteJSON 201 \<lparr>rs_ID = videoID,
                   rs_UploadURL = upload_url sv fileKey (up_ContentType req) (up_FileSize req),
                   rs_ShareToken = shareToken, rs_WebcamUploadURL = []\<rparr>)
               }
           }
     }
   }"

subsection \<open>Update: finalize an upload, rename\<close>

record update_request =
  ur_Status :: string
  ur_Title :: string

text \<open>
  The block \<open>if req.Status == "ready"\<close>. It returns \<open>Some\<close> response where the code returns, and
  \<open>None\<close> where it goes on to the title.
\<close>

definition audio_filter :: "config \<Rightarrow> string \<Rightarrow> string prog" where
  "audio_filter h userID =
     (if noiseReductionFilter h \<noteq> [] then do {
        r \<leftarrow> select_row (\<lambda>w. map_option u_noise_reduction (find_where (\<lambda>u. u_id u = userID) (users w)));
        State_Monad.return (if r = Inr True then noiseReductionFilter h else [])
      } else State_Monad.return [])"

definition start_jobs :: "config \<Rightarrow> string \<Rightarrow> string \<Rightarrow> string \<Rightarrow> string \<Rightarrow> string option \<Rightarrow> string
    \<Rightarrow> int \<Rightarrow> string \<Rightarrow> unit prog" where
  "start_jobs h userID videoID fileKey shareToken webcamKey expectedContentType duration audioFilter =
     (case webcamKey of
       Some wk \<Rightarrow> EnqueueJob h JobTypeComposite videoID
         [(''fileKey'', fileKey), (''webcamKey'', wk),
          (''thumbnailKey'', thumbnailFileKey userID shareToken), (''contentType'', expectedContentType)]
     | None \<Rightarrow> do {
         EnqueueJob h JobTypeThumbnail videoID
           [(''fileKey'', fileKey), (''thumbnailKey'', thumbnailFileKey userID shareToken)];
         EnqueueJob h JobTypeTranscribe videoID [];
         if_do (duration = 0) (EnqueueJob h JobTypeProbe videoID [(''fileKey'', fileKey)]);
         if_do (expectedContentType = ''video/webm'') (EnqueueJob h JobTypeTranscode videoID
           [(''fileKey'', fileKey), (''audioFilter'', audioFilter)]);
         if_do (expectedContentType = ''video/mp4'' \<or> expectedContentType = ''video/quicktime'')
           (EnqueueJob h JobTypeNormalize videoID
             [(''fileKey'', fileKey), (''audioFilter'', audioFilter)])
       })"

text \<open>What follows the conditional \<open>UPDATE\<close>: the webhook, the user's noise reduction, the jobs.\<close>

definition after_finalize :: "config \<Rightarrow> rctx \<Rightarrow> string \<Rightarrow> video \<Rightarrow> unit response option prog" where
  "after_finalize h c videoID v = do {
     dispatchWebhook h (UserID c) ''video.ready'' videoID;
     audioFilter \<leftarrow> audio_filter h (UserID c);
     if_do (audioFilter \<noteq> []) (do {
       _ \<leftarrow> update_videos (\<lambda>w r. v_id r = videoID) (\<lambda>w r. r\<lparr>v_noise_reduction := True\<rparr>);
       State_Monad.return () });
     start_jobs h (UserID c) videoID (v_file_key v) (v_share_token v) (v_webcam_key v)
       (v_content_type v) (v_duration v) audioFilter;
     State_Monad.return None
   }"

definition Update_ready :: "config \<Rightarrow> services \<Rightarrow> rctx \<Rightarrow> string \<Rightarrow> unit response option prog" where
  "Update_ready h sv c videoID = do {
     row \<leftarrow> select_row (\<lambda>w. find_where
       (\<lambda>v. v_id v = videoID \<and> v_user_id v = UserID c \<and> v_status v = Uploading) (videos w));
     case row of Inl _ \<Rightarrow> State_Monad.return (Some (WriteError 404 ''video not found''))
     | Inr v \<Rightarrow> do {
       e \<leftarrow> call;
       let (osize, contentType) = head_object sv (v_file_key v);
       if e \<noteq> None then State_Monad.return (Some (WriteError 400 ''could not verify upload''))
       else if osize \<le> 0 \<or> (maxUploadBytes h > 0 \<and> osize > maxUploadBytes h)
         then State_Monad.return (Some (WriteError 400 ''uploaded file invalid size''))
       else if v_file_size v > 0 \<and> osize \<noteq> v_file_size v
         then State_Monad.return (Some (WriteError 400 ''uploaded file size mismatch''))
       else if contentType \<noteq> v_content_type v
         then State_Monad.return (Some (WriteError 400 ''uploaded file invalid type''))
       else do {
         let newStatus = (if v_webcam_key v \<noteq> None then Processing else Ready);
         tag \<leftarrow> update_videos
           (\<lambda>w r. v_id r = videoID \<and> v_user_id r = UserID c \<and> v_status r = Uploading)
           (\<lambda>w r. r\<lparr>v_status := newStatus,
              v_processing_started_at := (if newStatus = Processing then Some (now w) else None),
              v_updated_at := now w\<rparr>);
         case tag of Inl _ \<Rightarrow> State_Monad.return (Some (WriteError 500 ''failed to update video''))
         | Inr n \<Rightarrow>
         if n = 0 then State_Monad.return (Some (WriteError 404 ''video not found''))
         else after_finalize h c videoID v
       }
     }
   }"

text \<open>The three title statements, by the caller's scope.\<close>

definition title_query :: "rctx \<Rightarrow> string \<Rightarrow> video \<Rightarrow> bool" where
  "title_query c videoID v =
     (if OrgID c \<noteq> [] then
        if IsAdminOrOwner (OrgRole c)
        then v_id v = videoID \<and> v_organization_id v = Some (OrgID c) \<and> v_status v \<noteq> Deleted
        else v_id v = videoID \<and> v_user_id v = UserID c \<and> v_organization_id v = Some (OrgID c) \<and>
          v_status v \<noteq> Deleted
      else v_id v = videoID \<and> v_user_id v = UserID c \<and> v_organization_id v = None \<and>
        v_status v \<noteq> Deleted)"

definition Update_title :: "rctx \<Rightarrow> string \<Rightarrow> string \<Rightarrow> unit response prog" where
  "Update_title c videoID title =
     (if validate_Title title \<noteq> [] then State_Monad.return (WriteError 400 (validate_Title title))
      else do {
        tag \<leftarrow> update_videos (\<lambda>w. title_query c videoID)
          (\<lambda>w v. v\<lparr>v_title := title, v_updated_at := now w\<rparr>);
        case tag of Inl _ \<Rightarrow> State_Monad.return (WriteError 500 ''failed to update video'')
        | Inr n \<Rightarrow> if n = 0 then State_Monad.return (WriteError 404 ''video not found'')
            else State_Monad.return (WriteHeader 204)
      })"

definition Update :: "config \<Rightarrow> services \<Rightarrow> rctx \<Rightarrow> string \<Rightarrow> update_request option
    \<Rightarrow> unit response prog" where
  "Update h sv c videoID body = (case body of
     None \<Rightarrow> State_Monad.return (WriteError 400 ''invalid request body'')
   | Some req \<Rightarrow>
     if ur_Status req \<noteq> [] \<and> ur_Status req \<noteq> ''ready''
       then State_Monad.return (WriteError 400 ''status can only be set to ready'')
     else if ur_Status req = [] \<and> ur_Title req = []
       then State_Monad.return (WriteError 400 ''nothing to update'')
     else do {
       early \<leftarrow> (if ur_Status req = ''ready'' then Update_ready h sv c videoID
                 else State_Monad.return None);
       case early of Some resp \<Rightarrow> State_Monad.return resp
       | None \<Rightarrow>
         if ur_Title req \<noteq> [] then Update_title c videoID (ur_Title req)
         else State_Monad.return (WriteHeader 204)
     })"

subsection \<open>Trim\<close>

record trim_request =
  tr_StartSeconds :: float64
  tr_EndSeconds :: float64

text \<open>The conditional \<open>UPDATE\<close> that \<open>Trim\<close> and \<open>RemoveSegments\<close> claim the video with.\<close>

definition claim_processing :: "rctx \<Rightarrow> string \<Rightarrow> (db_error + nat) prog" where
  "claim_processing c videoID = update_videos
     (\<lambda>w. orgVideoFilter c videoID (\<lambda>v. v_status v = Ready))
     (\<lambda>w v. v\<lparr>v_status := Processing, v_processing_started_at := Some (now w), v_updated_at := now w\<rparr>)"

definition Trim :: "rctx \<Rightarrow> string \<Rightarrow> trim_request option \<Rightarrow> unit response prog" where
  "Trim c videoID body = (case body of
     None \<Rightarrow> State_Monad.return (WriteError 400 ''invalid request body'')
   | Some req \<Rightarrow>
     if tr_StartSeconds req < 0
       then State_Monad.return (WriteError 400 ''startSeconds must not be negative'')
     else if tr_EndSeconds req \<le> tr_StartSeconds req
       then State_Monad.return (WriteError 400 ''endSeconds must be greater than startSeconds'')
     else do {
       row \<leftarrow> select_row (\<lambda>w. find_where (orgVideoFilter c videoID (\<lambda>v. True)) (videos w));
       case row of Inl _ \<Rightarrow> State_Monad.return (WriteError 404 ''video not found'')
       | Inr v \<Rightarrow>
         if v_status v \<noteq> Ready
           then State_Monad.return (WriteError 409 ''video is currently being processed'')
         else if tr_EndSeconds req > f_of_int (v_duration v)
           then State_Monad.return (WriteError 400 ''endSeconds exceeds video duration'')
         else if f_sub (tr_EndSeconds req) (tr_StartSeconds req) < 1
           then State_Monad.return (WriteError 400 ''trimmed video must be at least 1 second'')
         else do {
           tag \<leftarrow> claim_processing c videoID;
           case tag of Inl _ \<Rightarrow> State_Monad.return (WriteError 500 ''failed to update video status'')
           | Inr n \<Rightarrow>
             if n = 0 then State_Monad.return (WriteError 409 ''video is already being processed'')
             else do {
               spawn (JobTrim videoID (v_file_key v) (thumbnailFileKey (v_user_id v) (v_share_token v))
                 (v_content_type v) (tr_StartSeconds req) (tr_EndSeconds req));
               State_Monad.return (WriteHeader 202)
             }
         }
     })"

subsection \<open>Delete\<close>

definition delete_query :: "rctx \<Rightarrow> string \<Rightarrow> video \<Rightarrow> bool" where
  "delete_query c videoID v =
     (if OrgID c \<noteq> [] then
        if IsAdminOrOwner (OrgRole c)
        then v_id v = videoID \<and> v_organization_id v = Some (OrgID c) \<and> v_status v \<noteq> Deleted
        else v_id v = videoID \<and> v_user_id v = UserID c \<and> v_organization_id v = Some (OrgID c) \<and>
          v_status v \<noteq> Deleted
      else v_id v = videoID \<and> v_user_id v = UserID c \<and> v_organization_id v = None \<and>
        v_status v \<noteq> Deleted)"

definition Delete :: "config \<Rightarrow> rctx \<Rightarrow> string \<Rightarrow> unit response prog" where
  "Delete h c videoID = do {
     row \<leftarrow> update_video_returning
       (\<lambda>w. delete_query c videoID)
       (\<lambda>w v. v\<lparr>v_status := Deleted, v_updated_at := now w\<rparr>);
     case row of Inl _ \<Rightarrow> State_Monad.return (WriteError 404 ''video not found'')
     | Inr v \<Rightarrow> do {
         _ \<leftarrow> exec_world (\<lambda>w. w\<lparr>playlist_videos :=
                del_where (\<lambda>p. pv_video_id p = videoID) (playlist_videos w)\<rparr>);
         dispatchWebhook h (UserID c) ''video.deleted'' videoID;
         spawn (JobDeleteFiles (Inl (v_file_key v)) (v_file_key v) (v_thumbnail_key v)
           (v_webcam_key v) (v_transcript_key v));
         State_Monad.return (WriteHeader 204)
       }
   }"

subsection \<open>Which rows a request touches\<close>

lemma EnqueueTranscription_ages [intro]: "state_io_rel rows_age (EnqueueTranscription h vid)"
  unfolding EnqueueTranscription_def
  by (intro ages.walk_all) (auto simp: row_ages_def same_identity_def)

lemma EnqueueJob_ages [intro]: "state_io_rel rows_age (EnqueueJob h t vid p)"
  by (cases t) (auto intro!: ages.walk_all)

lemma EnqueueJob_within: "(\<And>v. v_id v = vid \<Longrightarrow> T v) \<Longrightarrow> state_io_rel (only_rows T) (EnqueueJob h t vid p)"
  unfolding EnqueueTranscription_def
  by (cases t) (auto simp: EnqueueTranscription_def intro!: within.walk_all)

lemma Trim_within: "state_io_rel (only_rows (in_scope c)) (Trim c vid body)"
  unfolding Trim_def claim_processing_def
  by (intro within.walk_all) (auto dest: orgVideoFilter_scope)

lemma Trim_ages: "state_io_rel rows_age (Trim c vid body)"
  unfolding Trim_def claim_processing_def
  by (intro ages.walk_all) (auto simp: row_ages_def same_identity_def orgVideoFilter_def)

lemma delete_query_scope: "delete_query c vid v \<longleftrightarrow> v_id v = vid \<and> in_scope c v \<and> v_status v \<noteq> Deleted"
  by (auto simp: delete_query_def in_scope_def)

lemma title_query_scope: "title_query c vid v \<longleftrightarrow> v_id v = vid \<and> in_scope c v \<and> v_status v \<noteq> Deleted"
  by (auto simp: title_query_def in_scope_def)

lemma Delete_within: "state_io_rel (only_rows (in_scope c)) (Delete h c vid)"
  unfolding Delete_def dispatchWebhook_def
  by (intro within.walk_all) (auto simp: delete_query_scope)

lemma Delete_ages: "state_io_rel rows_age (Delete h c vid)"
  unfolding Delete_def dispatchWebhook_def
  by (intro ages.walk_all) (auto simp: row_ages_def same_identity_def)

lemma Create_within: "state_io_rel (only_rows T) (Create h sv c token newID body)"
  unfolding Create_def callerPlan_def checkQuota_def dispatchWebhook_def getOrgPlan_def getUserPlan_def countVideosThisMonth_def
    countOrgVideosThisMonth_def
  by (intro within.walk_all)

lemma Create_ages: "state_io_rel rows_age (Create h sv c token newID body)"
  unfolding Create_def callerPlan_def checkQuota_def dispatchWebhook_def getOrgPlan_def getUserPlan_def countVideosThisMonth_def
    countOrgVideosThisMonth_def
  by (intro ages.walk_all)

lemma Upload_ages: "state_io_rel rows_age (Upload h sv c token newID body)"
  unfolding Upload_def callerPlan_def checkQuota_def dispatchWebhook_def getOrgPlan_def getUserPlan_def countVideosThisMonth_def
    countOrgVideosThisMonth_def
  by (intro ages.walk_all)

lemma Upload_within: "state_io_rel (only_rows T) (Upload h sv c token newID body)"
  unfolding Upload_def callerPlan_def checkQuota_def dispatchWebhook_def getOrgPlan_def getUserPlan_def countVideosThisMonth_def
    countOrgVideosThisMonth_def
  by (intro within.walk_all)

lemma Update_ages: "state_io_rel rows_age (Update h sv c vid body)"
  unfolding Update_def Update_ready_def Update_title_def after_finalize_def audio_filter_def start_jobs_def
    if_do_def
    dispatchWebhook_def
  by (intro ages.walk_all EnqueueJob_ages) (auto simp: row_ages_def same_identity_def)


subsection \<open>The quota\<close>

text \<open>What \<open>callerPlan\<close> and \<open>checkQuota\<close> read, as functions of the database.\<close>

definition caller_plan :: "rctx \<Rightarrow> world \<Rightarrow> string" where
  "caller_plan c w = (case (if OrgID c \<noteq> []
       then map_option o_plan (find_where (\<lambda>x. o_id x = OrgID c) (organizations w))
       else map_option u_plan (find_where (\<lambda>u. u_id u = UserID c) (users w)))
     of None \<Rightarrow> ''free'' | Some plan \<Rightarrow> plan)"

definition quota_scope :: "rctx \<Rightarrow> video \<Rightarrow> bool" where
  "quota_scope c v \<longleftrightarrow> (if OrgID c \<noteq> [] then v_organization_id v = Some (OrgID c)
     else v_user_id v = UserID c)"

lemma free_not_paid [simp]: "\<not> IsPaid ''free''"
  by (simp add: IsPaid_def Rank_def)

lemma videosThisMonth_tick [simp]: "videosThisMonth sv P (tick w) = videosThisMonth sv P w"
  by (simp add: videosThisMonth_def)

definition plan_read :: "rctx \<Rightarrow> world \<Rightarrow> string" where
  "plan_read c w = (case next_fault w of Some m \<Rightarrow> ''free'' | None \<Rightarrow> caller_plan c w)"

lemma wp_callerPlan [simp]: "wp (callerPlan c) Q w = Q (plan_read c w) (tick w)"
  by (auto simp: callerPlan_def getOrgPlan_def getUserPlan_def caller_plan_def plan_read_def
      split: option.split)

lemma plan_read_unpaid: "\<not> IsPaid (caller_plan c w) \<Longrightarrow> \<not> IsPaid (plan_read c w)"
  by (simp add: plan_read_def split: option.split)

lemma wp_checkQuota [simp]:
  "wp (checkQuota sv c mx) Q w =
     (if mx > 0 then
        (case next_fault w of Some m \<Rightarrow> Q (Inl (DbFail m)) (tick w)
         | None \<Rightarrow> Q (Inr (videosThisMonth sv (quota_scope c) w)) (tick w))
      else Q (Inr 0) w)"
proof -
  have "quota_scope c = (if OrgID c \<noteq> [] then (\<lambda>v. v_organization_id v = Some (OrgID c))
      else (\<lambda>v. v_user_id v = UserID c))"
    by (auto simp: quota_scope_def)
  then show ?thesis
    by (simp add: checkQuota_def countOrgVideosThisMonth_def countVideosThisMonth_def
        split: option.split)
qed

lemma wp_if_do [simp]: "wp (if_do b m) Q w = (if b then wp m Q w else Q () w)"
  by (simp add: if_do_def)

lemma wp_dispatchWebhook [simp]:
  "wp (dispatchWebhook h uid name vid) Q w =
     Q () (w\<lparr>jobs := jobs w @ (if hasWebhookClient h then [JobWebhook uid name vid] else [])\<rparr>)"
  by (simp add: dispatchWebhook_def)

text \<open>The columns of a new row.\<close>

lemma new_video_fields [simp]:
  "v_id (new_video vid uid org title dur sz key tok wk ct t) = vid"
  "v_user_id (new_video vid uid org title dur sz key tok wk ct t) = uid"
  "v_organization_id (new_video vid uid org title dur sz key tok wk ct t) = org"
  "v_title (new_video vid uid org title dur sz key tok wk ct t) = title"
  "v_status (new_video vid uid org title dur sz key tok wk ct t) = Uploading"
  "v_duration (new_video vid uid org title dur sz key tok wk ct t) = dur"
  "v_file_size (new_video vid uid org title dur sz key tok wk ct t) = sz"
  "v_file_key (new_video vid uid org title dur sz key tok wk ct t) = key"
  "v_share_token (new_video vid uid org title dur sz key tok wk ct t) = tok"
  "v_webcam_key (new_video vid uid org title dur sz key tok wk ct t) = wk"
  "v_content_type (new_video vid uid org title dur sz key tok wk ct t) = ct"
  "v_created_at (new_video vid uid org title dur sz key tok wk ct t) = t"
  "v_processing_started_at (new_video vid uid org title dur sz key tok wk ct t) = None"
  "v_transcode_attempts (new_video vid uid org title dur sz key tok wk ct t) = 0"
  "v_pinned (new_video vid uid org title dur sz key tok wk ct t) = False"
  "v_retention_warned_at (new_video vid uid org title dur sz key tok wk ct t) = None"
  by (simp_all add: new_video_def)

subsection \<open>A ready video for the examples\<close>

definition sample_video :: video where
  "sample_video = (new_video ''v1'' ''u1'' None ''Demo'' 60 1000 (videoFileKey ''u1'' ''tok1'' ''video/mp4'')
     ''tok1'' None ''video/mp4'' (days 35))\<lparr>v_status := Ready\<rparr>"

lemma find_where_one [simp]: "find_where P [r] = (if P r then Some r else None)"
  by simp

lemma sample_video_fields [simp]:
  "v_id sample_video = ''v1''" "v_user_id sample_video = ''u1''" "v_organization_id sample_video = None"
  "v_status sample_video = Ready" "v_duration sample_video = 60" "v_file_size sample_video = 1000"
  "v_share_token sample_video = ''tok1''" "v_content_type sample_video = ''video/mp4''"
  by (simp_all add: sample_video_def)

end
