(* ===== verification/Segments.thy ===== *)
theory Segments
  imports Video_Crud
begin

text \<open>
  \<open>remove_segments.go\<close>, \<open>silence.go\<close>, \<open>encoder_params.go\<close> and the argument builders of \<open>trim.go\<close>
  and \<open>thumbnail.go\<close>: the request that cuts segments out of a video with its guards, silence
  detection with the parser of ffmpeg's output, and the command lines handed to ffmpeg.
\<close>

subsection \<open>Numbers as text\<close>

text \<open>The \<open>%.df\<close> verb: rounded to \<open>d\<close> decimals, halves to even.\<close>

definition fmt_fixed :: "nat \<Rightarrow> float64 \<Rightarrow> string" where
  "fmt_fixed d x = (let n = rhe (\<bar>x\<bar> * 10 ^ d) in
     (if x < 0 then ''-'' else []) @ itoa (n div 10 ^ d) @ ''.'' @ pad0 d (itoa (n mod 10 ^ d)))"

definition is_digit :: "char \<Rightarrow> bool" where
  "is_digit c \<longleftrightarrow> 48 \<le> (of_char c :: nat) \<and> (of_char c :: nat) \<le> 57"

definition digits_value :: "string \<Rightarrow> rat" where
  "digits_value s = foldl (\<lambda>acc c. acc * 10 + of_nat (of_char c - 48)) 0 s"

text \<open>\<open>strconv.ParseFloat\<close> on a text of digits and points (all the patterns let through).\<close>

definition ParseFloat :: "string \<Rightarrow> float64 option" where
  "ParseFloat s = (let a = takeWhile is_digit s; r = dropWhile is_digit s;
       b = (case r of [] \<Rightarrow> [] | c # t \<Rightarrow> t)
     in if (a = [] \<and> b = []) \<or> (r \<noteq> [] \<and> hd r \<noteq> CHR ''.'') \<or> \<not> list_all is_digit b then None
        else let x = rnd64 (digits_value a + digits_value b / 10 ^ length b)
          in if x \<ge> 2 ^ 1024 then None else Some x)"

subsection \<open>Bounds on ffmpeg (\<open>encoder_params.go\<close>)\<close>

definition ffmpegThreadCap :: string where "ffmpegThreadCap = ''4''"

definition globalThreads :: "string list" where
  "globalThreads = [''-filter_threads'', ffmpegThreadCap, ''-filter_complex_threads'', ffmpegThreadCap]"

definition inputThreads :: "string list" where
  "inputThreads = [''-threads'', ffmpegThreadCap]"

definition encoderThreads :: "string list" where
  "encoderThreads = [''-threads'', ffmpegThreadCap]"

definition x264MemoryParams :: "string list" where
  "x264MemoryParams = [''-x264-params'', ''rc-lookahead=10:ref=1:bframes=0'']"

definition videoCodecForContentType :: "string \<Rightarrow> string" where
  "videoCodecForContentType ct =
     (if ct = ''video/mp4'' \<or> ct = ''video/quicktime'' then ''libx264'' else ''libvpx-vp9'')"

definition audioCodecForContentType :: "string \<Rightarrow> string" where
  "audioCodecForContentType ct =
     (if ct = ''video/mp4'' \<or> ct = ''video/quicktime'' then ''aac'' else ''libopus'')"

definition appendEncoderBounds :: "string list \<Rightarrow> string \<Rightarrow> string list" where
  "appendEncoderBounds args contentType = (let args = args @ encoderThreads in
     if videoCodecForContentType contentType = ''libx264'' then args @ x264MemoryParams else args)"

text \<open>A text in single quotes, as ffmpeg's filter syntax needs them.\<close>

definition quoted :: "string \<Rightarrow> string" where
  "quoted s = [CHR 0x27] @ s @ [CHR 0x27]"

definition scale_filter :: string where
  "scale_filter = ''scale='' @ quoted ''min(1920,iw)'' @ '':'' @ quoted ''min(1080,ih)'' @
     '':force_original_aspect_ratio=decrease:force_divisible_by=2''"

definition buildTrimArgs :: "string \<Rightarrow> string \<Rightarrow> string \<Rightarrow> float64 \<Rightarrow> float64 \<Rightarrow> string list" where
  "buildTrimArgs inputPath outputPath contentType startSeconds endSeconds =
     (let args = globalThreads @ inputThreads @
        (if contentType = ''video/mp4'' \<or> contentType = ''video/quicktime'' then
           [''-i'', inputPath, ''-ss'', fmt_fixed 3 startSeconds, ''-to'', fmt_fixed 3 endSeconds,
            ''-c:v'', ''libx264'', ''-profile:v'', ''high'', ''-level:v'', ''5.1'', ''-preset'', ''fast'',
            ''-crf'', ''23'', ''-vf'', scale_filter, ''-r'', ''60'', ''-c:a'', ''aac'', ''-movflags'', ''+faststart'']
         else
           [''-i'', inputPath, ''-ss'', fmt_fixed 3 startSeconds, ''-to'', fmt_fixed 3 endSeconds,
            ''-c:v'', ''libvpx-vp9'', ''-c:a'', ''copy''])
      in appendEncoderBounds args contentType @ [''-y'', outputPath])"

definition buildThumbnailArgs :: "string \<Rightarrow> string \<Rightarrow> int \<Rightarrow> string list" where
  "buildThumbnailArgs inputPath outputPath seekSeconds = globalThreads @ inputThreads @
     [''-i'', inputPath, ''-ss'', itoa seekSeconds, ''-frames:v'', ''1'', ''-vf'', ''scale=640:-1'',
      ''-q:v'', ''5'', ''-y'', outputPath]"

definition buildSilenceArgs :: "string \<Rightarrow> int \<Rightarrow> float64 \<Rightarrow> string list" where
  "buildSilenceArgs inputPath noiseDB minDuration = globalThreads @ inputThreads @
     [''-i'', inputPath, ''-vn'', ''-af'',
      ''silencedetect=noise='' @ itoa noiseDB @ ''dB:d='' @ fmt_fixed 2 minDuration, ''-f'', ''null'', ''-'']"

subsection \<open>The filter expressions of a cut\<close>

function balancedSum :: "string list \<Rightarrow> string" where
  "balancedSum parts = (if length parts = 0 then ''0''
     else if length parts = 1 then parts ! 0
     else let mid = length parts div 2 in
       ''('' @ balancedSum (take mid parts) @ ''+'' @ balancedSum (drop mid parts) @ '')'')"
  by pat_completeness auto
termination
proof (relation "measure length")
  fix parts :: "string list" and mid :: nat
  assume "length parts \<noteq> 0" "length parts \<noteq> 1" "mid = length parts div 2"
  then have "0 < mid" "mid < length parts" by (cases parts; cases "tl parts"; auto)+
  then show "(take mid parts, parts) \<in> measure length" "(drop mid parts, parts) \<in> measure length"
    by simp_all
qed simp

declare balancedSum.simps [simp del]

definition buildSegmentFilter :: "segment_range list \<Rightarrow> string" where
  "buildSegmentFilter segments = balancedSum
     (map (\<lambda>seg. ''between(t,'' @ fmt_fixed 3 (sr_start seg) @ '','' @ fmt_fixed 3 (sr_end seg) @ '')'') segments)"

definition buildSegmentAudioFilter :: "segment_range list \<Rightarrow> string" where
  "buildSegmentAudioFilter segments =
     (let timestamps = concat (map (\<lambda>seg. [fmt_fixed 3 (sr_start seg), fmt_fixed 3 (sr_end seg)]) segments);
          ids = map int [0..<2 * length segments + 1];
          outputs = map (\<lambda>i. ''[aseg'' @ itoa i @ '']'') ids;
          label = (\<lambda>i. ''[akeep'' @ itoa i @ '']'');
          filters = map (\<lambda>i. ''[aseg'' @ itoa i @ '']'' @
            (if i mod 2 = 0 then ''asetpts=PTS-STARTPTS'' @ label i else ''anullsink'')) ids;
          kept = map label (filter (\<lambda>i. i mod 2 = 0) ids)
      in ''[0:a]asettb=1/sr,asetpts=N,asegment=timestamps='' @ quoted (join timestamps ''|'') @
         join outputs [] @ '';'' @ join filters '';'' @ '';'' @ join kept [] @
         ''concat=n='' @ itoa (int (length kept)) @ '':v=0:a=1[a]'')"

definition buildRemoveSegmentsArgs :: "string \<Rightarrow> string \<Rightarrow> string \<Rightarrow> segment_range list \<Rightarrow> bool \<Rightarrow> string list" where
  "buildRemoveSegmentsArgs inputPath outputPath contentType segments audioPresent =
     (let betweenExpr = buildSegmentFilter segments;
          removedTime = map (\<lambda>seg. ''gte(T,'' @ fmt_fixed 3 (sr_end seg) @ '')*('' @ fmt_fixed 3 (sr_end seg) @
            ''-'' @ fmt_fixed 3 (sr_start seg) @ '')'') segments;
          videoFilter = ''[0:v]setpts=PTS-STARTPTS,select='' @ quoted (''not('' @ betweenExpr @ '')'') @
            '',setpts='' @ quoted (''PTS-'' @ balancedSum removedTime @ ''/TB'') @ '',fps=60,'' @ scale_filter @ ''[v]'';
          args = globalThreads @ inputThreads @ [''-i'', inputPath] @
            (if audioPresent then
               [''-filter_complex'', videoFilter @ '';'' @ buildSegmentAudioFilter segments,
                ''-map'', ''[v]'', ''-map'', ''[a]'', ''-c:v'', videoCodecForContentType contentType,
                ''-c:a'', audioCodecForContentType contentType]
             else [''-filter_complex'', videoFilter, ''-map'', ''[v]'',
                ''-c:v'', videoCodecForContentType contentType, ''-an''])
      in appendEncoderBounds args contentType @ [''-y'', outputPath])"

subsection \<open>The request\<close>

definition maxSegments :: nat where "maxSegments = 200"

text \<open>The loops over the request: the message of the first segment that fails, in loop order.\<close>

fun check_segments :: "segment_range list \<Rightarrow> string option" where
  "check_segments [] = None"
| "check_segments (seg # segs) =
     (if sr_start seg < 0 then Some ''segment start must not be negative''
      else if sr_end seg \<le> sr_start seg then Some ''segment end must be greater than start''
      else check_segments segs)"

fun check_order :: "segment_range list \<Rightarrow> string option" where
  "check_order (p # seg # segs) =
     (if sr_start seg < sr_start p then Some ''segments must be sorted by start time''
      else if sr_start seg < sr_end p then Some ''segments must not overlap''
      else check_order (seg # segs))"
| "check_order segs = None"

definition removed_time :: "segment_range list \<Rightarrow> float64" where
  "removed_time segs = foldl (\<lambda>acc seg. f_add acc (f_sub (sr_end seg) (sr_start seg))) 0 segs"

definition RemoveSegments :: "rctx \<Rightarrow> string \<Rightarrow> segment_range list option \<Rightarrow> unit response prog" where
  "RemoveSegments c videoID body = (case body of
     None \<Rightarrow> State_Monad.return (WriteError 400 ''invalid request body'')
   | Some segs \<Rightarrow>
     if length segs = 0 then State_Monad.return (WriteError 400 ''segments must not be empty'')
     else if length segs > maxSegments then State_Monad.return (WriteError 400 ''too many segments (max 200)'')
     else case check_segments segs of Some msg \<Rightarrow> State_Monad.return (WriteError 400 msg)
     | None \<Rightarrow>
     case check_order segs of Some msg \<Rightarrow> State_Monad.return (WriteError 400 msg)
     | None \<Rightarrow> do {
       row \<leftarrow> select_row (\<lambda>w. find_where (orgVideoFilter c videoID (\<lambda>v. True)) (videos w));
       case row of Inl _ \<Rightarrow> State_Monad.return (WriteError 404 ''video not found'')
       | Inr v \<Rightarrow>
         if v_status v \<noteq> Ready
           then State_Monad.return (WriteError 409 ''video is currently being processed'')
         else if list_ex (\<lambda>seg. sr_end seg > f_of_int (v_duration v)) segs
           then State_Monad.return (WriteError 400 ''segment end exceeds video duration'')
         else if f_sub (f_of_int (v_duration v)) (removed_time segs) < 1
           then State_Monad.return (WriteError 400 ''resulting video must be at least 1 second'')
         else do {
           tag \<leftarrow> claim_processing c videoID;
           case tag of Inl _ \<Rightarrow> State_Monad.return (WriteError 500 ''failed to update video status'')
           | Inr n \<Rightarrow>
             if n = 0 then State_Monad.return (WriteError 409 ''video is already being processed'')
             else do {
               spawn (JobRemoveSegments videoID (v_file_key v) (thumbnailFileKey (v_user_id v) (v_share_token v))
                 (v_content_type v) segs (v_duration v));
               State_Monad.return (WriteHeader 202)
             }
         }
     })"

subsection \<open>Silence detection\<close>

definition re_space :: "char \<Rightarrow> bool" where
  "re_space c \<longleftrightarrow> c \<in> {CHR '' '', CHR 0x09, CHR 0x0A, CHR 0x0C, CHR 0x0D}"

definition re_number :: "char \<Rightarrow> bool" where
  "re_number c \<longleftrightarrow> is_digit c \<or> c = CHR ''.''"

text \<open>The leftmost match of \<open>key\s*([\d.]+)\<close>: the text of its group.\<close>

fun find_match :: "string \<Rightarrow> string \<Rightarrow> string option" where
  "find_match key [] = None"
| "find_match key (c # s) =
     (let m = takeWhile re_number (dropWhile re_space (drop (length key) (c # s))) in
      if has_prefix (c # s) key \<and> m \<noteq> [] then Some m else find_match key s)"

text \<open>One round of the loop over the lines: the pending start, and the segments found so far.\<close>

definition silence_line :: "float64 option \<times> segment_range list \<Rightarrow> string \<Rightarrow> float64 option \<times> segment_range list" where
  "silence_line st line = (case find_match ''silence_start:'' line of
     Some m \<Rightarrow> (case ParseFloat m of None \<Rightarrow> st | Some x \<Rightarrow> (Some x, snd st))
   | None \<Rightarrow>
     (case (find_match ''silence_end:'' line, fst st) of
        (Some m, Some pending) \<Rightarrow> (case ParseFloat m of None \<Rightarrow> st
          | Some x \<Rightarrow> (None, snd st @ [\<lparr>sr_start = pending, sr_end = x\<rparr>]))
      | _ \<Rightarrow> st))"

definition parseSilenceDetectOutput :: "string \<Rightarrow> segment_range list" where
  "parseSilenceDetectOutput stderr = snd (foldl silence_line (None, []) (split stderr [CHR 0x0A]))"

text \<open>The clamping loop of \<open>DetectSilence\<close>; \<open>0.1\<close> is the \<open>float64\<close> nearest to it.\<close>

definition clamp_one :: "float64 \<Rightarrow> segment_range \<Rightarrow> segment_range list" where
  "clamp_one maxEnd seg =
     (if sr_start seg \<ge> maxEnd then []
      else let seg' = (if sr_end seg > maxEnd then seg\<lparr>sr_end := maxEnd\<rparr> else seg) in
        if f_sub (sr_end seg') (sr_start seg') \<ge> rnd64 (1 / 10) then [seg'] else [])"

definition clamp_segments :: "int \<Rightarrow> segment_range list \<Rightarrow> segment_range list" where
  "clamp_segments duration segs = concat (map (clamp_one (f_of_int duration)) segs)"

record silence_request =
  sl_NoiseDB :: "int option"
  sl_MinDuration :: "float64 option"

text \<open>\<open>ffmpeg\<close> is what the silence filter prints for a URL and its two settings.\<close>

definition DetectSilence :: "services \<Rightarrow> (string \<Rightarrow> int \<Rightarrow> float64 \<Rightarrow> string) \<Rightarrow> rctx \<Rightarrow> string \<Rightarrow> silence_request option
    \<Rightarrow> segment_range list response prog" where
  "DetectSilence sv ffmpeg c videoID body = (case body of
     None \<Rightarrow> State_Monad.return (WriteError 400 ''invalid request body'')
   | Some req \<Rightarrow>
     let noiseDB = (case sl_NoiseDB req of None \<Rightarrow> - 30 | Some n \<Rightarrow> n);
         minDuration = (case sl_MinDuration req of None \<Rightarrow> 1 | Some x \<Rightarrow> x) in
     if noiseDB < - 90 \<or> noiseDB > 0 then State_Monad.return (WriteError 400 ''noiseDB must be between -90 and 0'')
     else if minDuration < 1 / 2 \<or> minDuration > 10
       then State_Monad.return (WriteError 400 ''minDuration must be between 0.5 and 10.0'')
     else do {
       row \<leftarrow> select_row (\<lambda>w. find_where (\<lambda>v. v_id v = videoID \<and> v_user_id v = UserID c \<and>
         v_organization_id v = orgScope c) (videos w));
       case row of Inl _ \<Rightarrow> State_Monad.return (WriteError 404 ''video not found'')
       | Inr v \<Rightarrow>
         if v_status v \<noteq> Ready then State_Monad.return (WriteError 409 ''video is currently being processed'')
         else do {
           e \<leftarrow> call;
           if e \<noteq> None then State_Monad.return (WriteError 500 ''failed to detect silence'')
           else do {
             e \<leftarrow> call;
             if e \<noteq> None then State_Monad.return (WriteError 500 ''failed to detect silence'')
             else State_Monad.return (WriteJSON 200 (clamp_segments (v_duration v)
               (parseSilenceDetectOutput (ffmpeg (download_url sv (v_file_key v) []) noiseDB minDuration))))
           }
         }
     })"

subsection \<open>Segments that may be cut\<close>

text \<open>What the guards of \<open>RemoveSegments\<close> ask of a list of segments.\<close>

definition seg_ok :: "segment_range \<Rightarrow> bool" where
  "seg_ok s \<longleftrightarrow> 0 \<le> sr_start s \<and> sr_start s < sr_end s"

definition disjoint_order :: "segment_range \<Rightarrow> segment_range \<Rightarrow> bool" where
  "disjoint_order a b \<longleftrightarrow> sr_start a \<le> sr_start b \<and> sr_end a \<le> sr_start b"

lemma check_segments_ok: "check_segments segs = None \<longleftrightarrow> list_all seg_ok segs"
  by (induction segs) (auto simp: seg_ok_def)

lemma check_order_ok: "check_order segs = None \<longleftrightarrow> successively disjoint_order segs"
  by (induction segs rule: check_order.induct) (auto simp: disjoint_order_def)

text \<open>With segments that are not empty, "each starts after the one before it ends" is transitive.\<close>

lemma successively_sorted:
  "list_all seg_ok segs \<Longrightarrow> successively disjoint_order segs \<Longrightarrow> sorted_wrt disjoint_order segs"
proof (induction segs)
  case (Cons a segs)
  show ?case
  proof (cases segs)
    case (Cons b rest)
    with Cons.IH Cons.prems have sorted: "sorted_wrt disjoint_order segs" by simp
    have ab: "disjoint_order a b" "seg_ok b" using Cons.prems Cons by simp_all
    have "disjoint_order a x" if "x \<in> set segs" for x
      using that ab sorted Cons by (force simp: disjoint_order_def seg_ok_def)
    with sorted show ?thesis by simp
  qed simp
qed simp

lemma sorted_successively: "sorted_wrt R xs \<Longrightarrow> successively R xs"
  by (induction R xs rule: successively.induct) auto

lemma removed_time_nonneg: "list_all seg_ok segs \<Longrightarrow> 0 \<le> removed_time segs"
  unfolding removed_time_def f_add_def
  by (rule f64.foldl_nonneg) (auto simp: list_all_iff seg_ok_def intro!: f_sub_pos_nonneg)

definition new_duration :: "int \<Rightarrow> segment_range list \<Rightarrow> int" where
  "new_duration duration segs = f_to_int (f_sub (f_of_int duration) (removed_time segs))"

lemma new_duration_bounds:
  assumes "list_all seg_ok segs" "1 \<le> f_sub (f_of_int d) (removed_time segs)" "0 \<le> d" "d \<le> 2 ^ 53"
  shows "1 \<le> new_duration d segs \<and> new_duration d segs \<le> d"
  unfolding new_duration_def
  using assms removed_time_nonneg [OF assms(1)] f_of_int_exact [of d]
  by (auto intro!: f_to_int_ge f_to_int_le f_sub_le)

definition cut_accepted :: "rctx \<Rightarrow> string \<Rightarrow> segment_range list \<Rightarrow> world \<Rightarrow> world \<Rightarrow> video \<Rightarrow> bool" where
  "cut_accepted c vid segs w w' v \<longleftrightarrow>
     v \<in> set (videos w) \<and> v_id v = vid \<and> in_scope c v \<and> v_status v = Ready \<and>
     segs \<noteq> [] \<and> length segs \<le> 200 \<and> list_all seg_ok segs \<and> sorted_wrt disjoint_order segs \<and>
     (\<forall>s \<in> set segs. sr_end s \<le> f_of_int (v_duration v)) \<and>
     1 \<le> f_sub (f_of_int (v_duration v)) (removed_time segs) \<and>
     videos w' = upd_where (orgVideoFilter c vid (\<lambda>v. v_status v = Ready))
       (\<lambda>v. v\<lparr>v_status := Processing, v_processing_started_at := Some (now w), v_updated_at := now w\<rparr>) (videos w) \<and>
     jobs w' = jobs w @ [JobRemoveSegments vid (v_file_key v) (thumbnailFileKey (v_user_id v) (v_share_token v))
       (v_content_type v) segs (v_duration v)]"

lemma RemoveSegments_wp:
  "wp (RemoveSegments c vid body) (\<lambda>resp w'. if status_code resp = 202
     then \<exists>segs v. body = Some segs \<and> cut_accepted c vid segs w w' v
     else videos w' = videos w \<and> jobs w' = jobs w) w"
  unfolding RemoveSegments_def claim_processing_def
  apply (intro wp_steps)
           apply simp_all
   apply (simp add: count_where_0 upd_where_none)
  apply (rule exI)
  apply (auto simp: cut_accepted_def orgVideoFilter_def check_segments_ok check_order_ok successively_sorted
    maxSegments_def list_ex_iff not_less dest!: find_where_Some)
  done

text \<open>C11: a cut is accepted only for a ready video of the caller's scope and for at most 200 segments that lie
  in order, without overlap, inside the video and leave at least a second; the duration the
  background job will then write is between one second and the old duration. Any other answer
  changes no video and starts nothing.\<close>

theorem remove_segments_sound:
  assumes "run_state (RemoveSegments c vid body) w = (resp, w')"
    and "\<forall>v \<in> set (videos w). 0 \<le> v_duration v \<and> v_duration v \<le> 2 ^ 53"
  shows "if status_code resp = 202
     then \<exists>segs v. body = Some segs \<and> cut_accepted c vid segs w w' v \<and>
       1 \<le> new_duration (v_duration v) segs \<and> new_duration (v_duration v) segs \<le> v_duration v
     else videos w' = videos w \<and> jobs w' = jobs w"
proof (cases "status_code resp = 202")
  case True
  with wpI [OF RemoveSegments_wp assms(1)] obtain segs v
    where "body = Some segs" and acc: "cut_accepted c vid segs w w' v" by auto
  moreover from acc assms(2) have "1 \<le> new_duration (v_duration v) segs \<and> new_duration (v_duration v) segs \<le> v_duration v"
    unfolding cut_accepted_def by (intro new_duration_bounds) auto
  ultimately show ?thesis using True by auto
next
  case False
  with wpI [OF RemoveSegments_wp assms(1)] show ?thesis by simp
qed

definition sample_cut :: "segment_range list" where
  "sample_cut = [\<lparr>sr_start = 1, sr_end = 3\<rparr>, \<lparr>sr_start = 3, sr_end = 10\<rparr>]"

lemma sample_removed: "removed_time sample_cut = 9"
proof -
  have "rnd64 2 = 2" "rnd64 7 = 7" "rnd64 9 = 9"
    using rnd64_of_int [of 2] rnd64_of_int [of 7] rnd64_of_int [of 9] by simp_all
  then show ?thesis by (simp add: removed_time_def sample_cut_def f_add_def f_sub_def)
qed

lemma sample_cut_run:
  "run_state (RemoveSegments sample_caller ''v1'' (Some sample_cut)) (sample_world\<lparr>videos := [sample_video]\<rparr>) =
     (WriteHeader 202, snd (run_state (RemoveSegments sample_caller ''v1'' (Some sample_cut)) (sample_world\<lparr>videos := [sample_video]\<rparr>)))"
proof -
  have d: "f_of_int 60 = 60" "f_sub 60 9 = 51"
    using rnd64_of_int [of 60] rnd64_of_int [of 51] by (simp_all add: f_of_int_def f_sub_def)
  have "check_segments sample_cut = None" "check_order sample_cut = None" "length sample_cut = 2" "sample_cut \<noteq> []"
    "\<not> list_ex (\<lambda>seg. 60 < sr_end seg) sample_cut"
    by (simp_all add: sample_cut_def)
  then show ?thesis
    using sample_removed
    by (simp add: RemoveSegments_def claim_processing_def orgVideoFilter_def in_scope_def maxSegments_def
        run_simps d)
qed

theorem remove_segments_sound_witness:
  "\<exists>segs v. cut_accepted sample_caller ''v1'' segs (sample_world\<lparr>videos := [sample_video]\<rparr>)
     (snd (run_state (RemoveSegments sample_caller ''v1'' (Some sample_cut)) (sample_world\<lparr>videos := [sample_video]\<rparr>))) v"
  using remove_segments_sound [OF sample_cut_run] by auto

subsection \<open>The filter tree\<close>

text \<open>The tree ffmpeg's parser builds from \<open>balancedSum\<close>: its terms and how deep they are nested.\<close>

datatype sum_tree = Term string | Plus sum_tree sum_tree

fun render :: "sum_tree \<Rightarrow> string" where
  "render (Term t) = t"
| "render (Plus a b) = ''('' @ render a @ ''+'' @ render b @ '')''"

fun terms :: "sum_tree \<Rightarrow> string list" where
  "terms (Term t) = [t]"
| "terms (Plus a b) = terms a @ terms b"

fun tree_depth :: "sum_tree \<Rightarrow> nat" where
  "tree_depth (Term t) = 0"
| "tree_depth (Plus a b) = Suc (max (tree_depth a) (tree_depth b))"

lemma balancedSum_tree:
  "parts \<noteq> [] \<Longrightarrow> length parts \<le> 2 ^ k \<Longrightarrow>
   \<exists>t. balancedSum parts = render t \<and> terms t = parts \<and> tree_depth t \<le> k"
proof (induction parts arbitrary: k rule: balancedSum.induct)
  case (1 parts)
  show ?case
  proof (cases "length parts = 1")
    case True
    then obtain p where "parts = [p]" by (cases parts) auto
    then show ?thesis
      by (intro exI [of _ "Term p"]) (simp add: balancedSum.simps)
  next
    case False
    let ?mid = "length parts div 2"
    from False 1 have len: "2 \<le> length parts" by (cases parts; cases "tl parts"; auto)
    with 1 obtain k' where k: "k = Suc k'" by (cases k) auto
    from len have mid: "0 < ?mid" "?mid < length parts" by auto
    have pow: "length parts \<le> 2 * 2 ^ k'" using "1.prems"(2) k by simp
    have ne: "length parts \<noteq> 0" using "1.prems"(1) by simp
    have "take ?mid parts \<noteq> []" "length (take ?mid parts) \<le> 2 ^ k'" using mid pow by auto
    from "1.IH"(1) [OF ne False refl this] obtain a where
      a: "balancedSum (take ?mid parts) = render a" "terms a = take ?mid parts" "tree_depth a \<le> k'" by blast
    have "drop ?mid parts \<noteq> []" "length (drop ?mid parts) \<le> 2 ^ k'" using mid pow by auto
    from "1.IH"(2) [OF ne False refl this] obtain b where
      b: "balancedSum (drop ?mid parts) = render b" "terms b = drop ?mid parts" "tree_depth b \<le> k'" by blast
    have "balancedSum parts = render (Plus a b)"
      using len a b by (subst balancedSum.simps) (auto simp: Let_def)
    with a b k show ?thesis by (intro exI [of _ "Plus a b"]) simp
  qed
qed

text \<open>The filter expression of any cut the API accepts lists one term per segment, in order, and nests
  at most eight levels, well below the 100 at which ffmpeg's parser gives up.\<close>

theorem segment_filter_shallow:
  assumes "segs \<noteq> []" "length segs \<le> maxSegments"
  shows "\<exists>t. buildSegmentFilter segs = render t \<and> tree_depth t \<le> 8 \<and>
    terms t = map (\<lambda>s. ''between(t,'' @ fmt_fixed 3 (sr_start s) @ '','' @ fmt_fixed 3 (sr_end s) @ '')'') segs"
proof -
  have "length segs \<le> 2 ^ 8" using assms(2) by (simp add: maxSegments_def)
  with assms(1) show ?thesis
    using balancedSum_tree [of "map (\<lambda>s. ''between(t,'' @ fmt_fixed 3 (sr_start s) @ '','' @ fmt_fixed 3 (sr_end s) @ '')'') segs" 8]
    by (auto simp: buildSegmentFilter_def)
qed

theorem segment_filter_shallow_witness:
  "\<exists>t. buildSegmentFilter sample_cut = render t \<and> tree_depth t \<le> 8"
proof -
  have "sample_cut \<noteq> []" "length sample_cut \<le> maxSegments"
    by (simp_all add: sample_cut_def maxSegments_def)
  from segment_filter_shallow [OF this] show ?thesis by blast
qed

subsection \<open>Detected silence can be cut\<close>

lemma ParseFloat_nonneg: "ParseFloat s = Some x \<Longrightarrow> 0 \<le> x"
proof -
  have "0 \<le> digits_value s" for s
  proof -
    have "0 \<le> foldl (\<lambda>acc c. acc * 10 + of_nat (of_char c - 48)) (a :: rat) s" if "0 \<le> a" for a
      using that by (induction s arbitrary: a) auto
    then show ?thesis by (simp add: digits_value_def)
  qed
  then show "ParseFloat s = Some x \<Longrightarrow> 0 \<le> x"
    by (auto simp: ParseFloat_def Let_def split: if_splits intro!: f64.nonneg add_nonneg_nonneg divide_nonneg_nonneg)
qed

definition starts_ok :: "float64 option \<times> segment_range list \<Rightarrow> bool" where
  "starts_ok st \<longleftrightarrow> (\<forall>x. fst st = Some x \<longrightarrow> 0 \<le> x) \<and> (\<forall>s \<in> set (snd st). 0 \<le> sr_start s)"

lemma silence_line_starts: "starts_ok st \<Longrightarrow> starts_ok (silence_line st l)"
  by (auto simp: starts_ok_def silence_line_def split: option.splits dest: ParseFloat_nonneg)

lemma parsed_starts: "s \<in> set (parseSilenceDetectOutput out) \<Longrightarrow> 0 \<le> sr_start s"
proof -
  have "starts_ok st \<Longrightarrow> starts_ok (foldl silence_line st ls)" for st ls
    by (induction ls arbitrary: st) (simp_all add: silence_line_starts)
  from this [of "(None, [])"] show "s \<in> set (parseSilenceDetectOutput out) \<Longrightarrow> 0 \<le> sr_start s"
    by (simp add: parseSilenceDetectOutput_def starts_ok_def)
qed

text \<open>The order ffmpeg reports silence in: each starts no earlier than the one before it started or ended.\<close>

lemma clamp_one:
  assumes "s \<in> set (clamp_one m s0)"
  shows "sr_start s = sr_start s0 \<and> sr_end s \<le> m \<and> sr_end s \<le> sr_end s0 \<and>
    f_sub (sr_end s) (sr_start s) \<ge> rnd64 (1 / 10)"
proof (cases "m < sr_end s0")
  case True
  with assms have "s = s0\<lparr>sr_end := m\<rparr>" "f_sub (sr_end s) (sr_start s) \<ge> rnd64 (1 / 10)"
    by (simp_all add: clamp_one_def Let_def split: if_splits)
  with True show ?thesis by simp
next
  case False
  with assms show ?thesis by (simp add: clamp_one_def Let_def split: if_splits)
qed

lemma clamp_nth_ok:
  assumes "0 \<le> d" "d \<le> 2 ^ 53" "\<forall>s \<in> set segs. 0 \<le> sr_start s"
  shows "list_all seg_ok (clamp_segments d segs) \<and> (\<forall>s \<in> set (clamp_segments d segs). sr_end s \<le> of_int d)"
proof -
  have tenth: "0 < rnd64 (1 / 10)"
    by code_simp
  have "seg_ok s \<and> sr_end s \<le> of_int d" if "s \<in> set (clamp_segments d segs)" for s
  proof -
    from that obtain s0 where s0: "s0 \<in> set segs" and one: "s \<in> set (clamp_one (f_of_int d) s0)"
      by (auto simp: clamp_segments_def)
    note s1 = clamp_one [OF one]
    have "sr_start s < sr_end s"
    proof (rule ccontr)
      assume "\<not> ?thesis"
      then have "f_sub (sr_end s) (sr_start s) \<le> 0"
        unfolding f_sub_def by (intro f64.nonpos) simp
      with s1 tenth show False by simp
    qed
    with s0 s1 assms(3) f_of_int_exact [of d] assms(1,2) show ?thesis by (simp add: seg_ok_def)
  qed
  then show ?thesis by (simp add: list_all_iff)
qed

lemma clamp_sorted:
  assumes "sorted_wrt disjoint_order segs"
  shows "sorted_wrt disjoint_order (clamp_segments d segs)"
  using assms
proof (induction segs)
  case Nil
  show ?case by (simp add: clamp_segments_def)
next
  case (Cons a segs)
  have "disjoint_order y x" if y: "y \<in> set (clamp_one (f_of_int d) a)" and x: "x \<in> set (clamp_segments d segs)" for x y
  proof -
    from x obtain b where "b \<in> set segs" "x \<in> set (clamp_one (f_of_int d) b)"
      by (auto simp: clamp_segments_def)
    with clamp_one [OF y] clamp_one [of x _ b] Cons.prems show ?thesis
      by (force simp: disjoint_order_def)
  qed
  moreover have "sorted_wrt disjoint_order (clamp_one (f_of_int d) a)"
    by (simp add: clamp_one_def Let_def)
  moreover have "sorted_wrt disjoint_order (clamp_segments d segs)"
    using Cons by simp
  ultimately show ?case by (simp add: clamp_segments_def sorted_wrt_append)
qed

text \<open>The segments \<open>DetectSilence\<close> answers with, when ffmpeg reports silence in order, pass every check
  \<open>RemoveSegments\<close> makes on single segments and on their order, up to the number of segments and the
  second that has to remain.\<close>

theorem detected_silence_can_be_cut:
  assumes "run_state (DetectSilence sv ffmpeg c vid body) w = (WriteJSON 200 segs, w')"
    and "\<And>url n m. sorted_wrt disjoint_order (parseSilenceDetectOutput (ffmpeg url n m))"
    and "\<forall>v \<in> set (videos w). 0 \<le> v_duration v \<and> v_duration v \<le> 2 ^ 53"
  shows "check_segments segs = None \<and> check_order segs = None \<and>
    (\<exists>v \<in> set (videos w). v_id v = vid \<and> v_user_id v = UserID c \<and> (\<forall>s \<in> set segs. sr_end s \<le> f_of_int (v_duration v)))"
proof -
  have "wp (DetectSilence sv ffmpeg c vid body) (\<lambda>resp w'. \<forall>segs. resp = WriteJSON 200 segs \<longrightarrow>
      (\<exists>v url n m. v \<in> set (videos w) \<and> v_id v = vid \<and> v_user_id v = UserID c \<and>
        segs = clamp_segments (v_duration v) (parseSilenceDetectOutput (ffmpeg url n m)))) w"
    unfolding DetectSilence_def
    by (intro wp_steps) (auto dest!: find_where_Some)
  from wpI [OF this assms(1)] obtain v url n m where v: "v \<in> set (videos w)" "v_id v = vid" "v_user_id v = UserID c"
    and segs: "segs = clamp_segments (v_duration v) (parseSilenceDetectOutput (ffmpeg url n m))" by blast
  have d: "0 \<le> v_duration v" "v_duration v \<le> 2 ^ 53" using v assms(3) by auto
  from clamp_nth_ok [OF d, of "parseSilenceDetectOutput (ffmpeg url n m)"] parsed_starts
  have "list_all seg_ok segs" "\<forall>s \<in> set segs. sr_end s \<le> of_int (v_duration v)"
    unfolding segs by blast+
  moreover have "successively disjoint_order segs"
    unfolding segs by (intro sorted_successively clamp_sorted assms(2))
  ultimately show ?thesis
    using v d f_of_int_exact [of "v_duration v"] by (auto simp: check_segments_ok check_order_ok)
qed

definition sample_ffmpeg :: "string \<Rightarrow> int \<Rightarrow> float64 \<Rightarrow> string" where
  "sample_ffmpeg url noise d = ''[x] silence_start: 1.5'' @ [CHR 0x0A] @ ''[x] silence_end: 3.0 | d'' @ [CHR 0x0A] @
     ''[x] silence_start: 59'' @ [CHR 0x0A] @ ''[x] silence_end: 61.5''"

lemmas silence_eval = silence_line_def ParseFloat_def Let_def re_space_def re_number_def is_digit_def
  has_prefix_def digits_value_def

lemma sample_silence: "parseSilenceDetectOutput (sample_ffmpeg url n m) =
    [\<lparr>sr_start = 3 / 2, sr_end = 3\<rparr>, \<lparr>sr_start = 59, sr_end = 123 / 2\<rparr>]"
proof -
  have split: "split (sample_ffmpeg url n m) [CHR 0x0A] =
      [''[x] silence_start: 1.5'', ''[x] silence_end: 3.0 | d'', ''[x] silence_start: 59'', ''[x] silence_end: 61.5'']"
    unfolding sample_ffmpeg_def by code_simp
  have rnd: "rnd64 (3 / 2) = 3 / 2" "rnd64 3 = 3" "rnd64 59 = 59" "rnd64 (123 / 2) = 123 / 2" by code_simp+
  show ?thesis
    unfolding parseSilenceDetectOutput_def split
    by (simp add: silence_eval rnd)
qed
theorem detected_silence_can_be_cut_witness:
  "check_order (clamp_segments 60 [\<lparr>sr_start = 3 / 2, sr_end = 3\<rparr>, \<lparr>sr_start = 59, sr_end = 123 / 2\<rparr>]) = None"
proof -
  let ?w = "sample_world\<lparr>videos := [sample_video]\<rparr>"
  have run: "run_state (DetectSilence sample_services sample_ffmpeg sample_caller ''v1''
      (Some \<lparr>sl_NoiseDB = None, sl_MinDuration = None\<rparr>)) ?w =
    (WriteJSON 200 (clamp_segments 60 [\<lparr>sr_start = 3 / 2, sr_end = 3\<rparr>, \<lparr>sr_start = 59, sr_end = 123 / 2\<rparr>]), ?w)"
    by (simp add: DetectSilence_def Let_def run_simps orgScope_def sample_silence)
  have "sorted_wrt disjoint_order (parseSilenceDetectOutput (sample_ffmpeg url n m))" for url n m
    by (simp add: sample_silence disjoint_order_def)
  from detected_silence_can_be_cut [OF run this] show ?thesis by simp
qed

end
