(* ===== verification/Media_Jobs.thy ===== *)
theory Media_Jobs
  imports Segments
begin

text \<open>
  The background jobs that work on the stored file of a video: \<open>trim.go\<close>, \<open>remove_segments.go\<close>,
  \<open>composite.go\<close>, \<open>transcode.go\<close>, \<open>normalize.go\<close>, \<open>probe.go\<close>, \<open>thumbnail.go\<close> and
  \<open>stuck_processing.go\<close>. Creating a temporary file, downloading, waiting for an encoder slot and
  running a tool are each one \<open>call\<close>, which may fail; what the tools report about a stored object
  is a parameter. The recovery statements run on a context of their own, so they are statements
  like any other, after the failed one.
\<close>

subsection \<open>Tools\<close>

record videoProperties =
  vp_Width :: int
  vp_Height :: int
  vp_Level :: int
  vp_FrameRate :: float64
  vp_CodecName :: string

text \<open>
  What \<open>ffmpeg\<close> and \<open>ffprobe\<close> report for the object at a key: the size of the frame extracted at
  a second, whether there is sound, the number of video frames, the parsed properties (\<open>None\<close>
  when the report does not parse or lists no stream), the properties and the size of what
  it was encoded to, and the duration (\<open>None\<close> when it does not parse).
\<close>

record tools =
  frame_size :: "string \<Rightarrow> int \<Rightarrow> int"
  has_audio :: "string \<Rightarrow> bool"
  video_frames :: "string \<Rightarrow> int"
  properties :: "string \<Rightarrow> videoProperties option"
  output_properties :: "string \<Rightarrow> videoProperties option"
  output_size :: "string \<Rightarrow> int"
  probed_seconds :: "string \<Rightarrow> float64 option"

text \<open>\<open>if err := f(); err != nil { fail; return }\<close>, with the error's text for \<open>fail\<close>.\<close>

definition attempt :: "(string \<Rightarrow> 'a prog) \<Rightarrow> 'a prog \<Rightarrow> 'a prog" where
  "attempt fail k = do { e \<leftarrow> call; case e of Some msg \<Rightarrow> fail msg | None \<Rightarrow> k }"

definition stop :: "string \<Rightarrow> unit prog" where
  "stop msg = State_Monad.return ()"

text \<open>\<open>storage.UploadFile\<close>, with the same shape.\<close>

definition attempt_upload :: "string \<Rightarrow> string \<Rightarrow> (string \<Rightarrow> unit prog) \<Rightarrow> unit prog \<Rightarrow> unit prog" where
  "attempt_upload key contentType fail k = do {
     e \<leftarrow> service (StoreUpload key contentType);
     case e of Some msg \<Rightarrow> fail msg | None \<Rightarrow> k }"

text \<open>A statement whose error is only logged.\<close>

definition logged :: "(db_error + 'a) prog \<Rightarrow> unit prog" where
  "logged m = do { _ \<leftarrow> m; State_Monad.return () }"

subsection \<open>Thumbnails (\<open>thumbnail.go\<close>)\<close>

definition GenerateThumbnail :: "tools \<Rightarrow> string \<Rightarrow> string \<Rightarrow> string \<Rightarrow> unit prog" where
  "GenerateThumbnail tool videoID fileKey thumbnailKey =
     attempt stop (
     attempt stop (
     attempt stop (
     attempt stop (do {
       stat \<leftarrow> call;
       size \<leftarrow> (if stat = None \<and> frame_size tool fileKey 2 = 0
         then do { e \<leftarrow> call; State_Monad.return (if e \<noteq> None then None else Some (frame_size tool fileKey 0)) }
         else State_Monad.return (Some (frame_size tool fileKey 2)));
       case size of None \<Rightarrow> State_Monad.return ()
       | Some n \<Rightarrow> do {
           stat \<leftarrow> call;
           if stat \<noteq> None \<or> n = 0 then State_Monad.return ()
           else attempt_upload thumbnailKey ''image/jpeg'' stop
             (logged (update_videos (\<lambda>w v. v_id v = videoID)
               (\<lambda>w v. v\<lparr>v_thumbnail_key := Some thumbnailKey, v_updated_at := now w\<rparr>)))
         }
     }))))"

record thumbnail_request =
  th_ContentType :: string
  th_ContentLength :: int

definition maxThumbnailUploadBytes :: int where
  "maxThumbnailUploadBytes = 2 * 1024 * 1024"

definition UploadThumbnail :: "services \<Rightarrow> rctx \<Rightarrow> string \<Rightarrow> thumbnail_request option \<Rightarrow> string response prog" where
  "UploadThumbnail sv c videoID body = (case body of
     None \<Rightarrow> State_Monad.return (WriteError 400 ''invalid request body'')
   | Some req \<Rightarrow>
     if th_ContentType req \<noteq> ''image/jpeg'' \<and> th_ContentType req \<noteq> ''image/png'' \<and> th_ContentType req \<noteq> ''image/webp''
       then State_Monad.return (WriteError 400 ''thumbnail must be JPEG, PNG, or WebP'')
     else if th_ContentLength req \<le> 0 \<or> th_ContentLength req > maxThumbnailUploadBytes
       then State_Monad.return (WriteError 400 ''thumbnail must be 2MB or smaller'')
     else do {
       row \<leftarrow> select_row (\<lambda>w. find_where (orgVideoFilter c videoID (\<lambda>v. v_status v = Ready)) (videos w));
       case row of Inl _ \<Rightarrow> State_Monad.return (WriteError 404 ''video not found'')
       | Inr v \<Rightarrow>
         let thumbKey = thumbnailFileKey (v_user_id v) (v_share_token v) in
         attempt (\<lambda>_. State_Monad.return (WriteError 500 ''failed to generate upload URL'')) (do {
           r \<leftarrow> update_videos (\<lambda>w v. v_id v = videoID)
             (\<lambda>w v. v\<lparr>v_thumbnail_key := Some thumbKey, v_updated_at := now w\<rparr>);
           case r of Inl _ \<Rightarrow> State_Monad.return (WriteError 500 ''failed to update thumbnail'')
           | Inr _ \<Rightarrow> State_Monad.return (WriteJSON 200
               (upload_url sv thumbKey (th_ContentType req) (th_ContentLength req)))
         })
     })"

definition ResetThumbnail :: "rctx \<Rightarrow> string \<Rightarrow> unit response prog" where
  "ResetThumbnail c videoID = do {
     row \<leftarrow> select_row (\<lambda>w. find_where (orgVideoFilter c videoID (\<lambda>v. v_status v = Ready)) (videos w));
     case row of Inl _ \<Rightarrow> State_Monad.return (WriteError 404 ''video not found'')
     | Inr v \<Rightarrow> do {
         spawn (JobThumbnail videoID (v_file_key v) (thumbnailFileKey (v_user_id v) (v_share_token v)));
         State_Monad.return (WriteHeader 202)
       }
   }"

subsection \<open>Trim and cut\<close>

definition setReadyFallback :: "string \<Rightarrow> unit prog" where
  "setReadyFallback videoID = logged (update_videos
     (\<lambda>w v. v_id v = videoID \<and> v_status v = Processing)
     (\<lambda>w v. v\<lparr>v_status := Ready, v_processing_started_at := None, v_updated_at := now w\<rparr>))"

definition edit_done :: "string \<Rightarrow> int \<Rightarrow> (db_error + nat) prog" where
  "edit_done videoID newDuration = update_videos (\<lambda>w v. v_id v = videoID)
     (\<lambda>w v. v\<lparr>v_status := Ready, v_duration := newDuration, v_processing_started_at := None,
        v_updated_at := now w\<rparr>)"

definition finish_edit :: "tools \<Rightarrow> config \<Rightarrow> string \<Rightarrow> string \<Rightarrow> string \<Rightarrow> int \<Rightarrow> unit prog" where
  "finish_edit tool h videoID fileKey thumbnailKey newDuration = do {
     r \<leftarrow> edit_done videoID newDuration;
     case r of Inl _ \<Rightarrow> State_Monad.return ()
     | Inr _ \<Rightarrow> do {
         GenerateThumbnail tool videoID fileKey thumbnailKey;
         _ \<leftarrow> EnqueueTranscription h videoID;
         State_Monad.return ()
       }
   }"

text \<open>The calls of \<open>TrimVideoAsync\<close> before the upload: temporary file, download, temporary file,
  and in \<open>trimVideo\<close> the encoder slot and ffmpeg.\<close>

definition TrimVideoAsync :: "tools \<Rightarrow> config \<Rightarrow> string \<Rightarrow> string \<Rightarrow> string \<Rightarrow> string \<Rightarrow> float64 \<Rightarrow> float64 \<Rightarrow> unit prog" where
  "TrimVideoAsync tool h videoID fileKey thumbnailKey contentType startSeconds endSeconds =
     (let fail = (\<lambda>_. setReadyFallback videoID) in
      attempt fail (
      attempt fail (
      attempt fail (
      attempt fail (
      attempt fail (
      attempt_upload fileKey contentType fail
        (finish_edit tool h videoID fileKey thumbnailKey (f_to_int (f_sub endSeconds startSeconds)))))))))"

text \<open>As \<open>TrimVideoAsync\<close>, with the sound probe (whose failure counts as no sound) after the download
  and \<open>probeVideoProperties\<close> of the result after ffmpeg.\<close>

definition RemoveSegmentsAsync :: "tools \<Rightarrow> config \<Rightarrow> string \<Rightarrow> string \<Rightarrow> string \<Rightarrow> string \<Rightarrow> segment_range list \<Rightarrow> int \<Rightarrow> unit prog" where
  "RemoveSegmentsAsync tool h videoID fileKey thumbnailKey contentType segments originalDuration =
     (let fail = (\<lambda>_. setReadyFallback videoID) in
      attempt fail (
      attempt fail (do {
        _ \<leftarrow> call;
        attempt fail (
        attempt fail (
        attempt fail (
        attempt fail (
        if output_properties tool fileKey = None then fail []
        else attempt_upload fileKey contentType fail
          (finish_edit tool h videoID fileKey thumbnailKey (new_duration originalDuration segments)))))) })))"

subsection \<open>Webcam overlay (\<open>composite.go\<close>)\<close>

definition buildCompositeArgs :: "string \<Rightarrow> string \<Rightarrow> string \<Rightarrow> string \<Rightarrow> string list" where
  "buildCompositeArgs screenPath webcamPath outputPath contentType =
     (let pipSetup = ''[1:v]setpts=PTS-STARTPTS,scale=240:-1,pad=iw+8:ih+8:(ow-iw)/2:(oh-ih)/2:color=black@0.3[pip]'';
          filterComplex = ''[0:v]'' @ scale_filter @ ''[screen];'' @ pipSetup @ '';[screen][pip]overlay=W-w-20:H-h-20[vout]'';
          args = globalThreads @ inputThreads @ [''-i'', screenPath] @ inputThreads @
            [''-i'', webcamPath, ''-filter_complex'', filterComplex, ''-map'', ''[vout]'', ''-map'', ''0:a?''] @
            (if contentType = ''video/mp4'' \<or> contentType = ''video/quicktime''
             then [''-c:v'', ''libx264'', ''-profile:v'', ''high'', ''-level:v'', ''5.1'', ''-preset'', ''fast'', ''-crf'', ''23'',
               ''-r'', ''60'', ''-c:a'', ''aac'', ''-movflags'', ''+faststart'']
             else [''-c:a'', ''copy'', ''-c:v'', ''libvpx-vp9''])
      in appendEncoderBounds args contentType @ [''-y'', outputPath])"

definition compositeFallback :: "string \<Rightarrow> unit prog" where
  "compositeFallback videoID = logged (update_videos
     (\<lambda>w v. v_id v = videoID \<and> v_status v = Processing)
     (\<lambda>w v. v\<lparr>v_status := Ready, v_webcam_key := None, v_processing_started_at := None, v_updated_at := now w\<rparr>))"

definition composite_finish :: "tools \<Rightarrow> config \<Rightarrow> string \<Rightarrow> string \<Rightarrow> string \<Rightarrow> string \<Rightarrow> unit prog" where
  "composite_finish tool h videoID screenKey webcamKey thumbnailKey = do {
     _ \<leftarrow> service (StoreDelete webcamKey);
     r \<leftarrow> update_videos (\<lambda>w v. v_id v = videoID)
       (\<lambda>w v. v\<lparr>v_status := Ready, v_webcam_key := None, v_processing_started_at := None, v_updated_at := now w\<rparr>);
     case r of Inl _ \<Rightarrow> State_Monad.return ()
     | Inr _ \<Rightarrow> do {
         GenerateThumbnail tool videoID screenKey thumbnailKey;
         _ \<leftarrow> EnqueueTranscription h videoID;
         State_Monad.return ()
       }
   }"

definition CompositeWithWebcam :: "tools \<Rightarrow> config \<Rightarrow> string \<Rightarrow> string \<Rightarrow> string \<Rightarrow> string \<Rightarrow> string \<Rightarrow> unit prog" where
  "CompositeWithWebcam tool h videoID screenKey webcamKey thumbnailKey contentType =
     (let fail = (\<lambda>_. compositeFallback videoID) in
      attempt fail (
      attempt fail (
      attempt fail (
      attempt fail (
      attempt fail (
      if video_frames tool screenKey = 0 then fail [] else
      attempt fail (
      if video_frames tool webcamKey = 0 then fail [] else
      attempt fail (
      attempt fail (
      attempt fail (
      attempt_upload screenKey contentType fail
        (composite_finish tool h videoID screenKey webcamKey thumbnailKey)))))))))))"

subsection \<open>Transcoding and normalizing (\<open>transcode.go\<close>, \<open>normalize.go\<close>)\<close>

definition buildTranscodeArgs :: "string \<Rightarrow> string \<Rightarrow> string \<Rightarrow> string list" where
  "buildTranscodeArgs inputPath outputPath audioFilter =
     (let args = globalThreads @ inputThreads @
        [''-i'', inputPath, ''-c:v'', ''libx264'', ''-profile:v'', ''high'', ''-level:v'', ''5.1'', ''-preset'', ''fast'',
         ''-crf'', ''23'', ''-vf'', scale_filter, ''-r'', ''60''];
        args = appendEncoderBounds args ''video/mp4'';
        args = (if audioFilter \<noteq> [] then args @ [''-af'', audioFilter] else args)
      in args @ [''-c:a'', ''aac'', ''-movflags'', ''+faststart'', ''-y'', outputPath])"

definition maxTranscodeAttempts :: int where "maxTranscodeAttempts = 5"

definition permanentFFmpegErrors :: "string list" where
  "permanentFFmpegErrors = [''Invalid data found when processing input'', ''EBML header parsing failed'',
     ''moov atom not found'']"

definition isPermanentFFmpegError :: "string \<Rightarrow> bool" where
  "isPermanentFFmpegError msg = list_ex (\<lambda>marker. contains msg marker) permanentFFmpegErrors"

definition failure_text :: "string \<Rightarrow> string" where
  "failure_text cause = (let msg = (if length cause > 2000 then take 2000 cause else cause)
     in filter (\<lambda>c. c \<noteq> CHR 0x00) (to_valid_utf8 msg))"

definition recordTranscodeFailure :: "string \<Rightarrow> string \<Rightarrow> unit prog" where
  "recordTranscodeFailure videoID cause = logged (update_video_returning
     (\<lambda>w v. v_id v = videoID)
     (\<lambda>w v. v\<lparr>v_transcode_attempts := (if isPermanentFFmpegError cause then maxTranscodeAttempts
          else v_transcode_attempts v + 1),
        v_transcode_error := Some (failure_text cause), v_updated_at := now w\<rparr>))"

definition clearTranscodeFailure :: "string \<Rightarrow> unit prog" where
  "clearTranscodeFailure videoID = logged (update_videos (\<lambda>w v. v_id v = videoID)
     (\<lambda>w v. v\<lparr>v_transcode_attempts := 0, v_transcode_error := None\<rparr>))"

text \<open>The text of an error of \<open>transcodeToMP4\<close> and \<open>transcodeToIOSCompatible\<close>: that of the context when no
  encoder slot came free, otherwise that of ffmpeg under a prefix.\<close>

definition attempt_encode :: "string \<Rightarrow> (string \<Rightarrow> unit prog) \<Rightarrow> unit prog \<Rightarrow> unit prog" where
  "attempt_encode prefix fail k = attempt fail (attempt (\<lambda>msg. fail (prefix @ msg)) k)"

definition TranscodeWebMAsync :: "tools \<Rightarrow> string \<Rightarrow> string \<Rightarrow> string \<Rightarrow> unit prog" where
  "TranscodeWebMAsync tool videoID fileKey audioFilter = do {
     row \<leftarrow> select_row (\<lambda>w. find_where (\<lambda>v. v_id v = videoID) (videos w));
     case row of Inl _ \<Rightarrow> State_Monad.return ()
     | Inr v \<Rightarrow>
       if v_content_type v \<noteq> ''video/webm'' then State_Monad.return ()
       else if v_transcode_attempts v \<ge> maxTranscodeAttempts then State_Monad.return ()
       else
         let fail = recordTranscodeFailure videoID;
             newFileKey = trim_suffix fileKey ''.webm'' @ ''.mp4''
         in
         attempt stop (
         attempt fail (
         attempt stop (
         attempt_encode ''ffmpeg transcode: '' fail (
         attempt stop (
         attempt_upload newFileKey ''video/mp4'' fail (do {
           r \<leftarrow> update_videos (\<lambda>w v. v_id v = videoID)
             (\<lambda>w v. v\<lparr>v_file_key := newFileKey, v_content_type := ''video/mp4'',
                v_file_size := output_size tool fileKey, v_cues_fixed := True, v_ios_normalized := True,
                v_updated_at := now w\<rparr>);
           case r of Inl e \<Rightarrow> fail (db_error_text e)
           | Inr _ \<Rightarrow> do {
               _ \<leftarrow> service (StoreDelete fileKey);
               clearTranscodeFailure videoID
             }
         }))))))
   }"

definition iOSMaxWidth :: int where "iOSMaxWidth = 1920"
definition iOSMaxHeight :: int where "iOSMaxHeight = 1080"
definition iOSMaxLevel :: int where "iOSMaxLevel = 51"
definition iOSMaxFPS :: int where "iOSMaxFPS = 60"

definition needsNormalization :: "videoProperties \<Rightarrow> bool" where
  "needsNormalization p =
     (if vp_CodecName p \<noteq> ''h264'' then True
      else if vp_Width p > iOSMaxWidth \<or> vp_Height p > iOSMaxHeight then True
      else if vp_Level p > iOSMaxLevel then True
      else if vp_FrameRate p > f_of_int iOSMaxFPS then True
      else False)"

text \<open>\<open>parseFrameRate\<close> over \<open>strconv.ParseFloat\<close>.\<close>

definition parseFrameRate :: "(string \<Rightarrow> float64 option) \<Rightarrow> string \<Rightarrow> float64" where
  "parseFrameRate pf raw = (let raw = trim_space raw in
     if raw = [] then 0
     else case index_of raw ''/'' of
       None \<Rightarrow> (case pf raw of None \<Rightarrow> 0 | Some f \<Rightarrow> f)
     | Some i \<Rightarrow> (case pf (take i raw) of None \<Rightarrow> 0
         | Some num \<Rightarrow> (case pf (drop (i + 1) raw) of None \<Rightarrow> 0
             | Some den \<Rightarrow> if den = 0 then 0 else f_div num den)))"

definition markIOSNormalized :: "string \<Rightarrow> unit prog" where
  "markIOSNormalized videoID = logged (update_videos (\<lambda>w v. v_id v = videoID)
     (\<lambda>w v. v\<lparr>v_ios_normalized := True, v_updated_at := now w\<rparr>))"

definition NormalizeVideoAsync :: "tools \<Rightarrow> string \<Rightarrow> string \<Rightarrow> string \<Rightarrow> unit prog" where
  "NormalizeVideoAsync tool videoID fileKey audioFilter = do {
     row \<leftarrow> select_row (\<lambda>w. find_where (\<lambda>v. v_id v = videoID) (videos w));
     case row of Inl _ \<Rightarrow> State_Monad.return ()
     | Inr v \<Rightarrow>
       if v_ios_normalized v then State_Monad.return ()
       else if v_transcode_attempts v \<ge> maxTranscodeAttempts then State_Monad.return ()
       else
         let fail = recordTranscodeFailure videoID in
         attempt stop (
         attempt fail (
         attempt (\<lambda>_. markIOSNormalized videoID) (
         case properties tool fileKey of None \<Rightarrow> markIOSNormalized videoID
         | Some props \<Rightarrow>
         if \<not> needsNormalization props then markIOSNormalized videoID
         else
         attempt stop (
         attempt_encode ''ffmpeg normalize: '' fail (
         attempt stop (
         attempt_upload fileKey ''video/mp4'' fail (do {
           r \<leftarrow> update_videos (\<lambda>w v. v_id v = videoID)
             (\<lambda>w v. v\<lparr>v_file_size := output_size tool fileKey, v_ios_normalized := True,
                v_updated_at := now w\<rparr>);
           case r of Inl e \<Rightarrow> fail (db_error_text e)
           | Inr _ \<Rightarrow> clearTranscodeFailure videoID
         })))))))
   }"

text \<open>The two rounds of the worker: the newest 50 candidates, one after the other.\<close>

definition newest50 :: "(world \<Rightarrow> video \<Rightarrow> bool) \<Rightarrow> (db_error + video list) prog" where
  "newest50 P = select_rows (\<lambda>w. take 50 (sort_key (\<lambda>v. - v_created_at v) (filter (P w) (videos w))))"

definition transcodeExistingWebM :: "tools \<Rightarrow> unit prog" where
  "transcodeExistingWebM tool = do {
     rows \<leftarrow> newest50 (\<lambda>w v. v_content_type v = ''video/webm'' \<and> v_status v = Ready \<and>
       v_created_at v < now w - minutes 5 \<and> v_transcode_attempts v < maxTranscodeAttempts);
     case rows of Inl _ \<Rightarrow> State_Monad.return ()
     | Inr vs \<Rightarrow> do {
         _ \<leftarrow> State_Monad.traverse_list (\<lambda>v. TranscodeWebMAsync tool (v_id v) (v_file_key v) []) vs;
         State_Monad.return ()
       }
   }"

definition normalizeExistingVideos :: "tools \<Rightarrow> unit prog" where
  "normalizeExistingVideos tool = do {
     rows \<leftarrow> newest50 (\<lambda>w v. v_content_type v \<in> {''video/mp4'', ''video/quicktime''} \<and> v_status v = Ready \<and>
       \<not> v_ios_normalized v \<and> v_created_at v < now w - minutes 5 \<and>
       v_transcode_attempts v < maxTranscodeAttempts);
     case rows of Inl _ \<Rightarrow> State_Monad.return ()
     | Inr vs \<Rightarrow> do {
         _ \<leftarrow> State_Monad.traverse_list (\<lambda>v. NormalizeVideoAsync tool (v_id v) (v_file_key v) []) vs;
         State_Monad.return ()
       }
   }"

subsection \<open>Duration probe (\<open>probe.go\<close>) and the sweep of stuck rows (\<open>stuck_processing.go\<close>)\<close>

definition probeDuration :: "tools \<Rightarrow> string \<Rightarrow> string \<Rightarrow> unit prog" where
  "probeDuration tool videoID fileKey =
     attempt stop (
     attempt stop (
     attempt stop (
     case probed_seconds tool fileKey of None \<Rightarrow> State_Monad.return ()
     | Some durationFloat \<Rightarrow>
       let duration = f_to_int durationFloat in
       if duration \<le> 0 then State_Monad.return ()
       else logged (update_videos (\<lambda>w v. v_id v = videoID)
         (\<lambda>w v. v\<lparr>v_duration := duration, v_updated_at := now w\<rparr>)))))"

definition stuckProcessingAfter :: time where "stuckProcessingAfter = minutes 15"

definition is_stuck :: "world \<Rightarrow> video \<Rightarrow> bool" where
  "is_stuck w v \<longleftrightarrow> v_status v = Processing \<and>
     (case v_processing_started_at v of None \<Rightarrow> True | Some t \<Rightarrow> t < now w - stuckProcessingAfter)"

definition resetStuckProcessing :: "unit prog" where
  "resetStuckProcessing = logged (update_videos is_stuck
     (\<lambda>w v. v\<lparr>v_status := Ready, v_webcam_key := None, v_processing_started_at := None, v_updated_at := now w\<rparr>))"

subsection \<open>Which rows a job touches\<close>

lemmas job_defs = attempt_def stop_def attempt_upload_def logged_def setReadyFallback_def edit_done_def
  finish_edit_def composite_finish_def GenerateThumbnail_def compositeFallback_def recordTranscodeFailure_def
  clearTranscodeFailure_def attempt_encode_def markIOSNormalized_def EnqueueTranscription_def Let_def

lemma GenerateThumbnail_ident: "state_io_rel ident.R (GenerateThumbnail tool vid fk tk)"
  unfolding job_defs by (intro ident.walk_all) (simp_all add: same_identity_def)

lemma GenerateThumbnail_within: "state_io_rel (only_rows (\<lambda>v. v_id v = vid)) (GenerateThumbnail tool vid fk tk)"
  unfolding job_defs by (intro within.walk_all) simp_all

lemma TrimVideoAsync_ident: "state_io_rel ident.R (TrimVideoAsync tool h vid fk tk ct a b)"
  unfolding TrimVideoAsync_def job_defs by (intro ident.walk_all) (simp_all add: same_identity_def)

lemma TrimVideoAsync_within: "state_io_rel (only_rows (\<lambda>v. v_id v = vid)) (TrimVideoAsync tool h vid fk tk ct a b)"
  unfolding TrimVideoAsync_def job_defs by (intro within.walk_all) simp_all

lemma RemoveSegmentsAsync_ident: "state_io_rel ident.R (RemoveSegmentsAsync tool h vid fk tk ct segs d)"
  unfolding RemoveSegmentsAsync_def job_defs by (intro ident.walk_all) (simp_all add: same_identity_def)

lemma RemoveSegmentsAsync_within:
  "state_io_rel (only_rows (\<lambda>v. v_id v = vid)) (RemoveSegmentsAsync tool h vid fk tk ct segs d)"
  unfolding RemoveSegmentsAsync_def job_defs by (intro within.walk_all) simp_all

lemma CompositeWithWebcam_ident: "state_io_rel ident.R (CompositeWithWebcam tool h vid fk wk tk ct)"
  unfolding CompositeWithWebcam_def job_defs by (intro ident.walk_all) (simp_all add: same_identity_def)

lemma CompositeWithWebcam_within:
  "state_io_rel (only_rows (\<lambda>v. v_id v = vid)) (CompositeWithWebcam tool h vid fk wk tk ct)"
  unfolding CompositeWithWebcam_def job_defs by (intro within.walk_all) simp_all

lemma TranscodeWebMAsync_ages: "state_io_rel rows_age (TranscodeWebMAsync tool vid fk af)"
  unfolding TranscodeWebMAsync_def job_defs by (intro ages.walk_all) (simp_all add: row_ages_def same_identity_def)

lemma TranscodeWebMAsync_within: "state_io_rel (only_rows (\<lambda>v. v_id v = vid)) (TranscodeWebMAsync tool vid fk af)"
  unfolding TranscodeWebMAsync_def job_defs by (intro within.walk_all) simp_all

lemma NormalizeVideoAsync_ages: "state_io_rel rows_age (NormalizeVideoAsync tool vid fk af)"
  unfolding NormalizeVideoAsync_def job_defs by (intro ages.walk_all) (simp_all add: row_ages_def same_identity_def)

lemma NormalizeVideoAsync_within: "state_io_rel (only_rows (\<lambda>v. v_id v = vid)) (NormalizeVideoAsync tool vid fk af)"
  unfolding NormalizeVideoAsync_def job_defs by (intro within.walk_all) simp_all

lemma transcodeExistingWebM_ages: "state_io_rel rows_age (transcodeExistingWebM tool)"
  unfolding transcodeExistingWebM_def newest50_def
  by (intro ages.walk_all ages.traverse TranscodeWebMAsync_ages)

lemma normalizeExistingVideos_ages: "state_io_rel rows_age (normalizeExistingVideos tool)"
  unfolding normalizeExistingVideos_def newest50_def
  by (intro ages.walk_all ages.traverse NormalizeVideoAsync_ages)

lemma probeDuration_ages: "state_io_rel rows_age (probeDuration tool vid fk)"
  unfolding probeDuration_def job_defs by (intro ages.walk_all) (simp_all add: row_ages_def same_identity_def)

lemma resetStuckProcessing_ages: "state_io_rel rows_age resetStuckProcessing"
  unfolding resetStuckProcessing_def job_defs
  by (intro ages.walk_all) (auto simp: row_ages_def same_identity_def is_stuck_def)

subsection \<open>A row that is processing has a start time\<close>

definition started_ok :: "video \<Rightarrow> bool" where
  "started_ok v \<longleftrightarrow> (v_status v = Processing \<longrightarrow> v_processing_started_at v \<noteq> None) \<and>
     (v_status v = Uploading \<or> v_status v = Ready \<longrightarrow> v_processing_started_at v = None)"

interpretation started: row_invariant started_ok .

lemma requests_started:
  "state_io_rel started.all_rows (Trim c vid body)"
  "state_io_rel started.all_rows (RemoveSegments c vid segs)"
  "state_io_rel started.all_rows (Delete h c vid)"
  unfolding Trim_def RemoveSegments_def claim_processing_def Delete_def dispatchWebhook_def
  by (intro started.walk_all; simp add: started_ok_def)+

lemma create_started:
  "state_io_rel started.all_rows (Create h sv c token newID body)"
  "state_io_rel started.all_rows (Upload h sv c token newID ubody)"
  unfolding Create_def Upload_def callerPlan_def checkQuota_def dispatchWebhook_def getOrgPlan_def getUserPlan_def
    countVideosThisMonth_def countOrgVideosThisMonth_def
  by (intro started.walk_all; simp add: started_ok_def)+

lemma EnqueueJob_started: "state_io_rel started.all_rows (EnqueueJob h t vid p)"
  by (cases t) (auto simp: EnqueueTranscription_def started_ok_def intro!: started.walk_all)

lemma update_started: "state_io_rel started.all_rows (Update h sv c vid ubody2)"
  unfolding Update_def Update_ready_def Update_title_def after_finalize_def audio_filter_def start_jobs_def
    if_do_def dispatchWebhook_def
  by (intro started.walk_all EnqueueJob_started) (simp_all add: started_ok_def)

lemma jobs_started:
  "state_io_rel started.all_rows (TrimVideoAsync tool h vid fk tk ct a b)"
  "state_io_rel started.all_rows (RemoveSegmentsAsync tool h vid fk tk ct segs d)"
  "state_io_rel started.all_rows (CompositeWithWebcam tool h vid fk wk tk ct)"
  "state_io_rel started.all_rows (TranscodeWebMAsync tool vid fk af)"
  "state_io_rel started.all_rows (NormalizeVideoAsync tool vid fk af)"
  "state_io_rel started.all_rows (probeDuration tool vid fk)"
  "state_io_rel started.all_rows (GenerateThumbnail tool vid fk tk)"
  "state_io_rel started.all_rows resetStuckProcessing"
  unfolding TrimVideoAsync_def RemoveSegmentsAsync_def CompositeWithWebcam_def TranscodeWebMAsync_def
    NormalizeVideoAsync_def probeDuration_def resetStuckProcessing_def job_defs
  by (intro started.walk_all; simp add: started_ok_def)+

end
