(* ===== verification/Video_Crud_Facts.thy ===== *)
theory Video_Crud_Facts
  imports Video_Crud
begin

text \<open>
  What the requests of \<open>Video_Crud\<close> guarantee: the row a \<open>Create\<close> inserts, the monthly quota, what
  finalizing checks and starts, what trimming and deleting leave.
\<close>

lemma wp_callerPlanI: "(\<And>p. p = plan_read c w \<Longrightarrow> Q p (tick w)) \<Longrightarrow> wp (callerPlan c) Q w"
  by simp

lemma wp_checkQuotaI:
  "(\<And>m. Q (Inl (DbFail m)) (tick w)) \<Longrightarrow>
   (\<And>n. mx > 0 \<Longrightarrow> n = videosThisMonth sv (quota_scope c) w \<Longrightarrow> Q (Inr n) (tick w)) \<Longrightarrow>
   (mx \<le> 0 \<Longrightarrow> Q (Inr 0) w) \<Longrightarrow> wp (checkQuota sv c mx) Q w"
  by (simp split: option.split)

text \<open>What a 201 of \<open>Create\<close> says of the request, the caller's plan and the new row.\<close>

definition created :: "config \<Rightarrow> services \<Rightarrow> rctx \<Rightarrow> world \<Rightarrow> create_request \<Rightarrow> create_response
    \<Rightarrow> video \<Rightarrow> bool" where
  "created h sv c w req r v \<longleftrightarrow>
     v_id v = rs_ID r \<and> v_share_token v = rs_ShareToken r \<and> v_user_id v = UserID c \<and>
     in_scope c v \<and> v_status v = Uploading \<and> v_created_at v = now w \<and>
     v_title v = or_default (cr_Title req) ''Untitled Recording'' \<and> length (v_title v) \<le> 500 \<and>
     v_duration v = cr_Duration req \<and> 1 \<le> cr_Duration req \<and>
     v_file_size v = cr_FileSize req \<and> 0 < cr_FileSize req \<and>
     (maxUploadBytes h > 0 \<longrightarrow> cr_FileSize req \<le> maxUploadBytes h) \<and>
     v_content_type v \<in> {''video/webm'', ''video/mp4''} \<and>
     v_file_key v = videoFileKey (v_user_id v) (v_share_token v) (v_content_type v) \<and>
     (v_webcam_key v \<noteq> None \<longleftrightarrow> cr_WebcamFileSize req > 0) \<and>
     (\<not> IsPaid (plan_read c w) \<and> maxVideoDurationSeconds h > 0 \<longrightarrow> cr_Duration req \<le> maxVideoDurationSeconds h) \<and>
     (\<not> IsPaid (plan_read c w) \<and> maxVideosPerMonth h > 0 \<longrightarrow>
        int (videosThisMonth sv (quota_scope c) w) < maxVideosPerMonth h)"

lemma Create_wp:
  "wp (Create h sv c token newID body) (\<lambda>resp w'. \<forall>r. resp = WriteJSON 201 r \<longrightarrow>
    (\<exists>req v. body = Some req \<and> videos w' = videos w @ [v] \<and> v_id v \<notin> v_id ` set (videos w) \<and>
      v_share_token v \<notin> v_share_token ` set (videos w) \<and> now w' = now w \<and> created h sv c w req r v)) w"
  unfolding Create_def dispatchWebhook_def
  apply (intro wp_steps wp_callerPlanI wp_checkQuotaI)
  apply (simp_all add: in_scope_def orgScope_def created_def validate_Title_ok plan_limit_def webcam_key_for_def)
  apply (force split: if_splits)+
  done

text \<open>Any other answer of \<open>Create\<close> and \<open>Upload\<close> leaves no row unless a presigning call failed.\<close>

definition Upload_quota :: "config \<Rightarrow> services \<Rightarrow> rctx \<Rightarrow> world \<Rightarrow> bool" where
  "Upload_quota h sv c w \<longleftrightarrow> (\<not> IsPaid (plan_read c w) \<and> maxVideosPerMonth h > 0 \<longrightarrow>
        int (videosThisMonth sv (quota_scope c) w) < maxVideosPerMonth h)"

lemma Upload_wp:
  "wp (Upload h sv c token newID body) (\<lambda>resp w'. (videos w' = videos w \<and> now w' = now w \<and> status_code resp \<noteq> 201) \<or>
    (\<exists>v. videos w' = videos w @ [v] \<and> now w' = now w \<and> status_code resp \<in> {201, 500} \<and>
      Upload_quota h sv c w)) w"
  unfolding Upload_def
  apply (intro wp_steps wp_callerPlanI wp_checkQuotaI)
  apply (simp_all add: Upload_quota_def plan_limit_def)
  apply (force split: if_splits)+
  done

lemma Create_rows:
  "wp (Create h sv c token newID body) (\<lambda>resp w'. (videos w' = videos w \<and> now w' = now w \<and> status_code resp \<noteq> 201) \<or>
    (\<exists>v. videos w' = videos w @ [v] \<and> now w' = now w \<and> status_code resp \<in> {201, 500} \<and>
      Upload_quota h sv c w)) w"
  unfolding Create_def dispatchWebhook_def
  apply (intro wp_steps wp_callerPlanI wp_checkQuotaI)
  apply (simp_all add: Upload_quota_def plan_limit_def)
  apply (force split: if_splits)+
  done

subsection \<open>Creating videos\<close>

definition sample_create :: create_request where
  "sample_create = \<lparr>cr_Title = [], cr_Duration = 60, cr_FileSize = 1000, cr_WebcamFileSize = 0,
     cr_ContentType = ''video/mp4'', cr_WebcamContentType = []\<rparr>"

text \<open>A 201 from \<open>Create\<close> inserts exactly one row, in the caller's scope, with the keys, limits and
  status the request and the plan imply, under an id and a share token that were free.\<close>

theorem create_inserts_one_row:
  assumes "run_state (Create h sv c token newID body) w = (WriteJSON 201 r, w')"
  shows "\<exists>req v. body = Some req \<and> videos w' = videos w @ [v] \<and> created h sv c w req r v \<and>
    v_id v \<notin> v_id ` set (videos w) \<and> v_share_token v \<notin> v_share_token ` set (videos w)"
  using wpI [OF Create_wp assms] by blast

lemma sample_create_run:
  "run_state (Create sample_config sample_services sample_caller (Some ''tok2'') ''v2'' (Some sample_create)) sample_world
   = (WriteJSON 201 \<lparr>rs_ID = ''v2'', rs_UploadURL = ''put:recordings/u1/tok2.mp4'', rs_ShareToken = ''tok2'',
        rs_WebcamUploadURL = []\<rparr>,
      sample_world\<lparr>videos := [new_video ''v2'' ''u1'' None ''Untitled Recording'' 60 1000
        ''recordings/u1/tok2.mp4'' ''tok2'' None ''video/mp4'' (days 40)]\<rparr>)"
  by (simp add: Create_def callerPlan_def getUserPlan_def checkQuota_def countVideosThisMonth_def
      videosThisMonth_def plan_limit_def or_default_def validate_Title_def checkLen_def webcam_key_for_def
      videoFileKey_def extensionForContentType_def dispatchWebhook_def orgScope_def sample_create_def
      IsPaid_def Rank_def Let_def run_simps)

theorem create_inserts_one_row_witness:
  "\<exists>v. videos (snd (run_state (Create sample_config sample_services sample_caller (Some ''tok2'') ''v2''
     (Some sample_create)) sample_world)) = [v] \<and> v_id v = ''v2'' \<and> v_status v = Uploading"
  using create_inserts_one_row [OF sample_create_run]
  by (auto simp: sample_create_run created_def)

text \<open>For a caller without a paid plan, neither \<open>Create\<close> nor \<open>Upload\<close>, whatever they answer, lifts the
  number of this month's videos in the caller's workspace above the configured limit.\<close>

theorem month_quota:
  assumes "run_state m w = (resp, w')"
    and "m = Create h sv c token newID cbody \<or> m = Upload h sv c token newID ubody"
    and "\<not> IsPaid (caller_plan c w)" "maxVideosPerMonth h > 0"
    and "int (videosThisMonth sv (quota_scope c) w) \<le> maxVideosPerMonth h"
  shows "int (videosThisMonth sv (quota_scope c) w') \<le> maxVideosPerMonth h"
proof -
  have "(videos w' = videos w \<and> now w' = now w) \<or>
      (\<exists>v. videos w' = videos w @ [v] \<and> now w' = now w \<and> Upload_quota h sv c w)"
    using assms(2)
  proof
    assume "m = Create h sv c token newID cbody"
    with assms(1) have "run_state (Create h sv c token newID cbody) w = (resp, w')" by simp
    from wpI [OF Create_rows this] show ?thesis by blast
  next
    assume "m = Upload h sv c token newID ubody"
    with assms(1) have "run_state (Upload h sv c token newID ubody) w = (resp, w')" by simp
    from wpI [OF Upload_wp this] show ?thesis by blast
  qed
  with assms(3-5) plan_read_unpaid [OF assms(3)] show ?thesis
    by (auto simp: videosThisMonth_def Upload_quota_def)
qed

theorem month_quota_witness:
  "videosThisMonth sample_services (quota_scope sample_caller)
     (snd (run_state (Create sample_config sample_services sample_caller (Some ''tok2'') ''v2''
        (Some sample_create)) sample_world)) = 1 \<and>
   int (videosThisMonth sample_services (quota_scope sample_caller)
     (snd (run_state (Create sample_config sample_services sample_caller (Some ''tok2'') ''v2''
        (Some sample_create)) sample_world))) \<le> 2"
  using month_quota [OF sample_create_run disjI1 [OF refl]]
  by (auto simp: sample_create_run videosThisMonth_def caller_plan_def quota_scope_def)

subsection \<open>Finalizing an upload\<close>

definition same_status :: "video \<Rightarrow> video \<Rightarrow> bool" where
  "same_status a b \<longleftrightarrow> v_id b = v_id a \<and> v_status b = v_status a \<and>
     v_processing_started_at b = v_processing_started_at a \<and> v_file_key b = v_file_key a"

interpretation stat: video_relation same_status
  by unfold_locales (auto simp: same_status_def)

abbreviation status_kept :: "world \<Rightarrow> world \<Rightarrow> bool" where
  "status_kept w t \<equiv> rows_rel same_status (videos w) (videos t)"

definition finalize_jobs :: "video \<Rightarrow> string \<Rightarrow> string \<Rightarrow> string \<Rightarrow> job list" where
  "finalize_jobs v userID videoID audioFilter =
     (let tk = thumbnailFileKey userID (v_share_token v) in
      case v_webcam_key v of
        Some wk \<Rightarrow> [JobComposite videoID (v_file_key v) wk tk (v_content_type v)]
      | None \<Rightarrow> [JobThumbnail videoID (v_file_key v) tk] @
          (if v_duration v = 0 then [JobProbe videoID (v_file_key v)] else []) @
          (if v_content_type v = ''video/webm'' then [JobTranscode videoID (v_file_key v) audioFilter]
           else if v_content_type v = ''video/mp4'' \<or> v_content_type v = ''video/quicktime''
           then [JobNormalize videoID (v_file_key v) audioFilter] else []))"

lemma EnqueueJob_stat: "state_io_rel status_kept (EnqueueJob h t vid p)"
  by (cases t) (auto simp: EnqueueTranscription_def same_status_def intro!: stat.walk_all)

lemma EnqueueTranscription_wp:
  "wp (EnqueueTranscription h vid) (\<lambda>_ w'. jobs w' = jobs w \<and> status_kept w w' \<and> now w' = now w) w"
  unfolding EnqueueTranscription_def
  by (intro wp_steps) (auto simp: stat.refl same_status_def intro!: rows_rel_upd)

lemmas wp_EnqueueTranscriptionI = wp_mono [OF EnqueueTranscription_wp]

lemma start_jobs_wp:
  "wp (start_jobs h uid vid (v_file_key v) (v_share_token v) (v_webcam_key v) (v_content_type v) (v_duration v) af)
     (\<lambda>_ w'. jobs w' = jobs w @ finalize_jobs v uid vid af) w"
  unfolding start_jobs_def EnqueueJob.simps if_do_def
  by (intro wp_steps wp_EnqueueTranscriptionI) (auto simp: finalize_jobs_def Let_def payload_get_def stat.refl)

lemma audio_filter_wp:
  "wp (audio_filter h uid) (\<lambda>r w'. w' = w \<or> w' = tick w) w"
  unfolding audio_filter_def by (intro wp_steps) auto

text \<open>What \<open>Update_ready\<close> checked when it goes on, and what it left.\<close>

definition upload_verified :: "config \<Rightarrow> services \<Rightarrow> video \<Rightarrow> bool" where
  "upload_verified h sv v \<longleftrightarrow> (case head_object sv (v_file_key v) of (osize, contentType) \<Rightarrow>
     0 < osize \<and> (maxUploadBytes h > 0 \<longrightarrow> osize \<le> maxUploadBytes h) \<and>
     (v_file_size v > 0 \<longrightarrow> osize = v_file_size v) \<and> contentType = v_content_type v)"

definition finalized :: "config \<Rightarrow> services \<Rightarrow> rctx \<Rightarrow> string \<Rightarrow> world \<Rightarrow> world \<Rightarrow> bool" where
  "finalized h sv c vid w w' \<longleftrightarrow>
     (\<exists>v \<in> set (videos w). v_id v = vid \<and> v_user_id v = UserID c \<and> v_status v = Uploading \<and>
        upload_verified h sv v \<and>
        (\<exists>v' \<in> set (videos w'). v_id v' = vid \<and> v_file_key v' = v_file_key v \<and>
           v_status v' = (if v_webcam_key v = None then Ready else Processing) \<and>
           v_processing_started_at v' = (if v_webcam_key v = None then None else Some (now w))) \<and>
        (\<exists>af. jobs w' = jobs w @ (if hasWebhookClient h then [JobWebhook (UserID c) ''video.ready'' vid] else [])
           @ finalize_jobs v (UserID c) vid af))"

lemma start_jobs_stat: "state_io_rel status_kept (start_jobs h uid vid fk tok wk ct d af)"
  unfolding start_jobs_def if_do_def by (intro stat.walk_all EnqueueJob_stat)

lemma after_finalize_stat: "state_io_rel status_kept (after_finalize h c vid v)"
  unfolding after_finalize_def dispatchWebhook_def if_do_def audio_filter_def
  by (intro stat.walk_all start_jobs_stat) (simp_all add: same_status_def)

lemma after_finalize_wp:
  "wp (after_finalize h c vid v) (\<lambda>r w'. status_kept w w' \<and> r = None \<and>
     (\<exists>af. jobs w' = jobs w @ (if hasWebhookClient h then [JobWebhook (UserID c) ''video.ready'' vid] else [])
           @ finalize_jobs v (UserID c) vid af)) w"
  apply (rule wp_conj [OF wp_rel [OF after_finalize_stat]])
  unfolding after_finalize_def dispatchWebhook_def if_do_def
  apply (intro wp_steps wp_mono [OF audio_filter_wp] wp_mono [OF start_jobs_wp])
   apply auto
  done

lemma finalizedI:
  assumes "find_where (\<lambda>v. v_id v = vid \<and> v_user_id v = UserID c \<and> v_status v = Uploading) (videos w) = Some v"
    and "upload_verified h sv v" "same_status (v\<lparr>v_status := st, v_processing_started_at := started, v_updated_at := t\<rparr>) v'" "v' \<in> set (videos w')"
    and "st = (if v_webcam_key v = None then Ready else Processing)"
      "started = (if v_webcam_key v = None then None else Some (now w))"
    and "jobs w' = jobs w @ (if hasWebhookClient h then [JobWebhook (UserID c) ''video.ready'' vid] else [])
           @ finalize_jobs v (UserID c) vid af"
  shows "finalized h sv c vid w w'"
  unfolding finalized_def
  using find_where_Some [OF assms(1)] assms(2-)
  by (intro bexI [of _ v] conjI exI [of _ af] bexI [of _ v']) (simp_all add: same_status_def)

lemma Update_ready_wp:
  "wp (Update_ready h sv c vid) (\<lambda>r w'. (r \<noteq> None \<and> status_code (the r) \<noteq> 204) \<or> (r = None \<and> finalized h sv c vid w w')) w"
  unfolding Update_ready_def
  apply (intro wp_steps wp_mono [OF after_finalize_wp])
  apply (simp_all)
  apply clarsimp
  apply (frule (1) find_upd_rel)
  apply (elim bexE)
  apply (erule finalizedI)
  apply (auto simp: upload_verified_def split: if_splits)
  done

lemma finalized_kept:
  assumes "finalized h sv c vid w w1" "status_kept w1 w'" "jobs w' = jobs w1"
  shows "finalized h sv c vid w w'"
proof -
  have "\<exists>b \<in> set (videos w'). v_id b = v_id a \<and> v_status b = v_status a \<and>
     v_processing_started_at b = v_processing_started_at a \<and> v_file_key b = v_file_key a"
    if "a \<in> set (videos w1)" for a
    using rows_rel_in [OF assms(2) that] by (auto simp: same_status_def)
  with assms(1,3) show ?thesis unfolding finalized_def by metis
qed

lemma Update_title_wp:
  "wp (Update_title c vid title) (\<lambda>_ w'. jobs w' = jobs w \<and> status_kept w w') w"
  unfolding Update_title_def
  by (intro wp_steps) (auto simp: stat.refl same_status_def intro!: rows_rel_upd)


definition sample_uploading :: world where
  "sample_uploading = sample_world\<lparr>videos := [sample_video\<lparr>v_status := Uploading\<rparr>]\<rparr>"


subsection \<open>Trimming\<close>

definition trim_accepted :: "rctx \<Rightarrow> string \<Rightarrow> trim_request \<Rightarrow> world \<Rightarrow> world \<Rightarrow> video \<Rightarrow> bool" where
  "trim_accepted c vid req w w' v \<longleftrightarrow>
     v \<in> set (videos w) \<and> v_id v = vid \<and> in_scope c v \<and> v_status v = Ready \<and>
     0 \<le> tr_StartSeconds req \<and> tr_StartSeconds req < tr_EndSeconds req \<and>
     tr_EndSeconds req \<le> f_of_int (v_duration v) \<and>
     1 \<le> f_sub (tr_EndSeconds req) (tr_StartSeconds req) \<and>
     videos w' = upd_where (orgVideoFilter c vid (\<lambda>v. v_status v = Ready))
       (\<lambda>v. v\<lparr>v_status := Processing, v_processing_started_at := Some (now w), v_updated_at := now w\<rparr>) (videos w) \<and>
     jobs w' = jobs w @ [JobTrim vid (v_file_key v) (thumbnailFileKey (v_user_id v) (v_share_token v))
       (v_content_type v) (tr_StartSeconds req) (tr_EndSeconds req)]"

lemma Trim_wp:
  "wp (Trim c vid body) (\<lambda>resp w'. if status_code resp = 202
     then \<exists>req v. body = Some req \<and> trim_accepted c vid req w w' v
     else videos w' = videos w \<and> jobs w' = jobs w) w"
  unfolding Trim_def claim_processing_def
  apply (intro wp_steps)
           apply simp_all
   apply (simp add: count_where_0 upd_where_none)
  apply (rule exI)
  apply (auto simp: trim_accepted_def orgVideoFilter_def dest!: find_where_Some)
  done

subsection \<open>Deleting\<close>

definition deleted_by :: "config \<Rightarrow> rctx \<Rightarrow> string \<Rightarrow> world \<Rightarrow> world \<Rightarrow> video \<Rightarrow> bool" where
  "deleted_by h c vid w w' v \<longleftrightarrow>
     v \<in> set (videos w) \<and> v_id v = vid \<and> in_scope c v \<and> v_status v \<noteq> Deleted \<and>
     v\<lparr>v_status := Deleted, v_updated_at := now w\<rparr> \<in> set (videos w') \<and>
     (\<forall>x \<in> set (videos w'). v_id x = vid \<and> in_scope c x \<longrightarrow> v_status x = Deleted) \<and>
     jobs w' = jobs w @ (if hasWebhookClient h then [JobWebhook (UserID c) ''video.deleted'' vid] else []) @
       [JobDeleteFiles (Inl (v_file_key v)) (v_file_key v) (v_thumbnail_key v) (v_webcam_key v)
         (v_transcript_key v)]"

lemma Delete_wp:
  "wp (Delete h c vid) (\<lambda>resp w'. if status_code resp = 204 then \<exists>v. deleted_by h c vid w w' v
     else videos w' = videos w \<and> jobs w' = jobs w) w"
  unfolding Delete_def dispatchWebhook_def
  apply (intro wp_steps)
  apply simp_all
  apply (auto simp: deleted_by_def delete_query_scope set_upd_where dest!: find_where_Some
    intro!: exI)
  done

text \<open>C16: a delete answered 204 marked a row of the caller's scope deleted, left no live row with that id in
  the scope, and handed every stored object of the row to the file purge; any other answer changed no
  video and started nothing.\<close>

theorem delete_marks_and_purges:
  assumes "run_state (Delete h c vid) w = (resp, w')"
  shows "if status_code resp = 204 then \<exists>v. deleted_by h c vid w w' v
     else videos w' = videos w \<and> jobs w' = jobs w"
  using wpI [OF Delete_wp assms] .

theorem delete_marks_and_purges_witness:
  "\<exists>v. deleted_by sample_config sample_caller ''v1'' (sample_world\<lparr>videos := [sample_video]\<rparr>)
     (snd (run_state (Delete sample_config sample_caller ''v1'') (sample_world\<lparr>videos := [sample_video]\<rparr>))) v"
proof -
  have "run_state (Delete sample_config sample_caller ''v1'') (sample_world\<lparr>videos := [sample_video]\<rparr>) =
     (WriteHeader 204, snd (run_state (Delete sample_config sample_caller ''v1'') (sample_world\<lparr>videos := [sample_video]\<rparr>)))"
    by (simp add: Delete_def delete_query_def dispatchWebhook_def sample_video_def run_simps)
  from delete_marks_and_purges [OF this] show ?thesis by simp
qed

end
