(* ===== verification/Media_Facts.thy ===== *)
theory Media_Facts
  imports Media_Jobs Video_Crud_Facts
begin

text \<open>
  What the jobs of \<open>Media_Jobs\<close> guarantee: editing jobs settle the row they claimed, a trim ends with a
  shorter ready video, failed transcodes are given up, stuck rows are swept.
\<close>

subsection \<open>Runs with few failures\<close>

definition quiet :: "world \<Rightarrow> bool" where
  "quiet w \<longleftrightarrow> (\<forall>f \<in> set (faults w). f = None)"

definition one_failure :: "world \<Rightarrow> bool" where
  "one_failure w \<longleftrightarrow> length (filter (\<lambda>f. f \<noteq> None) (faults w)) \<le> 1"

lemma quiet_next [simp]: "quiet w \<Longrightarrow> next_fault w = None"
  by (auto simp: quiet_def next_fault_def split: list.splits)

lemma quiet_tick [simp]: "quiet w \<Longrightarrow> quiet (tick w)"
  by (cases "faults w") (auto simp: quiet_def tick_def)

lemma one_failure_tick [simp]: "one_failure w \<Longrightarrow> one_failure (tick w)"
  by (cases "faults w") (auto simp: one_failure_def tick_def split: if_splits)

lemma one_failure_used: "one_failure w \<Longrightarrow> next_fault w = Some m \<Longrightarrow> quiet (tick w)"
  by (cases "faults w") (auto simp: one_failure_def next_fault_def tick_def quiet_def filter_empty_conv)

lemma quiet_updates [simp]:
  "quiet (w\<lparr>videos := x\<rparr>) = quiet w" "quiet (w\<lparr>effects := e\<rparr>) = quiet w" "quiet (w\<lparr>jobs := j\<rparr>) = quiet w"
  "one_failure (w\<lparr>videos := x\<rparr>) = one_failure w" "one_failure (w\<lparr>effects := e\<rparr>) = one_failure w"
  "one_failure (w\<lparr>jobs := j\<rparr>) = one_failure w"
  by (simp_all add: quiet_def one_failure_def)

definition settled :: "string \<Rightarrow> world \<Rightarrow> bool" where
  "settled vid w \<longleftrightarrow> (\<forall>x \<in> set (videos w). v_id x = vid \<longrightarrow> v_status x \<noteq> Processing)"

lemma settled_upd:
  "settled vid (w\<lparr>videos := upd_where (\<lambda>v. v_id v = vid \<and> v_status v = Processing) (\<lambda>v. v\<lparr>v_status := Ready,
     v_processing_started_at := a, v_updated_at := t\<rparr>) vs\<rparr>)"
  "settled vid (w\<lparr>videos := upd_where (\<lambda>v. v_id v = vid \<and> v_status v = Processing) (\<lambda>v. v\<lparr>v_status := Ready,
     v_webcam_key := k, v_processing_started_at := a, v_updated_at := t\<rparr>) vs\<rparr>)"
  unfolding settled_def by (auto elim!: in_upd_whereE split: if_splits)

lemma fallback_settles: "quiet w \<Longrightarrow> wp (setReadyFallback vid) (\<lambda>_ w'. settled vid w') w"
  unfolding setReadyFallback_def logged_def by (intro wp_walk settled_upd) simp

lemma composite_fallback_settles: "quiet w \<Longrightarrow> wp (compositeFallback vid) (\<lambda>_ w'. settled vid w') w"
  unfolding compositeFallback_def logged_def by (intro wp_walk settled_upd) simp

lemma attempt_settles:
  assumes "\<And>msg. quiet (tick w) \<Longrightarrow> wp (fail msg) Q (tick w)" "one_failure (tick w) \<Longrightarrow> wp k Q (tick w)" "one_failure w"
  shows "wp (attempt fail k) Q w"
  unfolding attempt_def using assms one_failure_used [OF assms(3)] by (intro wp_walk) auto

lemma upload_settles:
  assumes "\<And>msg. quiet (tick w) \<Longrightarrow> wp (fail msg) Q (tick w)"
    "one_failure (tick w) \<Longrightarrow> wp k Q ((tick w)\<lparr>effects := effects w @ [StoreUpload key ct]\<rparr>)" "one_failure w"
  shows "wp (attempt_upload key ct fail k) Q w"
  unfolding attempt_upload_def using assms one_failure_used [OF assms(3)] by (intro wp_walk) auto

text \<open>Calls on services are never taken back.\<close>

definition effects_kept :: "world \<Rightarrow> world \<Rightarrow> bool" where
  "effects_kept w t \<longleftrightarrow> set (effects w) \<subseteq> set (effects t)"

interpretation kept: step_relation effects_kept
  by unfold_locales (auto simp: effects_kept_def)

lemma effects_kept_rules:
  "state_io_rel effects_kept call" "state_io_rel effects_kept (select_row q)"
  "state_io_rel effects_kept (service e)" "state_io_rel effects_kept (update_videos P f)"
  "state_io_rel effects_kept (update_video_returning P f)"
  by (auto simp: state_io_rel_def effects_kept_def run_simps split: option.splits)

lemma finish_edit_kept: "state_io_rel effects_kept (finish_edit tool h vid fk tk d)"
  unfolding job_defs by (intro kept.walk effects_kept_rules)

lemma composite_finish_kept: "state_io_rel effects_kept (composite_finish tool h vid fk wk tk)"
  unfolding composite_finish_def job_defs by (intro kept.walk effects_kept_rules)

lemma finish_edit_uploaded:
  "StoreUpload key ct \<in> set (effects w) \<Longrightarrow> wp (finish_edit tool h vid fk tk d) (\<lambda>_ w'. StoreUpload key ct \<in> set (effects w')) w"
  by (rule wp_mono [OF wp_rel [OF finish_edit_kept]]) (auto simp: effects_kept_def)

abbreviation settled_or_uploaded :: "string \<Rightarrow> string \<Rightarrow> string \<Rightarrow> world \<Rightarrow> bool" where
  "settled_or_uploaded vid key ct w \<equiv> settled vid w \<or> StoreUpload key ct \<in> set (effects w)"

lemma edit_settles:
  "quiet w \<Longrightarrow> wp (setReadyFallback vid) (\<lambda>_. settled_or_uploaded vid key ct) w"
  "quiet w \<Longrightarrow> wp (compositeFallback vid) (\<lambda>_. settled_or_uploaded vid key ct) w"
  "StoreUpload key ct \<in> set (effects w) \<Longrightarrow> wp (finish_edit tool h vid fk tk d) (\<lambda>_. settled_or_uploaded vid key ct) w"
  using wp_mono [OF fallback_settles] wp_mono [OF composite_fallback_settles] wp_mono [OF finish_edit_uploaded]
  by (metis (no_types, lifting))+

lemma TrimVideoAsync_settles:
  "one_failure w \<Longrightarrow> wp (TrimVideoAsync tool h vid fk tk ct a b) (\<lambda>_. settled_or_uploaded vid fk ct) w"
  unfolding TrimVideoAsync_def Let_def
  by (intro attempt_settles upload_settles edit_settles) simp_all

lemma RemoveSegmentsAsync_settles:
  "one_failure w \<Longrightarrow> output_properties tool fk \<noteq> None \<Longrightarrow> wp (RemoveSegmentsAsync tool h vid fk tk ct segs d) (\<lambda>_. settled_or_uploaded vid fk ct) w"
  unfolding RemoveSegmentsAsync_def Let_def
  apply (intro attempt_settles wp_bind [THEN iffD2] wp_call [THEN iffD2] wp_ifI upload_settles edit_settles)
  apply (simp_all)
  done


lemma composite_finish_uploaded:
  "StoreUpload key ct \<in> set (effects w) \<Longrightarrow> wp (composite_finish tool h vid fk wk tk) (\<lambda>_. settled_or_uploaded vid key ct) w"
  by (rule wp_mono [OF wp_rel [OF composite_finish_kept]]) (auto simp: effects_kept_def)

lemma CompositeWithWebcam_settles:
  "one_failure w \<Longrightarrow> video_frames tool fk \<noteq> 0 \<Longrightarrow> video_frames tool wk \<noteq> 0 \<Longrightarrow> wp (CompositeWithWebcam tool h vid fk wk tk ct) (\<lambda>_. settled_or_uploaded vid fk ct) w"
  unfolding CompositeWithWebcam_def Let_def
  by (intro attempt_settles wp_ifI upload_settles edit_settles composite_finish_uploaded) simp_all



subsection \<open>What a completed job leaves\<close>

definition sample_tools :: tools where
  "sample_tools = \<lparr>frame_size = (\<lambda>k s. 5000), has_audio = (\<lambda>k. True), video_frames = (\<lambda>k. 100),
     properties = (\<lambda>k. None), output_properties = (\<lambda>k. Some \<lparr>vp_Width = 640, vp_Height = 480, vp_Level = 31,
       vp_FrameRate = 30, vp_CodecName = ''h264''\<rparr>), output_size = (\<lambda>k. 900), probed_seconds = (\<lambda>k. Some 60)\<rparr>"

definition processing_world :: "string option list \<Rightarrow> world" where
  "processing_world fs = sample_world\<lparr>videos := [sample_video\<lparr>v_status := Processing,
     v_processing_started_at := Some (days 40)\<rparr>], faults := fs\<rparr>"

lemma sample_trim_run:
  "run_state (TrimVideoAsync sample_tools sample_config ''v1'' ''k'' ''t'' ''video/mp4'' 1 11)
     (processing_world [None, None, None, None, None, None, Some ''db down'']) =
   ((), (processing_world [])\<lparr>effects := [StoreUpload ''k'' ''video/mp4'']\<rparr>)"
  by (simp add: TrimVideoAsync_def job_defs processing_world_def run_simps next_fault_def tick_def)


text \<open>After the final \<open>UPDATE\<close>, the rest of an editing job keeps what it wrote.\<close>

definition same_edit :: "video \<Rightarrow> video \<Rightarrow> bool" where
  "same_edit a b \<longleftrightarrow> v_id b = v_id a \<and> v_status b = v_status a \<and> v_duration b = v_duration a \<and>
     v_file_key b = v_file_key a \<and> v_processing_started_at b = v_processing_started_at a"

interpretation edit: video_relation same_edit
  by unfold_locales (auto simp: same_edit_def)

lemma after_edit: "state_io_rel edit.R (do { GenerateThumbnail tool vid fk tk; _ \<leftarrow> EnqueueTranscription h vid; State_Monad.return () })"
  unfolding job_defs by (intro edit.walk_all) (simp_all add: same_edit_def)

lemma wp_attempt_quiet: "quiet w \<Longrightarrow> wp k Q (tick w) \<Longrightarrow> wp (attempt fail k) Q w"
  by (simp add: attempt_def)

lemma wp_upload_quiet:
  "quiet w \<Longrightarrow> wp k Q ((tick w)\<lparr>effects := effects w @ [StoreUpload key ct]\<rparr>) \<Longrightarrow> wp (attempt_upload key ct fail k) Q w"
  by (simp add: attempt_upload_def)

lemma finish_edit_wp:
  assumes "find_where (\<lambda>v. v_id v = vid) (videos w) = Some v" "quiet w"
  shows "wp (finish_edit tool h vid fk tk d) (\<lambda>_ w'. \<exists>v' \<in> set (videos w'). v_id v' = vid \<and>
     v_status v' = Ready \<and> v_duration v' = d \<and> v_file_key v' = v_file_key v \<and> v_processing_started_at v' = None) w"
proof -
  let ?t = "(tick w)\<lparr>videos := upd_where (\<lambda>v. v_id v = vid) (\<lambda>v. v\<lparr>v_status := Ready, v_duration := d,
      v_processing_started_at := None, v_updated_at := now w\<rparr>) (videos w)\<rparr>"
  have "wp (do { GenerateThumbnail tool vid fk tk; _ \<leftarrow> EnqueueTranscription h vid; State_Monad.return () })
     (\<lambda>_ w'. \<exists>v' \<in> set (videos w'). v_id v' = vid \<and> v_status v' = Ready \<and> v_duration v' = d \<and>
       v_file_key v' = v_file_key v \<and> v_processing_started_at v' = None) ?t"
  proof (rule wp_mono [OF wp_rel [OF after_edit]])
    fix w' assume "edit.R ?t w'"
    then obtain v' where "v' \<in> set (videos w')"
      "same_edit (v\<lparr>v_status := Ready, v_duration := d, v_processing_started_at := None, v_updated_at := now w\<rparr>) v'"
      using find_upd_rel [OF assms(1), of same_edit] by auto
    with find_where_Some [OF assms(1)] show "\<exists>v' \<in> set (videos w'). v_id v' = vid \<and> v_status v' = Ready \<and>
       v_duration v' = d \<and> v_file_key v' = v_file_key v \<and> v_processing_started_at v' = None"
      by (auto simp: same_edit_def)
  qed
  then show ?thesis
    using assms(2) by (simp add: finish_edit_def edit_done_def)
qed

lemma TrimVideoAsync_success:
  assumes "find_where (\<lambda>v. v_id v = vid) (videos w) = Some v" "quiet w"
  shows "wp (TrimVideoAsync tool h vid fk tk ct a b) (\<lambda>_ w'. \<exists>v' \<in> set (videos w'). v_id v' = vid \<and>
     v_status v' = Ready \<and> v_duration v' = f_to_int (f_sub b a) \<and> v_file_key v' = v_file_key v \<and>
     v_processing_started_at v' = None) w"
  unfolding TrimVideoAsync_def Let_def using assms
  by (intro wp_attempt_quiet wp_upload_quiet finish_edit_wp) simp_all

lemma trim_duration_bounds:
  assumes "trim_accepted c vid req w w1 v" "v_duration v \<le> 2 ^ 53" "0 \<le> v_duration v"
  shows "1 \<le> f_to_int (f_sub (tr_EndSeconds req) (tr_StartSeconds req)) \<and>
    f_to_int (f_sub (tr_EndSeconds req) (tr_StartSeconds req)) \<le> v_duration v"
  using assms f_of_int_exact [of "v_duration v"]
  by (auto simp: trim_accepted_def intro!: f_to_int_ge f_to_int_le f_sub_le)

text \<open>C10: an accepted trim whose job meets no failure leaves the video ready again, with its file key, no
  start time, and a duration of at least one second and at most the old one.\<close>

theorem trim_end_to_end:
  assumes "run_state (Trim c vid body) w = (resp, w1)" "status_code resp = 202"
    and "distinct (map v_id (videos w))" "\<forall>v \<in> set (videos w). 0 \<le> v_duration v \<and> v_duration v \<le> 2 ^ 53"
    and "jobs w1 = jobs w @ [JobTrim vid fk tk ct a b]"
    and "run_state (TrimVideoAsync tool h vid fk tk ct a b) w1 = (u, w2)" "quiet w1"
  shows "\<exists>v \<in> set (videos w). \<exists>v' \<in> set (videos w2). v_id v = vid \<and> v_id v' = vid \<and> v_status v' = Ready \<and>
    v_processing_started_at v' = None \<and> v_file_key v' = v_file_key v \<and> 1 \<le> v_duration v' \<and> v_duration v' \<le> v_duration v"
proof -
  from wpI [OF Trim_wp assms(1)] assms(2) obtain req v where acc: "trim_accepted c vid req w w1 v" by auto
  let ?P = "orgVideoFilter c vid (\<lambda>v. v_status v = Ready)"
  let ?f = "\<lambda>v. v\<lparr>v_status := Processing, v_processing_started_at := Some (now w), v_updated_at := now w\<rparr>"
  have v: "v \<in> set (videos w)" "v_id v = vid" "?P v"
    and vids: "videos w1 = upd_where ?P ?f (videos w)"
    and job: "a = tr_StartSeconds req" "b = tr_EndSeconds req"
    using acc assms(5) by (simp_all add: trim_accepted_def orgVideoFilter_def)
  have "?f v \<in> set (videos w1)"
    unfolding vids using in_upd_whereI [OF v(1), of ?P ?f] v(3) by simp
  moreover have "distinct (map v_id (videos w1))"
    unfolding vids using assms(3) by (simp add: map_upd_where)
  ultimately have found: "find_where (\<lambda>v. v_id v = vid) (videos w1) = Some (?f v)"
    using v(2) by (intro find_where_key [where key = v_id]) simp_all
  from wpI [OF TrimVideoAsync_success [OF found assms(7)] assms(6)] obtain v' where
    "v' \<in> set (videos w2)" "v_id v' = vid" "v_status v' = Ready" "v_duration v' = f_to_int (f_sub b a)"
    "v_file_key v' = v_file_key v" "v_processing_started_at v' = None" by auto
  with trim_duration_bounds [OF acc] v(1,2) job assms(4) show ?thesis
    by (intro bexI [of _ v] bexI [of _ v'] conjI) auto
qed

definition sample_trim :: trim_request where
  "sample_trim = \<lparr>tr_StartSeconds = 1, tr_EndSeconds = 11\<rparr>"

lemma sample_trim_request:
  "run_state (Trim sample_caller ''v1'' (Some sample_trim)) (sample_world\<lparr>videos := [sample_video]\<rparr>) =
   (WriteHeader 202, (processing_world [])\<lparr>videos := [sample_video\<lparr>v_status := Processing,
      v_processing_started_at := Some (days 40), v_updated_at := days 40\<rparr>],
      jobs := [JobTrim ''v1'' (v_file_key sample_video) (thumbnailFileKey ''u1'' ''tok1'') ''video/mp4'' 1 11]\<rparr>)"
proof -
  have "f_of_int 60 = 60" "f_sub 11 1 = 10"
    using rnd64_of_int [of 60] rnd64_of_int [of 10] by (simp_all add: f_of_int_def f_sub_def)
  then show ?thesis
    by (simp add: Trim_def claim_processing_def orgVideoFilter_def in_scope_def sample_trim_def run_simps processing_world_def)
qed

theorem trim_end_to_end_witness:
  "\<exists>v' \<in> set (videos (snd (run_state (TrimVideoAsync sample_tools sample_config ''v1'' (v_file_key sample_video)
      (thumbnailFileKey ''u1'' ''tok1'') ''video/mp4'' 1 11)
      (snd (run_state (Trim sample_caller ''v1'' (Some sample_trim)) (sample_world\<lparr>videos := [sample_video]\<rparr>)))))).
     v_status v' = Ready \<and> v_duration v' \<le> 60"
proof -
  let ?m = "TrimVideoAsync sample_tools sample_config ''v1'' (v_file_key sample_video) (thumbnailFileKey ''u1'' ''tok1'') ''video/mp4'' 1 11"
  let ?w1 = "snd (run_state (Trim sample_caller ''v1'' (Some sample_trim)) (sample_world\<lparr>videos := [sample_video]\<rparr>))"
  have w1: "?w1 = (processing_world [])\<lparr>videos := [sample_video\<lparr>v_status := Processing,
      v_processing_started_at := Some (days 40), v_updated_at := days 40\<rparr>],
      jobs := [JobTrim ''v1'' (v_file_key sample_video) (thumbnailFileKey ''u1'' ''tok1'') ''video/mp4'' 1 11]\<rparr>"
    by (simp only: sample_trim_request snd_conv)
  have r1: "run_state (Trim sample_caller ''v1'' (Some sample_trim)) (sample_world\<lparr>videos := [sample_video]\<rparr>) = (WriteHeader 202, ?w1)"
    by (simp only: sample_trim_request snd_conv)
  have r2: "run_state ?m ?w1 = ((), snd (run_state ?m ?w1))" by (cases "run_state ?m ?w1") simp
  have j: "jobs ?w1 = jobs (sample_world\<lparr>videos := [sample_video]\<rparr>) @
      [JobTrim ''v1'' (v_file_key sample_video) (thumbnailFileKey ''u1'' ''tok1'') ''video/mp4'' 1 11]"
    unfolding w1 by simp
  have q: "quiet ?w1" unfolding w1 by (simp add: quiet_def processing_world_def)
  show ?thesis
    using trim_end_to_end [OF r1 _ _ _ j r2 q] by auto
qed

subsection \<open>Failed transcodes\<close>

lemma to_valid_utf8_aux_length: "length (to_valid_utf8_aux n s) \<le> length s"
proof (induction n s rule: to_valid_utf8_aux.induct)
  case (3 n a s)
  let ?k = "rune_length (a # s)"
  have "?k \<le> length (a # s)" by (rule rune_length_le)
  with 3 show ?case by (cases "?k = 0") (auto simp: Let_def)
qed simp_all

lemma failure_text_ok:
  "valid_utf8 (failure_text cause) \<and> CHR 0x00 \<notin> set (failure_text cause) \<and> length (failure_text cause) \<le> 2000"
proof -
  let ?msg = "if length cause > 2000 then take 2000 cause else cause"
  have "valid_utf8 (filter (\<lambda>c. c \<noteq> CHR 0x00) (to_valid_utf8 ?msg))"
    by (rule valid_utf8_filter [OF to_valid_utf8_valid]) (simp add: byte_in_def)
  moreover have "length (filter (\<lambda>c. c \<noteq> CHR 0x00) (to_valid_utf8 ?msg)) \<le> 2000"
    using to_valid_utf8_aux_length [of "length ?msg" ?msg]
    by (intro order.trans [OF length_filter_le]) (auto simp: to_valid_utf8_def split: if_splits)
  ultimately show ?thesis by (auto simp: failure_text_def Let_def)
qed

text \<open>A failure of a transcode is recorded as text Postgres accepts, whatever bytes ffmpeg printed, and
  counts one attempt, or the whole budget when ffmpeg will never decode the file.\<close>

theorem transcode_failure_recorded:
  assumes "run_state (recordTranscodeFailure vid cause) w = (u, w')" "next_fault w = None"
    and "v \<in> set (videos w)" "v_id v = vid"
  shows "\<exists>v' t. v' \<in> set (videos w') \<and> v_id v' = vid \<and> v_transcode_error v' = Some t \<and>
    valid_utf8 t \<and> CHR 0x00 \<notin> set t \<and> length t \<le> 2000 \<and>
    v_transcode_attempts v' = (if isPermanentFFmpegError cause then 5 else v_transcode_attempts v + 1)"
proof -
  let ?f = "\<lambda>v. v\<lparr>v_transcode_attempts := (if isPermanentFFmpegError cause then maxTranscodeAttempts
          else v_transcode_attempts v + 1), v_transcode_error := Some (failure_text cause), v_updated_at := now w\<rparr>"
  have "wp (recordTranscodeFailure vid cause) (\<lambda>_ w'. videos w' = upd_where (\<lambda>v. v_id v = vid) ?f (videos w)) w"
    using assms(2) by (simp add: recordTranscodeFailure_def logged_def split: option.split)
  from wpI [OF this assms(1)] have "videos w' = upd_where (\<lambda>v. v_id v = vid) ?f (videos w)" .
  with in_upd_whereI [OF assms(3), of "\<lambda>v. v_id v = vid" ?f] assms(4) have "?f v \<in> set (videos w')" by simp
  with failure_text_ok [of cause] assms(4) show ?thesis
    by (intro exI [of _ "?f v"] exI [of _ "failure_text cause"]) (simp add: maxTranscodeAttempts_def)
qed

theorem transcode_failure_recorded_witness:
  "\<exists>v' \<in> set (videos (snd (run_state (recordTranscodeFailure ''v1'' ''moov atom not found'') (processing_world [])))).
     v_transcode_attempts v' = 5"
proof -
  let ?r = "run_state (recordTranscodeFailure ''v1'' ''moov atom not found'') (processing_world [])"
  have "?r = ((), snd ?r)" by (cases ?r) simp
  moreover have "isPermanentFFmpegError ''moov atom not found''" by code_simp
  ultimately show ?thesis
    using transcode_failure_recorded [of "''v1''" "''moov atom not found''" "processing_world []" "()" "snd ?r"
      "sample_video\<lparr>v_status := Processing, v_processing_started_at := Some (days 40)\<rparr>"]
    by (auto simp: processing_world_def next_fault_def)
qed

definition attempts_ok :: "world \<Rightarrow> bool" where
  "attempts_ok w \<longleftrightarrow> distinct (map v_id (videos w)) \<and>
     (\<forall>v \<in> set (videos w). 0 \<le> v_transcode_attempts v \<and> v_transcode_attempts v \<le> maxTranscodeAttempts)"

definition may_fail :: "string \<Rightarrow> world \<Rightarrow> bool" where
  "may_fail vid w \<longleftrightarrow> attempts_ok w \<and>
     (\<forall>v \<in> set (videos w). v_id v = vid \<longrightarrow> v_transcode_attempts v < maxTranscodeAttempts)"

lemma may_fail_fields [simp]:
  "may_fail vid (tick w) = may_fail vid w" "may_fail vid (w\<lparr>effects := e\<rparr>) = may_fail vid w"
  "attempts_ok (tick w) = attempts_ok w" "attempts_ok (w\<lparr>effects := e\<rparr>) = attempts_ok w"
  by (simp_all add: may_fail_def attempts_ok_def)

lemma attempts_upd:
  assumes "attempts_ok w" "\<And>v. v_id (f v) = v_id v"
    "\<And>v. v \<in> set (videos w) \<Longrightarrow> P v \<Longrightarrow> 0 \<le> v_transcode_attempts (f v) \<and> v_transcode_attempts (f v) \<le> maxTranscodeAttempts"
  shows "attempts_ok (t\<lparr>videos := upd_where P f (videos w)\<rparr>)"
  using assms by (auto simp: attempts_ok_def map_upd_where elim!: in_upd_whereE)

lemma record_bounded:
  assumes "may_fail vid w" shows "wp (recordTranscodeFailure vid cause) (\<lambda>_. attempts_ok) w"
proof -
  have "attempts_ok ((tick w)\<lparr>videos := upd_where (\<lambda>v. v_id v = vid)
      (\<lambda>v. v\<lparr>v_transcode_attempts := (if isPermanentFFmpegError cause then maxTranscodeAttempts
          else v_transcode_attempts v + 1), v_transcode_error := t, v_updated_at := u\<rparr>) (videos w)\<rparr>)" for t u
    using assms by (intro attempts_upd) (auto simp: may_fail_def attempts_ok_def maxTranscodeAttempts_def)
  with assms show ?thesis
    unfolding recordTranscodeFailure_def logged_def by (intro wp_steps) (simp_all add: may_fail_def)
qed

lemma clear_bounded:
  assumes "may_fail vid w" shows "wp (clearTranscodeFailure vid) (\<lambda>_. attempts_ok) w"
proof -
  have "attempts_ok ((tick w)\<lparr>videos := upd_where (\<lambda>v. v_id v = vid)
      (\<lambda>v. v\<lparr>v_transcode_attempts := 0, v_transcode_error := t\<rparr>) (videos w)\<rparr>)" for t
    using assms by (intro attempts_upd) (auto simp: may_fail_def attempts_ok_def maxTranscodeAttempts_def)
  with assms show ?thesis
    unfolding clearTranscodeFailure_def logged_def by (intro wp_steps) (simp_all add: may_fail_def)
qed

lemma may_fail_upd:
  assumes "may_fail vid w" "\<And>v. v_id (f v) = v_id v" "\<And>v. v_transcode_attempts (f v) = v_transcode_attempts v"
  shows "may_fail vid (t\<lparr>videos := upd_where P f (videos w)\<rparr>)"
  using assms by (auto simp: may_fail_def attempts_ok_def map_upd_where elim!: in_upd_whereE)

lemma mark_bounded: "may_fail vid w \<Longrightarrow> wp (markIOSNormalized vid) (\<lambda>_. attempts_ok) w"
  unfolding markIOSNormalized_def logged_def
  by (intro wp_steps) (auto simp: may_fail_def attempts_ok_def map_upd_where elim!: in_upd_whereE)

lemma attempt_bounded:
  assumes "may_fail vid w" "\<And>msg w. may_fail vid w \<Longrightarrow> wp (fail msg) Q w" "\<And>w. may_fail vid w \<Longrightarrow> wp k Q w"
  shows "wp (attempt fail k) Q w" "wp (attempt_upload key ct fail k) Q w" "wp (attempt_encode pre fail k) Q w"
  unfolding attempt_def attempt_upload_def attempt_encode_def
  by (intro wp_steps assms; simp add: assms(1))+

lemma stop_bounded: "may_fail vid w \<Longrightarrow> wp (stop msg) (\<lambda>_. attempts_ok) w"
  by (simp add: stop_def may_fail_def)

lemma found_may_fail:
  assumes "attempts_ok w" "find_where (\<lambda>v. v_id v = vid) (videos w) = Some v" "v_transcode_attempts v < maxTranscodeAttempts"
  shows "may_fail vid w"
proof -
  have "x = v" if "x \<in> set (videos w)" "v_id x = vid" for x
    using assms(1) find_where_Some [OF assms(2)] that by (auto simp: attempts_ok_def intro: distinct_key_eq)
  with assms show ?thesis by (auto simp: may_fail_def)
qed

lemma TranscodeWebMAsync_bounded:
  assumes "attempts_ok w" shows "wp (TranscodeWebMAsync tool vid fk af) (\<lambda>_. attempts_ok) w"
proof -
  let ?store = "do {
           r \<leftarrow> update_videos (\<lambda>w v. v_id v = vid)
             (\<lambda>w v. v\<lparr>v_file_key := trim_suffix fk ''.webm'' @ ''.mp4'', v_content_type := ''video/mp4'',
                v_file_size := output_size tool fk, v_cues_fixed := True, v_ios_normalized := True,
                v_updated_at := now w\<rparr>);
           case r of Inl e \<Rightarrow> recordTranscodeFailure vid (db_error_text e)
           | Inr _ \<Rightarrow> do { _ \<leftarrow> service (StoreDelete fk); clearTranscodeFailure vid } }"
  have store: "wp ?store (\<lambda>_. attempts_ok) w" if "may_fail vid w" for w
    using that by (intro wp_steps record_bounded clear_bounded) (simp_all add: may_fail_upd)
  show ?thesis
    unfolding TranscodeWebMAsync_def Let_def
    by (intro wp_steps attempt_bounded [where vid = vid] stop_bounded record_bounded store)
      (auto intro: found_may_fail [OF assms] simp: assms)
qed

lemma NormalizeVideoAsync_bounded:
  assumes "attempts_ok w" shows "wp (NormalizeVideoAsync tool vid fk af) (\<lambda>_. attempts_ok) w"
proof -
  let ?store = "do {
           r \<leftarrow> update_videos (\<lambda>w v. v_id v = vid)
             (\<lambda>w v. v\<lparr>v_file_size := output_size tool fk, v_ios_normalized := True, v_updated_at := now w\<rparr>);
           case r of Inl e \<Rightarrow> recordTranscodeFailure vid (db_error_text e)
           | Inr _ \<Rightarrow> clearTranscodeFailure vid }"
  have store: "wp ?store (\<lambda>_. attempts_ok) w" if "may_fail vid w" for w
    using that by (intro wp_steps record_bounded clear_bounded) (simp_all add: may_fail_upd)
  show ?thesis
    unfolding NormalizeVideoAsync_def Let_def
    by (intro wp_steps attempt_bounded [where vid = vid] stop_bounded record_bounded mark_bounded store)
      (auto intro: found_may_fail [OF assms] simp: assms)
qed

text \<open>No run of a transcode or a normalization lifts the attempts of a video above the budget of five,
  and a video that has used it up is left alone: no call on the store, no change in the table.\<close>

theorem transcode_budget:
  assumes "run_state m w = (u, w')" "attempts_ok w"
    and "m = TranscodeWebMAsync tool vid fk af \<or> m = NormalizeVideoAsync tool vid fk af"
  shows "attempts_ok w' \<and>
    (\<forall>v \<in> set (videos w). v_id v = vid \<and> v_transcode_attempts v \<ge> 5 \<longrightarrow> videos w' = videos w \<and> effects w' = effects w)"
proof -
  have bounded: "wp m (\<lambda>_. attempts_ok) w"
    using assms(3) TranscodeWebMAsync_bounded [OF assms(2)] NormalizeVideoAsync_bounded [OF assms(2)] by blast
  have skip: "wp m (\<lambda>_ w'. videos w' = videos w \<and> effects w' = effects w) w"
    if "v \<in> set (videos w)" "v_id v = vid" "v_transcode_attempts v \<ge> 5" for v
  proof -
    have "find_where (\<lambda>x. v_id x = vid) (videos w) = Some v"
      using assms(2) that by (intro find_where_key [where key = v_id]) (simp_all add: attempts_ok_def)
    with that(3) assms(3) show ?thesis
      by (auto simp: TranscodeWebMAsync_def NormalizeVideoAsync_def maxTranscodeAttempts_def split: option.split)
  qed
  from wpI [OF bounded assms(1)] wpI [OF skip assms(1)] show ?thesis by blast
qed

theorem transcode_budget_witness:
  "attempts_ok (snd (run_state (TranscodeWebMAsync sample_tools ''v1'' ''k'' []) (processing_world [])))"
proof -
  let ?r = "run_state (TranscodeWebMAsync sample_tools ''v1'' ''k'' []) (processing_world [])"
  have "attempts_ok (processing_world [])"
    by (simp add: attempts_ok_def processing_world_def sample_video_def maxTranscodeAttempts_def)
  from transcode_budget [OF prod.collapse [symmetric] this disjI1 [OF refl]] show ?thesis by simp
qed

definition keys_ok :: "video \<Rightarrow> bool" where
  "keys_ok v \<longleftrightarrow> v_file_key v = videoFileKey (v_user_id v) (v_share_token v) (v_content_type v)"

lemma webm_key: "trim_suffix (videoFileKey u t ''video/webm'') ''.webm'' @ ''.mp4'' = videoFileKey u t ''video/mp4''"
proof -
  have "videoFileKey u t ''video/webm'' = (''recordings/'' @ u @ ''/'' @ t) @ ''.webm''"
    by (simp add: videoFileKey_def extensionForContentType_def)
  then show ?thesis
    by (simp only: trim_suffix_append) (simp add: videoFileKey_def extensionForContentType_def)
qed

definition webm_inv :: "string \<Rightarrow> string \<Rightarrow> world \<Rightarrow> bool" where
  "webm_inv vid fk w \<longleftrightarrow>
     (\<forall>v \<in> set (videos w). keys_ok v \<and>
        (v_id v = vid \<longrightarrow> fk = videoFileKey (v_user_id v) (v_share_token v) ''video/webm'')) \<and>
     (StoreDelete fk \<in> set (effects w) \<longrightarrow>
        (\<forall>v \<in> set (videos w). v_id v = vid \<longrightarrow> v_content_type v = ''video/mp4''))"

lemma webm_upd:
  "webm_inv vid fk w \<Longrightarrow> (\<And>v. v_id (f v) = v_id v \<and> v_file_key (f v) = v_file_key v \<and> v_user_id (f v) = v_user_id v \<and>
     v_share_token (f v) = v_share_token v \<and> v_content_type (f v) = v_content_type v) \<Longrightarrow>
   webm_inv vid fk ((tick w)\<lparr>videos := upd_where P f (videos w)\<rparr>)"
  by (auto simp: webm_inv_def keys_ok_def elim!: in_upd_whereE)

lemma webm_fields [simp]:
  "webm_inv vid fk (tick w) = webm_inv vid fk w"
  "webm_inv vid fk ((tick w)\<lparr>effects := effects w @ [StoreUpload k c]\<rparr>) = webm_inv vid fk w"
  by (simp_all add: webm_inv_def)

lemma webm_store:
  assumes "webm_inv vid fk w"
    and t: "t = (tick w)\<lparr>videos := upd_where (\<lambda>v. v_id v = vid)
     (\<lambda>v. v\<lparr>v_file_key := trim_suffix fk ''.webm'' @ ''.mp4'', v_content_type := ''video/mp4'',
        v_file_size := n, v_cues_fixed := True, v_ios_normalized := True, v_updated_at := u\<rparr>) (videos w)\<rparr>"
  shows "webm_inv vid fk t" "webm_inv vid fk ((tick t)\<lparr>effects := effects t @ [StoreDelete fk]\<rparr>)"
  using assms(1) unfolding t by (auto simp: webm_inv_def keys_ok_def webm_key elim!: in_upd_whereE)

lemma attempt_webm:
  assumes "webm_inv vid fk w" "\<And>msg w. webm_inv vid fk w \<Longrightarrow> wp (fail msg) Q w" "\<And>w. webm_inv vid fk w \<Longrightarrow> wp k Q w"
  shows "wp (attempt fail k) Q w" "wp (attempt_upload key ct fail k) Q w" "wp (attempt_encode pre fail k) Q w"
  unfolding attempt_def attempt_upload_def attempt_encode_def
  by (intro wp_steps assms; simp add: assms(1))+

lemma record_webm:
  "webm_inv vid fk w \<Longrightarrow> wp (recordTranscodeFailure vid cause) (\<lambda>_. webm_inv vid fk) w"
  "webm_inv vid fk w \<Longrightarrow> wp (clearTranscodeFailure vid) (\<lambda>_. webm_inv vid fk) w"
  "webm_inv vid fk w \<Longrightarrow> wp (stop msg) (\<lambda>_. webm_inv vid fk) w"
  unfolding recordTranscodeFailure_def clearTranscodeFailure_def logged_def stop_def
  by (intro wp_steps; simp add: webm_upd)+

lemma TranscodeWebMAsync_keys:
  assumes "webm_inv vid fk w" shows "wp (TranscodeWebMAsync tool vid fk af) (\<lambda>_. webm_inv vid fk) w"
proof -
  let ?store = "do {
           r \<leftarrow> update_videos (\<lambda>w v. v_id v = vid)
             (\<lambda>w v. v\<lparr>v_file_key := trim_suffix fk ''.webm'' @ ''.mp4'', v_content_type := ''video/mp4'',
                v_file_size := output_size tool fk, v_cues_fixed := True, v_ios_normalized := True,
                v_updated_at := now w\<rparr>);
           case r of Inl e \<Rightarrow> recordTranscodeFailure vid (db_error_text e)
           | Inr _ \<Rightarrow> do { _ \<leftarrow> service (StoreDelete fk); clearTranscodeFailure vid } }"
  have store: "wp ?store (\<lambda>_. webm_inv vid fk) w" if "webm_inv vid fk w" for w
    using that webm_store(1) [OF that refl] webm_store(2) [OF that refl]
    by (intro wp_steps record_webm) simp_all
  show ?thesis
    unfolding TranscodeWebMAsync_def Let_def
    by (intro wp_steps attempt_webm [where vid = vid and fk = fk] record_webm store) (simp_all add: assms)
qed

text \<open>When the transcoded file was stored and recorded, the row points to the key its owner, share token
  and type determine, under the type MP4, and only then was the WebM object removed.\<close>

theorem transcode_keeps_keys:
  assumes "run_state (TranscodeWebMAsync tool vid fk af) w = (u, w')"
    and "\<forall>v \<in> set (videos w). keys_ok v"
    and "\<forall>v \<in> set (videos w). v_id v = vid \<longrightarrow> fk = videoFileKey (v_user_id v) (v_share_token v) ''video/webm''"
    and "StoreDelete fk \<notin> set (effects w)"
  shows "(\<forall>v \<in> set (videos w'). keys_ok v) \<and>
    (StoreDelete fk \<in> set (effects w') \<longrightarrow> (\<forall>v \<in> set (videos w'). v_id v = vid \<longrightarrow>
       v_content_type v = ''video/mp4'' \<and> v_file_key v = videoFileKey (v_user_id v) (v_share_token v) ''video/mp4''))"
proof -
  have "webm_inv vid fk w" using assms(2-4) by (simp add: webm_inv_def)
  from wpI [OF TranscodeWebMAsync_keys [OF this] assms(1)] show ?thesis
    by (auto simp: webm_inv_def keys_ok_def)
qed

definition webm_world :: world where
  "webm_world = sample_world\<lparr>videos := [sample_video\<lparr>v_content_type := ''video/webm'',
     v_file_key := videoFileKey ''u1'' ''tok1'' ''video/webm''\<rparr>]\<rparr>"

theorem transcode_keeps_keys_witness:
  "list_all keys_ok
     (videos (snd (run_state (TranscodeWebMAsync sample_tools ''v1'' (videoFileKey ''u1'' ''tok1'' ''video/webm'') []) webm_world)))"
proof -
  let ?r = "run_state (TranscodeWebMAsync sample_tools ''v1'' (videoFileKey ''u1'' ''tok1'' ''video/webm'') []) webm_world"
  have "\<forall>v \<in> set (videos webm_world). keys_ok v"
    "\<forall>v \<in> set (videos webm_world). v_id v = ''v1'' \<longrightarrow>
       videoFileKey ''u1'' ''tok1'' ''video/webm'' = videoFileKey (v_user_id v) (v_share_token v) ''video/webm''"
    "StoreDelete (videoFileKey ''u1'' ''tok1'' ''video/webm'') \<notin> set (effects webm_world)"
    by (simp_all add: webm_world_def keys_ok_def)
  from transcode_keeps_keys [OF prod.collapse [symmetric] this] show ?thesis by (simp add: list_all_iff)
qed

subsection \<open>The sweep\<close>

text \<open>The sweep makes exactly the rows ready that have been processing for over fifteen minutes, or since an
  unknown time, and leaves every other row as it was; afterwards every row still in processing was
  claimed at most fifteen minutes ago.\<close>

theorem sweep_exact:
  assumes "run_state resetStuckProcessing w = (u, w')" "next_fault w = None"
  shows "videos w' = map (\<lambda>v. if is_stuck w v then v\<lparr>v_status := Ready, v_webcam_key := None,
      v_processing_started_at := None, v_updated_at := now w\<rparr> else v) (videos w) \<and>
    (\<forall>v \<in> set (videos w'). v_status v = Processing \<longrightarrow>
      (\<exists>t. v_processing_started_at v = Some t \<and> now w - minutes 15 \<le> t))"
proof -
  have t: "is_stuck (tick w) = is_stuck w" by (rule ext) (simp add: is_stuck_def split: option.split)
  have "wp resetStuckProcessing (\<lambda>_ w'. videos w' = upd_where (is_stuck w) (\<lambda>v. v\<lparr>v_status := Ready, v_webcam_key := None,
      v_processing_started_at := None, v_updated_at := now w\<rparr>) (videos w)) w"
    using assms(2) by (simp add: resetStuckProcessing_def logged_def t)
  from wpI [OF this assms(1)] have v: "videos w' = upd_where (is_stuck w) (\<lambda>v. v\<lparr>v_status := Ready, v_webcam_key := None,
      v_processing_started_at := None, v_updated_at := now w\<rparr>) (videos w)" .
  have "\<exists>t. v_processing_started_at v = Some t \<and> now w - minutes 15 \<le> t"
    if "v \<in> set (videos w')" "v_status v = Processing" for v
    using that unfolding v
    by (auto simp: is_stuck_def stuckProcessingAfter_def elim!: in_upd_whereE split: if_splits option.splits)
  with v show ?thesis by (simp add: upd_where_def)
qed

theorem sweep_exact_witness:
  "map v_status (videos (snd (run_state resetStuckProcessing ((processing_world [])\<lparr>now := days 41\<rparr>)))) = [Ready]"
  using sweep_exact [OF prod.collapse [symmetric], of "(processing_world [])\<lparr>now := days 41\<rparr>"]
  by (simp add: processing_world_def next_fault_def is_stuck_def stuckProcessingAfter_def)

subsection \<open>What the jobs do not guard against\<close>

text \<open>
  The final \<open>UPDATE\<close> of an editing job names the row by its id alone: a video that was deleted while the
  job ran is ready again afterwards.
\<close>

lemma trim_revives_deleted:
  assumes "find_where (\<lambda>v. v_id v = vid) (videos w) = Some v" "v_status v = Deleted" "quiet w"
  shows "wp (TrimVideoAsync tool h vid fk tk ct a b) (\<lambda>_ w'. \<exists>v' \<in> set (videos w'). v_id v' = vid \<and> v_status v' = Ready) w"
  by (rule wp_mono [OF TrimVideoAsync_success [OF assms(1,3)]]) blast

text \<open>
  Editing jobs work on the file key captured by the request. When the transcode of the same video finishes
  in between, the row ends with the duration of the trim and the untrimmed MP4, and the trimmed WebM lies
  under a key no row names.
\<close>

definition webm_key_1 :: string where "webm_key_1 = videoFileKey ''u1'' ''tok1'' ''video/webm''"

definition trim_race :: "unit prog" where
  "trim_race = do {
     _ \<leftarrow> Trim sample_caller ''v1'' (Some sample_trim);
     TranscodeWebMAsync sample_tools ''v1'' webm_key_1 [];
     TrimVideoAsync sample_tools sample_config ''v1'' webm_key_1 ''t'' ''video/webm'' 1 11
   }"

lemma trim_lost_to_transcode:
  "let w = snd (run_state trim_race webm_world) in
     map v_status (videos w) = [Ready] \<and> map v_duration (videos w) = [10] \<and>
     map v_file_key (videos w) = [videoFileKey ''u1'' ''tok1'' ''video/mp4''] \<and>
     effects w = [StoreUpload (videoFileKey ''u1'' ''tok1'' ''video/mp4'') ''video/mp4'', StoreDelete webm_key_1,
       StoreUpload webm_key_1 ''video/webm'', StoreUpload ''t'' ''image/jpeg'']"
proof -
  have "f_of_int 60 = 60" "f_sub 11 1 = 10" "f_to_int 10 = 10"
    using rnd64_of_int [of 60] rnd64_of_int [of 10] by (simp_all add: f_of_int_def f_sub_def f_to_int_def)
  moreover have "trim_suffix webm_key_1 ''.webm'' @ ''.mp4'' = videoFileKey ''u1'' ''tok1'' ''video/mp4''"
    unfolding webm_key_1_def by (rule webm_key)
  moreover have "v_transcode_attempts sample_video = 0" by (simp add: sample_video_def)
  ultimately show ?thesis
    by (simp add: trim_race_def Trim_def claim_processing_def orgVideoFilter_def in_scope_def sample_trim_def
        TranscodeWebMAsync_def TrimVideoAsync_def job_defs webm_world_def run_simps maxTranscodeAttempts_def
        sample_tools_def)
qed

text \<open>
  The sweep relies on an abandoned row still having its original object. After a failing final \<open>UPDATE\<close> it
  has not: the row is ready again with the old duration over the new object.
\<close>

lemma swept_row_has_new_object:
  "let w = snd (run_state (do { TrimVideoAsync sample_tools sample_config ''v1'' ''k'' ''t'' ''video/mp4'' 1 11;
        modify (\<lambda>w. w\<lparr>now := days 41\<rparr>); resetStuckProcessing })
      (processing_world [None, None, None, None, None, None, Some ''db down'']))
   in map v_status (videos w) = [Ready] \<and> map v_duration (videos w) = [60] \<and>
     effects w = [StoreUpload ''k'' ''video/mp4'']"
  unfolding run_state_bind sample_trim_run prod.case run_modify
  by (simp add: run_simps resetStuckProcessing_def logged_def is_stuck_def stuckProcessingAfter_def
      processing_world_def next_fault_def tick_def)

end
