(* ===== verification/VTT.thy ===== *)
theory VTT
  imports Segments
begin

text \<open>
  \<open>vtt_parse.go\<close> with the WebVTT writer of \<open>transcribe.go\<close>: parsing uploaded transcripts, joining
  cues, and writing them back. \<open>html.UnescapeString\<close>, which rests on the table of HTML entities, is
  the argument \<open>unescape\<close>; nothing is assumed of it.
\<close>

subsection \<open>Library functions\<close>

abbreviation newline :: char where "newline \<equiv> CHR 0x0A"
abbreviation cr :: char where "cr \<equiv> CHR 0x0D"

text \<open>\<open>strconv.Atoi\<close>: an optional sign and decimal digits within 64 bits.\<close>

definition digits_int :: "string \<Rightarrow> int" where
  "digits_int s = foldl (\<lambda>acc c. acc * 10 + int (of_char c - 48)) 0 s"

definition Atoi :: "string \<Rightarrow> int option" where
  "Atoi s = (let neg = has_prefix s ''-''; d = (if neg \<or> has_prefix s ''+'' then drop 1 s else s);
       n = (if neg then - digits_int d else digits_int d)
     in if d = [] \<or> \<not> list_all is_digit d \<or> n < - (2 ^ 63) \<or> n \<ge> 2 ^ 63 then None else Some n)"

text \<open>\<open>strings.ReplaceAll(text, "\r\n", "\n")\<close>.\<close>

fun crlf_to_lf :: "string \<Rightarrow> string" where
  "crlf_to_lf (a # b # s) = (if a = cr \<and> b = newline then newline # crlf_to_lf s else a # crlf_to_lf (b # s))"
| "crlf_to_lf s = s"

definition cr_to_lf :: "string \<Rightarrow> string" where
  "cr_to_lf = map (\<lambda>c. if c = cr then newline else c)"

definition Trim_chars :: "(char \<Rightarrow> bool) \<Rightarrow> string \<Rightarrow> string" where
  "Trim_chars P s = rev (dropWhile P (rev (dropWhile P s)))"

text \<open>The first of \<open>strings.Fields\<close> of a text that starts with no space.\<close>

fun first_field :: "string \<Rightarrow> string" where
  "first_field [] = []"
| "first_field (c # s) = (if list_ex (has_prefix (c # s)) space_runes then [] else c # first_field s)"

subsection \<open>Timestamps\<close>

definition formatVTTTimestamp :: "float64 \<Rightarrow> string" where
  "formatVTTTimestamp secs =
     (let secs = (if secs < 0 then 0 else secs);
          totalMillis = f_to_int (f_add (f_mul secs 1000) (1 / 2));
          h = totalMillis div 3600000;
          rem = totalMillis mod 3600000;
          m = rem div 60000;
          rem = rem mod 60000;
          s = rem div 1000;
          ms = rem mod 1000
      in pad0 2 (itoa h) @ '':'' @ pad0 2 (itoa m) @ '':'' @ pad0 2 (itoa s) @ ''.'' @ pad0 3 (itoa ms))"

definition parseVTTTimestamp :: "string \<Rightarrow> float64 option" where
  "parseVTTTimestamp s =
     (let pre = takeWhile (\<lambda>c. c \<noteq> CHR ''.'') (rev s) in
      if length pre = length s \<or> length pre \<noteq> 3 then None
      else case Atoi (rev pre) of None \<Rightarrow> None
      | Some ms \<Rightarrow>
        (case map Atoi (split (take (length s - 4) s) '':'') of
           [Some h, Some m, Some sec] \<Rightarrow>
             if h < 0 \<or> m < 0 \<or> sec < 0 then None
             else Some (f_add (f_add (f_add (f_mul (f_of_int h) 3600) (f_mul (f_of_int m) 60)) (f_of_int sec))
               (f_div (f_of_int ms) 1000))
         | [Some m, Some sec] \<Rightarrow>
             if m < 0 \<or> sec < 0 then None
             else Some (f_add (f_add (f_add (f_mul 0 3600) (f_mul (f_of_int m) 60)) (f_of_int sec))
               (f_div (f_of_int ms) 1000))
         | _ \<Rightarrow> None))"

definition parseTimingLine :: "string \<Rightarrow> (float64 \<times> float64) option" where
  "parseTimingLine line = (case index_of line ''-->'' of None \<Rightarrow> None
     | Some i \<Rightarrow>
       let endField = first_field (trim_space (drop (i + 3) line)) in
       if endField = [] then None
       else case (parseVTTTimestamp (trim_space (take i line)), parseVTTTimestamp endField) of
         (Some s, Some e) \<Rightarrow> Some (s, e)
       | _ \<Rightarrow> None)"

subsection \<open>Speakers and tags\<close>

definition sanitizeSpeaker :: "(string \<Rightarrow> string) \<Rightarrow> string \<Rightarrow> string" where
  "sanitizeSpeaker unescape speaker =
     filter (\<lambda>c. c \<notin> {CHR ''<'', CHR ''>'', newline, cr}) (unescape speaker)"

text \<open>The match of \<open>^<v\s+([^>]+)>\<close>: its group and what follows the match.\<close>

definition voice_match :: "string \<Rightarrow> (string \<times> string) option" where
  "voice_match text =
     (if \<not> has_prefix text ''<v'' then None
      else let r = drop 2 text; ws = takeWhile re_space r; body = dropWhile re_space r;
               g = takeWhile (\<lambda>c. c \<noteq> CHR ''>'') body; rest = dropWhile (\<lambda>c. c \<noteq> CHR ''>'') body
        in if ws = [] \<or> rest = [] then None
           else if g \<noteq> [] then Some (g, drop 1 rest)
           else if length ws \<ge> 2 then Some ([last ws], drop 1 rest)
           else None)"

definition leading_timestamp :: "string \<Rightarrow> bool" where
  "leading_timestamp s \<longleftrightarrow>
     (length s \<ge> 4 \<and> is_digit (s ! 0) \<and> s ! 1 = CHR '':'' \<and> is_digit (s ! 2) \<and> is_digit (s ! 3)) \<or>
     (length s \<ge> 5 \<and> is_digit (s ! 0) \<and> is_digit (s ! 1) \<and> s ! 2 = CHR '':'' \<and> is_digit (s ! 3) \<and> is_digit (s ! 4))"

definition extractSpeaker :: "string \<Rightarrow> string \<times> string" where
  "extractSpeaker text = (case voice_match text of
     Some (m1, rest) \<Rightarrow> (trim_space m1, trim_suffix rest ''</v>'')
   | None \<Rightarrow>
     let firstLine = takeWhile (\<lambda>c. c \<noteq> newline) text; rest = dropWhile (\<lambda>c. c \<noteq> newline) text in
     case index_of firstLine '': '' of
       None \<Rightarrow> ([], text)
     | Some i \<Rightarrow>
       if i > 0 then
         let name = trim_space (take i firstLine) in
         if name \<noteq> [] \<and> CHR ''<'' \<notin> set name \<and> CHR ''>'' \<notin> set name \<and> \<not> leading_timestamp name
         then (name, trim_space (drop (i + 2) firstLine) @ rest)
         else ([], text)
       else ([], text))"

definition is_letter :: "char \<Rightarrow> bool" where
  "is_letter c \<longleftrightarrow> (65 \<le> (of_char c :: nat) \<and> (of_char c :: nat) \<le> 90) \<or> (97 \<le> (of_char c :: nat) \<and> (of_char c :: nat) \<le> 122)"

definition digit_05 :: "char \<Rightarrow> bool" where
  "digit_05 c \<longleftrightarrow> 48 \<le> (of_char c :: nat) \<and> (of_char c :: nat) \<le> 53"

text \<open>The length of the match of \<open>vttSpanTagRe\<close> at the start of a text, 0 when there is none.\<close>

definition tag_length :: "string \<Rightarrow> nat" where
  "tag_length s =
     (if s = [] \<or> hd s \<noteq> CHR ''<'' then 0
      else let r = drop 1 s; t = (if has_prefix r ''/'' then drop 1 r else r);
               close = takeWhile (\<lambda>c. c \<noteq> CHR ''>'') r;
               d = takeWhile is_digit r; u = dropWhile is_digit r
        in if t \<noteq> [] \<and> is_letter (hd t) \<and> length close < length r then length close + 2
           else if length d \<ge> 2 \<and> length u \<ge> 11 \<and> u ! 0 = CHR '':'' \<and> digit_05 (u ! 1) \<and> is_digit (u ! 2) \<and>
             u ! 3 = CHR '':'' \<and> digit_05 (u ! 4) \<and> is_digit (u ! 5) \<and> u ! 6 = CHR ''.'' \<and>
             is_digit (u ! 7) \<and> is_digit (u ! 8) \<and> is_digit (u ! 9) \<and> u ! 10 = CHR ''>''
           then length d + 12 else 0)"

function strip_tags :: "string \<Rightarrow> string" where
  "strip_tags [] = []"
| "strip_tags (c # s) = (let n = tag_length (c # s) in
     if n = 0 then c # strip_tags s else strip_tags (drop n (c # s)))"
  by pat_completeness auto
termination
  by (relation "measure length") auto

subsection \<open>Parsing and writing\<close>

definition parse_block :: "(string \<Rightarrow> string) \<Rightarrow> string \<Rightarrow> transcript_segment list" where
  "parse_block unescape block =
     (let lines = split (Trim_chars (\<lambda>c. c = newline) block) [newline];
          first = trim_space (hd lines) in
      if list_ex (has_prefix first) [''WEBVTT'', ''NOTE'', ''STYLE'', ''REGION''] then []
      else let idx = (if parseTimingLine (lines ! 0) = None then 1 else 0) in
        if idx \<ge> length lines then []
        else case parseTimingLine (lines ! idx) of None \<Rightarrow> []
        | Some (start, e) \<Rightarrow>
          let payload = join (drop (idx + 1) lines) [newline] in
          if trim_space payload = [] then []
          else case extractSpeaker payload of (speaker, cleaned) \<Rightarrow>
            let cleaned = trim_space (strip_tags (unescape cleaned)) in
            if cleaned = [] then []
            else [\<lparr>seg_start = start, seg_end = e, seg_text = cleaned,
              seg_speaker = sanitizeSpeaker unescape speaker\<rparr>])"

definition parseVTT :: "(string \<Rightarrow> string) \<Rightarrow> string \<Rightarrow> transcript_segment list option" where
  "parseVTT unescape raw =
     (let text = cr_to_lf (crlf_to_lf (trim_prefix raw [CHR 0xEF, CHR 0xBB, CHR 0xBF]));
          trimmed = dropWhile (\<lambda>c. c = CHR '' '' \<or> c = CHR 0x09) text in
      if \<not> has_prefix trimmed ''WEBVTT'' then None
      else let after = drop 6 trimmed in
        if after \<noteq> [] \<and> \<not> has_prefix after [newline] \<and> \<not> has_prefix after '' '' \<and> \<not> has_prefix after [CHR 0x09]
        then None
        else let segments = concat (map (parse_block unescape) (split text [newline, newline]))
          in if segments = [] then None else Some segments)"

text \<open>\<open>mergeSegments\<close>: the merged cues so far, in reverse order, each with its pieces of text.\<close>

definition mergeable :: "transcript_segment \<Rightarrow> transcript_segment \<Rightarrow> bool" where
  "mergeable p s \<longleftrightarrow> seg_speaker p = seg_speaker s \<and> f_sub (seg_start s) (seg_end p) \<le> 2"

fun merge_loop :: "(transcript_segment \<times> string list) list \<Rightarrow> transcript_segment list \<Rightarrow> (transcript_segment \<times> string list) list" where
  "merge_loop out [] = rev out"
| "merge_loop ((p, parts) # out) (s # segs) =
     (if mergeable p s
      then merge_loop ((if seg_end s > seg_end p then p\<lparr>seg_end := seg_end s\<rparr> else p, parts @ [seg_text s]) # out) segs
      else merge_loop ((s, [seg_text s]) # (p, parts) # out) segs)"
| "merge_loop [] (s # segs) = merge_loop [(s, [seg_text s])] segs"

definition mergeSegments :: "transcript_segment list \<Rightarrow> transcript_segment list" where
  "mergeSegments segs = map (\<lambda>(p, parts). p\<lparr>seg_text := join parts '' ''\<rparr>) (merge_loop [] segs)"

definition segmentsToVTT :: "transcript_segment list \<Rightarrow> string" where
  "segmentsToVTT segments = ''WEBVTT'' @ [newline, newline] @ concat (map (\<lambda>seg.
     formatVTTTimestamp (seg_start seg) @ '' --> '' @ formatVTTTimestamp (seg_end seg) @ [newline] @
     (if seg_speaker seg \<noteq> [] then ''<v '' @ seg_speaker seg @ ''>'' else []) @
     seg_text seg @ [newline, newline]) segments)"

subsection \<open>Joined cues\<close>

text \<open>No two neighbours of the result could be joined any more.\<close>

definition blocked :: "(transcript_segment \<times> string list) \<Rightarrow> (transcript_segment \<times> string list) \<Rightarrow> bool" where
  "blocked a b \<longleftrightarrow> \<not> mergeable (fst a) (fst b)"

lemma merge_loop_blocked:
  "successively (\<lambda>a b. blocked b a) out \<Longrightarrow> successively blocked (merge_loop out segs)"
proof (induction out segs rule: merge_loop.induct)
  case (1 out)
  then show ?case by (simp add: successively_rev)
next
  case (2 p parts out s segs)
  have start: "mergeable q (if seg_end s > seg_end p then p\<lparr>seg_end := seg_end s\<rparr> else p) = mergeable q p" for q
    by (simp add: mergeable_def)
  show ?case
  proof (cases "mergeable p s")
    case True
    with 2 show ?thesis by (cases out) (auto simp: blocked_def start mergeable_def)
  next
    case False
    with 2 show ?thesis by (auto simp: blocked_def)
  qed
qed simp

lemma merge_loop_id:
  "successively (\<lambda>a b. \<not> mergeable a b) (map fst (rev out) @ segs) \<Longrightarrow>
   merge_loop out segs = rev out @ map (\<lambda>s. (s, [seg_text s])) segs"
proof (induction out segs rule: merge_loop.induct)
  case (2 p parts out s segs)
  have "\<not> mergeable p s"
    using 2(3) by (simp add: successively_append_iff)
  with 2 show ?case by (simp add: successively_append_iff)
qed simp_all

text \<open>Joining cues that were joined already changes nothing, and of the result no two neighbours of one
  speaker lie within two seconds of each other.\<close>

theorem mergeSegments_idempotent:
  "successively (\<lambda>a b. \<not> mergeable a b) (mergeSegments segs) \<and>
   mergeSegments (mergeSegments segs) = mergeSegments segs"
proof -
  have succ: "successively (\<lambda>a b. \<not> mergeable a b) (mergeSegments segs)"
    using merge_loop_blocked [of "[]" segs]
    by (simp add: mergeSegments_def successively_map blocked_def mergeable_def case_prod_beta)
  moreover have "merge_loop [] (mergeSegments segs) = map (\<lambda>s. (s, [seg_text s])) (mergeSegments segs)"
    using merge_loop_id [of "[]" "mergeSegments segs"] succ by simp
  then have "mergeSegments (mergeSegments segs) = mergeSegments segs"
    by (simp add: mergeSegments_def [of "mergeSegments segs"] comp_def)
  ultimately show ?thesis by blast
qed

subsection \<open>Timestamps round\<close>

lemma digits_int_snoc: "digits_int (s @ [c]) = digits_int s * 10 + int (of_char c - 48)"
  by (simp add: digits_int_def)

lemma of_digit: "d < 10 \<Longrightarrow> of_char (digit d) = (48 + d :: nat)"
  by (simp add: digit_def)

lemma is_digit_digit: "d < 10 \<Longrightarrow> is_digit (digit d)"
  by (simp add: is_digit_def of_digit)

lemma itoa_nat_digits: "list_all is_digit (itoa_nat n) \<and> itoa_nat n \<noteq> [] \<and> digits_int (itoa_nat n) = int n"
proof (induction n rule: itoa_nat.induct)
  case (1 n)
  show ?case
  proof (cases "n < 10")
    case True
    then show ?thesis
      by (subst (1 2 3) itoa_nat.simps) (simp add: is_digit_digit digits_int_def of_digit)
  next
    case False
    moreover have "int (n div 10) * 10 + int (n mod 10) = int n"
      by (metis div_mult_mod_eq of_nat_add of_nat_mult of_nat_numeral)
    ultimately show ?thesis using 1
      by (subst (1 2 3) itoa_nat.simps) (simp add: is_digit_digit digits_int_snoc of_digit)
  qed
qed

lemma digits_pad: "digits_int (replicate k (CHR ''0'') @ s) = digits_int s"
  by (induction k) (simp_all add: digits_int_def)

lemma digit_not_sign: "is_digit c \<Longrightarrow> c \<noteq> CHR ''-'' \<and> c \<noteq> CHR ''+'' \<and> c \<noteq> CHR '':'' \<and> c \<noteq> CHR ''.''"
  by (auto simp: is_digit_def)

lemma pad0_digits: "0 \<le> n \<Longrightarrow> list_all is_digit (pad0 k (itoa n)) \<and> pad0 k (itoa n) \<noteq> [] \<and> digits_int (pad0 k (itoa n)) = n"
proof -
  assume "0 \<le> n"
  moreover have "list_all is_digit (replicate j (CHR ''0''))" for j
    by (induction j) (simp_all add: is_digit_def)
  ultimately show ?thesis
    using itoa_nat_digits [of "nat n"] by (simp add: pad0_def itoa_def digits_pad)
qed

lemma Atoi_pad0: "0 \<le> n \<Longrightarrow> n < 2 ^ 63 \<Longrightarrow> Atoi (pad0 k (itoa n)) = Some n"
proof -
  assume n: "0 \<le> n" "n < 2 ^ 63"
  let ?s = "pad0 k (itoa n)"
  obtain c t where s: "?s = c # t" using pad0_digits [OF n(1), of k] by (cases ?s) auto
  have "is_digit c" using pad0_digits [OF n(1), of k] s by simp
  then have "\<not> has_prefix ?s ''-''" "\<not> has_prefix ?s ''+''"
    using digit_not_sign [of c] s by (auto simp: has_prefix_def)
  with pad0_digits [OF n(1), of k] n show ?thesis by (simp add: Atoi_def Let_def)
qed

lemma itoa_length3: "0 \<le> n \<Longrightarrow> n < 1000 \<Longrightarrow> length (pad0 3 (itoa n)) = 3"
proof -
  assume n: "0 \<le> n" "n < 1000"
  have "length (itoa_nat m) \<le> 3" if "m < 1000" for m
  proof -
    have a: "length (itoa_nat m) = 1" if "m < 10" for m using that by (subst itoa_nat.simps) simp
    have b: "length (itoa_nat m) \<le> 2" if "m < 100" for m
      using that a [of m] a [of "m div 10"] by (subst itoa_nat.simps) (simp add: a)
    show ?thesis using that a [of m] b [of "m div 10"] by (subst itoa_nat.simps) simp
  qed
  from this [of "nat n"] n show ?thesis by (simp add: pad0_def itoa_def)
qed

lemma split_aux_fuel:
  "sep \<noteq> [] \<Longrightarrow> length s \<le> n \<Longrightarrow> length s \<le> m \<Longrightarrow> split_aux n s sep = split_aux m s sep"
proof (induction n arbitrary: s m)
  case 0
  then show ?case by (cases m) simp_all
next
  case (Suc n)
  show ?case
  proof (cases "s = []")
    case True
    with Suc.prems(1) show ?thesis by (cases m) simp_all
  next
    case False
    with Suc.prems obtain m' where m: "m = Suc m'" by (cases m) auto
    have "length (drop (i + length sep) s) \<le> n" "length (drop (i + length sep) s) \<le> m'" for i
      using Suc.prems False m by (cases sep; cases s; simp)+
    with Suc.IH [OF Suc.prems(1)] m show ?thesis by (simp split: option.split)
  qed
qed

lemma index_of_single: "c \<notin> set a \<Longrightarrow> index_of (a @ c # b) [c] = Some (length a)"
  by (induction a) (auto simp: has_prefix_def)

lemma split_first: "c \<notin> set a \<Longrightarrow> split (a @ c # b) [c] = a # split b [c]"
  using split_aux_fuel [of "[c]" b "length a + length b" "length b"]
  by (simp add: split_def index_of_single)

lemma split_none: "c \<notin> set s \<Longrightarrow> split s [c] = [s]"
proof -
  assume "c \<notin> set s"
  then have "index_of s [c] = None"
    by (induction s) (auto simp: has_prefix_def)
  then show ?thesis by (cases "length s") (simp_all add: split_def)
qed

lemma parse_parts:
  assumes "0 \<le> h" "h < 2 ^ 63" "0 \<le> m" "m < 60" "0 \<le> s" "s < 60" "0 \<le> ms" "ms < 1000"
  shows "parseVTTTimestamp (pad0 2 (itoa h) @ '':'' @ pad0 2 (itoa m) @ '':'' @ pad0 2 (itoa s) @ ''.'' @ pad0 3 (itoa ms)) =
    Some (f_add (f_add (f_add (f_mul (f_of_int h) 3600) (f_mul (f_of_int m) 60)) (f_of_int s)) (f_div (f_of_int ms) 1000))"
proof -
  let ?H = "pad0 2 (itoa h)" and ?M = "pad0 2 (itoa m)" and ?S = "pad0 2 (itoa s)" and ?F = "pad0 3 (itoa ms)"
  let ?hms = "?H @ '':'' @ ?M @ '':'' @ ?S"
  have no: "CHR '':'' \<notin> set (pad0 k (itoa n)) \<and> CHR ''.'' \<notin> set (pad0 k (itoa n))" if "0 \<le> n" for k n
    using pad0_digits [OF that, of k] digit_not_sign by (auto simp: list_all_iff)
  have F: "length ?F = 3" using assms by (intro itoa_length3)
  have "takeWhile (\<lambda>c. c \<noteq> CHR ''.'') (rev (?hms @ ''.'' @ ?F)) = rev ?F"
  proof -
    have "rev (?hms @ ''.'' @ ?F) = rev ?F @ CHR ''.'' # rev ?hms" by simp
    moreover have "takeWhile (\<lambda>c. c \<noteq> CHR ''.'') (rev ?F @ CHR ''.'' # rev ?hms) = rev ?F"
      using no [OF assms(7), of 3] by (subst takeWhile_append2) auto
    ultimately show ?thesis by (simp only:)
  qed
  moreover have "split ?hms '':'' = [?H, ?M, ?S]"
    using no assms by (simp add: split_first split_none)
  moreover have "take (length (?hms @ ''.'' @ ?F) - 4) (?hms @ ''.'' @ ?F) = ?hms" using F by simp
  ultimately have "parseVTTTimestamp (?hms @ ''.'' @ ?F) =
      Some (f_add (f_add (f_add (f_mul (f_of_int h) 3600) (f_mul (f_of_int m) 60)) (f_of_int s)) (f_div (f_of_int ms) 1000))"
    using assms F by (simp add: parseVTTTimestamp_def Let_def Atoi_pad0)
  then show ?thesis by simp
qed

lemma f_ints:
  "\<bar>a\<bar> \<le> 2 ^ 53 \<Longrightarrow> \<bar>b\<bar> \<le> 2 ^ 53 \<Longrightarrow> \<bar>a + b\<bar> \<le> 2 ^ 53 \<Longrightarrow> f_add (of_int a) (of_int b) = of_int (a + b)"
  "\<bar>a * b\<bar> \<le> 2 ^ 53 \<Longrightarrow> f_mul (of_int a) (of_int b) = of_int (a * b)"
  using rnd64_of_int [of "a + b"] rnd64_of_int [of "a * b"] by (simp_all add: f_add_def f_mul_def)

lemma millis_back:
  assumes "0 \<le> S" "S < 2 ^ 30" "0 \<le> ms" "ms < 1000"
  shows "f_to_int (f_add (f_mul (f_add (of_int S) (f_div (of_int ms) 1000)) 1000) (1 / 2)) = 1000 * S + ms"
proof -
  let ?r = "of_int ms / 1000 :: rat" and ?N = "1000 * S + ms"
  have ms: "0 \<le> ?r" "?r \<le> 1" using assms(3,4) by (simp_all add: divide_le_eq)
  have S: "(0 :: rat) \<le> of_int S" "(of_int S :: rat) \<le> 2 ^ 30 - 1"
    using assms(1,2) by (simp, metis (no_types) of_int_1 of_int_diff of_int_le_iff of_int_numeral of_int_power zle_diff1_eq)
  define e1 where "e1 = rnd64 ?r"
  have e1: "\<bar>e1 - ?r\<bar> \<le> pow2 (- 53)" "0 \<le> e1" "e1 \<le> 1"
    unfolding e1_def using rnd64_near [OF ms(1), of 0] ms f64.nonneg [OF ms(1)] f64.le_int [of 1 ?r] by simp_all
  define y where "y = rnd64 (of_int S + e1)"
  have y: "\<bar>y - (of_int S + e1)\<bar> \<le> pow2 (- 23)"
    unfolding y_def using rnd64_near [of "of_int S + e1" 30] S e1 by (simp add: pow2_of_nat [of 30, simplified])
  have y0: "0 \<le> y" "y \<le> 2 ^ 30"
    unfolding y_def using S e1 f64.nonneg [of "of_int S + e1"] f64.le_int [of "2 ^ 30" "of_int S + e1"] by simp_all
  define z where "z = rnd64 (y * 1000)"
  have z: "\<bar>z - y * 1000\<bar> \<le> pow2 (- 13)"
    unfolding z_def using rnd64_near [of "y * 1000" 40] y0 by (simp add: pow2_of_nat [of 40, simplified])
  have z0: "0 \<le> z" "z \<le> 2 ^ 40"
    unfolding z_def using y0 f64.nonneg [of "y * 1000"] f64.le_int [of "2 ^ 40" "y * 1000"] by simp_all
  define u where "u = rnd64 (z + 1 / 2)"
  have u: "\<bar>u - (z + 1 / 2)\<bar> \<le> pow2 (- 12)"
    unfolding u_def using rnd64_near [of "z + 1 / 2" 41] z0 by (simp add: pow2_of_nat [of 41, simplified])
  have p: "pow2 (- 53) \<le> 1 / 1000000" "pow2 (- 23) \<le> 1 / 1000000" "pow2 (- 13) \<le> 1 / 1000" "pow2 (- 12) \<le> 1 / 1000"
    by (simp_all add: power_int_def power_one_over power_divide)
  have "(of_int ?N :: rat) = 1000 * of_int S + 1000 * ?r" by simp
  then have "of_int ?N \<le> u" "u < of_int ?N + 1"
    using e1(1) y z u p unfolding abs_le_iff by linarith+
  then have "\<lfloor>u\<rfloor> = ?N" by (simp add: floor_unique)
  moreover have "0 \<le> u" unfolding u_def using z0 by (intro f64.nonneg) simp
  ultimately show ?thesis
    by (simp add: f_to_int_def f_add_def f_mul_def f_div_def u_def z_def y_def e1_def)
qed

definition millis :: "float64 \<Rightarrow> int" where
  "millis x = f_to_int (f_add (f_mul x 1000) (1 / 2))"

lemma millis_bounds:
  assumes "0 \<le> x" "x \<le> 10 ^ 9"
  shows "0 \<le> millis x" "millis x \<le> 10 ^ 12 + 1"
proof -
  let ?y = "rnd64 (x * 1000)" and ?z = "rnd64 (rnd64 (x * 1000) + 1 / 2)"
  have "0 \<le> ?y" using assms(1) by (simp add: f64.nonneg)
  then have z: "0 \<le> ?z" by (intro f64.nonneg) simp
  have "?y \<le> of_int (10 ^ 12)" using assms(2) by (intro f64.le_int) simp_all
  then have "?z \<le> of_int (10 ^ 12 + 1)" by (intro f64.le_int) simp_all
  with z show "0 \<le> millis x" "millis x \<le> 10 ^ 12 + 1"
    by (simp_all add: millis_def f_to_int_def f_add_def f_mul_def floor_le_iff)
qed

lemma clock_parts:
  fixes N :: int
  assumes "0 \<le> N"
  shows "0 \<le> N div 3600000" "0 \<le> N mod 3600000 div 60000" "N mod 3600000 div 60000 < 60"
    "0 \<le> N mod 3600000 mod 60000 div 1000" "N mod 3600000 mod 60000 div 1000 < 60"
    "N mod 3600000 mod 60000 mod 1000 = N mod 1000"
    "N div 3600000 * 3600 + N mod 3600000 div 60000 * 60 + N mod 3600000 mod 60000 div 1000 = N div 1000"
proof -
  have "N mod 3600000 div 60000 < 60" "N mod 3600000 mod 60000 div 1000 < 60"
    using pos_mod_bound [of 3600000 N] pos_mod_bound [of 60000 "N mod 3600000"]
    by linarith+
  moreover have m: "N mod 3600000 mod 60000 = N mod 60000" "N mod 60000 mod 1000 = N mod 1000"
    by (simp_all add: mod_mod_cancel)
  moreover have "N div 3600000 * 3600 + N mod 3600000 div 60000 * 60 + N mod 3600000 mod 60000 div 1000 = N div 1000"
    using div_mult_mod_eq [of N 3600000] div_mult_mod_eq [of "N mod 3600000" 60000]
      div_mult_mod_eq [of "N mod 60000" 1000] div_mult_mod_eq [of N 1000] unfolding m by linarith
  ultimately show "N mod 3600000 div 60000 < 60" "N mod 3600000 mod 60000 div 1000 < 60"
    "N mod 3600000 mod 60000 mod 1000 = N mod 1000"
    "N div 3600000 * 3600 + N mod 3600000 div 60000 * 60 + N mod 3600000 mod 60000 div 1000 = N div 1000"
    by simp_all
qed (use assms in simp_all)

lemma f_of_int_small: "0 \<le> n \<Longrightarrow> n < 1000 \<Longrightarrow> f_of_int n = of_int n"
  by (rule f_of_int_exact) simp

lemma clock_seconds:
  assumes "0 \<le> h" "0 \<le> m" "0 \<le> s" "h * 3600 + m * 60 + s < 2 ^ 30"
  shows "f_add (f_add (f_mul (f_of_int h) 3600) (f_mul (f_of_int m) 60)) (f_of_int s) = of_int (h * 3600 + m * 60 + s)"
proof -
  have b: "\<bar>h\<bar> \<le> 2 ^ 53" "\<bar>m\<bar> \<le> 2 ^ 53" "\<bar>s\<bar> \<le> 2 ^ 53" "\<bar>h * 3600\<bar> \<le> 2 ^ 53" "\<bar>m * 60\<bar> \<le> 2 ^ 53"
    "\<bar>h * 3600 + m * 60\<bar> \<le> 2 ^ 53" "\<bar>h * 3600 + m * 60 + s\<bar> \<le> 2 ^ 53"
    using assms by simp_all
  have "f_mul (of_int h) 3600 = of_int (h * 3600)" "f_mul (of_int m) 60 = of_int (m * 60)"
    using f_ints(2) [of h 3600] f_ints(2) [of m 60] b by (simp_all del: of_int_mult)
  then show ?thesis
    using b f_ints(1) [of "h * 3600" "m * 60"] f_ints(1) [of "h * 3600 + m * 60" s]
    by (simp add: f_of_int_exact del: of_int_mult of_int_add)
qed

text \<open>C39: parsing a timestamp the writer wrote and writing it again gives the same text, for every time up to a
  billion seconds (more than thirty years), in the float64 arithmetic of the code: a stored transcript does not
  drift when it is read and written again.\<close>

theorem timestamp_roundtrip:
  assumes "0 \<le> x" "x \<le> 10 ^ 9"
  shows "\<exists>y. parseVTTTimestamp (formatVTTTimestamp x) = Some y \<and> formatVTTTimestamp y = formatVTTTimestamp x"
proof -
  note c = clock_parts [OF millis_bounds(1) [OF assms]]
  let ?N = "millis x"
  let ?h = "?N div 3600000" and ?m = "?N mod 3600000 div 60000" and ?s = "?N mod 3600000 mod 60000 div 1000"
  let ?y = "f_add (f_add (f_add (f_mul (f_of_int ?h) 3600) (f_mul (f_of_int ?m) 60)) (f_of_int ?s)) (f_div (f_of_int (?N mod 1000)) 1000)"
  have N: "?h < 2 ^ 63" "0 \<le> ?N mod 1000" "?N mod 1000 < 1000" "0 \<le> ?N div 1000" "?N div 1000 < 2 ^ 30"
    using millis_bounds [OF assms] by simp_all
  have written: "formatVTTTimestamp z = pad0 2 (itoa ?h) @ '':'' @ pad0 2 (itoa ?m) @ '':'' @ pad0 2 (itoa ?s) @ ''.'' @ pad0 3 (itoa (?N mod 1000))"
    if "0 \<le> z" "millis z = ?N" for z
    using that c(6) by (simp add: formatVTTTimestamp_def Let_def millis_def)
  have y: "?y = f_add (of_int (?N div 1000)) (f_div (of_int (?N mod 1000)) 1000)"
  proof -
    have "f_of_int (?N mod 1000) = of_int (?N mod 1000)"
      by (rule f_of_int_small [OF N(2,3)])
    moreover have "?h * 3600 + ?m * 60 + ?s < 2 ^ 30" using N(5) unfolding c(7) .
    ultimately show ?thesis using clock_seconds [OF c(1,2,4)] unfolding c(7) by (simp only:)
  qed
  have "millis ?y = ?N"
    unfolding y using millis_back [OF N(4,5,2,3)] unfolding millis_def by simp
  moreover have "0 \<le> ?y"
    unfolding y using N(2,4) by (simp add: f_add_def f_div_def f64.nonneg)
  ultimately have "formatVTTTimestamp ?y = formatVTTTimestamp x"
    using trans [OF written [of ?y] written [OF assms(1) refl, symmetric]] by blast
  moreover have "parseVTTTimestamp (formatVTTTimestamp x) = Some ?y"
    unfolding written [OF assms(1) refl] by (rule parse_parts [OF c(1) N(1) c(2,3,4,5) N(2,3)])
  ultimately show ?thesis by blast
qed

theorem timestamp_roundtrip_witness:
  "\<exists>y. parseVTTTimestamp (formatVTTTimestamp (7 / 2)) = Some y \<and> formatVTTTimestamp y = formatVTTTimestamp (7 / 2)"
  by (rule timestamp_roundtrip) simp_all

end
