(* ===== verification/Languages.thy ===== *)
theory Languages
  imports Main
begin

text \<open>
  The languages of a transcription (\<open>internal/languages/languages.go\<close>): the map as an association list
  whose keys are distinct, so that a lookup does not depend on the order.
\<close>

definition transcriptionLanguageMap :: "(string \<times> string) list" where
  "transcriptionLanguageMap =
    [(''auto'', ''Auto-detect''), (''af'', ''Afrikaans''), (''am'', ''Amharic''), (''ar'', ''Arabic''),
     (''as'', ''Assamese''), (''az'', ''Azerbaijani''), (''ba'', ''Bashkir''), (''be'', ''Belarusian''),
     (''bg'', ''Bulgarian''), (''bn'', ''Bengali''), (''bo'', ''Tibetan''), (''br'', ''Breton''),
     (''bs'', ''Bosnian''), (''ca'', ''Catalan''), (''cs'', ''Czech''), (''cy'', ''Welsh''),
     (''da'', ''Danish''), (''de'', ''German''), (''el'', ''Greek''), (''en'', ''English''),
     (''es'', ''Spanish''), (''et'', ''Estonian''), (''eu'', ''Basque''), (''fa'', ''Persian''),
     (''fi'', ''Finnish''), (''fo'', ''Faroese''), (''fr'', ''French''), (''gl'', ''Galician''),
     (''gu'', ''Gujarati''), (''ha'', ''Hausa''), (''haw'', ''Hawaiian''), (''he'', ''Hebrew''),
     (''hi'', ''Hindi''), (''hr'', ''Croatian''), (''ht'', ''Haitian Creole''), (''hu'', ''Hungarian''),
     (''hy'', ''Armenian''), (''id'', ''Indonesian''), (''is'', ''Icelandic''), (''it'', ''Italian''),
     (''ja'', ''Japanese''), (''jw'', ''Javanese''), (''ka'', ''Georgian''), (''kk'', ''Kazakh''),
     (''km'', ''Khmer''), (''kn'', ''Kannada''), (''ko'', ''Korean''), (''la'', ''Latin''),
     (''lb'', ''Luxembourgish''), (''ln'', ''Lingala''), (''lo'', ''Lao''), (''lt'', ''Lithuanian''),
     (''lv'', ''Latvian''), (''mg'', ''Malagasy''), (''mi'', ''Maori''), (''mk'', ''Macedonian''),
     (''ml'', ''Malayalam''), (''mn'', ''Mongolian''), (''mr'', ''Marathi''), (''ms'', ''Malay''),
     (''mt'', ''Maltese''), (''my'', ''Myanmar''), (''ne'', ''Nepali''), (''nl'', ''Dutch''),
     (''nn'', ''Nynorsk''), (''no'', ''Norwegian''), (''oc'', ''Occitan''), (''pa'', ''Punjabi''),
     (''pl'', ''Polish''), (''ps'', ''Pashto''), (''pt'', ''Portuguese''), (''ro'', ''Romanian''),
     (''ru'', ''Russian''), (''sa'', ''Sanskrit''), (''sd'', ''Sindhi''), (''si'', ''Sinhala''),
     (''sk'', ''Slovak''), (''sl'', ''Slovenian''), (''sn'', ''Shona''), (''so'', ''Somali''),
     (''sq'', ''Albanian''), (''sr'', ''Serbian''), (''su'', ''Sundanese''), (''sv'', ''Swedish''),
     (''sw'', ''Swahili''), (''ta'', ''Tamil''), (''te'', ''Telugu''), (''tg'', ''Tajik''),
     (''th'', ''Thai''), (''tk'', ''Turkmen''), (''tl'', ''Tagalog''), (''tr'', ''Turkish''),
     (''tt'', ''Tatar''), (''uk'', ''Ukrainian''), (''ur'', ''Urdu''), (''uz'', ''Uzbek''),
     (''vi'', ''Vietnamese''), (''yi'', ''Yiddish''), (''yo'', ''Yoruba''), (''yue'', ''Cantonese''),
     (''zh'', ''Chinese'')]"

definition LanguageName :: "string \<Rightarrow> string" where
  "LanguageName code = (case map_of transcriptionLanguageMap code of Some name \<Rightarrow> name | None \<Rightarrow> [])"

definition IsValidTranscriptionLanguage :: "string \<Rightarrow> bool" where
  "IsValidTranscriptionLanguage code \<longleftrightarrow> map_of transcriptionLanguageMap code \<noteq> None"

lemma valid_examples [simp]:
  "IsValidTranscriptionLanguage ''auto''" "IsValidTranscriptionLanguage ''de''"
  "\<not> IsValidTranscriptionLanguage ''xx''"
  by (simp_all add: IsValidTranscriptionLanguage_def transcriptionLanguageMap_def)

end
