(* ===== verification/Video_Settings.thy ===== *)
theory Video_Settings
  imports Video_Crud VTT Languages
begin

text \<open>
  The settings of one video (\<open>internal/video/video_settings.go\<close>): each handler checks its body and
  writes a few columns of one row of the caller's scope. \<open>hash\<close> is bcrypt, which may refuse a
  password; \<open>unescape\<close> is \<open>html.UnescapeString\<close>. A body of \<open>None\<close> did not decode.
\<close>

subsection \<open>The statement they share\<close>

text \<open>
  \<open>UPDATE videos SET .. WHERE\<close> the scope filter \<open>AND\<close> a condition, answered by the number of rows: 500
  with a message of the handler, 404 with another one, 204.
\<close>

definition update_scoped :: "rctx \<Rightarrow> string \<Rightarrow> (video \<Rightarrow> bool) \<Rightarrow> (world \<Rightarrow> video \<Rightarrow> video)
    \<Rightarrow> string \<Rightarrow> string \<Rightarrow> unit response prog" where
  "update_scoped c videoID suffix f failed missing = do {
     tag \<leftarrow> update_videos (\<lambda>w. orgVideoFilter c videoID suffix) f;
     case tag of Inl _ \<Rightarrow> State_Monad.return (WriteError 500 failed)
     | Inr n \<Rightarrow> if n = 0 then State_Monad.return (WriteError 404 missing)
         else State_Monad.return (WriteHeader 204)
   }"

abbreviation live :: "video \<Rightarrow> bool" where "live v \<equiv> v_status v \<noteq> Deleted"

abbreviation bad_body :: "'b response" where "bad_body \<equiv> WriteError 400 ''invalid request body''"

subsection \<open>The handlers\<close>

definition SetDownloadEnabled :: "rctx \<Rightarrow> string \<Rightarrow> bool option \<Rightarrow> unit response prog" where
  "SetDownloadEnabled c videoID body = (case body of
     None \<Rightarrow> State_Monad.return bad_body
   | Some enabled \<Rightarrow> update_scoped c videoID live (\<lambda>w v. v\<lparr>v_download_enabled := enabled\<rparr>)
       ''could not update download setting'' ''video not found'')"

definition SetEmailGate :: "rctx \<Rightarrow> string \<Rightarrow> bool option \<Rightarrow> unit response prog" where
  "SetEmailGate c videoID body = (case body of
     None \<Rightarrow> State_Monad.return bad_body
   | Some enabled \<Rightarrow> update_scoped c videoID live (\<lambda>w v. v\<lparr>v_email_gate_enabled := enabled\<rparr>)
       ''could not update email gate setting'' ''video not found'')"

definition SetLinkExpiry :: "rctx \<Rightarrow> string \<Rightarrow> bool option \<Rightarrow> unit response prog" where
  "SetLinkExpiry c videoID body = (case body of
     None \<Rightarrow> State_Monad.return bad_body
   | Some neverExpires \<Rightarrow> update_scoped c videoID live
       (if neverExpires then (\<lambda>w v. v\<lparr>v_share_expires_at := None, v_updated_at := now w\<rparr>)
        else (\<lambda>w v. v\<lparr>v_share_expires_at := Some (now w + days 7), v_updated_at := now w\<rparr>))
       ''could not update link expiry'' ''video not found'')"

record cta_request =
  ct_Text :: "string option"
  ct_URL :: "string option"

definition check_cta :: "cta_request \<Rightarrow> string" where
  "check_cta req = (case (ct_Text req, ct_URL req) of
     (Some t, Some u) \<Rightarrow>
       if length t > 100 then ''CTA text must be 100 characters or less''
       else if length u > 2000 then ''CTA URL must be 2000 characters or less''
       else if \<not> has_prefix u ''http://'' \<and> \<not> has_prefix u ''https://''
         then ''CTA URL must start with http:// or https://''
       else []
   | _ \<Rightarrow> [])"

definition SetCTA :: "rctx \<Rightarrow> string \<Rightarrow> cta_request option \<Rightarrow> unit response prog" where
  "SetCTA c videoID body = (case body of
     None \<Rightarrow> State_Monad.return bad_body
   | Some req \<Rightarrow>
     if check_cta req \<noteq> [] then State_Monad.return (WriteError 400 (check_cta req))
     else update_scoped c videoID live (\<lambda>w v. v\<lparr>v_cta_text := ct_Text req, v_cta_url := ct_URL req\<rparr>)
       ''could not update CTA'' ''video not found'')"

definition SetPassword :: "(string \<Rightarrow> string option) \<Rightarrow> rctx \<Rightarrow> string \<Rightarrow> string option \<Rightarrow> unit response prog" where
  "SetPassword hash c videoID body = (case body of
     None \<Rightarrow> State_Monad.return bad_body
   | Some password \<Rightarrow>
     if length password > 128 then State_Monad.return (WriteError 400 ''password is too long'')
     else if password = [] then update_scoped c videoID live
       (\<lambda>w v. v\<lparr>v_share_password := None, v_updated_at := now w\<rparr>) ''failed to update password'' ''video not found''
     else case hash password of None \<Rightarrow> State_Monad.return (WriteError 500 ''failed to hash password'')
     | Some h \<Rightarrow> update_scoped c videoID live
         (\<lambda>w v. v\<lparr>v_share_password := Some h, v_updated_at := now w\<rparr>) ''failed to update password'' ''video not found'')"

text \<open>\<open>Some None\<close> is a body that did not decode, \<open>None\<close> an empty one.\<close>

definition retranscribe_checked :: "config \<Rightarrow> rctx \<Rightarrow> string \<Rightarrow> string \<Rightarrow> unit response prog" where
  "retranscribe_checked h c videoID language = do {
     early \<leftarrow> (if language = [] then State_Monad.return None
       else if \<not> IsValidTranscriptionLanguage language
         then State_Monad.return (Some (WriteError 400 ''invalid transcription language''))
       else do {
         r \<leftarrow> update_videos (\<lambda>w. orgVideoFilter c videoID (\<lambda>v. True))
           (\<lambda>w v. v\<lparr>v_transcription_language := Some language, v_updated_at := now w\<rparr>);
         State_Monad.return (case r of Inl _ \<Rightarrow> Some (WriteError 500 ''failed to set language'')
           | Inr _ \<Rightarrow> None) });
     case early of Some resp \<Rightarrow> State_Monad.return resp
     | None \<Rightarrow> do {
         e \<leftarrow> EnqueueTranscription h videoID;
         State_Monad.return (case e of Some _ \<Rightarrow> WriteError 500 ''failed to enqueue transcription''
           | None \<Rightarrow> WriteHeader 202) }
   }"

definition Retranscribe :: "config \<Rightarrow> rctx \<Rightarrow> string \<Rightarrow> string option option \<Rightarrow> unit response prog" where
  "Retranscribe h c videoID body = (case (case body of None \<Rightarrow> Some [] | Some b \<Rightarrow> b) of
     None \<Rightarrow> State_Monad.return bad_body
   | Some language \<Rightarrow> do {
       row \<leftarrow> select_row (\<lambda>w. find_where (orgVideoFilter c videoID (\<lambda>v. v_status v = Ready)) (videos w));
       case row of Inl _ \<Rightarrow> State_Monad.return (WriteError 404 ''video not found'')
       | Inr _ \<Rightarrow> retranscribe_checked h c videoID language })"

text \<open>The expiry is read first, a link without one refused; the sum is the database's.\<close>

definition Extend :: "rctx \<Rightarrow> string \<Rightarrow> unit response prog" where
  "Extend c videoID = do {
     row \<leftarrow> select_row (\<lambda>w. find_where (orgVideoFilter c videoID live) (videos w));
     case row of Inl _ \<Rightarrow> State_Monad.return (WriteError 404 ''video not found'')
     | Inr v \<Rightarrow>
       if v_share_expires_at v = None then State_Monad.return (WriteError 400 ''link does not expire'')
       else update_scoped c videoID live
         (\<lambda>w v. v\<lparr>v_share_expires_at := map_option (\<lambda>t. t + days 7) (v_share_expires_at v), v_updated_at := now w\<rparr>)
         ''failed to extend share link'' ''video not found''
   }"

abbreviation transcript_ready :: "video \<Rightarrow> bool" where
  "transcript_ready v \<equiv> v_status v \<noteq> Deleted \<and> v_transcript_status v = WReady"

definition Summarize :: "config \<Rightarrow> rctx \<Rightarrow> string \<Rightarrow> unit response prog" where
  "Summarize h c videoID =
     (if \<not> aiEnabled h then State_Monad.return (WriteError 403 ''AI summaries not enabled'')
      else update_scoped c videoID transcript_ready
        (\<lambda>w v. v\<lparr>v_summary_status := WPending, v_summary := None, v_chapters := None, v_updated_at := now w\<rparr>)
        ''could not enqueue summary'' ''video not found or transcript not ready'')"

definition GenerateDocument :: "config \<Rightarrow> rctx \<Rightarrow> string \<Rightarrow> unit response prog" where
  "GenerateDocument h c videoID =
     (if \<not> aiEnabled h then State_Monad.return (WriteError 403 ''AI features not enabled'')
      else update_scoped c videoID transcript_ready
        (\<lambda>w v. v\<lparr>v_document_status := WPending, v_document := None, v_updated_at := now w\<rparr>)
        ''could not enqueue document generation'' ''video not found or transcript not ready'')"

definition TogglePin :: "rctx \<Rightarrow> string \<Rightarrow> bool response prog" where
  "TogglePin c videoID = do {
     row \<leftarrow> update_video_returning (\<lambda>w. orgVideoFilter c videoID live)
       (\<lambda>w v. v\<lparr>v_pinned := \<not> v_pinned v, v_updated_at := now w\<rparr>);
     State_Monad.return (case row of Inl _ \<Rightarrow> WriteError 404 ''video not found''
       | Inr v \<Rightarrow> WriteJSON 200 (v_pinned v))
   }"

definition DismissTitle :: "rctx \<Rightarrow> string \<Rightarrow> unit response prog" where
  "DismissTitle c videoID = update_scoped c videoID live
     (\<lambda>w v. v\<lparr>v_suggested_title := None, v_updated_at := now w\<rparr>) ''failed to dismiss title'' ''video not found''"

text \<open>
  What \<open>r.FormFile\<close> and \<open>io.ReadAll\<close> deliver: nothing (because of the size cap or for another reason), a
  file that cannot be read, or its bytes.
\<close>

datatype form_file = FormTooLarge | FormMissing | FormUnreadable | FormRaw string

definition MaxTranscriptUploadBytes :: nat where "MaxTranscriptUploadBytes = 5 * 2 ^ 20"

definition UploadTranscript :: "(string \<Rightarrow> string) \<Rightarrow> rctx \<Rightarrow> string \<Rightarrow> form_file
    \<Rightarrow> transcript_segment list response prog" where
  "UploadTranscript unescape c videoID upload = do {
     row \<leftarrow> select_row (\<lambda>w. find_where (orgVideoFilter c videoID (\<lambda>v. v_status v = Ready)) (videos w));
     case row of Inl _ \<Rightarrow> State_Monad.return (WriteError 404 ''video not found'')
     | Inr v \<Rightarrow> (case upload of
         FormTooLarge \<Rightarrow> State_Monad.return (WriteError 413 ''transcript file too large'')
       | FormMissing \<Rightarrow> State_Monad.return (WriteError 400 ''missing transcript file'')
       | FormUnreadable \<Rightarrow> State_Monad.return (WriteError 400 ''could not read file'')
       | FormRaw raw \<Rightarrow>
         if length raw > MaxTranscriptUploadBytes
           then State_Monad.return (WriteError 413 ''transcript file too large'')
         else case parseVTT unescape raw of
           None \<Rightarrow> State_Monad.return (WriteError 400 ''invalid WebVTT file'')
         | Some segs \<Rightarrow> do {
             let segments = mergeSegments segs;
             let transcriptKey = transcriptFileKey (v_user_id v) (v_share_token v);
             e \<leftarrow> service (StoreUpload transcriptKey ''text/vtt'');
             case e of Some _ \<Rightarrow> State_Monad.return (WriteError 500 ''could not store transcript'')
             | None \<Rightarrow> do {
                 r \<leftarrow> update_videos (\<lambda>w. orgVideoFilter c videoID (\<lambda>v. True))
                   (\<lambda>w v. v\<lparr>v_transcript_key := Some transcriptKey, v_transcript_json := Some segments,
                      v_transcript_status := WReady, v_transcript_started_at := None, v_updated_at := now w\<rparr>);
                 State_Monad.return (case r of Inl _ \<Rightarrow> WriteError 500 ''could not update transcript''
                   | Inr _ \<Rightarrow> WriteJSON 200 segments) } })
   }"

subsection \<open>Which rows they touch\<close>

lemma scoped_filter: "orgVideoFilter c vid P v \<longleftrightarrow> v_id v = vid \<and> in_scope c v \<and> P v"
  by (auto simp: orgVideoFilter_def)

lemma update_scoped_within: "state_io_rel (only_rows (in_scope c)) (update_scoped c vid P f m1 m2)"
  unfolding update_scoped_def by (intro within.walk_all) (auto simp: scoped_filter)

lemma update_scoped_ages:
  "(\<And>w v. row_ages v (f w v)) \<Longrightarrow> state_io_rel rows_age (update_scoped c vid P f m1 m2)"
  unfolding update_scoped_def by (intro ages.walk_all)

lemmas setting_defs = SetDownloadEnabled_def SetEmailGate_def SetLinkExpiry_def SetCTA_def SetPassword_def
  Summarize_def GenerateDocument_def DismissTitle_def

lemma settings_within:
  "state_io_rel (only_rows (in_scope c)) (SetDownloadEnabled c vid b1)"
  "state_io_rel (only_rows (in_scope c)) (SetEmailGate c vid b1)"
  "state_io_rel (only_rows (in_scope c)) (SetLinkExpiry c vid b1)"
  "state_io_rel (only_rows (in_scope c)) (SetCTA c vid b2)"
  "state_io_rel (only_rows (in_scope c)) (SetPassword hash c vid b3)"
  "state_io_rel (only_rows (in_scope c)) (Summarize h c vid)"
  "state_io_rel (only_rows (in_scope c)) (GenerateDocument h c vid)"
  "state_io_rel (only_rows (in_scope c)) (DismissTitle c vid)"
  unfolding setting_defs by (intro within.walk_all update_scoped_within)+

lemma settings_ages:
  "state_io_rel rows_age (SetDownloadEnabled c vid b1)"
  "state_io_rel rows_age (SetEmailGate c vid b1)"
  "state_io_rel rows_age (SetLinkExpiry c vid b1)"
  "state_io_rel rows_age (SetCTA c vid b2)"
  "state_io_rel rows_age (SetPassword hash c vid b3)"
  "state_io_rel rows_age (Summarize h c vid)"
  "state_io_rel rows_age (GenerateDocument h c vid)"
  "state_io_rel rows_age (DismissTitle c vid)"
  unfolding setting_defs
  by (intro ages.walk_all update_scoped_ages; simp add: row_ages_def same_identity_def)+

lemma Extend_within: "state_io_rel (only_rows (in_scope c)) (Extend c vid)"
  unfolding Extend_def by (intro within.walk_all update_scoped_within)

lemma Extend_ages: "state_io_rel rows_age (Extend c vid)"
  unfolding Extend_def
  by (intro ages.walk_all update_scoped_ages) (simp add: row_ages_def same_identity_def)

lemma TogglePin_within: "state_io_rel (only_rows (in_scope c)) (TogglePin c vid)"
  unfolding TogglePin_def by (intro within.walk_all) (auto simp: scoped_filter)

lemma TogglePin_ages: "state_io_rel rows_age (TogglePin c vid)"
  unfolding TogglePin_def by (intro ages.walk_all) (auto simp: row_ages_def same_identity_def)

text \<open>
  \<open>Retranscribe\<close> checks the scope, then enqueues by id alone. Ids are unique, so the rows of that id
  are the one that was checked.
\<close>

definition ids_unique :: "world \<Rightarrow> bool" where
  "ids_unique w \<longleftrightarrow> distinct (map v_id (videos w))"

abbreviation with_id :: "string \<Rightarrow> video \<Rightarrow> bool" where "with_id vid v \<equiv> v_id v = vid"

lemma ids_uniqueD: "ids_unique w \<Longrightarrow> a \<in> set (videos w) \<Longrightarrow> b \<in> set (videos w) \<Longrightarrow> v_id a = v_id b \<Longrightarrow> a = b"
  by (simp add: ids_unique_def distinct_map inj_on_def)

lemma only_rows_checked:
  assumes "ids_unique w" "v \<in> set (videos w)" "v_id v = vid" "T v" "only_rows (with_id vid) w t"
  shows "only_rows T w t"
  using assms(5) ids_uniqueD [OF assms(1,2)] assms(3,4) unfolding rows_rel_def by (metis nth_mem)

lemma find_filter:
  assumes "find_where (orgVideoFilter c vid P) rows = Some v"
  shows "v \<in> set rows" "v_id v = vid" "in_scope c v" "P v"
  using find_where_Some [OF assms] by (simp_all add: scoped_filter)

text \<open>What follows a scope check by \<open>SELECT\<close>, when it writes rows of the checked id only.\<close>

lemma wp_checked:
  assumes "ids_unique w" "\<And>v. state_io_rel (only_rows (with_id vid)) (k v)"
  shows "wp (do { row \<leftarrow> select_row (\<lambda>w. find_where (orgVideoFilter c vid P) (videos w));
      case row of Inl _ \<Rightarrow> State_Monad.return r | Inr v \<Rightarrow> k v }) (\<lambda>_. only_rows (in_scope c) w) w"
proof -
  have "wp (k v) (\<lambda>_. only_rows (in_scope c) w) (tick w)"
    if v: "find_where (orgVideoFilter c vid P) (videos w) = Some v" for v
    using wp_rel [OF assms(2), of v "tick w"] find_filter [OF v]
    by (auto elim!: wp_mono intro: only_rows_checked [OF assms(1)])
  then show ?thesis by (auto simp: rows_rel_refl split: option.split)
qed

lemma EnqueueTranscription_within: "state_io_rel (only_rows (with_id vid)) (EnqueueTranscription h vid)"
  unfolding EnqueueTranscription_def by (intro within.walk_all) auto

lemma Retranscribe_within:
  assumes "ids_unique w"
  shows "wp (Retranscribe h c vid body) (\<lambda>_. only_rows (in_scope c) w) w"
proof -
  have "state_io_rel (only_rows (with_id vid)) (retranscribe_checked h c vid language)" for language
    unfolding retranscribe_checked_def
    by (intro within.walk_all EnqueueTranscription_within) (auto simp: scoped_filter)
  from wp_checked [OF assms this] show ?thesis
    unfolding Retranscribe_def by (auto simp: rows_rel_refl simp del: wp_bind split: option.split)
qed

lemma UploadTranscript_within: "state_io_rel (only_rows (in_scope c)) (UploadTranscript un c vid up)"
  unfolding UploadTranscript_def Let_def
  by (cases up; simp only: form_file.case; intro within.walk_all; auto simp: scoped_filter)

lemma UploadTranscript_ages: "state_io_rel rows_age (UploadTranscript un c vid up)"
  unfolding UploadTranscript_def Let_def
  by (cases up; simp only: form_file.case; intro ages.walk_all; auto simp: row_ages_def same_identity_def)

lemma Retranscribe_ages: "state_io_rel rows_age (Retranscribe h c vid body)"
  unfolding Retranscribe_def retranscribe_checked_def
  by (intro ages.walk_all EnqueueTranscription_ages) (auto simp: row_ages_def same_identity_def)

subsection \<open>A small transcript\<close>

definition sample_cue :: string where "sample_cue = ''00:01.000 --> 00:02.000'' @ [newline] @ ''hi''"
lemma sample_cue_parsed: "parse_block (\<lambda>s. s) sample_cue = [\<lparr>seg_start = 1, seg_end = 2, seg_text = ''hi'', seg_speaker = []\<rparr>]"
proof -
  have 1: "Trim_chars (\<lambda>c. c = newline) sample_cue = sample_cue" by code_simp
  have 2: "split sample_cue [newline] = [''00:01.000 --> 00:02.000'', ''hi'']" by code_simp
  have 3: "trim_space ''00:01.000 --> 00:02.000'' = ''00:01.000 --> 00:02.000''" by (simp_all add: trim_space_def space_runes_def has_prefix_def)
  have 4: "trim_space ''hi'' = ''hi''" by (simp_all add: trim_space_def space_runes_def has_prefix_def)
  have 5: "extractSpeaker ''hi'' = ([], ''hi'')" by code_simp
  have 6: "strip_tags ''hi'' = ''hi''" by code_simp
  have 7: "sanitizeSpeaker (\<lambda>s. s) [] = []" by code_simp
  have t: "parseVTTTimestamp ''00:01.000'' = Some 1" "parseVTTTimestamp ''00:02.000'' = Some 2" by code_simp+
  have u: "index_of ''00:01.000 --> 00:02.000'' ''-->'' = Some 10" by code_simp
  have x: "trim_space '' 00:02.000'' = ''00:02.000''" "trim_space ''00:01.000 '' = ''00:01.000''" by (simp_all add: trim_space_def space_runes_def has_prefix_def)
  have x2: "first_field ''00:02.000'' = ''00:02.000''" by (simp add: has_prefix_def space_runes_def)
  have y: "drop (10 + 3) ''00:01.000 --> 00:02.000'' = '' 00:02.000''" "take 10 ''00:01.000 --> 00:02.000'' = ''00:01.000 ''" by simp_all
  have 8: "parseTimingLine ''00:01.000 --> 00:02.000'' = Some (1,2)" by (simp only: parseTimingLine_def u option.case x x2 y t Let_def) simp
  have 9: "list_ex (has_prefix ''00:01.000 --> 00:02.000'') [''WEBVTT'', ''NOTE'', ''STYLE'', ''REGION''] = False" by (simp add: has_prefix_def)
  have 10: "join [''hi''] [newline] = ''hi''" by code_simp
  show ?thesis unfolding parse_block_def 1 2 Let_def list.sel 3 9 nth_Cons_0 8
    by (simp add: 4 5 6 7 8 10 del: strip_tags.simps)
qed
lemma sample_header: "parse_block (\<lambda>s. s) ''WEBVTT'' = []"
  by (simp add: parse_block_def Let_def Trim_chars_def split_none trim_space_def space_runes_def has_prefix_def)
definition sample_vtt :: string where "sample_vtt = ''WEBVTT'' @ [newline, newline] @ sample_cue"
lemma sample_blocks: "split sample_vtt [newline, newline] = [''WEBVTT'',sample_cue]"
  by code_simp
lemma sample_lf: "cr_to_lf (crlf_to_lf sample_vtt) = sample_vtt" by code_simp
lemma sample_bom: "trim_prefix sample_vtt [CHR 0xEF, CHR 0xBB, CHR 0xBF] = sample_vtt" by code_simp
lemma sample_parsed: "parseVTT (\<lambda>s. s) sample_vtt = Some [\<lparr>seg_start = 1, seg_end = 2, seg_text = ''hi'', seg_speaker = []\<rparr>]"
  by (simp add: parseVTT_def Let_def sample_blocks sample_lf sample_bom sample_cue_parsed sample_header has_prefix_def) (simp add: sample_vtt_def)

subsection \<open>An uploaded transcript\<close>

text \<open>A transcript upload that is answered with segments found a ready video of the caller's scope, stored
  the WebVTT file under that video's transcript key, and left the row with exactly the segments of the
  answer: the parsed cues, joined as far as they can be.\<close>

theorem transcript_upload_stored:
  assumes "run_state (UploadTranscript unescape c vid (FormRaw raw)) w = (WriteJSON code segs, w')"
  shows "\<exists>v \<in> set (videos w). \<exists>v' \<in> set (videos w'). v_id v = vid \<and> in_scope c v \<and> v_status v = Ready \<and>
    row_ages v v' \<and> v_transcript_status v' = WReady \<and> v_transcript_json v' = Some segs \<and>
    map_option mergeSegments (parseVTT unescape raw) = Some segs \<and>
    (\<exists>key. key = transcriptFileKey (v_user_id v) (v_share_token v) \<and> v_transcript_key v' = Some key \<and>
       StoreUpload key ''text/vtt'' \<in> set (effects w'))"
proof -
  let ?P = "orgVideoFilter c vid (\<lambda>v. True)"
  let ?post = "\<lambda>resp w'. \<forall>code segs. resp = WriteJSON code segs \<longrightarrow>
    (\<exists>v \<in> set (videos w). \<exists>v' \<in> set (videos w'). v_id v = vid \<and> in_scope c v \<and> v_status v = Ready \<and>
      row_ages v v' \<and> v_transcript_status v' = WReady \<and> v_transcript_json v' = Some segs \<and>
      map_option mergeSegments (parseVTT unescape raw) = Some segs \<and>
      (\<exists>key. key = transcriptFileKey (v_user_id v) (v_share_token v) \<and> v_transcript_key v' = Some key \<and>
         StoreUpload key ''text/vtt'' \<in> set (effects w')))"
  have stored: "\<exists>v \<in> set (videos w). \<exists>v' \<in> set (upd_where ?P f (videos w)). Q v v'"
    if r: "find_where (orgVideoFilter c vid (\<lambda>v. v_status v = Ready)) (videos w) = Some r" and "Q r (f r)" for r f Q
  proof -
    have "r \<in> set (videos w)" "?P r" using find_filter [OF r] by (simp_all add: scoped_filter)
    from this(1) upd_where_hit [of r _ ?P, OF this] that(2) show ?thesis by blast
  qed
  have "wp (UploadTranscript unescape c vid (FormRaw raw)) ?post w"
    unfolding UploadTranscript_def form_file.case Let_def
    apply (intro wp_steps)
    apply (simp_all del: bex_simps)
    apply (rule stored, assumption)
    apply (auto dest: find_filter simp: row_ages_def same_identity_def)
    done
  from wpI [OF this assms] show ?thesis by blast
qed

definition sample_ready :: world where
  "sample_ready = sample_world\<lparr>videos := [sample_video]\<rparr>"

theorem transcript_upload_stored_witness:
  "list_ex (\<lambda>v. v_transcript_json v = Some [\<lparr>seg_start = 1, seg_end = 2, seg_text = ''hi'', seg_speaker = []\<rparr>])
     (videos (snd (run_state (UploadTranscript (\<lambda>s. s) sample_caller ''v1'' (FormRaw sample_vtt)) sample_ready)))"
proof -
  let ?segs = "[\<lparr>seg_start = 1, seg_end = 2, seg_text = ''hi'', seg_speaker = []\<rparr>]"
  have "mergeSegments ?segs = ?segs" by (simp add: mergeSegments_def)
  moreover have "length sample_vtt \<le> MaxTranscriptUploadBytes"
    by (simp add: sample_vtt_def sample_cue_def MaxTranscriptUploadBytes_def)
  ultimately have "fst (run_state (UploadTranscript (\<lambda>s. s) sample_caller ''v1'' (FormRaw sample_vtt)) sample_ready) = WriteJSON 200 ?segs"
    by (simp add: UploadTranscript_def sample_ready_def run_simps scoped_filter in_scope_def sample_parsed Let_def)
  then have "run_state (UploadTranscript (\<lambda>s. s) sample_caller ''v1'' (FormRaw sample_vtt)) sample_ready =
      (WriteJSON 200 ?segs, snd (run_state (UploadTranscript (\<lambda>s. s) sample_caller ''v1'' (FormRaw sample_vtt)) sample_ready))"
    by (metis prod.collapse)
  from transcript_upload_stored [OF this] show ?thesis by (auto simp: list_ex_iff)
qed

end
