(* ===== verification/Workers.thy ===== *)
theory Workers
  imports Media_Jobs Video_Settings "HOL-Library.Signed_Division"
begin

text \<open>
  The workers that take one pending video per tick: transcription (\<open>transcribe_worker.go\<close>,
  \<open>transcribe.go\<close>), summaries and titles (\<open>summary_worker.go\<close>), documents (\<open>document_worker.go\<close>), and what
  they do with the answers of the language model (\<open>ai_client.go\<close>). Each keeps its queue in two columns
  of the videos: a status and the time it was claimed.
\<close>

subsection \<open>Queues\<close>

record queue =
  q_status :: "video \<Rightarrow> work_status"
  q_started :: "video \<Rightarrow> time option"
  q_put :: "work_status \<Rightarrow> time option \<Rightarrow> video \<Rightarrow> video"

definition transcript_queue :: queue where
  "transcript_queue = \<lparr>q_status = v_transcript_status, q_started = v_transcript_started_at,
     q_put = (\<lambda>s t v. v\<lparr>v_transcript_status := s, v_transcript_started_at := t\<rparr>)\<rparr>"

definition summary_queue :: queue where
  "summary_queue = \<lparr>q_status = v_summary_status, q_started = v_summary_started_at,
     q_put = (\<lambda>s t v. v\<lparr>v_summary_status := s, v_summary_started_at := t\<rparr>)\<rparr>"

definition document_queue :: queue where
  "document_queue = \<lparr>q_status = v_document_status, q_started = v_document_started_at,
     q_put = (\<lambda>s t v. v\<lparr>v_document_status := s, v_document_started_at := t\<rparr>)\<rparr>"

text \<open>A claim older than ten minutes, or one without a time, is given back.\<close>

definition overdue :: "queue \<Rightarrow> time \<Rightarrow> video \<Rightarrow> bool" where
  "overdue q t v \<longleftrightarrow> q_status q v = WProcessing \<and>
     (case q_started q v of None \<Rightarrow> True | Some s \<Rightarrow> s < t - minutes 10)"

definition reset_overdue :: "queue \<Rightarrow> unit prog" where
  "reset_overdue q = logged (update_videos (\<lambda>w. overdue q (now w))
     (\<lambda>w v. (q_put q WPending None v)\<lparr>v_updated_at := now w\<rparr>))"

text \<open>\<open>ORDER BY updated_at ASC LIMIT 1\<close>.\<close>

fun oldest :: "video list \<Rightarrow> video option" where
  "oldest [] = None"
| "oldest (v # vs) = (case oldest vs of None \<Rightarrow> Some v
     | Some u \<Rightarrow> Some (if v_updated_at u < v_updated_at v then u else v))"

definition waiting_in :: "queue \<Rightarrow> video \<Rightarrow> bool" where
  "waiting_in q v \<longleftrightarrow> q_status q v = WPending \<and> v_status v \<noteq> Deleted"

definition claim :: "queue \<Rightarrow> (db_error + video) prog" where
  "claim q = db_stmt (\<lambda>w. case oldest (filter (waiting_in q) (videos w)) of
     None \<Rightarrow> (Inl NoRows, w)
   | Some v \<Rightarrow> let f = (\<lambda>r. (q_put q WProcessing (Some (now w)) r)\<lparr>v_updated_at := now w\<rparr>) in
       (Inr (f v), w\<lparr>videos := upd_where (\<lambda>r. v_id r = v_id v) f (videos w)\<rparr>))"

definition mark :: "queue \<Rightarrow> string \<Rightarrow> work_status \<Rightarrow> unit prog" where
  "mark q videoID s = logged (update_videos (\<lambda>w v. v_id v = videoID)
     (\<lambda>w v. (q_put q s None v)\<lparr>v_updated_at := now w\<rparr>))"

text \<open>\<open>COALESCE(transcription_language, (SELECT transcription_language FROM users ..), 'auto')\<close>.\<close>

definition claim_language :: "world \<Rightarrow> video \<Rightarrow> string" where
  "claim_language w v = (case v_transcription_language v of Some l \<Rightarrow> l
     | None \<Rightarrow> (case find_where (\<lambda>u. u_id u = v_user_id v) (users w) of
         Some u \<Rightarrow> u_transcription_language u | None \<Rightarrow> ''auto''))"

subsection \<open>Transcription\<close>

datatype 'a attempt_result = Ok 'a | NoAudio | Failed

record transcriber =
  available :: bool \<comment> \<open>\<open>t != nil && t.Available()\<close>\<close>
  stream_found :: "string \<Rightarrow> bool" \<comment> \<open>what ffprobe prints for the object is not blank\<close>
  transcribe :: "string \<Rightarrow> string \<Rightarrow> transcript_segment list attempt_result" \<comment> \<open>file key, language\<close>

definition isTranscriptionAvailable :: "config \<Rightarrow> transcriber \<Rightarrow> bool" where
  "isTranscriptionAvailable h t \<longleftrightarrow> transcriptionEnv h \<and> available t"

definition buildAudioExtractArgs :: "string \<Rightarrow> string \<Rightarrow> string list" where
  "buildAudioExtractArgs inputPath outputPath = globalThreads @ inputThreads @
     [''-i'', inputPath, ''-ar'', ''16000'', ''-ac'', ''1'', ''-c:a'', ''pcm_s16le'', ''-y'', outputPath]"

text \<open>\<open>hasAudioStream\<close> takes a failing probe for silence; after that only a cancelled context tells.\<close>

definition extractAudioAt :: "transcriber \<Rightarrow> string \<Rightarrow> unit attempt_result prog" where
  "extractAudioAt t fileKey = do {
     e \<leftarrow> call;
     if e \<noteq> None \<or> \<not> stream_found t fileKey then do {
       ctx \<leftarrow> call;
       State_Monad.return (if ctx = None then NoAudio else Failed)
     } else do {
       e \<leftarrow> call;
       State_Monad.return (if e = None then Ok () else Failed)
     }
   }"

definition store_transcript :: "config \<Rightarrow> string \<Rightarrow> string \<Rightarrow> transcript_segment list \<Rightarrow> unit prog" where
  "store_transcript h videoID transcriptKey segments = do {
     r \<leftarrow> update_videos (\<lambda>w v. v_id v = videoID)
       (\<lambda>w v. v\<lparr>v_transcript_key := Some transcriptKey, v_transcript_json := Some segments,
          v_transcript_status := WReady, v_transcript_started_at := None, v_updated_at := now w\<rparr>);
     case r of Inl _ \<Rightarrow> mark transcript_queue videoID WFailed
     | Inr _ \<Rightarrow> if aiEnabled h
         then logged (update_videos (\<lambda>w v. v_id v = videoID)
           (\<lambda>w v. v\<lparr>v_summary_status := WPending, v_updated_at := now w\<rparr>))
         else State_Monad.return ()
   }"

definition processTranscription :: "config \<Rightarrow> transcriber \<Rightarrow> string \<Rightarrow> string \<Rightarrow> string \<Rightarrow> string \<Rightarrow> string \<Rightarrow> unit prog" where
  "processTranscription h t videoID fileKey userID shareToken language =
     (let setFailed = mark transcript_queue videoID WFailed; fail = (\<lambda>_. setFailed) in
      if \<not> isTranscriptionAvailable h t then setFailed
      else attempt fail (
      attempt fail (
      attempt fail (do {
        audio \<leftarrow> extractAudioAt t fileKey;
        case audio of
          NoAudio \<Rightarrow> mark transcript_queue videoID WNoAudio
        | Failed \<Rightarrow> setFailed
        | Ok _ \<Rightarrow> do {
            e \<leftarrow> call;
            case (if e = None then transcribe t fileKey language else Failed) of
              NoAudio \<Rightarrow> mark transcript_queue videoID WNoAudio
            | Failed \<Rightarrow> setFailed
            | Ok segments \<Rightarrow>
                attempt fail (
                attempt fail (
                attempt_upload (transcriptFileKey userID shareToken) ''text/vtt'' fail
                  (store_transcript h videoID (transcriptFileKey userID shareToken) segments)))
          }
      }))))"

definition processNextTranscription :: "config \<Rightarrow> transcriber \<Rightarrow> unit prog" where
  "processNextTranscription h t = do {
     reset_overdue transcript_queue;
     w \<leftarrow> State_Monad.get;
     row \<leftarrow> claim transcript_queue;
     case row of Inl _ \<Rightarrow> State_Monad.return ()
     | Inr v \<Rightarrow> processTranscription h t (v_id v) (v_file_key v) (v_user_id v) (v_share_token v) (claim_language w v)
   }"

subsection \<open>What the language model is asked\<close>

definition resolveLanguageName :: "string \<Rightarrow> string" where
  "resolveLanguageName code = (if code = [] \<or> code = ''auto'' then [] else LanguageName code)"

definition maxTranscriptChars :: nat where "maxTranscriptChars = 30000"

text \<open>Go divides toward zero.\<close>

definition transcript_line :: "transcript_segment \<Rightarrow> string" where
  "transcript_line seg = (let totalSeconds = f_to_int (seg_start seg) in
     ''['' @ pad0 2 (itoa (totalSeconds sdiv 60)) @ '':'' @ pad0 2 (itoa (totalSeconds smod 60)) @ ''] '' @
     seg_text seg @ [newline])"

fun format_loop :: "string \<Rightarrow> transcript_segment list \<Rightarrow> string" where
  "format_loop result [] = result"
| "format_loop result (seg # segs) =
     (if length result + length (transcript_line seg) > maxTranscriptChars then result
      else format_loop (result @ transcript_line seg) segs)"

definition formatTranscriptForLLM :: "transcript_segment list \<Rightarrow> string" where
  "formatTranscriptForLLM segments = format_loop [] segments"

text \<open>
  The model behind \<open>/v1/chat/completions\<close>: for a system prompt, a language name and a transcript, the
  content of the first choice, \<open>None\<close> for an error, a status other than 200 or no choice. \<open>decode\<close> is
  \<open>json.Unmarshal\<close> into a \<open>SummaryResult\<close>.
\<close>

datatype prompt = SummaryPrompt | TitlePrompt | DocumentPrompt

record ai =
  chat :: "prompt \<Rightarrow> string \<Rightarrow> string \<Rightarrow> string option"
  decode :: "string \<Rightarrow> (string \<times> (string \<times> float64) list) option"

fun last_index_of :: "string \<Rightarrow> string \<Rightarrow> nat option" where
  "last_index_of s p = (case s of [] \<Rightarrow> (if p = [] then Some 0 else None)
   | c # rest \<Rightarrow> (case last_index_of rest p of Some i \<Rightarrow> Some (Suc i)
       | None \<Rightarrow> if has_prefix s p then Some 0 else None))"

definition stripMarkdownFences :: "string \<Rightarrow> string" where
  "stripMarkdownFences content = (let trimmed = trim_space content in
     if has_prefix trimmed ''```'' then
       (case index_of trimmed [newline] of None \<Rightarrow> trimmed
        | Some i \<Rightarrow> let rest = drop (i + 1) trimmed in
            trim_space (case last_index_of rest ''```'' of Some k \<Rightarrow> take k rest | None \<Rightarrow> rest))
     else trimmed)"

definition GenerateSummary :: "ai \<Rightarrow> string \<Rightarrow> string \<Rightarrow> (string \<times> (string \<times> float64) list) option prog" where
  "GenerateSummary a transcript language = do {
     e \<leftarrow> call;
     State_Monad.return (case (if e = None then chat a SummaryPrompt language transcript else None) of
       None \<Rightarrow> None
     | Some content \<Rightarrow> (case decode a content of Some r \<Rightarrow> Some r
         | None \<Rightarrow> decode a (stripMarkdownFences content)))
   }"

definition GenerateTitle :: "ai \<Rightarrow> string \<Rightarrow> string \<Rightarrow> string option prog" where
  "GenerateTitle a transcript language = do {
     e \<leftarrow> call;
     State_Monad.return (map_option (\<lambda>content.
         let title = trim_space content;
             title = (if length title \<ge> 2 \<and> hd title = CHR 0x22 \<and> last title = CHR 0x22
               then butlast (List.tl title) else title)
         in take 200 title)
       (if e = None then chat a TitlePrompt language transcript else None))
   }"

definition GenerateDocument_ai :: "ai \<Rightarrow> string \<Rightarrow> string \<Rightarrow> string option prog" where
  "GenerateDocument_ai a transcript language = do {
     e \<leftarrow> call;
     State_Monad.return (map_option (\<lambda>content. stripMarkdownFences (trim_space content))
       (if e = None then chat a DocumentPrompt language transcript else None))
   }"

definition isAutoGeneratedTitle :: "string \<Rightarrow> bool" where
  "isAutoGeneratedTitle title \<longleftrightarrow> title = ''Untitled Recording'' \<or> title = ''Untitled Video'' \<or>
     has_prefix title ''Recording '' \<and> length title > 10 \<and> is_digit (title ! 10)"

subsection \<open>Summaries, titles, documents\<close>

definition suggest_title :: "ai \<Rightarrow> string \<Rightarrow> transcript_segment list \<Rightarrow> string \<Rightarrow> unit prog" where
  "suggest_title a videoID segments language = do {
     title \<leftarrow> GenerateTitle a (take 2000 (formatTranscriptForLLM segments)) (resolveLanguageName language);
     case title of None \<Rightarrow> State_Monad.return ()
     | Some t \<Rightarrow> if t = [] then State_Monad.return ()
         else logged (update_videos (\<lambda>w v. v_id v = videoID)
           (\<lambda>w v. v\<lparr>v_suggested_title := Some t, v_updated_at := now w\<rparr>))
   }"

definition summarize_claimed :: "ai \<Rightarrow> string \<Rightarrow> transcript_segment list \<Rightarrow> string \<Rightarrow> unit prog" where
  "summarize_claimed a videoID segments language = do {
     result \<leftarrow> GenerateSummary a (formatTranscriptForLLM segments) (resolveLanguageName language);
     case result of None \<Rightarrow> mark summary_queue videoID WFailed
     | Some (summary, chapters) \<Rightarrow> do {
         r \<leftarrow> update_videos (\<lambda>w v. v_id v = videoID)
           (\<lambda>w v. v\<lparr>v_summary := Some summary, v_chapters := Some chapters, v_summary_status := WReady,
              v_summary_started_at := None, v_updated_at := now w\<rparr>);
         case r of Inl _ \<Rightarrow> State_Monad.return ()
         | Inr _ \<Rightarrow> do {
             row \<leftarrow> select_row (\<lambda>w. map_option v_title (find_where (\<lambda>v. v_id v = videoID) (videos w)));
             case row of Inl _ \<Rightarrow> State_Monad.return ()
             | Inr title \<Rightarrow> if isAutoGeneratedTitle title then suggest_title a videoID segments language
                 else State_Monad.return () } }
   }"

definition processNextSummary :: "ai \<Rightarrow> unit prog" where
  "processNextSummary a = do {
     reset_overdue summary_queue;
     w \<leftarrow> State_Monad.get;
     row \<leftarrow> claim summary_queue;
     case row of Inl _ \<Rightarrow> State_Monad.return ()
     | Inr v \<Rightarrow> (case v_transcript_json v of
         None \<Rightarrow> mark summary_queue (v_id v) WFailed
       | Some segments \<Rightarrow>
           if length segments < 2 then mark summary_queue (v_id v) WTooShort
           else summarize_claimed a (v_id v) segments (claim_language w v))
   }"

definition wants_title :: "video \<Rightarrow> bool" where
  "wants_title v \<longleftrightarrow> v_summary_status v = WReady \<and> v_suggested_title v = None \<and> v_transcript_json v \<noteq> None \<and>
     v_status v \<noteq> Deleted \<and>
     (has_prefix (v_title v) ''Recording '' \<or> v_title v = ''Untitled Recording'' \<or> v_title v = ''Untitled Video'')"

definition processNextTitleSuggestion :: "ai \<Rightarrow> unit prog" where
  "processNextTitleSuggestion a = do {
     w \<leftarrow> State_Monad.get;
     row \<leftarrow> select_row (\<lambda>w. oldest (filter wants_title (videos w)));
     case row of Inl _ \<Rightarrow> State_Monad.return ()
     | Inr v \<Rightarrow>
       if \<not> isAutoGeneratedTitle (v_title v) then State_Monad.return ()
       else suggest_title a (v_id v) (the (v_transcript_json v)) (claim_language w v)
   }"

definition processNextDocument :: "ai \<Rightarrow> unit prog" where
  "processNextDocument a = do {
     reset_overdue document_queue;
     w \<leftarrow> State_Monad.get;
     row \<leftarrow> claim document_queue;
     case row of Inl _ \<Rightarrow> State_Monad.return ()
     | Inr v \<Rightarrow> (case v_transcript_json v of
         None \<Rightarrow> mark document_queue (v_id v) WFailed
       | Some segments \<Rightarrow>
           if length segments < 2 then mark document_queue (v_id v) WTooShort
           else do {
             document \<leftarrow> GenerateDocument_ai a (formatTranscriptForLLM segments) (resolveLanguageName (claim_language w v));
             case document of None \<Rightarrow> mark document_queue (v_id v) WFailed
             | Some d \<Rightarrow> logged (update_videos (\<lambda>w r. v_id r = v_id v)
                 (\<lambda>w r. r\<lparr>v_document := Some d, v_document_status := WReady, v_document_started_at := None,
                    v_updated_at := now w\<rparr>)) })
   }"

subsection \<open>The contract of a queue\<close>

lemma oldest_None: "oldest vs = None \<longleftrightarrow> vs = []"
  by (cases vs) (auto split: option.split)

lemma oldest_Some:
  "oldest vs = Some v \<Longrightarrow> v \<in> set vs \<and> (\<forall>u \<in> set vs. v_updated_at v \<le> v_updated_at u)"
proof (induction vs arbitrary: v)
  case (Cons a vs)
  then show ?case
    by (cases "oldest vs") (fastforce simp: oldest_None split: if_splits)+
qed simp

text \<open>
  What the workers need of their columns: they read back what was written, and writing them touches
  nothing a queue or a request decides by.
\<close>

locale work_queue =
  fixes q :: queue
  assumes status_put [simp]: "q_status q (q_put q s t v) = s"
    and started_put [simp]: "q_started q (q_put q s t v) = t"
    and put_age: "row_ages v ((q_put q s t v)\<lparr>v_updated_at := u\<rparr>)"
    and put_status [simp]: "v_status (q_put q s t v) = v_status v"
    and updated [simp]: "q_status q (v\<lparr>v_updated_at := u\<rparr>) = q_status q v"
      "q_started q (v\<lparr>v_updated_at := u\<rparr>) = q_started q v"
begin

lemma put_id [simp]: "v_id (q_put q s t v) = v_id v"
  using put_age [where v = v and s = s and t = t and u = 0] by (simp add: row_ages_def same_identity_def)

lemma reset_ages: "state_io_rel rows_age (reset_overdue q)"
  unfolding reset_overdue_def logged_def by (intro ages.walk_all put_age)

lemma mark_ages: "state_io_rel rows_age (mark q vid s)"
  unfolding mark_def logged_def by (intro ages.walk_all put_age)

lemma claim_ages: "state_io_rel rows_age (claim q)"
  unfolding claim_def
  by (auto simp: state_io_rel_def run_db_stmt Let_def rows_rel_refl row_ages_def same_identity_def
      split: option.split intro!: rows_rel_upd [of row_ages, simplified row_ages_def same_identity_def] put_age
        [unfolded row_ages_def same_identity_def])

text \<open>A successful claim is the oldest row that waited, and it no longer waits.\<close>

lemma claim_wp:
  "wp (claim q) (\<lambda>r w'. case r of Inl _ \<Rightarrow> videos w' = videos w
     | Inr v \<Rightarrow> (\<exists>u \<in> set (videos w). waiting_in q u \<and> (\<forall>x \<in> set (videos w). waiting_in q x \<longrightarrow> v_updated_at u \<le> v_updated_at x) \<and>
         v = (q_put q WProcessing (Some (now w)) u)\<lparr>v_updated_at := now w\<rparr> \<and>
         videos w' = upd_where (with_id (v_id u))
           (\<lambda>r. (q_put q WProcessing (Some (now w)) r)\<lparr>v_updated_at := now w\<rparr>) (videos w))) w"
  unfolding claim_def by (auto simp: Let_def dest!: oldest_Some split: option.split)

lemma claim_takes:
  assumes "run_state (claim q) w = (Inr v, w')"
  shows "\<exists>u \<in> set (videos w). q_status q u = WPending \<and> v_status u \<noteq> Deleted \<and> v_id v = v_id u \<and>
      (\<forall>x \<in> set (videos w). q_status q x = WPending \<and> v_status x \<noteq> Deleted \<longrightarrow> v_updated_at u \<le> v_updated_at x) \<and>
      q_status q v = WProcessing \<and> q_started q v = Some (now w) \<and> v \<in> set (videos w') \<and> only_rows (with_id (v_id u)) w w'"
proof -
  from wpI [OF claim_wp assms] obtain u where u: "u \<in> set (videos w)" "waiting_in q u"
    "\<forall>x \<in> set (videos w). waiting_in q x \<longrightarrow> v_updated_at u \<le> v_updated_at x"
    and v: "v = (q_put q WProcessing (Some (now w)) u)\<lparr>v_updated_at := now w\<rparr>"
    and w': "videos w' = upd_where (with_id (v_id u)) (\<lambda>r. (q_put q WProcessing (Some (now w)) r)\<lparr>v_updated_at := now w\<rparr>) (videos w)"
    by auto
  have "v \<in> set (videos w')" unfolding w' v by (rule upd_where_hit [OF u(1)]) simp
  moreover have "only_rows (with_id (v_id u)) w w'" unfolding w' by (rule rows_rel_upd) auto
  ultimately show ?thesis using u unfolding v waiting_in_def by (intro bexI [OF _ u(1)]) auto
qed

text \<open>A reset that runs gives back the overdue claims and touches nothing else.\<close>

lemma reset_gives_back:
  assumes "run_state (reset_overdue q) w = (u, w')" "next_fault w = None" "v \<in> set (videos w)"
  shows "\<exists>v' \<in> set (videos w'). (if overdue q (now w) v then v_id v' = v_id v \<and> q_status q v' = WPending \<and> q_started q v' = None
      else v' = v)"
proof -
  let ?f = "\<lambda>v. (q_put q WPending None v)\<lparr>v_updated_at := now w\<rparr>"
  have "videos w' = upd_where (overdue q (now w)) ?f (videos w)"
    using assms(1,2) by (simp add: reset_overdue_def logged_def run_simps) auto
  with in_upd_whereI [OF assms(3), of "overdue q (now w)" ?f] show ?thesis
    by (intro bexI [of _ "if overdue q (now w) v then ?f v else v"]) simp_all
qed

end

interpretation transcript_q: work_queue transcript_queue
  by unfold_locales (simp_all add: transcript_queue_def row_ages_def same_identity_def)

interpretation summary_q: work_queue summary_queue
  by unfold_locales (simp_all add: summary_queue_def row_ages_def same_identity_def)

interpretation document_q: work_queue document_queue
  by unfold_locales (simp_all add: document_queue_def row_ages_def same_identity_def)

end
