(* ===== verification/Worker_Facts.thy ===== *)
theory Worker_Facts
  imports Workers
begin

text \<open>
  What the queue workers guarantee: which video a tick takes, how its run can end, and how much of a
  transcript the language model sees; and two cases in which the title worker does not do what it is for.
\<close>

subsection \<open>Claims\<close>

abbreviation worker_queues :: "queue set" where
  "worker_queues \<equiv> {transcript_queue, summary_queue, document_queue}"

text \<open>A worker that claims a video took one that waited in its queue, undeleted, and none that waits was
  updated before it; the row is marked as being processed since now, and no other row changes.\<close>

theorem claim_takes_oldest:
  assumes "run_state (claim q) w = (Inr v, w')" "q \<in> worker_queues"
  shows "\<exists>u \<in> set (videos w). q_status q u = WPending \<and> v_status u \<noteq> Deleted \<and> v_id v = v_id u \<and>
      (\<forall>x \<in> set (videos w). q_status q x = WPending \<and> v_status x \<noteq> Deleted \<longrightarrow> v_updated_at u \<le> v_updated_at x) \<and>
      q_status q v = WProcessing \<and> q_started q v = Some (now w) \<and> v \<in> set (videos w') \<and> only_rows (with_id (v_id u)) w w'"
  using assms transcript_q.claim_takes summary_q.claim_takes document_q.claim_takes by blast

definition sample_pending :: world where
  "sample_pending = sample_world\<lparr>videos := [sample_video\<lparr>v_transcript_status := WPending\<rparr>]\<rparr>"

theorem claim_takes_oldest_witness:
  "\<exists>v w'. run_state (claim transcript_queue) sample_pending = (Inr v, w') \<and> v_id v = ''v1'' \<and> v_transcript_status v = WProcessing"
proof -
  have "\<exists>v w'. run_state (claim transcript_queue) sample_pending = (Inr v, w')"
    by (simp add: claim_def run_db_stmt sample_pending_def waiting_in_def transcript_queue_def Let_def)
  then obtain v w' where run: "run_state (claim transcript_queue) sample_pending = (Inr v, w')" by blast
  from claim_takes_oldest [OF this] show ?thesis using run by (auto simp: sample_pending_def transcript_queue_def)
qed

text \<open>A claim that is older than ten minutes, or has no time, goes back to its queue at the next tick, and a
  tick resets nothing else: work that died with its process is taken up again.\<close>

theorem overdue_given_back:
  assumes "run_state (reset_overdue q) w = (u, w')" "q \<in> worker_queues" "next_fault w = None" "v \<in> set (videos w)"
  shows "\<exists>v' \<in> set (videos w'). (if overdue q (now w) v then v_id v' = v_id v \<and> q_status q v' = WPending \<and> q_started q v' = None
      else v' = v)"
  using assms transcript_q.reset_gives_back summary_q.reset_gives_back document_q.reset_gives_back by blast

theorem overdue_given_back_witness:
  "\<exists>v' \<in> set (videos (snd (run_state (reset_overdue summary_queue)
     (sample_world\<lparr>videos := [sample_video\<lparr>v_summary_status := WProcessing, v_summary_started_at := Some 0\<rparr>]\<rparr>)))).
   v_summary_status v' = WPending"
  using overdue_given_back [OF prod.collapse [symmetric], of summary_queue
      "sample_world\<lparr>videos := [sample_video\<lparr>v_summary_status := WProcessing, v_summary_started_at := Some 0\<rparr>]\<rparr>"
      "sample_video\<lparr>v_summary_status := WProcessing, v_summary_started_at := Some 0\<rparr>"]
  by (auto simp: summary_queue_def overdue_def)

subsection \<open>How a transcription ends\<close>

text \<open>
  What a transcription may make of a row: nothing, or a finished one: failed or without sound, or ready with
  its segments and the key of its file. In every finished case the claim is over.
\<close>

definition transcribed :: "string \<Rightarrow> string \<Rightarrow> video \<Rightarrow> video \<Rightarrow> bool" where
  "transcribed vid key a b \<longleftrightarrow> b = a \<or> v_id a = vid \<and> row_ages a b \<and> v_file_key b = v_file_key a \<and>
     v_transcript_started_at b = None \<and>
     (v_transcript_status b = WFailed \<or> v_transcript_status b = WNoAudio \<or>
      v_transcript_status b = WReady \<and> v_transcript_json b \<noteq> None \<and> v_transcript_key b = Some key)"

lemma transcribed_trans: "transcribed vid key a b \<Longrightarrow> transcribed vid key b c \<Longrightarrow> transcribed vid key a c"
  by (auto simp: transcribed_def row_ages_def same_identity_def intro: status_le_trans)

interpretation transcribed: video_relation "transcribed vid key" for vid key
  by unfold_locales (simp add: transcribed_def, rule transcribed_trans)

abbreviation all_transcribed :: "string \<Rightarrow> string \<Rightarrow> world \<Rightarrow> world \<Rightarrow> bool" where
  "all_transcribed vid key w t \<equiv> rows_rel (transcribed vid key) (videos w) (videos t)"

lemma mark_transcribed:
  "s \<in> {WFailed, WNoAudio} \<Longrightarrow> state_io_rel (all_transcribed vid key) (mark transcript_queue vid s)"
  unfolding mark_def logged_def
  by (intro transcribed.walk_all) (auto simp: transcribed_def transcript_queue_def row_ages_def same_identity_def)

lemma upd_where_upd_where:
  "(\<And>r. P (f r) = P r) \<Longrightarrow> upd_where P g (upd_where P f rows) = upd_where P (\<lambda>r. g (f r)) rows"
  by (simp add: upd_where_def)

lemma store_transcribed: "state_io_rel (all_transcribed vid key) (store_transcript h vid key segs)"
proof -
  have mark: "wp (mark transcript_queue vid WFailed) (\<lambda>_. all_transcribed vid key w) (tick w)" for w
    using wp_rel [OF mark_transcribed, of WFailed vid key "tick w"] by simp
  have "wp (store_transcript h vid key segs) (\<lambda>_. all_transcribed vid key w) w" for w
    unfolding store_transcript_def logged_def
    by (auto simp: upd_where_upd_where transcribed_def row_ages_def same_identity_def mark [simplified]
        split: option.split intro!: rows_rel_upd)
  then show ?thesis by (simp add: wp_io_rel)
qed

lemma extract_transcribed: "state_io_rel (all_transcribed vid key) (extractAudioAt t fk)"
  unfolding extractAudioAt_def by (intro transcribed.walk_all)

lemma case_result:
  "(\<And>y. state_io_rel R (f y)) \<Longrightarrow> state_io_rel R m \<Longrightarrow> state_io_rel R n \<Longrightarrow>
   state_io_rel R (case x of Ok y \<Rightarrow> f y | NoAudio \<Rightarrow> m | Failed \<Rightarrow> n)"
  by (cases x) simp_all


definition sample_transcriber :: transcriber where
  "sample_transcriber = \<lparr>available = True, stream_found = (\<lambda>_. True), transcribe = (\<lambda>_ _. NoAudio)\<rparr>"


subsection \<open>What the model sees\<close>

lemma format_loop_take:
  "length result \<le> maxTranscriptChars \<Longrightarrow>
   \<exists>n \<le> length segs. format_loop result segs = result @ concat (map transcript_line (take n segs)) \<and>
     length (format_loop result segs) \<le> maxTranscriptChars \<and>
     (n < length segs \<longrightarrow> length (format_loop result segs @ transcript_line (segs ! n)) > maxTranscriptChars)"
proof (induction segs arbitrary: result)
  case (Cons seg segs)
  show ?case
  proof (cases "length result + length (transcript_line seg) > maxTranscriptChars")
    case True
    with Cons.prems show ?thesis by (intro exI [of _ 0]) simp
  next
    case False
    then have "length (result @ transcript_line seg) \<le> maxTranscriptChars" by simp
    from Cons.IH [OF this] obtain n where "n \<le> length segs"
      "format_loop (result @ transcript_line seg) segs = (result @ transcript_line seg) @ concat (map transcript_line (take n segs))"
      "length (format_loop (result @ transcript_line seg) segs) \<le> maxTranscriptChars"
      "n < length segs \<longrightarrow> length (format_loop (result @ transcript_line seg) segs @ transcript_line (segs ! n)) > maxTranscriptChars"
      by blast
    with False show ?thesis by (intro exI [of _ "Suc n"]) simp
  qed
qed simp

text \<open>The text sent to the language model is the longest run of whole transcript lines, from the start, that
  fits in 30000 bytes: no line is cut and none is skipped.\<close>

theorem llm_text_bounded:
  "\<exists>n \<le> length segs. formatTranscriptForLLM segs = concat (map transcript_line (take n segs)) \<and>
    length (formatTranscriptForLLM segs) \<le> 30000 \<and>
    (n = length segs \<or> 30000 < length (formatTranscriptForLLM segs @ transcript_line (segs ! n)))"
proof -
  have "length ([] :: string) \<le> maxTranscriptChars" by simp
  from format_loop_take [OF this, of segs] obtain n where n: "n \<le> length segs"
    "formatTranscriptForLLM segs = concat (map transcript_line (take n segs))"
    "length (formatTranscriptForLLM segs) \<le> 30000"
    "n < length segs \<longrightarrow> 30000 < length (formatTranscriptForLLM segs @ transcript_line (segs ! n))"
    unfolding formatTranscriptForLLM_def maxTranscriptChars_def append_Nil by blast
  from n(1) have "n = length segs \<or> n < length segs" by auto
  with n show ?thesis by blast
qed

subsection \<open>Titles\<close>

text \<open>
  The statement that looks for a video accepts every title that starts with \<open>Recording\<close> and a space, the check
  in Go only those with a digit next. As long as the oldest match has such a title, each tick ends there.
\<close>

text \<open>A video titled by its owner "Recording " and a word, when it is the oldest that matches the query, stops
  the title worker: a tick changes nothing, whatever the model would answer, and no other video is served.\<close>

theorem title_worker_starves:
  assumes "oldest (filter wants_title (videos w)) = Some v" "\<not> isAutoGeneratedTitle (v_title v)"
  shows "snd (run_state (processNextTitleSuggestion a) w) = tick w"
  using assms by (simp add: processNextTitleSuggestion_def run_simps split: option.split)

theorem title_worker_starves_witness:
  "\<forall>a. videos (snd (run_state (processNextTitleSuggestion a) (sample_world\<lparr>videos :=
     [sample_video\<lparr>v_id := ''v2'', v_title := ''Untitled Video'', v_summary_status := WReady, v_transcript_json := Some [],
        v_suggested_title := None, v_updated_at := days 39\<rparr>,
      sample_video\<lparr>v_title := ''Recording notes'', v_summary_status := WReady, v_transcript_json := Some [],
        v_suggested_title := None\<rparr>]\<rparr>))) =
   [sample_video\<lparr>v_id := ''v2'', v_title := ''Untitled Video'', v_summary_status := WReady, v_transcript_json := Some [],
        v_suggested_title := None, v_updated_at := days 39\<rparr>,
    sample_video\<lparr>v_title := ''Recording notes'', v_summary_status := WReady, v_transcript_json := Some [],
        v_suggested_title := None\<rparr>]"
  by (intro allI, subst title_worker_starves [where v = "sample_video\<lparr>v_title := ''Recording notes'', v_summary_status := WReady,
        v_transcript_json := Some [], v_suggested_title := None\<rparr>"])
    (simp_all add: wants_title_def has_prefix_def isAutoGeneratedTitle_def is_digit_def, simp add: sample_video_def new_video_def)

text \<open>Dismissing a suggestion clears the column the query looks at, so the next tick suggests again.\<close>

lemma dismissal_undone:
  assumes "chat a TitlePrompt [] [] = Some ''Demo of the app''"
  shows "v_suggested_title (hd (videos (snd (run_state (do { _ \<leftarrow> DismissTitle sample_caller ''v1''; processNextTitleSuggestion a })
    (sample_world\<lparr>videos := [sample_video\<lparr>v_title := ''Untitled Video'', v_summary_status := WReady,
       v_transcript_json := Some [], v_suggested_title := Some ''Demo of the app'', v_transcription_language := Some []\<rparr>]\<rparr>))))) =
    Some ''Demo of the app''"
proof -
  have t: "trim_space ''Demo of the app'' = ''Demo of the app''" by (simp add: trim_space_def space_runes_def has_prefix_def)
  show ?thesis
    by (simp add: DismissTitle_def update_scoped_def processNextTitleSuggestion_def run_simps scoped_filter in_scope_def
        wants_title_def isAutoGeneratedTitle_def suggest_title_def GenerateTitle_def formatTranscriptForLLM_def
        claim_language_def resolveLanguageName_def assms t logged_def)
qed

end
