(* ===== verification/Watch_Auth.thy ===== *)
theory Watch_Auth
  imports Video_Settings
begin

text \<open>
  Access to a shared video (\<open>internal/video/watch_auth.go\<close>): the share password, the e-mail gate, and the
  signed cookies that remember a viewer who passed them. Hash functions are a parameter (\<open>crypto\<close>): the
  theorems hold for every one and name what they need of it. Cookies are written and read as
  \<open>net/http\<close> does it, which drops bytes a cookie value may not have.
\<close>

subsection \<open>Hashes and cookies\<close>

record crypto =
  Sum256 :: "string \<Rightarrow> string"
  hmac_sha256 :: "string \<Rightarrow> string \<Rightarrow> string" \<comment> \<open>key, message\<close>
  GenerateFromPassword :: "string \<Rightarrow> string option" \<comment> \<open>bcrypt\<close>
  CompareHashAndPassword :: "string \<Rightarrow> string \<Rightarrow> bool"

definition hex_digit :: "nat \<Rightarrow> char" where
  "hex_digit n = (if n < 10 then digit n else char_of (n + 87))"

definition EncodeToString :: "string \<Rightarrow> string" where
  "EncodeToString s = concat (map (\<lambda>c. [hex_digit (of_char c div 16), hex_digit (of_char c mod 16)]) s)"

text \<open>\<open>validCookieValueByte\<close>, \<open>sanitizeCookieValue\<close> and \<open>parseCookieValue\<close> of \<open>net/http\<close>.\<close>

definition valid_cookie_byte :: "char \<Rightarrow> bool" where
  "valid_cookie_byte b \<longleftrightarrow> 0x20 \<le> (of_char b :: nat) \<and> (of_char b :: nat) < 0x7f \<and>
     b \<noteq> CHR 0x22 \<and> b \<noteq> CHR '';'' \<and> b \<noteq> CHR 0x5C"

definition sanitizeCookieValue :: "string \<Rightarrow> string" where
  "sanitizeCookieValue v = (let v = filter valid_cookie_byte v in
     if v \<noteq> [] \<and> list_ex (\<lambda>c. c = CHR '' '' \<or> c = CHR '','') v then [CHR 0x22] @ v @ [CHR 0x22] else v)"

definition parseCookieValue :: "string \<Rightarrow> string option" where
  "parseCookieValue raw =
     (let v = (if length raw > 1 \<and> hd raw = CHR 0x22 \<and> last raw = CHR 0x22 then butlast (List.tl raw) else raw) in
      if list_all valid_cookie_byte v then Some v else None)"

record cookie =
  ck_Name :: string
  ck_Value :: string \<comment> \<open>as it is sent\<close>
  ck_Path :: string
  ck_MaxAge :: int
  ck_HttpOnly :: bool
  ck_Secure :: bool
  ck_SameSite :: string

text \<open>The cookies of a request, name and raw value; \<open>r.Cookie\<close> finds the first of a name with a valid value.\<close>

type_synonym cookies = "(string \<times> string) list"

fun r_Cookie :: "cookies \<Rightarrow> string \<Rightarrow> string option" where
  "r_Cookie [] n = None"
| "r_Cookie ((k, raw) # cs) n =
     (case (if k = n then parseCookieValue raw else None) of Some v \<Rightarrow> Some v | None \<Rightarrow> r_Cookie cs n)"

definition sends :: "cookie \<Rightarrow> string \<times> string" where
  "sends ck = (ck_Name ck, ck_Value ck)"

subsection \<open>Share passwords\<close>

definition hashSharePassword :: "crypto \<Rightarrow> string \<Rightarrow> string option" where
  "hashSharePassword cy password = GenerateFromPassword cy password"

definition checkSharePassword :: "crypto \<Rightarrow> string \<Rightarrow> string \<Rightarrow> bool" where
  "checkSharePassword cy hash password = CompareHashAndPassword cy hash password"

definition watchCookieName :: "string \<Rightarrow> string" where
  "watchCookieName shareToken = ''wa_'' @ (if length shareToken > 8 then take 8 shareToken else shareToken)"

definition deriveCookieKey :: "crypto \<Rightarrow> string \<Rightarrow> string \<Rightarrow> string" where
  "deriveCookieKey cy secret purpose = Sum256 cy (''sendrec/'' @ purpose @ ''/v1|'' @ secret)"

definition signWatchCookie :: "crypto \<Rightarrow> string \<Rightarrow> string \<Rightarrow> string \<Rightarrow> string" where
  "signWatchCookie cy secret shareToken passwordHash =
     (let hashPrefix = (if length passwordHash > 16 then take 16 passwordHash else passwordHash) in
      EncodeToString (hmac_sha256 cy (deriveCookieKey cy secret ''watch-cookie'') (shareToken @ ''|'' @ hashPrefix)))"

definition verifyWatchCookie :: "crypto \<Rightarrow> string \<Rightarrow> string \<Rightarrow> string \<Rightarrow> string \<Rightarrow> bool" where
  "verifyWatchCookie cy secret shareToken passwordHash cookieValue \<longleftrightarrow>
     signWatchCookie cy secret shareToken passwordHash = cookieValue"

definition setWatchCookie :: "string \<Rightarrow> string \<Rightarrow> bool \<Rightarrow> cookie" where
  "setWatchCookie shareToken cookieValue secure =
     \<lparr>ck_Name = watchCookieName shareToken, ck_Value = sanitizeCookieValue cookieValue, ck_Path = ''/'',
      ck_MaxAge = 7 * 24 * 3600, ck_HttpOnly = True, ck_Secure = secure, ck_SameSite = ''None''\<rparr>"

definition hasValidWatchCookie :: "crypto \<Rightarrow> cookies \<Rightarrow> string \<Rightarrow> string \<Rightarrow> string \<Rightarrow> bool" where
  "hasValidWatchCookie cy cs secret shareToken passwordHash =
     (case r_Cookie cs (watchCookieName shareToken) of None \<Rightarrow> False
      | Some v \<Rightarrow> verifyWatchCookie cy secret shareToken passwordHash v)"

subsection \<open>The e-mail gate\<close>

definition emailGateCookieName :: "string \<Rightarrow> string" where
  "emailGateCookieName shareToken = ''eg_'' @ (if length shareToken > 8 then take 8 shareToken else shareToken)"

definition signEmailGateCookie :: "crypto \<Rightarrow> string \<Rightarrow> string \<Rightarrow> string \<Rightarrow> string" where
  "signEmailGateCookie cy secret shareToken email =
     email @ ''|'' @ EncodeToString (hmac_sha256 cy (deriveCookieKey cy secret ''email-gate-cookie'') (shareToken @ ''|'' @ email))"

text \<open>\<open>SplitN(.., "|", 2)\<close> gives two parts exactly when there is a bar; the first ends before it.\<close>

definition verifyEmailGateCookie :: "crypto \<Rightarrow> string \<Rightarrow> string \<Rightarrow> string \<Rightarrow> string option" where
  "verifyEmailGateCookie cy secret shareToken cookieValue =
     (if CHR ''|'' \<notin> set cookieValue then None
      else let email = takeWhile (\<lambda>c. c \<noteq> CHR ''|'') cookieValue in
        if signEmailGateCookie cy secret shareToken email = cookieValue then Some email else None)"

definition setEmailGateCookie :: "string \<Rightarrow> string \<Rightarrow> bool \<Rightarrow> cookie" where
  "setEmailGateCookie shareToken value secure =
     \<lparr>ck_Name = emailGateCookieName shareToken, ck_Value = sanitizeCookieValue value, ck_Path = ''/'',
      ck_MaxAge = 7 * 24 * 60 * 60, ck_HttpOnly = True, ck_Secure = secure, ck_SameSite = ''None''\<rparr>"

definition hasValidEmailGateCookie :: "crypto \<Rightarrow> cookies \<Rightarrow> string \<Rightarrow> string \<Rightarrow> string option" where
  "hasValidEmailGateCookie cy cs secret shareToken =
     (case r_Cookie cs (emailGateCookieName shareToken) of None \<Rightarrow> None
      | Some v \<Rightarrow> verifyEmailGateCookie cy secret shareToken v)"

subsection \<open>The checks and the two handlers\<close>

text \<open>\<open>None\<close>: access granted; \<open>Some\<close>: the error that was written.\<close>

definition enforceWatchAccess :: "crypto \<Rightarrow> config \<Rightarrow> cookies \<Rightarrow> string \<Rightarrow> string option \<Rightarrow> bool \<Rightarrow> 'b response option" where
  "enforceWatchAccess cy h cs shareToken sharePassword emailGateEnabled =
     (if (case sharePassword of None \<Rightarrow> False
          | Some p \<Rightarrow> \<not> hasValidWatchCookie cy cs (hmacSecret h) shareToken p)
        then Some (WriteError 403 ''password required'')
      else if emailGateEnabled \<and> hasValidEmailGateCookie cy cs (hmacSecret h) shareToken = None
        then Some (WriteError 403 ''email required'')
      else None)"

abbreviation watchable :: "string \<Rightarrow> video \<Rightarrow> bool" where
  "watchable shareToken v \<equiv> v_share_token v = shareToken \<and> (v_status v = Ready \<or> v_status v = Processing)"

definition VerifyWatchPassword :: "crypto \<Rightarrow> config \<Rightarrow> string \<Rightarrow> string option \<Rightarrow> (unit response \<times> cookie option) prog" where
  "VerifyWatchPassword cy h shareToken body = (case body of
     None \<Rightarrow> State_Monad.return (bad_body, None)
   | Some password \<Rightarrow>
     if length password > 128 then State_Monad.return (WriteError 400 ''password is too long'', None)
     else do {
       row \<leftarrow> select_row (\<lambda>w. find_where (watchable shareToken) (videos w));
       State_Monad.return (case row of Inl _ \<Rightarrow> (WriteError 404 ''video not found'', None)
         | Inr v \<Rightarrow> (case v_share_password v of None \<Rightarrow> (WriteHeader 200, None)
           | Some p \<Rightarrow>
             if \<not> checkSharePassword cy p password then (WriteError 403 ''incorrect password'', None)
             else (WriteHeader 200, Some (setWatchCookie shareToken
               (signWatchCookie cy (hmacSecret h) shareToken p) (secureCookies h)))))
     })"

definition viewerHash :: "crypto \<Rightarrow> string \<Rightarrow> string \<Rightarrow> string" where
  "viewerHash cy ip userAgent = EncodeToString (take 8 (Sum256 cy (ip @ ''|'' @ userAgent)))"

text \<open>\<open>ip\<close> is what \<open>httputil.ClientIP\<close> returned.\<close>

definition IdentifyViewer :: "crypto \<Rightarrow> config \<Rightarrow> string \<Rightarrow> string \<Rightarrow> string \<Rightarrow> string option
    \<Rightarrow> (unit response \<times> cookie option) prog" where
  "IdentifyViewer cy h ip userAgent shareToken body = (case body of
     None \<Rightarrow> State_Monad.return (bad_body, None)
   | Some email \<Rightarrow>
     let email = trim_space email in
     if email = [] \<or> length email > 320 \<or> \<not> contains email ''@''
       then State_Monad.return (WriteError 400 ''invalid email'', None)
     else do {
       row \<leftarrow> select_row (\<lambda>w. find_where (watchable shareToken) (videos w));
       case row of Inl _ \<Rightarrow> State_Monad.return (WriteError 404 ''video not found'', None)
       | Inr v \<Rightarrow> do {
           spawn (JobRecordViewer (v_id v) email (viewerHash cy ip userAgent));
           State_Monad.return (WriteHeader 200, Some (setEmailGateCookie shareToken
             (signEmailGateCookie cy (hmacSecret h) shareToken email) (secureCookies h)))
         }
     })"

text \<open>The goroutine of \<open>IdentifyViewer\<close>: \<open>ON CONFLICT (video_id, email) DO NOTHING\<close>.\<close>

definition record_viewer :: "string \<Rightarrow> string \<Rightarrow> string \<Rightarrow> unit prog" where
  "record_viewer videoID email hash = do {
     _ \<leftarrow> exec_world (\<lambda>w. if list_ex (\<lambda>r. vv_video_id r = videoID \<and> vv_email r = email) (video_viewers w) then w
       else w\<lparr>video_viewers := video_viewers w @ [\<lparr>vv_video_id = videoID, vv_email = email, vv_viewer_hash = hash, vv_created_at = now w\<rparr>]\<rparr>);
     State_Monad.return ()
   }"

subsection \<open>Cookies that come back\<close>

definition cookie_clean :: "char \<Rightarrow> bool" where
  "cookie_clean c \<longleftrightarrow> valid_cookie_byte c \<and> c \<noteq> CHR ''|''"

lemma hex_digit_code: "n < 16 \<Longrightarrow> (of_char (hex_digit n) :: nat) = (if n < 10 then n + 48 else n + 87)"
  by (simp add: hex_digit_def digit_def)

lemma hex_digit_clean:
  assumes "n < 16" shows "cookie_clean (hex_digit n)"
proof -
  have "(of_char (hex_digit n) :: nat) \<in> {48..57} \<union> {97..102}"
    using assms by (auto simp: hex_digit_code)
  then show ?thesis by (auto simp: cookie_clean_def valid_cookie_byte_def)
qed

lemma EncodeToString_all: "c \<in> set (EncodeToString s) \<Longrightarrow> cookie_clean c"
  by (auto simp: EncodeToString_def less_mult_imp_div_less intro!: hex_digit_clean)

lemma EncodeToString_clean: "list_all valid_cookie_byte (EncodeToString s)" "CHR ''|'' \<notin> set (EncodeToString s)"
  using EncodeToString_all [of _ s] unfolding cookie_clean_def list_all_iff by blast+

lemma EncodeToString_length: "length (EncodeToString s) = 2 * length s"
  by (induction s) (simp_all add: EncodeToString_def)

lemma cookie_value_back:
  assumes "list_all valid_cookie_byte v"
  shows "parseCookieValue (sanitizeCookieValue v) = Some v"
proof -
  have f: "filter valid_cookie_byte v = v" using assms by (simp add: list_all_iff filter_id_conv)
  have "CHR 0x22 \<notin> set v" using assms by (auto simp: list_all_iff valid_cookie_byte_def)
  then have "v = [] \<or> hd v \<noteq> CHR 0x22" by (metis hd_in_set)
  then show ?thesis
    using assms by (cases "v = []") (auto simp: sanitizeCookieValue_def parseCookieValue_def f Let_def butlast_append)
qed

lemma r_Cookie_first: "parseCookieValue raw = Some v \<Longrightarrow> r_Cookie ((n, raw) # cs) n = Some v"
  by simp

lemma watch_cookie_back:
  "hasValidWatchCookie cy (sends (setWatchCookie t (signWatchCookie cy s t p) sec) # cs) s t p"
  using cookie_value_back [of "signWatchCookie cy s t p"] EncodeToString_clean(1)
  by (simp add: hasValidWatchCookie_def sends_def setWatchCookie_def verifyWatchCookie_def signWatchCookie_def Let_def)

text \<open>A bar in the address moves the place where the reader splits the cookie.\<close>

lemma split_at_bar:
  assumes "CHR ''|'' \<in> set e" "length s = length s'"
  shows "takeWhile (\<lambda>c. c \<noteq> CHR ''|'') (e @ ''|'' @ s) @ ''|'' @ s' \<noteq> e @ ''|'' @ s"
proof -
  obtain a b where e: "e = a @ CHR ''|'' # b" "CHR ''|'' \<notin> set a"
    using split_list_first [OF assms(1)] by blast
  then have "takeWhile (\<lambda>c. c \<noteq> CHR ''|'') (e @ ''|'' @ s) = a" by (simp add: takeWhile_append)
  then have "length (takeWhile (\<lambda>c. c \<noteq> CHR ''|'') (e @ ''|'' @ s) @ ''|'' @ s') < length (e @ ''|'' @ s)"
    using assms(2) e(1) by simp
  then show ?thesis by (metis less_irrefl)
qed

lemma verify_gate:
  assumes "\<And>k m. length (hmac_sha256 cy k m) = 32"
  shows "verifyEmailGateCookie cy s t (signEmailGateCookie cy s t e) = (if CHR ''|'' \<in> set e then None else Some e)"
proof (cases "CHR ''|'' \<in> set e")
  case True
  then show ?thesis
    using split_at_bar [OF True]
    by (simp add: verifyEmailGateCookie_def signEmailGateCookie_def Let_def EncodeToString_length assms)
next
  case False
  then have "takeWhile (\<lambda>c. c \<noteq> CHR ''|'') (e @ ''|'' @ x) = e" for x
    by (subst takeWhile_append2) auto
  with False show ?thesis by (simp add: verifyEmailGateCookie_def signEmailGateCookie_def Let_def)
qed

subsection \<open>What the owner sets opens the video\<close>

lemma SetPassword_wp:
  assumes "password \<noteq> []"
  shows "wp (SetPassword hash c vid (Some password)) (\<lambda>resp w'. resp = WriteHeader 204 \<longrightarrow>
    (\<exists>p. hash password = Some p \<and> now w' = now w \<and> videos w' = upd_where (orgVideoFilter c vid live)
       (\<lambda>v. v\<lparr>v_share_password := Some p, v_updated_at := now w\<rparr>) (videos w))) w"
  unfolding SetPassword_def update_scoped_def using assms
  by (auto split: option.splits)

lemma VerifyWatchPassword_wp:
  assumes "next_fault w = None" "find_where (watchable t) (videos w) = Some v" "length password \<le> 128"
  shows "wp (VerifyWatchPassword cy h t (Some password)) (\<lambda>r w'. r = (case v_share_password v of None \<Rightarrow> (WriteHeader 200, None)
    | Some p \<Rightarrow> if CompareHashAndPassword cy p password
        then (WriteHeader 200, Some (setWatchCookie t (signWatchCookie cy (hmacSecret h) t p) (secureCookies h)))
        else (WriteError 403 ''incorrect password'', None))) w"
  unfolding VerifyWatchPassword_def using assms
  by (simp add: checkSharePassword_def split: option.splits)


text \<open>Hash functions for the examples: bcrypt keeps the password behind a prefix, HMAC gives 32 bytes.\<close>

definition sample_crypto :: crypto where
  "sample_crypto = \<lparr>Sum256 = (\<lambda>s. s), hmac_sha256 = (\<lambda>k m. replicate 32 (CHR ''m'')),
     GenerateFromPassword = (\<lambda>p. Some (''$2a$'' @ p)), CompareHashAndPassword = (\<lambda>h p. h = ''$2a$'' @ p)\<rparr>"


subsection \<open>The e-mail gate\<close>

text \<open>C20: the cookie a viewer gets for an address opens the e-mail gate exactly when the address has no bar,
  among the addresses a cookie can carry (printable ASCII without quote, semicolon and backslash).\<close>

theorem email_gate_opens_iff:
  assumes "run_state (IdentifyViewer cy h ip ua t (Some email)) w = ((WriteHeader 200, Some ck), w')"
    and "\<And>k m. length (hmac_sha256 cy k m) = 32" "list_all valid_cookie_byte (trim_space email)"
  shows "hasValidEmailGateCookie cy (sends ck # cs) (hmacSecret h) t =
    (if CHR ''|'' \<in> set (trim_space email) then None else Some (trim_space email))"
proof -
  let ?e = "trim_space email"
  have "wp (IdentifyViewer cy h ip ua t (Some email)) (\<lambda>r w'. \<forall>ck. r = (WriteHeader 200, Some ck) \<longrightarrow>
      ck = setEmailGateCookie t (signEmailGateCookie cy (hmacSecret h) t ?e) (secureCookies h)) w"
    unfolding IdentifyViewer_def Let_def by (simp split: option.split)
  from wpI [OF this assms(1)] have ck: "ck = setEmailGateCookie t (signEmailGateCookie cy (hmacSecret h) t ?e) (secureCookies h)"
    by simp
  have "list_all valid_cookie_byte (signEmailGateCookie cy (hmacSecret h) t ?e)"
    using assms(3) EncodeToString_clean(1) by (simp add: signEmailGateCookie_def valid_cookie_byte_def [of "CHR ''|''"])
  from cookie_value_back [OF this] show ?thesis
    using verify_gate [OF assms(2)] unfolding ck
    by (simp add: hasValidEmailGateCookie_def sends_def setEmailGateCookie_def)
qed

theorem email_gate_opens_iff_witness:
  "hasValidEmailGateCookie sample_crypto
     [sends (the (snd (fst (run_state (IdentifyViewer sample_crypto sample_config ''1.2.3.4'' ''ua'' ''tok1'' (Some ''a|b@x'')) sample_ready))))]
     ''secret'' ''tok1'' = None"
proof -
  let ?r = "run_state (IdentifyViewer sample_crypto sample_config ''1.2.3.4'' ''ua'' ''tok1'' (Some ''a|b@x'')) sample_ready"
  have t: "trim_space ''a|b@x'' = ''a|b@x''" by (simp add: trim_space_def space_runes_def has_prefix_def)
  have "\<exists>ck. fst ?r = (WriteHeader 200, Some ck)"
    by (simp add: IdentifyViewer_def t Let_def contains_def has_prefix_def run_simps sample_ready_def)
  then obtain ck where ck: "fst ?r = (WriteHeader 200, Some ck)" by blast
  then have "?r = ((WriteHeader 200, Some ck), snd ?r)" by (metis prod.collapse)
  from email_gate_opens_iff [OF this, of "[]"] have "hasValidEmailGateCookie sample_crypto [sends ck] ''secret'' ''tok1'' = None"
    by (simp add: t sample_crypto_def valid_cookie_byte_def)
  then show ?thesis by (simp add: ck)
qed

end
