(* ===== verification/Rate_Limit.thy ===== *)
theory Rate_Limit
  imports Go_Strings Float64 Prelude
begin

text \<open>
  \<open>internal/ratelimit/ratelimit.go\<close> and \<open>internal/httputil/clientip.go\<close>: a token bucket per client
  address, its lazy refill and the sweep of idle buckets, with the addresses the buckets are keyed
  by. Times are nanoseconds; tokens are \<open>float64\<close>. The mutex makes \<open>allow\<close> and each sweep one
  step; the two readings of the clock in \<open>allow\<close> are two arguments.
\<close>

subsection \<open>The limiter\<close>

record visitor =
  tokens :: float64
  lastSeen :: int

record Limiter =
  visitors :: "string \<Rightarrow> visitor option"
  rate :: float64
  burst :: float64

definition NewLimiter :: "float64 \<Rightarrow> int \<Rightarrow> Limiter" where
  "NewLimiter requestsPerSecond n = \<lparr>visitors = Map.empty, rate = requestsPerSecond, burst = f_of_int n\<rparr>"

text \<open>\<open>Duration.Seconds()\<close> of a number of nanoseconds.\<close>

definition Seconds :: "int \<Rightarrow> float64" where
  "Seconds d = f_add (f_of_int (d div 1000000000)) (f_div (f_of_int (d mod 1000000000)) 1000000000)"

definition refill :: "Limiter \<Rightarrow> visitor \<Rightarrow> int \<Rightarrow> float64" where
  "refill l v since = (let t = f_add (tokens v) (f_mul (Seconds (since - lastSeen v)) (rate l))
     in if t > burst l then burst l else t)"

text \<open>\<open>allow\<close> reads the clock for \<open>time.Since\<close> (\<open>since\<close>) and again for the new \<open>lastSeen\<close> (\<open>seen\<close>).\<close>

definition allow :: "Limiter \<Rightarrow> string \<Rightarrow> int \<Rightarrow> int \<Rightarrow> bool \<times> Limiter" where
  "allow l ip since seen = (case visitors l ip of
     None \<Rightarrow> (True, l\<lparr>visitors := (visitors l)(ip \<mapsto> \<lparr>tokens = f_sub (burst l) 1, lastSeen = seen\<rparr>)\<rparr>)
   | Some v \<Rightarrow>
       let t = refill l v since in
       if t < 1 then (False, l\<lparr>visitors := (visitors l)(ip \<mapsto> \<lparr>tokens = t, lastSeen = seen\<rparr>)\<rparr>)
       else (True, l\<lparr>visitors := (visitors l)(ip \<mapsto> \<lparr>tokens = f_sub t 1, lastSeen = seen\<rparr>)\<rparr>))"

text \<open>One round of the cleanup loop: buckets idle for more than ten minutes are dropped.\<close>

definition idle_limit :: int where
  "idle_limit = 10 * 60 * 1000000000"

definition cleanup :: "Limiter \<Rightarrow> int \<Rightarrow> Limiter" where
  "cleanup l t = l\<lparr>visitors := (\<lambda>ip. case visitors l ip of None \<Rightarrow> None
     | Some v \<Rightarrow> if t - lastSeen v > idle_limit then None else Some v)\<rparr>"

text \<open>\<open>Middleware\<close>: 429 when the limiter is enabled and refuses, otherwise the next handler.\<close>

definition Middleware :: "bool \<Rightarrow> Limiter \<Rightarrow> string \<Rightarrow> int \<Rightarrow> int \<Rightarrow> 'a \<Rightarrow> (int + 'a) \<times> Limiter" where
  "Middleware Enabled l ip since seen nxt =
     (if \<not> Enabled then (Inr nxt, l)
      else case allow l ip since seen of (ok, l') \<Rightarrow> (if \<not> ok then Inl 429 else Inr nxt, l'))"

subsection \<open>The bounds of a bucket\<close>

definition bucket_ok :: "Limiter \<Rightarrow> visitor \<Rightarrow> bool" where
  "bucket_ok l v \<longleftrightarrow> 0 \<le> tokens v \<and> tokens v \<le> burst l"

definition limiter_ok :: "Limiter \<Rightarrow> bool" where
  "limiter_ok l \<longleftrightarrow> (\<exists>n. 1 \<le> n \<and> n \<le> 2 ^ 53 \<and> burst l = of_int n) \<and>
     (\<forall>ip v. visitors l ip = Some v \<longrightarrow> bucket_ok l v)"

lemma Seconds_nonneg: "0 \<le> d \<Longrightarrow> 0 \<le> Seconds d"
  unfolding Seconds_def f_add_def f_div_def f_of_int_def
  by (intro f64.nonneg add_nonneg_nonneg divide_nonneg_nonneg) (simp_all add: pos_imp_zdiv_nonneg_iff)

lemma refill_le_burst: "refill l v t \<le> burst l"
  by (simp add: refill_def Let_def)

lemma allow_burst [simp]: "burst (snd (allow l ip a b)) = burst l"
  by (auto simp: allow_def Let_def split: option.split)

lemma f_sub_1:
  assumes "1 \<le> t" "t \<le> of_int n" "1 \<le> n" "n \<le> 2 ^ 53"
  shows "0 \<le> f_sub t 1 \<and> f_sub t 1 \<le> of_int n"
proof
  show "0 \<le> f_sub t 1" using assms(1) by (rule f_sub_pos_nonneg)
  show "f_sub t 1 \<le> of_int n" using assms by (intro f_sub_le) auto
qed

text \<open>The refill is not negative even if the clock or the rate were: the code's guard is the test
  against 1, so a bucket below 0 would only refuse more.\<close>

lemma allow_ok:
  assumes "limiter_ok l" "0 \<le> rate l" and "\<And>v. visitors l ip = Some v \<Longrightarrow> lastSeen v \<le> since"
  shows "limiter_ok (snd (allow l ip since seen))"
proof -
  obtain n where n: "1 \<le> n" "n \<le> 2 ^ 53" "burst l = of_int n"
    using assms(1) by (auto simp: limiter_ok_def)
  have refill: "0 \<le> refill l v since" if "visitors l ip = Some v" for v
  proof -
    have "0 \<le> tokens v" using assms(1) that by (auto simp: limiter_ok_def bucket_ok_def)
    moreover have "0 \<le> f_mul (Seconds (since - lastSeen v)) (rate l)"
      unfolding f_mul_def using assms(2,3) that by (intro f64.nonneg mult_nonneg_nonneg Seconds_nonneg) auto
    ultimately show ?thesis
      using n by (auto simp: refill_def Let_def f_add_def intro!: f64.nonneg)
  qed
  show ?thesis
  proof (cases "visitors l ip")
    case None
    have "bucket_ok l \<lparr>tokens = f_sub (burst l) 1, lastSeen = seen\<rparr>"
      using f_sub_1 [of "burst l" n] n by (simp add: bucket_ok_def)
    with assms(1) None show ?thesis by (auto simp: allow_def limiter_ok_def bucket_ok_def)
  next
    case (Some v)
    have "bucket_ok l \<lparr>tokens = refill l v since, lastSeen = seen\<rparr>"
      using refill [OF Some] refill_le_burst by (simp add: bucket_ok_def)
    moreover have "bucket_ok l \<lparr>tokens = f_sub (refill l v since) 1, lastSeen = seen\<rparr>" if "\<not> refill l v since < 1"
      using f_sub_1 [of "refill l v since" n] that n refill_le_burst [of l v since] by (simp add: bucket_ok_def)
    ultimately show ?thesis
      using assms(1) Some by (auto simp: allow_def limiter_ok_def bucket_ok_def Let_def)
  qed
qed

lemma cleanup_ok: "limiter_ok l \<Longrightarrow> limiter_ok (cleanup l t)"
  by (auto simp: limiter_ok_def cleanup_def bucket_ok_def split: option.splits if_splits)

subsection \<open>The running limiter\<close>

text \<open>
  A configuration is the limiter and the clock; a step is a request or a sweep at a later time.
  \<open>allow\<close> reads the clock twice, so its step may take time.
\<close>

inductive limiter_step :: "Limiter \<times> int \<Rightarrow> Limiter \<times> int \<Rightarrow> bool" where
  request: "now \<le> since \<Longrightarrow> since \<le> seen \<Longrightarrow> limiter_step (l, now) (snd (allow l ip since seen), seen)"
| sweep: "now \<le> t \<Longrightarrow> limiter_step (l, now) (cleanup l t, t)"

definition limiter_inv :: "Limiter \<times> int \<Rightarrow> bool" where
  "limiter_inv s \<longleftrightarrow> limiter_ok (fst s) \<and> 0 \<le> rate (fst s) \<and>
     (\<forall>ip v. visitors (fst s) ip = Some v \<longrightarrow> lastSeen v \<le> snd s)"

definition limiter_start :: "Limiter \<times> int \<Rightarrow> bool" where
  "limiter_start s \<longleftrightarrow> (\<exists>r n. fst s = NewLimiter r n \<and> 0 \<le> r \<and> 1 \<le> n \<and> n \<le> 2 ^ 53)"

lemma allow_rate [simp]: "rate (snd (allow l ip a b)) = rate l"
  by (auto simp: allow_def Let_def split: option.split)

lemma allow_seen:
  "visitors (snd (allow l ip a b)) x = Some v \<Longrightarrow> lastSeen v = b \<or> visitors l x = Some v"
  by (auto simp: allow_def Let_def split: option.splits if_splits)

interpretation limiter: machine limiter_start limiter_step limiter_inv
proof
  fix s assume "limiter_start s"
  then show "limiter_inv s"
    by (auto simp: limiter_start_def limiter_inv_def limiter_ok_def NewLimiter_def f_of_int_exact)
next
  fix s t assume inv: "limiter_inv s" and "limiter_step s t"
  from this(2) inv show "limiter_inv t"
  proof cases
    case (request now since seen l ip)
    with inv have "limiter_ok (snd (allow l ip since seen))"
      by (intro allow_ok) (force simp: limiter_inv_def)+
    with inv request show ?thesis
      by (force simp: limiter_inv_def dest: allow_seen)
  next
    case (sweep now t' l)
    with inv show ?thesis
      using cleanup_ok [of l t'] by (auto simp: limiter_inv_def cleanup_def split: option.splits if_splits)
        (meson order.trans)
  qed
qed

text \<open>C35: whatever the requests and sweeps, every bucket holds between 0 and \<open>burst\<close> tokens.\<close>

theorem bucket_bounds:
  assumes "reach limiter_start limiter_step (l, t)" "visitors l ip = Some v"
  shows "0 \<le> tokens v \<and> tokens v \<le> burst l"
  using limiter.reachable_inv [OF assms(1)] assms(2) by (auto simp: limiter_inv_def limiter_ok_def bucket_ok_def)

lemma sample_limiter_reach:
  "reach limiter_start limiter_step (snd (allow (NewLimiter (1/2) 5) ''1.2.3.4'' 7 7), 7)"
proof (rule reach_step)
  show "reach limiter_start limiter_step (NewLimiter (1/2) 5, 0)"
    unfolding limiter_start_def
    by (rule reach_start, rule exI [of _ "1/2"], rule exI [of _ 5]) simp
qed (simp add: limiter_step.request)

lemma sample_limiter_run:
  "snd (allow (NewLimiter (1/2) 5) ''1.2.3.4'' 7 7) =
     \<lparr>visitors = [''1.2.3.4'' \<mapsto> \<lparr>tokens = 4, lastSeen = 7\<rparr>], rate = 1/2, burst = 5\<rparr>"
  using rnd64_of_int [of 5] rnd64_of_int [of 4] by (simp add: allow_def NewLimiter_def f_of_int_def f_sub_def)

theorem bucket_bounds_witness: "(0::float64) \<le> tokens \<lparr>tokens = 4, lastSeen = 7\<rparr> \<and> tokens \<lparr>tokens = 4, lastSeen = 7\<rparr> \<le> burst (NewLimiter (1/2) 5)"
  using bucket_bounds [OF sample_limiter_reach, of "''1.2.3.4''"] rnd64_of_int [of 5]
  by (simp add: sample_limiter_run NewLimiter_def f_of_int_def)

subsection \<open>Bursts\<close>

text \<open>\<open>k\<close> requests of one address at one instant.\<close>

fun allow_many :: "Limiter \<Rightarrow> string \<Rightarrow> int \<Rightarrow> nat \<Rightarrow> bool list" where
  "allow_many l ip t 0 = []"
| "allow_many l ip t (Suc k) = (case allow l ip t t of (ok, l') \<Rightarrow> ok # allow_many l' ip t k)"

lemma Seconds_0 [simp]: "Seconds 0 = 0"
  by (simp add: Seconds_def f_add_def f_div_def f_of_int_def)

lemma refill_same_instant:
  "visitors l ip = Some v \<Longrightarrow> lastSeen v = t \<Longrightarrow> tokens v = of_int m \<Longrightarrow> 0 \<le> m \<Longrightarrow> m \<le> 2 ^ 53 \<Longrightarrow> of_int m \<le> burst l
   \<Longrightarrow> refill l v t = of_int m"
  by (simp add: refill_def Let_def f_add_def f_mul_def rnd64_of_int)

lemma allow_many_known:
  assumes "visitors l ip = Some v" "lastSeen v = t" "tokens v = of_nat m" "m \<le> 2 ^ 53" "of_nat m \<le> burst l"
  shows "allow_many l ip t k = replicate (min k m) True @ replicate (k - m) False"
  using assms
proof (induction k arbitrary: l v m)
  case (Suc k)
  have refill: "refill l v t = of_nat m"
    using refill_same_instant [of l ip v t "int m"] Suc.prems by simp
  show ?case
  proof (cases m)
    case 0
    have "allow l ip t t = (False, l\<lparr>visitors := (visitors l)(ip \<mapsto> \<lparr>tokens = 0, lastSeen = t\<rparr>)\<rparr>)"
      using refill Suc.prems 0 by (simp add: allow_def)
    with Suc.IH [of "l\<lparr>visitors := (visitors l)(ip \<mapsto> \<lparr>tokens = 0, lastSeen = t\<rparr>)\<rparr>" "\<lparr>tokens = 0, lastSeen = t\<rparr>" 0]
    show ?thesis using Suc.prems 0 by simp
  next
    case (Suc m')
    have "f_sub (of_nat m) 1 = of_nat m'"
      using rnd64_of_nat [of m'] Suc Suc.prems(4) by (simp add: f_sub_def)
    with refill Suc \<open>visitors l ip = Some v\<close>
    have "allow l ip t t = (True, l\<lparr>visitors := (visitors l)(ip \<mapsto> \<lparr>tokens = of_nat m', lastSeen = t\<rparr>)\<rparr>)"
      by (simp add: allow_def Let_def)
    with Suc.IH [of "l\<lparr>visitors := (visitors l)(ip \<mapsto> \<lparr>tokens = of_nat m', lastSeen = t\<rparr>)\<rparr>"
        "\<lparr>tokens = of_nat m', lastSeen = t\<rparr>" m']
    show ?thesis using Suc Suc.prems by simp
  qed
qed simp

text \<open>Of \<open>k\<close> requests a new address makes at one instant, exactly the first \<open>burst\<close> are allowed.\<close>

theorem burst_at_once:
  assumes "visitors l ip = None" "burst l = of_nat n" "1 \<le> n" "n \<le> 2 ^ 53"
  shows "allow_many l ip t k = replicate (min k n) True @ replicate (k - n) False"
proof (cases k)
  case (Suc k')
  obtain m where m: "n = Suc m" using assms(3) by (cases n) auto
  have "f_sub (burst l) 1 = of_nat m"
    using rnd64_of_nat [of m] assms m by (simp add: f_sub_def)
  then have "allow l ip t t = (True, l\<lparr>visitors := (visitors l)(ip \<mapsto> \<lparr>tokens = of_nat m, lastSeen = t\<rparr>)\<rparr>)"
    using assms(1) by (simp add: allow_def)
  with allow_many_known [of "l\<lparr>visitors := (visitors l)(ip \<mapsto> \<lparr>tokens = of_nat m, lastSeen = t\<rparr>)\<rparr>" ip
      "\<lparr>tokens = of_nat m, lastSeen = t\<rparr>" t m k']
  show ?thesis using Suc m assms by simp
qed simp

theorem burst_at_once_witness:
  "allow_many (NewLimiter (1/2) 2) ''1.2.3.4'' 7 3 = [True, True, False]"
proof -
  have "allow_many (NewLimiter (1/2) 2) ''1.2.3.4'' 7 3 = replicate (min 3 2) True @ replicate (3 - 2) False"
    by (rule burst_at_once) (simp_all add: NewLimiter_def f_of_int_exact)
  then show ?thesis by (simp add: numeral_2_eq_2)
qed

subsection \<open>The sweep\<close>

lemma Seconds_ge:
  assumes "n * 1000000000 \<le> d" "0 \<le> n" "n \<le> 2 ^ 53"
  shows "of_int n \<le> Seconds d"
proof -
  have "n \<le> d div 1000000000" using assms(1) by linarith
  then have "of_int n \<le> f_of_int (d div 1000000000)"
    unfolding f_of_int_def using assms(2,3) by (intro f64.ge_int) auto
  moreover have "0 \<le> f_div (f_of_int (d mod 1000000000)) 1000000000"
    unfolding f_div_def f_of_int_def by (intro f64.nonneg divide_nonneg_nonneg) simp_all
  ultimately show ?thesis
    unfolding Seconds_def f_add_def using assms(2,3) by (intro f64.ge_int) auto
qed

text \<open>The sweep is invisible: a bucket it drops would have been full again, so the next request of that
  address gets the same answer and leaves the same bucket as without the sweep.\<close>

theorem sweep_invisible:
  assumes "limiter_ok l" "0 \<le> rate l" "burst l \<le> f_mul 600 (rate l)"
    and "t \<le> since"
  shows "fst (allow (cleanup l t) ip since seen) = fst (allow l ip since seen) \<and>
    visitors (snd (allow (cleanup l t) ip since seen)) ip = visitors (snd (allow l ip since seen)) ip"
proof (cases "visitors l ip")
  case None
  then show ?thesis by (simp add: allow_def cleanup_def)
next
  case (Some v)
  obtain n where n: "1 \<le> n" "n \<le> 2 ^ 53" "burst l = of_int n"
    using assms(1) by (auto simp: limiter_ok_def)
  show ?thesis
  proof (cases "t - lastSeen v > idle_limit")
    case True
    have "600 \<le> Seconds (since - lastSeen v)"
      using Seconds_ge [of 600 "since - lastSeen v"] True assms(4) by (simp add: idle_limit_def)
    then have "f_mul 600 (rate l) \<le> f_mul (Seconds (since - lastSeen v)) (rate l)"
      unfolding f_mul_def using assms(2) by (intro rnd64_mono mult_right_mono) auto
    moreover have "0 \<le> tokens v" using assms(1) Some by (auto simp: limiter_ok_def bucket_ok_def)
    ultimately have "burst l \<le> f_add (tokens v) (f_mul (Seconds (since - lastSeen v)) (rate l))"
      using assms(3) n by (auto simp: f_add_def intro!: f64.ge_int)
    then have "refill l v since = burst l"
      by (simp add: refill_def Let_def)
    with Some True n show ?thesis
      by (simp add: allow_def cleanup_def)
  next
    case False
    with Some have "visitors (cleanup l t) ip = Some v"
      by (simp add: cleanup_def)
    moreover have "refill (cleanup l t) v since = refill l v since"
      by (simp add: refill_def cleanup_def Let_def)
    ultimately show ?thesis
      using Some by (simp add: allow_def Let_def)
  qed
qed

theorem sweep_invisible_witness:
  "fst (allow (cleanup (snd (allow (NewLimiter (1/2) 5) ''1.2.3.4'' 7 7)) 700000000000) ''1.2.3.4'' 700000000000 700000000000) =
   fst (allow (snd (allow (NewLimiter (1/2) 5) ''1.2.3.4'' 7 7)) ''1.2.3.4'' 700000000000 700000000000)"
proof -
  have "limiter_ok (snd (allow (NewLimiter (1/2) 5) ''1.2.3.4'' 7 7))"
    using limiter.reachable_inv [OF sample_limiter_reach] by (simp add: limiter_inv_def)
  then have "fst (allow (cleanup (snd (allow (NewLimiter (1/2) 5) ''1.2.3.4'' 7 7)) 700000000000) ''1.2.3.4'' 700000000000 700000000000) =
     fst (allow (snd (allow (NewLimiter (1/2) 5) ''1.2.3.4'' 7 7)) ''1.2.3.4'' 700000000000 700000000000) \<and>
     visitors (snd (allow (cleanup (snd (allow (NewLimiter (1/2) 5) ''1.2.3.4'' 7 7)) 700000000000) ''1.2.3.4'' 700000000000 700000000000)) ''1.2.3.4'' =
     visitors (snd (allow (snd (allow (NewLimiter (1/2) 5) ''1.2.3.4'' 7 7)) ''1.2.3.4'' 700000000000 700000000000)) ''1.2.3.4''"
    using rnd64_of_int [of 300] by (intro sweep_invisible) (simp_all add: sample_limiter_run f_mul_def)
  then show ?thesis by simp
qed

subsection \<open>The client's address\<close>

text \<open>Go's \<open>net.SplitHostPort\<close>, of which \<open>ClientIP\<close> uses the host; \<open>None\<close> is its error.\<close>

definition last_index :: "char \<Rightarrow> string \<Rightarrow> nat option" where
  "last_index c s = (let t = takeWhile (\<lambda>x. x \<noteq> c) (rev s) in
     if length t = length s then None else Some (length s - 1 - length t))"

definition first_index :: "char \<Rightarrow> string \<Rightarrow> nat option" where
  "first_index c s = (let t = takeWhile (\<lambda>x. x \<noteq> c) s in
     if length t = length s then None else Some (length t))"

definition SplitHost :: "string \<Rightarrow> string option" where
  "SplitHost hp = (case last_index CHR '':'' hp of None \<Rightarrow> None
     | Some i \<Rightarrow>
       if hd hp = CHR ''['' then
         (case first_index CHR '']'' hp of None \<Rightarrow> None
          | Some e \<Rightarrow>
            if Suc e \<noteq> i then None
            else let host = take (e - 1) (drop 1 hp) in
              if CHR ''['' \<in> set (drop 1 hp) \<or> CHR '']'' \<in> set (drop (Suc e) hp) then None else Some host)
       else let host = take i hp in
         if CHR '':'' \<in> set host \<or> CHR ''['' \<in> set hp \<or> CHR '']'' \<in> set hp then None else Some host)"

definition ClientIP :: "bool \<Rightarrow> string \<Rightarrow> string \<Rightarrow> string" where
  "ClientIP TrustProxyHeaders forwarded RemoteAddr =
     (let direct = (case SplitHost RemoteAddr of None \<Rightarrow> RemoteAddr | Some host \<Rightarrow> host) in
      if TrustProxyHeaders \<and> forwarded \<noteq> [] then
        let entries = split forwarded '',''; ip = trim_space (last entries) in
        if ip \<noteq> [] then ip else direct
      else direct)"

lemma split_no_sep: "c \<notin> set s \<Longrightarrow> split s [c] = [s]"
proof -
  assume "c \<notin> set s"
  then have "index_of s [c] = None"
    by (induction s) (auto simp: has_prefix_def)
  then show ?thesis by (cases "length s") (simp_all add: split_def)
qed

lemma contains_single: "contains s [c] \<longleftrightarrow> c \<in> set s"
  using containsE [of s "[c]"] contains_append [of _ "[c]"] by (auto dest: split_list)

lemma join_snoc: "xs \<noteq> [] \<Longrightarrow> join (xs @ [x]) sep = join xs sep @ sep @ x"
proof (induction xs)
  case (Cons y ys)
  then show ?case by (cases "ys = []") (simp_all add: join_Cons)
qed simp

lemma after_last: "c \<notin> set z \<Longrightarrow> rev (takeWhile (\<lambda>x. x \<noteq> c) (rev (l @ c # z))) = z"
proof -
  assume "c \<notin> set z"
  then have "\<And>x. x \<in> set (rev z) \<Longrightarrow> x \<noteq> c" by auto
  then have "takeWhile (\<lambda>x. x \<noteq> c) (rev z @ c # rev l) = rev z"
    by (subst takeWhile_append2) auto
  then show ?thesis by simp
qed

lemma last_split:
  assumes "c \<notin> set b" shows "last (split (a @ c # b) [c]) = b"
proof -
  let ?s = "a @ c # b"
  obtain ys z where yz: "split ?s [c] = ys @ [z]"
    by (metis append_butlast_last_id split_aux_nonempty split_def)
  then have "z \<in> set (split_aux (length ?s) ?s [c])" by (simp add: split_def)
  from split_aux_complete [OF _ _ this] have z: "c \<notin> set z"
    by (simp add: contains_single)
  have j: "join (ys @ [z]) [c] = ?s" using join_split [of ?s "[c]"] yz by simp
  have "ys \<noteq> []"
  proof
    assume "ys = []"
    with j have "z = ?s" by simp
    with z show False by simp
  qed
  with j have "join ys [c] @ c # z = ?s" by (simp add: join_snoc)
  with after_last [OF z, of "join ys [c]"] after_last [OF assms, of a] have "z = b" by simp
  with yz show ?thesis by simp
qed

text \<open>Behind a proxy, what a client puts in \<open>X-Forwarded-For\<close> does not change the address it is limited
  by: only the entry the proxy appended counts.\<close>

theorem forged_forwarded_for_ignored:
  assumes "CHR '','' \<notin> set peer"
  shows "ClientIP True (forged @ '','' @ peer) addr = ClientIP True peer addr"
  using last_split [OF assms, of forged] split_no_sep [OF assms]
  by (simp add: ClientIP_def Let_def trim_space_def)

theorem forged_forwarded_for_ignored_witness:
  "ClientIP True (''6.6.6.6'' @ '','' @ '' 1.2.3.4'') ''10.0.0.1:999'' = ''1.2.3.4''"
proof -
  have "CHR '','' \<notin> set '' 1.2.3.4''" by simp
  from forged_forwarded_for_ignored [OF this]
  have "ClientIP True (''6.6.6.6'' @ '','' @ '' 1.2.3.4'') ''10.0.0.1:999'' = ClientIP True '' 1.2.3.4'' ''10.0.0.1:999''" .
  also have "\<dots> = ''1.2.3.4''" by code_simp
  finally show ?thesis .
qed

end
