(* ===== verification/Encoder_Slots.thy ===== *)
theory Encoder_Slots
  imports Prelude
begin

text \<open>
  \<open>internal/video/encoder_slots.go\<close>: the semaphore in front of ffmpeg. A gate is a buffered
  channel, of which only the capacity and the number of buffered tokens matter; the process holds
  the gates made so far and the index of the current one (the atomic pointer). Goroutines that
  loaded a gate and wait on it, and the release functions handed out with their \<open>once\<close> flag, are
  part of the state, so that every interleaving of acquires, cancellations, releases (also
  repeated ones) and \<open>SetEncoderConcurrency\<close> is a run of \<open>slots_step\<close>.
\<close>

record gate =
  limit :: nat  \<comment> \<open>\<open>cap(s.tokens)\<close>\<close>
  buffered :: nat  \<comment> \<open>\<open>len(s.tokens)\<close>\<close>

definition DefaultEncoderConcurrency :: int where
  "DefaultEncoderConcurrency = 1"

definition newEncoderSlots :: "int \<Rightarrow> gate" where
  "newEncoderSlots n = (let n' = (if n < 1 then 1 else n) in \<lparr>limit = nat n', buffered = 0\<rparr>)"

text \<open>\<open>s.tokens <- struct{}{}\<close> and \<open><-s.tokens\<close>; \<open>None\<close> where the channel operation blocks.\<close>

definition send :: "gate \<Rightarrow> gate option" where
  "send g = (if buffered g < limit g then Some (g\<lparr>buffered := buffered g + 1\<rparr>) else None)"

definition receive :: "gate \<Rightarrow> gate option" where
  "receive g = (if 0 < buffered g then Some (g\<lparr>buffered := buffered g - 1\<rparr>) else None)"

record release_fn =
  r_gate :: nat
  r_once :: bool

record slots =
  gates :: "gate list"
  current :: nat
  waiting :: "nat list"
  releases :: "release_fn list"

definition init_slots :: slots where
  "init_slots = \<lparr>gates = [newEncoderSlots DefaultEncoderConcurrency], current = 0, waiting = [], releases = []\<rparr>"

text \<open>\<open>encoders()\<close>: the goroutine loads the pointer, then blocks in \<open>acquire\<close> on what it loaded.\<close>

definition call_acquire :: "slots \<Rightarrow> slots" where
  "call_acquire s = s\<lparr>waiting := waiting s @ [current s]\<rparr>"

definition drop_at :: "nat \<Rightarrow> 'a list \<Rightarrow> 'a list" where
  "drop_at i xs = take i xs @ drop (Suc i) xs"

definition acquire :: "nat \<Rightarrow> slots \<Rightarrow> slots option" where
  "acquire i s = (let g = waiting s ! i in case send (gates s ! g) of
     None \<Rightarrow> None
   | Some g' \<Rightarrow> Some (s\<lparr>gates := (gates s)[g := g'], waiting := drop_at i (waiting s),
        releases := releases s @ [\<lparr>r_gate = g, r_once = False\<rparr>]\<rparr>))"

text \<open>The \<open>ctx.Done()\<close> branch.\<close>

definition cancel :: "nat \<Rightarrow> slots \<Rightarrow> slots" where
  "cancel i s = s\<lparr>waiting := drop_at i (waiting s)\<rparr>"

definition release :: "nat \<Rightarrow> slots \<Rightarrow> slots option" where
  "release i s = (let r = releases s ! i in
     if r_once r then Some s
     else case receive (gates s ! r_gate r) of
       None \<Rightarrow> None
     | Some g' \<Rightarrow> Some (s\<lparr>gates := (gates s)[r_gate r := g'],
          releases := (releases s)[i := r\<lparr>r_once := True\<rparr>]\<rparr>))"

definition SetEncoderConcurrency :: "int \<Rightarrow> slots \<Rightarrow> slots" where
  "SetEncoderConcurrency n s = s\<lparr>gates := gates s @ [newEncoderSlots n], current := length (gates s)\<rparr>"

inductive slots_step :: "slots \<Rightarrow> slots \<Rightarrow> bool" where
  call_step: "slots_step s (call_acquire s)"
| acquire_step: "i < length (waiting s) \<Longrightarrow> acquire i s = Some t \<Longrightarrow> slots_step s t"
| cancel_step: "i < length (waiting s) \<Longrightarrow> slots_step s (cancel i s)"
| release_step: "i < length (releases s) \<Longrightarrow> release i s = Some t \<Longrightarrow> slots_step s t"
| set_step: "slots_step s (SetEncoderConcurrency n s)"

inductive_cases slots_stepE: "slots_step s t"

text \<open>The encodes running on a gate: the slots handed out and not yet given back.\<close>

definition running_on :: "nat \<Rightarrow> slots \<Rightarrow> nat" where
  "running_on g s = count_where (\<lambda>r. r_gate r = g \<and> \<not> r_once r) (releases s)"

definition running :: "slots \<Rightarrow> nat" where
  "running s = count_where (\<lambda>r. \<not> r_once r) (releases s)"

definition gate_ok :: "slots \<Rightarrow> nat \<Rightarrow> bool" where
  "gate_ok s g \<longleftrightarrow> buffered (gates s ! g) = running_on g s \<and>
     running_on g s \<le> limit (gates s ! g) \<and> 1 \<le> limit (gates s ! g)"

definition slots_inv :: "slots \<Rightarrow> bool" where
  "slots_inv s \<longleftrightarrow> current s < length (gates s) \<and>
     (\<forall>g \<in> set (waiting s). g < length (gates s)) \<and>
     (\<forall>r \<in> set (releases s). r_gate r < length (gates s)) \<and>
     (\<forall>g < length (gates s). gate_ok s g)"

lemma slots_invD:
  "slots_inv s \<Longrightarrow> g < length (gates s) \<Longrightarrow> buffered (gates s ! g) = running_on g s \<and>
     running_on g s \<le> limit (gates s ! g) \<and> 1 \<le> limit (gates s ! g)"
  by (simp add: slots_inv_def gate_ok_def)

lemma set_drop_at: "set (drop_at i xs) \<subseteq> set xs"
  by (auto simp: drop_at_def dest: in_set_takeD in_set_dropD)

lemma count_where_update:
  "i < length xs \<Longrightarrow> int (count_where P (xs[i := y])) =
     int (count_where P xs) - (if P (xs ! i) then 1 else 0) + (if P y then 1 else 0)"
proof (induction xs arbitrary: i)
  case (Cons x xs)
  show ?case
  proof (cases i)
    case (Suc j)
    with Cons.IH [of j] Cons.prems show ?thesis by (simp split: if_splits)
  qed simp
qed simp

lemma newEncoderSlots_ok [simp]: "Suc 0 \<le> limit (newEncoderSlots n)" "buffered (newEncoderSlots n) = 0"
proof -
  have "n < 1 \<or> Suc 0 \<le> nat n" by linarith
  then show "Suc 0 \<le> limit (newEncoderSlots n)" "buffered (newEncoderSlots n) = 0"
    by (auto simp: newEncoderSlots_def Let_def)
qed

lemma release_inv:
  assumes inv: "slots_inv s" and i: "i < length (releases s)" and rel: "release i s = Some t"
  shows "slots_inv t"
proof (cases "r_once (releases s ! i)")
  case True
  with rel inv show ?thesis by (simp add: release_def)
next
  case False
  let ?r = "releases s ! i" let ?g = "r_gate ?r"
  from rel False obtain g' where g': "receive (gates s ! ?g) = Some g'"
    and t: "t = s\<lparr>gates := (gates s)[?g := g'], releases := (releases s)[i := ?r\<lparr>r_once := True\<rparr>]\<rparr>"
    by (auto simp: release_def Let_def split: option.splits)
  have "?g < length (gates s)" using inv i by (simp add: slots_inv_def)
  have count: "int (running_on g t) = int (running_on g s) - (if g = ?g then 1 else 0)" for g
    using False count_where_update [OF i, of "\<lambda>r. r_gate r = g \<and> \<not> r_once r"]
    by (auto simp: running_on_def t)
  have "set (releases t) \<subseteq> insert (?r\<lparr>r_once := True\<rparr>) (set (releases s))"
    by (simp add: t set_update_subset_insert)
  then have "\<forall>r \<in> set (releases t). r_gate r < length (gates s)"
    using inv i by (fastforce simp: slots_inv_def)
  moreover have "gate_ok t g" if "g < length (gates s)" for g
  proof (cases "g = ?g")
    case True
    with that inv g' \<open>?g < length (gates s)\<close> have "gates t ! g = g'" "0 < buffered (gates s ! g)"
      "g' = (gates s ! g)\<lparr>buffered := buffered (gates s ! g) - 1\<rparr>"
      by (auto simp: t receive_def split: if_splits)
    with count [of g] True slots_invD [OF inv that] show ?thesis by (auto simp: gate_ok_def)
  next
    case False
    then have "gates t ! g = gates s ! g" by (simp add: t)
    with False count [of g] slots_invD [OF inv that] show ?thesis by (simp add: gate_ok_def)
  qed
  ultimately show ?thesis
    using inv by (simp add: slots_inv_def t)
qed

lemma acquire_inv:
  assumes inv: "slots_inv s" and i: "i < length (waiting s)" and acq: "acquire i s = Some t"
  shows "slots_inv t"
proof -
  let ?g = "waiting s ! i"
  from acq obtain g' where g': "send (gates s ! ?g) = Some g'"
    and t: "t = s\<lparr>gates := (gates s)[?g := g'], waiting := drop_at i (waiting s),
        releases := releases s @ [\<lparr>r_gate = ?g, r_once = False\<rparr>]\<rparr>"
    by (auto simp: acquire_def Let_def split: option.splits)
  have g: "?g < length (gates s)" using inv i by (simp add: slots_inv_def)
  have count: "running_on g t = running_on g s + (if g = ?g then 1 else 0)" for g
    by (simp add: running_on_def t)
  have "gate_ok t g" if "g < length (gates s)" for g
  proof (cases "g = ?g")
    case True
    with g g' have "gates t ! g = (gates s ! g)\<lparr>buffered := buffered (gates s ! g) + 1\<rparr>"
      "buffered (gates s ! g) < limit (gates s ! g)"
      by (auto simp: t send_def split: if_splits)
    with count [of g] True slots_invD [OF inv that] show ?thesis by (auto simp: gate_ok_def)
  next
    case False
    then have "gates t ! g = gates s ! g" by (simp add: t)
    with False count [of g] slots_invD [OF inv that] show ?thesis by (simp add: gate_ok_def)
  qed
  moreover have "\<forall>g \<in> set (drop_at i (waiting s)). g < length (gates s)"
    using inv set_drop_at [of i "waiting s"] by (auto simp: slots_inv_def)
  ultimately show ?thesis
    using inv g by (auto simp: slots_inv_def t)
qed

lemma set_inv: "slots_inv s \<Longrightarrow> slots_inv (SetEncoderConcurrency n s)"
proof -
  assume inv: "slots_inv s"
  have "running_on (length (gates s)) s = 0"
    using inv by (auto simp: running_on_def count_where_0 slots_inv_def)
  with inv show ?thesis
    by (auto simp: slots_inv_def gate_ok_def SetEncoderConcurrency_def running_on_def nth_append less_Suc_eq)
qed

interpretation slots: machine "\<lambda>s. s = init_slots" slots_step slots_inv
proof
  fix s assume "s = init_slots"
  then show "slots_inv s"
    by (simp add: slots_inv_def gate_ok_def init_slots_def running_on_def)
next
  fix s t assume inv: "slots_inv s" and "slots_step s t"
  from this(2) inv show "slots_inv t"
  proof (cases rule: slots_step.cases)
    case call_step
    with inv show ?thesis by (auto simp: slots_inv_def gate_ok_def call_acquire_def running_on_def)
  next
    case (cancel_step i)
    with inv set_drop_at [of i "waiting s"] show ?thesis
      by (auto simp: slots_inv_def gate_ok_def cancel_def running_on_def)
  next
    case (set_step n)
    with inv show ?thesis by (simp add: set_inv)
  qed (auto intro: acquire_inv release_inv)
qed

abbreviation slots_reach :: "slots \<Rightarrow> bool" where
  "slots_reach \<equiv> reach (\<lambda>s. s = init_slots) slots_step"

text \<open>C33: in every interleaving, at most as many encodes run on a gate as its limit allows, and the limit
  of a gate is at least one.\<close>

theorem encodes_bounded:
  assumes "slots_reach s" "g < length (gates s)"
  shows "running_on g s \<le> limit (gates s ! g) \<and> 1 \<le> limit (gates s ! g)"
  using slots_invD [OF slots.reachable_inv [OF assms(1)] assms(2)] by blast

definition sample_slots :: slots where
  "sample_slots = \<lparr>gates = [\<lparr>limit = 1, buffered = 1\<rparr>], current = 0, waiting = [0],
     releases = [\<lparr>r_gate = 0, r_once = False\<rparr>]\<rparr>"

text \<open>Two goroutines ask for a slot under the default limit: one gets it, one waits.\<close>

lemma sample_slots_reach: "slots_reach sample_slots"
proof -
  let ?s1 = "call_acquire (call_acquire init_slots)"
  have "slots_reach init_slots" by (rule reach_start) simp
  then have "slots_reach (call_acquire init_slots)" by (rule reach_step) (rule slots_step.call_step)
  then have "slots_reach ?s1" by (rule reach_step) (rule slots_step.call_step)
  moreover have "acquire 0 ?s1 = Some sample_slots"
    by (simp add: acquire_def call_acquire_def init_slots_def newEncoderSlots_def DefaultEncoderConcurrency_def
        send_def drop_at_def sample_slots_def)
  moreover have "0 < length (waiting ?s1)" by (simp add: call_acquire_def)
  ultimately show ?thesis by (blast intro: reach_step slots_step.acquire_step)
qed

theorem encodes_bounded_witness: "running_on 0 sample_slots \<le> 1 \<and> acquire 0 sample_slots = None"
  using encodes_bounded [OF sample_slots_reach, of 0]
  by (simp add: sample_slots_def acquire_def send_def)

text \<open>C34: giving a slot back never blocks, and the second call of a release function changes nothing.\<close>

theorem release_returns:
  assumes "slots_reach s" "i < length (releases s)"
  shows "\<exists>t. release i s = Some t \<and> release i t = Some t \<and>
    running t = running s - (if r_once (releases s ! i) then 0 else 1)"
proof (cases "r_once (releases s ! i)")
  case True
  then show ?thesis by (simp add: release_def)
next
  case False
  let ?r = "releases s ! i" let ?g = "r_gate ?r"
  have inv: "slots_inv s" by (rule slots.reachable_inv [OF assms(1)])
  then have g: "?g < length (gates s)" using assms(2) by (simp add: slots_inv_def)
  have "0 < running_on ?g s"
    unfolding running_on_def count_where_pos using assms(2) False by (metis nth_mem)
  with slots_invD [OF inv g] have "0 < buffered (gates s ! ?g)" by simp
  then have rel: "release i s = Some (s\<lparr>gates := (gates s)[?g := (gates s ! ?g)\<lparr>buffered := buffered (gates s ! ?g) - 1\<rparr>],
      releases := (releases s)[i := ?r\<lparr>r_once := True\<rparr>]\<rparr>)"
    using False by (simp add: release_def receive_def Let_def)
  moreover have "int (count_where (\<lambda>r. \<not> r_once r) ((releases s)[i := ?r\<lparr>r_once := True\<rparr>])) =
      int (count_where (\<lambda>r. \<not> r_once r) (releases s)) - 1"
    using count_where_update [OF assms(2), of "\<lambda>r. \<not> r_once r"] False by simp
  ultimately show ?thesis
    using assms(2) False by (auto simp: running_def release_def)
qed

theorem release_returns_witness: "\<exists>t. release 0 sample_slots = Some t \<and> running t = 0"
  using release_returns [OF sample_slots_reach, of 0]
  by (auto simp: sample_slots_def running_def)

text \<open>A slot that is free is given to any goroutine that waits for it, and to no other.\<close>

lemma acquire_iff_free:
  "acquire i s \<noteq> None \<longleftrightarrow> buffered (gates s ! (waiting s ! i)) < limit (gates s ! (waiting s ! i))"
  by (auto simp: acquire_def send_def Let_def)

end
