(* ===== verification/Cleanup.thy ===== *)
theory Cleanup
  imports Video_Settings
begin

text \<open>
  Removing recordings: the retrying delete (\<open>video_helpers.go\<close>), the job a delete request starts
  (\<open>video_crud.go\<close>), the cleanup sweep (\<open>cleanup.go\<close>) and the retention worker (\<open>retention_worker.go\<close>).
\<close>

subsection \<open>Deleting objects\<close>

text \<open>Between two attempts the code waits, and gives up when its context ends first.\<close>

fun deleteWithRetry :: "string \<Rightarrow> nat \<Rightarrow> string option prog" where
  "deleteWithRetry key 0 = State_Monad.return (Some ''all delete attempts failed'')"
| "deleteWithRetry key (Suc n) = do {
     e \<leftarrow> service (StoreDelete key);
     case e of None \<Rightarrow> State_Monad.return None
     | Some msg \<Rightarrow> if n = 0 then State_Monad.return (Some msg)
         else do { ctx \<leftarrow> call;
           case ctx of Some err \<Rightarrow> State_Monad.return (Some err) | None \<Rightarrow> deleteWithRetry key n }
   }"

definition delete_if :: "string option \<Rightarrow> unit prog" where
  "delete_if key = (case key of None \<Rightarrow> State_Monad.return ()
     | Some k \<Rightarrow> do { _ \<leftarrow> deleteWithRetry k 3; State_Monad.return () })"

definition mark_purged :: "(video \<Rightarrow> bool) \<Rightarrow> unit prog" where
  "mark_purged P = do {
     _ \<leftarrow> update_videos (\<lambda>w. P) (\<lambda>w v. v\<lparr>v_file_purged_at := Some (now w)\<rparr>);
     State_Monad.return () }"

text \<open>The goroutine of \<open>Delete\<close> (marks by file key) and of \<open>BatchDelete\<close> (by id).\<close>

definition delete_files :: "string + string \<Rightarrow> string \<Rightarrow> string option \<Rightarrow> string option \<Rightarrow> string option \<Rightarrow> unit prog" where
  "delete_files by fileKey thumbnailKey webcamKey transcriptKey = do {
     e \<leftarrow> deleteWithRetry fileKey 3;
     if e \<noteq> None then State_Monad.return ()
     else do {
       delete_if thumbnailKey;
       delete_if webcamKey;
       delete_if transcriptKey;
       mark_purged (\<lambda>v. case by of Inl k \<Rightarrow> v_file_key v = k | Inr i \<Rightarrow> v_id v = i)
     }
   }"

subsection \<open>The cleanup sweep\<close>

definition purge_one :: "video \<Rightarrow> unit prog" where
  "purge_one v = do {
     e \<leftarrow> deleteWithRetry (v_file_key v) 3;
     if e \<noteq> None then State_Monad.return ()
     else do {
       delete_if (v_thumbnail_key v);
       delete_if (v_transcript_key v);
       mark_purged (\<lambda>r. v_file_key r = v_file_key v)
     }
   }"

text \<open>\<open>LIMIT 50\<close> without an order: the first ones of the table.\<close>

definition PurgeOrphanedFiles :: "unit prog" where
  "PurgeOrphanedFiles = do {
     rows \<leftarrow> select_rows (\<lambda>w. take 50 (filter (\<lambda>v. v_status v = Deleted \<and> v_file_purged_at v = None) (videos w)));
     case rows of Inl _ \<Rightarrow> State_Monad.return ()
     | Inr vs \<Rightarrow> do { _ \<leftarrow> State_Monad.traverse_list purge_one vs; State_Monad.return () }
   }"

definition staleUploadAgeHours :: int where "staleUploadAgeHours = 24"

definition AbandonStaleUploads :: "unit prog" where
  "AbandonStaleUploads = do {
     _ \<leftarrow> update_videos (\<lambda>w v. v_status v = Uploading \<and> v_created_at v < now w - hours staleUploadAgeHours)
       (\<lambda>w v. v\<lparr>v_status := Deleted, v_updated_at := now w\<rparr>);
     State_Monad.return () }"

subsection \<open>Retention\<close>

text \<open>\<open>COALESCE(o.retention_days, u.retention_days)\<close> over the joins: the workspace's days, or the owner's.\<close>

definition retention_days_of :: "world \<Rightarrow> video \<Rightarrow> user \<Rightarrow> int" where
  "retention_days_of w v u = (case v_organization_id v of None \<Rightarrow> u_retention_days u
     | Some i \<Rightarrow> (case find_where (\<lambda>x. o_id x = i) (organizations w) of
         Some x \<Rightarrow> o_retention_days x | None \<Rightarrow> u_retention_days u))"

definition owner_of :: "world \<Rightarrow> video \<Rightarrow> user option" where
  "owner_of w v = find_where (\<lambda>u. u_id u = v_user_id v) (users w)"

definition warning_due :: "world \<Rightarrow> video \<Rightarrow> bool" where
  "warning_due w v \<longleftrightarrow> v_status v = Ready \<and> \<not> v_pinned v \<and> v_retention_warned_at v = None \<and>
     (case owner_of w v of None \<Rightarrow> False | Some u \<Rightarrow>
        retention_days_of w v u > 0 \<and> v_created_at v < now w - days (retention_days_of w v u - 7))"

text \<open>
  One mail per address: \<open>order\<close> is the order in which Go ranges over the map of the addresses.
\<close>

definition warn_address :: "config \<Rightarrow> (string \<times> video) list \<Rightarrow> string \<Rightarrow> unit prog" where
  "warn_address h rows email = do {
     let entries = map snd (filter (\<lambda>r. fst r = email) rows);
     e \<leftarrow> service (EmailRetention email (map (\<lambda>v. (v_title v, baseURL h @ ''/watch/'' @ v_share_token v)) entries));
     case e of Some _ \<Rightarrow> State_Monad.return ()
     | None \<Rightarrow> do {
         _ \<leftarrow> update_videos (\<lambda>w v. v_id v \<in> v_id ` set entries) (\<lambda>w v. v\<lparr>v_retention_warned_at := Some (now w)\<rparr>);
         State_Monad.return () }
   }"

definition processRetentionWarnings :: "config \<Rightarrow> (string list \<Rightarrow> string list) \<Rightarrow> unit prog" where
  "processRetentionWarnings h order = do {
     rows \<leftarrow> select_rows (\<lambda>w. map (\<lambda>v. (u_email (the (owner_of w v)), v)) (take 100 (filter (warning_due w) (videos w))));
     case rows of Inl _ \<Rightarrow> State_Monad.return ()
     | Inr rs \<Rightarrow> do {
         _ \<leftarrow> State_Monad.traverse_list (warn_address h rs) (order (remdups (map fst rs)));
         State_Monad.return () }
   }"

definition deletion_due :: "world \<Rightarrow> video \<Rightarrow> bool" where
  "deletion_due w v \<longleftrightarrow> (case v_retention_warned_at v of None \<Rightarrow> False | Some t \<Rightarrow> t < now w - days 7) \<and>
     v_status v = Ready \<and> \<not> v_pinned v"

definition processRetentionDeletions :: "unit prog" where
  "processRetentionDeletions = do {
     rows \<leftarrow> select_rows (\<lambda>w. map v_id (take 100 (filter (deletion_due w) (videos w))));
     case rows of Inl _ \<Rightarrow> State_Monad.return ()
     | Inr ids \<Rightarrow>
       if ids = [] then State_Monad.return ()
       else do {
         _ \<leftarrow> exec_world (\<lambda>w. w\<lparr>playlist_videos := del_where (\<lambda>p. pv_video_id p \<in> set ids) (playlist_videos w)\<rparr>);
         _ \<leftarrow> update_videos (\<lambda>w v. v_id v \<in> set ids) (\<lambda>w v. v\<lparr>v_status := Deleted\<rparr>);
         State_Monad.return () }
   }"

lemma due_tick [simp]:
  "deletion_due (tick w) = deletion_due w" "warning_due (tick w) = warning_due w" "owner_of (tick w) = owner_of w"
  by (auto intro!: ext simp: deletion_due_def warning_due_def owner_of_def retention_days_of_def split: option.splits)

end
