(* ===== verification/Cleanup_Facts.thy ===== *)
theory Cleanup_Facts
  imports Cleanup
begin

text \<open>
  Retention deletes only what was announced, an announcement is a mail that was sent, and a row is marked
  purged only after its object was deleted; and what the sweep and the retention worker miss.
\<close>

subsection \<open>Loops with an invariant\<close>

lemma wp_traverse:
  "(\<And>x t. x \<in> set xs \<Longrightarrow> I t \<Longrightarrow> wp (f x) (\<lambda>_. I) t) \<Longrightarrow> I w \<Longrightarrow>
   wp (State_Monad.traverse_list f xs) (\<lambda>_. I) w"
proof (induction xs arbitrary: w)
  case (Cons x xs)
  have "wp (f x) (\<lambda>_ t. wp (State_Monad.traverse_list f xs) (\<lambda>_. I) t) w"
    using Cons.prems by (intro wp_mono [OF Cons.prems(1)] Cons.IH) simp_all
  then show ?case unfolding State_Monad.traverse_list.simps wp_bind wp_return by (simp add: wp_def split: prod.splits)
qed (simp add: State_Monad.traverse_list.simps)

text \<open>
  A row of now, seen from the world \<open>w\<close> before: unchanged, or what \<open>f\<close> made of it, for a reason \<open>P\<close> that may
  refer to the effects so far. \<open>P\<close> only grows, and \<open>f\<close> applied twice is \<open>f\<close>.
\<close>

definition became :: "(video \<Rightarrow> bool) \<Rightarrow> (video \<Rightarrow> video) \<Rightarrow> video \<Rightarrow> video \<Rightarrow> bool" where
  "became P f a b \<longleftrightarrow> b = a \<or> P a \<and> b = f a"

lemma became_mono: "(\<And>v. P v \<Longrightarrow> Q v) \<Longrightarrow> rows_rel (became P f) xs ys \<Longrightarrow> rows_rel (became Q f) xs ys"
  by (auto simp: became_def rows_rel_def)

lemma became_upd:
  assumes "rows_rel (became P f) xs ys"
    and "\<And>a. a \<in> set xs \<Longrightarrow> f (f a) = f a" "\<And>a. a \<in> set xs \<Longrightarrow> D (f a) = D a" "\<And>a. a \<in> set xs \<Longrightarrow> D a \<Longrightarrow> P a"
  shows "rows_rel (became P f) xs (upd_where D f ys)"
  using assms unfolding rows_rel_def became_def upd_where_def by (auto simp: all_set_conv_all_nth) 

text \<open>The rows of a query with a limit, found again by their ids.\<close>

lemma taken_by_id:
  assumes "ids_unique w" "a \<in> set (videos w)" "v_id a \<in> v_id ` set (take n (filter P (videos w)))"
  shows "P a"
proof -
  obtain b where b: "b \<in> set (take n (filter P (videos w)))" "v_id b = v_id a" using assms(3) by force
  then have "b \<in> set (videos w)" "P b" by (auto dest: in_set_takeD)
  with ids_uniqueD [OF assms(1), of b a] assms(2) b(2) show ?thesis by blast
qed

subsection \<open>Retention\<close>

abbreviation soft_deleted :: "video \<Rightarrow> video" where "soft_deleted v \<equiv> v\<lparr>v_status := Deleted\<rparr>"

text \<open>C14: the retention worker deletes a video only when its owner was warned more than seven days before, and it
  is still ready and not pinned; of such a video it changes the status alone, of every other one nothing.\<close>

theorem retention_deletes_only_due:
  assumes "run_state processRetentionDeletions w = (u, w')" "ids_unique w" "v \<in> set (videos w)"
  shows "\<exists>v' \<in> set (videos w'). v' = v \<or> v' = soft_deleted v \<and> v_status v = Ready \<and> \<not> v_pinned v \<and>
    (\<exists>t. v_retention_warned_at v = Some t \<and> t < now w - days 7)"
proof -
  let ?due = "take 100 (filter (deletion_due w) (videos w))"
  have due: "a \<in> set (videos w) \<Longrightarrow> v_id a \<in> v_id ` set ?due \<Longrightarrow> deletion_due w a" for a
    using taken_by_id [OF assms(2)] .
  have "wp processRetentionDeletions (\<lambda>_ t. rows_rel (became (deletion_due w) soft_deleted) (videos w) (videos t)) w"
    unfolding processRetentionDeletions_def
    by (intro wp_steps)
      (auto simp: became_def rows_rel_refl intro!: rows_rel_upd dest: due)
  from rows_rel_in [OF wpI [OF this assms(1)] assms(3)] show ?thesis
    by (auto simp: became_def deletion_due_def split: option.splits)
qed

definition warned_world :: "int \<Rightarrow> time \<Rightarrow> world" where
  "warned_world retention warned = sample_world\<lparr>users := [sample_user\<lparr>u_retention_days := retention\<rparr>],
     videos := [sample_video\<lparr>v_retention_warned_at := Some warned\<rparr>]\<rparr>"

theorem retention_deletes_only_due_witness:
  "list_ex (\<lambda>v. v_id v = ''v1'') (videos (snd (run_state processRetentionDeletions (warned_world 30 (days 30)))))"
proof -
  have "ids_unique (warned_world 30 (days 30))" by (simp add: ids_unique_def warned_world_def)
  moreover have "sample_video\<lparr>v_retention_warned_at := Some (days 30)\<rparr> \<in> set (videos (warned_world 30 (days 30)))"
    by (simp add: warned_world_def)
  ultimately show ?thesis
    using retention_deletes_only_due [OF prod.collapse [symmetric], of "warned_world 30 (days 30)"]
    by (force simp: list_ex_iff)
qed

text \<open>The deletion does not look at the setting again: a video warned while retention was on is deleted after
  the owner turned it off.\<close>

lemma retention_off_still_deletes:
  "map v_status (videos (snd (run_state processRetentionDeletions (warned_world 0 (days 30))))) = [Deleted]"
  by (simp add: processRetentionDeletions_def run_simps warned_world_def deletion_due_def sample_video_def)

text \<open>The mail a video was announced in.\<close>

definition announced :: "config \<Rightarrow> world \<Rightarrow> effect list \<Rightarrow> video \<Rightarrow> bool" where
  "announced h w effs v \<longleftrightarrow> warning_due w v \<and> (\<exists>owner mail. owner_of w v = Some owner \<and>
     EmailRetention (u_email owner) mail \<in> set effs \<and>
     (v_title v, baseURL h @ ''/watch/'' @ v_share_token v) \<in> set mail)"

abbreviation due_rows :: "world \<Rightarrow> (string \<times> video) list" where
  "due_rows w \<equiv> map (\<lambda>v. (u_email (the (owner_of w v)), v)) (take 100 (filter (warning_due w) (videos w)))"

lemma due_owner: "warning_due w v \<Longrightarrow> owner_of w v = Some (the (owner_of w v))"
  by (auto simp: warning_due_def split: option.splits)

text \<open>One mail keeps the invariant: whatever is marked was announced.\<close>

lemma warn_address_announced:
  fixes h w t
  defines "f \<equiv> \<lambda>v. v\<lparr>v_retention_warned_at := Some (now w)\<rparr>"
  defines "I \<equiv> \<lambda>t. now t = now w \<and> rows_rel (became (announced h w (effects t)) f) (videos w) (videos t)"
  assumes "ids_unique w" "I t"
  shows "wp (warn_address h (due_rows w) email) (\<lambda>_. I) t"
proof -
  define es where "es = map snd (filter (\<lambda>r. fst r = email) (due_rows w))"
  define mail where "mail = map (\<lambda>v. (v_title v, baseURL h @ ''/watch/'' @ v_share_token v)) es"
  define t' where "t' = (tick t)\<lparr>effects := effects t @ [EmailRetention email mail]\<rparr>"
  have es: "b \<in> set (videos w) \<and> warning_due w b \<and> u_email (the (owner_of w b)) = email" if "b \<in> set es" for b
    using that unfolding es_def by (auto dest: in_set_takeD)
  have listed: "announced h w (effects t') a" if a: "a \<in> set (videos w)" "v_id a \<in> v_id ` set es" for a
  proof -
    obtain b where b: "b \<in> set es" "v_id b = v_id a" using a(2) by auto
    then have "b = a" using ids_uniqueD [OF assms(3)] es a(1) by blast
    moreover have "(v_title b, baseURL h @ ''/watch/'' @ v_share_token b) \<in> set mail"
      unfolding mail_def set_map using b(1) by (rule imageI)
    ultimately show ?thesis
      using es [OF b(1)] due_owner unfolding announced_def t'_def by fastforce
  qed
  have "announced h w (effects t) a \<Longrightarrow> announced h w (effects t') a" for a by (auto simp: announced_def t'_def)
  then have t': "I t'" using assms(4) by (auto simp: I_def t'_def intro: became_mono)
  then have "rows_rel (became (announced h w (effects t')) f) (videos w) (upd_where (\<lambda>v. v_id v \<in> v_id ` set es) f (videos t'))"
    unfolding I_def by (intro became_upd) (simp_all add: f_def listed)
  then show ?thesis
    using assms(4) t' unfolding warn_address_def Let_def es_def [symmetric] mail_def [symmetric]
    by (intro wp_steps) (simp_all add: I_def f_def t'_def)
qed

text \<open>A run of the warnings marks a video as warned only after a mail to its owner's address went out in the
  same run that lists its title and its link; and only if it was due: ready, not pinned, not warned before,
  with retention on for its workspace or owner and within a week of the limit.\<close>

theorem warned_means_mailed:
  assumes "run_state (processRetentionWarnings h order) w = (u, w')" "ids_unique w" "v \<in> set (videos w)"
  shows "\<exists>v' \<in> set (videos w'). v' = v \<or> v' = v\<lparr>v_retention_warned_at := Some (now w)\<rparr> \<and> warning_due w v \<and>
    (\<exists>owner mail. owner_of w v = Some owner \<and> EmailRetention (u_email owner) mail \<in> set (effects w') \<and>
       (v_title v, baseURL h @ ''/watch/'' @ v_share_token v) \<in> set mail)"
proof -
  let ?f = "\<lambda>v. v\<lparr>v_retention_warned_at := Some (now w)\<rparr>"
  let ?I = "\<lambda>t. now t = now w \<and> rows_rel (became (announced h w (effects t)) ?f) (videos w) (videos t)"
  have "?I (tick w)" by (simp add: became_def rows_rel_refl)
  then have "wp (processRetentionWarnings h order) (\<lambda>_. ?I) w"
    unfolding processRetentionWarnings_def
    by (intro wp_steps) (auto intro!: wp_traverse [where I = ?I, THEN wp_mono] warn_address_announced [OF assms(2)])
  from rows_rel_in [OF conjunct2 [OF wpI [OF this assms(1)]] assms(3)] show ?thesis
    by (auto simp: became_def announced_def)
qed

definition due_world :: world where
  "due_world = sample_world\<lparr>videos := [sample_video\<lparr>v_created_at := 0\<rparr>]\<rparr>"

theorem warned_means_mailed_witness:
  "\<exists>v' \<in> set (videos (snd (run_state (processRetentionWarnings sample_config id) due_world))). v_id v' = ''v1''"
proof -
  have "ids_unique due_world" "sample_video\<lparr>v_created_at := 0\<rparr> \<in> set (videos due_world)"
    by (simp_all add: ids_unique_def due_world_def)
  from warned_means_mailed [OF prod.collapse [symmetric] this, of sample_config id]
  show ?thesis by (elim bexE, intro bexI) auto
qed

lemma due_world_mailed:
  "effects (snd (run_state (processRetentionWarnings sample_config id) due_world)) =
     [EmailRetention ''a@x'' [(''Demo'', ''https://app/watch/tok1'')]]"
  by (simp add: processRetentionWarnings_def warn_address_def due_world_def warning_due_def owner_of_def
      retention_days_of_def run_simps Let_def sample_video_def)

subsection \<open>Purged rows\<close>

text \<open>What a delete leaves: the tables as they were, and the object gone if it reports success.\<close>

definition only_effects :: "world \<Rightarrow> world \<Rightarrow> bool" where
  "only_effects w t \<longleftrightarrow> now t = now w \<and> videos t = videos w \<and> set (effects w) \<subseteq> set (effects t)"

lemma only_effects_trans: "only_effects w t \<Longrightarrow> only_effects t u \<Longrightarrow> only_effects w u"
  by (auto simp: only_effects_def)

lemma only_effects_tick [simp]: "only_effects w (tick t) = only_effects w t" "only_effects (tick w) t = only_effects w t"
  by (simp_all add: only_effects_def)

lemma deleteWithRetry_wp:
  "wp (deleteWithRetry key n) (\<lambda>r t. only_effects w t \<and> (r = None \<longrightarrow> StoreDelete key \<in> set (effects t))) w"
proof (induction n arbitrary: w)
  case (Suc n)
  from Suc [of "tick (tick w)"] show ?case by (auto simp: only_effects_def split: option.split)
qed (simp add: only_effects_def)

lemma delete_if_wp: "wp (delete_if key) (\<lambda>_. only_effects w) w"
  unfolding delete_if_def
  by (auto simp: only_effects_def split: option.split intro: wp_mono [OF deleteWithRetry_wp])

text \<open>What every step of a purge keeps: a row is marked only when the object under its key is gone.\<close>

definition purged_soundly :: "world \<Rightarrow> (video \<Rightarrow> string) \<Rightarrow> world \<Rightarrow> bool" where
  "purged_soundly w key t \<longleftrightarrow> now t = now w \<and>
     rows_rel (became (\<lambda>v. StoreDelete (key v) \<in> set (effects t)) (\<lambda>v. v\<lparr>v_file_purged_at := Some (now w)\<rparr>)) (videos w) (videos t)"

lemma purged_soundly_effects:
  assumes "purged_soundly w key t" "only_effects t u"
  shows "purged_soundly w key u"
proof -
  have "StoreDelete (key v) \<in> set (effects t) \<Longrightarrow> StoreDelete (key v) \<in> set (effects u)" for v
    using assms(2) by (auto simp: only_effects_def)
  from became_mono [OF this] assms show ?thesis by (simp add: purged_soundly_def only_effects_def)
qed

lemma mark_purged_soundly:
  assumes "purged_soundly w key t" "\<And>v. v \<in> set (videos w) \<Longrightarrow> D v \<Longrightarrow> StoreDelete (key v) \<in> set (effects t)"
    and "\<And>v x. D (v\<lparr>v_file_purged_at := x\<rparr>) = D v"
  shows "wp (mark_purged D) (\<lambda>_. purged_soundly w key) t"
  using assms unfolding mark_purged_def
  by (auto simp: purged_soundly_def split: option.split intro!: became_upd)

text \<open>Deleting the main object, then the others, then marking.\<close>

lemma delete_then_mark:
  assumes "purged_soundly w key t" "\<And>v. v \<in> set (videos w) \<Longrightarrow> D v \<Longrightarrow> key v = k"
    and "\<And>v x. D (v\<lparr>v_file_purged_at := x\<rparr>) = D v"
    and rest: "\<And>t Q. \<forall>u. only_effects t u \<longrightarrow> wp (mark_purged D) Q u \<Longrightarrow> wp rest Q t"
  shows "wp (do { e \<leftarrow> deleteWithRetry k 3; if e \<noteq> None then State_Monad.return () else rest }) (\<lambda>_. purged_soundly w key) t"
proof -
  have "wp rest (\<lambda>_. purged_soundly w key) u" if u: "only_effects t u" "StoreDelete k \<in> set (effects u)" for u
  proof (rule rest, intro allI impI)
    fix x assume x: "only_effects u x"
    show "wp (mark_purged D) (\<lambda>_. purged_soundly w key) x"
      using purged_soundly_effects [OF assms(1) only_effects_trans [OF u(1) x]] u(2) x assms(2,3)
      by (intro mark_purged_soundly) (auto simp: only_effects_def)
  qed
  with purged_soundly_effects [OF assms(1)] show ?thesis
    by (auto intro!: wp_mono [OF deleteWithRetry_wp])
qed

lemma delete_if_then: "(\<And>u. only_effects t u \<Longrightarrow> wp m Q u) \<Longrightarrow> wp (delete_if k) (\<lambda>_. wp m Q) t"
  by (rule wp_mono [OF delete_if_wp])

text \<open>Whatever fails, a row is marked purged only when the object under its file key was deleted: by the job of
  a delete request, and by the cleanup sweep, which looks at no other rows than deleted ones.\<close>

theorem purged_means_deleted:
  assumes "run_state m w = (u, w')" "v \<in> set (videos w)"
    and "m = PurgeOrphanedFiles \<or> m = delete_files (Inl fk) fk th wc tr"
  shows "\<exists>v' \<in> set (videos w'). v' = v \<or>
    v' = v\<lparr>v_file_purged_at := Some (now w)\<rparr> \<and> StoreDelete (v_file_key v) \<in> set (effects w')"
proof -
  have start: "purged_soundly w v_file_key w" "purged_soundly w v_file_key (tick w)"
    by (simp_all add: purged_soundly_def became_def rows_rel_refl)
  have one: "wp (purge_one x) (\<lambda>_. purged_soundly w v_file_key) t" if "purged_soundly w v_file_key t" for x t
    unfolding purge_one_def
    by (rule delete_then_mark [OF that, where D = "\<lambda>r. v_file_key r = v_file_key x"]) (auto intro!: delete_if_then, meson only_effects_trans)
  have "wp (delete_files (Inl fk) fk th wc tr) (\<lambda>_. purged_soundly w v_file_key) w"
    unfolding delete_files_def sum.case
    by (rule delete_then_mark [OF start(1), where D = "\<lambda>r. v_file_key r = fk"]) (auto intro!: delete_if_then, meson only_effects_trans)
  moreover have "wp PurgeOrphanedFiles (\<lambda>_. purged_soundly w v_file_key) w"
    unfolding PurgeOrphanedFiles_def
    by (intro wp_steps) (auto intro!: wp_traverse [where I = "purged_soundly w v_file_key", THEN wp_mono] one start)
  ultimately have "wp m (\<lambda>_. purged_soundly w v_file_key) w" using assms(3) by blast
  from wpI [OF this assms(1)] rows_rel_in [OF _ assms(2)] show ?thesis
    unfolding purged_soundly_def by (fastforce simp: became_def)
qed

theorem purged_means_deleted_witness:
  "\<exists>v' \<in> set (videos (snd (run_state PurgeOrphanedFiles (sample_world\<lparr>videos := [sample_video\<lparr>v_status := Deleted\<rparr>]\<rparr>)))).
     v_id v' = ''v1''"
proof -
  have "sample_video\<lparr>v_status := Deleted\<rparr> \<in> set (videos (sample_world\<lparr>videos := [sample_video\<lparr>v_status := Deleted\<rparr>]\<rparr>))" by simp
  from purged_means_deleted [OF prod.collapse [symmetric] this disjI1 [OF refl]]
  show ?thesis by (elim bexE, intro bexI) auto
qed

text \<open>The sweep does not read the webcam key, and marks the row all the same: that object stays for good.\<close>

lemma sweep_forgets_webcam:
  "let w = snd (run_state PurgeOrphanedFiles (sample_world\<lparr>videos := [sample_video\<lparr>v_status := Deleted, v_webcam_key := Some ''cam''\<rparr>]\<rparr>))
   in StoreDelete ''cam'' \<notin> set (effects w) \<and> map v_file_purged_at (videos w) = [Some (days 40)]"
  by (simp add: PurgeOrphanedFiles_def purge_one_def delete_if_def mark_purged_def run_simps numeral_3_eq_3
      sample_video_def new_video_def videoFileKey_def extensionForContentType_def)

end
