(* ===== verification/Batch_Transfer.thy ===== *)
theory Batch_Transfer
  imports Video_Settings
begin

text \<open>
  Requests about several videos at once (\<open>internal/video/batch.go\<close>) and the move of a video between
  workspaces (\<open>internal/video/transfer.go\<close>).
\<close>

subsection \<open>Batches\<close>

definition maxBatchSize :: nat where "maxBatchSize = 100"

text \<open>
  The scope of a batch: as \<open>orgVideoFilter\<close> within a workspace, but a personal request asks for the owner
  alone and not for videos outside workspaces.
\<close>

definition batch_scope :: "rctx \<Rightarrow> video \<Rightarrow> bool" where
  "batch_scope c v \<longleftrightarrow>
     (if OrgID c \<noteq> [] then
        if IsAdminOrOwner (OrgRole c) then v_organization_id v = Some (OrgID c)
        else v_user_id v = UserID c \<and> v_organization_id v = Some (OrgID c)
      else v_user_id v = UserID c)"

definition batch_query :: "rctx \<Rightarrow> string list \<Rightarrow> video \<Rightarrow> bool" where
  "batch_query c ids v \<longleftrightarrow> v_id v \<in> set ids \<and> batch_scope c v \<and> v_status v \<noteq> Deleted"

definition bad_batch :: "string list \<Rightarrow> bool" where
  "bad_batch ids \<longleftrightarrow> ids = [] \<or> length ids > maxBatchSize"

abbreviation batch_error :: "'b response" where
  "batch_error \<equiv> WriteError 400 ''videoIds must contain 1-100 items''"

definition BatchDelete :: "config \<Rightarrow> rctx \<Rightarrow> string list option \<Rightarrow> int response prog" where
  "BatchDelete h c body = (case body of
     None \<Rightarrow> State_Monad.return bad_body
   | Some ids \<Rightarrow>
     if bad_batch ids then State_Monad.return batch_error
     else do {
       rows \<leftarrow> update_videos_returning (\<lambda>w. batch_query c ids)
         (\<lambda>w v. v\<lparr>v_status := Deleted, v_updated_at := now w\<rparr>);
       case rows of Inl _ \<Rightarrow> State_Monad.return (WriteError 500 ''failed to delete videos'')
       | Inr deleted \<Rightarrow> do {
           if_do (deleted \<noteq> []) (do {
             _ \<leftarrow> exec_world (\<lambda>w. w\<lparr>playlist_videos :=
               del_where (\<lambda>p. pv_video_id p \<in> v_id ` set deleted) (playlist_videos w)\<rparr>);
             State_Monad.return () });
           _ \<leftarrow> State_Monad.traverse_list (\<lambda>d. do {
             spawn (JobDeleteFiles (Inr (v_id d)) (v_file_key d) (v_thumbnail_key d) (v_webcam_key d) (v_transcript_key d));
             dispatchWebhook h (UserID c) ''video.deleted'' (v_id d) }) deleted;
           State_Monad.return (WriteJSON 200 (int (length deleted)))
         }
     })"

record batch_folder_request =
  bf_VideoIDs :: "string list"
  bf_FolderID :: "string option"

definition folder_known :: "rctx \<Rightarrow> string \<Rightarrow> folder \<Rightarrow> bool" where
  "folder_known c i f \<longleftrightarrow> f_id f = i \<and>
     (if OrgID c \<noteq> [] then f_organization_id f = Some (OrgID c) else f_user_id f = UserID c)"

definition BatchSetFolder :: "rctx \<Rightarrow> batch_folder_request option \<Rightarrow> unit response prog" where
  "BatchSetFolder c body = (case body of
     None \<Rightarrow> State_Monad.return bad_body
   | Some req \<Rightarrow>
     if bad_batch (bf_VideoIDs req) then State_Monad.return batch_error
     else do {
       found \<leftarrow> (case bf_FolderID req of None \<Rightarrow> State_Monad.return (Inr None)
         | Some i \<Rightarrow> if i = [] then State_Monad.return (Inr None)
             else do {
               row \<leftarrow> select_row (\<lambda>w. find_where (folder_known c i) (folders w));
               State_Monad.return (case row of
                   Inl NoRows \<Rightarrow> Inl (WriteError 404 ''folder not found'')
                 | Inl _ \<Rightarrow> Inl (WriteError 500 ''failed to verify folder'')
                 | Inr _ \<Rightarrow> Inr (Some i)) });
       case found of Inl resp \<Rightarrow> State_Monad.return resp
       | Inr folderID \<Rightarrow> do {
           r \<leftarrow> update_videos (\<lambda>w. batch_query c (bf_VideoIDs req))
             (\<lambda>w v. v\<lparr>v_folder_id := folderID, v_updated_at := now w\<rparr>);
           State_Monad.return (case r of Inl _ \<Rightarrow> WriteError 500 ''failed to update video folders''
             | Inr _ \<Rightarrow> WriteHeader 204) }
     })"

record batch_tags_request =
  bt_VideoIDs :: "string list"
  bt_TagIDs :: "string list"

definition maxTagsPerVideo :: nat where "maxTagsPerVideo = 10"

definition tag_known :: "rctx \<Rightarrow> string list \<Rightarrow> tag \<Rightarrow> bool" where
  "tag_known c ids t \<longleftrightarrow> t_id t \<in> set ids \<and>
     (if OrgID c \<noteq> [] then t_organization_id t = Some (OrgID c) else t_user_id t = UserID c)"

text \<open>
  \<open>(video_id, tag_id)\<close> is the primary key of \<open>video_tags\<close>, and both columns are foreign keys: an insert
  fails on a pair that is there and on ids that are not.
\<close>

definition insert_video_tag :: "string \<Rightarrow> string \<Rightarrow> (db_error + unit) prog" where
  "insert_video_tag videoID tagID = db_stmt (\<lambda>w.
     if list_ex (\<lambda>r. vt_video_id r = videoID \<and> vt_tag_id r = tagID) (video_tags w) then (Inl UniqueViolation, w)
     else if videoID \<notin> v_id ` set (videos w) \<or> tagID \<notin> t_id ` set (tags w)
       then (Inl (DbFail ''violates foreign key constraint''), w)
     else (Inr (), w\<lparr>video_tags := video_tags w @ [\<lparr>vt_video_id = videoID, vt_tag_id = tagID\<rparr>]\<rparr>))"

fun insert_tags :: "string \<Rightarrow> string list \<Rightarrow> (db_error + unit) prog" where
  "insert_tags videoID [] = State_Monad.return (Inr ())"
| "insert_tags videoID (t # ts) = do {
     r \<leftarrow> insert_video_tag videoID t;
     case r of Inl e \<Rightarrow> State_Monad.return (Inl e) | Inr _ \<Rightarrow> insert_tags videoID ts }"

definition delete_video_tags :: "string \<Rightarrow> (db_error + unit) prog" where
  "delete_video_tags videoID = exec_world (\<lambda>w. w\<lparr>video_tags := del_where (\<lambda>r. vt_video_id r = videoID) (video_tags w)\<rparr>)"

fun replace_tags :: "string list \<Rightarrow> string list \<Rightarrow> (db_error + unit) prog" where
  "replace_tags [] tagIDs = State_Monad.return (Inr ())"
| "replace_tags (v # vs) tagIDs = do {
     r \<leftarrow> delete_video_tags v;
     case r of Inl e \<Rightarrow> State_Monad.return (Inl e)
     | Inr _ \<Rightarrow> do {
         r \<leftarrow> insert_tags v tagIDs;
         case r of Inl e \<Rightarrow> State_Monad.return (Inl e) | Inr _ \<Rightarrow> replace_tags vs tagIDs } }"

text \<open>\<open>videoCount\<close> is read and not compared with anything.\<close>

definition BatchSetTags :: "rctx \<Rightarrow> batch_tags_request option \<Rightarrow> unit response prog" where
  "BatchSetTags c body = (case body of
     None \<Rightarrow> State_Monad.return bad_body
   | Some req \<Rightarrow>
     if bad_batch (bt_VideoIDs req) then State_Monad.return batch_error
     else if length (bt_TagIDs req) > maxTagsPerVideo then State_Monad.return (WriteError 400 ''maximum 10 tags per video'')
     else do {
       early \<leftarrow> (if bt_TagIDs req = [] then State_Monad.return None
         else do {
           r \<leftarrow> select_rows (\<lambda>w. count_where (tag_known c (bt_TagIDs req)) (tags w));
           State_Monad.return (case r of Inl _ \<Rightarrow> Some (WriteError 500 ''failed to verify tags'')
             | Inr n \<Rightarrow> if n \<noteq> length (bt_TagIDs req) then Some (WriteError 400 ''one or more tags not found'') else None) });
       case early of Some resp \<Rightarrow> State_Monad.return resp
       | None \<Rightarrow> do {
           r \<leftarrow> select_rows (\<lambda>w. count_where (batch_query c (bt_VideoIDs req)) (videos w));
           case r of Inl _ \<Rightarrow> State_Monad.return (WriteError 500 ''failed to verify videos'')
           | Inr videoCount \<Rightarrow> do {
               r \<leftarrow> replace_tags (bt_VideoIDs req) (bt_TagIDs req);
               State_Monad.return (case r of Inl _ \<Rightarrow> WriteError 500 ''failed to update video tags''
                 | Inr _ \<Rightarrow> WriteHeader 204) } }
     })"

subsection \<open>Transfer\<close>

record transfer_response =
  tf_ID :: string
  tf_Title :: string
  tf_OrganizationID :: "string option"

definition transfer_allowed :: "rctx \<Rightarrow> video \<Rightarrow> transfer_response response option" where
  "transfer_allowed c v =
     (let isCreator = v_user_id v = UserID c;
          isOrgAdmin = OrgID c \<noteq> [] \<and> (OrgRole c = ''owner'' \<or> OrgRole c = ''admin'')
      in if OrgID c \<noteq> [] then
           if v_organization_id v \<noteq> Some (OrgID c) then Some (WriteError 404 ''video not found'')
           else if \<not> isCreator \<and> \<not> isOrgAdmin
             then Some (WriteError 403 ''only the creator or org admins can transfer videos'')
           else None
         else if v_organization_id v \<noteq> None \<or> \<not> isCreator then Some (WriteError 404 ''video not found'')
         else None)"

definition check_target :: "rctx \<Rightarrow> string option \<Rightarrow> transfer_response response option prog" where
  "check_target c target = (case target of None \<Rightarrow> State_Monad.return None
     | Some org \<Rightarrow> do {
         row \<leftarrow> select_row (\<lambda>w. find_where (\<lambda>m. m_organization_id m = org \<and> m_user_id m = UserID c) (members w));
         State_Monad.return (case row of
             Inl NoRows \<Rightarrow> Some (WriteError 403 ''you are not a member of the target workspace'')
           | Inl _ \<Rightarrow> Some (WriteError 500 ''failed to verify target membership'')
           | Inr m \<Rightarrow> if m_role m = ''viewer'' then Some (WriteError 403 ''viewers cannot receive transfers'') else None) })"

text \<open>The foreign key of \<open>organization_id\<close> holds: the target's membership was just read.\<close>

definition Transfer :: "rctx \<Rightarrow> string \<Rightarrow> string option option \<Rightarrow> transfer_response response prog" where
  "Transfer c videoID body = (case body of
     None \<Rightarrow> State_Monad.return bad_body
   | Some target \<Rightarrow> do {
       row \<leftarrow> select_row (\<lambda>w. find_where (\<lambda>v. v_id v = videoID \<and> v_status v \<noteq> Deleted) (videos w));
       case row of
         Inl e \<Rightarrow> State_Monad.return (if e = NoRows then WriteError 404 ''video not found'' else WriteError 500 ''failed to load video'')
       | Inr v \<Rightarrow>
         if v_status v \<noteq> Ready then State_Monad.return (WriteError 400 ''cannot transfer a video that is still processing'')
         else case transfer_allowed c v of Some resp \<Rightarrow> State_Monad.return resp
         | None \<Rightarrow> do {
             refused \<leftarrow> check_target c target;
             case refused of Some resp \<Rightarrow> State_Monad.return resp
             | None \<Rightarrow>
               if target = v_organization_id v
                 then State_Monad.return (WriteError 400 ''video is already in the target scope'')
               else do {
                 r \<leftarrow> update_videos (\<lambda>w r. v_id r = videoID)
                   (\<lambda>w r. r\<lparr>v_organization_id := target, v_folder_id := None, v_updated_at := now w\<rparr>);
                 case r of Inl _ \<Rightarrow> State_Monad.return (WriteError 500 ''failed to transfer video'')
                 | Inr _ \<Rightarrow> do {
                     _ \<leftarrow> delete_video_tags videoID;
                     State_Monad.return (WriteJSON 200 \<lparr>tf_ID = videoID, tf_Title = v_title v, tf_OrganizationID = target\<rparr>) } }
           }
     })"

subsection \<open>Transfers\<close>

abbreviation moved :: "string option \<Rightarrow> time \<Rightarrow> video \<Rightarrow> video" where
  "moved target t v \<equiv> v\<lparr>v_organization_id := target, v_folder_id := None, v_updated_at := t\<rparr>"

lemma transfer_allowed_scope:
  "transfer_allowed c v = None \<longleftrightarrow> in_scope c v \<and> (OrgID c = [] \<longrightarrow> v_user_id v = UserID c)"
  by (auto simp: transfer_allowed_def in_scope_def IsAdminOrOwner_def Let_def split: if_splits)

lemma transfer_refused: "transfer_allowed c v = Some y \<Longrightarrow> \<exists>code m. y = WriteError code m"
  by (auto simp: transfer_allowed_def Let_def split: if_splits)

lemma check_target_wp:
  "wp (check_target c target) (\<lambda>r t. (\<forall>y. r = Some y \<longrightarrow> (\<exists>code m. y = WriteError code m)) \<and> videos t = videos w \<and> members t = members w \<and> now t = now w \<and>
     (r = None \<longrightarrow> (\<forall>org. target = Some org \<longrightarrow> (\<exists>m \<in> set (members w).
        m_organization_id m = org \<and> m_user_id m = UserID c \<and> m_role m \<noteq> ''viewer'')))) w"
  unfolding check_target_def by (auto split: option.splits)

definition transferred :: "rctx \<Rightarrow> string \<Rightarrow> string option \<Rightarrow> world \<Rightarrow> world \<Rightarrow> bool" where
  "transferred c vid target w w' \<longleftrightarrow> (\<exists>v \<in> set (videos w). v_id v = vid \<and> in_scope c v \<and> v_status v = Ready \<and>
     v_organization_id v \<noteq> target) \<and>
     (\<forall>org. target = Some org \<longrightarrow> (\<exists>m \<in> set (members w). m_organization_id m = org \<and> m_user_id m = UserID c \<and> m_role m \<noteq> ''viewer'')) \<and>
     videos w' = upd_where (with_id vid) (moved target (now w)) (videos w)"

lemma Transfer_wp:
  "wp (Transfer c vid (Some target)) (\<lambda>r w'. case r of
     WriteJSON code body \<Rightarrow> code = 200 \<and> tf_OrganizationID body = target \<and> transferred c vid target w w'
   | _ \<Rightarrow> videos w' = videos w) w"
  unfolding Transfer_def option.case delete_video_tags_def
  apply (intro wp_steps wp_mono [OF check_target_wp])
  apply (auto dest!: transfer_refused simp: transferred_def transfer_allowed_scope)
  done

text \<open>C36: a transfer answered 200 found a ready video in the caller's scope, and the caller is a member of the
  target workspace with a role that may write there; then exactly the video's workspace and folder change.
  Any other answer changes no video.\<close>

theorem transfer_authorized:
  assumes "run_state (Transfer c vid (Some target)) w = (r, w')"
  shows "(case r of WriteJSON code body \<Rightarrow> code = 200 \<and> tf_OrganizationID body = target \<and>
      (\<exists>v \<in> set (videos w). v_id v = vid \<and> in_scope c v \<and> v_status v = Ready \<and> v_organization_id v \<noteq> target) \<and>
      (\<forall>org. target = Some org \<longrightarrow>
         (\<exists>m \<in> set (members w). m_organization_id m = org \<and> m_user_id m = UserID c \<and> m_role m \<noteq> ''viewer'')) \<and>
      videos w' = upd_where (\<lambda>v. v_id v = vid) (moved target (now w)) (videos w)
    | _ \<Rightarrow> videos w' = videos w)"
  using wpI [OF Transfer_wp assms] by (cases r) (simp_all add: transferred_def)

definition two_orgs :: world where
  "two_orgs = sample_world\<lparr>videos := [sample_video], members := [\<lparr>m_organization_id = ''o1'', m_user_id = ''u1'',
     m_role = ''member'', m_joined_at = 0\<rparr>]\<rparr>"

theorem transfer_authorized_witness:
  "map v_organization_id (videos (snd (run_state (Transfer sample_caller ''v1'' (Some (Some ''o1''))) two_orgs))) = [Some ''o1'']"
proof -
  let ?m = "Transfer sample_caller ''v1'' (Some (Some ''o1''))"
  have "fst (run_state ?m two_orgs) = WriteJSON 200 \<lparr>tf_ID = ''v1'', tf_Title = ''Demo'', tf_OrganizationID = Some ''o1''\<rparr>"
    by (simp add: Transfer_def two_orgs_def run_simps check_target_def transfer_allowed_def delete_video_tags_def Let_def)
      (simp add: sample_video_def)
  with transfer_authorized [OF prod.collapse [symmetric], of sample_caller "''v1''" "Some ''o1''" two_orgs]
  show ?thesis by (simp add: two_orgs_def)
qed

subsection \<open>Batch deletes\<close>

lemma batch_scope_own: "batch_scope c v \<Longrightarrow> in_scope c v \<or> v_user_id v = UserID c"
  by (auto simp: batch_scope_def in_scope_def split: if_splits)

lemma spawn_each:
  "wp (State_Monad.traverse_list (\<lambda>d. do { spawn (f d); dispatchWebhook h uid ev (g d) }) ds)
     (\<lambda>_ t. videos t = videos w \<and> (\<forall>d \<in> set ds. f d \<in> set (jobs t)) \<and> set (jobs w) \<subseteq> set (jobs t)) w"
proof (induction ds arbitrary: w)
  case (Cons d ds)
  show ?case unfolding State_Monad.traverse_list.simps wp_bind wp_return wp_spawn wp_dispatchWebhook
    by (rule wp_mono [OF Cons.IH]) auto
qed (simp add: State_Monad.traverse_list.simps)

text \<open>A batch delete touches only listed, live videos the caller may reach, or owns, and each of these; it counts
  them, and starts the removal of the files of every one.\<close>

theorem batch_delete_scoped:
  assumes "run_state (BatchDelete h c (Some ids)) w = (WriteJSON code n, w')"
  shows "code = 200 \<and> length ids \<le> 100 \<and> n = int (count_where (batch_query c ids) (videos w)) \<and>
    videos w' = upd_where (batch_query c ids) (\<lambda>v. v\<lparr>v_status := Deleted, v_updated_at := now w\<rparr>) (videos w) \<and>
    (\<forall>v \<in> set (videos w). batch_query c ids v \<longrightarrow> (in_scope c v \<or> v_user_id v = UserID c) \<and>
       JobDeleteFiles (Inr (v_id v)) (v_file_key v) (v_thumbnail_key v) (v_webcam_key v) (v_transcript_key v) \<in> set (jobs w'))"
proof -
  let ?f = "\<lambda>v. v\<lparr>v_status := Deleted, v_updated_at := now w\<rparr>"
  let ?J = "\<lambda>v. JobDeleteFiles (Inr (v_id v)) (v_file_key v) (v_thumbnail_key v) (v_webcam_key v) (v_transcript_key v)"
  let ?ds = "map ?f (filter (batch_query c ids) (videos w))"
  have "wp (BatchDelete h c (Some ids)) (\<lambda>r t. \<forall>code n. r = WriteJSON code n \<longrightarrow> code = 200 \<and> length ids \<le> 100 \<and>
      n = int (length ?ds) \<and> videos t = upd_where (batch_query c ids) ?f (videos w) \<and> (\<forall>d \<in> set ?ds. ?J d \<in> set (jobs t))) w"
    unfolding BatchDelete_def option.case if_do_def
    apply (intro wp_steps wp_mono [OF spawn_each])
    apply (auto simp: bad_batch_def maxBatchSize_def)
    done
  from wpI [OF this assms] show ?thesis
    by (auto simp: batch_query_def count_where_def dest: batch_scope_own)
qed

theorem batch_delete_scoped_witness:
  "map v_status (videos (snd (run_state (BatchDelete sample_config sample_caller (Some [''v1'', ''v9''])) sample_ready))) = [Deleted]"
proof -
  let ?m = "BatchDelete sample_config sample_caller (Some [''v1'', ''v9''])"
  have "fst (run_state ?m sample_ready) = WriteJSON 200 1"
    by (simp add: BatchDelete_def bad_batch_def maxBatchSize_def if_do_def run_simps sample_ready_def batch_query_def
        batch_scope_def dispatchWebhook_def State_Monad.traverse_list.simps)
  then have "run_state ?m sample_ready = (WriteJSON 200 1, snd (run_state ?m sample_ready))" by (metis prod.collapse)
  from batch_delete_scoped [OF this] show ?thesis
    by (simp add: sample_ready_def batch_query_def batch_scope_def)
qed

text \<open>A personal batch also reaches the videos the caller made in a workspace, which a personal delete refuses.\<close>

lemma personal_batch_reaches_workspace:
  defines "w \<equiv> sample_world\<lparr>videos := [sample_video\<lparr>v_organization_id := Some ''o1''\<rparr>]\<rparr>"
  shows "map v_status (videos (snd (run_state (Delete sample_config sample_caller ''v1'') w))) = [Ready]"
    and "map v_status (videos (snd (run_state (BatchDelete sample_config sample_caller (Some [''v1''])) w))) = [Deleted]"
  by (simp_all add: w_def Delete_def delete_query_def BatchDelete_def bad_batch_def maxBatchSize_def if_do_def run_simps
      batch_query_def batch_scope_def dispatchWebhook_def State_Monad.traverse_list.simps)

text \<open>Nothing compares the number of videos in scope with the request: a stranger clears the tags of any video.\<close>

definition stranger :: rctx where "stranger = \<lparr>UserID = ''u2'', OrgID = [], OrgRole = []\<rparr>"

lemma batch_tags_unchecked:
  defines "w \<equiv> sample_ready\<lparr>video_tags := [\<lparr>vt_video_id = ''v1'', vt_tag_id = ''t1''\<rparr>]\<rparr>"
  shows "run_state (BatchSetTags stranger (Some \<lparr>bt_VideoIDs = [''v1''], bt_TagIDs = []\<rparr>)) w = (WriteHeader 204, w\<lparr>video_tags := []\<rparr>)"
  by (simp add: w_def sample_ready_def BatchSetTags_def bad_batch_def maxBatchSize_def maxTagsPerVideo_def run_simps
      delete_video_tags_def del_where_def)

subsection \<open>Which rows they touch\<close>

lemma insert_tags_keeps: "state_io_rel (only_rows T) (insert_tags v ts)" "state_io_rel rows_age (insert_tags v ts)"
  by (induction ts)
    (auto intro!: within.walk_all ages.walk_all simp: insert_video_tag_def)

lemma replace_tags_keeps: "state_io_rel (only_rows T) (replace_tags vs ts)" "state_io_rel rows_age (replace_tags vs ts)"
  by (induction vs)
    (auto intro!: within.walk_all ages.walk_all insert_tags_keeps simp: delete_video_tags_def)

lemma BatchSetTags_within: "state_io_rel (only_rows T) (BatchSetTags c body)"
  unfolding BatchSetTags_def by (intro within.walk_all replace_tags_keeps)

lemma BatchSetTags_ages: "state_io_rel rows_age (BatchSetTags c body)"
  unfolding BatchSetTags_def by (intro ages.walk_all replace_tags_keeps)

lemma BatchDelete_within: "state_io_rel (only_rows (batch_scope c)) (BatchDelete h c body)"
  unfolding BatchDelete_def if_do_def dispatchWebhook_def
  by (intro within.walk_all within.traverse) (auto simp: batch_query_def)

lemma BatchDelete_ages: "state_io_rel rows_age (BatchDelete h c body)"
  unfolding BatchDelete_def if_do_def dispatchWebhook_def
  by (intro ages.walk_all ages.traverse) (auto simp: row_ages_def same_identity_def)

lemma BatchSetFolder_within: "state_io_rel (only_rows (batch_scope c)) (BatchSetFolder c body)"
  unfolding BatchSetFolder_def by (intro within.walk_all) (auto simp: batch_query_def)

lemma BatchSetFolder_ages: "state_io_rel rows_age (BatchSetFolder c body)"
  unfolding BatchSetFolder_def by (intro ages.walk_all) (auto simp: row_ages_def same_identity_def)

lemma Transfer_ages: "state_io_rel rows_age (Transfer c vid body)"
  unfolding Transfer_def check_target_def delete_video_tags_def
  by (intro ages.walk_all) (auto simp: row_ages_def same_identity_def)

lemma Transfer_within:
  assumes "ids_unique w"
  shows "wp (Transfer c vid body) (\<lambda>_. only_rows (in_scope c) w) w"
proof (cases body)
  case None
  then show ?thesis by (simp add: Transfer_def rows_rel_refl)
next
  case (Some target)
  have "only_rows (in_scope c) w t" if "transferred c vid target w t" for t
  proof -
    from that obtain v where v: "v \<in> set (videos w)" "v_id v = vid" "in_scope c v"
      and t: "videos t = upd_where (with_id vid) (moved target (now w)) (videos w)"
      unfolding transferred_def by blast
    have "only_rows (with_id vid) w t" unfolding t by (rule rows_rel_upd) auto
    then show ?thesis by (rule only_rows_checked [where T = "in_scope c", OF assms v])
  qed
  then show ?thesis unfolding Some
    by (intro wp_mono [OF Transfer_wp]) (auto simp: rows_rel_refl split: response.splits)
qed

end
