(* ===== verification/Folders_Tags.thy ===== *)
theory Folders_Tags
  imports Batch_Transfer
begin

text \<open>
  Folders and tags (\<open>internal/video/folder.go\<close>, \<open>internal/video/tag.go\<close>): the lists, the handlers that
  create, change and delete one, and those that file or tag a video; then the invariant they keep. Times in
  answers are the row's, unformatted. \<open>newID\<close> is what \<open>gen_random_uuid()\<close> returns.
\<close>

subsection \<open>Scopes and integer columns\<close>

text \<open>Rows belong to the workspace of the request, or to the caller.\<close>

definition library_scope :: "rctx \<Rightarrow> string \<Rightarrow> string option \<Rightarrow> bool" where
  "library_scope c owner org \<longleftrightarrow> (if OrgID c \<noteq> [] then org = Some (OrgID c) else owner = UserID c)"

definition folder_in :: "rctx \<Rightarrow> folder \<Rightarrow> bool" where
  "folder_in c f = library_scope c (f_user_id f) (f_organization_id f)"

definition tag_in :: "rctx \<Rightarrow> tag \<Rightarrow> bool" where
  "tag_in c t = library_scope c (t_user_id t) (t_organization_id t)"

text \<open>A column of type \<open>INTEGER\<close> refuses what does not fit in 32 bits.\<close>

definition int4 :: "int \<Rightarrow> bool" where
  "int4 n \<longleftrightarrow> - (2 ^ 31) \<le> n \<and> n < 2 ^ 31"

text \<open>\<open>COALESCE(MAX(position), -1) + 1\<close>\<close>

definition next_position :: "int list \<Rightarrow> int" where
  "next_position ps = (if ps = [] then -1 else fold max (tl ps) (hd ps)) + 1"

lemma next_position_above: "p \<in> set ps \<Longrightarrow> p < next_position ps"
  by (cases ps) (simp_all add: next_position_def Max.set_eq_fold [symmetric])

subsection \<open>Folders\<close>

record folder_item =
  fi_ID :: string
  fi_Name :: string
  fi_Position :: int
  fi_VideoCount :: nat
  fi_CreatedAt :: time

definition maxFoldersPerUser :: nat where "maxFoldersPerUser = 50"

definition ListFolders :: "rctx \<Rightarrow> folder_item list response prog" where
  "ListFolders c = do {
     r \<leftarrow> select_rows (\<lambda>w. map (\<lambda>f. \<lparr>fi_ID = f_id f, fi_Name = f_name f, fi_Position = f_position f,
           fi_VideoCount = count_where (\<lambda>v. v_folder_id v = Some (f_id f) \<and> v_status v \<noteq> Deleted) (videos w),
           fi_CreatedAt = f_created_at f\<rparr>)
         (sort_key f_position (sort_key f_created_at (filter (folder_in c) (folders w)))));
     State_Monad.return (case r of Inl _ \<Rightarrow> WriteError 500 ''failed to list folders'' | Inr items \<Rightarrow> WriteJSON 200 items)
   }"

definition folder_taken :: "(folder \<Rightarrow> bool) \<Rightarrow> string \<Rightarrow> string \<Rightarrow> folder list \<Rightarrow> bool" where
  "folder_taken P owner name fs = list_ex (\<lambda>f. P f \<and> f_user_id f = owner \<and> f_name f = name) fs"

text \<open>\<open>UNIQUE(user_id, name)\<close>: per user, whatever the workspace.\<close>

definition insert_folder :: "rctx \<Rightarrow> string \<Rightarrow> string \<Rightarrow> (db_error + folder) prog" where
  "insert_folder c newID name = db_stmt (\<lambda>w.
     let pos = next_position (map f_position (filter (folder_in c) (folders w)));
         f = \<lparr>f_id = newID, f_user_id = UserID c, f_organization_id = orgScope c, f_name = name,
              f_position = pos, f_created_at = now w\<rparr>
     in if \<not> int4 pos then (Inl (DbFail ''integer out of range''), w)
        else if newID \<in> f_id ` set (folders w) \<or> folder_taken (\<lambda>_. True) (UserID c) name (folders w)
          then (Inl UniqueViolation, w)
        else (Inr f, w\<lparr>folders := folders w @ [f]\<rparr>))"

definition check_folder_name :: "string \<Rightarrow> string" where
  "check_folder_name name = (if name = [] then ''folder name is required'' else validate_FolderName name)"

definition CreateFolder :: "rctx \<Rightarrow> string \<Rightarrow> string option \<Rightarrow> folder_item response prog" where
  "CreateFolder c newID body = (case body of
     None \<Rightarrow> State_Monad.return bad_body
   | Some raw \<Rightarrow>
     let name = trim_space raw in
     if check_folder_name name \<noteq> [] then State_Monad.return (WriteError 400 (check_folder_name name))
     else do {
       r \<leftarrow> select_rows (\<lambda>w. count_where (folder_in c) (folders w));
       case r of Inl _ \<Rightarrow> State_Monad.return (WriteError 500 ''failed to check folder limit'')
       | Inr n \<Rightarrow>
         if n \<ge> maxFoldersPerUser then State_Monad.return (WriteError 403 ''maximum of 50 folders reached'')
         else do {
           row \<leftarrow> insert_folder c newID name;
           State_Monad.return (case row of
               Inl UniqueViolation \<Rightarrow> WriteError 409 ''a folder with this name already exists''
             | Inl _ \<Rightarrow> WriteError 500 ''failed to create folder''
             | Inr f \<Rightarrow> WriteJSON 201 \<lparr>fi_ID = f_id f, fi_Name = name, fi_Position = f_position f, fi_VideoCount = 0,
                 fi_CreatedAt = f_created_at f\<rparr>)
         }
     })"

record update_folder_request =
  uf_Name :: "string option"
  uf_Position :: "int option"

definition set_folder :: "update_folder_request \<Rightarrow> folder \<Rightarrow> folder" where
  "set_folder req f = f\<lparr>f_name := case_option (f_name f) (\<lambda>n. n) (uf_Name req),
     f_position := case_option (f_position f) (\<lambda>p. p) (uf_Position req)\<rparr>"

definition update_folder :: "rctx \<Rightarrow> string \<Rightarrow> update_folder_request \<Rightarrow> (db_error + nat) prog" where
  "update_folder c folderID req = db_stmt (\<lambda>w.
     let P = (\<lambda>f. f_id f = folderID \<and> folder_in c f)
     in if (case uf_Position req of None \<Rightarrow> False | Some p \<Rightarrow> \<not> int4 p) then (Inl (DbFail ''integer out of range''), w)
        else if (case uf_Name req of None \<Rightarrow> False | Some n \<Rightarrow>
            list_ex (\<lambda>f. P f \<and> folder_taken (\<lambda>g. f_id g \<noteq> folderID) (f_user_id f) n (folders w)) (folders w))
          then (Inl UniqueViolation, w)
        else (Inr (count_where P (folders w)), w\<lparr>folders := upd_where P (set_folder req) (folders w)\<rparr>))"

definition UpdateFolder :: "rctx \<Rightarrow> string \<Rightarrow> update_folder_request option \<Rightarrow> unit response prog" where
  "UpdateFolder c folderID body = (case body of
     None \<Rightarrow> State_Monad.return bad_body
   | Some req \<Rightarrow>
     if uf_Name req = None \<and> uf_Position req = None then State_Monad.return (WriteError 400 ''nothing to update'')
     else
       let name = map_option trim_space (uf_Name req);
           msg = (case name of None \<Rightarrow> [] | Some n \<Rightarrow> check_folder_name n)
       in if msg \<noteq> [] then State_Monad.return (WriteError 400 msg)
       else do {
         r \<leftarrow> update_folder c folderID (req\<lparr>uf_Name := name\<rparr>);
         State_Monad.return (case r of
             Inl UniqueViolation \<Rightarrow> WriteError 409 ''a folder with this name already exists''
           | Inl _ \<Rightarrow> WriteError 500 ''failed to update folder''
           | Inr n \<Rightarrow> if n = 0 then WriteError 404 ''folder not found'' else WriteHeader 204)
       })"

text \<open>\<open>videos.folder_id\<close> references the folder with \<open>ON DELETE SET NULL\<close>.\<close>

definition delete_folders :: "(folder \<Rightarrow> bool) \<Rightarrow> (db_error + nat) prog" where
  "delete_folders P = db_stmt (\<lambda>w.
     let gone = map f_id (filter P (folders w))
     in (Inr (length gone), w\<lparr>folders := del_where P (folders w),
          videos := upd_where (\<lambda>v. v_folder_id v \<in> Some ` set gone) (\<lambda>v. v\<lparr>v_folder_id := None\<rparr>) (videos w)\<rparr>))"

definition DeleteFolder :: "rctx \<Rightarrow> string \<Rightarrow> unit response prog" where
  "DeleteFolder c folderID = do {
     r \<leftarrow> delete_folders (\<lambda>f. f_id f = folderID \<and> folder_in c f);
     State_Monad.return (case r of Inl _ \<Rightarrow> WriteError 500 ''failed to delete folder''
       | Inr n \<Rightarrow> if n = 0 then WriteError 404 ''folder not found'' else WriteHeader 204)
   }"

text \<open>
  The filter of a video here is not \<open>orgVideoFilter\<close>: every writer of the workspace files every video of it.
\<close>

definition video_in :: "rctx \<Rightarrow> string \<Rightarrow> video \<Rightarrow> bool" where
  "video_in c videoID v \<longleftrightarrow> v_id v = videoID \<and> library_scope c (v_user_id v) (v_organization_id v) \<and> v_status v \<noteq> Deleted"

definition SetVideoFolder :: "rctx \<Rightarrow> string \<Rightarrow> string option option \<Rightarrow> unit response prog" where
  "SetVideoFolder c videoID body = (case body of
     None \<Rightarrow> State_Monad.return bad_body
   | Some wanted \<Rightarrow> do {
       found \<leftarrow> (case wanted of None \<Rightarrow> State_Monad.return (Inr None)
         | Some i \<Rightarrow> if i = [] then State_Monad.return (Inr None)
             else do {
               row \<leftarrow> select_row (\<lambda>w. find_where (folder_known c i) (folders w));
               State_Monad.return (case row of
                   Inl NoRows \<Rightarrow> Inl (WriteError 404 ''folder not found'')
                 | Inl _ \<Rightarrow> Inl (WriteError 500 ''failed to verify folder'')
                 | Inr _ \<Rightarrow> Inr (Some i)) });
       case found of Inl resp \<Rightarrow> State_Monad.return resp
       | Inr folderID \<Rightarrow> do {
           r \<leftarrow> update_videos (\<lambda>w. video_in c videoID) (\<lambda>w v. v\<lparr>v_folder_id := folderID\<rparr>);
           State_Monad.return (case r of Inl _ \<Rightarrow> WriteError 500 ''failed to update video folder''
             | Inr n \<Rightarrow> if n = 0 then WriteError 404 ''video not found'' else WriteHeader 204) }
     })"

subsection \<open>Tags\<close>

record tag_item =
  ti_ID :: string
  ti_Name :: string
  ti_Color :: "string option"
  ti_VideoCount :: nat
  ti_CreatedAt :: time

definition maxTagsPerUser :: nat where "maxTagsPerUser = 100"

definition is_hex :: "char \<Rightarrow> bool" where
  "is_hex ch \<longleftrightarrow> ch \<in> set ''0123456789abcdefABCDEF''"

text \<open>\<open>^#[0-9a-fA-F]{6}$\<close>\<close>

definition colorRegex :: "string \<Rightarrow> bool" where
  "colorRegex s \<longleftrightarrow> length s = 7 \<and> hd s = CHR ''#'' \<and> list_all is_hex (tl s)"

text \<open>\<open>collation\<close> is the database's order of names.\<close>

definition ListTags :: "(string \<Rightarrow> nat) \<Rightarrow> rctx \<Rightarrow> tag_item list response prog" where
  "ListTags collation c = do {
     r \<leftarrow> select_rows (\<lambda>w. map (\<lambda>t. \<lparr>ti_ID = t_id t, ti_Name = t_name t, ti_Color = t_color t,
           ti_VideoCount = count_where (\<lambda>vt. vt_tag_id vt = t_id t \<and>
               list_ex (\<lambda>v. v_id v = vt_video_id vt \<and> v_status v \<noteq> Deleted) (videos w)) (video_tags w),
           ti_CreatedAt = t_created_at t\<rparr>)
         (sort_key (\<lambda>t. collation (t_name t)) (filter (tag_in c) (tags w))));
     State_Monad.return (case r of Inl _ \<Rightarrow> WriteError 500 ''failed to list tags'' | Inr items \<Rightarrow> WriteJSON 200 items)
   }"

definition tag_taken :: "(tag \<Rightarrow> bool) \<Rightarrow> string \<Rightarrow> string \<Rightarrow> tag list \<Rightarrow> bool" where
  "tag_taken P owner name ts = list_ex (\<lambda>t. P t \<and> t_user_id t = owner \<and> t_name t = name) ts"

definition insert_tag :: "rctx \<Rightarrow> string \<Rightarrow> string \<Rightarrow> string option \<Rightarrow> (db_error + tag) prog" where
  "insert_tag c newID name color = db_stmt (\<lambda>w.
     let t = \<lparr>t_id = newID, t_user_id = UserID c, t_organization_id = orgScope c, t_name = name,
              t_color = color, t_created_at = now w\<rparr>
     in if newID \<in> t_id ` set (tags w) \<or> tag_taken (\<lambda>_. True) (UserID c) name (tags w) then (Inl UniqueViolation, w)
        else (Inr t, w\<lparr>tags := tags w @ [t]\<rparr>))"

definition check_tag_name :: "string \<Rightarrow> string" where
  "check_tag_name name = (if name = [] then ''tag name is required'' else validate_TagName name)"

definition check_color :: "string option \<Rightarrow> string" where
  "check_color color = (case color of None \<Rightarrow> []
     | Some s \<Rightarrow> if colorRegex s then [] else ''color must be a valid hex color (e.g. #ff0000)'')"

record tag_request =
  tg_Name :: "string option"
  tg_Color :: "string option"

text \<open>A missing name decodes to the empty one.\<close>

definition CreateTag :: "rctx \<Rightarrow> string \<Rightarrow> tag_request option \<Rightarrow> tag_item response prog" where
  "CreateTag c newID body = (case body of
     None \<Rightarrow> State_Monad.return bad_body
   | Some req \<Rightarrow>
     let name = trim_space (case_option [] (\<lambda>n. n) (tg_Name req)) in
     if check_tag_name name \<noteq> [] then State_Monad.return (WriteError 400 (check_tag_name name))
     else if check_color (tg_Color req) \<noteq> [] then State_Monad.return (WriteError 400 (check_color (tg_Color req)))
     else do {
       r \<leftarrow> select_rows (\<lambda>w. count_where (tag_in c) (tags w));
       case r of Inl _ \<Rightarrow> State_Monad.return (WriteError 500 ''failed to check tag limit'')
       | Inr n \<Rightarrow>
         if n \<ge> maxTagsPerUser then State_Monad.return (WriteError 403 ''maximum of 100 tags reached'')
         else do {
           row \<leftarrow> insert_tag c newID name (tg_Color req);
           State_Monad.return (case row of
               Inl UniqueViolation \<Rightarrow> WriteError 409 ''a tag with this name already exists''
             | Inl _ \<Rightarrow> WriteError 500 ''failed to create tag''
             | Inr t \<Rightarrow> WriteJSON 201 \<lparr>ti_ID = t_id t, ti_Name = name, ti_Color = tg_Color req, ti_VideoCount = 0,
                 ti_CreatedAt = t_created_at t\<rparr>)
         }
     })"

definition set_tag :: "tag_request \<Rightarrow> tag \<Rightarrow> tag" where
  "set_tag req t = t\<lparr>t_name := case_option (t_name t) (\<lambda>n. n) (tg_Name req),
     t_color := case_option (t_color t) Some (tg_Color req)\<rparr>"

definition update_tag :: "rctx \<Rightarrow> string \<Rightarrow> tag_request \<Rightarrow> (db_error + nat) prog" where
  "update_tag c tagID req = db_stmt (\<lambda>w.
     let P = (\<lambda>t. t_id t = tagID \<and> tag_in c t)
     in if (case tg_Name req of None \<Rightarrow> False | Some n \<Rightarrow>
            list_ex (\<lambda>t. P t \<and> tag_taken (\<lambda>g. t_id g \<noteq> tagID) (t_user_id t) n (tags w)) (tags w))
          then (Inl UniqueViolation, w)
        else (Inr (count_where P (tags w)), w\<lparr>tags := upd_where P (set_tag req) (tags w)\<rparr>))"

definition UpdateTag :: "rctx \<Rightarrow> string \<Rightarrow> tag_request option \<Rightarrow> unit response prog" where
  "UpdateTag c tagID body = (case body of
     None \<Rightarrow> State_Monad.return bad_body
   | Some req \<Rightarrow>
     if tg_Name req = None \<and> tg_Color req = None then State_Monad.return (WriteError 400 ''nothing to update'')
     else
       let name = map_option trim_space (tg_Name req);
           msg = (case name of None \<Rightarrow> [] | Some n \<Rightarrow> check_tag_name n)
       in if msg \<noteq> [] then State_Monad.return (WriteError 400 msg)
       else if check_color (tg_Color req) \<noteq> [] then State_Monad.return (WriteError 400 (check_color (tg_Color req)))
       else do {
         r \<leftarrow> update_tag c tagID (req\<lparr>tg_Name := name\<rparr>);
         State_Monad.return (case r of
             Inl UniqueViolation \<Rightarrow> WriteError 409 ''a tag with this name already exists''
           | Inl _ \<Rightarrow> WriteError 500 ''failed to update tag''
           | Inr n \<Rightarrow> if n = 0 then WriteError 404 ''tag not found'' else WriteHeader 204)
       })"

text \<open>\<open>video_tags\<close> references the tag with \<open>ON DELETE CASCADE\<close>.\<close>

definition delete_tags :: "(tag \<Rightarrow> bool) \<Rightarrow> (db_error + nat) prog" where
  "delete_tags P = db_stmt (\<lambda>w.
     let gone = map t_id (filter P (tags w))
     in (Inr (length gone), w\<lparr>tags := del_where P (tags w),
          video_tags := del_where (\<lambda>vt. vt_tag_id vt \<in> set gone) (video_tags w)\<rparr>))"

definition DeleteTag :: "rctx \<Rightarrow> string \<Rightarrow> unit response prog" where
  "DeleteTag c tagID = do {
     r \<leftarrow> delete_tags (\<lambda>t. t_id t = tagID \<and> tag_in c t);
     State_Monad.return (case r of Inl _ \<Rightarrow> WriteError 500 ''failed to delete tag''
       | Inr n \<Rightarrow> if n = 0 then WriteError 404 ''tag not found'' else WriteHeader 204)
   }"

text \<open>The old tags are deleted before the new ones are inserted, one statement each, outside a transaction.\<close>

definition SetVideoTags :: "rctx \<Rightarrow> string \<Rightarrow> string list option \<Rightarrow> unit response prog" where
  "SetVideoTags c videoID body = (case body of
     None \<Rightarrow> State_Monad.return bad_body
   | Some tagIDs \<Rightarrow>
     if length tagIDs > maxTagsPerVideo then State_Monad.return (WriteError 400 ''maximum 10 tags per video'')
     else do {
       row \<leftarrow> select_row (\<lambda>w. find_where (video_in c videoID) (videos w));
       case row of
         Inl NoRows \<Rightarrow> State_Monad.return (WriteError 404 ''video not found'')
       | Inl _ \<Rightarrow> State_Monad.return (WriteError 500 ''failed to verify video'')
       | Inr _ \<Rightarrow> do {
           early \<leftarrow> (if tagIDs = [] then State_Monad.return None
             else do {
               r \<leftarrow> select_rows (\<lambda>w. count_where (tag_known c tagIDs) (tags w));
               State_Monad.return (case r of Inl _ \<Rightarrow> Some (WriteError 500 ''failed to verify tags'')
                 | Inr n \<Rightarrow> if n \<noteq> length tagIDs then Some (WriteError 400 ''one or more tags not found'') else None) });
           case early of Some resp \<Rightarrow> State_Monad.return resp
           | None \<Rightarrow> do {
               r \<leftarrow> replace_tags [videoID] tagIDs;
               State_Monad.return (case r of Inl _ \<Rightarrow> WriteError 500 ''failed to update video tags''
                 | Inr _ \<Rightarrow> WriteHeader 204) } }
     })"

subsection \<open>Tables of named rows\<close>

text \<open>
  Folders and tags share a contract: rows with a key and an owner, and names that are unique per owner. A
  change of a row may rename it and leaves its key and owner alone.
\<close>

text \<open>An update of the rows that satisfy \<open>P\<close> keeps a column unique when no two of the new values meet.\<close>

lemma distinct_map_upd_where:
  assumes "distinct (map g xs)"
    and "\<And>a b. a \<in> set xs \<Longrightarrow> b \<in> set xs \<Longrightarrow> P a \<Longrightarrow> \<not> P b \<Longrightarrow> g (f a) \<noteq> g b"
    and "\<And>a b. a \<in> set xs \<Longrightarrow> b \<in> set xs \<Longrightarrow> P a \<Longrightarrow> P b \<Longrightarrow> g (f a) = g (f b) \<Longrightarrow> a = b"
  shows "distinct (map g (upd_where P f xs))"
  using assms
proof (induction xs)
  case (Cons x xs)
  have IH: "distinct (map g (upd_where P f xs))" using Cons by simp
  have new: "(if P a then g (f a) else g a) \<noteq> (if P x then g (f x) else g x)" if a: "a \<in> set xs" for a
  proof
    have ax: "a \<noteq> x" "g a \<noteq> g x" using Cons.prems(1) a by (auto simp: rev_image_eqI)
    assume eq: "(if P a then g (f a) else g a) = (if P x then g (f x) else g x)"
    show False
    proof (cases "P a")
      case True
      then show False using eq ax Cons.prems(2) [of a x] Cons.prems(3) [of a x] a by (auto split: if_splits)
    next
      case False
      then show False using eq ax Cons.prems(2) [of x a] a by (auto split: if_splits)
    qed
  qed
  have "g (if P x then f x else x) \<notin> g ` set (upd_where P f xs)"
    using new by (force simp: set_upd_where split: if_splits)
  with IH show ?case by (simp split: if_splits)
qed simp

locale named_table =
  fixes key owner name :: "'r \<Rightarrow> string" and change :: "'q \<Rightarrow> 'r \<Rightarrow> 'r" and new_name :: "'q \<Rightarrow> string option"
  assumes change_key: "key (change q r) = key r"
    and change_owner: "owner (change q r) = owner r"
    and change_name: "name (change q r) = case_option (name r) (\<lambda>n. n) (new_name q)"
begin

abbreviation ok :: "'r list \<Rightarrow> bool" where
  "ok rs \<equiv> distinct (map key rs) \<and> distinct (map (\<lambda>r. (owner r, name r)) rs)"

lemma key_inj: "ok rs \<Longrightarrow> a \<in> set rs \<Longrightarrow> b \<in> set rs \<Longrightarrow> key a = key b \<Longrightarrow> a = b"
  by (auto simp: distinct_map inj_on_def)

lemma name_inj: "ok rs \<Longrightarrow> a \<in> set rs \<Longrightarrow> b \<in> set rs \<Longrightarrow> owner a = owner b \<Longrightarrow> name a = name b \<Longrightarrow> a = b"
  by (auto simp: distinct_map inj_on_def)

lemma insert_ok:
  "ok rs \<Longrightarrow> key r \<notin> key ` set rs \<Longrightarrow> \<not> list_ex (\<lambda>f. owner f = owner r \<and> name f = name r) rs \<Longrightarrow> ok (rs @ [r])"
  by (auto simp: list_ex_iff)

lemma delete_ok: "ok rs \<Longrightarrow> ok (del_where P rs)"
  by (simp add: distinct_map_del_where)

lemma change_keys: "map key (upd_where P (change q) rs) = map key rs"
  by (rule map_upd_where) (rule change_key)

lemma update_ok:
  assumes ok: "ok rs" and one: "\<And>r. P r \<Longrightarrow> key r = i"
    and free: "\<not> (case new_name q of None \<Rightarrow> False | Some n \<Rightarrow>
      list_ex (\<lambda>r. P r \<and> list_ex (\<lambda>g. key g \<noteq> i \<and> owner g = owner r \<and> name g = n) rs) rs)"
  shows "ok (upd_where P (change q) rs)"
proof -
  have "distinct (map (\<lambda>r. (owner r, name r)) (upd_where P (change q) rs))"
  proof (rule distinct_map_upd_where)
    fix a b
    assume ab: "a \<in> set rs" "b \<in> set rs" "P a" "\<not> P b"
    then have "key b \<noteq> i" using one key_inj [OF ok] by blast
    then have taken: "name b \<noteq> n" if "new_name q = Some n" "owner b = owner a" for n
      using free ab that by (auto simp: list_ex_iff)
    have "a \<noteq> b" using ab by blast
    then show "(owner (change q a), name (change q a)) \<noteq> (owner b, name b)"
      using taken name_inj [OF ok ab(1,2)] by (cases "new_name q") (auto simp: change_owner change_name)
  qed (use ok one key_inj [OF ok] in \<open>auto\<close>)
  with ok change_keys show ?thesis by simp
qed

end

interpretation folder_table: named_table f_id f_user_id f_name set_folder uf_Name
  by unfold_locales (simp_all add: set_folder_def)

interpretation tag_table: named_table t_id t_user_id t_name set_tag tg_Name
  by unfold_locales (simp_all add: set_tag_def)

subsection \<open>What the tables keep\<close>

text \<open>
  Keys are unique, and so are the names of a user's folders and tags; a video lies in no folder or in one
  that is there, and its tags are there.
\<close>

definition folders_ok :: "world \<Rightarrow> bool" where
  "folders_ok w \<longleftrightarrow> folder_table.ok (folders w) \<and>
     list_all (\<lambda>v. v_folder_id v \<in> insert None (Some ` f_id ` set (folders w))) (videos w)"

definition tags_ok :: "world \<Rightarrow> bool" where
  "tags_ok w \<longleftrightarrow> tag_table.ok (tags w) \<and> distinct (video_tags w) \<and>
     list_all (\<lambda>r. vt_tag_id r \<in> t_id ` set (tags w) \<and> vt_video_id r \<in> v_id ` set (videos w)) (video_tags w)"

lemma folders_ok_tick [simp]: "folders_ok (tick w) = folders_ok w"
  by (simp add: folders_ok_def)

lemma tags_ok_tick [simp]: "tags_ok (tick w) = tags_ok w"
  by (simp add: tags_ok_def)

text \<open>The statements keep the tables in order, and so do the handlers.\<close>

lemma insert_folder_ok: "preserves folders_ok (insert_folder c newID name)"
  unfolding preserves_wp insert_folder_def Let_def
  by (auto simp: folders_ok_def folder_taken_def list_ex_iff list_all_iff split: option.split)

lemma update_folder_ok: "preserves folders_ok (update_folder c i req)"
proof -
  have "folder_table.ok (upd_where (\<lambda>f. f_id f = i \<and> folder_in c f) (set_folder req) (folders w))"
    if "folders_ok w" "\<not> (case uf_Name req of None \<Rightarrow> False | Some n \<Rightarrow>
      list_ex (\<lambda>f. (f_id f = i \<and> folder_in c f) \<and> folder_taken (\<lambda>g. f_id g \<noteq> i) (f_user_id f) n (folders w)) (folders w))" for w
    using that unfolding folders_ok_def folder_taken_def by (intro folder_table.update_ok) simp_all
  then have "folders_ok ((tick w)\<lparr>folders := upd_where (\<lambda>f. f_id f = i \<and> folder_in c f) (set_folder req) (folders w)\<rparr>)"
    if "folders_ok w" "\<not> (case uf_Name req of None \<Rightarrow> False | Some n \<Rightarrow>
      list_ex (\<lambda>f. (f_id f = i \<and> folder_in c f) \<and> folder_taken (\<lambda>g. f_id g \<noteq> i) (f_user_id f) n (folders w)) (folders w))" for w
    using that folder_table.change_keys [of _ req "folders w"]
    unfolding folders_ok_def by (simp flip: set_map)
  then show ?thesis
    unfolding preserves_wp update_folder_def Let_def by (auto split: option.split)
qed

lemma delete_folders_ok: "preserves folders_ok (delete_folders P)"
  unfolding preserves_wp delete_folders_def Let_def
  by (auto simp: folders_ok_def distinct_map_del_where set_upd_where set_del_where list_all_iff split: option.split) blast+

lemma file_video_ok:
  assumes "folders_ok w" "folders t = folders w" "\<And>v. v_folder_id (f v) \<in> insert None (Some ` f_id ` set (folders w))"
  shows "folders_ok (t\<lparr>videos := upd_where P f (videos w)\<rparr>)"
  using assms by (auto simp: folders_ok_def list_all_iff set_upd_where)

lemma folder_known_there: "find_where (folder_known c i) fs = Some f \<Longrightarrow> i \<in> f_id ` set fs"
  by (drule find_where_Some) (auto simp: folder_known_def)

lemma folder_handlers_ok:
  "preserves folders_ok (CreateFolder c newID body1)"
  "preserves folders_ok (UpdateFolder c i body2)"
  "preserves folders_ok (DeleteFolder c i)"
  "preserves folders_ok (SetVideoFolder c i body3)"
  "preserves folders_ok (BatchSetFolder c body4)"
  unfolding preserves_wp CreateFolder_def UpdateFolder_def DeleteFolder_def SetVideoFolder_def BatchSetFolder_def Let_def
  by (auto split: option.split db_error.split
      intro!: wp_preserves [OF insert_folder_ok] wp_preserves [OF update_folder_ok] wp_preserves [OF delete_folders_ok]
        file_video_ok dest: folder_known_there)

lemma insert_tag_ok: "preserves tags_ok (insert_tag c newID name color)"
  unfolding preserves_wp insert_tag_def Let_def
  by (auto simp: tags_ok_def tag_taken_def list_ex_iff list_all_iff split: option.split)

lemma update_tag_ok: "preserves tags_ok (update_tag c i req)"
proof -
  have "tag_table.ok (upd_where (\<lambda>t. t_id t = i \<and> tag_in c t) (set_tag req) (tags w))"
    if "tags_ok w" "\<not> (case tg_Name req of None \<Rightarrow> False | Some n \<Rightarrow>
      list_ex (\<lambda>t. (t_id t = i \<and> tag_in c t) \<and> tag_taken (\<lambda>g. t_id g \<noteq> i) (t_user_id t) n (tags w)) (tags w))" for w
    using that unfolding tags_ok_def tag_taken_def by (intro tag_table.update_ok) simp_all
  then have "tags_ok ((tick w)\<lparr>tags := upd_where (\<lambda>t. t_id t = i \<and> tag_in c t) (set_tag req) (tags w)\<rparr>)"
    if "tags_ok w" "\<not> (case tg_Name req of None \<Rightarrow> False | Some n \<Rightarrow>
      list_ex (\<lambda>t. (t_id t = i \<and> tag_in c t) \<and> tag_taken (\<lambda>g. t_id g \<noteq> i) (t_user_id t) n (tags w)) (tags w))" for w
    using that tag_table.change_keys [of _ req "tags w"]
    unfolding tags_ok_def by (simp flip: set_map)
  then show ?thesis
    unfolding preserves_wp update_tag_def Let_def by (auto split: option.split)
qed

lemma delete_tags_ok: "preserves tags_ok (delete_tags P)"
  unfolding preserves_wp delete_tags_def Let_def
  by (auto simp: tags_ok_def distinct_map_filter del_where_def list_all_iff split: option.split)

lemma replace_tags_ok: "preserves tags_ok (replace_tags vs ts)"
proof -
  have ins: "preserves tags_ok (insert_video_tag v t)" for v t
    unfolding preserves_wp insert_video_tag_def
    by (auto simp: tags_ok_def list_ex_iff list_all_iff split: option.split)
  have inss: "preserves tags_ok (insert_tags v ts)" for v ts
    by (induction v ts rule: insert_tags.induct)
      (auto simp: preserves_wp split: sum.split intro!: wp_preserves [OF ins])
  have del: "preserves tags_ok (delete_video_tags v)" for v
    unfolding preserves_wp delete_video_tags_def
    by (auto simp: tags_ok_def del_where_def list_all_iff split: option.split)
  show ?thesis
    by (induction vs ts rule: replace_tags.induct)
      (auto simp: preserves_wp split: sum.split intro!: wp_preserves [OF inss] wp_preserves [OF del])
qed

lemma tag_handlers_ok:
  "preserves tags_ok (CreateTag c newID body1)"
  "preserves tags_ok (UpdateTag c i body2)"
  "preserves tags_ok (DeleteTag c i)"
  "preserves tags_ok (SetVideoTags c i body3)"
  "preserves tags_ok (BatchSetTags c body4)"
  unfolding preserves_wp CreateTag_def UpdateTag_def DeleteTag_def SetVideoTags_def BatchSetTags_def Let_def
  by (auto simp del: replace_tags.simps split: option.split db_error.split
      intro!: wp_preserves [OF insert_tag_ok] wp_preserves [OF update_tag_ok] wp_preserves [OF delete_tags_ok]
        wp_preserves [OF replace_tags_ok])

subsection \<open>What modelling showed\<close>

text \<open>
  The filter of \<open>SetVideoFolder\<close> is wider than that of every other handler of a video: a plain member files
  a video another member recorded, which \<open>in_scope\<close> keeps from them.
\<close>

lemma member_files_any_video:
  assumes "OrgID c = ''o1''" "OrgRole c = ''member''" "UserID c = ''u2''"
  shows "\<not> in_scope c (sample_video\<lparr>v_organization_id := Some ''o1''\<rparr>)"
    and "run_state (SetVideoFolder c ''v1'' (Some None))
       (sample_world\<lparr>videos := [sample_video\<lparr>v_organization_id := Some ''o1'', v_folder_id := Some ''f1''\<rparr>]\<rparr>) =
     (WriteHeader 204, sample_world\<lparr>videos := [sample_video\<lparr>v_organization_id := Some ''o1'', v_folder_id := None\<rparr>]\<rparr>)"
  using assms
  by (simp_all add: in_scope_def IsAdminOrOwner_def SetVideoFolder_def run_simps video_in_def library_scope_def)

text \<open>A folder moved to the last position a column holds: after it no folder can be made, the answer is 500.\<close>

lemma last_position_blocks:
  assumes "f \<in> set (folders w)" "folder_in c f" "f_position f = 2147483647" "faults w = []"
    and "check_folder_name (trim_space raw) = []" "count_where (folder_in c) (folders w) < 50"
  shows "run_state (CreateFolder c i (Some raw)) w = (WriteError 500 ''failed to create folder'', w)"
proof -
  have "2147483647 < next_position (map f_position (filter (folder_in c) (folders w)))"
    using assms(1-3) by (intro next_position_above) auto
  with assms show ?thesis
    by (simp add: CreateFolder_def Let_def insert_folder_def run_simps run_db_stmt int4_def maxFoldersPerUser_def)
qed

text \<open>\<open>SetVideoTags\<close> deletes before it inserts: a failing insert leaves the video without its tags.\<close>

lemma tags_lost_on_failure:
  "run_state (SetVideoTags sample_caller ''v1'' (Some [''t2'']))
     (sample_world\<lparr>videos := [sample_video], faults := [None, None, None, Some ''lost connection''],
        tags := [\<lparr>t_id = ''t2'', t_user_id = ''u1'', t_organization_id = None, t_name = ''b'', t_color = None, t_created_at = 0\<rparr>],
        video_tags := [\<lparr>vt_video_id = ''v1'', vt_tag_id = ''t2''\<rparr>]\<rparr>) =
   (WriteError 500 ''failed to update video tags'',
    sample_world\<lparr>videos := [sample_video], faults := [], video_tags := [],
        tags := [\<lparr>t_id = ''t2'', t_user_id = ''u1'', t_organization_id = None, t_name = ''b'', t_color = None, t_created_at = 0\<rparr>]\<rparr>)"
  by (simp add: SetVideoTags_def run_simps run_db_stmt video_in_def library_scope_def tag_known_def maxTagsPerVideo_def
      delete_video_tags_def insert_video_tag_def next_fault_def tick_def)

end
