(* ===== verification/Accounts.thy ===== *)
theory Accounts
  imports Watch_Auth
begin

text \<open>
  Accounts (\<open>internal/auth/auth.go\<close>, \<open>jwt.go\<close>, \<open>apikey.go\<close>): registration, sign-in, the rotation of refresh
  tokens, links sent by mail, the caller's own settings, API keys, and the middleware that turns a bearer
  token into a user. The JWT library, bcrypt, SHA-256 and the grammar of mail addresses are parameters;
  random bytes are inputs (\<open>None\<close> when the generator fails). Each statement is a step of its own, so a
  failure leaves what the statements before it did.
\<close>

subsection \<open>Tokens\<close>

record claims =
  cl_UserID :: string
  cl_TokenID :: string
  cl_TokenType :: string
  cl_ExpiresAt :: time
  cl_IssuedAt :: time

text \<open>
  \<open>SignedString\<close> signs with HS256. \<open>ParseWithClaims\<close> answers the claims of a token whose signature fits the
  secret and whose expiry is after the time given; \<open>alg_is_HMAC\<close> reads the method of its header.
\<close>

record jwt_lib =
  SignedString :: "string \<Rightarrow> claims \<Rightarrow> string"
  ParseWithClaims :: "string \<Rightarrow> time \<Rightarrow> string \<Rightarrow> claims option"
  alg_is_HMAC :: "string \<Rightarrow> bool"

definition AccessTokenDuration :: time where "AccessTokenDuration = minutes 15"
definition RefreshTokenDuration :: time where "RefreshTokenDuration = days 7"

text \<open>Dates in a token are whole seconds.\<close>

definition NewNumericDate :: "time \<Rightarrow> time" where
  "NewNumericDate t = t - t mod seconds 1"

definition generateToken :: "jwt_lib \<Rightarrow> time \<Rightarrow> string \<Rightarrow> string \<Rightarrow> string \<Rightarrow> time \<Rightarrow> string \<Rightarrow> string" where
  "generateToken j t secret userID tokenType duration tokenID = SignedString j secret
     \<lparr>cl_UserID = userID, cl_TokenID = tokenID, cl_TokenType = tokenType,
      cl_ExpiresAt = NewNumericDate (t + duration), cl_IssuedAt = NewNumericDate t\<rparr>"

definition GenerateAccessToken :: "jwt_lib \<Rightarrow> time \<Rightarrow> string \<Rightarrow> string \<Rightarrow> string" where
  "GenerateAccessToken j t secret userID = generateToken j t secret userID ''access'' AccessTokenDuration []"

definition GenerateRefreshToken :: "jwt_lib \<Rightarrow> time \<Rightarrow> string \<Rightarrow> string \<Rightarrow> string \<Rightarrow> string" where
  "GenerateRefreshToken j t secret userID tokenID = generateToken j t secret userID ''refresh'' RefreshTokenDuration tokenID"

definition ValidateToken :: "jwt_lib \<Rightarrow> time \<Rightarrow> string \<Rightarrow> string \<Rightarrow> claims option" where
  "ValidateToken j t secret tok = (if alg_is_HMAC j tok then ParseWithClaims j secret t tok else None)"

subsection \<open>Configuration\<close>

record auth_config =
  registrationEnabled :: bool
  jwtSecret :: string
  emailBackend :: "bool option" \<comment> \<open>\<open>None\<close> without a sender, else \<open>HasBackend()\<close>\<close>
  authBaseURL :: string

definition can_mail :: "auth_config \<Rightarrow> bool" where
  "can_mail a \<longleftrightarrow> emailBackend a = Some True"

definition hashToken :: "crypto \<Rightarrow> string \<Rightarrow> string" where
  "hashToken cy raw = EncodeToString (Sum256 cy raw)"

definition resetTokenExpiry :: time where "resetTokenExpiry = hours 1"
definition confirmTokenExpiry :: time where "confirmTokenExpiry = hours 24"

subsection \<open>Statements\<close>

definition exec_users :: "(user \<Rightarrow> bool) \<Rightarrow> (user \<Rightarrow> user) \<Rightarrow> (db_error + unit) prog" where
  "exec_users P f = exec_world (\<lambda>w. w\<lparr>users := upd_where P f (users w)\<rparr>)"

definition new_user :: "string \<Rightarrow> string \<Rightarrow> string \<Rightarrow> string \<Rightarrow> bool \<Rightarrow> time \<Rightarrow> user" where
  "new_user newID email pw name verified t = \<lparr>u_id = newID, u_email = email, u_name = name, u_plan = ''free'',
     u_subscription_id = None, u_customer_id = None, u_noise_reduction = True,
     u_transcription_language = ''auto'', u_retention_days = 0, u_password = pw, u_email_verified = verified,
     u_created_at = t, u_day2_sent_at = None, u_day7_sent_at = None\<rparr>"

definition insert_user :: "(time \<Rightarrow> user) \<Rightarrow> (db_error + string) prog" where
  "insert_user mk = db_stmt (\<lambda>w.
     if u_id (mk (now w)) \<in> u_id ` set (users w) \<or> u_email (mk (now w)) \<in> u_email ` set (users w) then (Inl UniqueViolation, w)
     else (Inr (u_id (mk (now w))), w\<lparr>users := users w @ [mk (now w)]\<rparr>))"

definition use_mailed :: "(mailed_token \<Rightarrow> bool) \<Rightarrow> world \<Rightarrow> mailed_token list \<Rightarrow> mailed_token list" where
  "use_mailed P w = upd_where P (\<lambda>t. t\<lparr>mt_used_at := Some (now w)\<rparr>)"

definition insert_mailed :: "string \<Rightarrow> string \<Rightarrow> time \<Rightarrow> mailed_token list \<Rightarrow> mailed_token list" where
  "insert_mailed h uid t ts = ts @ [\<lparr>mt_token_hash = h, mt_user_id = uid, mt_expires_at = t, mt_used_at = None\<rparr>]"

definition usable :: "world \<Rightarrow> string \<Rightarrow> mailed_token \<Rightarrow> bool" where
  "usable w h t \<longleftrightarrow> mt_token_hash t = h \<and> mt_used_at t = None \<and> now w < mt_expires_at t"

definition revoke_of :: "string \<Rightarrow> (db_error + unit) prog" where
  "revoke_of userID = exec_world (\<lambda>w. w\<lparr>refresh_tokens :=
     upd_where (\<lambda>t. rt_user_id t = userID \<and> \<not> rt_revoked t) (\<lambda>t. t\<lparr>rt_revoked := True\<rparr>) (refresh_tokens w)\<rparr>)"

definition delete_keys_of :: "string \<Rightarrow> (db_error + unit) prog" where
  "delete_keys_of userID = exec_world (\<lambda>w. w\<lparr>api_keys := del_where (\<lambda>k. ak_user_id k = userID) (api_keys w)\<rparr>)"

text \<open>What both ways to change a password do last; failures are logged.\<close>

definition end_sessions :: "string \<Rightarrow> unit prog" where
  "end_sessions userID = do { _ \<leftarrow> revoke_of userID; _ \<leftarrow> delete_keys_of userID; State_Monad.return () }"

subsection \<open>Registration\<close>

record register_request =
  rg_Email :: string
  rg_Password :: string
  rg_Name :: string

text \<open>A token for a link: the old ones are spent first (a failure is logged), then the new one is stored.\<close>

definition confirm_link :: "auth_config \<Rightarrow> crypto \<Rightarrow> string \<Rightarrow> string \<Rightarrow> string option \<Rightarrow> bool prog" where
  "confirm_link a cy userID email random = do {
     _ \<leftarrow> exec_world (\<lambda>w. w\<lparr>email_confirmations :=
         use_mailed (\<lambda>t. mt_user_id t = userID \<and> mt_used_at t = None) w (email_confirmations w)\<rparr>);
     case random of None \<Rightarrow> State_Monad.return False
     | Some raw \<Rightarrow> do {
         r \<leftarrow> exec_world (\<lambda>w. w\<lparr>email_confirmations :=
             insert_mailed (hashToken cy raw) userID (now w + confirmTokenExpiry) (email_confirmations w)\<rparr>);
         case r of Inl _ \<Rightarrow> State_Monad.return False
         | Inr _ \<Rightarrow> do {
             _ \<leftarrow> service (EmailConfirm email (authBaseURL a @ ''/confirm-email?token='' @ raw));
             State_Monad.return True } }
   }"

definition register_error :: "(string \<Rightarrow> bool) \<Rightarrow> register_request \<Rightarrow> string" where
  "register_error ParseAddress req =
     (if rg_Email req = [] \<or> rg_Password req = [] \<or> rg_Name req = [] then ''email, password, and name are required''
      else if \<not> ParseAddress (rg_Email req) then ''invalid email address''
      else if validate_Name (rg_Name req) \<noteq> [] then validate_Name (rg_Name req)
      else validate_Password (rg_Password req))"

text \<open>The answer's body is whether the address must be confirmed.\<close>

definition Register :: "auth_config \<Rightarrow> crypto \<Rightarrow> (string \<Rightarrow> bool) \<Rightarrow> string \<Rightarrow> string option \<Rightarrow> register_request option
    \<Rightarrow> bool response prog" where
  "Register a cy ParseAddress newID random body =
     (if \<not> registrationEnabled a then State_Monad.return (WriteError 403 ''registration is disabled'')
      else case body of None \<Rightarrow> State_Monad.return bad_body
      | Some req \<Rightarrow>
        if register_error ParseAddress req \<noteq> [] then State_Monad.return (WriteError 400 (register_error ParseAddress req))
        else case GenerateFromPassword cy (rg_Password req) of
          None \<Rightarrow> State_Monad.return (WriteError 500 ''failed to hash password'')
        | Some hashed \<Rightarrow> do {
            row \<leftarrow> insert_user (new_user newID (rg_Email req) hashed (rg_Name req) (\<not> can_mail a));
            case row of
              Inl UniqueViolation \<Rightarrow> State_Monad.return (WriteError 409 ''An account with this email already exists'')
            | Inl _ \<Rightarrow> State_Monad.return (WriteError 500 ''failed to create user'')
            | Inr userID \<Rightarrow>
              if \<not> can_mail a then State_Monad.return (WriteJSON 201 False)
              else do {
                sent \<leftarrow> confirm_link a cy userID (rg_Email req) random;
                State_Monad.return (if sent then WriteJSON 201 True else WriteError 500 ''failed to create account'')
              }
          })"

subsection \<open>Sign-in\<close>

definition insert_refresh :: "string \<Rightarrow> string \<Rightarrow> (db_error + unit) prog" where
  "insert_refresh tokenID userID = db_stmt (\<lambda>w.
     if tokenID \<in> rt_token_id ` set (refresh_tokens w) then (Inl UniqueViolation, w)
     else (Inr (), w\<lparr>refresh_tokens := refresh_tokens w @
       [\<lparr>rt_token_id = tokenID, rt_user_id = userID, rt_expires_at = now w + RefreshTokenDuration, rt_revoked = False\<rparr>]\<rparr>))"

text \<open>\<open>tokenID\<close> is what \<open>NewTokenID\<close> returns.\<close>

definition IssueTokens :: "jwt_lib \<Rightarrow> string \<Rightarrow> string option \<Rightarrow> string \<Rightarrow> (string \<times> string) option prog" where
  "IssueTokens j secret tokenID userID = (case tokenID of None \<Rightarrow> State_Monad.return None
     | Some tid \<Rightarrow> do {
         r \<leftarrow> insert_refresh tid userID;
         case r of Inl _ \<Rightarrow> State_Monad.return None
         | Inr _ \<Rightarrow> do {
             w \<leftarrow> State_Monad.get;
             State_Monad.return (Some (GenerateAccessToken j (now w) secret userID,
               GenerateRefreshToken j (now w) secret userID tid)) } })"

datatype login_body = AccessToken string | EmailNotVerified | SSORequired string string \<comment> \<open>workspace, its name\<close>

text \<open>An answer and the refresh token its cookie carries.\<close>

type_synonym token_answer = "login_body response \<times> string option"

definition issue_answer :: "jwt_lib \<Rightarrow> auth_config \<Rightarrow> string option \<Rightarrow> string \<Rightarrow> token_answer prog" where
  "issue_answer j a tokenID userID = do {
     r \<leftarrow> IssueTokens j (jwtSecret a) tokenID userID;
     State_Monad.return (case r of None \<Rightarrow> (WriteError 500 ''failed to generate tokens'', None)
       | Some (access, refresh) \<Rightarrow> (WriteJSON 200 (AccessToken access), Some refresh))
   }"

definition enforced_org :: "string \<Rightarrow> world \<Rightarrow> organization option" where
  "enforced_org userID w = find_where (\<lambda>g. list_ex (\<lambda>s. sc_organization_id s = o_id g \<and> sc_enforce_sso s) (sso_configs w) \<and>
     list_ex (\<lambda>m. m_organization_id m = o_id g \<and> m_user_id m = userID \<and> m_role m \<noteq> ''owner'') (members w)) (organizations w)"

record login_request =
  lg_Email :: string
  lg_Password :: string

definition Login :: "jwt_lib \<Rightarrow> auth_config \<Rightarrow> crypto \<Rightarrow> string option \<Rightarrow> login_request option \<Rightarrow> token_answer prog" where
  "Login j a cy tokenID body = (case body of
     None \<Rightarrow> State_Monad.return (bad_body, None)
   | Some req \<Rightarrow>
     if lg_Email req = [] \<or> lg_Password req = [] then State_Monad.return (WriteError 400 ''email and password are required'', None)
     else do {
       row \<leftarrow> select_row (\<lambda>w. find_where (\<lambda>u. u_email u = lg_Email req) (users w));
       case row of Inl _ \<Rightarrow> State_Monad.return (WriteError 401 ''invalid email or password'', None)
       | Inr u \<Rightarrow>
         if \<not> CompareHashAndPassword cy (u_password u) (lg_Password req)
           then State_Monad.return (WriteError 401 ''invalid email or password'', None)
         else if \<not> u_email_verified u then State_Monad.return (WriteJSON 403 EmailNotVerified, None)
         else do {
           enforced \<leftarrow> select_row (enforced_org (u_id u));
           case enforced of Inr g \<Rightarrow> State_Monad.return (WriteJSON 403 (SSORequired (o_id g) (o_name g)), None)
           | Inl _ \<Rightarrow> issue_answer j a tokenID (u_id u)
         }
     })"

text \<open>Refreshing: look the token up, then revoke it and issue the next pair.\<close>

definition validateStoredRefreshToken :: "string \<Rightarrow> string \<Rightarrow> bool prog" where
  "validateStoredRefreshToken userID tokenID = do {
     row \<leftarrow> select_row (\<lambda>w. find_where (\<lambda>t. rt_token_id t = tokenID \<and> rt_user_id t = userID) (refresh_tokens w));
     w \<leftarrow> State_Monad.get;
     State_Monad.return (case row of Inl _ \<Rightarrow> False | Inr t \<Rightarrow> \<not> (rt_revoked t \<or> rt_expires_at t < now w))
   }"

definition revokeRefreshToken :: "string \<Rightarrow> (db_error + unit) prog" where
  "revokeRefreshToken tokenID = exec_world (\<lambda>w. w\<lparr>refresh_tokens :=
     upd_where (\<lambda>t. rt_token_id t = tokenID) (\<lambda>t. t\<lparr>rt_revoked := True\<rparr>) (refresh_tokens w)\<rparr>)"

definition rotate :: "jwt_lib \<Rightarrow> auth_config \<Rightarrow> string option \<Rightarrow> claims \<Rightarrow> token_answer prog" where
  "rotate j a newTokenID cl = do {
     r \<leftarrow> revokeRefreshToken (cl_TokenID cl);
     case r of Inl _ \<Rightarrow> State_Monad.return (WriteError 500 ''failed to revoke refresh token'', None)
     | Inr _ \<Rightarrow> issue_answer j a newTokenID (cl_UserID cl)
   }"

definition Refresh :: "jwt_lib \<Rightarrow> auth_config \<Rightarrow> cookies \<Rightarrow> string option \<Rightarrow> token_answer prog" where
  "Refresh j a cks newTokenID = (case r_Cookie cks ''refresh_token'' of
     None \<Rightarrow> State_Monad.return (WriteError 401 ''refresh token not found'', None)
   | Some v \<Rightarrow> do {
       w \<leftarrow> State_Monad.get;
       case ValidateToken j (now w) (jwtSecret a) v of
         None \<Rightarrow> State_Monad.return (WriteError 401 ''invalid refresh token'', None)
       | Some cl \<Rightarrow>
         if cl_TokenType cl \<noteq> ''refresh'' \<or> cl_TokenID cl = [] then State_Monad.return (WriteError 401 ''invalid refresh token'', None)
         else do {
           valid \<leftarrow> validateStoredRefreshToken (cl_UserID cl) (cl_TokenID cl);
           if \<not> valid then State_Monad.return (WriteError 401 ''invalid refresh token'', None)
           else rotate j a newTokenID cl
         }
     })"

definition Logout :: "jwt_lib \<Rightarrow> auth_config \<Rightarrow> cookies \<Rightarrow> unit response prog" where
  "Logout j a cks = do {
     w \<leftarrow> State_Monad.get;
     (case Option.bind (r_Cookie cks ''refresh_token'') (ValidateToken j (now w) (jwtSecret a)) of
        None \<Rightarrow> State_Monad.return ()
      | Some cl \<Rightarrow> if cl_TokenType cl = ''refresh'' \<and> cl_TokenID cl \<noteq> []
          then do { _ \<leftarrow> revokeRefreshToken (cl_TokenID cl); State_Monad.return () } else State_Monad.return ());
     State_Monad.return (WriteHeader 204)
   }"

text \<open>The cookie of a refresh token, after one that clears the cookie older clients had at \<open>/api/auth\<close>.\<close>

definition refresh_cookie :: "bool \<Rightarrow> string \<Rightarrow> string \<Rightarrow> int \<Rightarrow> cookie" where
  "refresh_cookie sec path v age = \<lparr>ck_Name = ''refresh_token'', ck_Value = sanitizeCookieValue v, ck_Path = path,
     ck_MaxAge = age, ck_HttpOnly = True, ck_Secure = sec, ck_SameSite = ''Strict''\<rparr>"

definition SetRefreshTokenCookie :: "string \<Rightarrow> bool \<Rightarrow> cookie list" where
  "SetRefreshTokenCookie tok sec =
     [refresh_cookie sec ''/api/auth'' [] (-1), refresh_cookie sec ''/'' tok (RefreshTokenDuration div seconds 1)]"

definition clear_refresh_cookies :: "bool \<Rightarrow> cookie list" where
  "clear_refresh_cookies sec = [refresh_cookie sec ''/api/auth'' [] (-1), refresh_cookie sec ''/'' [] (-1)]"

subsection \<open>Links by mail\<close>

definition forgot_answer :: "string response" where
  "forgot_answer = WriteJSON 200 ''If an account with that email exists, we've sent a password reset link''"

definition ForgotPassword :: "auth_config \<Rightarrow> crypto \<Rightarrow> string option \<Rightarrow> string option \<Rightarrow> string response prog" where
  "ForgotPassword a cy random body = (case body of
     None \<Rightarrow> State_Monad.return bad_body
   | Some email \<Rightarrow>
     if email = [] then State_Monad.return (WriteError 400 ''email is required'')
     else if \<not> can_mail a then State_Monad.return forgot_answer
     else do {
       row \<leftarrow> select_row (\<lambda>w. find_where (\<lambda>u. u_email u = email) (users w));
       case row of Inl _ \<Rightarrow> State_Monad.return forgot_answer
       | Inr u \<Rightarrow> do {
           _ \<leftarrow> exec_world (\<lambda>w. w\<lparr>password_resets :=
               use_mailed (\<lambda>t. mt_user_id t = u_id u \<and> mt_used_at t = None) w (password_resets w)\<rparr>);
           case random of None \<Rightarrow> State_Monad.return forgot_answer
           | Some raw \<Rightarrow> do {
               r \<leftarrow> exec_world (\<lambda>w. w\<lparr>password_resets :=
                   insert_mailed (hashToken cy raw) (u_id u) (now w + resetTokenExpiry) (password_resets w)\<rparr>);
               case r of Inl _ \<Rightarrow> State_Monad.return forgot_answer
               | Inr _ \<Rightarrow> do {
                   _ \<leftarrow> service (EmailReset email (authBaseURL a @ ''/reset-password?token='' @ raw));
                   State_Monad.return forgot_answer } } }
     })"

record reset_request =
  rp_Token :: string
  rp_Password :: string

definition set_password :: "string \<Rightarrow> string \<Rightarrow> (db_error + unit) prog" where
  "set_password userID hashed = exec_users (\<lambda>u. u_id u = userID) (\<lambda>u. u\<lparr>u_password := hashed\<rparr>)"

definition ResetPassword :: "crypto \<Rightarrow> reset_request option \<Rightarrow> string response prog" where
  "ResetPassword cy body = (case body of
     None \<Rightarrow> State_Monad.return bad_body
   | Some req \<Rightarrow>
     if rp_Token req = [] \<or> rp_Password req = [] then State_Monad.return (WriteError 400 ''token and password are required'')
     else if validate_Password (rp_Password req) \<noteq> [] then State_Monad.return (WriteError 400 (validate_Password (rp_Password req)))
     else do {
       row \<leftarrow> select_row (\<lambda>w. find_where (usable w (hashToken cy (rp_Token req))) (password_resets w));
       case row of Inl _ \<Rightarrow> State_Monad.return (WriteError 400 ''invalid or expired reset link'')
       | Inr t \<Rightarrow> do {
           r \<leftarrow> exec_world (\<lambda>w. w\<lparr>password_resets :=
               use_mailed (\<lambda>t. mt_token_hash t = hashToken cy (rp_Token req)) w (password_resets w)\<rparr>);
           case r of Inl _ \<Rightarrow> State_Monad.return (WriteError 500 ''failed to process reset'')
           | Inr _ \<Rightarrow> (case GenerateFromPassword cy (rp_Password req) of
               None \<Rightarrow> State_Monad.return (WriteError 500 ''failed to hash password'')
             | Some hashed \<Rightarrow> do {
                 r \<leftarrow> set_password (mt_user_id t) hashed;
                 case r of Inl _ \<Rightarrow> State_Monad.return (WriteError 500 ''failed to update password'')
                 | Inr _ \<Rightarrow> do {
                     end_sessions (mt_user_id t);
                     State_Monad.return (WriteJSON 200 ''Password updated successfully'') } }) }
     })"

definition ConfirmEmail :: "auth_config \<Rightarrow> crypto \<Rightarrow> string option \<Rightarrow> string response prog" where
  "ConfirmEmail a cy body = (case body of
     None \<Rightarrow> State_Monad.return bad_body
   | Some token \<Rightarrow>
     if token = [] then State_Monad.return (WriteError 400 ''token is required'')
     else do {
       row \<leftarrow> select_row (\<lambda>w. find_where (usable w (hashToken cy token)) (email_confirmations w));
       case row of Inl _ \<Rightarrow> State_Monad.return (WriteError 400 ''invalid or expired confirmation link'')
       | Inr t \<Rightarrow> do {
           r \<leftarrow> exec_world (\<lambda>w. w\<lparr>email_confirmations :=
               use_mailed (\<lambda>t. mt_token_hash t = hashToken cy token) w (email_confirmations w)\<rparr>);
           case r of Inl _ \<Rightarrow> State_Monad.return (WriteError 500 ''failed to process confirmation'')
           | Inr _ \<Rightarrow> do {
               r \<leftarrow> exec_users (\<lambda>u. u_id u = mt_user_id t) (\<lambda>u. u\<lparr>u_email_verified := True\<rparr>);
               case r of Inl _ \<Rightarrow> State_Monad.return (WriteError 500 ''failed to verify email'')
               | Inr _ \<Rightarrow> do {
                   (if emailBackend a = None then State_Monad.return () else do {
                      row \<leftarrow> select_row (\<lambda>w. find_where (\<lambda>u. u_id u = mt_user_id t) (users w));
                      case row of Inl _ \<Rightarrow> State_Monad.return ()
                      | Inr u \<Rightarrow> do { _ \<leftarrow> service (EmailWelcome (u_email u)); State_Monad.return () } });
                   State_Monad.return (WriteJSON 200 ''Email confirmed successfully. You can now sign in.'') } } }
     })"

definition resend_answer :: "string response" where
  "resend_answer = WriteJSON 200 ''If an unverified account with that email exists, we've sent a confirmation link''"

definition ResendConfirmation :: "auth_config \<Rightarrow> crypto \<Rightarrow> string option \<Rightarrow> string option \<Rightarrow> string response prog" where
  "ResendConfirmation a cy random body = (case body of
     None \<Rightarrow> State_Monad.return bad_body
   | Some email \<Rightarrow>
     if email = [] then State_Monad.return (WriteError 400 ''email is required'')
     else if \<not> can_mail a then State_Monad.return (WriteError 400 ''email backend not configured'')
     else do {
       row \<leftarrow> select_row (\<lambda>w. find_where (\<lambda>u. u_email u = email) (users w));
       case row of Inl _ \<Rightarrow> State_Monad.return resend_answer
       | Inr u \<Rightarrow>
         if u_email_verified u then State_Monad.return resend_answer
         else do { _ \<leftarrow> confirm_link a cy (u_id u) email random; State_Monad.return resend_answer }
     })"

subsection \<open>The caller's settings\<close>

record update_user_request =
  uu_Name :: string
  uu_CurrentPassword :: string
  uu_NewPassword :: string
  uu_TranscriptionLanguage :: string
  uu_NoiseReduction :: "bool option"
  uu_RetentionDays :: "int option"

text \<open>Each part of the request: nothing when it is done or absent, else the answer that ends the request.\<close>

definition update_column :: "string \<Rightarrow> (user \<Rightarrow> user) \<Rightarrow> string \<Rightarrow> string response option prog" where
  "update_column userID f failed = do {
     r \<leftarrow> exec_users (\<lambda>u. u_id u = userID) f;
     State_Monad.return (case r of Inl _ \<Rightarrow> Some (WriteError 500 failed) | Inr _ \<Rightarrow> None)
   }"

definition change_language :: "string \<Rightarrow> string \<Rightarrow> string response option prog" where
  "change_language userID l =
     (if l = [] then State_Monad.return None
      else if \<not> IsValidTranscriptionLanguage l then State_Monad.return (Some (WriteError 400 ''invalid transcription language''))
      else update_column userID (\<lambda>u. u\<lparr>u_transcription_language := l\<rparr>) ''failed to update transcription language'')"

definition change_noise :: "string \<Rightarrow> bool option \<Rightarrow> string response option prog" where
  "change_noise userID b = (case b of None \<Rightarrow> State_Monad.return None
     | Some n \<Rightarrow> update_column userID (\<lambda>u. u\<lparr>u_noise_reduction := n\<rparr>) ''failed to update noise reduction'')"

definition change_retention :: "string \<Rightarrow> int option \<Rightarrow> string response option prog" where
  "change_retention userID d = (case d of None \<Rightarrow> State_Monad.return None
     | Some n \<Rightarrow>
       if validate_RetentionDays n \<noteq> [] then State_Monad.return (Some (WriteError 400 (validate_RetentionDays n)))
       else update_column userID (\<lambda>u. u\<lparr>u_retention_days := n\<rparr>) ''failed to update retention days'')"

definition change_password :: "crypto \<Rightarrow> string \<Rightarrow> string \<Rightarrow> string \<Rightarrow> string response option prog" where
  "change_password cy userID old pw =
     (if pw = [] then State_Monad.return None
      else if old = [] then State_Monad.return (Some (WriteError 400 ''current password is required to set a new password''))
      else if validate_Password pw \<noteq> [] then State_Monad.return (Some (WriteError 400 (validate_Password pw)))
      else do {
        row \<leftarrow> select_row (\<lambda>w. find_where (\<lambda>u. u_id u = userID) (users w));
        case row of Inl _ \<Rightarrow> State_Monad.return (Some (WriteError 500 ''failed to verify password''))
        | Inr u \<Rightarrow>
          if \<not> CompareHashAndPassword cy (u_password u) old
            then State_Monad.return (Some (WriteError 401 ''current password is incorrect''))
          else case GenerateFromPassword cy pw of
            None \<Rightarrow> State_Monad.return (Some (WriteError 500 ''failed to hash password''))
          | Some hashed \<Rightarrow> do {
              r \<leftarrow> set_password userID hashed;
              case r of Inl _ \<Rightarrow> State_Monad.return (Some (WriteError 500 ''failed to update password''))
              | Inr _ \<Rightarrow> do { end_sessions userID; State_Monad.return None } }
      })"

definition change_name :: "string \<Rightarrow> string \<Rightarrow> string response option prog" where
  "change_name userID n =
     (if n = [] then State_Monad.return None
      else if validate_Name n \<noteq> [] then State_Monad.return (Some (WriteError 400 (validate_Name n)))
      else update_column userID (\<lambda>u. u\<lparr>u_name := n\<rparr>) ''failed to update name'')"

text \<open>Parts in the order of the code; the first that ends the request keeps what the parts before it wrote.\<close>

fun in_turn :: "'b response option prog list \<Rightarrow> 'b response \<Rightarrow> 'b response prog" where
  "in_turn [] answer = State_Monad.return answer"
| "in_turn (m # ms) answer = do { r \<leftarrow> m; case r of Some resp \<Rightarrow> State_Monad.return resp | None \<Rightarrow> in_turn ms answer }"

definition UpdateUser :: "crypto \<Rightarrow> string \<Rightarrow> update_user_request option \<Rightarrow> string response prog" where
  "UpdateUser cy userID body = (case body of
     None \<Rightarrow> State_Monad.return bad_body
   | Some req \<Rightarrow>
     if uu_Name req = [] \<and> uu_NewPassword req = [] \<and> uu_TranscriptionLanguage req = [] \<and>
        uu_NoiseReduction req = None \<and> uu_RetentionDays req = None
       then State_Monad.return (WriteError 400 ''nothing to update'')
     else in_turn [change_language userID (uu_TranscriptionLanguage req), change_noise userID (uu_NoiseReduction req),
         change_retention userID (uu_RetentionDays req),
         change_password cy userID (uu_CurrentPassword req) (uu_NewPassword req), change_name userID (uu_Name req)]
       (WriteJSON 200 ''Settings updated''))"

record user_response =
  us_Name :: string
  us_Email :: string
  us_TranscriptionLanguage :: string
  us_NoiseReduction :: bool
  us_RetentionDays :: int

definition GetUser :: "string \<Rightarrow> user_response response prog" where
  "GetUser userID = do {
     row \<leftarrow> select_row (\<lambda>w. find_where (\<lambda>u. u_id u = userID) (users w));
     State_Monad.return (case row of Inl _ \<Rightarrow> WriteError 404 ''user not found''
       | Inr u \<Rightarrow> WriteJSON 200 \<lparr>us_Name = u_name u, us_Email = u_email u,
           us_TranscriptionLanguage = u_transcription_language u, us_NoiseReduction = u_noise_reduction u,
           us_RetentionDays = u_retention_days u\<rparr>)
   }"

subsection \<open>Who calls\<close>

text \<open>The value of the \<open>Authorization\<close> header, empty when there is none; the user, or the answer 401.\<close>

definition auth_Middleware :: "jwt_lib \<Rightarrow> auth_config \<Rightarrow> string \<Rightarrow> ('b response + string) prog" where
  "auth_Middleware j a authHeader = do {
     w \<leftarrow> State_Monad.get;
     State_Monad.return (
       if authHeader = [] then Inl (WriteError 401 ''authorization header required'')
       else if \<not> has_prefix authHeader ''Bearer '' then Inl (WriteError 401 ''invalid authorization header format'')
       else case ValidateToken j (now w) (jwtSecret a) (trim_prefix authHeader ''Bearer '') of
         None \<Rightarrow> Inl (WriteError 401 ''invalid token'')
       | Some cl \<Rightarrow> if cl_TokenType cl \<noteq> ''access'' then Inl (WriteError 401 ''invalid token type'') else Inr (cl_UserID cl))
   }"

subsection \<open>API keys\<close>

definition maxAPIKeys :: nat where "maxAPIKeys = 10"

definition HashAPIKey :: "crypto \<Rightarrow> string \<Rightarrow> string" where
  "HashAPIKey cy key = EncodeToString (Sum256 cy key)"

definition insert_api_key :: "api_key \<Rightarrow> (db_error + api_key) prog" where
  "insert_api_key k = db_stmt (\<lambda>w.
     if ak_id k \<in> ak_id ` set (api_keys w) \<or> ak_key_hash k \<in> ak_key_hash ` set (api_keys w) then (Inl UniqueViolation, w)
     else (Inr (k\<lparr>ak_created_at := now w\<rparr>), w\<lparr>api_keys := api_keys w @ [k\<lparr>ak_created_at := now w\<rparr>]\<rparr>))"

record api_key_response =
  kr_ID :: string
  kr_Key :: string
  kr_Name :: string
  kr_CreatedAt :: time

text \<open>\<open>random\<close> are the 32 random bytes.\<close>

definition GenerateAPIKey :: "crypto \<Rightarrow> string \<Rightarrow> string \<Rightarrow> string option \<Rightarrow> string option \<Rightarrow> api_key_response response prog" where
  "GenerateAPIKey cy userID newID random body = (case body of
     None \<Rightarrow> State_Monad.return bad_body
   | Some name \<Rightarrow>
     if validate_APIKeyName name \<noteq> [] then State_Monad.return (WriteError 400 (validate_APIKeyName name))
     else do {
       r \<leftarrow> select_rows (\<lambda>w. count_where (\<lambda>k. ak_user_id k = userID) (api_keys w));
       case r of Inl _ \<Rightarrow> State_Monad.return (WriteError 500 ''failed to check key count'')
       | Inr n \<Rightarrow>
         if n \<ge> maxAPIKeys then State_Monad.return (WriteError 400 ''maximum number of API keys reached'')
         else case random of None \<Rightarrow> State_Monad.return (WriteError 500 ''failed to generate API key'')
         | Some bytes \<Rightarrow>
           let plaintext = ''sr_'' @ EncodeToString bytes in do {
             row \<leftarrow> insert_api_key \<lparr>ak_id = newID, ak_user_id = userID, ak_key_hash = HashAPIKey cy plaintext,
                 ak_name = name, ak_created_at = 0, ak_last_used_at = None\<rparr>;
             State_Monad.return (case row of Inl _ \<Rightarrow> WriteError 500 ''failed to create API key''
               | Inr k \<Rightarrow> WriteJSON 201 \<lparr>kr_ID = ak_id k, kr_Key = plaintext, kr_Name = name, kr_CreatedAt = ak_created_at k\<rparr>)
           }
     })"

record api_key_item =
  ki_ID :: string
  ki_Name :: string
  ki_CreatedAt :: time
  ki_LastUsedAt :: "time option"

definition ListAPIKeys :: "string \<Rightarrow> api_key_item list response prog" where
  "ListAPIKeys userID = do {
     r \<leftarrow> select_rows (\<lambda>w. sort_key (\<lambda>k. - ak_created_at k) (filter (\<lambda>k. ak_user_id k = userID) (api_keys w)));
     State_Monad.return (case r of Inl _ \<Rightarrow> WriteError 500 ''failed to list API keys''
       | Inr ks \<Rightarrow> WriteJSON 200 (map (\<lambda>k. \<lparr>ki_ID = ak_id k, ki_Name = ak_name k, ki_CreatedAt = ak_created_at k,
           ki_LastUsedAt = ak_last_used_at k\<rparr>) ks))
   }"

definition DeleteAPIKey :: "string \<Rightarrow> string \<Rightarrow> unit response prog" where
  "DeleteAPIKey userID keyID = do {
     r \<leftarrow> db_stmt (\<lambda>w. let P = (\<lambda>k. ak_id k = keyID \<and> ak_user_id k = userID)
       in (Inr (count_where P (api_keys w)), w\<lparr>api_keys := del_where P (api_keys w)\<rparr>));
     State_Monad.return (case r of Inl _ \<Rightarrow> WriteError 500 ''failed to delete API key''
       | Inr n \<Rightarrow> if n = 0 then WriteError 404 ''API key not found'' else WriteHeader 204)
   }"

definition LookupAPIKey :: "crypto \<Rightarrow> string \<Rightarrow> string option prog" where
  "LookupAPIKey cy token =
     (if \<not> has_prefix token ''sr_'' then State_Monad.return None
      else do {
        row \<leftarrow> select_row (\<lambda>w. find_where (\<lambda>k. ak_key_hash k = HashAPIKey cy token) (api_keys w));
        case row of Inl _ \<Rightarrow> State_Monad.return None
        | Inr k \<Rightarrow> do { spawn (JobTouchApiKey (HashAPIKey cy token)); State_Monad.return (Some (ak_user_id k)) }
      })"

definition touch_api_key :: "string \<Rightarrow> unit prog" where
  "touch_api_key keyHash = do {
     _ \<leftarrow> exec_world (\<lambda>w. w\<lparr>api_keys :=
       upd_where (\<lambda>k. ak_key_hash k = keyHash) (\<lambda>k. k\<lparr>ak_last_used_at := Some (now w)\<rparr>) (api_keys w)\<rparr>);
     State_Monad.return () }"

text \<open>The list of videos takes either: an API key first, else a bearer token (\<open>server.go\<close>).\<close>

definition apiKeyOrJWTMiddleware :: "jwt_lib \<Rightarrow> auth_config \<Rightarrow> crypto \<Rightarrow> string \<Rightarrow> ('b response + string) prog" where
  "apiKeyOrJWTMiddleware j a cy authHeader = do {
     found \<leftarrow> (if has_prefix authHeader ''Bearer '' then LookupAPIKey cy (trim_prefix authHeader ''Bearer '')
       else State_Monad.return None);
     case found of Some userID \<Rightarrow> State_Monad.return (Inr userID) | None \<Rightarrow> auth_Middleware j a authHeader
   }"

end
