(* ===== verification/Account_Facts.thy ===== *)
theory Account_Facts
  imports Accounts Folders_Tags
begin

text \<open>
  What the account handlers guarantee: a refresh token works once, a password reset ends every session, and
  answers do not tell whether an address has an account; and the places where they do less than they mean to.
\<close>

subsection \<open>A token that was spent stays spent\<close>

definition spent :: "string \<Rightarrow> world \<Rightarrow> bool" where
  "spent tid w \<longleftrightarrow> tid \<in> rt_token_id ` set (refresh_tokens w) \<and>
     list_all (\<lambda>t. rt_token_id t = tid \<longrightarrow> rt_revoked t) (refresh_tokens w)"

lemma spent_tick [simp]: "spent tid (tick w) = spent tid w"
  by (simp add: spent_def)

lemma spent_other [simp]:
  "spent tid (w\<lparr>users := x1\<rparr>) = spent tid w" "spent tid (w\<lparr>password_resets := x2\<rparr>) = spent tid w"
  "spent tid (w\<lparr>email_confirmations := x2\<rparr>) = spent tid w" "spent tid (w\<lparr>api_keys := x3\<rparr>) = spent tid w"
  "spent tid (w\<lparr>effects := x4\<rparr>) = spent tid w" "spent tid (w\<lparr>jobs := x5\<rparr>) = spent tid w"
  "spent tid (w\<lparr>now := x6\<rparr>) = spent tid w" "spent tid (w\<lparr>faults := x7\<rparr>) = spent tid w"
  by (simp_all add: spent_def)

lemma revoked_ids: "rt_token_id ` set (upd_where P (\<lambda>r. r\<lparr>rt_revoked := True\<rparr>) rs) = rt_token_id ` set rs"
  by (metis (no_types, lifting) list.set_map map_upd_where refresh_token.select_convs(1) refresh_token.surjective refresh_token.update_convs(4))

lemma spent_revoke:
  "spent tid w \<Longrightarrow> spent tid (t\<lparr>refresh_tokens := upd_where P (\<lambda>r. r\<lparr>rt_revoked := True\<rparr>) (refresh_tokens w)\<rparr>)"
  by (auto simp: spent_def list_all_iff set_upd_where image_image intro!: rev_image_eqI)

lemma insert_refresh_spent: "preserves (spent tid) (insert_refresh t u)"
  unfolding preserves_wp insert_refresh_def by (auto simp: spent_def split: option.split)

lemma issue_spent: "preserves (spent tid) (issue_answer j a t u)"
  unfolding preserves_wp issue_answer_def IssueTokens_def
  by (auto split: option.split sum.split intro!: wp_preserves [OF insert_refresh_spent])

lemma end_sessions_spent: "preserves (spent tid) (end_sessions u)"
  unfolding preserves_wp end_sessions_def revoke_of_def delete_keys_of_def
  by (auto split: option.split intro!: spent_revoke)

lemma accounts_spent:
  "preserves (spent tid) (Register a cy P i rnd b1)"
  "preserves (spent tid) (Login j a cy t b2)"
  "preserves (spent tid) (Refresh j a cks t)"
  "preserves (spent tid) (Logout j a cks)"
  "preserves (spent tid) (ForgotPassword a cy rnd b3)"
  "preserves (spent tid) (ResetPassword cy b4)"
  "preserves (spent tid) (ConfirmEmail a cy b5)"
  "preserves (spent tid) (ResendConfirmation a cy rnd b6)"
  unfolding preserves_wp Register_def insert_user_def confirm_link_def Login_def Refresh_def validateStoredRefreshToken_def
    rotate_def revokeRefreshToken_def Logout_def ForgotPassword_def ResetPassword_def set_password_def exec_users_def
    ConfirmEmail_def ResendConfirmation_def
  by (auto split: option.split sum.split db_error.split intro!: wp_preserves [OF issue_spent] wp_preserves [OF end_sessions_spent] spent_revoke)

lemma column_spent: "preserves (spent tid) (update_column uid f msg)"
  unfolding preserves_wp update_column_def exec_users_def by (simp split: option.split)

lemma change_password_spent: "preserves (spent tid) (change_password cy uid old new)"
  unfolding preserves_wp change_password_def set_password_def exec_users_def
  by (auto split: option.split intro!: wp_preserves [OF end_sessions_spent])

lemma return_preserves: "preserves (I :: world \<Rightarrow> bool) (State_Monad.return x)"
  by (simp add: preserves_wp)

lemma in_turn_preserves: "list_all (preserves I) ms \<Longrightarrow> preserves I (in_turn ms answer)"
  by (induction ms answer rule: in_turn.induct) (auto simp: preserves_wp split: option.split intro: wp_preserves)

lemma UpdateUser_spent: "preserves (spent tid) (UpdateUser cy uid b)"
proof -
  have "preserves (spent tid) (change_language uid l)" "preserves (spent tid) (change_noise uid n)"
    "preserves (spent tid) (change_retention uid d)" "preserves (spent tid) (change_name uid s)" for l n d s
    by (simp_all add: change_language_def change_noise_def change_retention_def change_name_def column_spent return_preserves
        split: option.split)
  then show ?thesis
    unfolding UpdateUser_def
    by (simp add: in_turn_preserves change_password_spent return_preserves del: in_turn.simps split: option.split)
qed

lemma keys_spent:
  "preserves (spent tid) (GenerateAPIKey cy uid i rnd b2)"
  "preserves (spent tid) (DeleteAPIKey uid k)"
  "preserves (spent tid) (touch_api_key h)"
  unfolding preserves_wp GenerateAPIKey_def insert_api_key_def DeleteAPIKey_def touch_api_key_def Let_def
  by (simp_all split: option.split)

lemmas settings_spent = UpdateUser_spent keys_spent

text \<open>
  Everything that may happen to the account tables between two requests: any handler, with any input, and any
  passing of time and failure of statements.
\<close>

inductive account_step :: "jwt_lib \<Rightarrow> auth_config \<Rightarrow> crypto \<Rightarrow> world \<Rightarrow> world \<Rightarrow> bool" for j a cy where
  step_register: "run_state (Register a cy P i rnd b1) w = (r1, w') \<Longrightarrow> account_step j a cy w w'"
| step_login: "run_state (Login j a cy t b2) w = (r2, w') \<Longrightarrow> account_step j a cy w w'"
| step_refresh: "run_state (Refresh j a cks t) w = (r2, w') \<Longrightarrow> account_step j a cy w w'"
| step_logout: "run_state (Logout j a cks) w = (r3, w') \<Longrightarrow> account_step j a cy w w'"
| step_forgot: "run_state (ForgotPassword a cy rnd b3) w = (r4, w') \<Longrightarrow> account_step j a cy w w'"
| step_reset: "run_state (ResetPassword cy b4) w = (r4, w') \<Longrightarrow> account_step j a cy w w'"
| step_confirm: "run_state (ConfirmEmail a cy b3) w = (r4, w') \<Longrightarrow> account_step j a cy w w'"
| step_resend: "run_state (ResendConfirmation a cy rnd b3) w = (r4, w') \<Longrightarrow> account_step j a cy w w'"
| step_settings: "run_state (UpdateUser cy u b5) w = (r4, w') \<Longrightarrow> account_step j a cy w w'"
| step_key: "run_state (GenerateAPIKey cy u i rnd b3) w = (r6, w') \<Longrightarrow> account_step j a cy w w'"
| step_unkey: "run_state (DeleteAPIKey u i) w = (r3, w') \<Longrightarrow> account_step j a cy w w'"
| step_time: "now w \<le> t1 \<Longrightarrow> account_step j a cy w (w\<lparr>now := t1\<rparr>)"
| step_fault: "account_step j a cy w (w\<lparr>faults := fs\<rparr>)"

lemma preserves_run: "preserves I m \<Longrightarrow> run_state m w = (r, w') \<Longrightarrow> I w \<Longrightarrow> I w'"
  unfolding preserves_def by (metis snd_conv)

lemma step_spent: "account_step j a cy w w' \<Longrightarrow> spent tid w \<Longrightarrow> spent tid w'"
  by (induction rule: account_step.induct)
    (erule accounts_spent [THEN preserves_run] settings_spent [THEN preserves_run], assumption | simp)+

interpretation accounts: machine "spent tid" "account_step j a cy" "spent tid" for tid j a cy
  by unfold_locales (simp_all add: step_spent)

subsection \<open>Refreshing\<close>

text \<open>What the JWT library promises: the claims of a token do not depend on when it is read.\<close>

definition claims_fixed :: "jwt_lib \<Rightarrow> bool" where
  "claims_fixed j \<longleftrightarrow> (\<forall>s t t' tok c c'. ParseWithClaims j s t tok = Some c \<longrightarrow> ParseWithClaims j s t' tok = Some c' \<longrightarrow> c = c')"

lemma stored_there:
  "find_where (\<lambda>t. rt_token_id t = i \<and> rt_user_id t = u) ts = Some t \<Longrightarrow> i \<in> rt_token_id ` set ts"
  by (drule find_where_Some) auto

lemma Refresh_wp:
  "wp (Refresh j a cks t) (\<lambda>r w'. (\<exists>b rc. r = (WriteJSON 200 b, rc)) \<longrightarrow>
     (\<exists>v cl. r_Cookie cks ''refresh_token'' = Some v \<and> ValidateToken j (now w) (jwtSecret a) v = Some cl \<and>
        spent (cl_TokenID cl) w')) w"
proof -
  have rot: "wp (rotate j a t cl) (\<lambda>r w'. (\<exists>b rc. r = (WriteJSON 200 b, rc)) \<longrightarrow> spent (cl_TokenID cl) w') w'"
    if "cl_TokenID cl \<in> rt_token_id ` set (refresh_tokens w')" for cl w'
  proof -
    have "spent (cl_TokenID cl) (s\<lparr>refresh_tokens := upd_where (\<lambda>r. rt_token_id r = cl_TokenID cl) (\<lambda>r. r\<lparr>rt_revoked := True\<rparr>)
        (refresh_tokens w')\<rparr>)" for s
      using that unfolding spent_def by (simp add: revoked_ids) (auto simp: list_all_iff set_upd_where)
    then show ?thesis
      unfolding rotate_def revokeRefreshToken_def
      by (auto split: option.split sum.split intro!: wp_preserves [OF issue_spent])
  qed
  show ?thesis
    unfolding Refresh_def validateStoredRefreshToken_def
    by (auto split: option.split intro!: wp_mono [OF rot] intro: stored_there)
qed

lemma Refresh_spent:
  assumes "r_Cookie cks ''refresh_token'' = Some v" "\<And>t cl'. ValidateToken j t (jwtSecret a) v = Some cl' \<Longrightarrow> cl' = cl"
    and "spent (cl_TokenID cl) w"
  shows "wp (Refresh j a cks t) (\<lambda>r _. r = (WriteError 401 ''invalid refresh token'', None)) w"
proof -
  have "rt_revoked r" if "find_where (\<lambda>r. rt_token_id r = cl_TokenID cl \<and> rt_user_id r = u) (refresh_tokens w) = Some r" for r u
    using find_where_Some [OF that] assms(3) by (simp add: spent_def list_all_iff)
  with assms(1,2) show ?thesis
    unfolding Refresh_def validateStoredRefreshToken_def
    by (auto split: option.split)
qed

text \<open>C3: a refresh token works once: after it was exchanged for a new pair, and whatever happens to the account
  tables then, in any order and with any failures, the same cookie is refused.\<close>

theorem refresh_single_use:
  assumes "claims_fixed j"
    and "run_state (Refresh j a cks t1) w = ((WriteJSON 200 b, rc), w')"
    and "(account_step j a cy)\<^sup>*\<^sup>* w' w''"
  shows "fst (run_state (Refresh j a cks t2) w'') = (WriteError 401 ''invalid refresh token'', None)"
proof -
  obtain v cl where v: "r_Cookie cks ''refresh_token'' = Some v" "ValidateToken j (now w) (jwtSecret a) v = Some cl"
    "spent (cl_TokenID cl) w'"
    using wpI [OF Refresh_wp assms(2)] by auto
  have "cl' = cl" if "ValidateToken j t (jwtSecret a) v = Some cl'" for t cl'
    using that v(2) assms(1) unfolding ValidateToken_def claims_fixed_def by (metis option.distinct(1))
  then have "wp (Refresh j a cks t2) (\<lambda>r _. r = (WriteError 401 ''invalid refresh token'', None)) w''"
    using Refresh_spent [OF v(1)] accounts.run_inv [OF assms(3)] v(3) by blast
  then show ?thesis by (simp add: wp_def split_beta)
qed

definition sample_claims :: claims where
  "sample_claims = \<lparr>cl_UserID = ''u1'', cl_TokenID = ''t1'', cl_TokenType = ''refresh'', cl_ExpiresAt = days 47, cl_IssuedAt = days 40\<rparr>"

definition sample_jwt :: jwt_lib where
  "sample_jwt = \<lparr>SignedString = (\<lambda>s c. cl_TokenType c @ ''-'' @ cl_TokenID c),
     ParseWithClaims = (\<lambda>s t tok. if tok = ''refresh-t1'' \<and> t < days 47 then Some sample_claims else None),
     alg_is_HMAC = (\<lambda>_. True)\<rparr>"

definition sample_auth :: auth_config where
  "sample_auth = \<lparr>registrationEnabled = True, jwtSecret = ''s'', emailBackend = Some True, authBaseURL = ''https://app''\<rparr>"

definition session_world :: world where
  "session_world = sample_world\<lparr>refresh_tokens :=
     [\<lparr>rt_token_id = ''t1'', rt_user_id = ''u1'', rt_expires_at = days 47, rt_revoked = False\<rparr>]\<rparr>"

lemma sample_jwt_fields [simp]:
  "jwtSecret sample_auth = ''s''" "alg_is_HMAC sample_jwt tok" "SignedString sample_jwt s c = cl_TokenType c @ ''-'' @ cl_TokenID c"
  "ParseWithClaims sample_jwt s t tok = (if tok = ''refresh-t1'' \<and> t < days 47 then Some sample_claims else None)"
  "cl_UserID sample_claims = ''u1''" "cl_TokenID sample_claims = ''t1''" "cl_TokenType sample_claims = ''refresh''"
  by (simp_all add: sample_jwt_def sample_auth_def sample_claims_def)

theorem refresh_single_use_witness:
  "\<exists>w'. run_state (Refresh sample_jwt sample_auth [(''refresh_token'', ''refresh-t1'')] (Some ''t2'')) session_world =
     ((WriteJSON 200 (AccessToken ''access-''), Some ''refresh-t2''), w') \<and>
   fst (run_state (Refresh sample_jwt sample_auth [(''refresh_token'', ''refresh-t1'')] (Some ''t3'')) (w'\<lparr>now := days 41\<rparr>)) =
     (WriteError 401 ''invalid refresh token'', None)"
proof -
  have fixed: "claims_fixed sample_jwt" by (simp add: claims_fixed_def)
  have cookie: "r_Cookie [(''refresh_token'', ''refresh-t1'')] ''refresh_token'' = Some ''refresh-t1''"
    by (simp add: parseCookieValue_def Let_def valid_cookie_byte_def)
  obtain w' where first: "run_state (Refresh sample_jwt sample_auth [(''refresh_token'', ''refresh-t1'')] (Some ''t2'')) session_world =
     ((WriteJSON 200 (AccessToken ''access-''), Some ''refresh-t2''), w')" and "now w' = days 40"
    unfolding Refresh_def cookie
    by (simp add: ValidateToken_def session_world_def run_simps run_db_stmt validateStoredRefreshToken_def rotate_def
        revokeRefreshToken_def issue_answer_def IssueTokens_def insert_refresh_def GenerateAccessToken_def
        GenerateRefreshToken_def generateToken_def)
  then have "account_step sample_jwt sample_auth sample_crypto w' (w'\<lparr>now := days 41\<rparr>)" by (intro step_time) simp
  then show ?thesis
    using refresh_single_use [OF fixed first r_into_rtranclp, of sample_crypto "w'\<lparr>now := days 41\<rparr>" "Some ''t3''"] first by blast
qed

subsection \<open>Resetting a password\<close>

lemma end_sessions_run:
  "faults w = [] \<Longrightarrow> snd (run_state (end_sessions u) w) = w\<lparr>refresh_tokens :=
     upd_where (\<lambda>t. rt_user_id t = u \<and> \<not> rt_revoked t) (\<lambda>t. t\<lparr>rt_revoked := True\<rparr>) (refresh_tokens w),
     api_keys := del_where (\<lambda>k. ak_user_id k = u) (api_keys w)\<rparr>"
  by (simp add: end_sessions_def revoke_of_def delete_keys_of_def run_simps)

lemma used_not_usable: "\<not> list_ex (usable w' h) (use_mailed (\<lambda>t. mt_token_hash t = h) w ts)"
proof -
  have "\<not> usable w' h r" if "r \<in> set (use_mailed (\<lambda>t. mt_token_hash t = h) w ts)" for r
    using that unfolding use_mailed_def by (elim in_upd_whereE) (simp add: usable_def split: if_splits)
  then show ?thesis by (simp add: list_ex_iff)
qed

text \<open>C37: a password reset answered 200, when every statement goes through, spent a link that was unused and not
  expired, set the new password of the account it was made for and of no other, revoked every session of that
  account and deleted its API keys.\<close>

theorem password_reset_ends_sessions:
  assumes "faults w = []" "run_state (ResetPassword cy (Some req)) w = (WriteJSON 200 m, w')"
  shows "\<exists>t hashed. t \<in> set (password_resets w) \<and> usable w (hashToken cy (rp_Token req)) t \<and>
    \<not> list_ex (usable w' (hashToken cy (rp_Token req))) (password_resets w') \<and>
    GenerateFromPassword cy (rp_Password req) = Some hashed \<and>
    users w' = upd_where (\<lambda>u. u_id u = mt_user_id t) (\<lambda>u. u\<lparr>u_password := hashed\<rparr>) (users w) \<and>
    list_all (\<lambda>r. rt_user_id r = mt_user_id t \<longrightarrow> rt_revoked r) (refresh_tokens w') \<and>
    list_all (\<lambda>k. ak_user_id k \<noteq> mt_user_id t) (api_keys w')"
proof -
  let ?h = "hashToken cy (rp_Token req)"
  obtain t where t: "find_where (usable w ?h) (password_resets w) = Some t"
    using assms by (auto simp: ResetPassword_def run_simps split: if_splits option.splits)
  obtain hashed where p: "GenerateFromPassword cy (rp_Password req) = Some hashed"
    using assms t by (auto simp: ResetPassword_def run_simps split: if_splits option.splits)
  have w': "w' = snd (run_state (end_sessions (mt_user_id t)) (w\<lparr>password_resets := use_mailed (\<lambda>t. mt_token_hash t = ?h) w (password_resets w),
      users := upd_where (\<lambda>u. u_id u = mt_user_id t) (\<lambda>u. u\<lparr>u_password := hashed\<rparr>) (users w)\<rparr>))"
    using assms t p
    by (auto simp: ResetPassword_def run_simps set_password_def exec_users_def split_beta split: if_splits)
  have "list_all (\<lambda>r. rt_user_id r = mt_user_id t \<longrightarrow> rt_revoked r) (refresh_tokens w')"
    unfolding w' using assms(1) by (simp add: end_sessions_run list_all_iff set_upd_where) auto
  moreover have "list_all (\<lambda>k. ak_user_id k \<noteq> mt_user_id t) (api_keys w')"
    unfolding w' using assms(1) by (simp add: end_sessions_run list_all_iff)
  moreover have "users w' = upd_where (\<lambda>u. u_id u = mt_user_id t) (\<lambda>u. u\<lparr>u_password := hashed\<rparr>) (users w)"
    unfolding w' using assms(1) by (simp add: end_sessions_run)
  moreover have "\<not> list_ex (usable w' ?h) (password_resets w')"
    using assms(1) used_not_usable [of w' ?h w "password_resets w"] unfolding w' by (simp add: end_sessions_run)
  ultimately show ?thesis using find_where_Some [OF t] p by blast
qed

definition reset_world :: world where
  "reset_world = session_world\<lparr>password_resets :=
     [\<lparr>mt_token_hash = hashToken sample_crypto ''link'', mt_user_id = ''u1'', mt_expires_at = days 41, mt_used_at = None\<rparr>]\<rparr>"

theorem password_reset_ends_sessions_witness:
  "list_all rt_revoked (refresh_tokens (snd (run_state (ResetPassword sample_crypto
     (Some \<lparr>rp_Token = ''link'', rp_Password = ''correct horse''\<rparr>)) reset_world)))"
proof -
  let ?r = "\<lparr>rp_Token = ''link'', rp_Password = ''correct horse''\<rparr>"
  have f: "faults reset_world = []" by (simp add: reset_world_def session_world_def)
  have run: "run_state (ResetPassword sample_crypto (Some ?r)) reset_world =
     (WriteJSON 200 ''Password updated successfully'', snd (run_state (ResetPassword sample_crypto (Some ?r)) reset_world))"
    by (rule prod_eqI) (simp_all add: ResetPassword_def run_simps f set_password_def exec_users_def validate_Password_def
        reset_world_def session_world_def usable_def sample_crypto_def end_sessions_def revoke_of_def delete_keys_of_def)
  obtain t where "t \<in> set (password_resets reset_world)"
    "list_all (\<lambda>r. rt_user_id r = mt_user_id t \<longrightarrow> rt_revoked r) (refresh_tokens (snd (run_state (ResetPassword sample_crypto (Some ?r)) reset_world)))"
    using password_reset_ends_sessions [OF f run] by blast
  moreover have "rt_user_id r = ''u1''" if "r \<in> set (refresh_tokens (snd (run_state (ResetPassword sample_crypto (Some ?r)) reset_world)))" for r
    using that by (auto simp: ResetPassword_def run_simps f set_password_def exec_users_def validate_Password_def
        reset_world_def session_world_def usable_def sample_crypto_def end_sessions_def revoke_of_def delete_keys_of_def)
  ultimately show ?thesis by (auto simp: list_all_iff reset_world_def)
qed

subsection \<open>What answers tell\<close>

lemma ForgotPassword_answer:
  "fst (run_state (ForgotPassword a cy rnd (Some email)) w) = (if email = [] then WriteError 400 ''email is required'' else forgot_answer)"
proof -
  have "wp (ForgotPassword a cy rnd (Some email)) (\<lambda>r _. r = (if email = [] then WriteError 400 ''email is required'' else forgot_answer)) w"
    unfolding ForgotPassword_def by (auto split: option.split)
  then show ?thesis by (simp add: wp_def split_beta)
qed

lemma ResendConfirmation_answer:
  "fst (run_state (ResendConfirmation a cy rnd (Some email)) w) =
   (if email = [] then WriteError 400 ''email is required''
    else if can_mail a then resend_answer else WriteError 400 ''email backend not configured'')"
proof -
  have any: "wp (confirm_link a cy u e rnd) Q w" if "\<And>r w. Q r w" for u e w Q using that by (simp add: wp_def split_beta)
  have "wp (ResendConfirmation a cy rnd (Some email)) (\<lambda>r _. r = (if email = [] then WriteError 400 ''email is required''
    else if can_mail a then resend_answer else WriteError 400 ''email backend not configured'')) w"
    unfolding ResendConfirmation_def by (auto split: option.split intro: any)
  then show ?thesis by (simp add: wp_def split_beta)
qed

lemma Login_refused:
  assumes "\<And>u. find_where (\<lambda>u. u_email u = lg_Email req) (users w) = Some u \<Longrightarrow> \<not> CompareHashAndPassword cy (u_password u) (lg_Password req)"
  shows "fst (run_state (Login j a cy t (Some req)) w) =
    (if lg_Email req = [] \<or> lg_Password req = [] then WriteError 400 ''email and password are required''
     else WriteError 401 ''invalid email or password'', None)"
  using assms by (simp add: Login_def run_simps split: option.split)

text \<open>Who does not know a password learns nothing about accounts from the answers: whatever the database holds and
  whichever statement fails, asking for a reset or for a new confirmation is answered the same, and so is a
  sign-in whose password does not fit the account with that address, or for which there is no account.\<close>

theorem account_existence_hidden:
  assumes "\<And>w u. w \<in> {w1, w2} \<Longrightarrow> find_where (\<lambda>u. u_email u = lg_Email req) (users w) = Some u \<Longrightarrow>
      \<not> CompareHashAndPassword cy (u_password u) (lg_Password req)"
  shows "fst (run_state (Login j a cy t1 (Some req)) w1) = fst (run_state (Login j a cy t2 (Some req)) w2) \<and>
    fst (run_state (ForgotPassword a cy r1 (Some email)) w1) = fst (run_state (ForgotPassword a cy r2 (Some email)) w2) \<and>
    fst (run_state (ResendConfirmation a cy r1 (Some email)) w1) = fst (run_state (ResendConfirmation a cy r2 (Some email)) w2)"
proof -
  have "fst (run_state (Login j a cy t (Some req)) w) =
    (if lg_Email req = [] \<or> lg_Password req = [] then WriteError 400 ''email and password are required''
     else WriteError 401 ''invalid email or password'', None)" if "w \<in> {w1, w2}" for t w
    by (rule Login_refused) (rule assms [OF that])
  then show ?thesis by (simp add: ForgotPassword_answer ResendConfirmation_answer)
qed

theorem account_existence_hidden_witness:
  "fst (run_state (Login sample_jwt sample_auth sample_crypto (Some ''t2'') (Some \<lparr>lg_Email = ''a@x'', lg_Password = ''guess''\<rparr>)) sample_world) =
   fst (run_state (Login sample_jwt sample_auth sample_crypto None (Some \<lparr>lg_Email = ''a@x'', lg_Password = ''guess''\<rparr>)) (empty_world 0))"
proof -
  have "\<not> CompareHashAndPassword sample_crypto (u_password u) ''guess''"
    if "w \<in> {sample_world, empty_world 0}" "find_where (\<lambda>u. u_email u = ''a@x'') (users w) = Some u" for w u
    using that by (auto simp: sample_crypto_def empty_world_def sample_user_def split: if_splits)
  then show ?thesis
    using account_existence_hidden [of sample_world "empty_world 0" "\<lparr>lg_Email = ''a@x'', lg_Password = ''guess''\<rparr>" sample_crypto] by simp
qed

subsection \<open>What modelling showed\<close>

text \<open>
  The statements that end the sessions after a reset may fail and are only logged: the caller is told that the
  password was changed while the sessions and keys they wanted to cut off live on.
\<close>

lemma reset_answers_although_sessions_live:
  "\<exists>w'. run_state (ResetPassword sample_crypto (Some \<lparr>rp_Token = ''link'', rp_Password = ''correct horse''\<rparr>))
     (reset_world\<lparr>faults := [None, None, None, Some ''connection reset'']\<rparr>) =
     (WriteJSON 200 ''Password updated successfully'', w') \<and> refresh_tokens w' = refresh_tokens session_world"
  by (simp add: ResetPassword_def run_simps set_password_def exec_users_def validate_Password_def next_fault_def tick_def
      reset_world_def session_world_def usable_def sample_crypto_def end_sessions_def revoke_of_def delete_keys_of_def)

text \<open>Sign-in treats a failing check for enforced SSO like "no workspace enforces it".\<close>

lemma sso_check_fails_open:
  assumes "find_where (\<lambda>u. u_email u = lg_Email req) (users w) = Some u" "u_email_verified u"
    and "CompareHashAndPassword cy (u_password u) (lg_Password req)" "lg_Email req \<noteq> []" "lg_Password req \<noteq> []"
    and "faults w = [None, Some ''timeout'']" "tid \<notin> rt_token_id ` set (refresh_tokens w)"
  shows "\<exists>access refresh. fst (run_state (Login j a cy (Some tid) (Some req)) w) = (WriteJSON 200 (AccessToken access), Some refresh)"
  using assms by (simp add: Login_def run_simps run_db_stmt issue_answer_def IssueTokens_def insert_refresh_def next_fault_def tick_def)

text \<open>
  Looking a refresh token up and revoking it are two statements, and the second does not check what the
  first saw: two requests with one cookie that both look first are both answered with new sessions.
\<close>

lemma refresh_race:
  "run_state (do {
     first \<leftarrow> validateStoredRefreshToken ''u1'' ''t1'';
     second \<leftarrow> validateStoredRefreshToken ''u1'' ''t1'';
     r1 \<leftarrow> rotate sample_jwt sample_auth (Some ''t2'') sample_claims;
     r2 \<leftarrow> rotate sample_jwt sample_auth (Some ''t3'') sample_claims;
     State_Monad.return (first, second, snd r1, snd r2) }) session_world =
   ((True, True, Some ''refresh-t2'', Some ''refresh-t3''), snd (run_state (do {
     _ \<leftarrow> rotate sample_jwt sample_auth (Some ''t2'') sample_claims;
     rotate sample_jwt sample_auth (Some ''t3'') sample_claims }) session_world))"
  by (simp add: session_world_def run_simps run_db_stmt validateStoredRefreshToken_def rotate_def
      revokeRefreshToken_def issue_answer_def IssueTokens_def insert_refresh_def GenerateAccessToken_def
      GenerateRefreshToken_def generateToken_def)

end
