(* ===== verification/Organizations.thy ===== *)
theory Organizations
  imports Accounts Folders_Tags
begin

text \<open>
  Workspaces (\<open>internal/organization/\<close>): creation, settings, deletion, members and invites, and the
  middleware that puts a workspace and a role into a request. Keys the database makes are inputs; an id from
  the path is text and goes through the database's \<open>uuid_in\<close>, while the code compares it as text.
\<close>

record org_env =
  uuid_in :: "string \<Rightarrow> string option" \<comment> \<open>the key a text denotes, \<open>None\<close> when it denotes none\<close>
  EqualFold :: "string \<Rightarrow> string \<Rightarrow> bool" \<comment> \<open>of \<open>strings\<close>: equal but for case\<close>
  org_baseURL :: string
  hasEmailSender :: bool

subsection \<open>Slugs\<close>

text \<open>
  \<open>strings.ToLower\<close> as far as a slug keeps it: letters of ASCII, and the two other code points whose lower
  case is one of them (U+0130 and U+212A). All other bytes of a name become dashes.
\<close>

function slug_lower :: "string \<Rightarrow> string" where
  "slug_lower [] = []"
| "slug_lower (c # s) =
     (if c = CHR 0xC4 \<and> take 1 s = [CHR 0xB0] then CHR ''i'' # slug_lower (drop 1 s)
      else if c = CHR 0xE2 \<and> take 2 s = [CHR 0x84, CHR 0xAA] then CHR ''k'' # slug_lower (drop 2 s)
      else (if byte_in 0x41 0x5A c then char_of (of_char c + 32 :: nat) else c) # slug_lower s)"
  by pat_completeness auto

termination by (relation "measure length") auto

definition slug_char :: "char \<Rightarrow> bool" where
  "slug_char c \<longleftrightarrow> byte_in 0x61 0x7A c \<or> byte_in 0x30 0x39 c"

text \<open>\<open>[^a-z0-9]+\<close> replaced by a dash; the flag tells that the run before was replaced already.\<close>

fun dash_runs :: "bool \<Rightarrow> string \<Rightarrow> string" where
  "dash_runs b [] = []"
| "dash_runs b (c # s) = (if slug_char c then c # dash_runs False s
     else if b then dash_runs True s else CHR ''-'' # dash_runs True s)"

definition trim_dashes :: "string \<Rightarrow> string" where
  "trim_dashes s = rev (dropWhile (\<lambda>c. c = CHR ''-'') (rev (dropWhile (\<lambda>c. c = CHR ''-'') s)))"

definition generateSlug :: "string \<Rightarrow> string" where
  "generateSlug name = (let slug = trim_dashes (dash_runs False (slug_lower name)) in if slug = [] then ''org'' else slug)"

subsection \<open>Memberships\<close>

text \<open>Membership of a user in a workspace; the workspace comes from the path.\<close>

definition member_of :: "org_env \<Rightarrow> string \<Rightarrow> string \<Rightarrow> membership \<Rightarrow> bool" where
  "member_of e orgID userID m \<longleftrightarrow> uuid_in e orgID = Some (m_organization_id m) \<and> m_user_id m = userID"

text \<open>A statement whose parameters hold text that denotes no key fails.\<close>

definition with_uuid :: "org_env \<Rightarrow> string \<Rightarrow> (db_error + 'a) prog \<Rightarrow> (db_error + 'a) prog" where
  "with_uuid e text m = (if uuid_in e text = None
     then do { f \<leftarrow> call; State_Monad.return (Inl (DbFail (case f of Some x \<Rightarrow> x | None \<Rightarrow> ''invalid input syntax for type uuid''))) }
     else m)"

text \<open>The first thing every handler does: the caller's role, or the answer that ends the request.\<close>

definition caller_role :: "org_env \<Rightarrow> string \<Rightarrow> string \<Rightarrow> ('b response + string) prog" where
  "caller_role e orgID userID = do {
     row \<leftarrow> with_uuid e orgID (select_row (\<lambda>w. find_where (member_of e orgID userID) (members w)));
     State_Monad.return (case row of
         Inl NoRows \<Rightarrow> Inl (WriteError 404 ''organization not found'')
       | Inl _ \<Rightarrow> Inl (WriteError 500 ''failed to verify membership'')
       | Inr m \<Rightarrow> Inr (m_role m))
   }"

definition member_count :: "string \<Rightarrow> world \<Rightarrow> nat" where
  "member_count org w = count_where (\<lambda>m. m_organization_id m = org \<and> m_role m \<noteq> ''viewer'') (members w)"

subsection \<open>Creating a workspace\<close>

record org_response =
  or_ID :: string
  or_Name :: string
  or_Slug :: string
  or_SubscriptionPlan :: string
  or_CreatedAt :: time
  or_UpdatedAt :: time

definition insert_org :: "string \<Rightarrow> string \<Rightarrow> string \<Rightarrow> (db_error + organization) prog" where
  "insert_org newID name slug = db_stmt (\<lambda>w.
     let g = \<lparr>o_id = newID, o_name = name, o_slug = slug, o_plan = ''free'', o_subscription_id = None,
              o_customer_id = None, o_retention_days = 0, o_created_at = now w, o_updated_at = now w\<rparr>
     in if newID \<in> o_id ` set (organizations w) \<or> slug \<in> o_slug ` set (organizations w) then (Inl UniqueViolation, w)
        else (Inr g, w\<lparr>organizations := organizations w @ [g]\<rparr>))"

text \<open>\<open>PRIMARY KEY (organization_id, user_id)\<close>\<close>

definition insert_member :: "string \<Rightarrow> string \<Rightarrow> string \<Rightarrow> (db_error + unit) prog" where
  "insert_member org user role = db_stmt (\<lambda>w.
     if list_ex (\<lambda>m. m_organization_id m = org \<and> m_user_id m = user) (members w) then (Inl UniqueViolation, w)
     else (Inr (), w\<lparr>members := members w @
       [\<lparr>m_organization_id = org, m_user_id = user, m_role = role, m_joined_at = now w\<rparr>]\<rparr>))"

text \<open>Two tries: the slug of the name, then that slug with a random suffix (\<open>None\<close> when the generator fails).\<close>

definition insert_org_retry :: "string \<Rightarrow> string \<Rightarrow> string \<Rightarrow> string option \<Rightarrow> organization option prog" where
  "insert_org_retry newID name slug suffix = do {
     row \<leftarrow> insert_org newID name slug;
     case row of
       Inr g \<Rightarrow> State_Monad.return (Some g)
     | Inl UniqueViolation \<Rightarrow> (case suffix of None \<Rightarrow> State_Monad.return None
         | Some s \<Rightarrow> do { row \<leftarrow> insert_org newID name (slug @ ''-'' @ s); State_Monad.return (row_of row) })
     | Inl _ \<Rightarrow> State_Monad.return None
   }"

definition Create_org :: "string \<Rightarrow> string \<Rightarrow> string option \<Rightarrow> string option \<Rightarrow> org_response response prog" where
  "Create_org userID newID suffix body = (case body of
     None \<Rightarrow> State_Monad.return bad_body
   | Some raw \<Rightarrow>
     let name = trim_space raw in
     if name = [] then State_Monad.return (WriteError 400 ''organization name is required'')
     else if validate_OrgName name \<noteq> [] then State_Monad.return (WriteError 400 (validate_OrgName name))
     else do {
       row \<leftarrow> select_row (\<lambda>w. find_where (\<lambda>u. u_id u = userID) (users w));
       early \<leftarrow> (if (case row of Inl _ \<Rightarrow> True | Inr u \<Rightarrow> u_plan u = ''free'')
         then do {
           r \<leftarrow> select_rows (\<lambda>w. count_where (\<lambda>m. m_user_id m = userID \<and> m_role m = ''owner'') (members w));
           State_Monad.return (case r of Inl _ \<Rightarrow> Some (WriteError 500 ''failed to check organization limit'')
             | Inr n \<Rightarrow> if int n \<ge> MaxOrgsOwned Free
                 then Some (WriteError 403 (''free plan allows '' @ itoa (MaxOrgsOwned Free) @ '' organization'')) else None) }
         else State_Monad.return None);
       case early of Some resp \<Rightarrow> State_Monad.return resp
       | None \<Rightarrow>
         let slug = generateSlug name in
         if validate_OrgSlug slug \<noteq> [] then State_Monad.return (WriteError 400 (validate_OrgSlug slug))
         else do {
           made \<leftarrow> insert_org_retry newID name slug suffix;
           case made of None \<Rightarrow> State_Monad.return (WriteError 500 ''failed to create organization'')
           | Some g \<Rightarrow> do {
               r \<leftarrow> insert_member (o_id g) userID ''owner'';
               State_Monad.return (case r of Inl _ \<Rightarrow> WriteError 500 ''failed to add owner to organization''
                 | Inr _ \<Rightarrow> WriteJSON 201 \<lparr>or_ID = o_id g, or_Name = name, or_Slug = o_slug g, or_SubscriptionPlan = ''free'',
                     or_CreatedAt = o_created_at g, or_UpdatedAt = o_updated_at g\<rparr>) }
         }
     })"

subsection \<open>Reading and changing it\<close>

record org_detail =
  od_ID :: string
  od_Name :: string
  od_Slug :: string
  od_SubscriptionPlan :: string
  od_RetentionDays :: int
  od_Role :: string
  od_MemberCount :: nat
  od_CreatedAt :: time
  od_UpdatedAt :: time

definition org_detail_of :: "organization \<Rightarrow> string \<Rightarrow> world \<Rightarrow> org_detail" where
  "org_detail_of g role w = \<lparr>od_ID = o_id g, od_Name = o_name g, od_Slug = o_slug g, od_SubscriptionPlan = o_plan g,
     od_RetentionDays = o_retention_days g, od_Role = role, od_MemberCount = member_count (o_id g) w,
     od_CreatedAt = o_created_at g, od_UpdatedAt = o_updated_at g\<rparr>"

text \<open>The workspaces of a user with the user's role in each: a join, in the database's order of names.\<close>

definition List_org :: "(string \<Rightarrow> nat) \<Rightarrow> string \<Rightarrow> org_detail list response prog" where
  "List_org collation userID = do {
     r \<leftarrow> select_rows (\<lambda>w. sort_key (\<lambda>d. collation (od_Name d)) (concat (map (\<lambda>g.
         map (\<lambda>m. org_detail_of g (m_role m) w) (filter (\<lambda>m. m_organization_id m = o_id g \<and> m_user_id m = userID) (members w)))
         (organizations w))));
     State_Monad.return (case r of Inl _ \<Rightarrow> WriteError 500 ''failed to list organizations'' | Inr items \<Rightarrow> WriteJSON 200 items)
   }"

definition Get_org :: "org_env \<Rightarrow> string \<Rightarrow> string \<Rightarrow> org_detail response prog" where
  "Get_org e userID orgID = do {
     row \<leftarrow> with_uuid e orgID (select_row (\<lambda>w.
         Option.bind (find_where (\<lambda>g. uuid_in e orgID = Some (o_id g)) (organizations w)) (\<lambda>g.
           map_option (\<lambda>m. org_detail_of g (m_role m) w) (find_where (member_of e orgID userID) (members w)))));
     State_Monad.return (case row of
         Inl NoRows \<Rightarrow> WriteError 404 ''organization not found''
       | Inl _ \<Rightarrow> WriteError 500 ''failed to get organization''
       | Inr d \<Rightarrow> WriteJSON 200 d)
   }"

record update_org_request =
  uo_Name :: "string option"
  uo_Slug :: "string option"
  uo_RetentionDays :: "int option"

definition check_update_org :: "update_org_request \<Rightarrow> string" where
  "check_update_org req =
     (if uo_Name req = Some [] then ''organization name is required''
      else if (case uo_Name req of None \<Rightarrow> [] | Some n \<Rightarrow> validate_OrgName n) \<noteq> [] then validate_OrgName (the (uo_Name req))
      else if uo_Slug req = Some [] then ''organization slug is required''
      else if (case uo_Slug req of None \<Rightarrow> [] | Some s \<Rightarrow> validate_OrgSlug s) \<noteq> [] then validate_OrgSlug (the (uo_Slug req))
      else (case uo_RetentionDays req of None \<Rightarrow> [] | Some d \<Rightarrow> validate_RetentionDays d))"

definition set_org :: "update_org_request \<Rightarrow> time \<Rightarrow> organization \<Rightarrow> organization" where
  "set_org req t g = g\<lparr>o_name := case_option (o_name g) (\<lambda>x. x) (uo_Name req),
     o_slug := case_option (o_slug g) (\<lambda>x. x) (uo_Slug req),
     o_retention_days := case_option (o_retention_days g) (\<lambda>x. x) (uo_RetentionDays req), o_updated_at := t\<rparr>"

definition update_org :: "string \<Rightarrow> update_org_request \<Rightarrow> (db_error + nat) prog" where
  "update_org i req = db_stmt (\<lambda>w.
     if list_ex (\<lambda>g. o_id g \<noteq> i \<and> uo_Slug req = Some (o_slug g)) (organizations w) \<and>
        list_ex (\<lambda>g. o_id g = i) (organizations w) then (Inl UniqueViolation, w)
     else (Inr (count_where (\<lambda>g. o_id g = i) (organizations w)),
       w\<lparr>organizations := upd_where (\<lambda>g. o_id g = i) (set_org req (now w)) (organizations w)\<rparr>))"

definition Update_org :: "org_env \<Rightarrow> string \<Rightarrow> string \<Rightarrow> update_org_request option \<Rightarrow> org_detail response prog" where
  "Update_org e userID orgID body = do {
     caller \<leftarrow> caller_role e orgID userID;
     case caller of Inl resp \<Rightarrow> State_Monad.return resp
     | Inr role \<Rightarrow>
       if role \<noteq> ''owner'' \<and> role \<noteq> ''admin''
         then State_Monad.return (WriteError 403 ''only owners and admins can update the organization'')
       else case body of None \<Rightarrow> State_Monad.return bad_body
       | Some raw \<Rightarrow>
         if uo_Name raw = None \<and> uo_Slug raw = None \<and> uo_RetentionDays raw = None
           then State_Monad.return (WriteError 400 ''nothing to update'')
         else
           let req = raw\<lparr>uo_Name := map_option trim_space (uo_Name raw), uo_Slug := map_option trim_space (uo_Slug raw)\<rparr> in
           if check_update_org req \<noteq> [] then State_Monad.return (WriteError 400 (check_update_org req))
           else do {
             r \<leftarrow> update_org (the (uuid_in e orgID)) req;
             case r of
               Inl UniqueViolation \<Rightarrow> State_Monad.return (WriteError 409 ''an organization with this slug already exists'')
             | Inl _ \<Rightarrow> State_Monad.return (WriteError 500 ''failed to update organization'')
             | Inr n \<Rightarrow>
               if n = 0 then State_Monad.return (WriteError 404 ''organization not found'')
               else do {
                 row \<leftarrow> select_row (\<lambda>w. Option.bind (find_where (\<lambda>g. uuid_in e orgID = Some (o_id g)) (organizations w)) (\<lambda>g.
                     map_option (\<lambda>m. org_detail_of g (m_role m) w) (find_where (member_of e orgID userID) (members w))));
                 State_Monad.return (case row of Inl _ \<Rightarrow> WriteError 500 ''failed to read updated organization''
                   | Inr d \<Rightarrow> WriteJSON 200 d)
               }
           }
   }"

subsection \<open>Deleting it\<close>

text \<open>
  \<open>DELETE FROM organizations\<close>: every table that references the workspace does so with \<open>ON DELETE CASCADE\<close>,
  and so do the tables that reference its videos, folders and tags; the folder of a video is set to null.
\<close>

definition cascade_org :: "string \<Rightarrow> world \<Rightarrow> world" where
  "cascade_org i w =
     (let here = (\<lambda>org. org = Some i);
          vs = map v_id (filter (\<lambda>v. here (v_organization_id v)) (videos w));
          fs = map f_id (filter (\<lambda>f. here (f_organization_id f)) (folders w));
          ts = map t_id (filter (\<lambda>t. here (t_organization_id t)) (tags w))
      in w\<lparr>organizations := del_where (\<lambda>g. o_id g = i) (organizations w),
           members := del_where (\<lambda>m. m_organization_id m = i) (members w),
           invites := del_where (\<lambda>n. i_organization_id n = i) (invites w),
           videos := upd_where (\<lambda>v. v_folder_id v \<in> Some ` set fs) (\<lambda>v. v\<lparr>v_folder_id := None\<rparr>)
             (del_where (\<lambda>v. here (v_organization_id v)) (videos w)),
           folders := del_where (\<lambda>f. here (f_organization_id f)) (folders w),
           tags := del_where (\<lambda>t. here (t_organization_id t)) (tags w),
           video_tags := del_where (\<lambda>r. vt_video_id r \<in> set vs \<or> vt_tag_id r \<in> set ts) (video_tags w),
           playlist_videos := del_where (\<lambda>r. pv_video_id r \<in> set vs) (playlist_videos w),
           video_viewers := del_where (\<lambda>r. vv_video_id r \<in> set vs) (video_viewers w),
           comments := del_where (\<lambda>r. c_video_id r \<in> set vs) (comments w),
           sso_configs := del_where (\<lambda>r. sc_organization_id r = i) (sso_configs w),
           scim_tokens := del_where (\<lambda>r. st_organization_id r = i) (scim_tokens w),
           user_branding := del_where (\<lambda>r. here (ub_organization_id r)) (user_branding w)\<rparr>)"

text \<open>
  The tables of views, milestones, clicks and segments reference \<open>videos(id)\<close> without \<open>ON DELETE\<close>: a row
  of theirs keeps its video, and with it the workspace.
\<close>

definition watched :: "world \<Rightarrow> string \<Rightarrow> bool" where
  "watched w videoID \<longleftrightarrow> videoID \<in> vw_video_id ` set (video_views w) \<union> vm_video_id ` set (view_milestones w) \<union>
     cc_video_id ` set (cta_clicks w) \<union> se_video_id ` set (segment_engagement w)"

definition delete_org :: "string \<Rightarrow> (db_error + nat) prog" where
  "delete_org i = db_stmt (\<lambda>w.
     if list_ex (\<lambda>v. v_organization_id v = Some i \<and> watched w (v_id v)) (videos w)
     then (Inl (DbFail ''violates foreign key constraint''), w)
     else (Inr (count_where (\<lambda>g. o_id g = i) (organizations w)), cascade_org i w))"

definition Delete_org :: "org_env \<Rightarrow> string \<Rightarrow> string \<Rightarrow> unit response prog" where
  "Delete_org e userID orgID = do {
     caller \<leftarrow> caller_role e orgID userID;
     case caller of Inl resp \<Rightarrow> State_Monad.return resp
     | Inr role \<Rightarrow>
       if role \<noteq> ''owner'' then State_Monad.return (WriteError 403 ''only owners can delete the organization'')
       else do {
         r \<leftarrow> delete_org (the (uuid_in e orgID));
         State_Monad.return (case r of Inl _ \<Rightarrow> WriteError 500 ''failed to delete organization''
           | Inr n \<Rightarrow> if n = 0 then WriteError 404 ''organization not found'' else WriteHeader 204)
       }
   }"

subsection \<open>Members\<close>

record member_response =
  mr_ID :: string
  mr_Name :: string
  mr_Email :: string
  mr_Role :: string
  mr_JoinedAt :: time

definition ListMembers :: "org_env \<Rightarrow> string \<Rightarrow> string \<Rightarrow> member_response list response prog" where
  "ListMembers e userID orgID = do {
     caller \<leftarrow> caller_role e orgID userID;
     case caller of Inl resp \<Rightarrow> State_Monad.return resp
     | Inr _ \<Rightarrow> do {
         r \<leftarrow> select_rows (\<lambda>w. sort_key mr_JoinedAt (concat (map (\<lambda>m.
             map (\<lambda>u. \<lparr>mr_ID = u_id u, mr_Name = u_name u, mr_Email = u_email u, mr_Role = m_role m, mr_JoinedAt = m_joined_at m\<rparr>)
               (filter (\<lambda>u. u_id u = m_user_id m) (users w)))
             (filter (\<lambda>m. uuid_in e orgID = Some (m_organization_id m)) (members w)))));
         State_Monad.return (case r of Inl _ \<Rightarrow> WriteError 500 ''failed to list members'' | Inr ms \<Rightarrow> WriteJSON 200 ms) }
   }"

definition target_member :: "org_env \<Rightarrow> string \<Rightarrow> string \<Rightarrow> membership \<Rightarrow> bool" where
  "target_member e orgID targetUserID m \<longleftrightarrow>
     uuid_in e orgID = Some (m_organization_id m) \<and> uuid_in e targetUserID = Some (m_user_id m)"

definition owner_count :: "org_env \<Rightarrow> string \<Rightarrow> world \<Rightarrow> nat" where
  "owner_count e orgID w = count_where (\<lambda>m. uuid_in e orgID = Some (m_organization_id m) \<and> m_role m = ''owner'') (members w)"

definition RemoveMember :: "org_env \<Rightarrow> string \<Rightarrow> string \<Rightarrow> string \<Rightarrow> unit response prog" where
  "RemoveMember e userID orgID targetUserID = do {
     caller \<leftarrow> caller_role e orgID userID;
     case caller of Inl resp \<Rightarrow> State_Monad.return resp
     | Inr role \<Rightarrow>
       if role \<noteq> ''owner'' \<and> role \<noteq> ''admin'' then State_Monad.return (WriteError 403 ''only owners and admins can remove members'')
       else if targetUserID = userID then State_Monad.return (WriteError 400 ''cannot remove yourself'')
       else do {
         row \<leftarrow> with_uuid e targetUserID (select_row (\<lambda>w. find_where (target_member e orgID targetUserID) (members w)));
         case row of
           Inl NoRows \<Rightarrow> State_Monad.return (WriteError 404 ''member not found'')
         | Inl _ \<Rightarrow> State_Monad.return (WriteError 500 ''failed to check target member'')
         | Inr t \<Rightarrow> do {
             early \<leftarrow> (if m_role t = ''owner'' then do {
                 r \<leftarrow> select_rows (owner_count e orgID);
                 State_Monad.return (case r of Inl _ \<Rightarrow> Some (WriteError 500 ''failed to count owners'')
                   | Inr n \<Rightarrow> if n \<le> 1 then Some (WriteError 400 ''cannot remove the only owner'') else None) }
               else State_Monad.return None);
             case early of Some resp \<Rightarrow> State_Monad.return resp
             | None \<Rightarrow> do {
                 r \<leftarrow> db_stmt (\<lambda>w. (Inr (count_where (target_member e orgID targetUserID) (members w)),
                     w\<lparr>members := del_where (target_member e orgID targetUserID) (members w)\<rparr>));
                 State_Monad.return (case r of Inl _ \<Rightarrow> WriteError 500 ''failed to remove member''
                   | Inr n \<Rightarrow> if n = 0 then WriteError 404 ''member not found'' else WriteHeader 204) } }
       }
   }"

definition valid_role :: "string \<Rightarrow> bool" where
  "valid_role r \<longleftrightarrow> r = ''admin'' \<or> r = ''member'' \<or> r = ''viewer''"

definition UpdateMemberRole :: "org_env \<Rightarrow> string \<Rightarrow> string \<Rightarrow> string \<Rightarrow> string option \<Rightarrow> string response prog" where
  "UpdateMemberRole e userID orgID targetUserID body = do {
     caller \<leftarrow> caller_role e orgID userID;
     case caller of Inl resp \<Rightarrow> State_Monad.return resp
     | Inr role \<Rightarrow>
       if role \<noteq> ''owner'' then State_Monad.return (WriteError 403 ''only owners can change roles'')
       else if targetUserID = userID then State_Monad.return (WriteError 400 ''cannot change your own role'')
       else case body of None \<Rightarrow> State_Monad.return bad_body
       | Some newRole \<Rightarrow>
         if \<not> valid_role newRole then State_Monad.return (WriteError 400 ''role must be admin, member, or viewer'')
         else do {
           r \<leftarrow> with_uuid e targetUserID (db_stmt (\<lambda>w. (Inr (count_where (target_member e orgID targetUserID) (members w)),
               w\<lparr>members := upd_where (target_member e orgID targetUserID) (\<lambda>m. m\<lparr>m_role := newRole\<rparr>) (members w)\<rparr>)));
           State_Monad.return (case r of Inl _ \<Rightarrow> WriteError 500 ''failed to update role''
             | Inr n \<Rightarrow> if n = 0 then WriteError 404 ''member not found'' else WriteJSON 200 newRole)
         }
   }"

subsection \<open>Invites\<close>

definition inviteTokenExpiry :: time where "inviteTokenExpiry = days 7"

record invite_request =
  iq_Email :: string
  iq_Role :: string

record invite_response =
  ir_ID :: string
  ir_Email :: string
  ir_Role :: string
  ir_AcceptLink :: string
  ir_ExpiresAt :: time
  ir_CreatedAt :: time

definition pending :: "world \<Rightarrow> invite \<Rightarrow> bool" where
  "pending w n \<longleftrightarrow> i_accepted_at n = None \<and> now w < i_expires_at n"

text \<open>\<open>token_hash\<close> is unique, and the key is.\<close>

definition insert_invite :: "invite \<Rightarrow> (db_error + invite) prog" where
  "insert_invite n = db_stmt (\<lambda>w.
     let row = n\<lparr>i_expires_at := now w + inviteTokenExpiry, i_created_at := now w\<rparr> in
     if i_id n \<in> i_id ` set (invites w) \<or> i_token_hash n \<in> i_token_hash ` set (invites w) then (Inl UniqueViolation, w)
     else (Inr row, w\<lparr>invites := invites w @ [row]\<rparr>))"

definition invite_mail :: "org_env \<Rightarrow> string \<Rightarrow> string \<Rightarrow> string \<Rightarrow> string \<Rightarrow> unit prog" where
  "invite_mail e userID orgID toEmail link = (if \<not> hasEmailSender e then State_Monad.return ()
     else do {
       g \<leftarrow> select_row (\<lambda>w. find_where (\<lambda>g. uuid_in e orgID = Some (o_id g)) (organizations w));
       u \<leftarrow> select_row (\<lambda>w. find_where (\<lambda>u. u_id u = userID) (users w));
       _ \<leftarrow> service (EmailInvite toEmail (case g of Inl _ \<Rightarrow> [] | Inr g \<Rightarrow> o_name g) (case u of Inl _ \<Rightarrow> [] | Inr u \<Rightarrow> u_name u) link);
       State_Monad.return ()
     })"

text \<open>\<open>random\<close> are the 32 random bytes of the token; the row keeps its hash only.\<close>

definition SendInvite :: "org_env \<Rightarrow> crypto \<Rightarrow> string \<Rightarrow> string \<Rightarrow> string \<Rightarrow> string option \<Rightarrow> invite_request option
    \<Rightarrow> invite_response response prog" where
  "SendInvite e cy userID orgID newID random body = do {
     caller \<leftarrow> caller_role e orgID userID;
     case caller of Inl resp \<Rightarrow> State_Monad.return resp
     | Inr role \<Rightarrow>
       if role \<noteq> ''owner'' \<and> role \<noteq> ''admin'' then State_Monad.return (WriteError 403 ''only owners and admins can send invites'')
       else case body of None \<Rightarrow> State_Monad.return bad_body
       | Some req \<Rightarrow>
         let email = trim_space (iq_Email req) in
         if email = [] then State_Monad.return (WriteError 400 ''email is required'')
         else if \<not> valid_role (iq_Role req) then State_Monad.return (WriteError 400 ''role must be admin, member, or viewer'')
         else do {
           row \<leftarrow> select_row (\<lambda>w. find_where (\<lambda>m. uuid_in e orgID = Some (m_organization_id m) \<and>
               list_ex (\<lambda>u. u_id u = m_user_id m \<and> u_email u = email) (users w)) (members w));
           case row of
             Inr _ \<Rightarrow> State_Monad.return (WriteError 409 ''user is already a member'')
           | Inl NoRows \<Rightarrow> do {
               row \<leftarrow> select_row (\<lambda>w. find_where (\<lambda>n. uuid_in e orgID = Some (i_organization_id n) \<and> i_email n = email \<and> pending w n)
                   (invites w));
               case row of
                 Inr _ \<Rightarrow> State_Monad.return (WriteError 409 ''invite already pending'')
               | Inl NoRows \<Rightarrow> (case random of
                     None \<Rightarrow> State_Monad.return (WriteError 500 ''failed to generate invite token'')
                   | Some bytes \<Rightarrow>
                     let raw = EncodeToString bytes; link = org_baseURL e @ ''/invites/accept?token='' @ raw in do {
                       made \<leftarrow> insert_invite \<lparr>i_id = newID, i_organization_id = the (uuid_in e orgID), i_email = email,
                           i_role = iq_Role req, i_invited_by = userID, i_token_hash = hashToken cy raw, i_expires_at = 0,
                           i_accepted_at = None, i_created_at = 0\<rparr>;
                       case made of Inl _ \<Rightarrow> State_Monad.return (WriteError 500 ''failed to create invite'')
                       | Inr n \<Rightarrow> do {
                           invite_mail e userID orgID email link;
                           State_Monad.return (WriteJSON 201 \<lparr>ir_ID = i_id n, ir_Email = email, ir_Role = iq_Role req,
                             ir_AcceptLink = link, ir_ExpiresAt = i_expires_at n, ir_CreatedAt = i_created_at n\<rparr>) } })
               | Inl _ \<Rightarrow> State_Monad.return (WriteError 500 ''failed to check pending invites'') }
           | Inl _ \<Rightarrow> State_Monad.return (WriteError 500 ''failed to check membership'')
         }
   }"

definition ListInvites :: "org_env \<Rightarrow> string \<Rightarrow> string \<Rightarrow> (invite \<times> string) list response prog" where
  "ListInvites e userID orgID = do {
     caller \<leftarrow> caller_role e orgID userID;
     case caller of Inl resp \<Rightarrow> State_Monad.return resp
     | Inr role \<Rightarrow>
       if role \<noteq> ''owner'' \<and> role \<noteq> ''admin'' then State_Monad.return (WriteError 403 ''only owners and admins can list invites'')
       else do {
         r \<leftarrow> select_rows (\<lambda>w. concat (map (\<lambda>n. map (\<lambda>u. (n\<lparr>i_token_hash := []\<rparr>, u_name u))
               (filter (\<lambda>u. u_id u = i_invited_by n) (users w)))
             (sort_key (\<lambda>n. - i_created_at n) (filter (\<lambda>n. uuid_in e orgID = Some (i_organization_id n) \<and> pending w n) (invites w)))));
         State_Monad.return (case r of Inl _ \<Rightarrow> WriteError 500 ''failed to list invites'' | Inr items \<Rightarrow> WriteJSON 200 items)
       }
   }"

definition RevokeInvite :: "org_env \<Rightarrow> string \<Rightarrow> string \<Rightarrow> string \<Rightarrow> unit response prog" where
  "RevokeInvite e userID orgID inviteID = do {
     caller \<leftarrow> caller_role e orgID userID;
     case caller of Inl resp \<Rightarrow> State_Monad.return resp
     | Inr role \<Rightarrow>
       if role \<noteq> ''owner'' \<and> role \<noteq> ''admin'' then State_Monad.return (WriteError 403 ''only owners and admins can revoke invites'')
       else do {
         r \<leftarrow> with_uuid e inviteID (db_stmt (\<lambda>w.
             let P = (\<lambda>n. uuid_in e inviteID = Some (i_id n) \<and> uuid_in e orgID = Some (i_organization_id n) \<and> i_accepted_at n = None)
             in (Inr (count_where P (invites w)), w\<lparr>invites := del_where P (invites w)\<rparr>)));
         State_Monad.return (case r of Inl _ \<Rightarrow> WriteError 500 ''failed to revoke invite''
           | Inr n \<Rightarrow> if n = 0 then WriteError 404 ''invite not found'' else WriteHeader 204)
       }
   }"

record accept_response =
  ar_OrganizationID :: string
  ar_Name :: string
  ar_Slug :: string
  ar_Role :: string

text \<open>\<open>ON CONFLICT DO NOTHING\<close>: a member stays what they are.\<close>

definition join_org :: "string \<Rightarrow> string \<Rightarrow> string \<Rightarrow> (db_error + unit) prog" where
  "join_org org user role = exec_world (\<lambda>w.
     if list_ex (\<lambda>m. m_organization_id m = org \<and> m_user_id m = user) (members w) then w
     else w\<lparr>members := members w @
       [\<lparr>m_organization_id = org, m_user_id = user, m_role = role, m_joined_at = now w\<rparr>]\<rparr>)"

definition AcceptInvite :: "org_env \<Rightarrow> crypto \<Rightarrow> string \<Rightarrow> string option \<Rightarrow> accept_response response prog" where
  "AcceptInvite e cy userID body = (case body of
     None \<Rightarrow> State_Monad.return bad_body
   | Some token \<Rightarrow>
     if token = [] then State_Monad.return (WriteError 400 ''token is required'')
     else do {
       row \<leftarrow> select_row (\<lambda>w. find_where (\<lambda>n. i_token_hash n = hashToken cy token \<and> pending w n) (invites w));
       case row of
         Inl NoRows \<Rightarrow> State_Monad.return (WriteError 400 ''invalid or expired invite'')
       | Inl _ \<Rightarrow> State_Monad.return (WriteError 500 ''failed to look up invite'')
       | Inr n \<Rightarrow> do {
           row \<leftarrow> select_row (\<lambda>w. find_where (\<lambda>u. u_id u = userID) (users w));
           case row of Inl _ \<Rightarrow> State_Monad.return (WriteError 500 ''failed to look up user'')
           | Inr u \<Rightarrow> do {
               row \<leftarrow> select_row (\<lambda>w. find_where (\<lambda>m. i_id m = i_id n) (invites w));
               case row of Inl _ \<Rightarrow> State_Monad.return (WriteError 500 ''failed to look up invite email'')
               | Inr again \<Rightarrow>
                 if \<not> EqualFold e (u_email u) (i_email again)
                   then State_Monad.return (WriteError 403 ''invite was sent to a different email'')
                 else do {
                   r \<leftarrow> exec_world (\<lambda>w. w\<lparr>invites := upd_where (\<lambda>m. i_id m = i_id n) (\<lambda>m. m\<lparr>i_accepted_at := Some (now w)\<rparr>) (invites w)\<rparr>);
                   case r of Inl _ \<Rightarrow> State_Monad.return (WriteError 500 ''failed to accept invite'')
                   | Inr _ \<Rightarrow> do {
                       r \<leftarrow> join_org (i_organization_id n) userID (i_role n);
                       case r of Inl _ \<Rightarrow> State_Monad.return (WriteError 500 ''failed to add membership'')
                       | Inr _ \<Rightarrow> do {
                           row \<leftarrow> select_row (\<lambda>w. find_where (\<lambda>g. o_id g = i_organization_id n) (organizations w));
                           State_Monad.return (case row of Inl _ \<Rightarrow> WriteError 500 ''failed to load organization''
                             | Inr g \<Rightarrow> WriteJSON 200 \<lparr>ar_OrganizationID = o_id g, ar_Name = o_name g, ar_Slug = o_slug g,
                                 ar_Role = i_role n\<rparr>) } } } } }
     })"

subsection \<open>The workspace of a request\<close>

text \<open>\<open>header\<close> is the value of \<open>X-Organization-Id\<close>, empty when there is none.\<close>

definition org_Middleware :: "org_env \<Rightarrow> string \<Rightarrow> string \<Rightarrow> ('b response + rctx) prog" where
  "org_Middleware e userID header =
     (if header = [] then State_Monad.return (Inr \<lparr>UserID = userID, OrgID = [], OrgRole = []\<rparr>)
      else if userID = [] then State_Monad.return (Inl (WriteError 401 ''authentication required''))
      else do {
        row \<leftarrow> with_uuid e header (select_row (\<lambda>w. find_where (\<lambda>m. member_of e header userID m \<and>
            m_organization_id m \<in> o_id ` set (organizations w)) (members w)));
        State_Monad.return (case row of
            Inl NoRows \<Rightarrow> Inl (WriteError 403 ''not a member of this organization'')
          | Inl _ \<Rightarrow> Inl (WriteError 500 ''failed to verify organization membership'')
          | Inr m \<Rightarrow> Inr \<lparr>UserID = userID, OrgID = header, OrgRole = m_role m\<rparr>)
      })"

definition RequireRole :: "rctx \<Rightarrow> string list \<Rightarrow> unit response + string" where
  "RequireRole c allowed = (if OrgRole c \<in> set allowed then Inr (OrgRole c) else Inl (WriteError 403 ''insufficient permissions''))"

definition RequireWriter :: "rctx \<Rightarrow> 'b response option" where
  "RequireWriter c = (if OrgID c \<noteq> [] \<and> OrgRole c = ''viewer''
     then Some (WriteError 403 ''viewers cannot perform this action'') else None)"

end
