(* ===== verification/Organization_Facts.thy ===== *)
theory Organization_Facts
  imports Organizations Account_Facts
begin

text \<open>
  What the workspace handlers guarantee: slugs are in a normal form, a workspace keeps an owner, and only
  who was invited by mail gets in; and where the code does less.
\<close>

subsection \<open>Slugs\<close>

definition slug_ok :: "string \<Rightarrow> bool" where
  "slug_ok s \<longleftrightarrow> s \<noteq> [] \<and> list_all (\<lambda>c. slug_char c \<or> c = CHR ''-'') s \<and> hd s \<noteq> CHR ''-'' \<and> last s \<noteq> CHR ''-''"

fun single_dashes :: "string \<Rightarrow> bool" where
  "single_dashes (c # d # s) \<longleftrightarrow> \<not> (c = CHR ''-'' \<and> d = CHR ''-'') \<and> single_dashes (d # s)"
| "single_dashes s \<longleftrightarrow> True"

lemma dash_not_slug_char [simp]: "\<not> slug_char (CHR ''-'')"
  by (simp add: slug_char_def byte_in_def)

lemma single_dashes_Cons:
  "single_dashes (c # s) \<longleftrightarrow> (s \<noteq> [] \<and> c = CHR ''-'' \<longrightarrow> hd s \<noteq> CHR ''-'') \<and> single_dashes s"
  by (cases s) auto

lemma dash_runs_form:
  "list_all (\<lambda>c. slug_char c \<or> c = CHR ''-'') (dash_runs b s) \<and> single_dashes (dash_runs b s) \<and>
   (b \<longrightarrow> dash_runs b s \<noteq> [] \<longrightarrow> hd (dash_runs b s) \<noteq> CHR ''-'')"
  by (induction b s rule: dash_runs.induct) (auto simp: single_dashes_Cons)

lemma single_dashes_append: "single_dashes (a @ b) \<Longrightarrow> single_dashes a \<and> single_dashes b"
  by (induction a rule: single_dashes.induct) (auto simp: single_dashes_Cons)

lemma trim_dashes_infix: "\<exists>a b. s = a @ trim_dashes s @ b"
proof -
  let ?d = "dropWhile (\<lambda>c. c = CHR ''-'') s"
  have "s = takeWhile (\<lambda>c. c = CHR ''-'') s @ ?d" by simp
  moreover have "?d = trim_dashes s @ rev (takeWhile (\<lambda>c. c = CHR ''-'') (rev ?d))"
    unfolding trim_dashes_def by (metis rev_append rev_rev_ident takeWhile_dropWhile_id)
  ultimately show ?thesis by metis
qed

lemma trim_dashes_ends: "trim_dashes s \<noteq> [] \<Longrightarrow> hd (trim_dashes s) \<noteq> CHR ''-'' \<and> last (trim_dashes s) \<noteq> CHR ''-''"
proof -
  assume ne: "trim_dashes s \<noteq> []"
  let ?d = "dropWhile (\<lambda>c. c = CHR ''-'') s"
  have "last (trim_dashes s) = hd (dropWhile (\<lambda>c. c = CHR ''-'') (rev ?d))"
    using ne by (simp add: trim_dashes_def last_rev)
  then have l: "last (trim_dashes s) \<noteq> CHR ''-''"
    using ne hd_dropWhile [of "\<lambda>c. c = CHR ''-''" "rev ?d"] by (simp add: trim_dashes_def)
  obtain b where "?d = trim_dashes s @ b"
    unfolding trim_dashes_def by (metis rev_append rev_rev_ident takeWhile_dropWhile_id)
  then have "hd (trim_dashes s) = hd ?d" "?d \<noteq> []" using ne by (metis hd_append2, simp)
  then show ?thesis using l hd_dropWhile [of "\<lambda>c. c = CHR ''-''" s] by simp
qed

lemma generateSlug_form: "slug_ok (generateSlug name) \<and> single_dashes (generateSlug name)"
proof (cases "trim_dashes (dash_runs False (slug_lower name)) = []")
  case True
  then show ?thesis by (simp add: generateSlug_def slug_ok_def slug_char_def byte_in_def)
next
  case False
  obtain a b where s: "dash_runs False (slug_lower name) = a @ trim_dashes (dash_runs False (slug_lower name)) @ b"
    using trim_dashes_infix by blast
  have "single_dashes (trim_dashes (dash_runs False (slug_lower name)))"
    using dash_runs_form [of False "slug_lower name"] s single_dashes_append by metis
  moreover have "list_all (\<lambda>c. slug_char c \<or> c = CHR ''-'') (trim_dashes (dash_runs False (slug_lower name)))"
    using dash_runs_form [of False "slug_lower name"] s by (metis list_all_append)
  ultimately show ?thesis
    using False trim_dashes_ends [OF False] by (simp add: generateSlug_def slug_ok_def Let_def)
qed

lemma slug_lower_id: "list_all (\<lambda>c. slug_char c \<or> c = CHR ''-'') s \<Longrightarrow> slug_lower s = s"
  by (induction s) (auto simp: slug_char_def byte_in_def)

lemma dash_runs_id:
  "list_all (\<lambda>c. slug_char c \<or> c = CHR ''-'') s \<Longrightarrow> single_dashes s \<Longrightarrow> (b \<longrightarrow> s \<noteq> [] \<longrightarrow> hd s \<noteq> CHR ''-'') \<Longrightarrow> dash_runs b s = s"
  by (induction b s rule: dash_runs.induct) (auto simp: single_dashes_Cons)

lemma trim_dashes_id: "slug_ok s \<Longrightarrow> trim_dashes s = s"
proof -
  assume s: "slug_ok s"
  have id: "dropWhile (\<lambda>c. c = CHR ''-'') t = t" if "hd t \<noteq> CHR ''-''" for t using that by (cases t) auto
  show ?thesis using s by (simp add: trim_dashes_def slug_ok_def id hd_rev)
qed

text \<open>A slug is the slug of itself, so a workspace may be renamed to its own slug.\<close>

lemma generateSlug_idem: "generateSlug (generateSlug name) = generateSlug name"
proof -
  have "slug_ok (generateSlug name)" "single_dashes (generateSlug name)" using generateSlug_form by blast+
  then have "trim_dashes (dash_runs False (slug_lower (generateSlug name))) = generateSlug name"
    by (simp add: slug_lower_id dash_runs_id trim_dashes_id slug_ok_def)
  moreover have "generateSlug name \<noteq> []" using generateSlug_form slug_ok_def by blast
  ultimately show ?thesis by (subst generateSlug_def) (simp add: Let_def)
qed

subsection \<open>A workspace keeps an owner\<close>

text \<open>Memberships are unique, and the workspace \<open>i\<close>, while it exists, has an owner.\<close>

definition owned :: "string \<Rightarrow> world \<Rightarrow> bool" where
  "owned i w \<longleftrightarrow> distinct (map (\<lambda>m. (m_organization_id m, m_user_id m)) (members w)) \<and>
     (i \<in> o_id ` set (organizations w) \<longrightarrow>
       (\<exists>m \<in> set (members w). m_organization_id m = i \<and> m_role m = ''owner''))"

lemma owned_tick [simp]: "owned i (tick w) = owned i w"
  by (simp add: owned_def)

lemma owned_other [simp]:
  "owned i (w\<lparr>invites := x1\<rparr>) = owned i w" "owned i (w\<lparr>effects := x2\<rparr>) = owned i w"
  "owned i (w\<lparr>now := x3\<rparr>) = owned i w" "owned i (w\<lparr>faults := x4\<rparr>) = owned i w"
  by (simp_all add: owned_def)

text \<open>The caller, whose row the first statement found.\<close>

lemma caller_role_wp:
  "wp (caller_role e orgID u) (\<lambda>r t. t = tick w \<and> (case r of Inl resp \<Rightarrow> (\<exists>k msg. resp = WriteError k msg) | Inr role \<Rightarrow>
     (\<exists>m i. uuid_in e orgID = Some i \<and> m \<in> set (members w) \<and> m_organization_id m = i \<and> m_user_id m = u \<and> m_role m = role))) w"
  unfolding caller_role_def with_uuid_def
  by (auto simp: member_of_def split: option.split db_error.split dest!: find_where_Some)

lemmas wp_caller = wp_mono [OF caller_role_wp]

lemma insert_org_owned:
  assumes "newID \<noteq> i"
  shows "preserves (owned i) (insert_org newID name slug)"
  using assms unfolding preserves_wp insert_org_def Let_def by (auto simp: owned_def split: option.split)

lemma insert_member_owned: "preserves (owned i) (insert_member org user role)"
  unfolding preserves_wp insert_member_def by (auto simp: owned_def list_ex_iff split: option.split)

lemma join_org_owned: "preserves (owned i) (join_org org user role)"
  unfolding preserves_wp join_org_def by (auto simp: owned_def list_ex_iff split: option.split)

lemma update_org_owned: "preserves (owned i) (update_org g req)"
proof -
  have "o_id ` set (upd_where P (set_org req t) gs) = o_id ` set gs" for P t gs
    using map_upd_where [of o_id "set_org req t" P gs] by (metis (no_types, lifting) list.set_map organization.select_convs(1)
      organization.surjective organization.update_convs(2,3,7,9) set_org_def)
  then show ?thesis unfolding preserves_wp update_org_def by (auto simp: owned_def split: option.split)
qed

lemma cascade_owned: "owned i w \<Longrightarrow> owned i (cascade_org g t)" if "members t = members w" "organizations t = organizations w"
  using that by (auto simp: owned_def cascade_org_def Let_def distinct_map_del_where)

lemma another:
  assumes "distinct xs" "2 \<le> length (filter Q xs)"
  shows "\<exists>b \<in> set xs. Q b \<and> b \<noteq> m"
proof (rule ccontr)
  assume "\<not> ?thesis"
  then have "set (filter Q xs) \<subseteq> {m}" by auto
  then have "card (set (filter Q xs)) \<le> 1" using card_mono [of "{m}"] by force
  with assms show False by (simp add: distinct_card del: set_filter)
qed

text \<open>Removing a member who is not the caller: an owner only when there are two.\<close>

lemma remove_owned:
  assumes "owned i w" "members t = members w" "organizations t = organizations w"
    and "\<And>m. P m \<Longrightarrow> m_organization_id m = g \<and> m_user_id m = u"
    and "m \<in> set (members w)" "P m" "m_role m = ''owner'' \<Longrightarrow> 2 \<le> count_where (\<lambda>m. m_organization_id m = g \<and> m_role m = ''owner'') (members w)"
  shows "owned i (t\<lparr>members := del_where P (members w)\<rparr>)"
proof -
  have uniq: "a = m" if "a \<in> set (members w)" "P a" for a
  proof -
    have "inj_on (\<lambda>m. (m_organization_id m, m_user_id m)) (set (members w))" using assms(1) by (simp add: owned_def distinct_map)
    from inj_onD [OF this _ that(1) assms(5)] show ?thesis using assms(4) [OF that(2)] assms(4) [OF assms(6)] by simp
  qed
  have "\<exists>a \<in> set (members w). \<not> P a \<and> m_organization_id a = i \<and> m_role a = ''owner''"
    if own: "a \<in> set (members w)" "m_organization_id a = i" "m_role a = ''owner''" for a
  proof (cases "P a")
    case True
    then have a: "a = m" "g = i" using uniq own assms(4) by blast+
    have "distinct (members w)" using assms(1) by (auto simp: owned_def distinct_map)
    moreover have "2 \<le> length (filter (\<lambda>m. m_organization_id m = i \<and> m_role m = ''owner'') (members w))"
      using assms(7) a own by (simp add: count_where_def)
    ultimately obtain b where "b \<in> set (members w)" "m_organization_id b = i" "m_role b = ''owner''" "b \<noteq> m"
      using another [of "members w" "\<lambda>m. m_organization_id m = i \<and> m_role m = ''owner''" m] by blast
    then show ?thesis using uniq by blast
  qed (use own in blast)
  then have keep: "\<exists>a \<in> set (del_where P (members w)). m_organization_id a = i \<and> m_role a = ''owner''"
    if "\<exists>a \<in> set (members w). m_organization_id a = i \<and> m_role a = ''owner''" using that by (metis in_del_where)
  have "distinct (map (\<lambda>m. (m_organization_id m, m_user_id m)) (del_where P (members w)))"
    using assms(1) by (simp add: owned_def distinct_map_del_where)
  with keep assms(1) show ?thesis by (simp add: owned_def assms(3) del: in_del_where)
qed

lemma role_owned:
  assumes "owned i w" "members t = members w" "organizations t = organizations w"
    and "m \<in> set (members w)" "m_organization_id m = g" "m_role m = ''owner''" "\<not> P m"
    and "\<And>m. P m \<Longrightarrow> m_organization_id m = g"
  shows "owned i (t\<lparr>members := upd_where P (\<lambda>m. m\<lparr>m_role := r\<rparr>) (members w)\<rparr>)"
proof -
  have "map (\<lambda>m. (m_organization_id m, m_user_id m)) (upd_where P (\<lambda>m. m\<lparr>m_role := r\<rparr>) (members w)) =
      map (\<lambda>m. (m_organization_id m, m_user_id m)) (members w)"
    by (rule map_upd_where) simp
  moreover have "\<exists>a \<in> set (upd_where P (\<lambda>m. m\<lparr>m_role := r\<rparr>) (members w)). m_organization_id a = i \<and> m_role a = ''owner''"
    if own: "a \<in> set (members w)" "m_organization_id a = i" "m_role a = ''owner''" for a
  proof (cases "i = g")
    case True
    then show ?thesis using upd_where_miss [of m "members w" P, OF assms(4) assms(7)] assms(5,6) by blast
  next
    case False
    then have "\<not> P a" using own assms(8) by blast
    then show ?thesis using upd_where_miss [of a "members w" P, OF own(1)] own by blast
  qed
  ultimately show ?thesis using assms(1) unfolding owned_def by (simp add: assms(3)) metis
qed

lemma read_owned: "owned i w \<Longrightarrow> wp (select_row q) (\<lambda>_. owned i) w" "owned i w \<Longrightarrow> wp (select_rows q') (\<lambda>_. owned i) w"
  by (simp_all split: option.split)

lemma Create_org_owned:
  assumes "newID \<noteq> i"
  shows "preserves (owned i) (Create_org u newID suffix body)"
proof -
  have retry: "preserves (owned i) (insert_org_retry newID name slug suffix)" for name slug
    unfolding preserves_wp insert_org_retry_def
    by (auto split: sum.split db_error.split option.split intro!: wp_preserves [OF insert_org_owned [OF assms]])
  show ?thesis
    unfolding preserves_wp Create_org_def Let_def
    by (auto split: option.split sum.split intro!: wp_preserves [OF retry] wp_preserves [OF insert_member_owned])
qed

lemma Update_org_owned: "preserves (owned i) (Update_org e u orgID body)"
  unfolding preserves_wp Update_org_def Let_def
  by (auto split: option.split sum.split db_error.split intro!: wp_caller wp_preserves [OF update_org_owned])

lemma Delete_org_owned: "preserves (owned i) (Delete_org e u orgID)"
  unfolding preserves_wp Delete_org_def delete_org_def
  by (auto split: option.split sum.split db_error.split intro!: wp_caller cascade_owned)

lemma owner_count_tick [simp]: "owner_count e orgID (tick w) = owner_count e orgID w"
  by (simp add: owner_count_def)

lemma RemoveMember_owned: "preserves (owned i) (RemoveMember e u orgID target)"
proof -
  have step: "owned i (t\<lparr>members := del_where (target_member e orgID target) (members w)\<rparr>)"
    if "owned i w" "members t = members w" "organizations t = organizations w"
      "find_where (target_member e orgID target) (members w) = Some m"
      "m_role m = ''owner'' \<Longrightarrow> \<not> owner_count e orgID w \<le> 1" for w t m
  proof -
    have m: "m \<in> set (members w)" "target_member e orgID target m" using find_where_Some [OF that(4)] by simp_all
    show ?thesis
    proof (rule remove_owned [where P = "target_member e orgID target" and g = "m_organization_id m" and u = "m_user_id m",
          OF that(1-3) _ m])
      assume "m_role m = ''owner''"
      with that(5) m(2) show "2 \<le> count_where (\<lambda>a. m_organization_id a = m_organization_id m \<and> m_role a = ''owner'') (members w)"
        by (auto simp: owner_count_def target_member_def eq_commute [of "m_organization_id m"])
    qed (use m(2) in \<open>auto simp: target_member_def\<close>)
  qed
  show ?thesis
    unfolding preserves_wp RemoveMember_def with_uuid_def
    by (auto split: option.split sum.split db_error.split intro!: wp_caller) (rule step, assumption, simp, simp, assumption, simp)+
qed

lemma UpdateMemberRole_owned:
  assumes "uuid_in e target = Some u \<Longrightarrow> target = u"
  shows "preserves (owned i) (UpdateMemberRole e u orgID target body)"
proof -
  have step: "owned i (t\<lparr>members := upd_where (target_member e orgID target) (\<lambda>m. m\<lparr>m_role := r\<rparr>) (members w)\<rparr>)"
    if "owned i w" "members t = members w" "organizations t = organizations w" "target \<noteq> u"
      "m \<in> set (members w)" "uuid_in e orgID = Some (m_organization_id m)" "m_user_id m = u" "m_role m = ''owner''" for w t m r
    using assms that(4-8)
    by (intro role_owned [OF that(1-3) that(5) refl that(8)]) (auto simp: target_member_def)
  show ?thesis
    unfolding preserves_wp UpdateMemberRole_def with_uuid_def
    by (auto split: option.split sum.split db_error.split intro!: wp_caller) (rule step, assumption, simp_all)
qed

lemma invites_owned:
  "preserves (owned i) (SendInvite e cy u orgID n rnd b1)"
  "preserves (owned i) (RevokeInvite e u orgID n)"
  "preserves (owned i) (AcceptInvite e cy u b2)"
  unfolding preserves_wp SendInvite_def insert_invite_def invite_mail_def RevokeInvite_def AcceptInvite_def with_uuid_def Let_def
  by (auto split: option.split sum.split db_error.split intro!: wp_caller wp_preserves [OF join_org_owned])

text \<open>
  The requests that change workspaces, with any input. The key of a new workspace is not \<open>i\<close>: keys are never
  used twice. \<open>canonical\<close>: a path names the caller only by the very text of the caller's key.
\<close>

definition canonical :: "org_env \<Rightarrow> string \<Rightarrow> string \<Rightarrow> bool" where
  "canonical e u target \<longleftrightarrow> (uuid_in e target = Some u \<longrightarrow> target = u)"

inductive org_step :: "org_env \<Rightarrow> crypto \<Rightarrow> string \<Rightarrow> world \<Rightarrow> world \<Rightarrow> bool" for e cy i where
  step_create: "newID \<noteq> i \<Longrightarrow> run_state (Create_org u newID suffix b1) w = (r1, w') \<Longrightarrow> org_step e cy i w w'"
| step_update: "run_state (Update_org e u g b2) w = (r2, w') \<Longrightarrow> org_step e cy i w w'"
| step_delete: "run_state (Delete_org e u g) w = (r3, w') \<Longrightarrow> org_step e cy i w w'"
| step_remove: "run_state (RemoveMember e u g t) w = (r3, w') \<Longrightarrow> org_step e cy i w w'"
| step_role: "canonical e u t \<Longrightarrow> run_state (UpdateMemberRole e u g t b3) w = (r4, w') \<Longrightarrow> org_step e cy i w w'"
| step_invite: "run_state (SendInvite e cy u g n rnd b4) w = (r5, w') \<Longrightarrow> org_step e cy i w w'"
| step_uninvite: "run_state (RevokeInvite e u g n) w = (r3, w') \<Longrightarrow> org_step e cy i w w'"
| step_accept: "run_state (AcceptInvite e cy u b5) w = (r6, w') \<Longrightarrow> org_step e cy i w w'"
| step_world: "org_step e cy i w (w\<lparr>now := t1, faults := fs\<rparr>)"

lemma step_owned: "org_step e cy i w w' \<Longrightarrow> owned i w \<Longrightarrow> owned i w'"
  by (induction rule: org_step.induct)
    (erule Create_org_owned [THEN preserves_run], assumption+ |
     erule Update_org_owned [THEN preserves_run] Delete_org_owned [THEN preserves_run] RemoveMember_owned [THEN preserves_run]
       invites_owned [THEN preserves_run], assumption |
     erule UpdateMemberRole_owned [THEN preserves_run, rotated], assumption, simp add: canonical_def |
     simp add: owned_def)+

interpretation workspace: machine "owned i" "org_step e cy i" "owned i" for i e cy
  by unfold_locales (simp_all add: step_owned)

text \<open>C12: a workspace that has an owner keeps one as long as it exists, whatever owners, admins and invited users do in
  any order, as long as nobody spells their own key in another way than the database does.\<close>

theorem workspace_keeps_owner:
  assumes "owned i w" "(org_step e cy i)\<^sup>*\<^sup>* w w'" "i \<in> o_id ` set (organizations w')"
  shows "\<exists>m \<in> set (members w'). m_organization_id m = i \<and> m_role m = ''owner''"
  using workspace.run_inv [OF assms(2,1)] assms(3) by (simp add: owned_def)

definition lower_uuid :: org_env where
  "lower_uuid = \<lparr>uuid_in = (\<lambda>s. Some (if s = ''U1'' then ''u1'' else s)),
     EqualFold = (\<lambda>a b. a = b), org_baseURL = ''https://app'', hasEmailSender = False\<rparr>"

definition sample_org :: organization where
  "sample_org = \<lparr>o_id = ''g1'', o_name = ''Team'', o_slug = ''team'', o_plan = ''free'', o_subscription_id = Some ''sub1'',
     o_customer_id = None, o_retention_days = 0, o_created_at = 0, o_updated_at = 0\<rparr>"

abbreviation has_role :: "string \<Rightarrow> string \<Rightarrow> membership" where
  "has_role u r \<equiv> \<lparr>m_organization_id = ''g1'', m_user_id = u, m_role = r, m_joined_at = 0\<rparr>"

definition org_world :: world where
  "org_world = sample_world\<lparr>organizations := [sample_org], members := [has_role ''u1'' ''owner'', has_role ''u2'' ''owner'']\<rparr>"

lemma org_world_fields [simp]:
  "organizations org_world = [sample_org]" "members org_world = [has_role ''u1'' ''owner'', has_role ''u2'' ''owner'']"
  "faults org_world = []" "videos org_world = []" "o_id sample_org = ''g1''" "users org_world = [sample_user]" "jobs org_world = []"
  "effects org_world = []" "uuid_in lower_uuid ''g1'' = Some ''g1''" "uuid_in lower_uuid ''u1'' = Some ''u1''"
  "uuid_in lower_uuid ''u2'' = Some ''u2''" "uuid_in lower_uuid ''U1'' = Some ''u1''"
  by (simp_all add: org_world_def sample_org_def lower_uuid_def)

theorem workspace_keeps_owner_witness:
  "\<exists>m \<in> set (members (snd (run_state (UpdateMemberRole lower_uuid ''u1'' ''g1'' ''u2'' (Some ''viewer'')) org_world))).
     m_organization_id m = ''g1'' \<and> m_role m = ''owner''"
proof -
  let ?w' = "snd (run_state (UpdateMemberRole lower_uuid ''u1'' ''g1'' ''u2'' (Some ''viewer'')) org_world)"
  have start: "owned ''g1'' org_world" by (simp add: owned_def)
  have "org_step lower_uuid sample_crypto ''g1'' org_world ?w'"
    by (rule step_role [OF _ prod.collapse [symmetric]]) (simp add: canonical_def)
  then have "(org_step lower_uuid sample_crypto ''g1'')\<^sup>*\<^sup>* org_world ?w'" by blast
  then show ?thesis
    by (rule workspace_keeps_owner [OF start])
      (simp add: UpdateMemberRole_def caller_role_def with_uuid_def run_simps member_of_def valid_role_def run_db_stmt)
qed

subsection \<open>Joining\<close>

text \<open>C38: who accepts an invite and is answered 200 holds the token of an invite that was pending and sent to their own
  address, up to case; that invite is spent, and they are a member of its workspace, with its role unless they
  were one before.\<close>

theorem invite_admits_invited:
  assumes "run_state (AcceptInvite e cy u (Some token)) w = (WriteJSON 200 resp, w')" "distinct (map i_id (invites w))"
  shows "\<exists>n usr. n \<in> set (invites w) \<and> i_token_hash n = hashToken cy token \<and> pending w n \<and>
    usr \<in> set (users w) \<and> u_id usr = u \<and> EqualFold e (u_email usr) (i_email n) \<and>
    n\<lparr>i_accepted_at := Some (now w)\<rparr> \<in> set (invites w') \<and>
    (\<exists>m \<in> set (members w'). m_organization_id m = i_organization_id n \<and> m_user_id m = u \<and>
       (m \<in> set (members w) \<or> m_role m = i_role n)) \<and> set (members w) \<subseteq> set (members w')"
proof -
  have "wp (AcceptInvite e cy u (Some token)) (\<lambda>r w'. status_code r = 200 \<longrightarrow>
    (\<exists>n usr again. find_where (\<lambda>n. i_token_hash n = hashToken cy token \<and> pending w n) (invites w) = Some n \<and>
      find_where (\<lambda>x. u_id x = u) (users w) = Some usr \<and> find_where (\<lambda>m. i_id m = i_id n) (invites w) = Some again \<and>
      EqualFold e (u_email usr) (i_email again) \<and>
      invites w' = upd_where (\<lambda>m. i_id m = i_id n) (\<lambda>m. m\<lparr>i_accepted_at := Some (now w)\<rparr>) (invites w) \<and>
      members w' = (if list_ex (\<lambda>m. m_organization_id m = i_organization_id n \<and> m_user_id m = u) (members w) then members w
        else members w @ [\<lparr>m_organization_id = i_organization_id n, m_user_id = u, m_role = i_role n, m_joined_at = now w\<rparr>]))) w"
    unfolding AcceptInvite_def join_org_def
    by (auto split: option.split db_error.split simp: pending_def)
  from wpI [OF this assms(1)] obtain n usr again where
    n: "find_where (\<lambda>n. i_token_hash n = hashToken cy token \<and> pending w n) (invites w) = Some n"
    and u: "find_where (\<lambda>x. u_id x = u) (users w) = Some usr"
    and a: "find_where (\<lambda>m. i_id m = i_id n) (invites w) = Some again" "EqualFold e (u_email usr) (i_email again)"
    and i: "invites w' = upd_where (\<lambda>m. i_id m = i_id n) (\<lambda>m. m\<lparr>i_accepted_at := Some (now w)\<rparr>) (invites w)"
    and m: "members w' = (if list_ex (\<lambda>m. m_organization_id m = i_organization_id n \<and> m_user_id m = u) (members w) then members w
        else members w @ [\<lparr>m_organization_id = i_organization_id n, m_user_id = u, m_role = i_role n, m_joined_at = now w\<rparr>])"
    by auto
  have n': "n \<in> set (invites w)" "i_token_hash n = hashToken cy token" "pending w n" using find_where_Some [OF n] by simp_all
  have "again = n"
    using find_where_Some [OF a(1)] n'(1) assms(2) by (auto simp: distinct_map inj_on_def)
  moreover have "n\<lparr>i_accepted_at := Some (now w)\<rparr> \<in> set (invites w')"
    unfolding i using upd_where_hit [OF n'(1), of "\<lambda>m. i_id m = i_id n"] by simp
  moreover have "\<exists>k \<in> set (members w'). m_organization_id k = i_organization_id n \<and> m_user_id k = u \<and>
      (k \<in> set (members w) \<or> m_role k = i_role n)"
    unfolding m by (auto simp: list_ex_iff)
  moreover have "set (members w) \<subseteq> set (members w')" unfolding m by auto
  ultimately show ?thesis using n' a(2) find_where_Some [OF u] by blast
qed

definition invited_world :: world where
  "invited_world = org_world\<lparr>members := [has_role ''u2'' ''owner''], invites := [\<lparr>i_id = ''n1'', i_organization_id = ''g1'',
     i_email = ''a@x'', i_role = ''member'', i_invited_by = ''u2'', i_token_hash = hashToken sample_crypto ''tok'',
     i_expires_at = days 41, i_accepted_at = None, i_created_at = 0\<rparr>]\<rparr>"

theorem invite_admits_invited_witness:
  "\<exists>m \<in> set (members (snd (run_state (AcceptInvite lower_uuid sample_crypto ''u1'' (Some ''tok'')) invited_world))).
     m_organization_id m = ''g1'' \<and> m_user_id m = ''u1''"
proof -
  let ?r = "run_state (AcceptInvite lower_uuid sample_crypto ''u1'' (Some ''tok'')) invited_world"
  have f: "faults invited_world = []" by (simp add: invited_world_def)
  have "\<exists>resp. fst ?r = WriteJSON 200 resp"
    by (simp add: AcceptInvite_def run_simps f, simp add: invited_world_def pending_def join_org_def run_simps org_world_def lower_uuid_def)
  then obtain resp where "fst ?r = WriteJSON 200 resp" by blast
  then have run: "?r = (WriteJSON 200 resp, snd ?r)" by (metis prod.collapse)
  have "distinct (map i_id (invites invited_world))" by (simp add: invited_world_def)
  from invite_admits_invited [OF run this] obtain n m where "n \<in> set (invites invited_world)" "m \<in> set (members (snd ?r))"
    "m_organization_id m = i_organization_id n" "m_user_id m = ''u1''" by blast
  then show ?thesis by (auto simp: invited_world_def)
qed

subsection \<open>What modelling showed\<close>

text \<open>
  The check "cannot change your own role" compares the path with the caller's key as text, the statement
  compares keys: an only owner who writes the key in capitals demotes themselves, and the workspace has no
  owner left.
\<close>

lemma capital_key_loses_owner:
  "\<exists>w'. run_state (UpdateMemberRole lower_uuid ''u1'' ''g1'' ''U1'' (Some ''viewer'')) (org_world\<lparr>members := [has_role ''u1'' ''owner'']\<rparr>) =
     (WriteJSON 200 ''viewer'', w') \<and> organizations w' = [sample_org] \<and> members w' = [has_role ''u1'' ''viewer'']"
  by (simp add: UpdateMemberRole_def caller_role_def with_uuid_def run_simps member_of_def valid_role_def run_db_stmt target_member_def)

text \<open>
  Deleting a workspace removes the rows of its videos, and with them the only record of their objects: nothing
  is deleted from the store, no job is started that would, and its subscription is not cancelled.
\<close>

lemma delete_leaves_objects:
  assumes "run_state (Delete_org e u g) w = (WriteHeader 204, w')"
  shows "effects w' = effects w \<and> jobs w' = jobs w \<and>
    (\<forall>v \<in> set (videos w'). \<exists>i. uuid_in e g = Some i \<and> v_organization_id v \<noteq> Some i)"
proof -
  have "wp (Delete_org e u g) (\<lambda>r w'. r = WriteHeader 204 \<longrightarrow> (\<exists>i. uuid_in e g = Some i \<and> w' = cascade_org i (tick (tick w)))) w"
    unfolding Delete_org_def delete_org_def
    by (auto split: option.split sum.split intro!: wp_caller)
  from wpI [OF this assms] obtain i where i: "uuid_in e g = Some i" "w' = cascade_org i (tick (tick w))" by auto
  have "v_organization_id v \<noteq> Some i" if "v \<in> set (videos w')" for v
    using that unfolding i(2) cascade_org_def Let_def by (auto elim!: in_upd_whereE split: if_splits)
  then show ?thesis using i by (simp add: cascade_org_def Let_def)
qed

text \<open>
  A single recorded view of one of its videos keeps a workspace from being deleted at all: its owner is
  answered 500 however often they try.
\<close>

lemma viewed_workspace_stays:
  assumes "v \<in> set (videos w)" "v_organization_id v = Some i" "watched w (v_id v)" "uuid_in e g = Some i" "faults w = []"
  shows "snd (run_state (Delete_org e u g) w) = w \<and> fst (run_state (Delete_org e u g) w) \<noteq> WriteHeader 204"
proof -
  have "list_ex (\<lambda>v. v_organization_id v = Some i \<and> watched w (v_id v)) (videos w)"
    using assms by (auto simp: list_ex_iff)
  then have "wp (Delete_org e u g) (\<lambda>r t. t = w \<and> r \<noteq> WriteHeader 204) w"
    unfolding Delete_org_def delete_org_def caller_role_def with_uuid_def using assms
    by (auto split: option.split sum.split)
  then show ?thesis by (simp add: wp_def case_prod_beta)
qed

text \<open>An invite is spent before the membership is stored: when that fails, the link is gone.\<close>

lemma failed_join_spends_invite:
  "\<exists>w'. run_state (AcceptInvite lower_uuid sample_crypto ''u1'' (Some ''tok''))
     (invited_world\<lparr>faults := [None, None, None, None, Some ''timeout'']\<rparr>) = (WriteError 500 ''failed to add membership'', w') \<and>
   fst (run_state (AcceptInvite lower_uuid sample_crypto ''u1'' (Some ''tok'')) w') = WriteError 400 ''invalid or expired invite''"
  by (simp add: AcceptInvite_def run_simps invited_world_def pending_def join_org_def org_world_def lower_uuid_def next_fault_def tick_def)

text \<open>Creating a workspace is two statements: when the second fails, there is a workspace without members.\<close>

lemma failed_create_leaves_orphan:
  assumes "trim_space raw \<noteq> []" "length (trim_space raw) \<le> 100" "length (generateSlug (trim_space raw)) \<le> 100"
    and "faults w = [None, None, None, Some ''timeout'']" "users w = [sample_user]" "members w = []" "organizations w = []"
  shows "\<exists>w'. run_state (Create_org ''u1'' ''g1'' None (Some raw)) w = (WriteError 500 ''failed to add owner to organization'', w') \<and>
    map o_id (organizations w') = [''g1''] \<and> members w' = []"
  using assms
  by (simp add: Create_org_def Let_def run_simps validate_OrgName_def validate_OrgSlug_def checkLen_def insert_org_retry_def
      insert_org_def run_db_stmt insert_member_def next_fault_def tick_def Free_def)

end
