(* ===== verification/Billing.thy ===== *)
theory Billing
  imports Organizations
begin

text \<open>
  Billing (\<open>internal/billing/\<close>): checkouts and upgrades a user or a workspace owner asks for, and the webhook
  with which the payment provider reports what became of a subscription. The provider's answers are a
  parameter (\<open>creem\<close>); a failing connection is a fault of the call. What reached the provider is recorded as an
  effect.
\<close>

subsection \<open>The provider\<close>

record creem =
  checkout_reply :: "string \<Rightarrow> string \<Rightarrow> string \<times> string \<Rightarrow> int \<times> string option"
    \<comment> \<open>product, success URL, metadata (user, workspace): status and checkout URL\<close>
  upgrade_reply :: "string \<Rightarrow> string \<Rightarrow> int \<times> string option" \<comment> \<open>status and the id of the subscription\<close>
  get_reply :: "string \<Rightarrow> int \<times> (string \<times> string) option" \<comment> \<open>status; status and portal URL of the subscription\<close>
  cancel_reply :: "string \<Rightarrow> int \<times> string" \<comment> \<open>status and the first 1024 bytes of the body\<close>

text \<open>A request and its reply: an error, or what \<open>read\<close> finds in the reply.\<close>

definition exchange :: "effect list \<Rightarrow> (string + 'a) \<Rightarrow> (string + 'a) prog" where
  "exchange done reply = do {
     e \<leftarrow> call;
     case e of Some msg \<Rightarrow> State_Monad.return (Inl msg)
     | None \<Rightarrow> do {
         modify (\<lambda>w. w\<lparr>effects := effects w @ (case reply of Inl _ \<Rightarrow> [] | Inr _ \<Rightarrow> done)\<rparr>);
         State_Monad.return reply }
   }"

definition read_reply :: "string \<Rightarrow> int \<times> 'a option \<Rightarrow> string + 'a" where
  "read_reply what reply = (if fst reply \<noteq> 200 then Inl (''creem '' @ what @ '' returned an error'')
     else case snd reply of None \<Rightarrow> Inl (''decode '' @ what @ '' response'') | Some x \<Rightarrow> Inr x)"

definition CreateCheckoutWithMetadata :: "creem \<Rightarrow> string \<Rightarrow> string \<Rightarrow> string \<times> string \<Rightarrow> (string + string) prog" where
  "CreateCheckoutWithMetadata pv productID successURL metadata =
     exchange [BillingCheckout productID] (read_reply ''checkout'' (checkout_reply pv productID successURL metadata))"

definition CreateCheckout_client :: "creem \<Rightarrow> string \<Rightarrow> string \<Rightarrow> string \<Rightarrow> (string + string) prog" where
  "CreateCheckout_client pv productID userID successURL = CreateCheckoutWithMetadata pv productID successURL (userID, [])"

definition UpgradeSubscription :: "creem \<Rightarrow> string \<Rightarrow> string \<Rightarrow> (string + string) prog" where
  "UpgradeSubscription pv subscriptionID productID =
     exchange [BillingUpgrade subscriptionID productID] (read_reply ''upgrade'' (upgrade_reply pv subscriptionID productID))"

definition GetSubscription :: "creem \<Rightarrow> string \<Rightarrow> (string + string \<times> string) prog" where
  "GetSubscription pv subscriptionID = exchange [] (read_reply ''subscription'' (get_reply pv subscriptionID))"

text \<open>A subscription that is cancelled already counts as cancelled.\<close>

definition CancelSubscription_client :: "creem \<Rightarrow> string \<Rightarrow> (string + unit) prog" where
  "CancelSubscription_client pv subscriptionID = (let (code, body) = cancel_reply pv subscriptionID in
     exchange [BillingCancel subscriptionID]
       (if code = 200 \<or> code = 400 \<and> contains body ''already canceled'' then Inr () else Inl ''creem cancel returned an error''))"

subsection \<open>Configuration and entities\<close>

record billing_config =
  bc_baseURL :: string
  proProductID :: string
  orgProProductID :: string
  businessProductID :: string
  orgBusinessProductID :: string
  webhookSecret :: string

definition NewHandlers :: "string \<Rightarrow> string \<Rightarrow> string \<Rightarrow> string \<Rightarrow> string \<Rightarrow> string \<Rightarrow> billing_config" where
  "NewHandlers url pro orgPro business orgBusiness secret =
     \<lparr>bc_baseURL = url, proProductID = pro, orgProProductID = (if orgPro = [] then pro else orgPro),
      businessProductID = business, orgBusinessProductID = (if orgBusiness = [] then business else orgBusiness),
      webhookSecret = secret\<rparr>"

definition resolveProductID :: "billing_config \<Rightarrow> string \<Rightarrow> bool \<Rightarrow> string" where
  "resolveProductID b plan org =
     (if plan = ''pro'' then if org then orgProProductID b else proProductID b
      else if plan = ''business'' then if org then orgBusinessProductID b else businessProductID b
      else [])"

definition planFromProductID :: "billing_config \<Rightarrow> string \<Rightarrow> string" where
  "planFromProductID b p =
     (if p = businessProductID b \<or> orgBusinessProductID b \<noteq> [] \<and> p = orgBusinessProductID b then ''business''
      else if p = proProductID b \<or> orgProProductID b \<noteq> [] \<and> p = orgProProductID b then ''pro''
      else [])"

datatype billing_entity = UserEntity string | OrgEntity string

definition webhookEntity :: "string \<Rightarrow> string \<Rightarrow> billing_entity" where
  "webhookEntity userID orgID = (if orgID \<noteq> [] then OrgEntity orgID else UserEntity userID)"

text \<open>The columns of either table: plan, subscription and customer.\<close>

fun billing_row :: "billing_entity \<Rightarrow> world \<Rightarrow> (string \<times> string option \<times> string option) option" where
  "billing_row (UserEntity i) w = map_option (\<lambda>u. (u_plan u, u_subscription_id u, u_customer_id u)) (find_where (\<lambda>u. u_id u = i) (users w))"
| "billing_row (OrgEntity i) w = map_option (\<lambda>g. (o_plan g, o_subscription_id g, o_customer_id g)) (find_where (\<lambda>g. o_id g = i) (organizations w))"

fun set_billing :: "billing_entity \<Rightarrow> string \<Rightarrow> string option \<Rightarrow> string option \<Rightarrow> world \<Rightarrow> world" where
  "set_billing (UserEntity i) plan sub cust w = w\<lparr>users := upd_where (\<lambda>u. u_id u = i)
     (\<lambda>u. u\<lparr>u_plan := plan, u_subscription_id := case_option (u_subscription_id u) Some sub,
          u_customer_id := case_option (u_customer_id u) Some cust\<rparr>) (users w)\<rparr>"
| "set_billing (OrgEntity i) plan sub cust w = w\<lparr>organizations := upd_where (\<lambda>g. o_id g = i)
     (\<lambda>g. g\<lparr>o_plan := plan, o_subscription_id := case_option (o_subscription_id g) Some sub,
          o_customer_id := case_option (o_customer_id g) Some cust, o_updated_at := now w\<rparr>) (organizations w)\<rparr>"

text \<open>An empty customer leaves the column alone.\<close>

definition updateSubscriptionPlan :: "billing_entity \<Rightarrow> string \<Rightarrow> string \<Rightarrow> string \<Rightarrow> (db_error + unit) prog" where
  "updateSubscriptionPlan ent plan sub cust =
     exec_world (set_billing ent plan (Some sub) (if cust = [] then None else Some cust))"

text \<open>\<open>_ = ..Scan(&subscriptionID)\<close>: an error reads as no subscription.\<close>

definition subscription_of :: "billing_entity \<Rightarrow> string option prog" where
  "subscription_of ent = do {
     row \<leftarrow> select_row (billing_row ent);
     State_Monad.return (case row of Inl _ \<Rightarrow> None | Inr (_, sub, _) \<Rightarrow> sub)
   }"

subsection \<open>Checkout\<close>

datatype checkout_body = Upgraded string | CheckoutUrl string

datatype upgrade_result = UpgradeFailed | NotUpgraded | UpgradedTo string

definition tryUpgradeExistingSubscription :: "billing_config \<Rightarrow> creem \<Rightarrow> billing_entity \<Rightarrow> string \<Rightarrow> upgrade_result prog" where
  "tryUpgradeExistingSubscription b pv ent productID = do {
     sub \<leftarrow> subscription_of ent;
     case sub of None \<Rightarrow> State_Monad.return NotUpgraded
     | Some s \<Rightarrow> do {
         r \<leftarrow> UpgradeSubscription pv s productID;
         case r of Inl _ \<Rightarrow> State_Monad.return UpgradeFailed
         | Inr newID \<Rightarrow> do {
             u \<leftarrow> updateSubscriptionPlan ent (planFromProductID b productID) newID [];
             State_Monad.return (case u of Inl _ \<Rightarrow> UpgradeFailed | Inr _ \<Rightarrow> UpgradedTo (planFromProductID b productID)) } }
   }"

text \<open>What both checkouts do: upgrade a subscription there is, or make a checkout.\<close>

definition checkout :: "billing_config \<Rightarrow> creem \<Rightarrow> billing_entity \<Rightarrow> bool \<Rightarrow> string \<Rightarrow> (string \<Rightarrow> (string + string) prog)
    \<Rightarrow> checkout_body response prog" where
  "checkout b pv ent org plan create = (let productID = resolveProductID b plan org in
     if productID = [] then
       if plan \<noteq> ''pro'' \<and> plan \<noteq> ''business'' then State_Monad.return (WriteError 400 ''unsupported plan'')
       else State_Monad.return (WriteError 400 ''plan not configured'')
     else do {
       r \<leftarrow> tryUpgradeExistingSubscription b pv ent productID;
       case r of
         UpgradeFailed \<Rightarrow> State_Monad.return (WriteError 500 ''failed to upgrade subscription'')
       | UpgradedTo p \<Rightarrow> State_Monad.return (WriteJSON 200 (Upgraded p))
       | NotUpgraded \<Rightarrow> do {
           c \<leftarrow> create productID;
           State_Monad.return (case c of Inl _ \<Rightarrow> WriteError 500 ''failed to create checkout'' | Inr url \<Rightarrow> WriteJSON 200 (CheckoutUrl url)) }
     })"

definition CreateCheckout :: "billing_config \<Rightarrow> creem \<Rightarrow> string \<Rightarrow> string option \<Rightarrow> checkout_body response prog" where
  "CreateCheckout b pv userID body = (case body of
     None \<Rightarrow> State_Monad.return bad_body
   | Some plan \<Rightarrow> checkout b pv (UserEntity userID) False plan (\<lambda>productID.
       CreateCheckout_client pv productID userID (bc_baseURL b @ ''/settings?billing=success'')))"

definition is_owner :: "org_env \<Rightarrow> string \<Rightarrow> string \<Rightarrow> bool prog" where
  "is_owner e orgID userID = do {
     row \<leftarrow> with_uuid e orgID (select_row (\<lambda>w. find_where (member_of e orgID userID) (members w)));
     State_Monad.return (case row of Inl _ \<Rightarrow> False | Inr m \<Rightarrow> m_role m = ''owner'')
   }"

definition CreateOrgCheckout :: "org_env \<Rightarrow> billing_config \<Rightarrow> creem \<Rightarrow> string \<Rightarrow> string \<Rightarrow> string option \<Rightarrow> checkout_body response prog" where
  "CreateOrgCheckout e b pv userID orgID body = do {
     ok \<leftarrow> is_owner e orgID userID;
     if \<not> ok then State_Monad.return (WriteError 403 ''only org owners can manage billing'')
     else case body of None \<Rightarrow> State_Monad.return bad_body
     | Some plan \<Rightarrow> checkout b pv (OrgEntity (the (uuid_in e orgID))) True plan (\<lambda>productID.
         CreateCheckoutWithMetadata pv productID (bc_baseURL b @ ''/organizations/'' @ orgID @ ''/settings?billing=success'') (userID, orgID))
   }"

subsection \<open>Reading and cancelling\<close>

record billing_response =
  br_Plan :: string
  br_SubscriptionID :: "string option"
  br_SubscriptionStatus :: "string option"
  br_PortalURL :: "string option"

definition non_empty :: "string \<Rightarrow> string option" where
  "non_empty s = (if s = [] then None else Some s)"

definition fetchAndWriteBilling :: "creem \<Rightarrow> billing_entity \<Rightarrow> bool \<Rightarrow> billing_response response prog" where
  "fetchAndWriteBilling pv ent includeSubscriptionID = do {
     row \<leftarrow> select_row (billing_row ent);
     case row of Inl _ \<Rightarrow> State_Monad.return (WriteError 500 ''failed to get billing info'')
     | Inr (plan, sub, _) \<Rightarrow> do {
         info \<leftarrow> (case sub of None \<Rightarrow> State_Monad.return (Inl []) | Some s \<Rightarrow> GetSubscription pv s);
         State_Monad.return (WriteJSON 200 \<lparr>br_Plan = plan, br_SubscriptionID = (if includeSubscriptionID then sub else None),
           br_SubscriptionStatus = (case info of Inl _ \<Rightarrow> None | Inr (status, _) \<Rightarrow> non_empty status),
           br_PortalURL = (case info of Inl _ \<Rightarrow> None | Inr (_, portal) \<Rightarrow> non_empty portal)\<rparr>) }
   }"

definition GetBilling :: "creem \<Rightarrow> string \<Rightarrow> billing_response response prog" where
  "GetBilling pv userID = fetchAndWriteBilling pv (UserEntity userID) True"

definition GetOrgBilling :: "org_env \<Rightarrow> creem \<Rightarrow> string \<Rightarrow> string \<Rightarrow> billing_response response prog" where
  "GetOrgBilling e pv userID orgID = do {
     row \<leftarrow> with_uuid e orgID (select_row (\<lambda>w. find_where (member_of e orgID userID) (members w)));
     case row of Inl _ \<Rightarrow> State_Monad.return (WriteError 403 ''not a member of this organization'')
     | Inr _ \<Rightarrow> fetchAndWriteBilling pv (OrgEntity (the (uuid_in e orgID))) False
   }"

definition cancelEntitySubscription :: "creem \<Rightarrow> billing_entity \<Rightarrow> unit response prog" where
  "cancelEntitySubscription pv ent = do {
     row \<leftarrow> select_row (billing_row ent);
     case row of Inl _ \<Rightarrow> State_Monad.return (WriteError 500 ''failed to get subscription'')
     | Inr (_, sub, _) \<Rightarrow> (case sub of None \<Rightarrow> State_Monad.return (WriteError 400 ''no active subscription'')
       | Some s \<Rightarrow> do {
           r \<leftarrow> CancelSubscription_client pv s;
           State_Monad.return (case r of Inl _ \<Rightarrow> WriteError 500 ''failed to cancel subscription'' | Inr _ \<Rightarrow> WriteHeader 204) })
   }"

definition CancelSubscription :: "creem \<Rightarrow> string \<Rightarrow> unit response prog" where
  "CancelSubscription pv userID = cancelEntitySubscription pv (UserEntity userID)"

definition CancelOrgSubscription :: "org_env \<Rightarrow> creem \<Rightarrow> string \<Rightarrow> string \<Rightarrow> unit response prog" where
  "CancelOrgSubscription e pv userID orgID = do {
     ok \<leftarrow> is_owner e orgID userID;
     if \<not> ok then State_Monad.return (WriteError 403 ''only org owners can manage billing'')
     else cancelEntitySubscription pv (OrgEntity (the (uuid_in e orgID)))
   }"

subsection \<open>The webhook\<close>

record webhook_payload =
  wp_ID :: string
  wp_EventType :: string
  wp_CreatedAt :: int \<comment> \<open>milliseconds\<close>
  wp_SubscriptionID :: string
  wp_ProductID :: string
  wp_CustomerID :: string
  wp_UserID :: string
  wp_OrgID :: string

definition maxWebhookBodyBytes :: nat where "maxWebhookBodyBytes = 64 * 1024"

text \<open>Without a secret nothing verifies.\<close>

definition verifySignature :: "billing_config \<Rightarrow> crypto \<Rightarrow> string \<Rightarrow> string \<Rightarrow> bool" where
  "verifySignature b cy body sig \<longleftrightarrow> webhookSecret b \<noteq> [] \<and> EncodeToString (hmac_sha256 cy (webhookSecret b) body) = sig"

text \<open>\<open>INSERT .. ON CONFLICT (event_id) DO NOTHING\<close>: whether the event was there before.\<close>

definition recordEvent :: "webhook_payload \<Rightarrow> (db_error + bool) prog" where
  "recordEvent p = db_stmt (\<lambda>w.
     if wp_ID p \<in> ce_event_id ` set (creem_events w) then (Inr True, w)
     else (Inr False, w\<lparr>creem_events := creem_events w @
       [\<lparr>ce_event_id = wp_ID p, ce_event_type = wp_EventType p, ce_user_id = non_empty (wp_UserID p), ce_created_at = wp_CreatedAt p * 1000\<rparr>]\<rparr>))"

definition handleSubscriptionActivated :: "billing_config \<Rightarrow> creem \<Rightarrow> webhook_payload \<Rightarrow> unit response prog" where
  "handleSubscriptionActivated b pv p = (let plan = planFromProductID b (wp_ProductID p); ent = webhookEntity (wp_UserID p) (wp_OrgID p) in
     if plan = [] then State_Monad.return (WriteHeader 200)
     else do {
       old \<leftarrow> subscription_of ent;
       (case old of None \<Rightarrow> State_Monad.return ()
        | Some s \<Rightarrow> if s = wp_SubscriptionID p then State_Monad.return ()
            else do { _ \<leftarrow> CancelSubscription_client pv s; State_Monad.return () });
       r \<leftarrow> updateSubscriptionPlan ent plan (wp_SubscriptionID p) (wp_CustomerID p);
       State_Monad.return (case r of Inl _ \<Rightarrow> WriteError 500 ''failed to update subscription'' | Inr _ \<Rightarrow> WriteHeader 200)
     })"

definition handleSubscriptionCanceled :: "webhook_payload \<Rightarrow> unit response prog" where
  "handleSubscriptionCanceled p = do {
     r \<leftarrow> exec_world (set_billing (webhookEntity (wp_UserID p) (wp_OrgID p)) ''free'' None None);
     State_Monad.return (case r of Inl _ \<Rightarrow> WriteError 500 ''failed to update subscription'' | Inr _ \<Rightarrow> WriteHeader 200)
   }"

text \<open>The \<open>switch\<close> over event types.\<close>

definition dispatch_event :: "billing_config \<Rightarrow> creem \<Rightarrow> webhook_payload \<Rightarrow> unit response prog" where
  "dispatch_event b pv p =
     (if wp_EventType p \<in> {''subscription.active'', ''subscription.paid''} then handleSubscriptionActivated b pv p
      else if wp_EventType p \<in> {''subscription.expired'', ''refund.created''} then handleSubscriptionCanceled p
      else State_Monad.return (WriteHeader 200))"

text \<open>\<open>decode\<close> is \<open>json.Unmarshal\<close> into the payload; only the first 64 KiB of a body are read.\<close>

definition Webhook :: "billing_config \<Rightarrow> creem \<Rightarrow> crypto \<Rightarrow> (string \<Rightarrow> webhook_payload option) \<Rightarrow> string \<Rightarrow> string
    \<Rightarrow> unit response prog" where
  "Webhook b pv cy decode sig raw = (let body = take maxWebhookBodyBytes raw in
     if \<not> verifySignature b cy body sig then State_Monad.return (WriteError 401 ''invalid signature'')
     else case decode body of None \<Rightarrow> State_Monad.return (WriteError 400 ''invalid payload'')
     | Some p \<Rightarrow>
       if wp_ID p = [] then State_Monad.return (WriteHeader 200)
       else do {
         r \<leftarrow> recordEvent p;
         case r of Inl _ \<Rightarrow> State_Monad.return (WriteError 500 ''failed to process webhook'')
         | Inr duplicate \<Rightarrow>
           if duplicate then State_Monad.return (WriteHeader 200)
           else if wp_UserID p = [] \<and> wp_OrgID p = [] then State_Monad.return (WriteHeader 200)
           else dispatch_event b pv p
       })"

end
