(* ===== verification/Billing_Facts.thy ===== *)
theory Billing_Facts
  imports Billing Organization_Facts
begin

text \<open>
  What the billing handlers guarantee: plans change only by signed events, once per event, and only for the
  entity the event names; and what goes wrong when a statement fails or events arrive in another order.
\<close>

subsection \<open>The webhook\<close>

text \<open>What a processed event may change besides the table of events and the provider's side.\<close>

definition only_entity :: "billing_entity \<Rightarrow> world \<Rightarrow> world \<Rightarrow> bool" where
  "only_entity ent w t \<longleftrightarrow> (case ent of
     UserEntity i \<Rightarrow> organizations t = organizations w \<and> rows_rel (\<lambda>a b. b = a \<or> u_id a = i) (users w) (users t)
   | OrgEntity i \<Rightarrow> users t = users w \<and> rows_rel (\<lambda>a b. b = a \<or> o_id a = i) (organizations w) (organizations t))"

lemma only_entity_refl: "users t = users w \<Longrightarrow> organizations t = organizations w \<Longrightarrow> only_entity ent w t"
  by (cases ent) (simp_all add: only_entity_def rows_rel_refl)

lemma set_billing_entity:
  "users t = users w \<Longrightarrow> organizations t = organizations w \<Longrightarrow> only_entity ent w (set_billing ent plan sub cust t)"
  by (cases ent) (simp_all add: only_entity_def rows_rel_upd)

lemma set_billing_events [simp]: "creem_events (set_billing ent plan sub cust w) = creem_events w"
  by (cases ent) simp_all

lemma wp_exchange [simp]:
  "wp (exchange eff reply) Q w = (case next_fault w of Some msg \<Rightarrow> Q (Inl msg) (tick w)
     | None \<Rightarrow> Q reply ((tick w)\<lparr>effects := effects w @ (case reply of Inl _ \<Rightarrow> [] | Inr _ \<Rightarrow> eff)\<rparr>))"
  by (simp add: exchange_def split: option.split)

definition same_accounts :: "world \<Rightarrow> world \<Rightarrow> bool" where
  "same_accounts w t \<longleftrightarrow> users t = users w \<and> organizations t = organizations w \<and> creem_events t = creem_events w"

lemma CancelSubscription_client_wp: "wp (CancelSubscription_client pv s) (\<lambda>_ t. same_accounts w t) w"
  by (auto simp: CancelSubscription_client_def same_accounts_def Let_def split_beta split: option.split)

lemma activated_wp:
  assumes "users v = users w" "organizations v = organizations w" "creem_events w = evs"
  shows "wp (handleSubscriptionActivated b pv p) (\<lambda>_ t.
    only_entity (webhookEntity (wp_UserID p) (wp_OrgID p)) v t \<and> creem_events t = evs) w"
  unfolding handleSubscriptionActivated_def subscription_of_def updateSubscriptionPlan_def Let_def using assms
  by (auto simp: same_accounts_def split: option.split intro!: only_entity_refl set_billing_entity
      wp_mono [OF CancelSubscription_client_wp])

lemma canceled_wp:
  assumes "users v = users w" "organizations v = organizations w" "creem_events w = evs"
  shows "wp (handleSubscriptionCanceled p) (\<lambda>_ t.
    only_entity (webhookEntity (wp_UserID p) (wp_OrgID p)) v t \<and> creem_events t = evs) w"
  unfolding handleSubscriptionCanceled_def using assms
  by (auto split: option.split intro!: only_entity_refl set_billing_entity)

lemma dispatch_wp:
  assumes "users v = users w" "organizations v = organizations w" "creem_events w = evs"
  shows "wp (dispatch_event b pv p) (\<lambda>_ t.
    only_entity (webhookEntity (wp_UserID p) (wp_OrgID p)) v t \<and> creem_events t = evs) w"
  unfolding dispatch_event_def using assms
  by (auto simp del: insert_iff intro!: only_entity_refl activated_wp canceled_wp)

definition event_taken :: "billing_config \<Rightarrow> crypto \<Rightarrow> (string \<Rightarrow> webhook_payload option) \<Rightarrow> string \<Rightarrow> string \<Rightarrow> world \<Rightarrow> world \<Rightarrow> bool" where
  "event_taken b cy decode sig raw w t \<longleftrightarrow> (\<exists>p. verifySignature b cy (take maxWebhookBodyBytes raw) sig \<and>
     decode (take maxWebhookBodyBytes raw) = Some p \<and> wp_ID p \<notin> ce_event_id ` set (creem_events w) \<and>
     wp_ID p \<in> ce_event_id ` set (creem_events t) \<and> only_entity (webhookEntity (wp_UserID p) (wp_OrgID p)) w t)"

lemma Webhook_wp: "wp (Webhook b pv cy decode sig raw) (\<lambda>_ t. same_accounts w t \<and> effects t = effects w \<or> event_taken b cy decode sig raw w t) w"
proof -
  have taken: "event_taken b cy decode sig raw w t"
    if "verifySignature b cy (take maxWebhookBodyBytes raw) sig" "decode (take maxWebhookBodyBytes raw) = Some p"
      "wp_ID p \<notin> ce_event_id ` set (creem_events w)"
      "only_entity (webhookEntity (wp_UserID p) (wp_OrgID p)) w t \<and> creem_events t = creem_events w @ [e]" "ce_event_id e = wp_ID p" for p t e
    using that unfolding event_taken_def by auto
  show ?thesis unfolding Webhook_def recordEvent_def Let_def
    by (auto simp: same_accounts_def split: option.split intro!: wp_mono [OF dispatch_wp [where v = w]] disjI2 dest: taken)
      (simp add: event_taken_def only_entity_refl)
qed

text \<open>C4: a webhook that changes any account, or makes a request to the payment provider, is signed with the configured
  secret, which is not empty, carries an event that was never recorded before and is recorded now, and changes
  no account but the one the event names. So no event takes effect twice and none is forged.\<close>

theorem plan_changes_signed_once:
  assumes "run_state (Webhook b pv cy decode sig raw) w = (r, w')"
    and "users w' \<noteq> users w \<or> organizations w' \<noteq> organizations w \<or> effects w' \<noteq> effects w"
  shows "webhookSecret b \<noteq> [] \<and> sig = EncodeToString (hmac_sha256 cy (webhookSecret b) (take maxWebhookBodyBytes raw)) \<and>
    (\<exists>p. decode (take maxWebhookBodyBytes raw) = Some p \<and>
       wp_ID p \<notin> ce_event_id ` set (creem_events w) \<and> wp_ID p \<in> ce_event_id ` set (creem_events w') \<and>
       only_entity (webhookEntity (wp_UserID p) (wp_OrgID p)) w w')"
  using wpI [OF Webhook_wp assms(1)] assms(2) by (auto simp: same_accounts_def verifySignature_def event_taken_def)

definition sample_billing :: billing_config where
  "sample_billing = NewHandlers ''https://app'' ''prod_pro'' [] ''prod_biz'' [] ''whsec''"

definition sample_provider :: creem where
  "sample_provider = \<lparr>checkout_reply = (\<lambda>_ _ _. (200, Some ''https://pay'')), upgrade_reply = (\<lambda>_ _. (200, Some ''sub2'')),
     get_reply = (\<lambda>_. (200, Some (''active'', []))), cancel_reply = (\<lambda>_. (200, []))\<rparr>"

definition activated_event :: webhook_payload where
  "activated_event = \<lparr>wp_ID = ''evt1'', wp_EventType = ''subscription.active'', wp_CreatedAt = 0, wp_SubscriptionID = ''sub1'',
     wp_ProductID = ''prod_pro'', wp_CustomerID = ''cust1'', wp_UserID = ''u1'', wp_OrgID = []\<rparr>"

definition signed :: string where
  "signed = EncodeToString (hmac_sha256 sample_crypto ''whsec'' ''body'')"

lemmas billing_defs = Webhook_def recordEvent_def verifySignature_def dispatch_event_def handleSubscriptionActivated_def handleSubscriptionCanceled_def
  subscription_of_def updateSubscriptionPlan_def planFromProductID_def webhookEntity_def maxWebhookBodyBytes_def
  CancelSubscription_client_def exchange_def

lemma sample_billing_fields [simp]:
  "webhookSecret sample_billing = ''whsec''" "proProductID sample_billing = ''prod_pro''" "businessProductID sample_billing = ''prod_biz''"
  "orgProProductID sample_billing = ''prod_pro''" "orgBusinessProductID sample_billing = ''prod_biz''"
  "cancel_reply sample_provider s = (200, [])"
  by (simp_all add: sample_billing_def NewHandlers_def sample_provider_def)

theorem plan_changes_signed_once_witness:
  "\<exists>w'. run_state (Webhook sample_billing sample_provider sample_crypto (\<lambda>_. Some activated_event) signed ''body'') sample_world =
     (WriteHeader 200, w') \<and> map u_plan (users w') = [''pro''] \<and> ''evt1'' \<in> ce_event_id ` set (creem_events w')"
proof -
  let ?m = "Webhook sample_billing sample_provider sample_crypto (\<lambda>_. Some activated_event) signed ''body''"
  have e: "creem_events sample_world = []" by (simp add: sample_world_def empty_world_def)
  have run: "fst (run_state ?m sample_world) = WriteHeader 200" "map u_plan (users (snd (run_state ?m sample_world))) = [''pro'']"
    by (simp_all add: billing_defs signed_def Let_def run_simps run_db_stmt activated_event_def e sample_user_def)
  then have "users (snd (run_state ?m sample_world)) \<noteq> users sample_world" by (auto simp: sample_user_def)
  from plan_changes_signed_once [OF prod.collapse [symmetric] disjI1 [OF this]]
  have "''evt1'' \<in> ce_event_id ` set (creem_events (snd (run_state ?m sample_world)))" by (auto simp: activated_event_def)
  with run show ?thesis by (metis prod.collapse)
qed

subsection \<open>What modelling showed\<close>

text \<open>
  The event is recorded before it is processed. When the update fails the provider is answered 500 and sends
  the event again, which is then a duplicate: the paying user stays on the free plan.
\<close>

lemma duplicate_ignored:
  assumes "verifySignature b cy (take maxWebhookBodyBytes raw) sig" "decode (take maxWebhookBodyBytes raw) = Some p"
    and "wp_ID p \<in> ce_event_id ` set (creem_events w)" "faults w = []"
  shows "run_state (Webhook b pv cy decode sig raw) w = (WriteHeader 200, w)"
  using assms by (simp add: Webhook_def recordEvent_def Let_def run_simps run_db_stmt)

lemma failed_event_is_lost:
  "\<exists>w'. run_state (Webhook sample_billing sample_provider sample_crypto (\<lambda>_. Some activated_event) signed ''body'')
      (sample_world\<lparr>faults := [None, None, Some ''timeout'']\<rparr>) = (WriteError 500 ''failed to update subscription'', w') \<and>
    run_state (Webhook sample_billing sample_provider sample_crypto (\<lambda>_. Some activated_event) signed ''body'') w' = (WriteHeader 200, w') \<and>
    map u_plan (users w') = [''free'']"
proof -
  let ?m = "Webhook sample_billing sample_provider sample_crypto (\<lambda>_. Some activated_event) signed ''body''"
  let ?r = "run_state ?m (sample_world\<lparr>faults := [None, None, Some ''timeout'']\<rparr>)"
  have e: "creem_events sample_world = []" by (simp add: sample_world_def empty_world_def)
  have first: "fst ?r = WriteError 500 ''failed to update subscription''" "users (snd ?r) = [sample_user]" "faults (snd ?r) = []"
    "''evt1'' \<in> ce_event_id ` set (creem_events (snd ?r))"
    by (simp_all add: billing_defs signed_def Let_def run_simps run_db_stmt activated_event_def e next_fault_def tick_def sample_user_def)
  have "run_state ?m (snd ?r) = (WriteHeader 200, snd ?r)"
    using first by (intro duplicate_ignored [of _ _ _ _ _ activated_event])
      (simp_all add: verifySignature_def signed_def maxWebhookBodyBytes_def activated_event_def)
  with first show ?thesis by (intro exI [of _ "snd ?r"]) (simp add: prod_eq_iff)
qed

text \<open>
  An expiry downgrades whatever the entity has now: after a change of subscription, the event that reports the
  end of the old one takes the plan the new one pays for.
\<close>

lemma old_expiry_downgrades:
  assumes "users w = [sample_user\<lparr>u_plan := ''business'', u_subscription_id := Some ''sub2''\<rparr>]" "faults w = []" "creem_events w = []"
  shows "\<exists>w'. run_state (Webhook sample_billing sample_provider sample_crypto
      (\<lambda>_. Some (activated_event\<lparr>wp_EventType := ''subscription.expired'', wp_SubscriptionID := ''sub1''\<rparr>)) signed ''body'') w = (WriteHeader 200, w') \<and>
    map (\<lambda>u. (u_plan u, u_subscription_id u)) (users w') = [(''free'', Some ''sub2'')]"
  using assms by (simp add: billing_defs signed_def Let_def run_simps run_db_stmt activated_event_def)

text \<open>Without a configured business product, an event without a product counts as one for it.\<close>

lemma missing_product_is_business:
  "planFromProductID (NewHandlers url pro [] [] [] secret) [] = ''business''"
  by (simp add: planFromProductID_def NewHandlers_def)

text \<open>An upgrade charges at once; when the update of the plan then fails, the money is spent and the plan the old one.\<close>

lemma charged_without_upgrade:
  assumes "users w = [sample_user\<lparr>u_plan := ''pro'', u_subscription_id := Some ''sub1''\<rparr>]" "faults w = [None, None, Some ''timeout'']" "effects w = []"
  shows "\<exists>w'. run_state (CreateCheckout sample_billing sample_provider ''u1'' (Some ''business'')) w =
      (WriteError 500 ''failed to upgrade subscription'', w') \<and>
    effects w' = [BillingUpgrade ''sub1'' ''prod_biz''] \<and> map u_plan (users w') = [''pro'']"
  using assms
  by (simp add: CreateCheckout_def checkout_def resolveProductID_def Let_def tryUpgradeExistingSubscription_def subscription_of_def
      UpgradeSubscription_def exchange_def run_simps updateSubscriptionPlan_def next_fault_def tick_def read_reply_def
      sample_provider_def)

end
