(* ===== verification/Branding.thy ===== *)
theory Branding
  imports Video_Settings Organizations
begin

text \<open>
  Branding (\<open>internal/video/branding.go\<close>): the settings of a user, of a workspace and of a video, the logo
  in the object store, and how the three are put together for a page. A body of \<open>None\<close> did not decode.
\<close>

subsection \<open>Checks\<close>

definition isValidHexColor :: "string \<Rightarrow> bool" where
  "isValidHexColor s \<longleftrightarrow> length s = 7 \<and> hd s = CHR ''#'' \<and> list_all is_hex (tl s)"

text \<open>
  The text is searched in lower case. For the two patterns it matters which bytes become ASCII letters,
  which is what \<^const>\<open>slug_lower\<close> computes. The result is the message, empty for accepted text.
\<close>

definition sanitizeCustomCSS :: "string \<Rightarrow> string" where
  "sanitizeCustomCSS css =
     (if validate_CustomCSS css \<noteq> [] then validate_CustomCSS css
      else if contains (slug_lower css) ''</style'' then ''custom CSS must not contain closing style tags''
      else if contains (slug_lower css) ''@import url('' then ''custom CSS must not contain @import url()''
      else [])"

definition bad_color :: "string \<Rightarrow> string option \<Rightarrow> string option" where
  "bad_color name val = (case val of None \<Rightarrow> None
     | Some s \<Rightarrow> if s \<noteq> [] \<and> \<not> isValidHexColor s
         then Some (''invalid '' @ name @ '': must be a hex color like #1a2b3c'') else None)"

definition validateBrandingColors :: "branding \<Rightarrow> string" where
  "validateBrandingColors b =
     (case List.map_filter id
        [bad_color ''colorBackground'' (b_ColorBackground b), bad_color ''colorSurface'' (b_ColorSurface b),
         bad_color ''colorText'' (b_ColorText b), bad_color ''colorAccent'' (b_ColorAccent b)]
      of [] \<Rightarrow> [] | m # _ \<Rightarrow> m)"

text \<open>The checks of a body, in the order of the handlers; a video has no CSS.\<close>

definition check_branding :: "branding \<Rightarrow> string" where
  "check_branding b =
     (let company = (case b_CompanyName b of None \<Rightarrow> [] | Some s \<Rightarrow> validate_CompanyName s);
          footer = (case b_FooterText b of None \<Rightarrow> [] | Some s \<Rightarrow> validate_FooterText s);
          css = (case b_CustomCSS b of None \<Rightarrow> [] | Some s \<Rightarrow> sanitizeCustomCSS s)
      in if company \<noteq> [] then company else if footer \<noteq> [] then footer
         else if validateBrandingColors b \<noteq> [] then validateBrandingColors b else css)"

subsection \<open>Putting the settings together\<close>

record branding_config =
  bc_CompanyName :: string
  bc_LogoURL :: string
  bc_ColorBackground :: string
  bc_ColorSurface :: string
  bc_ColorText :: string
  bc_ColorAccent :: string
  bc_FooterText :: string
  bc_HasCustomLogo :: bool
  bc_CustomCSS :: string

definition default_branding :: branding_config where
  "default_branding = \<lparr>bc_CompanyName = ''SendRec'', bc_LogoURL = ''/images/logo.png'', bc_ColorBackground = ''#0a1628'',
     bc_ColorSurface = ''#1e293b'', bc_ColorText = ''#ffffff'', bc_ColorAccent = ''#00b67a'', bc_FooterText = [],
     bc_HasCustomLogo = False, bc_CustomCSS = []\<rparr>"

text \<open>A column overrides when it is neither null nor empty.\<close>

definition override :: "string option \<Rightarrow> string \<Rightarrow> string" where
  "override col dflt = (case col of None \<Rightarrow> dflt | Some s \<Rightarrow> if s = [] then dflt else s)"

definition applyOverrides :: "branding_config \<Rightarrow> branding \<Rightarrow> branding_config" where
  "applyOverrides cfg src = cfg\<lparr>
     bc_CompanyName := override (b_CompanyName src) (bc_CompanyName cfg),
     bc_ColorBackground := override (b_ColorBackground src) (bc_ColorBackground cfg),
     bc_ColorSurface := override (b_ColorSurface src) (bc_ColorSurface cfg),
     bc_ColorText := override (b_ColorText src) (bc_ColorText cfg),
     bc_ColorAccent := override (b_ColorAccent src) (bc_ColorAccent cfg),
     bc_FooterText := override (b_FooterText src) (bc_FooterText cfg)\<rparr>"

definition resolveLogoKey :: "string option \<Rightarrow> string option \<Rightarrow> string" where
  "resolveLogoKey userLogoKey videoLogoKey = override videoLogoKey (override userLogoKey [])"

text \<open>Signing the address of the logo is a call that may fail; then the default logo is shown.\<close>

definition resolveBranding :: "services \<Rightarrow> branding \<Rightarrow> branding \<Rightarrow> branding_config prog" where
  "resolveBranding sv userBranding videoBranding = do {
     let cfg = applyOverrides (applyOverrides default_branding userBranding) videoBranding;
     let cfg = cfg\<lparr>bc_CustomCSS := override (b_CustomCSS userBranding) []\<rparr>;
     let logoKey = resolveLogoKey (b_LogoKey userBranding) (b_LogoKey videoBranding);
     if logoKey = ''none'' then State_Monad.return (cfg\<lparr>bc_LogoURL := [], bc_HasCustomLogo := True\<rparr>)
     else if logoKey \<noteq> [] then do {
       e \<leftarrow> call;
       State_Monad.return (case e of Some _ \<Rightarrow> cfg
         | None \<Rightarrow> cfg\<lparr>bc_LogoURL := download_url sv logoKey [], bc_HasCustomLogo := True\<rparr>) }
     else State_Monad.return cfg
   }"

subsection \<open>The settings of a user or a workspace\<close>

text \<open>Which row a request is about; \<open>user_id\<close> is the primary key of the table.\<close>

definition branding_in :: "rctx \<Rightarrow> branding_row \<Rightarrow> bool" where
  "branding_in c r \<longleftrightarrow> (if OrgID c \<noteq> [] then ub_organization_id r = Some (OrgID c) else ub_user_id r = UserID c)"

definition branding_disabled :: "'b response" where
  "branding_disabled = WriteError 403 ''branding requires a paid plan''"

definition GetBrandingSettings :: "config \<Rightarrow> rctx \<Rightarrow> branding response prog" where
  "GetBrandingSettings h c =
     (if \<not> brandingEnabled h then State_Monad.return branding_disabled
      else do {
        row \<leftarrow> select_row (\<lambda>w. find_where (branding_in c) (user_branding w));
        State_Monad.return (case row of Inl NoRows \<Rightarrow> WriteJSON 200 no_branding
          | Inl _ \<Rightarrow> WriteError 500 ''failed to get branding settings''
          | Inr r \<Rightarrow> WriteJSON 200 (ub_branding r)) })"

text \<open>\<open>INSERT .. ON CONFLICT (user_id) DO UPDATE\<close>.\<close>

definition upsert_user_branding :: "string \<Rightarrow> branding \<Rightarrow> (branding \<Rightarrow> branding) \<Rightarrow> (db_error + unit) prog" where
  "upsert_user_branding userID fresh f = exec_world (\<lambda>w. w\<lparr>user_branding :=
     (if list_ex (\<lambda>r. ub_user_id r = userID) (user_branding w)
      then upd_where (\<lambda>r. ub_user_id r = userID) (\<lambda>r. r\<lparr>ub_branding := f (ub_branding r)\<rparr>) (user_branding w)
      else user_branding w @ [\<lparr>ub_user_id = userID, ub_organization_id = None, ub_branding = fresh\<rparr>])\<rparr>)"

text \<open>
  The update of a workspace's row, and the insert when there is none. The insert names no \<open>user_id\<close>, which
  is the primary key of the table and has no default: it always fails.
\<close>

definition upsert_org :: "string \<Rightarrow> (branding \<Rightarrow> branding) \<Rightarrow> (db_error + unit) prog" where
  "upsert_org orgID f = do {
     r \<leftarrow> db_stmt (\<lambda>w. (Inr (count_where (\<lambda>r. ub_organization_id r = Some orgID) (user_branding w)),
       w\<lparr>user_branding := upd_where (\<lambda>r. ub_organization_id r = Some orgID)
          (\<lambda>r. r\<lparr>ub_branding := f (ub_branding r)\<rparr>) (user_branding w)\<rparr>));
     case r of Inl e \<Rightarrow> State_Monad.return (Inl e)
     | Inr n \<Rightarrow> if n = 0
         then db_stmt (\<lambda>w. (Inl (DbFail ''null value in column user_id violates not-null constraint''), w))
         else State_Monad.return (Inr ())
   }"

definition upsertOrgBranding :: "string \<Rightarrow> branding \<Rightarrow> (db_error + unit) prog" where
  "upsertOrgBranding orgID b = upsert_org orgID (\<lambda>_. b)"

definition upsertOrgLogoKey :: "string \<Rightarrow> string \<Rightarrow> (db_error + unit) prog" where
  "upsertOrgLogoKey orgID logoKey = upsert_org orgID (\<lambda>b. b\<lparr>b_LogoKey := Some logoKey\<rparr>)"

definition PutBrandingSettings :: "config \<Rightarrow> rctx \<Rightarrow> branding option \<Rightarrow> unit response prog" where
  "PutBrandingSettings h c body =
     (if \<not> brandingEnabled h then State_Monad.return branding_disabled
      else case body of None \<Rightarrow> State_Monad.return bad_body
      | Some b \<Rightarrow>
        if check_branding b \<noteq> [] then State_Monad.return (WriteError 400 (check_branding b))
        else if OrgID c \<noteq> [] then (case RequireRole c [''owner'', ''admin''] of
            Inl resp \<Rightarrow> State_Monad.return resp
          | Inr _ \<Rightarrow> do {
              r \<leftarrow> upsertOrgBranding (OrgID c) b;
              State_Monad.return (case r of Inl _ \<Rightarrow> WriteError 500 ''failed to save branding settings''
                | Inr _ \<Rightarrow> WriteHeader 204) })
        else do {
          r \<leftarrow> upsert_user_branding (UserID c) b (\<lambda>_. b);
          State_Monad.return (case r of Inl _ \<Rightarrow> WriteError 500 ''failed to save branding settings''
            | Inr _ \<Rightarrow> WriteHeader 204) })"

subsection \<open>The logo\<close>

definition maxLogoUploadBytes :: int where "maxLogoUploadBytes = 512 * 1024"

definition logo_extension :: "string \<Rightarrow> string" where
  "logo_extension contentType = (if contentType = ''image/svg+xml'' then ''.svg'' else ''.png'')"

text \<open>The address to upload to is signed first, the key stored after it; the result is both.\<close>

definition offer_logo :: "services \<Rightarrow> string \<Rightarrow> string \<Rightarrow> int \<Rightarrow> (db_error + unit) prog \<Rightarrow> (string \<times> string) response prog" where
  "offer_logo sv logoKey contentType contentLength store = do {
     e \<leftarrow> call;
     if e \<noteq> None then State_Monad.return (WriteError 500 ''failed to generate upload URL'')
     else do {
       r \<leftarrow> store;
       State_Monad.return (case r of Inl _ \<Rightarrow> WriteError 500 ''failed to save logo key''
         | Inr _ \<Rightarrow> WriteJSON 200 (upload_url sv logoKey contentType contentLength, logoKey)) }
   }"

definition UploadBrandingLogo :: "config \<Rightarrow> services \<Rightarrow> rctx \<Rightarrow> (string \<times> int) option \<Rightarrow> (string \<times> string) response prog" where
  "UploadBrandingLogo h sv c body =
     (if \<not> brandingEnabled h then State_Monad.return branding_disabled
      else case body of None \<Rightarrow> State_Monad.return bad_body
      | Some (contentType, contentLength) \<Rightarrow>
        if contentType \<noteq> ''image/png'' \<and> contentType \<noteq> ''image/svg+xml''
          then State_Monad.return (WriteError 400 ''logo must be PNG or SVG'')
        else if contentLength \<le> 0 \<or> contentLength > maxLogoUploadBytes
          then State_Monad.return (WriteError 400 ''logo must be 512KB or smaller'')
        else if OrgID c \<noteq> [] then (case RequireRole c [''owner'', ''admin''] of
            Inl (WriteError n m) \<Rightarrow> State_Monad.return (WriteError n m)
          | Inl _ \<Rightarrow> State_Monad.return (WriteError 403 ''insufficient permissions'')
          | Inr _ \<Rightarrow>
              let logoKey = ''branding/org-'' @ OrgID c @ ''/logo'' @ logo_extension contentType
              in offer_logo sv logoKey contentType contentLength (upsertOrgLogoKey (OrgID c) logoKey))
        else
          let logoKey = ''branding/'' @ UserID c @ ''/logo'' @ logo_extension contentType
          in offer_logo sv logoKey contentType contentLength
               (upsert_user_branding (UserID c) (no_branding\<lparr>b_LogoKey := Some logoKey\<rparr>) (\<lambda>b. b\<lparr>b_LogoKey := Some logoKey\<rparr>)))"

text \<open>The object is deleted whatever key the row names; a failure of the store is ignored.\<close>

definition deleteLogoByFilter :: "(branding_row \<Rightarrow> bool) \<Rightarrow> unit response prog" where
  "deleteLogoByFilter P = do {
     row \<leftarrow> select_row (\<lambda>w. find_where P (user_branding w));
     case row of Inl NoRows \<Rightarrow> State_Monad.return (WriteHeader 204)
     | Inl _ \<Rightarrow> State_Monad.return (WriteError 500 ''failed to get branding'')
     | Inr r \<Rightarrow> do {
         _ \<leftarrow> (case b_LogoKey (ub_branding r) of None \<Rightarrow> State_Monad.return None
           | Some key \<Rightarrow> if key = [] then State_Monad.return None else service (StoreDelete key));
         r \<leftarrow> exec_world (\<lambda>w. w\<lparr>user_branding :=
           upd_where P (\<lambda>r. r\<lparr>ub_branding := (ub_branding r)\<lparr>b_LogoKey := None\<rparr>\<rparr>) (user_branding w)\<rparr>);
         State_Monad.return (case r of Inl _ \<Rightarrow> WriteError 500 ''failed to remove logo'' | Inr _ \<Rightarrow> WriteHeader 204) }
   }"

definition DeleteBrandingLogo :: "config \<Rightarrow> rctx \<Rightarrow> unit response prog" where
  "DeleteBrandingLogo h c =
     (if \<not> brandingEnabled h then State_Monad.return branding_disabled
      else if OrgID c \<noteq> [] then (case RequireRole c [''owner'', ''admin''] of
          Inl resp \<Rightarrow> State_Monad.return resp
        | Inr _ \<Rightarrow> deleteLogoByFilter (\<lambda>r. ub_organization_id r = Some (OrgID c)))
      else deleteLogoByFilter (\<lambda>r. ub_user_id r = UserID c))"

subsection \<open>The settings of a video\<close>

definition GetVideoBranding :: "config \<Rightarrow> rctx \<Rightarrow> string \<Rightarrow> branding response prog" where
  "GetVideoBranding h c videoID =
     (if \<not> brandingEnabled h then State_Monad.return branding_disabled
      else do {
        row \<leftarrow> select_row (\<lambda>w. find_where (orgVideoFilter c videoID live) (videos w));
        State_Monad.return (case row of Inl NoRows \<Rightarrow> WriteError 404 ''video not found''
          | Inl _ \<Rightarrow> WriteError 500 ''failed to get video branding''
          | Inr v \<Rightarrow> WriteJSON 200 (v_branding v)) })"

text \<open>The body has no logo and no CSS; the row's stay.\<close>

definition SetVideoBranding :: "config \<Rightarrow> rctx \<Rightarrow> string \<Rightarrow> branding option \<Rightarrow> unit response prog" where
  "SetVideoBranding h c videoID body =
     (if \<not> brandingEnabled h then State_Monad.return branding_disabled
      else case body of None \<Rightarrow> State_Monad.return bad_body
      | Some req \<Rightarrow> let b = req\<lparr>b_LogoKey := None, b_CustomCSS := None\<rparr> in
        if check_branding b \<noteq> [] then State_Monad.return (WriteError 400 (check_branding b))
        else update_scoped c videoID live
          (\<lambda>w v. v\<lparr>v_branding := b\<lparr>b_LogoKey := b_LogoKey (v_branding v), b_CustomCSS := b_CustomCSS (v_branding v)\<rparr>\<rparr>)
          ''failed to save video branding'' ''video not found'')"

subsection \<open>What is stored and what a page shows\<close>

text \<open>The checks do not read the logo.\<close>

lemma validateBrandingColors_logo [simp]: "validateBrandingColors (b\<lparr>b_LogoKey := k\<rparr>) = validateBrandingColors b"
  unfolding validateBrandingColors_def by simp

lemma check_branding_logo [simp]: "check_branding (b\<lparr>b_LogoKey := k\<rparr>) = check_branding b"
  by (simp add: check_branding_def Let_def)

lemma check_no_branding [simp]: "check_branding no_branding = []"
  by (simp add: check_branding_def no_branding_def validateBrandingColors_def bad_color_def)

lemma bad_color_None: "bad_color name val = None \<longleftrightarrow> (\<forall>s. val = Some s \<longrightarrow> s = [] \<or> isValidHexColor s)"
  by (auto simp: bad_color_def split: option.split)

lemma validateBrandingColors_ok: "validateBrandingColors b = [] \<longleftrightarrow>
    bad_color ''colorBackground'' (b_ColorBackground b) = None \<and> bad_color ''colorSurface'' (b_ColorSurface b) = None \<and>
    bad_color ''colorText'' (b_ColorText b) = None \<and> bad_color ''colorAccent'' (b_ColorAccent b) = None"
proof -
  have "bad_color n v \<noteq> Some []" for n v by (simp add: bad_color_def split: option.split)
  then show ?thesis unfolding validateBrandingColors_def
    by (auto simp: List.map_filter_simps split: option.splits list.split)
qed

text \<open>What the checks accept, column by column.\<close>

lemma check_branding_ok: "check_branding b = [] \<longleftrightarrow>
    (\<forall>s. b_CompanyName b = Some s \<longrightarrow> length s \<le> 200) \<and> (\<forall>s. b_FooterText b = Some s \<longrightarrow> length s \<le> 500) \<and>
    (\<forall>s \<in> {b_ColorBackground b, b_ColorSurface b, b_ColorText b, b_ColorAccent b}. \<forall>t. s = Some t \<longrightarrow> t = [] \<or> isValidHexColor t) \<and>
    (\<forall>s. b_CustomCSS b = Some s \<longrightarrow> sanitizeCustomCSS s = [])"
  unfolding check_branding_def Let_def
  by (auto simp: validateBrandingColors_ok bad_color_None validate_CompanyName_def validate_FooterText_def checkLen_ok split: option.split)

definition branding_ok :: "world \<Rightarrow> bool" where
  "branding_ok w \<longleftrightarrow> (\<forall>r \<in> set (user_branding w). check_branding (ub_branding r) = []) \<and>
     (\<forall>v \<in> set (videos w). check_branding (v_branding v) = [])"

lemma branding_ok_cong: "user_branding t = user_branding w \<Longrightarrow> videos t = videos w \<Longrightarrow> branding_ok t = branding_ok w"
  by (simp add: branding_ok_def)

lemma branding_ok_upd:
  "branding_ok w \<Longrightarrow> videos t = videos w \<Longrightarrow> (\<And>b. check_branding b = [] \<Longrightarrow> check_branding (f b) = []) \<Longrightarrow>
   user_branding t = upd_where P (\<lambda>r. r\<lparr>ub_branding := f (ub_branding r)\<rparr>) (user_branding w) \<Longrightarrow> branding_ok t"
  by (auto simp: branding_ok_def elim!: in_upd_whereE)

lemma upsert_user_branding_wp:
  assumes "branding_ok w" "check_branding fresh = []" "\<And>b. check_branding b = [] \<Longrightarrow> check_branding (f b) = []"
  shows "wp (upsert_user_branding userID fresh f) (\<lambda>_ t. branding_ok t) w"
  using assms unfolding upsert_user_branding_def
  by (auto simp: branding_ok_cong [of "tick w"] split: option.split)
    (auto simp: branding_ok_def elim!: in_upd_whereE)

lemma upsert_org_wp:
  assumes "branding_ok w" "\<And>b. check_branding b = [] \<Longrightarrow> check_branding (f b) = []"
  shows "wp (upsert_org orgID f) (\<lambda>_ t. branding_ok t) w"
  using assms unfolding upsert_org_def
  by (auto intro: branding_ok_upd [OF assms(1)] split: option.split simp: branding_ok_cong [of "tick w"])
    (auto simp: branding_ok_def elim!: in_upd_whereE)

lemma deleteLogo_wp: "branding_ok w \<Longrightarrow> wp (deleteLogoByFilter P) (\<lambda>_ t. branding_ok t) w"
  unfolding deleteLogoByFilter_def
  by (auto split: option.split db_error.split sum.split simp: branding_ok_def elim!: in_upd_whereE)

lemma branding_handlers_ok:
  "preserves branding_ok (PutBrandingSettings h c body)"
  "preserves branding_ok (UploadBrandingLogo h sv c req)"
  "preserves branding_ok (DeleteBrandingLogo h c)"
  unfolding preserves_wp PutBrandingSettings_def UploadBrandingLogo_def DeleteBrandingLogo_def offer_logo_def
    upsertOrgBranding_def upsertOrgLogoKey_def Let_def RequireRole_def
  by (auto split: option.split prod.split sum.split response.split simp: branding_ok_cong [of "tick w" for w]
      intro!: wp_mono [OF upsert_user_branding_wp] wp_mono [OF upsert_org_wp] deleteLogo_wp)

lemma check_branding_kept:
  "check_branding (b\<lparr>b_LogoKey := k, b_CustomCSS := None\<rparr>) = [] \<Longrightarrow> check_branding u = [] \<Longrightarrow>
   check_branding (b\<lparr>b_LogoKey := l, b_CustomCSS := b_CustomCSS u\<rparr>) = []"
  by (simp add: check_branding_ok)

lemma update_scoped_branding_ok:
  assumes "branding_ok w" "\<And>s u. check_branding (v_branding u) = [] \<Longrightarrow> check_branding (v_branding (f s u)) = []"
  shows "wp (update_scoped c videoID P f failed missing) (\<lambda>_ t. branding_ok t) w"
  using assms unfolding update_scoped_def
  by (auto split: option.split sum.split simp: branding_ok_def elim!: in_upd_whereE)

lemma SetVideoBranding_ok: "preserves branding_ok (SetVideoBranding h c videoID body)"
  unfolding preserves_wp SetVideoBranding_def Let_def
  by (auto split: option.split intro!: update_scoped_branding_ok simp: check_branding_kept)

text \<open>What the templates receive: four colours in hex and CSS that passed the check.\<close>

definition page_safe :: "branding_config \<Rightarrow> bool" where
  "page_safe cfg \<longleftrightarrow> list_all isValidHexColor [bc_ColorBackground cfg, bc_ColorSurface cfg, bc_ColorText cfg, bc_ColorAccent cfg] \<and>
     sanitizeCustomCSS (bc_CustomCSS cfg) = [] \<and> length (bc_CompanyName cfg) \<le> 200 \<and> length (bc_FooterText cfg) \<le> 500"

lemma sanitize_empty: "sanitizeCustomCSS [] = []"
  by (simp add: sanitizeCustomCSS_def validate_CustomCSS_def checkLen_def contains_def has_prefix_def)

lemma default_safe: "page_safe default_branding"
  by (simp add: page_safe_def default_branding_def isValidHexColor_def is_hex_def sanitize_empty)

lemma override_hex: "isValidHexColor d \<Longrightarrow> \<forall>t. col = Some t \<longrightarrow> t = [] \<or> isValidHexColor t \<Longrightarrow> isValidHexColor (override col d)"
  by (auto simp: override_def split: option.split)

lemma override_length: "length d \<le> n \<Longrightarrow> \<forall>t. col = Some t \<longrightarrow> length t \<le> n \<Longrightarrow> length (override col d) \<le> n"
  by (auto simp: override_def split: option.split)

lemma override_css: "\<forall>t. col = Some t \<longrightarrow> sanitizeCustomCSS t = [] \<Longrightarrow> sanitizeCustomCSS (override col []) = []"
  by (auto simp: override_def sanitize_empty split: option.split)

lemma applyOverrides_safe: "page_safe cfg \<Longrightarrow> check_branding b = [] \<Longrightarrow> page_safe (applyOverrides cfg b)"
  by (simp add: page_safe_def applyOverrides_def check_branding_ok override_hex override_length)

lemma resolveBranding_wp:
  assumes "check_branding ub = []" "check_branding vb = []"
  shows "wp (resolveBranding sv ub vb) (\<lambda>cfg t. page_safe cfg \<and> videos t = videos w \<and> user_branding t = user_branding w \<and> effects t = effects w) w"
proof -
  have "page_safe (applyOverrides (applyOverrides default_branding ub) vb)"
    by (intro applyOverrides_safe default_safe assms)
  then have "page_safe ((applyOverrides (applyOverrides default_branding ub) vb)\<lparr>bc_CustomCSS := override (b_CustomCSS ub) []\<rparr>)"
    using assms(1) by (simp add: page_safe_def check_branding_ok override_css)
  then show ?thesis unfolding resolveBranding_def Let_def
    by (auto simp: page_safe_def split: option.split)
qed

subsection \<open>What modelling showed\<close>

text \<open>
  The settings take any text as the key of the logo, and the handler that removes the logo deletes the object
  the row names: two requests delete any object of the store, such as the recording of somebody else.
\<close>

lemma logo_deletes_any_object:
  assumes "brandingEnabled h" "OrgID c = []" "faults w = []" "key \<noteq> []" "user_branding w = []"
  shows "\<exists>t. run_state (PutBrandingSettings h c (Some (no_branding\<lparr>b_LogoKey := Some key\<rparr>))) w = (WriteHeader 204, t) \<and>
    effects (snd (run_state (DeleteBrandingLogo h c) t)) = effects w @ [StoreDelete key]"
  using assms
  by (simp add: PutBrandingSettings_def DeleteBrandingLogo_def deleteLogoByFilter_def upsert_user_branding_def run_simps)

text \<open>The page of a video shows the object of that key as its logo, and so hands out a signed address of it.\<close>

lemma logo_reads_any_object:
  assumes "next_fault w = None" "key \<noteq> []" "key \<noteq> ''none''"
  shows "bc_LogoURL (fst (run_state (resolveBranding sv (no_branding\<lparr>b_LogoKey := Some key\<rparr>) no_branding) w)) = download_url sv key []"
  using assms by (simp add: resolveBranding_def Let_def resolveLogoKey_def override_def no_branding_def run_simps)

text \<open>No workspace ever gets settings: its first row cannot be inserted.\<close>

definition no_org_branding :: "world \<Rightarrow> bool" where
  "no_org_branding w \<longleftrightarrow> (\<forall>r \<in> set (user_branding w). ub_organization_id r = None)"

lemma upsert_org_fails:
  "no_org_branding w \<Longrightarrow> wp (upsert_org orgID f) (\<lambda>r t. (\<exists>e. r = Inl e) \<and> user_branding t = user_branding w) w"
  unfolding upsert_org_def no_org_branding_def
  by (auto split: option.split simp: count_where_0 upd_where_none)

lemma org_branding_never_saved:
  assumes "no_org_branding w" "OrgID c \<noteq> []"
  shows "wp (PutBrandingSettings h c body) (\<lambda>r t. r \<noteq> WriteHeader 204 \<and> user_branding t = user_branding w) w"
    and "wp (UploadBrandingLogo h sv c req) (\<lambda>r t. (\<forall>x. r \<noteq> WriteJSON 200 x) \<and> user_branding t = user_branding w) w"
  unfolding PutBrandingSettings_def UploadBrandingLogo_def offer_logo_def upsertOrgBranding_def upsertOrgLogoKey_def
    branding_disabled_def Let_def RequireRole_def
  using assms upsert_org_fails [OF assms(1)]
  by (auto split: option.split prod.split sum.split response.split simp: no_org_branding_def intro!: wp_mono [OF upsert_org_fails])

end

