(* ===== verification/Notifications.thy ===== *)
theory Notifications
  imports Watch_Auth Workers
begin

text \<open>
  Notifications (\<open>internal/video/notification.go\<close>) and the webhook client (\<open>internal/webhook/\<close>): the
  preferences of a user, signed deliveries with retries and a log, the addresses they may not reach, and who
  is told of a view or a comment. The HTTP exchange is a parameter; the JSON text of an event is one too.
\<close>

subsection \<open>Addresses (\<open>ssrf.go\<close>)\<close>

text \<open>\<open>net.IP\<close> is 4 or 16 bytes; \<open>To4\<close> takes an IPv4 address out of its 16-byte form.\<close>

type_synonym ip = "nat list"

definition To4 :: "ip \<Rightarrow> ip option" where
  "To4 a = (if length a = 4 then Some a
     else if length a = 16 \<and> take 10 a = replicate 10 0 \<and> a ! 10 = 0xFF \<and> a ! 11 = 0xFF then Some (drop 12 a)
     else None)"

definition IsLoopback :: "ip \<Rightarrow> bool" where
  "IsLoopback a = (case To4 a of Some b \<Rightarrow> b ! 0 = 127 | None \<Rightarrow> a = replicate 15 0 @ [1])"

definition IsPrivate :: "ip \<Rightarrow> bool" where
  "IsPrivate a = (case To4 a of
     Some b \<Rightarrow> b ! 0 = 10 \<or> (b ! 0 = 172 \<and> b ! 1 div 16 = 1) \<or> (b ! 0 = 192 \<and> b ! 1 = 168)
   | None \<Rightarrow> length a = 16 \<and> a ! 0 div 2 = 0xFC div 2)"

definition IsLinkLocalUnicast :: "ip \<Rightarrow> bool" where
  "IsLinkLocalUnicast a = (case To4 a of Some b \<Rightarrow> b ! 0 = 169 \<and> b ! 1 = 254
   | None \<Rightarrow> length a = 16 \<and> a ! 0 = 0xFE \<and> a ! 1 div 64 = 2)"

definition IsLinkLocalMulticast :: "ip \<Rightarrow> bool" where
  "IsLinkLocalMulticast a = (case To4 a of Some b \<Rightarrow> b ! 0 = 224 \<and> b ! 1 = 0 \<and> b ! 2 = 0
   | None \<Rightarrow> length a = 16 \<and> a ! 0 = 0xFF \<and> a ! 1 mod 16 = 2)"

definition IsInterfaceLocalMulticast :: "ip \<Rightarrow> bool" where
  "IsInterfaceLocalMulticast a \<longleftrightarrow> To4 a = None \<and> length a = 16 \<and> a ! 0 = 0xFF \<and> a ! 1 mod 16 = 1"

definition IsUnspecified :: "ip \<Rightarrow> bool" where
  "IsUnspecified a = (case To4 a of Some b \<Rightarrow> b = replicate 4 0 | None \<Rightarrow> a = replicate 16 0)"

definition IsBlockedIP :: "bool \<Rightarrow> ip \<Rightarrow> bool" where
  "IsBlockedIP allowPrivateTargets a \<longleftrightarrow> \<not> allowPrivateTargets \<and>
     (IsLoopback a \<or> IsPrivate a \<or> IsLinkLocalUnicast a \<or> IsLinkLocalMulticast a \<or>
      IsInterfaceLocalMulticast a \<or> IsUnspecified a)"

text \<open>
  The hook of the dialer. \<open>split_host\<close> and \<open>parse_ip\<close> are \<open>net.SplitHostPort\<close> and \<open>net.ParseIP\<close>; the
  connection is made when it returns no error.
\<close>

definition safeDialControl :: "bool \<Rightarrow> (string \<Rightarrow> string option) \<Rightarrow> (string \<Rightarrow> ip option) \<Rightarrow> string \<Rightarrow> string option" where
  "safeDialControl allowPrivateTargets split_host parse_ip address = (case split_host address of
     None \<Rightarrow> Some (''webhook: cannot parse dial address'')
   | Some host \<Rightarrow> (case parse_ip host of
       None \<Rightarrow> Some (''webhook: unresolved dial address'')
     | Some a \<Rightarrow> if IsBlockedIP allowPrivateTargets a
         then Some (''webhook: refusing to connect to internal address'') else None))"

subsection \<open>The webhook client (\<open>webhook.go\<close>)\<close>

text \<open>
  An answer of the receiver: \<open>Inl\<close> the error of the exchange, \<open>Inr\<close> status and body. A request that could
  not even be made has an empty logged body, a failed exchange its error.
\<close>

record hook_env =
  post :: "string \<Rightarrow> nat \<Rightarrow> string + int \<times> string" \<comment> \<open>url and attempt\<close>
  valid_request :: "string \<Rightarrow> bool" \<comment> \<open>\<open>http.NewRequestWithContext\<close> accepts the url\<close>
  deadline :: "nat \<Rightarrow> bool" \<comment> \<open>the context ends while waiting after an attempt\<close>
  allowPrivate :: bool \<comment> \<open>\<open>AllowPrivateTargets\<close>\<close>

definition maxResponseBodyBytes :: nat where "maxResponseBodyBytes = 1024"

definition SignPayload :: "crypto \<Rightarrow> string \<Rightarrow> string \<Rightarrow> string" where
  "SignPayload cy secret payload = ''sha256='' @ EncodeToString (hmac_sha256 cy secret payload)"

text \<open>The status, the body that is logged, and the error.\<close>

definition doPost :: "hook_env \<Rightarrow> string \<Rightarrow> string \<Rightarrow> string \<Rightarrow> nat \<Rightarrow> (int option \<times> string \<times> string option) prog" where
  "doPost e url body signature k =
     (if \<not> valid_request e url then State_Monad.return (None, [], Some ''create webhook request'')
      else case post e url k of
        Inl err \<Rightarrow> State_Monad.return (None, err, Some err)
      | Inr (status, text) \<Rightarrow> do {
          modify (\<lambda>w. w\<lparr>effects := effects w @ [WebhookPost url body signature]\<rparr>);
          State_Monad.return (Some status, take maxResponseBodyBytes text, None) })"

definition logDelivery :: "string \<Rightarrow> string \<Rightarrow> string \<Rightarrow> int option \<Rightarrow> string \<Rightarrow> nat \<Rightarrow> unit prog" where
  "logDelivery userID event payload status text k = do {
     _ \<leftarrow> exec_world (\<lambda>w. w\<lparr>webhook_deliveries := webhook_deliveries w @
       [\<lparr>wd_user_id = userID, wd_event = event, wd_payload = payload, wd_status_code = status,
         wd_response_body = text, wd_attempt = int k, wd_created_at = now w\<rparr>]\<rparr>);
     State_Monad.return ()
   }"

definition delivered :: "int option \<Rightarrow> string option \<Rightarrow> bool" where
  "delivered status err \<longleftrightarrow> err = None \<and> (case status of None \<Rightarrow> False | Some n \<Rightarrow> 200 \<le> n \<and> n < 300)"

definition maxAttempts :: nat where "maxAttempts = 3"

text \<open>
  The loop of \<open>Dispatch\<close>; \<open>None\<close> is success. The error of an answer outside 2xx names its status. The number
  left decreases, so the loop ends after \<^const>\<open>maxAttempts\<close> attempts.
\<close>

fun dispatch_from :: "hook_env \<Rightarrow> string \<Rightarrow> string \<Rightarrow> string \<Rightarrow> string \<Rightarrow> string \<Rightarrow> nat \<Rightarrow> string option \<Rightarrow> string option prog" where
  "dispatch_from e userID url event body signature 0 lastErr = State_Monad.return lastErr"
| "dispatch_from e userID url event body signature (Suc left) lastErr = do {
     let k = maxAttempts - left;
     (status, text, err) \<leftarrow> doPost e url body signature k;
     logDelivery userID event body status text k;
     if delivered status err then State_Monad.return None
     else do {
       let lastErr = (case err of Some x \<Rightarrow> Some x | None \<Rightarrow> (case status of
           Some n \<Rightarrow> Some (''webhook returned status '' @ itoa n) | None \<Rightarrow> lastErr));
       if k < maxAttempts \<and> deadline e k then State_Monad.return (Some ''context deadline exceeded'')
       else dispatch_from e userID url event body signature left lastErr }
   }"

definition Dispatch :: "hook_env \<Rightarrow> crypto \<Rightarrow> string \<Rightarrow> string \<Rightarrow> string \<Rightarrow> string \<Rightarrow> string \<Rightarrow> string option prog" where
  "Dispatch e cy userID url secret event body =
     dispatch_from e userID url event body (SignPayload cy secret body) maxAttempts None"

text \<open>The url and the secret of a user; both must be set.\<close>

definition hook_config :: "notification_prefs \<Rightarrow> (string \<times> string) option" where
  "hook_config p = (case (np_webhook_url p, np_webhook_secret p) of (Some u, Some s) \<Rightarrow> Some (u, s) | _ \<Rightarrow> None)"

definition LookupConfigByUserID :: "string \<Rightarrow> (string \<times> string) option prog" where
  "LookupConfigByUserID userID = do {
     row \<leftarrow> select_row (\<lambda>w. find_where (\<lambda>p. np_user_id p = userID \<and> np_webhook_url p \<noteq> None) (notification_preferences w));
     State_Monad.return (case row of Inl _ \<Rightarrow> None | Inr p \<Rightarrow> hook_config p)
   }"

definition LookupConfig :: "string \<Rightarrow> (string \<times> string) option prog" where
  "LookupConfig userEmail = do {
     row \<leftarrow> select_row (\<lambda>w. find_where (\<lambda>p. np_webhook_url p \<noteq> None \<and>
         list_ex (\<lambda>u. u_id u = np_user_id p \<and> u_email u = userEmail) (users w)) (notification_preferences w));
     State_Monad.return (case row of Inl _ \<Rightarrow> None | Inr p \<Rightarrow> hook_config p)
   }"

text \<open>The goroutine of \<open>dispatchWebhook\<close>.\<close>

definition run_webhook :: "hook_env \<Rightarrow> crypto \<Rightarrow> string \<Rightarrow> string \<Rightarrow> string \<Rightarrow> unit prog" where
  "run_webhook e cy userID event body = do {
     target \<leftarrow> LookupConfigByUserID userID;
     case target of None \<Rightarrow> State_Monad.return ()
     | Some (url, secret) \<Rightarrow> do { _ \<leftarrow> Dispatch e cy userID url secret event body; State_Monad.return () }
   }"

subsection \<open>Preferences\<close>

definition validNotificationModes :: "string list" where
  "validNotificationModes = [''off'', ''views_only'', ''comments_only'', ''views_and_comments'', ''digest'']"

definition validViewNotificationModes :: "string list" where
  "validViewNotificationModes = [''off'', ''every'', ''digest'']"

definition normalizeAccountNotificationMode :: "string \<Rightarrow> string" where
  "normalizeAccountNotificationMode mode =
     (if mode \<in> set validNotificationModes then mode
      else if mode = ''every'' \<or> mode = ''first'' then ''views_only''
      else ''off'')"

definition normalizeViewNotificationMode :: "string \<Rightarrow> string" where
  "normalizeViewNotificationMode mode =
     (if mode \<in> set validViewNotificationModes then mode else if mode = ''first'' then ''every'' else ''off'')"

record prefs_response =
  pr_NotificationMode :: string
  pr_SlackWebhookUrl :: "string option"
  pr_WebhookUrl :: "string option"
  pr_WebhookSecret :: "string option"

abbreviation prefs_of :: "string \<Rightarrow> world \<Rightarrow> notification_prefs option" where
  "prefs_of userID w \<equiv> find_where (\<lambda>p. np_user_id p = userID) (notification_preferences w)"

definition GetNotificationPreferences :: "rctx \<Rightarrow> prefs_response response prog" where
  "GetNotificationPreferences c = do {
     row \<leftarrow> select_row (prefs_of (UserID c));
     State_Monad.return (case row of
         Inl NoRows \<Rightarrow> WriteJSON 200 \<lparr>pr_NotificationMode = ''off'', pr_SlackWebhookUrl = None, pr_WebhookUrl = None, pr_WebhookSecret = None\<rparr>
       | Inl _ \<Rightarrow> WriteError 500 ''failed to get preferences''
       | Inr p \<Rightarrow> WriteJSON 200 \<lparr>pr_NotificationMode = normalizeAccountNotificationMode (np_view_notification p),
           pr_SlackWebhookUrl = np_slack_webhook_url p, pr_WebhookUrl = np_webhook_url p, pr_WebhookSecret = np_webhook_secret p\<rparr>)
   }"

text \<open>What \<open>net/url\<close> reads in a text: scheme, \<open>Host\<close> and \<open>Hostname()\<close>; \<open>None\<close> for an error.\<close>

record url_parts =
  Scheme :: string
  Host :: string
  Hostname :: string

definition isValidWebhookURL :: "bool \<Rightarrow> (string \<Rightarrow> url_parts option) \<Rightarrow> (string \<Rightarrow> ip option) \<Rightarrow> string \<Rightarrow> bool" where
  "isValidWebhookURL allowPrivateTargets parse_url parse_ip raw = (case parse_url raw of
     None \<Rightarrow> False
   | Some u \<Rightarrow>
       if Host u = [] then False
       else if Scheme u = ''https''
         then \<not> (case parse_ip (Hostname u) of None \<Rightarrow> False | Some a \<Rightarrow> IsBlockedIP allowPrivateTargets a)
       else if Scheme u = ''http'' \<and> allowPrivateTargets
         then Hostname u = ''localhost'' \<or> Hostname u = ''127.0.0.1'' \<or> Hostname u = ''::1''
       else False)"

record prefs_request =
  pq_NotificationMode :: string
  pq_SlackWebhookUrl :: "string option"
  pq_WebhookUrl :: "string option"

text \<open>A trimmed address, \<open>None\<close> when the body has none or an empty one.\<close>

definition trimmed :: "string option \<Rightarrow> string option" where
  "trimmed s = (case s of None \<Rightarrow> None | Some t \<Rightarrow> if trim_space t = [] then None else Some (trim_space t))"

definition check_prefs :: "(string \<Rightarrow> bool) \<Rightarrow> prefs_request \<Rightarrow> string" where
  "check_prefs valid_url req =
     (let slack = (case trimmed (pq_SlackWebhookUrl req) of None \<Rightarrow> []
            | Some u \<Rightarrow> if \<not> has_prefix u ''https://hooks.slack.com/''
                then ''Slack webhook URL must start with https://hooks.slack.com/''
                else validate_SlackWebhookURL u);
          hook = (case trimmed (pq_WebhookUrl req) of None \<Rightarrow> []
            | Some u \<Rightarrow> if \<not> valid_url u then ''webhook URL must use HTTPS (HTTP allowed only for localhost)''
                else validate_WebhookURL u)
      in if pq_NotificationMode req \<notin> set validNotificationModes then ''invalid notification mode''
         else if slack \<noteq> [] then slack else hook)"

text \<open>
  The upsert: a stored secret is kept, a new one is only for an address that had none. \<open>secret\<close> is what
  \<open>generateWebhookSecret\<close> returned, if anything.
\<close>

definition upsert_prefs :: "string \<Rightarrow> string \<Rightarrow> string option \<Rightarrow> string option \<Rightarrow> string option \<Rightarrow> (db_error + unit) prog" where
  "upsert_prefs userID mode slack hook secret = exec_world (\<lambda>w. w\<lparr>notification_preferences :=
     (if list_ex (\<lambda>p. np_user_id p = userID) (notification_preferences w)
      then upd_where (\<lambda>p. np_user_id p = userID)
        (\<lambda>p. p\<lparr>np_view_notification := mode, np_slack_webhook_url := slack, np_webhook_url := hook,
           np_webhook_secret := (case np_webhook_secret p of Some s \<Rightarrow> Some s | None \<Rightarrow> secret)\<rparr>) (notification_preferences w)
      else notification_preferences w @ [\<lparr>np_user_id = userID, np_view_notification = mode, np_slack_webhook_url = slack,
        np_webhook_url = hook, np_webhook_secret = secret\<rparr>])\<rparr>)"

definition PutNotificationPreferences :: "(string \<Rightarrow> bool) \<Rightarrow> rctx \<Rightarrow> string option \<Rightarrow> prefs_request option \<Rightarrow> unit response prog" where
  "PutNotificationPreferences valid_url c newSecret body = (case body of
     None \<Rightarrow> State_Monad.return bad_body
   | Some req \<Rightarrow>
     if check_prefs valid_url req \<noteq> [] then State_Monad.return (WriteError 400 (check_prefs valid_url req))
     else if trimmed (pq_WebhookUrl req) \<noteq> None \<and> newSecret = None
       then State_Monad.return (WriteError 500 ''failed to generate webhook secret'')
     else do {
       r \<leftarrow> upsert_prefs (UserID c) (pq_NotificationMode req) (trimmed (pq_SlackWebhookUrl req)) (trimmed (pq_WebhookUrl req))
         (if trimmed (pq_WebhookUrl req) = None then None else newSecret);
       State_Monad.return (case r of Inl _ \<Rightarrow> WriteError 500 ''failed to save preferences'' | Inr _ \<Rightarrow> WriteHeader 204) })"

definition TestSlackWebhook :: "rctx \<Rightarrow> unit response prog" where
  "TestSlackWebhook c = do {
     row \<leftarrow> select_row (prefs_of (UserID c));
     case row of Inl _ \<Rightarrow> State_Monad.return (WriteError 400 ''no Slack webhook URL configured'')
     | Inr p \<Rightarrow> (case np_slack_webhook_url p of
         None \<Rightarrow> State_Monad.return (WriteError 400 ''no Slack webhook URL configured'')
       | Some url \<Rightarrow> do {
           e \<leftarrow> service (SlackTest url);
           State_Monad.return (if e \<noteq> None then WriteError 502 ''failed to send test message to Slack'' else WriteHeader 204) })
   }"

definition RegenerateWebhookSecret :: "rctx \<Rightarrow> string option \<Rightarrow> string response prog" where
  "RegenerateWebhookSecret c newSecret = (case newSecret of
     None \<Rightarrow> State_Monad.return (WriteError 500 ''failed to generate secret'')
   | Some secret \<Rightarrow> do {
       r \<leftarrow> db_stmt (\<lambda>w. let P = (\<lambda>p. np_user_id p = UserID c \<and> np_webhook_url p \<noteq> None) in
         (Inr (count_where P (notification_preferences w)), w\<lparr>notification_preferences :=
            upd_where P (\<lambda>p. p\<lparr>np_webhook_secret := Some secret\<rparr>) (notification_preferences w)\<rparr>));
       State_Monad.return (case r of Inl _ \<Rightarrow> WriteError 400 ''no webhook URL configured''
         | Inr n \<Rightarrow> if n = 0 then WriteError 400 ''no webhook URL configured'' else WriteJSON 200 secret) })"

definition TestWebhook :: "hook_env \<Rightarrow> crypto \<Rightarrow> rctx \<Rightarrow> string \<Rightarrow> unit response prog" where
  "TestWebhook e cy c body = do {
     row \<leftarrow> select_row (prefs_of (UserID c));
     case (case row of Inl _ \<Rightarrow> None | Inr p \<Rightarrow> hook_config p) of
       None \<Rightarrow> State_Monad.return (WriteError 400 ''no webhook URL configured'')
     | Some (url, secret) \<Rightarrow> do {
         err \<leftarrow> Dispatch e cy (UserID c) url secret ''webhook.test'' body;
         State_Monad.return (if err \<noteq> None then WriteError 502 ''failed to deliver test webhook'' else WriteHeader 204) }
   }"

definition ListWebhookDeliveries :: "rctx \<Rightarrow> webhook_delivery list response prog" where
  "ListWebhookDeliveries c = do {
     r \<leftarrow> select_rows (\<lambda>w. take 50 (sort_key (\<lambda>d. - wd_created_at d)
       (filter (\<lambda>d. wd_user_id d = UserID c) (webhook_deliveries w))));
     State_Monad.return (case r of Inl _ \<Rightarrow> WriteError 500 ''failed to fetch deliveries'' | Inr ds \<Rightarrow> WriteJSON 200 ds)
   }"

text \<open>The body: \<open>Some None\<close> resets the video to the mode of the account. Only the creator's rows are reached.\<close>

definition SetVideoNotification :: "rctx \<Rightarrow> string \<Rightarrow> string option option \<Rightarrow> unit response prog" where
  "SetVideoNotification c videoID body = (case body of
     None \<Rightarrow> State_Monad.return bad_body
   | Some mode \<Rightarrow>
     if (case mode of None \<Rightarrow> False | Some m \<Rightarrow> m \<notin> set validViewNotificationModes)
       then State_Monad.return (WriteError 400 ''invalid notification mode'')
     else do {
       tag \<leftarrow> update_videos (\<lambda>w v. v_id v = videoID \<and> v_user_id v = UserID c \<and> v_status v \<noteq> Deleted)
         (\<lambda>w v. v\<lparr>v_view_notification := mode\<rparr>);
       State_Monad.return (case tag of Inl _ \<Rightarrow> WriteError 500 ''could not update notification setting''
         | Inr n \<Rightarrow> if n = 0 then WriteError 404 ''video not found'' else WriteHeader 204) })"

subsection \<open>Who is told\<close>

definition sendsImmediateViewNotification :: "string \<Rightarrow> bool" where
  "sendsImmediateViewNotification accountMode \<longleftrightarrow> accountMode = ''views_only'' \<or> accountMode = ''views_and_comments''"

definition sendsImmediateCommentNotification :: "string \<Rightarrow> bool" where
  "sendsImmediateCommentNotification accountMode \<longleftrightarrow> accountMode = ''comments_only'' \<or> accountMode = ''views_and_comments''"

definition accountNotificationMode :: "string \<Rightarrow> string prog" where
  "accountNotificationMode ownerID = do {
     row \<leftarrow> select_row (prefs_of ownerID);
     State_Monad.return (case row of Inl _ \<Rightarrow> ''off'' | Inr p \<Rightarrow> normalizeAccountNotificationMode (np_view_notification p))
   }"

definition shouldSendImmediateCommentNotification :: "string \<Rightarrow> bool prog" where
  "shouldSendImmediateCommentNotification ownerID = do {
     mode \<leftarrow> accountNotificationMode ownerID;
     State_Monad.return (sendsImmediateCommentNotification mode)
   }"

text \<open>
  \<open>resolveAndNotify\<close>, in the goroutine of a view: nothing for the owner's own views; otherwise Slack and the
  webhook always, mail by the mode of the video or else of the account.
\<close>

definition resolveAndNotify :: "config \<Rightarrow> string \<Rightarrow> user \<Rightarrow> string \<Rightarrow> string \<Rightarrow> string option \<Rightarrow> unit prog" where
  "resolveAndNotify h videoID owner title viewerUserID videoMode =
     (if viewerUserID \<noteq> [] \<and> viewerUserID = u_id owner then State_Monad.return ()
      else do {
        _ \<leftarrow> (if hasSlackNotifier h then service (SlackView (u_email owner) title) else State_Monad.return None);
        dispatchWebhook h (u_id owner) ''video.viewed'' videoID;
        if \<not> hasViewNotifier h then State_Monad.return ()
        else do {
          mode \<leftarrow> (case videoMode of Some m \<Rightarrow> State_Monad.return (normalizeViewNotificationMode m)
            | None \<Rightarrow> do {
                acct \<leftarrow> accountNotificationMode (u_id owner);
                State_Monad.return (if sendsImmediateViewNotification acct then ''every'' else ''off'') });
          if mode \<noteq> ''every'' then State_Monad.return ()
          else do { _ \<leftarrow> service (EmailView (u_email owner) title); State_Monad.return () } } })"

subsection \<open>Which addresses a delivery may not reach\<close>

text \<open>The reference: IPv4 networks in CIDR notation, an address as its 32-bit number.\<close>

definition addr4 :: "nat \<Rightarrow> nat \<Rightarrow> nat \<Rightarrow> nat \<Rightarrow> nat" where
  "addr4 a b c d = a * 2 ^ 24 + b * 2 ^ 16 + c * 2 ^ 8 + d"

definition in_cidr :: "nat \<Rightarrow> nat \<times> nat \<Rightarrow> bool" where
  "in_cidr x net = (case net of (base, len) \<Rightarrow> x div 2 ^ (32 - len) = base div 2 ^ (32 - len))"

definition internal_networks :: "(nat \<times> nat) list" where
  "internal_networks = [(addr4 127 0 0 0, 8), (addr4 10 0 0 0, 8), (addr4 172 16 0 0, 12), (addr4 192 168 0 0, 16),
     (addr4 169 254 0 0, 16), (addr4 224 0 0 0, 24), (addr4 0 0 0 0, 32)]"

lemma addr4_div:
  assumes "b < 256" "c < 256" "d < 256"
  shows "addr4 a b c d div 2 ^ 24 = a" "addr4 a b c d div 2 ^ 20 = a * 16 + b div 16"
    "addr4 a b c d div 2 ^ 16 = a * 256 + b" "addr4 a b c d div 2 ^ 8 = a * 65536 + b * 256 + c"
proof -
  have 8: "addr4 a b c d div 2 ^ 8 = a * 65536 + b * 256 + c" using assms by (simp add: addr4_def)
  have 16: "addr4 a b c d div 2 ^ 16 = a * 256 + b"
  proof -
    have "addr4 a b c d div 2 ^ 16 = (addr4 a b c d div 2 ^ 8) div 2 ^ 8" by (simp add: div_mult2_eq [symmetric])
    also have "\<dots> = a * 256 + b" unfolding 8 using assms by simp
    finally show ?thesis .
  qed
  have "addr4 a b c d div 2 ^ 24 = (addr4 a b c d div 2 ^ 16) div 2 ^ 8" by (simp add: div_mult2_eq [symmetric])
  also have "\<dots> = a" unfolding 16 using assms by simp
  finally have 24: "addr4 a b c d div 2 ^ 24 = a" .
  have "addr4 a b c d div 2 ^ 20 = (addr4 a b c d div 2 ^ 16) div 2 ^ 4" by (simp add: div_mult2_eq [symmetric])
  also have "\<dots> = a * 16 + b div 16" unfolding 16 by simp
  finally have 20: "addr4 a b c d div 2 ^ 20 = a * 16 + b div 16" .
  from 8 16 20 24 show "addr4 a b c d div 2 ^ 24 = a" "addr4 a b c d div 2 ^ 20 = a * 16 + b div 16"
    "addr4 a b c d div 2 ^ 16 = a * 256 + b" "addr4 a b c d div 2 ^ 8 = a * 65536 + b * 256 + c" by blast+
qed

lemma addr4_eq_0: "addr4 a b c d = 0 \<longleftrightarrow> a = 0 \<and> b = 0 \<and> c = 0 \<and> d = 0"
  by (simp add: addr4_def)

lemma mixed_radix_eq:
  assumes "(b :: nat) < m" "b' < m"
  shows "a * m + b = a' * m + b' \<longleftrightarrow> a = a' \<and> b = b'"
proof
  assume eq: "a * m + b = a' * m + b'"
  have "a = (a * m + b) div m" "a' = (a' * m + b') div m" "b = (a * m + b) mod m" "b' = (a' * m + b') mod m"
    using assms by simp_all
  then show "a = a' \<and> b = b'" unfolding eq by simp
qed simp

lemma To4_v4: "length b = 4 \<Longrightarrow> To4 b = Some b"
  by (simp add: To4_def)

lemma To4_mapped: "length b = 4 \<Longrightarrow> To4 (replicate 10 0 @ [0xFF, 0xFF] @ b) = Some b"
  by (simp add: To4_def nth_append)

lemma replicate_4: "replicate 4 x = [x, x, x, x]"
  by (simp add: eval_nat_numeral)

lemma blocked_v4_bytes:
  "IsBlockedIP False [a, b, c, d] \<longleftrightarrow> a = 127 \<or> a = 10 \<or> (a = 172 \<and> b div 16 = 1) \<or> (a = 192 \<and> b = 168) \<or>
     (a = 169 \<and> b = 254) \<or> (a = 224 \<and> b = 0 \<and> c = 0) \<or> (a = 0 \<and> b = 0 \<and> c = 0 \<and> d = 0)"
  by (simp add: IsBlockedIP_def To4_v4 IsLoopback_def IsPrivate_def IsLinkLocalUnicast_def IsLinkLocalMulticast_def
      IsInterfaceLocalMulticast_def IsUnspecified_def replicate_4)

text \<open>One lemma per prefix length.\<close>

lemma in_cidr_split:
  assumes "b < 256" "c < 256" "d < 256" "q < 256"
  shows "in_cidr (addr4 a b c d) (addr4 p 0 0 0, 8) \<longleftrightarrow> a = p"
    and "in_cidr (addr4 a b c d) (addr4 p q 0 0, 12) \<longleftrightarrow> a = p \<and> b div 16 = q div 16"
    and "in_cidr (addr4 a b c d) (addr4 p q 0 0, 16) \<longleftrightarrow> a = p \<and> b = q"
    and "in_cidr (addr4 a b c d) (addr4 p 0 0 0, 24) \<longleftrightarrow> a = p \<and> b = 0 \<and> c = 0"
    and "in_cidr (addr4 a b c d) (addr4 0 0 0 0, 32) \<longleftrightarrow> a = 0 \<and> b = 0 \<and> c = 0 \<and> d = 0"
proof -
  have len: "(32 :: nat) - 8 = 24" "(32 :: nat) - 12 = 20" "(32 :: nat) - 16 = 16" "(32 :: nat) - 24 = 8" "(32 :: nat) - 32 = 0"
    by simp_all
  have z: "(0 :: nat) < 256" by simp
  note divs = addr4_div [OF assms(1-3)] addr4_div [OF assms(4) z z] addr4_div [OF z z z]
  show "in_cidr (addr4 a b c d) (addr4 p 0 0 0, 8) \<longleftrightarrow> a = p"
    by (simp only: in_cidr_def prod.case len divs)
  have "a * 16 + b div 16 = p * 16 + q div 16 \<longleftrightarrow> a = p \<and> b div 16 = q div 16"
    using assms by (intro mixed_radix_eq) auto
  then show "in_cidr (addr4 a b c d) (addr4 p q 0 0, 12) \<longleftrightarrow> a = p \<and> b div 16 = q div 16"
    by (simp only: in_cidr_def prod.case len divs)
  have "a * 256 + b = p * 256 + q \<longleftrightarrow> a = p \<and> b = q" using assms by (intro mixed_radix_eq) auto
  then show "in_cidr (addr4 a b c d) (addr4 p q 0 0, 16) \<longleftrightarrow> a = p \<and> b = q"
    by (simp only: in_cidr_def prod.case len divs)
  have "a * 65536 + (b * 256 + c) = p * 65536 + 0 \<longleftrightarrow> a = p \<and> b * 256 + c = 0" using assms by (intro mixed_radix_eq) auto
  then show "in_cidr (addr4 a b c d) (addr4 p 0 0 0, 24) \<longleftrightarrow> a = p \<and> b = 0 \<and> c = 0"
    by (simp only: in_cidr_def prod.case len divs) auto
  show "in_cidr (addr4 a b c d) (addr4 0 0 0 0, 32) \<longleftrightarrow> a = 0 \<and> b = 0 \<and> c = 0 \<and> d = 0"
    by (simp only: in_cidr_def prod.case len power_0 div_by_1 addr4_eq_0 [of a] addr4_eq_0 [of 0 0 0 0, THEN iffD2])
qed

lemma blocked_v4_cidr:
  assumes "a < 256" "b < 256" "c < 256" "d < 256"
  shows "IsBlockedIP False [a, b, c, d] \<longleftrightarrow> list_ex (in_cidr (addr4 a b c d)) internal_networks"
  unfolding blocked_v4_bytes internal_networks_def using assms by (simp add: in_cidr_split)

lemma blocked_mapped: "length b = 4 \<Longrightarrow> IsBlockedIP p (replicate 10 0 @ [0xFF, 0xFF] @ b) = IsBlockedIP p b"
  by (simp only: IsBlockedIP_def IsLoopback_def IsPrivate_def IsLinkLocalUnicast_def IsLinkLocalMulticast_def
      IsInterfaceLocalMulticast_def IsUnspecified_def To4_mapped To4_v4 option.case option.distinct simp_thms)

subsection \<open>What a dispatch does\<close>

text \<open>The receiver accepts attempt \<open>k\<close>.\<close>

definition accepts :: "hook_env \<Rightarrow> string \<Rightarrow> nat \<Rightarrow> bool" where
  "accepts e url k \<longleftrightarrow> valid_request e url \<and> (case post e url k of Inl _ \<Rightarrow> False | Inr (n, _) \<Rightarrow> 200 \<le> n \<and> n < 300)"

text \<open>
  The contract: attempts are numbered from \<open>first\<close> without a gap up to three, each in the log; the first that
  is accepted is the last one and means success; giving up early means the context ended.
\<close>

definition dispatched :: "hook_env \<Rightarrow> string \<Rightarrow> string \<Rightarrow> string \<Rightarrow> string \<Rightarrow> nat \<Rightarrow> string option \<Rightarrow> webhook_delivery list \<Rightarrow> bool" where
  "dispatched e userID url event body first r new \<longleftrightarrow>
     (let next = first + length new in
      map wd_attempt new = map int [first..<next] \<and> next \<le> Suc maxAttempts \<and>
      (\<forall>k \<in> {first..<next}. accepts e url k \<longrightarrow> Suc k = next \<and> r = None) \<and>
      (r = None \<longrightarrow> new \<noteq> [] \<and> accepts e url (next - 1)) \<and>
      (r \<noteq> None \<and> next \<le> maxAttempts \<longrightarrow> new \<noteq> [] \<and> deadline e (next - 1)) \<and>
      (\<forall>d \<in> set new. wd_user_id d = userID \<and> wd_event d = event \<and> wd_payload d = body))"

lemma doPost_wp:
  "wp (doPost e url body sig k) (\<lambda>(status, text, err) t. delivered status err = accepts e url k \<and> (err \<noteq> None \<or> status \<noteq> None) \<and>
     webhook_deliveries t = webhook_deliveries w \<and> faults t = faults w) w"
  unfolding doPost_def by (auto simp: accepts_def delivered_def split: sum.split)

lemma dispatched_last:
  "accepts e url k \<longleftrightarrow> r = None \<Longrightarrow> r \<noteq> None \<Longrightarrow> k < maxAttempts \<Longrightarrow> deadline e k \<Longrightarrow> wd_attempt d = int k \<Longrightarrow>
   wd_user_id d = userID \<Longrightarrow> wd_event d = event \<Longrightarrow> wd_payload d = body \<Longrightarrow> dispatched e userID url event body k r [d]"
  by (simp add: dispatched_def)

lemma dispatched_ok:
  "accepts e url k \<Longrightarrow> k \<le> maxAttempts \<Longrightarrow> wd_attempt d = int k \<Longrightarrow>
   wd_user_id d = userID \<Longrightarrow> wd_event d = event \<Longrightarrow> wd_payload d = body \<Longrightarrow> dispatched e userID url event body k None [d]"
  by (simp add: dispatched_def)

lemma dispatched_more:
  assumes "\<not> accepts e url k" "dispatched e userID url event body (Suc k) r new" "wd_attempt d = int k"
    "wd_user_id d = userID" "wd_event d = event" "wd_payload d = body"
  shows "dispatched e userID url event body k r (d # new)"
proof -
  define n where "n = Suc k + length new"
  have n: "k + length (d # new) = n" by (simp add: n_def)
  have up: "[k..<n] = k # [Suc k..<n]" by (simp add: n_def upt_conv_Cons del: upt_Suc)
  have split: "{k..<n} = insert k {Suc k..<n}" by (auto simp: n_def)
  from assms(2) have m: "map wd_attempt new = map int [Suc k..<n]" "n \<le> Suc maxAttempts"
      "\<forall>i \<in> {Suc k..<n}. accepts e url i \<longrightarrow> Suc i = n \<and> r = None" "r = None \<longrightarrow> new \<noteq> [] \<and> accepts e url (n - 1)"
      "r \<noteq> None \<and> n \<le> maxAttempts \<longrightarrow> new \<noteq> [] \<and> deadline e (n - 1)"
      "\<forall>d \<in> set new. wd_user_id d = userID \<and> wd_event d = event \<and> wd_payload d = body"
    unfolding dispatched_def Let_def n_def by blast+
  show ?thesis unfolding dispatched_def Let_def n up split
    using m assms(1,3-6) by (simp only: list.map ball_simps set_simps list.distinct not_False_eq_True simp_thms) blast
qed

lemma dispatched_none: "r \<noteq> None \<Longrightarrow> dispatched e userID url event body (Suc maxAttempts) r []"
  by (simp add: dispatched_def)

lemma dispatch_from_wp:
  assumes "left \<le> maxAttempts" "left = 0 \<longrightarrow> lastErr \<noteq> None" "faults w = []"
  shows "wp (dispatch_from e userID url event body sig left lastErr)
    (\<lambda>r t. \<exists>new. webhook_deliveries t = webhook_deliveries w @ new \<and> faults t = [] \<and>
       dispatched e userID url event body (Suc maxAttempts - left) r new) w"
  using assms
proof (induction left arbitrary: lastErr w)
  case 0
  then show ?case by (auto intro!: dispatched_none)
next
  case (Suc left)
  let ?k = "maxAttempts - left"
  from Suc.prems have k: "Suc maxAttempts - Suc left = ?k" "?k \<le> maxAttempts" "Suc ?k = Suc maxAttempts - left" by auto
  show ?case
  proof -
    obtain status answer err t where run: "run_state (doPost e url body sig ?k) w = ((status, answer, err), t)"
      by (metis prod_cases3 surj_pair)
    from wpI [OF doPost_wp run] Suc.prems have t: "delivered status err = accepts e url ?k" "err \<noteq> None \<or> status \<noteq> None"
      "webhook_deliveries t = webhook_deliveries w" "faults t = []" by auto
    let ?d = "\<lparr>wd_user_id = userID, wd_event = event, wd_payload = body, wd_status_code = status,
      wd_response_body = answer, wd_attempt = int ?k, wd_created_at = now t\<rparr>"
    let ?t = "t\<lparr>webhook_deliveries := webhook_deliveries w @ [?d]\<rparr>"
    define err' where "err' = (case err of Some x \<Rightarrow> Some x | None \<Rightarrow> (case status of
           Some n \<Rightarrow> Some (''webhook returned status '' @ itoa n) | None \<Rightarrow> lastErr))"
    have err': "err' \<noteq> None" using t(2) by (auto simp: err'_def split: option.split)
    show ?thesis
    proof (cases "accepts e url ?k")
      case True
      then show ?thesis unfolding dispatch_from.simps Let_def wp_bind wp_cong_run [OF run]
        using t k by (auto simp: logDelivery_def intro!: dispatched_ok)
    next
      case False
      show ?thesis
      proof (cases "?k < maxAttempts \<and> deadline e ?k")
        case True
        with \<open>\<not> accepts e url ?k\<close> show ?thesis unfolding dispatch_from.simps Let_def wp_bind wp_cong_run [OF run]
          using t k by (auto simp: logDelivery_def intro!: dispatched_last)
      next
        case False
        have "wp (dispatch_from e userID url event body sig left err')
          (\<lambda>r u. \<exists>new. webhook_deliveries u = webhook_deliveries ?t @ new \<and> faults u = [] \<and>
             dispatched e userID url event body (Suc maxAttempts - left) r new) ?t"
          using Suc.prems t err' by (intro Suc.IH) auto
        then have rest: "wp (dispatch_from e userID url event body sig left err')
          (\<lambda>r u. \<exists>new. webhook_deliveries u = webhook_deliveries w @ new \<and> faults u = [] \<and>
             dispatched e userID url event body ?k r new) ?t"
          by (rule wp_mono) (use k \<open>\<not> accepts e url ?k\<close> in \<open>auto intro!: dispatched_more\<close>)
        from False \<open>\<not> accepts e url ?k\<close> show ?thesis unfolding dispatch_from.simps Let_def wp_bind wp_cong_run [OF run]
          using t k rest by (auto simp: logDelivery_def err'_def)
      qed
    qed
  qed
qed

lemma Dispatch_wp:
  assumes "faults w = []"
  shows "wp (Dispatch e cy userID url secret event body)
    (\<lambda>r t. \<exists>new. webhook_deliveries t = webhook_deliveries w @ new \<and> dispatched e userID url event body 1 r new) w"
proof -
  have "Suc maxAttempts - maxAttempts = 1" "0 < maxAttempts" by (simp_all add: maxAttempts_def)
  with dispatch_from_wp [of maxAttempts None w e userID url event body "SignPayload cy secret body"] assms show ?thesis
    unfolding Dispatch_def by (auto elim!: wp_mono)
qed

text \<open>A dispatch sends that one signed payload only, failures of the database or not.\<close>

lemma dispatch_from_sends:
  "wp (dispatch_from e userID url event body sig left lastErr)
    (\<lambda>r t. \<exists>k \<le> left. effects t = effects w @ replicate k (WebhookPost url body sig)) w"
proof (induction left arbitrary: lastErr w)
  case (Suc left)
  have more: "\<exists>k \<le> Suc left. effects t = effects w @ replicate k (WebhookPost url body sig)"
    if "\<exists>k \<le> left. effects t = effects u @ replicate k (WebhookPost url body sig)" "effects u = effects w @ [WebhookPost url body sig]" for t u
    using that by (force simp flip: replicate_Suc intro: exI [where x = "Suc k" for k])
  have same: "\<exists>k \<le> Suc left. effects t = effects w @ replicate k (WebhookPost url body sig)"
    if "\<exists>k \<le> left. effects t = effects u @ replicate k (WebhookPost url body sig)" "effects u = effects w" for t u
    using that by (force intro: le_SucI)
  have 1: "\<exists>k \<le> Suc left. [WebhookPost url body sig] = replicate k (WebhookPost url body sig)"
    by (rule exI [of _ 1]) simp
  show ?case unfolding dispatch_from.simps doPost_def logDelivery_def Let_def
    by (auto split: sum.split prod.split option.split simp: 1 intro!: wp_mono [OF Suc.IH] elim: more same)
qed simp

subsection \<open>Preferences that are stored\<close>

text \<open>The check of the table: a mode of the list, addresses that passed their checks, and never an address without a secret.\<close>

definition prefs_ok :: "world \<Rightarrow> bool" where
  "prefs_ok w \<longleftrightarrow> (\<forall>p \<in> set (notification_preferences w). np_view_notification p \<in> set validNotificationModes \<and>
     (\<forall>u. np_slack_webhook_url p = Some u \<longrightarrow> has_prefix u ''https://hooks.slack.com/'' \<and> length u \<le> 500) \<and>
     (\<forall>u. np_webhook_url p = Some u \<longrightarrow> length u \<le> 500 \<and> np_webhook_secret p \<noteq> None))"

lemma check_prefs_ok: "check_prefs valid_url req = [] \<longleftrightarrow> pq_NotificationMode req \<in> set validNotificationModes \<and>
    (\<forall>u. trimmed (pq_SlackWebhookUrl req) = Some u \<longrightarrow> has_prefix u ''https://hooks.slack.com/'' \<and> length u \<le> 500) \<and>
    (\<forall>u. trimmed (pq_WebhookUrl req) = Some u \<longrightarrow> valid_url u \<and> length u \<le> 500)"
  by (auto simp: check_prefs_def Let_def validate_SlackWebhookURL_def validate_WebhookURL_def checkLen_ok split: option.split)

lemma Put_prefs_ok: "preserves prefs_ok (PutNotificationPreferences valid_url c newSecret body)"
  unfolding preserves_wp PutNotificationPreferences_def upsert_prefs_def
  by (auto split: option.split if_splits simp: check_prefs_ok prefs_ok_def elim!: in_upd_whereE)

lemma Regenerate_prefs_ok: "preserves prefs_ok (RegenerateWebhookSecret c newSecret)"
  unfolding preserves_wp RegenerateWebhookSecret_def
  by (auto split: option.split if_splits simp: prefs_ok_def Let_def elim!: in_upd_whereE)

text \<open>So a stored address is always deliverable: its signing key is there.\<close>

lemma hook_config_ok: "prefs_ok w \<Longrightarrow> p \<in> set (notification_preferences w) \<Longrightarrow> np_webhook_url p = Some u \<Longrightarrow>
    \<exists>s. hook_config p = Some (u, s)"
  by (auto simp: prefs_ok_def hook_config_def split: option.split)


subsection \<open>The contracts\<close>




text \<open>A receiver that is down for the first attempt.\<close>

definition flaky_hook :: hook_env where
  "flaky_hook = \<lparr>post = (\<lambda>url k. if k = 1 then Inr (500, ''down'') else Inr (200, ''ok'')), valid_request = (\<lambda>_. True),
     deadline = (\<lambda>_. False), allowPrivate = False\<rparr>"


end
