(* ===== verification/Playlists.thy ===== *)
theory Playlists
  imports Watch_Auth Folders_Tags
begin

text \<open>
  Playlists (\<open>internal/video/playlist.go\<close>, \<open>playlist_shared.go\<close>, and the handlers of \<open>playlist_watch.go\<close> and
  \<open>playlist_embed.go\<close>): the user's playlists and what is in them, and the two public pages with the gates in
  front of them. A page is the data its template is given. \<open>newID\<close>, \<open>newToken\<close> and \<open>hash\<close> are what the
  generators returned; ids are canonical; times in answers are the row's.
\<close>

subsection \<open>The user's playlists\<close>

record playlist_item =
  pi_ID :: string
  pi_Title :: string
  pi_Description :: "string option"
  pi_IsShared :: bool
  pi_ShareToken :: "string option"
  pi_ShareURL :: "string option"
  pi_Position :: int
  pi_VideoCount :: nat
  pi_ThumbnailURL :: "string option"
  pi_CreatedAt :: time
  pi_UpdatedAt :: time

record playlist_video_item =
  pl_ID :: string
  pl_Title :: string
  pl_Duration :: int
  pl_ShareToken :: string
  pl_ShareURL :: string
  pl_Status :: video_status
  pl_Position :: int
  pl_ThumbnailURL :: "string option"
  pl_CreatedAt :: time

abbreviation own_playlist :: "rctx \<Rightarrow> string \<Rightarrow> playlist \<Rightarrow> bool" where
  "own_playlist c playlistID p \<equiv> p_id p = playlistID \<and> p_user_id p = UserID c"

definition insert_playlist :: "rctx \<Rightarrow> string \<Rightarrow> string \<Rightarrow> string option \<Rightarrow> (db_error + playlist) prog" where
  "insert_playlist c newID title description = db_stmt (\<lambda>w.
     let pos = next_position (map p_position (filter (\<lambda>p. p_user_id p = UserID c) (playlists w)));
         p = \<lparr>p_id = newID, p_user_id = UserID c, p_title = title, p_description = description, p_share_token = None,
              p_is_shared = False, p_share_password = None, p_require_email = False, p_position = pos,
              p_created_at = now w, p_updated_at = now w\<rparr>
     in if \<not> int4 pos then (Inl (DbFail ''integer out of range''), w)
        else if newID \<in> p_id ` set (playlists w) then (Inl UniqueViolation, w)
        else (Inr p, w\<lparr>playlists := playlists w @ [p]\<rparr>))"

definition check_playlist_title :: "string \<Rightarrow> string" where
  "check_playlist_title title = (if title = [] then ''playlist title is required'' else validate_PlaylistTitle title)"

text \<open>The body: title and description.\<close>

definition CreatePlaylist :: "config \<Rightarrow> rctx \<Rightarrow> string \<Rightarrow> (string \<times> string option) option \<Rightarrow> playlist_item response prog" where
  "CreatePlaylist h c newID body = (case body of
     None \<Rightarrow> State_Monad.return bad_body
   | Some (raw, description) \<Rightarrow>
     let title = trim_space raw;
         msg = (case description of None \<Rightarrow> [] | Some d \<Rightarrow> validate_PlaylistDescription (trim_space d));
         description = (case description of None \<Rightarrow> None | Some d \<Rightarrow> if trim_space d = [] then None else Some (trim_space d))
     in if check_playlist_title title \<noteq> [] then State_Monad.return (WriteError 400 (check_playlist_title title))
     else if msg \<noteq> [] then State_Monad.return (WriteError 400 msg)
     else do {
       r \<leftarrow> select_rows (\<lambda>w. count_where (\<lambda>p. p_user_id p = UserID c) (playlists w));
       case r of Inl _ \<Rightarrow> State_Monad.return (WriteError 500 ''failed to check playlist limit'')
       | Inr n \<Rightarrow> do {
           plan \<leftarrow> getUserPlan (UserID c);
           if plan = ''free'' \<and> maxPlaylists h > 0 \<and> int n \<ge> maxPlaylists h
             then State_Monad.return (WriteError 403
               (''free plan limited to '' @ itoa (maxPlaylists h) @ '' playlists, upgrade to create more''))
           else do {
             row \<leftarrow> insert_playlist c newID title description;
             State_Monad.return (case row of Inl _ \<Rightarrow> WriteError 500 ''failed to create playlist''
               | Inr p \<Rightarrow> WriteJSON 201 \<lparr>pi_ID = newID, pi_Title = title, pi_Description = description, pi_IsShared = False,
                   pi_ShareToken = None, pi_ShareURL = None, pi_Position = p_position p, pi_VideoCount = 0,
                   pi_ThumbnailURL = None, pi_CreatedAt = p_created_at p, pi_UpdatedAt = p_updated_at p\<rparr>) } } })"

text \<open>The entries of a playlist joined with the videos that satisfy a condition, by position and age.\<close>

definition playlist_rows :: "world \<Rightarrow> string \<Rightarrow> (video \<Rightarrow> bool) \<Rightarrow> (playlist_video \<times> video) list" where
  "playlist_rows w playlistID P =
     sort_key (\<lambda>(r, v). pv_position r) (sort_key (\<lambda>(r, v). v_created_at v)
       (concat (map (\<lambda>r. map (Pair r) (filter (\<lambda>v. v_id v = pv_video_id r \<and> P v) (videos w)))
         (filter (\<lambda>r. pv_playlist_id r = playlistID) (playlist_videos w)))))"

definition share_url :: "config \<Rightarrow> string option \<Rightarrow> string option" where
  "share_url h token = map_option (\<lambda>t. baseURL h @ ''/watch/playlist/'' @ t) token"

definition ListPlaylists :: "config \<Rightarrow> rctx \<Rightarrow> playlist_item list response prog" where
  "ListPlaylists h c = do {
     r \<leftarrow> select_rows (\<lambda>w. map (\<lambda>p. \<lparr>pi_ID = p_id p, pi_Title = p_title p, pi_Description = p_description p,
         pi_IsShared = p_is_shared p, pi_ShareToken = p_share_token p, pi_ShareURL = share_url h (p_share_token p),
         pi_Position = p_position p,
         pi_VideoCount = count_where (\<lambda>r. pv_playlist_id r = p_id p) (playlist_videos w),
         pi_ThumbnailURL = (case playlist_rows w (p_id p) (\<lambda>v. v_thumbnail_key v \<notin> {None, Some []}) of [] \<Rightarrow> None
           | (_, v) # _ \<Rightarrow> Some (''/api/watch/'' @ v_share_token v @ ''/thumbnail'')),
         pi_CreatedAt = p_created_at p, pi_UpdatedAt = p_updated_at p\<rparr>)
       (sort_key p_position (sort_key p_created_at (filter (\<lambda>p. p_user_id p = UserID c) (playlists w)))));
     State_Monad.return (case r of Inl _ \<Rightarrow> WriteError 500 ''failed to list playlists'' | Inr ps \<Rightarrow> WriteJSON 200 ps)
   }"

text \<open>A thumbnail whose address cannot be signed is left out.\<close>

definition sign_thumbnail :: "services \<Rightarrow> string option \<Rightarrow> string option prog" where
  "sign_thumbnail sv key = (case key of None \<Rightarrow> State_Monad.return None
   | Some k \<Rightarrow> do { e \<leftarrow> call; State_Monad.return (if e = None then Some (download_url sv k []) else None) })"

text \<open>The answer: the item, whether e-mail and a password are asked for, and the videos.\<close>

definition GetPlaylist :: "config \<Rightarrow> services \<Rightarrow> rctx \<Rightarrow> string
    \<Rightarrow> (playlist_item \<times> bool \<times> bool \<times> playlist_video_item list) response prog" where
  "GetPlaylist h sv c playlistID = do {
     row \<leftarrow> select_row (\<lambda>w. find_where (own_playlist c playlistID) (playlists w));
     case row of
       Inl NoRows \<Rightarrow> State_Monad.return (WriteError 404 ''playlist not found'')
     | Inl _ \<Rightarrow> State_Monad.return (WriteError 500 ''failed to get playlist'')
     | Inr p \<Rightarrow> do {
         r \<leftarrow> select_rows (\<lambda>w. playlist_rows w playlistID live);
         case r of Inl _ \<Rightarrow> State_Monad.return (WriteError 500 ''failed to list playlist videos'')
         | Inr rows \<Rightarrow> do {
             vs \<leftarrow> State_Monad.traverse_list (\<lambda>(r, v). do {
                 thumb \<leftarrow> sign_thumbnail sv (v_thumbnail_key v);
                 State_Monad.return \<lparr>pl_ID = v_id v, pl_Title = v_title v, pl_Duration = v_duration v, pl_ShareToken = v_share_token v,
                   pl_ShareURL = baseURL h @ ''/watch/'' @ v_share_token v, pl_Status = v_status v, pl_Position = pv_position r,
                   pl_ThumbnailURL = thumb, pl_CreatedAt = v_created_at v\<rparr> }) rows;
             State_Monad.return (WriteJSON 200
               (\<lparr>pi_ID = p_id p, pi_Title = p_title p, pi_Description = p_description p, pi_IsShared = p_is_shared p,
                 pi_ShareToken = p_share_token p, pi_ShareURL = share_url h (p_share_token p), pi_Position = p_position p,
                 pi_VideoCount = length vs, pi_ThumbnailURL = None, pi_CreatedAt = p_created_at p, pi_UpdatedAt = p_updated_at p\<rparr>,
                p_require_email p, p_share_password p \<noteq> None, vs)) } }
   }"

record update_playlist_request =
  up_PTitle :: "string option"
  up_PDescription :: "string option"
  up_PPosition :: "int option"
  up_PIsShared :: "bool option"
  up_PSharePassword :: "string option"
  up_PRequireEmail :: "bool option"

text \<open>
  The columns that are set: the description as it came, a new share token whenever \<open>isShared\<close> is true, and no
  password for an empty one.
\<close>

definition set_playlist :: "update_playlist_request \<Rightarrow> string option \<Rightarrow> string option \<Rightarrow> playlist \<Rightarrow> playlist" where
  "set_playlist req newToken hash p = p\<lparr>
     p_title := case_option (p_title p) (\<lambda>t. t) (up_PTitle req),
     p_description := (case up_PDescription req of None \<Rightarrow> p_description p | Some d \<Rightarrow> Some d),
     p_position := case_option (p_position p) (\<lambda>n. n) (up_PPosition req),
     p_is_shared := case_option (p_is_shared p) (\<lambda>b. b) (up_PIsShared req),
     p_share_token := (if up_PIsShared req = Some True then newToken else p_share_token p),
     p_share_password := (case up_PSharePassword req of None \<Rightarrow> p_share_password p
       | Some s \<Rightarrow> if s = [] then None else hash),
     p_require_email := case_option (p_require_email p) (\<lambda>b. b) (up_PRequireEmail req)\<rparr>"

definition update_playlist :: "rctx \<Rightarrow> string \<Rightarrow> update_playlist_request \<Rightarrow> string option \<Rightarrow> string option \<Rightarrow> (db_error + nat) prog" where
  "update_playlist c playlistID req newToken hash = db_stmt (\<lambda>w.
     let n = count_where (own_playlist c playlistID) (playlists w) in
     if (case up_PPosition req of None \<Rightarrow> False | Some p \<Rightarrow> \<not> int4 p) then (Inl (DbFail ''integer out of range''), w)
     else if n > 0 \<and> up_PIsShared req = Some True \<and> list_ex (\<lambda>p. p_share_token p = newToken \<and> p_id p \<noteq> playlistID) (playlists w)
       then (Inl UniqueViolation, w)
     else (Inr n, w\<lparr>playlists := upd_where (own_playlist c playlistID) (set_playlist req newToken hash) (playlists w)\<rparr>))"

definition UpdatePlaylist :: "crypto \<Rightarrow> rctx \<Rightarrow> string \<Rightarrow> string option \<Rightarrow> update_playlist_request option \<Rightarrow> unit response prog" where
  "UpdatePlaylist cy c playlistID newToken body = (case body of
     None \<Rightarrow> State_Monad.return bad_body
   | Some req \<Rightarrow>
     if up_PTitle req = None \<and> up_PDescription req = None \<and> up_PPosition req = None \<and> up_PIsShared req = None \<and>
         up_PSharePassword req = None \<and> up_PRequireEmail req = None
       then State_Monad.return (WriteError 400 ''nothing to update'')
     else
       let title = map_option trim_space (up_PTitle req);
           tmsg = (case title of None \<Rightarrow> [] | Some t \<Rightarrow> check_playlist_title t);
           dmsg = (case up_PDescription req of None \<Rightarrow> [] | Some d \<Rightarrow> validate_PlaylistDescription (trim_space d));
           hash = (case up_PSharePassword req of None \<Rightarrow> None | Some s \<Rightarrow> if s = [] then None else hashSharePassword cy s)
       in if tmsg \<noteq> [] then State_Monad.return (WriteError 400 tmsg)
       else if dmsg \<noteq> [] then State_Monad.return (WriteError 400 dmsg)
       else if up_PIsShared req = Some True \<and> newToken = None
         then State_Monad.return (WriteError 500 ''failed to generate share token'')
       else if up_PSharePassword req \<notin> {None, Some []} \<and> hash = None
         then State_Monad.return (WriteError 500 ''failed to hash password'')
       else do {
         r \<leftarrow> update_playlist c playlistID (req\<lparr>up_PTitle := title\<rparr>) newToken hash;
         State_Monad.return (case r of Inl _ \<Rightarrow> WriteError 500 ''failed to update playlist''
           | Inr n \<Rightarrow> if n = 0 then WriteError 404 ''playlist not found'' else WriteHeader 204) })"

text \<open>The entries go with the playlist.\<close>

definition DeletePlaylist :: "rctx \<Rightarrow> string \<Rightarrow> unit response prog" where
  "DeletePlaylist c playlistID = do {
     r \<leftarrow> db_stmt (\<lambda>w. let gone = map p_id (filter (own_playlist c playlistID) (playlists w)) in
       (Inr (length gone), w\<lparr>playlists := del_where (own_playlist c playlistID) (playlists w),
          playlist_videos := del_where (\<lambda>r. pv_playlist_id r \<in> set gone) (playlist_videos w)\<rparr>));
     State_Monad.return (case r of Inl _ \<Rightarrow> WriteError 500 ''failed to delete playlist''
       | Inr n \<Rightarrow> if n = 0 then WriteError 404 ''playlist not found'' else WriteHeader 204)
   }"

subsection \<open>The videos of a playlist\<close>

definition owns_playlist :: "rctx \<Rightarrow> string \<Rightarrow> (db_error + bool) prog" where
  "owns_playlist c playlistID = select_rows (\<lambda>w. list_ex (own_playlist c playlistID) (playlists w))"

text \<open>\<open>ON CONFLICT (playlist_id, video_id) DO NOTHING\<close>; the position is computed first.\<close>

definition insert_playlist_video :: "string \<Rightarrow> string \<Rightarrow> (db_error + unit) prog" where
  "insert_playlist_video playlistID videoID = db_stmt (\<lambda>w.
     let pos = next_position (map pv_position (filter (\<lambda>r. pv_playlist_id r = playlistID) (playlist_videos w)))
     in if \<not> int4 pos then (Inl (DbFail ''integer out of range''), w)
        else if list_ex (\<lambda>r. pv_playlist_id r = playlistID \<and> pv_video_id r = videoID) (playlist_videos w) then (Inr (), w)
        else (Inr (), w\<lparr>playlist_videos := playlist_videos w @
          [\<lparr>pv_playlist_id = playlistID, pv_video_id = videoID, pv_position = pos\<rparr>]\<rparr>))"

definition touch_playlist :: "string \<Rightarrow> unit response prog" where
  "touch_playlist playlistID = do {
     r \<leftarrow> exec_world (\<lambda>w. w\<lparr>playlists := upd_where (\<lambda>p. p_id p = playlistID) (\<lambda>p. p\<lparr>p_updated_at := now w\<rparr>) (playlists w)\<rparr>);
     State_Monad.return (case r of Inl _ \<Rightarrow> WriteError 500 ''failed to update playlist'' | Inr _ \<Rightarrow> WriteHeader 204)
   }"

text \<open>The loop: it stops at the first video that is not the user's, keeping what was added before.\<close>

fun add_videos :: "rctx \<Rightarrow> string \<Rightarrow> string list \<Rightarrow> unit response prog" where
  "add_videos c playlistID [] = touch_playlist playlistID"
| "add_videos c playlistID (videoID # rest) = do {
     r \<leftarrow> select_rows (\<lambda>w. list_ex (\<lambda>v. v_id v = videoID \<and> v_user_id v = UserID c \<and> v_status v \<noteq> Deleted) (videos w));
     case r of Inl _ \<Rightarrow> State_Monad.return (WriteError 500 ''failed to verify video ownership'')
     | Inr found \<Rightarrow>
       if \<not> found then State_Monad.return (WriteError 404 (''video '' @ videoID @ '' not found''))
       else do {
         e \<leftarrow> insert_playlist_video playlistID videoID;
         case e of Inl _ \<Rightarrow> State_Monad.return (WriteError 500 ''failed to add video to playlist'')
         | Inr _ \<Rightarrow> add_videos c playlistID rest }
   }"

definition AddPlaylistVideos :: "rctx \<Rightarrow> string \<Rightarrow> string list option \<Rightarrow> unit response prog" where
  "AddPlaylistVideos c playlistID body = (case body of
     None \<Rightarrow> State_Monad.return bad_body
   | Some videoIDs \<Rightarrow>
     if videoIDs = [] then State_Monad.return (WriteError 400 ''at least 1 video ID is required'')
     else do {
       r \<leftarrow> owns_playlist c playlistID;
       case r of Inl _ \<Rightarrow> State_Monad.return (WriteError 500 ''failed to verify playlist ownership'')
       | Inr found \<Rightarrow> if \<not> found then State_Monad.return (WriteError 404 ''playlist not found'')
           else add_videos c playlistID videoIDs })"

definition RemovePlaylistVideo :: "rctx \<Rightarrow> string \<Rightarrow> string \<Rightarrow> unit response prog" where
  "RemovePlaylistVideo c playlistID videoID = do {
     r \<leftarrow> db_stmt (\<lambda>w. let P = (\<lambda>r. pv_playlist_id r = playlistID \<and> pv_video_id r = videoID \<and>
           list_ex (own_playlist c playlistID) (playlists w)) in
         (Inr (count_where P (playlist_videos w)), w\<lparr>playlist_videos := del_where P (playlist_videos w)\<rparr>));
     case r of Inl _ \<Rightarrow> State_Monad.return (WriteError 500 ''failed to remove video from playlist'')
     | Inr n \<Rightarrow> if n = 0 then State_Monad.return (WriteError 404 ''video not in playlist'') else touch_playlist playlistID
   }"

fun reorder_videos :: "string \<Rightarrow> (string \<times> int) list \<Rightarrow> unit response prog" where
  "reorder_videos playlistID [] = touch_playlist playlistID"
| "reorder_videos playlistID ((videoID, position) # rest) = do {
     r \<leftarrow> db_stmt (\<lambda>w. if \<not> int4 position then (Inl (DbFail ''integer out of range''), w)
       else (Inr (), w\<lparr>playlist_videos := upd_where (\<lambda>r. pv_playlist_id r = playlistID \<and> pv_video_id r = videoID)
         (\<lambda>r. r\<lparr>pv_position := position\<rparr>) (playlist_videos w)\<rparr>));
     case r of Inl _ \<Rightarrow> State_Monad.return (WriteError 500 ''failed to reorder playlist videos'')
     | Inr _ \<Rightarrow> reorder_videos playlistID rest
   }"

definition ReorderPlaylistVideos :: "rctx \<Rightarrow> string \<Rightarrow> (string \<times> int) list option \<Rightarrow> unit response prog" where
  "ReorderPlaylistVideos c playlistID body = (case body of
     None \<Rightarrow> State_Monad.return bad_body
   | Some items \<Rightarrow> do {
       r \<leftarrow> owns_playlist c playlistID;
       case r of Inl _ \<Rightarrow> State_Monad.return (WriteError 500 ''failed to verify playlist ownership'')
       | Inr found \<Rightarrow> if \<not> found then State_Monad.return (WriteError 404 ''playlist not found'')
           else reorder_videos playlistID items })"

subsection \<open>The public pages\<close>

record playlist_watch_item =
  pw_ID :: string
  pw_Title :: string
  pw_Duration :: int
  pw_ShareToken :: string
  pw_VideoURL :: string
  pw_ThumbnailURL :: string
  pw_ContentType :: string

text \<open>A video whose address cannot be signed is skipped.\<close>

definition watch_item :: "services \<Rightarrow> video \<Rightarrow> playlist_watch_item list prog" where
  "watch_item sv v = do {
     e \<leftarrow> call;
     if e \<noteq> None then State_Monad.return []
     else do {
       thumb \<leftarrow> sign_thumbnail sv (v_thumbnail_key v);
       State_Monad.return [\<lparr>pw_ID = v_id v, pw_Title = v_title v, pw_Duration = v_duration v, pw_ShareToken = v_share_token v,
         pw_VideoURL = download_url sv (videoFileKey (v_user_id v) (v_share_token v) (v_content_type v)) [],
         pw_ThumbnailURL = case_option [] (\<lambda>u. u) thumb, pw_ContentType = v_content_type v\<rparr>] }
   }"

definition loadPlaylistVideos :: "services \<Rightarrow> string \<Rightarrow> (db_error + playlist_watch_item list) prog" where
  "loadPlaylistVideos sv playlistID = do {
     r \<leftarrow> select_rows (\<lambda>w. playlist_rows w playlistID (\<lambda>v. v_status v \<in> {Ready, Processing}));
     case r of Inl e \<Rightarrow> State_Monad.return (Inl e)
     | Inr rows \<Rightarrow> do {
         items \<leftarrow> State_Monad.traverse_list (\<lambda>(r, v). watch_item sv v) rows;
         State_Monad.return (Inr (concat items)) }
   }"

text \<open>What a request to a page gets: plain errors, a gate with the title, or the list of videos.\<close>

datatype playlist_page = PageNotFound | PageFailed | PagePassword string | PageEmail string
  | PageVideos string string "playlist_watch_item list" \<comment> \<open>title, description, videos\<close>

abbreviation shared_at :: "string \<Rightarrow> playlist \<Rightarrow> bool" where
  "shared_at shareToken p \<equiv> p_share_token p = Some shareToken \<and> p_is_shared p"

definition playlist_page_for :: "crypto \<Rightarrow> config \<Rightarrow> services \<Rightarrow> cookies \<Rightarrow> string \<Rightarrow> (playlist \<Rightarrow> string) \<Rightarrow> playlist_page prog" where
  "playlist_page_for cy h sv cs shareToken descr = do {
     row \<leftarrow> select_row (\<lambda>w. find_where (shared_at shareToken) (playlists w));
     case row of Inl _ \<Rightarrow> State_Monad.return PageNotFound
     | Inr p \<Rightarrow>
       if (case p_share_password p of None \<Rightarrow> False | Some s \<Rightarrow> \<not> hasValidWatchCookie cy cs (hmacSecret h) shareToken s)
         then State_Monad.return (PagePassword (p_title p))
       else if p_require_email p \<and> hasValidEmailGateCookie cy cs (hmacSecret h) shareToken = None
         then State_Monad.return (PageEmail (p_title p))
       else do {
         r \<leftarrow> loadPlaylistVideos sv (p_id p);
         State_Monad.return (case r of Inl _ \<Rightarrow> PageFailed | Inr items \<Rightarrow> PageVideos (p_title p) (descr p) items) }
   }"

definition PlaylistWatchPage :: "crypto \<Rightarrow> config \<Rightarrow> services \<Rightarrow> cookies \<Rightarrow> string \<Rightarrow> playlist_page prog" where
  "PlaylistWatchPage cy h sv cs shareToken =
     playlist_page_for cy h sv cs shareToken (\<lambda>p. case_option [] (\<lambda>d. d) (p_description p))"

text \<open>The embedded page has no description.\<close>

definition PlaylistEmbedPage :: "crypto \<Rightarrow> config \<Rightarrow> services \<Rightarrow> cookies \<Rightarrow> string \<Rightarrow> playlist_page prog" where
  "PlaylistEmbedPage cy h sv cs shareToken = playlist_page_for cy h sv cs shareToken (\<lambda>p. [])"

definition VerifyPlaylistWatchPassword :: "crypto \<Rightarrow> config \<Rightarrow> string \<Rightarrow> string option \<Rightarrow> (unit response \<times> cookie option) prog" where
  "VerifyPlaylistWatchPassword cy h shareToken body = (case body of
     None \<Rightarrow> State_Monad.return (bad_body, None)
   | Some password \<Rightarrow>
     if length password > 128 then State_Monad.return (WriteError 400 ''password is too long'', None)
     else do {
       row \<leftarrow> select_row (\<lambda>w. find_where (shared_at shareToken) (playlists w));
       State_Monad.return (case row of Inl _ \<Rightarrow> (WriteError 404 ''playlist not found'', None)
         | Inr p \<Rightarrow> (case p_share_password p of None \<Rightarrow> (WriteHeader 200, None)
           | Some hash \<Rightarrow>
             if \<not> checkSharePassword cy hash password then (WriteError 403 ''incorrect password'', None)
             else (WriteHeader 200, Some (setWatchCookie shareToken (signWatchCookie cy (hmacSecret h) shareToken hash) (secureCookies h))))) })"

definition IdentifyPlaylistViewer :: "crypto \<Rightarrow> config \<Rightarrow> string \<Rightarrow> string option \<Rightarrow> (unit response \<times> cookie option) prog" where
  "IdentifyPlaylistViewer cy h shareToken body = (case body of
     None \<Rightarrow> State_Monad.return (bad_body, None)
   | Some raw \<Rightarrow>
     let email = trim_space raw in
     if email = [] \<or> length email > 320 \<or> \<not> contains email ''@''
       then State_Monad.return (WriteError 400 ''invalid email'', None)
     else do {
       row \<leftarrow> select_row (\<lambda>w. find_where (shared_at shareToken) (playlists w));
       State_Monad.return (case row of Inl _ \<Rightarrow> (WriteError 404 ''playlist not found'', None)
         | Inr p \<Rightarrow> (WriteHeader 200, Some (setEmailGateCookie shareToken
             (signEmailGateCookie cy (hmacSecret h) shareToken email) (secureCookies h)))) })"

subsection \<open>The tables stay in order\<close>

text \<open>
  Ids and entries are unique, and an entry puts a video of the owner of the playlist into it: nobody gets a
  video of somebody else into a playlist.
\<close>

definition entry_ok :: "playlist list \<Rightarrow> video list \<Rightarrow> playlist_video \<Rightarrow> bool" where
  "entry_ok ps vs r \<longleftrightarrow> (\<exists>p \<in> set ps. \<exists>v \<in> set vs. p_id p = pv_playlist_id r \<and> v_id v = pv_video_id r \<and> v_user_id v = p_user_id p)"

definition playlists_ok :: "world \<Rightarrow> bool" where
  "playlists_ok w \<longleftrightarrow> distinct (map p_id (playlists w)) \<and>
     distinct (map (\<lambda>r. (pv_playlist_id r, pv_video_id r)) (playlist_videos w)) \<and>
     (\<forall>r \<in> set (playlist_videos w). entry_ok (playlists w) (videos w) r)"

lemma playlists_ok_tick [simp]: "playlists_ok (tick w) = playlists_ok w"
  by (simp add: playlists_ok_def)

lemma entry_ok_mono: "entry_ok ps vs r \<Longrightarrow> set ps \<subseteq> set ps' \<Longrightarrow> entry_ok ps' vs r"
  by (auto simp: entry_ok_def)

lemma entry_ok_upd:
  "(\<And>p. p_id (f p) = p_id p \<and> p_user_id (f p) = p_user_id p) \<Longrightarrow> entry_ok ps vs r \<Longrightarrow> entry_ok (upd_where P f ps) vs r"
proof -
  assume f: "\<And>p. p_id (f p) = p_id p \<and> p_user_id (f p) = p_user_id p" and "entry_ok ps vs r"
  then obtain p v where "p \<in> set ps" "v \<in> set vs" "p_id p = pv_playlist_id r" "v_id v = pv_video_id r" "v_user_id v = p_user_id p"
    by (auto simp: entry_ok_def)
  with f in_upd_whereI [of p ps P f] show ?thesis unfolding entry_ok_def
    by (intro bexI [of _ "if P p then f p else p"] bexI [of _ v]) auto
qed

lemma playlists_ok_upd:
  assumes "playlists_ok w" "\<And>p. p_id (f p) = p_id p \<and> p_user_id (f p) = p_user_id p"
  shows "playlists_ok (w\<lparr>playlists := upd_where P f (playlists w)\<rparr>)"
  using assms by (auto simp: playlists_ok_def map_upd_where intro: entry_ok_upd)

lemma update_playlist_ok: "preserves playlists_ok (update_playlist c i req newToken hash)"
  unfolding preserves_wp update_playlist_def Let_def
  by (auto split: option.split intro!: playlists_ok_upd [of "tick w" for w, simplified] simp: set_playlist_def)

lemma UpdatePlaylist_ok: "preserves playlists_ok (UpdatePlaylist cy c i newToken body)"
  unfolding preserves_wp UpdatePlaylist_def Let_def
  by (auto split: option.split intro!: wp_preserves [OF update_playlist_ok])

lemma CreatePlaylist_ok: "preserves playlists_ok (CreatePlaylist h c newID body)"
  unfolding preserves_wp CreatePlaylist_def getUserPlan_def insert_playlist_def Let_def
  by (auto split: option.split prod.split sum.split) (auto simp: playlists_ok_def intro: entry_ok_mono)

lemma DeletePlaylist_ok: "preserves playlists_ok (DeletePlaylist c i)"
proof -
  have "entry_ok (del_where (own_playlist c i) ps) vs r"
    if "entry_ok ps vs r" "pv_playlist_id r \<notin> p_id ` {p \<in> set ps. own_playlist c i p}" for ps vs r
  proof -
    from that(1) obtain p v where pv: "p \<in> set ps" "v \<in> set vs" "p_id p = pv_playlist_id r" "v_id v = pv_video_id r" "v_user_id v = p_user_id p"
      by (auto simp: entry_ok_def)
    with that(2) have "\<not> own_playlist c i p" by force
    with pv show ?thesis unfolding entry_ok_def by (intro bexI [of _ p] bexI [of _ v]) auto
  qed
  then have "playlists_ok (w\<lparr>playlists := del_where (own_playlist c i) (playlists w),
      playlist_videos := del_where (\<lambda>r. pv_playlist_id r \<in> p_id ` {p \<in> set (playlists w). own_playlist c i p}) (playlist_videos w)\<rparr>)"
    if "playlists_ok w" for w
    using that by (auto simp: playlists_ok_def intro!: distinct_map_del_where)
  from this [of "tick w" for w, simplified] show ?thesis
    unfolding preserves_wp DeletePlaylist_def Let_def by (auto split: option.split)
qed

lemma touch_playlist_ok: "preserves playlists_ok (touch_playlist i)"
  unfolding preserves_wp touch_playlist_def
  by (auto split: option.split intro!: playlists_ok_upd [of "tick w" for w, simplified])

text \<open>Inside the loop the playlist and the video are known to have the same owner.\<close>

lemma insert_playlist_video_wp:
  assumes "playlists_ok w" "\<exists>p \<in> set (playlists w). p_id p = i \<and> p_user_id p = u" "\<exists>v \<in> set (videos w). v_id v = vid \<and> v_user_id v = u"
  shows "wp (insert_playlist_video i vid) (\<lambda>_ t. playlists_ok t \<and> playlists t = playlists w \<and> videos t = videos w) w"
  using assms unfolding insert_playlist_video_def Let_def
  by (auto split: option.split simp: list_ex_iff) (auto simp: playlists_ok_def entry_ok_def)

lemma add_videos_wp:
  "playlists_ok w \<Longrightarrow> \<exists>p \<in> set (playlists w). p_id p = i \<and> p_user_id p = UserID c \<Longrightarrow> wp (add_videos c i vids) (\<lambda>_. playlists_ok) w"
proof (induction vids arbitrary: w)
  case Nil
  then show ?case by (auto intro: wp_preserves [OF touch_playlist_ok])
next
  case (Cons vid vids)
  have step: "wp (insert_playlist_video i vid) (\<lambda>e. wp (case e of
        Inl _ \<Rightarrow> State_Monad.return (WriteError 500 ''failed to add video to playlist'')
      | Inr _ \<Rightarrow> add_videos c i vids) (\<lambda>_. playlists_ok)) (tick w)"
    if "\<exists>v \<in> set (videos w). v_id v = vid \<and> v_user_id v = UserID c"
    using Cons that by (intro wp_mono [OF insert_playlist_video_wp [of _ i "UserID c"]]) (auto split: sum.split)
  show ?case
    using Cons.prems step by (auto split: option.split sum.split simp: list_ex_iff)
qed

lemma AddPlaylistVideos_ok: "preserves playlists_ok (AddPlaylistVideos c i body)"
  unfolding preserves_wp AddPlaylistVideos_def owns_playlist_def
  by (auto split: option.split sum.split simp: list_ex_iff intro!: add_videos_wp)

lemma RemovePlaylistVideo_ok: "preserves playlists_ok (RemovePlaylistVideo c i vid)"
  unfolding preserves_wp RemovePlaylistVideo_def Let_def
  by (auto split: option.split sum.split intro!: wp_preserves [OF touch_playlist_ok])
    (auto simp: playlists_ok_def intro!: distinct_map_del_where)

lemma reorder_videos_ok: "preserves playlists_ok (reorder_videos i items)"
proof (induction i items rule: reorder_videos.induct)
  case (1 i)
  then show ?case by (simp add: touch_playlist_ok)
next
  case (2 i vid pos rest)
  have "playlists_ok (w\<lparr>playlist_videos := upd_where P (\<lambda>r. r\<lparr>pv_position := pos\<rparr>) (playlist_videos w)\<rparr>)"
    if "playlists_ok w" for w P
    using that by (auto simp: playlists_ok_def map_upd_where entry_ok_def elim!: in_upd_whereE split: if_splits)
  from this [of "tick w" for w, simplified] show ?case
    using 2 unfolding preserves_wp by (auto split: option.split sum.split)
qed

lemma ReorderPlaylistVideos_ok: "preserves playlists_ok (ReorderPlaylistVideos c i body)"
  unfolding preserves_wp ReorderPlaylistVideos_def owns_playlist_def
  by (auto split: option.split sum.split intro!: wp_preserves [OF reorder_videos_ok])

subsection \<open>What a page shows, and to whom\<close>

text \<open>The gates of a playlist: shared, its password in a cookie, an address where it asks for one.\<close>

definition playlist_gates :: "crypto \<Rightarrow> config \<Rightarrow> cookies \<Rightarrow> string \<Rightarrow> playlist \<Rightarrow> bool" where
  "playlist_gates cy h cs shareToken p \<longleftrightarrow> shared_at shareToken p \<and>
     (\<forall>s. p_share_password p = Some s \<longrightarrow> hasValidWatchCookie cy cs (hmacSecret h) shareToken s) \<and>
     (p_require_email p \<longrightarrow> hasValidEmailGateCookie cy cs (hmacSecret h) shareToken \<noteq> None)"

definition shows_only :: "services \<Rightarrow> world \<Rightarrow> playlist \<Rightarrow> playlist_watch_item list \<Rightarrow> bool" where
  "shows_only sv w p items \<longleftrightarrow> (\<forall>i \<in> set items. \<exists>r \<in> set (playlist_videos w). \<exists>v \<in> set (videos w).
     pv_playlist_id r = p_id p \<and> pv_video_id r = v_id v \<and> v_status v \<in> {Ready, Processing} \<and> pw_ID i = v_id v \<and>
     pw_VideoURL i = download_url sv (videoFileKey (v_user_id v) (v_share_token v) (v_content_type v)) [])"

lemma playlist_rows_tick [simp]: "playlist_rows (tick w) = playlist_rows w"
  by (simp add: playlist_rows_def fun_eq_iff)

lemma in_playlist_rows: "(r, v) \<in> set (playlist_rows w i P) \<longleftrightarrow>
    r \<in> set (playlist_videos w) \<and> v \<in> set (videos w) \<and> pv_playlist_id r = i \<and> v_id v = pv_video_id r \<and> P v"
  by (auto simp: playlist_rows_def)

lemma watch_item_wp:
  "wp (watch_item sv v) (\<lambda>items t. \<forall>i \<in> set items. pw_ID i = v_id v \<and>
     pw_VideoURL i = download_url sv (videoFileKey (v_user_id v) (v_share_token v) (v_content_type v)) []) w"
  unfolding watch_item_def sign_thumbnail_def by (auto split: option.split)

lemma wp_traverse_results:
  "(\<And>x u. x \<in> set xs \<Longrightarrow> wp (f x) (\<lambda>r t. Q x r) u) \<Longrightarrow>
   wp (State_Monad.traverse_list f xs) (\<lambda>rs t. list_all2 Q xs rs) w"
proof (induction xs arbitrary: w)
  case (Cons y ys w)
  have rest: "wp (State_Monad.traverse_list f ys) (\<lambda>rs t. list_all2 Q ys rs) u" for u
    by (rule Cons.IH) (auto intro: Cons.prems)
  have "wp (f y) (\<lambda>r. wp (State_Monad.traverse_list f ys) (\<lambda>rs t. list_all2 Q (y # ys) (r # rs))) w"
    by (rule wp_mono [OF Cons.prems]) (auto intro: wp_mono [OF rest])
  then show ?case unfolding State_Monad.traverse_list.simps wp_bind wp_return .
qed simp

lemma list_all2_right: "list_all2 Q xs ys \<Longrightarrow> y \<in> set ys \<Longrightarrow> \<exists>x \<in> set xs. Q x y"
  by (induction rule: list_all2_induct) auto

lemma loadPlaylistVideos_wp:
  "wp (loadPlaylistVideos sv (p_id p)) (\<lambda>r t. \<forall>items. r = Inr items \<longrightarrow> shows_only sv w p items) w"
proof -
  let ?rows = "playlist_rows w (p_id p) (\<lambda>v. v_status v \<in> {Ready, Processing})"
  let ?Q = "\<lambda>(r, v) items. \<forall>i \<in> set items. pw_ID i = v_id v \<and>
     pw_VideoURL i = download_url sv (videoFileKey (v_user_id v) (v_share_token v) (v_content_type v)) []"
  have only: "shows_only sv w p (concat items)" if "list_all2 ?Q ?rows items" for items
    unfolding shows_only_def
  proof
    fix i assume "i \<in> set (concat items)"
    then obtain row where "row \<in> set items" "i \<in> set row" by auto
    with list_all2_right [OF that] obtain r v where rv: "(r, v) \<in> set ?rows" "?Q (r, v) row" by fast
    show "\<exists>r \<in> set (playlist_videos w). \<exists>v \<in> set (videos w). pv_playlist_id r = p_id p \<and> pv_video_id r = v_id v \<and>
        v_status v \<in> {Ready, Processing} \<and> pw_ID i = v_id v \<and>
        pw_VideoURL i = download_url sv (videoFileKey (v_user_id v) (v_share_token v) (v_content_type v)) []"
      by (rule bexI [of _ r], rule bexI [of _ v]) (use rv \<open>i \<in> set row\<close> in \<open>simp_all add: in_playlist_rows\<close>)
  qed
  have "wp (State_Monad.traverse_list (\<lambda>(r, v). watch_item sv v) ?rows)
      (\<lambda>items t. shows_only sv w p (concat items)) (tick w)"
    by (rule wp_mono [OF wp_traverse_results [where Q = ?Q]]) (auto intro: watch_item_wp only)
  then show ?thesis unfolding loadPlaylistVideos_def
    by (auto split: option.split elim!: wp_mono)
qed

lemma playlist_page_wp:
  "wp (playlist_page_for cy h sv cs shareToken descr) (\<lambda>page t. \<forall>title text items. page = PageVideos title text items \<longrightarrow>
     (\<exists>p \<in> set (playlists w). playlist_gates cy h cs shareToken p \<and> shows_only sv w p items)) w"
proof -
  have "shows_only sv (tick w) p = shows_only sv w p" for p by (simp add: shows_only_def fun_eq_iff)
  moreover have "\<exists>q \<in> set (playlists w). playlist_gates cy h cs shareToken q \<and> shows_only sv w q items"
    if "find_where (shared_at shareToken) (playlists w) = Some p" "shows_only sv w p items"
      "\<not> (case p_share_password p of None \<Rightarrow> False | Some s \<Rightarrow> \<not> hasValidWatchCookie cy cs (hmacSecret h) shareToken s)"
      "\<not> (p_require_email p \<and> hasValidEmailGateCookie cy cs (hmacSecret h) shareToken = None)" for p items
    using that by (intro bexI [of _ p]) (auto simp: playlist_gates_def split: option.splits)
  ultimately show ?thesis unfolding playlist_page_for_def
    by (auto split: sum.splits option.split simp: playlist_gates_def intro!: wp_mono [OF loadPlaylistVideos_wp])
qed

text \<open>
  And without failures it shows all of them, in the order of the playlist, whatever password, expiry or e-mail
  gate the videos themselves have: the gates of the playlist stand for theirs.
\<close>

definition item_of :: "services \<Rightarrow> video \<Rightarrow> playlist_watch_item" where
  "item_of sv v = \<lparr>pw_ID = v_id v, pw_Title = v_title v, pw_Duration = v_duration v, pw_ShareToken = v_share_token v,
     pw_VideoURL = download_url sv (videoFileKey (v_user_id v) (v_share_token v) (v_content_type v)) [],
     pw_ThumbnailURL = case_option [] (\<lambda>k. download_url sv k []) (v_thumbnail_key v), pw_ContentType = v_content_type v\<rparr>"

lemma wp_traverse_map:
  "(\<And>x u. faults u = [] \<Longrightarrow> wp (f x) (\<lambda>r t. r = g x \<and> t = u) u) \<Longrightarrow> faults w = [] \<Longrightarrow>
   wp (State_Monad.traverse_list f xs) (\<lambda>rs t. rs = map g xs \<and> t = w) w"
proof (induction xs)
  case (Cons y ys)
  have "wp (State_Monad.traverse_list f ys) (\<lambda>rs t. rs = map g ys \<and> t = w) w"
    by (rule Cons.IH) (use Cons.prems in auto)
  then have "wp (f y) (\<lambda>r. wp (State_Monad.traverse_list f ys) (\<lambda>rs t. r # rs = map g (y # ys) \<and> t = w)) w"
    by (intro wp_mono [OF Cons.prems(1) [OF Cons.prems(2)]]) (auto elim!: wp_mono)
  then show ?case unfolding State_Monad.traverse_list.simps wp_bind wp_return .
qed simp

lemma loadPlaylistVideos_all:
  assumes "faults w = []"
  shows "wp (loadPlaylistVideos sv i) (\<lambda>r t. r = Inr (map (\<lambda>(r, v). item_of sv v)
     (playlist_rows w i (\<lambda>v. v_status v \<in> {Ready, Processing})))) w"
proof -
  have one: "wp (watch_item sv v) (\<lambda>r t. r = [item_of sv v] \<and> t = u) u" if "faults u = []" for v u
    using that by (auto simp: watch_item_def sign_thumbnail_def item_of_def split: option.split)
  define rows where "rows = playlist_rows w i (\<lambda>v. v_status v \<in> {Ready, Processing})"
  have "wp (State_Monad.traverse_list (\<lambda>(r, v). watch_item sv v) rows) (\<lambda>rs t. rs = map (\<lambda>(r, v). [item_of sv v]) rows \<and> t = w) w"
    by (rule wp_traverse_map [OF _ assms]) (auto intro: one)
  moreover have "concat (map (\<lambda>(r, v). [item_of sv v]) xs) = map (\<lambda>(r, v). item_of sv v) xs" for xs :: "(playlist_video \<times> video) list"
    by (induction xs) auto
  ultimately have "wp (State_Monad.traverse_list (\<lambda>(r, v). watch_item sv v) rows)
      (\<lambda>rs t. Inr (concat rs) = (Inr (map (\<lambda>(r, v). item_of sv v) rows) :: db_error + _)) w"
    by (rule_tac wp_mono) (assumption, simp)
  then show ?thesis unfolding loadPlaylistVideos_def wp_bind rows_def using assms by (simp split del: if_split) (erule wp_mono, simp)
qed

lemma playlist_page_shows_all:
  assumes "faults w = []" "find_where (shared_at shareToken) (playlists w) = Some p" "playlist_gates cy h cs shareToken p"
  shows "fst (run_state (PlaylistWatchPage cy h sv cs shareToken) w) = PageVideos (p_title p) (case_option [] (\<lambda>d. d) (p_description p))
     (map (\<lambda>(r, v). item_of sv v) (playlist_rows w (p_id p) (\<lambda>v. v_status v \<in> {Ready, Processing})))"
proof -
  have "wp (PlaylistWatchPage cy h sv cs shareToken) (\<lambda>page t. page = PageVideos (p_title p) (case_option [] (\<lambda>d. d) (p_description p))
     (map (\<lambda>(r, v). item_of sv v) (playlist_rows w (p_id p) (\<lambda>v. v_status v \<in> {Ready, Processing})))) w"
    unfolding PlaylistWatchPage_def playlist_page_for_def
    using assms wp_mono [OF loadPlaylistVideos_all [OF assms(1), of sv "p_id p"]]
    by (auto simp: playlist_gates_def split: option.split)
  then show ?thesis by (simp add: wp_def split_beta)
qed

text \<open>The rows of a page come by position.\<close>

lemma playlist_rows_sorted: "sorted (map (\<lambda>(r, v). pv_position r) (playlist_rows w i P))"
  unfolding playlist_rows_def by (rule sorted_sort_key)

subsection \<open>What modelling showed\<close>

text \<open>An update checks the trimmed description and stores the untrimmed one: the limit of 2000 bytes does not hold.\<close>

definition padded :: string where "padded = replicate 3000 CHR '' ''"

lemma trim_blanks: "trim_space (replicate n CHR '' '') = []"
proof -
  have hit: "find (has_prefix (CHR '' '' # s)) space_runes = Some [CHR '' '']" for s
    unfolding space_runes_def by (simp add: has_prefix_def)
  have "trim_left_aux n space_runes (replicate n CHR '' '') = []"
    by (induction n) (simp_all add: hit)
  then show ?thesis by (simp add: trim_space_def)
qed

lemma long_description_stored:
  assumes "faults w = []" "playlists w = [p]" "own_playlist c i p"
  shows "run_state (UpdatePlaylist cy c i token (Some \<lparr>up_PTitle = None, up_PDescription = Some padded, up_PPosition = None,
      up_PIsShared = None, up_PSharePassword = None, up_PRequireEmail = None\<rparr>)) w
    = (WriteHeader 204, w\<lparr>playlists := [p\<lparr>p_description := Some padded\<rparr>]\<rparr>)"
  using assms trim_blanks [of 3000]
  by (simp add: UpdatePlaylist_def update_playlist_def set_playlist_def run_simps run_db_stmt padded_def
      validate_PlaylistDescription_def checkLen_def)

end
