(* ===== verification/Viewing.thy ===== *)
theory Viewing
  imports Branding Notifications Playlists VTT
begin

text \<open>
  Reading videos (\<open>internal/video/video_query.go\<close>, \<open>view.go\<close>, \<open>oembed.go\<close>, \<open>video_helpers.go\<close>): the limits of a plan, the
  list with its search, the watch response, downloads, and the record of a view. Times in answers are the row's.
\<close>

subsection \<open>Search\<close>

text \<open>
  \<open>LIKE\<close> of Postgres with the default escape: \<open>%\<close> is any text, \<open>_\<close> one rune, a backslash takes the next byte
  literally. (A pattern that ends in a backslash is an error; patterns here end in \<open>%\<close>.)
\<close>

function like :: "string \<Rightarrow> string \<Rightarrow> bool" where
  "like [] s = (s = [])"
| "like (c # p) s =
     (if c = CHR 0x5C then (if p = [] \<or> s = [] then False else hd s = hd p \<and> like (tl p) (tl s))
      else if c = CHR ''%'' then like p s \<or> (if s = [] then False else like (c # p) (tl s))
      else if c = CHR ''_'' then (if s = [] then False else like p (drop (max 1 (rune_length s)) s))
      else if s = [] then False else hd s = c \<and> like p (tl s))"
  by pat_completeness auto

termination by (relation "measure (\<lambda>(p, s). length p + length s)") (auto simp: neq_Nil_conv)

text \<open>
  The replacer of \<open>List\<close>. Its first pair is empty, which replaces nothing; \<open>%\<close> and \<open>_\<close> get a backslash, a
  backslash does not.
\<close>

definition escape_like :: "string \<Rightarrow> string" where
  "escape_like q = concat (map (\<lambda>c. if c = CHR ''%'' \<or> c = CHR ''_'' then [CHR 0x5C, c] else [c]) q)"

text \<open>\<open>ILIKE\<close> compares in lower case; \<open>lower\<close> is the database's.\<close>

definition ilike :: "(string \<Rightarrow> string) \<Rightarrow> string \<Rightarrow> string \<Rightarrow> bool" where
  "ilike lower s p = like (lower p) (lower s)"

text \<open>A speaker that is empty is not in the stored object.\<close>

definition found_in :: "(string \<Rightarrow> string) \<Rightarrow> string \<Rightarrow> video \<Rightarrow> bool" where
  "found_in lower query v \<longleftrightarrow> query = [] \<or>
     (let p = ''%'' @ escape_like query @ ''%'' in ilike lower (v_title v) p \<or>
       (case v_transcript_json v of None \<Rightarrow> False | Some segs \<Rightarrow>
          list_ex (\<lambda>s. ilike lower (seg_text s) p \<or> (seg_speaker s \<noteq> [] \<and> ilike lower (seg_speaker s) p)) segs))"

subsection \<open>The list\<close>

definition defaultPageSize :: int where "defaultPageSize = 50"
definition maxPageSize :: int where "maxPageSize = 100"

record list_query =
  lq_limit :: string
  lq_offset :: string
  lq_q :: string
  lq_folder :: string
  lq_tag :: string

definition page_limit :: "string \<Rightarrow> int" where
  "page_limit raw = min maxPageSize (case Atoi raw of Some l \<Rightarrow> if l > 0 then l else defaultPageSize | None \<Rightarrow> defaultPageSize)"

definition page_offset :: "string \<Rightarrow> int" where
  "page_offset raw = (case Atoi raw of Some k \<Rightarrow> if k > 0 then k else 0 | None \<Rightarrow> 0)"

record list_item =
  li_video :: video \<comment> \<open>the columns that are copied as they are\<close>
  li_ShareURL :: string
  li_HasPassword :: bool
  li_ViewCount :: nat
  li_UniqueViewCount :: nat
  li_CommentCount :: nat
  li_ThumbnailURL :: string
  li_Tags :: "(string \<times> string \<times> string option) list"
  li_Playlists :: "(string \<times> string) list"

definition list_scope :: "rctx \<Rightarrow> video \<Rightarrow> bool" where
  "list_scope c v \<longleftrightarrow> (if OrgID c \<noteq> [] then v_organization_id v = Some (OrgID c)
     else v_user_id v = UserID c \<and> v_organization_id v = None)"

definition list_filter :: "(string \<Rightarrow> string) \<Rightarrow> rctx \<Rightarrow> list_query \<Rightarrow> world \<Rightarrow> video \<Rightarrow> bool" where
  "list_filter lower c q w v \<longleftrightarrow> v_status v \<noteq> Deleted \<and> list_scope c v \<and> found_in lower (trim_space (lq_q q)) v \<and>
     (if lq_folder q = ''unfiled'' then v_folder_id v = None else lq_folder q = [] \<or> v_folder_id v = Some (lq_folder q)) \<and>
     (lq_tag q = [] \<or> list_ex (\<lambda>r. vt_video_id r = v_id v \<and> vt_tag_id r = lq_tag q) (video_tags w))"

definition list_row :: "(string \<Rightarrow> nat) \<Rightarrow> config \<Rightarrow> world \<Rightarrow> video \<Rightarrow> list_item" where
  "list_row collation h w v =
     (let views = filter (\<lambda>r. vw_video_id r = v_id v) (video_views w) in
      \<lparr>li_video = v, li_ShareURL = baseURL h @ ''/watch/'' @ v_share_token v, li_HasPassword = (v_share_password v \<noteq> None),
       li_ViewCount = length views, li_UniqueViewCount = length (remdups (map vw_viewer_hash views)),
       li_CommentCount = count_where (\<lambda>r. c_video_id r = v_id v) (comments w), li_ThumbnailURL = [],
       li_Tags = map (\<lambda>t. (t_id t, t_name t, t_color t)) (sort_key (\<lambda>t. collation (t_name t))
         (concat (map (\<lambda>r. filter (\<lambda>t. t_id t = vt_tag_id r) (tags w)) (filter (\<lambda>r. vt_video_id r = v_id v) (video_tags w))))),
       li_Playlists = map (\<lambda>p. (p_id p, p_title p)) (sort_key (\<lambda>p. collation (p_title p))
         (concat (map (\<lambda>r. filter (\<lambda>p. p_id p = pv_playlist_id r) (playlists w))
           (filter (\<lambda>r. pv_video_id r = v_id v) (playlist_videos w)))))\<rparr>)"

definition List_videos :: "(string \<Rightarrow> string) \<Rightarrow> (string \<Rightarrow> nat) \<Rightarrow> config \<Rightarrow> services \<Rightarrow> rctx \<Rightarrow> list_query
    \<Rightarrow> list_item list response prog" where
  "List_videos lower collation h sv c q = do {
     r \<leftarrow> select_rows (\<lambda>w. map (list_row collation h w) (take (nat (page_limit (lq_limit q))) (drop (nat (page_offset (lq_offset q)))
       (sort_key (\<lambda>v. - v_created_at v) (filter (list_filter lower c q w) (videos w))))));
     case r of Inl _ \<Rightarrow> State_Monad.return (WriteError 500 ''failed to list videos'')
     | Inr rows \<Rightarrow> do {
         items \<leftarrow> State_Monad.traverse_list (\<lambda>i. do {
             thumb \<leftarrow> sign_thumbnail sv (v_thumbnail_key (li_video i));
             State_Monad.return (i\<lparr>li_ThumbnailURL := case_option [] (\<lambda>u. u) thumb\<rparr>) }) rows;
         State_Monad.return (WriteJSON 200 items) }
   }"

subsection \<open>Limits\<close>

record limits_response =
  lm_MaxVideosPerMonth :: int
  lm_MaxVideoDurationSeconds :: int
  lm_VideosUsedThisMonth :: nat
  lm_BrandingEnabled :: bool
  lm_AiEnabled :: bool
  lm_TranscriptionEnabled :: bool
  lm_NoiseReductionEnabled :: bool
  lm_MaxPlaylists :: int
  lm_PlaylistsUsed :: nat
  lm_MaxOrgsOwned :: int
  lm_OrgsUsed :: nat
  lm_MaxOrgMembers :: int
  lm_OrgMembersUsed :: nat
  lm_RetentionDays :: int

text \<open>A count whose error is ignored.\<close>

definition count_or_0 :: "(world \<Rightarrow> nat) \<Rightarrow> nat prog" where
  "count_or_0 q = do {
     r \<leftarrow> select_rows q;
     State_Monad.return (case r of Inl _ \<Rightarrow> 0 | Inr n \<Rightarrow> n)
   }"

definition retention_of :: "rctx \<Rightarrow> int prog" where
  "retention_of c = do {
     r \<leftarrow> select_row (\<lambda>w. if OrgID c \<noteq> [] then map_option o_retention_days (find_where (\<lambda>x. o_id x = OrgID c) (organizations w))
       else map_option u_retention_days (find_where (\<lambda>u. u_id u = UserID c) (users w)));
     State_Monad.return (case r of Inl _ \<Rightarrow> 0 | Inr n \<Rightarrow> n)
   }"

definition Limits :: "config \<Rightarrow> services \<Rightarrow> rctx \<Rightarrow> limits_response response prog" where
  "Limits h sv c = do {
     plan \<leftarrow> callerPlan c;
     let maxVideos = plan_limit plan (maxVideosPerMonth h);
     used \<leftarrow> checkQuota sv c maxVideos;
     case used of Inl _ \<Rightarrow> State_Monad.return (WriteError 500 ''failed to check video limit'')
     | Inr videosUsed \<Rightarrow> do {
         playlistsUsed \<leftarrow> (if IsPaid plan then State_Monad.return 0
           else count_or_0 (\<lambda>w. count_where (\<lambda>p. p_user_id p = UserID c) (playlists w)));
         userPlan \<leftarrow> (if OrgID c \<noteq> [] then getUserPlan (UserID c) else State_Monad.return plan);
         orgsUsed \<leftarrow> (if IsPaid userPlan then State_Monad.return 0
           else count_or_0 (\<lambda>w. count_where (\<lambda>m. m_user_id m = UserID c \<and> m_role m = ''owner'') (members w)));
         orgMembersUsed \<leftarrow> (if OrgID c = [] then State_Monad.return 0
           else count_or_0 (\<lambda>w. count_where (\<lambda>m. m_organization_id m = OrgID c \<and> m_role m \<noteq> ''viewer'') (members w)));
         retention \<leftarrow> retention_of c;
         State_Monad.return (WriteJSON 200 \<lparr>lm_MaxVideosPerMonth = maxVideos,
           lm_MaxVideoDurationSeconds = plan_limit plan (maxVideoDurationSeconds h), lm_VideosUsedThisMonth = videosUsed,
           lm_BrandingEnabled = brandingEnabled h, lm_AiEnabled = aiEnabled h, lm_TranscriptionEnabled = transcriptionEnabled h,
           lm_NoiseReductionEnabled = (noiseReductionFilter h \<noteq> []), lm_MaxPlaylists = plan_limit plan (maxPlaylists h),
           lm_PlaylistsUsed = playlistsUsed, lm_MaxOrgsOwned = plan_limit userPlan (MaxOrgsOwned Free), lm_OrgsUsed = orgsUsed,
           lm_MaxOrgMembers = (if OrgID c \<noteq> [] \<and> IsPaid plan then 0 else plan_limit userPlan (MaxOrgMembers Free)),
           lm_OrgMembersUsed = orgMembersUsed, lm_RetentionDays = retention\<rparr>) }
   }"

subsection \<open>The search finds what contains the text\<close>

lemma like_any: "like (CHR ''%'' # p) s \<longleftrightarrow> (\<exists>a b. s = a @ b \<and> like p b)"
proof (induction s)
  case Nil
  then show ?case by simp
next
  case (Cons c s)
  have "like (CHR ''%'' # p) (c # s) \<longleftrightarrow> like p (c # s) \<or> like (CHR ''%'' # p) s" by simp
  also have "\<dots> \<longleftrightarrow> (\<exists>a b. c # s = a @ b \<and> like p b)"
    unfolding Cons.IH by (metis append_Cons append_Nil append_eq_Cons_conv)
  finally show ?case .
qed

lemma like_literal:
  "CHR 0x5C \<notin> set q \<Longrightarrow> like (escape_like q @ p) s \<longleftrightarrow> (\<exists>t. s = q @ t \<and> like p t)"
proof (induction q arbitrary: s)
  case Nil
  then show ?case by (simp add: escape_like_def)
next
  case (Cons c q)
  have "like (escape_like (c # q) @ p) s \<longleftrightarrow> s \<noteq> [] \<and> hd s = c \<and> like (escape_like q @ p) (tl s)"
    using Cons.prems by (auto simp: escape_like_def)
  also have "\<dots> \<longleftrightarrow> (\<exists>t. s = (c # q) @ t \<and> like p t)"
    using Cons by (cases s) auto
  finally show ?case .
qed

lemma like_rest: "like ''%'' s"
  using like_any [of "[]" s] by simp

lemma contains_iff: "contains s q \<longleftrightarrow> (\<exists>a b. s = a @ q @ b)"
  using containsE contains_append by blast

declare like.simps [simp del]

lemma like_contains:
  assumes "CHR 0x5C \<notin> set q"
  shows "like (''%'' @ escape_like q @ ''%'') s \<longleftrightarrow> contains s q"
proof -
  have "like (''%'' @ escape_like q @ ''%'') s \<longleftrightarrow> (\<exists>a b. s = a @ b \<and> like (escape_like q @ ''%'') b)"
    using like_any [of "escape_like q @ ''%''" s] by simp
  also have "\<dots> \<longleftrightarrow> (\<exists>a b. s = a @ b \<and> (\<exists>t. b = q @ t))"
    using like_literal [OF assms, of "''%''"] like_rest by simp
  also have "\<dots> \<longleftrightarrow> contains s q" unfolding contains_iff by blast
  finally show ?thesis .
qed

lemma found_in_iff:
  assumes "query \<noteq> []" "lower (''%'' @ escape_like query @ ''%'') = ''%'' @ escape_like (lower query) @ ''%''" "CHR 0x5C \<notin> set (lower query)"
  shows "found_in lower query v \<longleftrightarrow> contains (lower (v_title v)) (lower query) \<or>
    (\<exists>segs. v_transcript_json v = Some segs \<and> (\<exists>s \<in> set segs. contains (lower (seg_text s)) (lower query) \<or>
       (seg_speaker s \<noteq> [] \<and> contains (lower (seg_speaker s)) (lower query))))"
  using assms(1) unfolding found_in_def ilike_def Let_def assms(2) like_contains [OF assms(3)]
  by (auto simp: list_ex_iff split: option.split)

subsection \<open>The list\<close>

text \<open>A page has at most a hundred rows, no more than was asked for, and only videos of the caller's scope.\<close>

lemma page_limit_bounds: "0 < page_limit raw \<and> page_limit raw \<le> 100"
  by (auto simp: page_limit_def maxPageSize_def defaultPageSize_def split: option.split)

lemma list_page_items:
  "wp (List_videos lower collation h sv c q) (\<lambda>resp t. \<forall>items. resp = WriteJSON 200 items \<longrightarrow>
     int (length items) \<le> page_limit (lq_limit q) \<and>
     (\<forall>i \<in> set items. li_video i \<in> set (videos w) \<and> list_filter lower c q w (li_video i)) \<and>
     sorted (map (\<lambda>i. - v_created_at (li_video i)) items)) w"
proof -
  define vs where "vs = take (nat (page_limit (lq_limit q))) (drop (nat (page_offset (lq_offset q)))
       (sort_key (\<lambda>v. - v_created_at v) (filter (list_filter lower c q w) (videos w))))"
  have vs: "int (length vs) \<le> page_limit (lq_limit q)" "set vs \<subseteq> {v \<in> set (videos w). list_filter lower c q w v}"
    "sorted (map (\<lambda>v. - v_created_at v) vs)"
    using page_limit_bounds [of "lq_limit q"] unfolding vs_def
    by (auto dest!: in_set_takeD in_set_dropD simp: take_map [symmetric] drop_map [symmetric])
  have tick: "list_filter lower c q (tick w) = list_filter lower c q w" by (simp add: list_filter_def fun_eq_iff)
  let ?f = "\<lambda>i. do { thumb \<leftarrow> sign_thumbnail sv (v_thumbnail_key (li_video i));
             State_Monad.return (i\<lparr>li_ThumbnailURL := case_option [] (\<lambda>u. u) thumb\<rparr>) }"
  have one: "wp (?f i) (\<lambda>r t. li_video r = li_video i) u" for i u
    unfolding sign_thumbnail_def by (auto split: option.split)
  have all: "wp (State_Monad.traverse_list ?f (map (list_row collation h (tick w)) vs)) (\<lambda>rs t. map li_video rs = vs) (tick w)"
    by (rule wp_mono [OF wp_traverse_results [where Q = "\<lambda>i r. li_video r = li_video i"]], rule one)
      (auto simp: list_row_def Let_def list_all2_conv_all_nth intro!: nth_equalityI)
  have "wp (State_Monad.traverse_list ?f (map (list_row collation h (tick w)) vs)) (\<lambda>items t.
     int (length items) \<le> page_limit (lq_limit q) \<and>
     (\<forall>i \<in> set items. li_video i \<in> set (videos w) \<and> list_filter lower c q w (li_video i)) \<and>
     sorted (map (\<lambda>i. - v_created_at (li_video i)) items)) (tick w)"
  proof (rule wp_mono [OF all])
    fix rs t
    assume "map li_video rs = vs"
    then have "length rs = length vs" "li_video ` set rs = set vs" "map (\<lambda>i. - v_created_at (li_video i)) rs = map (\<lambda>v. - v_created_at v) vs"
      by (auto simp flip: map_map [unfolded comp_def])
    with vs show "int (length rs) \<le> page_limit (lq_limit q) \<and>
       (\<forall>i \<in> set rs. li_video i \<in> set (videos w) \<and> list_filter lower c q w (li_video i)) \<and>
       sorted (map (\<lambda>i. - v_created_at (li_video i)) rs)" by auto
  qed
  then show ?thesis unfolding List_videos_def vs_def
    by (simp add: tick split: option.split) (auto elim!: wp_mono)
qed

text \<open>
  C32: A page of the list is a page of the caller's videos: at most as many rows as asked for and never more than a hundred,
  all of them live videos of the caller's scope (the workspace, or the own videos outside of any) that match the
  folder, the tag and the search, newest first.
\<close>

theorem list_page:
  "wp (List_videos lower collation h sv c q) (\<lambda>resp t. \<forall>items. resp = WriteJSON 200 items \<longrightarrow>
     length items \<le> 100 \<and> (\<forall>n. Atoi (lq_limit q) = Some n \<and> 0 < n \<longrightarrow> int (length items) \<le> n) \<and>
     (\<forall>i \<in> set items. li_video i \<in> set (videos w) \<and> v_status (li_video i) \<noteq> Deleted \<and>
        (if OrgID c = [] then v_user_id (li_video i) = UserID c \<and> v_organization_id (li_video i) = None
         else v_organization_id (li_video i) = Some (OrgID c)) \<and> list_filter lower c q w (li_video i)) \<and>
     sorted (map (\<lambda>i. - v_created_at (li_video i)) items)) w"
proof (rule wp_mono [OF list_page_items], intro allI impI conjI ballI)
  fix resp t items n i
  assume *: "\<forall>items. resp = WriteJSON 200 items \<longrightarrow> int (length items) \<le> page_limit (lq_limit q) \<and>
     (\<forall>i \<in> set items. li_video i \<in> set (videos w) \<and> list_filter lower c q w (li_video i)) \<and>
     sorted (map (\<lambda>i. - v_created_at (li_video i)) items)" and r: "resp = WriteJSON 200 items"
  have bound: "int (length items) \<le> page_limit (lq_limit q)" using * r by blast
  show "length items \<le> 100" using bound by (simp add: page_limit_def maxPageSize_def)
  show "int (length items) \<le> n" if "Atoi (lq_limit q) = Some n \<and> 0 < n" using bound that by (simp add: page_limit_def)
  show "sorted (map (\<lambda>i. - v_created_at (li_video i)) items)" using * r by blast
  assume "i \<in> set items"
  with * r show "li_video i \<in> set (videos w)" "list_filter lower c q w (li_video i)" by blast+
  then show "v_status (li_video i) \<noteq> Deleted"
    "if OrgID c = [] then v_user_id (li_video i) = UserID c \<and> v_organization_id (li_video i) = None
     else v_organization_id (li_video i) = Some (OrgID c)"
    by (auto simp: list_filter_def list_scope_def)
qed

text \<open>A list of one video, and none of it in a workspace.\<close>

definition sample_query :: list_query where
  "sample_query = \<lparr>lq_limit = ''5'', lq_offset = [], lq_q = [], lq_folder = [], lq_tag = []\<rparr>"

lemma list_page_witness:
  "\<exists>items. fst (run_state (List_videos (\<lambda>s. s) length sample_config sample_services sample_caller sample_query)
      (sample_world\<lparr>videos := [sample_video]\<rparr>)) = WriteJSON 200 items \<and> length items = 1 \<and>
    (\<forall>i \<in> set items. list_scope sample_caller (li_video i) \<and> v_status (li_video i) \<noteq> Deleted)"
proof -
  let ?w = "sample_world\<lparr>videos := [sample_video]\<rparr>"
  let ?m = "List_videos (\<lambda>s. s) length sample_config sample_services sample_caller sample_query"
  have limit: "page_limit ''5'' = 5" by code_simp
  have offset: "page_offset [] = 0" by code_simp
  have blank: "trim_space [] = []" by code_simp
  have match: "list_filter (\<lambda>s. s) sample_caller sample_query ?w sample_video"
    by (simp add: list_filter_def sample_query_def blank found_in_def list_scope_def sample_caller_def)
  have "\<exists>items. fst (run_state ?m ?w) = WriteJSON 200 items \<and> length items = 1"
    using match by (simp add: List_videos_def run_simps sample_query_def limit offset sample_world_def empty_world_def sign_thumbnail_def
        State_Monad.traverse_list.simps split: option.split)
  moreover have "wp ?m (\<lambda>resp t. \<forall>items. resp = WriteJSON 200 items \<longrightarrow>
      (\<forall>i \<in> set items. list_filter (\<lambda>s. s) sample_caller sample_query ?w (li_video i))) ?w"
    by (rule wp_mono [OF list_page]) blast
  ultimately show ?thesis by (auto simp: wp_def split_beta list_filter_def)
qed

subsection \<open>What modelling showed\<close>

text \<open>A backslash in the search is not escaped: searching for one finds the titles that end in a percent sign.\<close>

lemma backslash_search:
  "found_in (\<lambda>s. s) [CHR 0x5C] v \<longleftrightarrow> (\<exists>a. v_title v = a @ ''%'') \<or>
     (\<exists>segs. v_transcript_json v = Some segs \<and> (\<exists>s \<in> set segs. (\<exists>a. seg_text s = a @ ''%'') \<or> (\<exists>a. seg_speaker s = a @ ''%'')))"
proof -
  have last: "like [CHR 0x5C, CHR ''%''] b \<longleftrightarrow> b = ''%''" for b
    by (cases b) (auto simp: like.simps)
  have "like (''%'' @ escape_like [CHR 0x5C] @ ''%'') s \<longleftrightarrow> (\<exists>a. s = a @ ''%'')" for s
    using like_any [of "[CHR 0x5C, CHR ''%'']" s] by (simp add: escape_like_def last)
  moreover have "t \<noteq> [] \<and> (\<exists>a. t = a @ ''%'') \<longleftrightarrow> (\<exists>a. t = a @ ''%'')" for t :: string by auto
  ultimately show ?thesis
    unfolding found_in_def ilike_def Let_def list_ex_iff by (simp split: option.split)
qed

text \<open>
  In a paid workspace the limits announce no limit on playlists, and creating one still meets the limit of the
  caller's own plan.
\<close>

lemma limits_announce_unlimited:
  assumes "faults w = []" "OrgID c \<noteq> []" "find_where (\<lambda>x. o_id x = OrgID c) (organizations w) = Some g" "IsPaid (o_plan g)"
    and "find_where (\<lambda>u. u_id u = UserID c) (users w) = Some u" "u_plan u = ''free''"
    and "0 < maxPlaylists h" "maxPlaylists h \<le> int (count_where (\<lambda>p. p_user_id p = UserID c) (playlists w))"
    and "check_playlist_title (trim_space title) = []"
  shows "\<exists>x. fst (run_state (Limits h sv c) w) = WriteJSON 200 x \<and> lm_MaxPlaylists x = 0"
    and "fst (run_state (CreatePlaylist h c newID (Some (title, None))) w) =
      WriteError 403 (''free plan limited to '' @ itoa (maxPlaylists h) @ '' playlists, upgrade to create more'')"
proof -
  have "wp (Limits h sv c) (\<lambda>r t. \<exists>x. r = WriteJSON 200 x \<and> lm_MaxPlaylists x = 0) w"
    unfolding Limits_def callerPlan_def getOrgPlan_def getUserPlan_def checkQuota_def count_or_0_def retention_of_def Let_def
    using assms(1-6) by (simp add: plan_limit_def split: option.split)
  then show "\<exists>x. fst (run_state (Limits h sv c) w) = WriteJSON 200 x \<and> lm_MaxPlaylists x = 0"
    by (simp add: wp_def split_beta)
  have "wp (CreatePlaylist h c newID (Some (title, None))) (\<lambda>r t. r =
      WriteError 403 (''free plan limited to '' @ itoa (maxPlaylists h) @ '' playlists, upgrade to create more'')) w"
    unfolding CreatePlaylist_def getUserPlan_def Let_def using assms by simp
  then show "fst (run_state (CreatePlaylist h c newID (Some (title, None))) w) =
      WriteError 403 (''free plan limited to '' @ itoa (maxPlaylists h) @ '' playlists, upgrade to create more'')"
    by (simp add: wp_def split_beta)
qed

end
