(* ===== verification/Comments.thy ===== *)
theory Comments
  imports Accounts Notifications Folders_Tags
begin

text \<open>
  Comments (\<open>internal/video/comment.go\<close>): the mode of a video, posting from the watch page, the two lists, deletion
  by the owner, and the notification that follows. \<open>newID\<close> is what \<open>gen_random_uuid()\<close> returns; \<open>real4\<close> is
  the rounding of the \<open>REAL\<close> column, \<open>None\<close> when it overflows. Times in answers are the row's, unformatted.
\<close>

subsection \<open>Modes and reactions\<close>

definition validCommentModes :: "string list" where
  "validCommentModes = [''disabled'', ''anonymous'', ''name_required'', ''name_email_required'']"

text \<open>The six emojis, in UTF-8.\<close>

definition quickReactionEmojis :: "string list" where
  "quickReactionEmojis = map (map char_of)
     [[0xF0, 0x9F, 0x91, 0x8D], [0xF0, 0x9F, 0x91, 0x8E], [0xE2, 0x9D, 0xA4, 0xEF, 0xB8, 0x8F],
      [0xF0, 0x9F, 0x98, 0x82], [0xF0, 0x9F, 0x98, 0xAE], [0xF0, 0x9F, 0x8E, 0x89 :: nat]]"

definition isQuickReactionBody :: "string \<Rightarrow> bool" where
  "isQuickReactionBody body \<longleftrightarrow> body \<in> set quickReactionEmojis"

text \<open>\<open>UPDATE videos .. WHERE id AND user_id AND organization_id IS NOT DISTINCT FROM\<close>: the creator in the current scope.\<close>

definition created_here :: "rctx \<Rightarrow> string \<Rightarrow> video \<Rightarrow> bool" where
  "created_here c videoID v \<longleftrightarrow> v_id v = videoID \<and> v_user_id v = UserID c \<and> v_organization_id v = orgScope c"

definition SetCommentMode :: "rctx \<Rightarrow> string \<Rightarrow> string option \<Rightarrow> unit response prog" where
  "SetCommentMode c videoID body = (case body of
     None \<Rightarrow> State_Monad.return bad_body
   | Some mode \<Rightarrow>
     if mode \<notin> set validCommentModes then State_Monad.return (WriteError 400 ''invalid comment mode'')
     else do {
       tag \<leftarrow> update_videos (\<lambda>w. created_here c videoID) (\<lambda>w v. v\<lparr>v_comment_mode := mode\<rparr>);
       State_Monad.return (case tag of Inl _ \<Rightarrow> WriteError 500 ''could not update comment mode''
         | Inr n \<Rightarrow> if n = 0 then WriteError 404 ''video not found'' else WriteHeader 204) })"

subsection \<open>The viewer\<close>

text \<open>The user an \<open>Authorization\<close> header names, empty for none; no header is the empty one.\<close>

definition optionalUserID :: "jwt_lib \<Rightarrow> config \<Rightarrow> time \<Rightarrow> string \<Rightarrow> string" where
  "optionalUserID j h t authHeader =
     (if authHeader = [] \<or> \<not> has_prefix authHeader ''Bearer '' then []
      else case ValidateToken j t (hmacSecret h) (drop 7 authHeader) of None \<Rightarrow> []
        | Some cl \<Rightarrow> if cl_TokenType cl = ''access'' then cl_UserID cl else [])"

text \<open>
  What \<open>PostWatchComment\<close> and \<open>lookupWatchVideo\<close> begin with: the video of a share token, its expiry and its
  password. The e-mail gate is not asked.
\<close>

definition lookupWatchVideo :: "crypto \<Rightarrow> config \<Rightarrow> cookies \<Rightarrow> string \<Rightarrow> ('b response + video) prog" where
  "lookupWatchVideo cy h cs shareToken = do {
     row \<leftarrow> select_row (\<lambda>w. find_where (watchable shareToken) (videos w));
     w \<leftarrow> State_Monad.get;
     State_Monad.return (case row of Inl _ \<Rightarrow> Inl (WriteError 404 ''video not found'')
       | Inr v \<Rightarrow>
         if (case v_share_expires_at v of None \<Rightarrow> False | Some t \<Rightarrow> t < now w) then Inl (WriteError 410 ''link expired'')
         else if (case v_share_password v of None \<Rightarrow> False
             | Some p \<Rightarrow> \<not> hasValidWatchCookie cy cs (hmacSecret h) shareToken p)
           then Inl (WriteError 403 ''password required'')
         else Inr v)
   }"

subsection \<open>Posting\<close>

record comment_request =
  pc_AuthorName :: string
  pc_AuthorEmail :: string
  pc_Body :: string
  pc_IsPrivate :: bool
  pc_VideoTimestamp :: "float64 option"

record comment_response =
  cm_ID :: string
  cm_AuthorName :: string
  cm_Body :: string
  cm_IsPrivate :: bool
  cm_IsOwner :: bool
  cm_CreatedAt :: time
  cm_VideoTimestamp :: "float64 option"

definition trim_comment :: "comment_request \<Rightarrow> comment_request" where
  "trim_comment req = req\<lparr>pc_Body := trim_space (pc_Body req), pc_AuthorName := trim_space (pc_AuthorName req),
     pc_AuthorEmail := trim_space (pc_AuthorEmail req)\<rparr>"

definition comment_error :: "string \<Rightarrow> comment_request \<Rightarrow> string" where
  "comment_error commentMode req =
     (if length (pc_AuthorName req) > 200 then ''name is too long''
      else if length (pc_AuthorEmail req) > 320 then ''email is too long''
      else if (case pc_VideoTimestamp req of None \<Rightarrow> False | Some t \<Rightarrow> t < 0) then ''invalid timestamp''
      else if pc_Body req = [] then ''comment body is required''
      else if validate_CommentBody (pc_Body req) \<noteq> [] then validate_CommentBody (pc_Body req)
      else if isQuickReactionBody (pc_Body req) then []
      else if commentMode = ''name_required'' \<or> commentMode = ''name_email_required'' then
        if pc_AuthorName req = [] then ''name is required''
        else if commentMode = ''name_email_required'' \<and> pc_AuthorEmail req = [] then ''email is required''
        else []
      else [])"

text \<open>A reaction is anonymous.\<close>

definition anonymize :: "comment_request \<Rightarrow> comment_request" where
  "anonymize req = (if isQuickReactionBody (pc_Body req) then req\<lparr>pc_AuthorName := [], pc_AuthorEmail := []\<rparr> else req)"

definition insert_comment :: "(float64 \<Rightarrow> float64 option) \<Rightarrow> video_comment \<Rightarrow> (db_error + video_comment) prog" where
  "insert_comment real4 row = db_stmt (\<lambda>w.
     if c_id row \<in> c_id ` set (comments w) then (Inl UniqueViolation, w)
     else if (case c_video_timestamp row of None \<Rightarrow> False | Some t \<Rightarrow> real4 t = None)
       then (Inl (DbFail ''value out of range for type real''), w)
     else let row = row\<lparr>c_video_timestamp := Option.bind (c_video_timestamp row) real4, c_created_at := now w\<rparr>
       in (Inr row, w\<lparr>comments := comments w @ [row]\<rparr>))"

text \<open>After the insert: mail when the account wants it, Slack when there is a client; never for private comments, reactions or the owner's own.\<close>

definition notify_comment :: "config \<Rightarrow> video \<Rightarrow> string \<Rightarrow> comment_request \<Rightarrow> unit prog" where
  "notify_comment h v caller req = do {
     shouldEmail \<leftarrow> (if hasCommentNotifier h then shouldSendImmediateCommentNotification (v_user_id v) else State_Monad.return False);
     if \<not> pc_IsPrivate req \<and> \<not> isQuickReactionBody (pc_Body req) \<and> caller \<noteq> v_user_id v \<and> (shouldEmail \<or> hasSlackNotifier h)
     then spawn (JobNotifyComment (v_id v) (v_user_id v) (v_share_token v) (pc_AuthorName req) (pc_Body req) shouldEmail)
     else State_Monad.return ()
   }"

definition store_comment :: "config \<Rightarrow> (float64 \<Rightarrow> float64 option) \<Rightarrow> string \<Rightarrow> video \<Rightarrow> string \<Rightarrow> comment_request
    \<Rightarrow> comment_response response prog" where
  "store_comment h real4 newID v caller req = do {
     r \<leftarrow> insert_comment real4 \<lparr>c_id = newID, c_video_id = v_id v, c_user_id = (if caller = [] then None else Some caller),
        c_author_name = pc_AuthorName req, c_author_email = pc_AuthorEmail req, c_body = pc_Body req,
        c_is_private = pc_IsPrivate req, c_video_timestamp = pc_VideoTimestamp req, c_created_at = 0\<rparr>;
     case r of Inl _ \<Rightarrow> State_Monad.return (WriteError 500 ''could not save comment'')
     | Inr row \<Rightarrow> do {
         notify_comment h v caller req;
         State_Monad.return (WriteJSON 201 \<lparr>cm_ID = newID, cm_AuthorName = pc_AuthorName req, cm_Body = pc_Body req,
           cm_IsPrivate = pc_IsPrivate req, cm_IsOwner = (caller = v_user_id v \<and> caller \<noteq> []),
           cm_CreatedAt = c_created_at row, cm_VideoTimestamp = pc_VideoTimestamp req\<rparr>) }
   }"

definition PostWatchComment :: "jwt_lib \<Rightarrow> crypto \<Rightarrow> config \<Rightarrow> (float64 \<Rightarrow> float64 option) \<Rightarrow> cookies \<Rightarrow> string \<Rightarrow> string \<Rightarrow> string
    \<Rightarrow> comment_request option \<Rightarrow> comment_response response prog" where
  "PostWatchComment j cy h real4 cs authHeader shareToken newID body = do {
     found \<leftarrow> lookupWatchVideo cy h cs shareToken;
     case found of Inl resp \<Rightarrow> State_Monad.return resp
     | Inr v \<Rightarrow>
       if v_comment_mode v = ''disabled'' then State_Monad.return (WriteError 403 ''comments are disabled'')
       else case body of None \<Rightarrow> State_Monad.return bad_body
       | Some raw \<Rightarrow> let req = trim_comment raw in
         if comment_error (v_comment_mode v) req \<noteq> []
           then State_Monad.return (WriteError 400 (comment_error (v_comment_mode v) req))
         else do {
           w \<leftarrow> State_Monad.get;
           let caller = optionalUserID j h (now w) authHeader;
           if pc_IsPrivate req \<and> caller = []
             then State_Monad.return (WriteError 401 ''authentication required for private comments'')
           else store_comment h real4 newID v caller (anonymize req) }
   }"

text \<open>The goroutine.\<close>

definition run_notify_comment :: "hook_env \<Rightarrow> crypto \<Rightarrow> config \<Rightarrow> (string \<Rightarrow> string \<Rightarrow> string) \<Rightarrow> string \<Rightarrow> string \<Rightarrow> string \<Rightarrow> string \<Rightarrow> bool
    \<Rightarrow> unit prog" where
  "run_notify_comment e cy h json videoID ownerID author body mail = do {
     row \<leftarrow> select_row (\<lambda>w. case find_where (\<lambda>v. v_id v = videoID) (videos w) of None \<Rightarrow> None
       | Some v \<Rightarrow> map_option (\<lambda>u. (u, v_title v)) (find_where (\<lambda>u. u_id u = v_user_id v) (users w)));
     case row of Inl _ \<Rightarrow> State_Monad.return ()
     | Inr (u, title) \<Rightarrow> do {
         let author = (if author = [] then ''Anonymous'' else author);
         (if hasWebhookClient h then run_webhook e cy ownerID ''video.comment'' (json author body) else State_Monad.return ());
         _ \<leftarrow> (if hasSlackNotifier h then service (SlackComment (u_email u) title author body) else State_Monad.return None);
         _ \<leftarrow> (if mail then service (EmailComment (u_email u) title author body) else State_Monad.return None);
         State_Monad.return () }
   }"

subsection \<open>Reading\<close>

definition queryComments :: "string \<Rightarrow> string \<Rightarrow> bool \<Rightarrow> (db_error + comment_response list) prog" where
  "queryComments videoID ownerID includePrivate = select_rows (\<lambda>w.
     map (\<lambda>r. \<lparr>cm_ID = c_id r, cm_AuthorName = c_author_name r, cm_Body = c_body r, cm_IsPrivate = c_is_private r,
         cm_IsOwner = (c_user_id r = Some ownerID), cm_CreatedAt = c_created_at r, cm_VideoTimestamp = c_video_timestamp r\<rparr>)
       (sort_key c_created_at (filter (\<lambda>r. c_video_id r = videoID \<and> (includePrivate \<or> \<not> c_is_private r)) (comments w))))"

text \<open>The answer: the comments and the mode.\<close>

definition ListWatchComments :: "jwt_lib \<Rightarrow> crypto \<Rightarrow> config \<Rightarrow> cookies \<Rightarrow> string \<Rightarrow> string
    \<Rightarrow> (comment_response list \<times> string) response prog" where
  "ListWatchComments j cy h cs authHeader shareToken = do {
     found \<leftarrow> lookupWatchVideo cy h cs shareToken;
     case found of Inl resp \<Rightarrow> State_Monad.return resp
     | Inr v \<Rightarrow>
       if v_comment_mode v = ''disabled'' then State_Monad.return (WriteJSON 200 ([], v_comment_mode v))
       else do {
         w \<leftarrow> State_Monad.get;
         let caller = optionalUserID j h (now w) authHeader;
         r \<leftarrow> queryComments (v_id v) (v_user_id v) (caller \<noteq> [] \<and> caller = v_user_id v);
         State_Monad.return (case r of Inl _ \<Rightarrow> WriteError 500 ''could not fetch comments''
           | Inr cs \<Rightarrow> WriteJSON 200 (cs, v_comment_mode v)) }
   }"

definition ListOwnerComments :: "rctx \<Rightarrow> string \<Rightarrow> (comment_response list \<times> string) response prog" where
  "ListOwnerComments c videoID = do {
     row \<leftarrow> select_row (\<lambda>w. find_where (created_here c videoID) (videos w));
     case row of Inl _ \<Rightarrow> State_Monad.return (WriteError 404 ''video not found'')
     | Inr v \<Rightarrow> do {
         r \<leftarrow> queryComments videoID (v_user_id v) True;
         State_Monad.return (case r of Inl _ \<Rightarrow> WriteError 500 ''could not fetch comments''
           | Inr cs \<Rightarrow> WriteJSON 200 (cs, v_comment_mode v)) }
   }"

definition DeleteComment :: "rctx \<Rightarrow> string \<Rightarrow> string \<Rightarrow> unit response prog" where
  "DeleteComment c videoID commentID = do {
     r \<leftarrow> db_stmt (\<lambda>w. let P = (\<lambda>r. c_id r = commentID \<and> c_video_id r = videoID \<and>
           list_ex (created_here c (c_video_id r)) (videos w)) in
         (Inr (count_where P (comments w)), w\<lparr>comments := del_where P (comments w)\<rparr>));
     State_Monad.return (case r of Inl _ \<Rightarrow> WriteError 500 ''could not delete comment''
       | Inr n \<Rightarrow> if n = 0 then WriteError 404 ''comment not found'' else WriteHeader 204)
   }"

subsection \<open>Who may write and who may read\<close>

text \<open>What the gates of a watch page that comments ask: a live video that is not expired, and its password.\<close>

definition comment_gates :: "crypto \<Rightarrow> config \<Rightarrow> cookies \<Rightarrow> string \<Rightarrow> time \<Rightarrow> video \<Rightarrow> bool" where
  "comment_gates cy h cs shareToken t v \<longleftrightarrow> watchable shareToken v \<and>
     (\<forall>e. v_share_expires_at v = Some e \<longrightarrow> t \<le> e) \<and>
     (\<forall>p. v_share_password v = Some p \<longrightarrow> hasValidWatchCookie cy cs (hmacSecret h) shareToken p)"

lemma lookupWatchVideo_wp:
  assumes "\<And>resp t. resp \<in> {WriteError 404 ''video not found'', WriteError 410 ''link expired'', WriteError 403 ''password required''} \<Longrightarrow> t = tick w \<Longrightarrow> Q (Inl resp) t"
    and "\<And>v t. v \<in> set (videos w) \<Longrightarrow> comment_gates cy h cs shareToken (now w) v \<Longrightarrow> t = tick w \<Longrightarrow> Q (Inr v) t"
  shows "wp (lookupWatchVideo cy h cs shareToken) Q w"
  unfolding lookupWatchVideo_def
  by (auto split: option.split sum.split intro!: assms) (auto simp: comment_gates_def)

text \<open>
  One comment at most, on the video of the link, by a caller who passed the gates; a private one has a known
  author, and a name where the mode asks for one unless it is a reaction.
\<close>

definition allowed_comment :: "config \<Rightarrow> video \<Rightarrow> video_comment \<Rightarrow> bool" where
  "allowed_comment h v r \<longleftrightarrow> c_video_id r = v_id v \<and> v_comment_mode v \<noteq> ''disabled'' \<and>
     c_body r \<noteq> [] \<and> length (c_body r) \<le> 5000 \<and> length (c_author_name r) \<le> 200 \<and> length (c_author_email r) \<le> 320 \<and>
     (c_is_private r \<longrightarrow> c_user_id r \<noteq> None) \<and>
     (if isQuickReactionBody (c_body r) then c_author_name r = [] \<and> c_author_email r = []
      else (v_comment_mode v \<in> {''name_required'', ''name_email_required''} \<longrightarrow> c_author_name r \<noteq> []) \<and>
           (v_comment_mode v = ''name_email_required'' \<longrightarrow> c_author_email r \<noteq> []))"

definition comment_added :: "crypto \<Rightarrow> config \<Rightarrow> cookies \<Rightarrow> string \<Rightarrow> world \<Rightarrow> 'a \<Rightarrow> world \<Rightarrow> bool" where
  "comment_added cy h cs shareToken w resp t \<longleftrightarrow> comments t = comments w \<or>
     (\<exists>v r. v \<in> set (videos w) \<and> comment_gates cy h cs shareToken (now w) v \<and> allowed_comment h v r \<and> comments t = comments w @ [r])"

lemma comment_error_ok: "comment_error mode req = [] \<longleftrightarrow>
    length (pc_AuthorName req) \<le> 200 \<and> length (pc_AuthorEmail req) \<le> 320 \<and> \<not> (\<exists>t. pc_VideoTimestamp req = Some t \<and> t < 0) \<and>
    pc_Body req \<noteq> [] \<and> length (pc_Body req) \<le> 5000 \<and>
    (isQuickReactionBody (pc_Body req) \<or>
     ((mode \<in> {''name_required'', ''name_email_required''} \<longrightarrow> pc_AuthorName req \<noteq> []) \<and>
      (mode = ''name_email_required'' \<longrightarrow> pc_AuthorEmail req \<noteq> [])))"
  by (auto simp: comment_error_def validate_CommentBody_def checkLen_ok split: option.split)

lemma notify_comment_wp: "wp (notify_comment h v caller req) (\<lambda>_ t. comments t = comments w) w"
  unfolding notify_comment_def shouldSendImmediateCommentNotification_def accountNotificationMode_def
  by (auto split: option.split sum.split)

lemma store_comment_wp:
  "wp (store_comment h real4 newID v caller req) (\<lambda>_ t. comments t = comments w \<or> (\<exists>r. comments t = comments w @ [r] \<and>
     c_video_id r = v_id v \<and> c_user_id r = (if caller = [] then None else Some caller) \<and> c_author_name r = pc_AuthorName req \<and>
     c_author_email r = pc_AuthorEmail req \<and> c_body r = pc_Body req \<and> c_is_private r = pc_IsPrivate req)) w"
  unfolding store_comment_def insert_comment_def Let_def
  by (auto split: option.split sum.split if_split simp: run_simps intro!: wp_mono [OF notify_comment_wp])

lemma anonymize_private [simp]: "pc_IsPrivate (anonymize req) = pc_IsPrivate req"
  by (simp add: anonymize_def)

lemma PostWatchComment_wp:
  "wp (PostWatchComment j cy h real4 cs authHeader shareToken newID body) (comment_added cy h cs shareToken w) w"
  unfolding PostWatchComment_def wp_bind
proof (rule lookupWatchVideo_wp, goal_cases)
  case (2 v t)
  have *: "allowed_comment h v r" if "comment_error (v_comment_mode v) req = []" "v_comment_mode v \<noteq> ''disabled''"
    "c_video_id r = v_id v" "c_user_id r = (if caller = [] then None else Some caller)" "c_is_private r \<longrightarrow> caller \<noteq> []"
    "c_author_name r = pc_AuthorName (anonymize req)" "c_author_email r = pc_AuthorEmail (anonymize req)"
    "c_body r = pc_Body (anonymize req)" for r req caller
    using that unfolding comment_error_ok allowed_comment_def anonymize_def by (auto split: if_splits)
  have same: "comment_added cy h cs shareToken w r t'" if "comments t' = comments w" for r t'
    using that by (simp add: comment_added_def)
  have stored: "comment_added cy h cs shareToken w r t'"
    if "comments t' = comments w \<or> (\<exists>r. comments t' = comments w @ [r] \<and> c_video_id r = v_id v \<and>
        c_user_id r = (if caller = [] then None else Some caller) \<and> c_author_name r = pc_AuthorName (anonymize req) \<and>
        c_author_email r = pc_AuthorEmail (anonymize req) \<and> c_body r = pc_Body (anonymize req) \<and> c_is_private r = pc_IsPrivate req)"
      "comment_error (v_comment_mode v) req = []" "v_comment_mode v \<noteq> ''disabled''" "pc_IsPrivate req \<longrightarrow> caller \<noteq> []" for r t' caller req
    using that(1)
  proof (elim disjE exE conjE, goal_cases)
    case (2 row)
    with that have "allowed_comment h v row" by (intro *) auto
    with 2 \<open>v \<in> set (videos w)\<close> \<open>comment_gates cy h cs shareToken (now w) v\<close> show ?case by (auto simp: comment_added_def)
  qed (rule same)
  have store: "wp (store_comment h real4 newID v caller (anonymize req)) (comment_added cy h cs shareToken w) t"
    if "comment_error (v_comment_mode v) req = []" "v_comment_mode v \<noteq> ''disabled''" "pc_IsPrivate req \<longrightarrow> caller \<noteq> []" for caller req
    by (rule wp_mono [OF store_comment_wp]) (rule stored [OF _ that], simp add: 2)
  show ?case using 2 unfolding Let_def
    by (auto split: option.split intro: same intro!: store [unfolded 2(3)])
qed (auto simp: comment_added_def)

text \<open>
  Nobody but the owner of the video is shown a private comment; and the lists only show comments of the video.
\<close>

definition shows_private :: "(comment_response list \<times> string) response \<Rightarrow> bool" where
  "shows_private resp \<longleftrightarrow> (\<exists>cs mode. resp = WriteJSON 200 (cs, mode) \<and> list_ex cm_IsPrivate cs)"

lemma queryComments_wp:
  "wp (queryComments videoID ownerID includePrivate) (\<lambda>r t. t = tick w \<and> (\<forall>cs. r = Inr cs \<longrightarrow>
     (\<forall>x \<in> set cs. (cm_IsPrivate x \<longrightarrow> includePrivate) \<and>
       (\<exists>r \<in> set (comments w). c_id r = cm_ID x \<and> c_video_id r = videoID \<and> c_is_private r = cm_IsPrivate x)))) w"
  unfolding queryComments_def by (auto split: option.split)

lemma ListWatchComments_wp:
  "wp (ListWatchComments j cy h cs authHeader shareToken) (\<lambda>resp t. shows_private resp \<longrightarrow>
     (\<exists>v \<in> set (videos w). comment_gates cy h cs shareToken (now w) v \<and> v_user_id v \<noteq> [] \<and>
        optionalUserID j h (now w) authHeader = v_user_id v)) w"
  unfolding ListWatchComments_def wp_bind
proof (rule lookupWatchVideo_wp, goal_cases)
  case (2 v t)
  then show ?case unfolding Let_def
    by (auto simp: shows_private_def list_ex_iff split: sum.split intro!: wp_mono [OF queryComments_wp] bexI [of _ v])
qed (auto simp: shows_private_def)

text \<open>Deletion: only comments of the caller's own videos in the current scope, and only the one that was named.\<close>

lemma DeleteComment_wp:
  "wp (DeleteComment c videoID commentID) (\<lambda>resp t.
     comments t = (if resp = WriteHeader 204 then del_where (\<lambda>r. c_id r = commentID \<and> c_video_id r = videoID) (comments w) else comments w) \<and>
     (resp = WriteHeader 204 \<longrightarrow> (\<exists>v \<in> set (videos w). created_here c videoID v))) w"
proof -
  have del: "del_where (\<lambda>r. c_id r = commentID \<and> c_video_id r = videoID \<and> list_ex (created_here c (c_video_id r)) (videos w)) (comments w)
      = (if list_ex (created_here c videoID) (videos w) then del_where (\<lambda>r. c_id r = commentID \<and> c_video_id r = videoID) (comments w) else comments w)"
    by (auto simp: del_where_def intro!: filter_cong)
  have none: "del_where P rows = rows" if "count_where P rows = 0" for P and rows :: "video_comment list"
    using that by (auto simp: del_where_def count_where_0)
  define P where "P = (\<lambda>r :: video_comment. c_id r = commentID \<and> c_video_id r = videoID \<and> list_ex (created_here c (c_video_id r)) (videos w))"
  have some: "list_ex (created_here c videoID) (videos w)" if "count_where P (comments w) \<noteq> 0"
    using that unfolding P_def by (auto simp: count_where_0)
  note del = del [folded P_def]
  show ?thesis unfolding DeleteComment_def Let_def
    by (auto split: option.split simp: P_def [symmetric] none) (use some in \<open>auto simp: del list_ex_iff\<close>)
qed

end
