(* ===== verification/Watch_Pages.thy ===== *)
theory Watch_Pages
  imports Viewing Comments "HOL-Library.Signed_Division"
begin

text \<open>
  The public side of a video: the watch response and downloads (\<open>video_query.go\<close>), the watch and embed pages
  (\<open>watch_page.go\<close>, \<open>embed_page.go\<close>), the thumbnail and \<open>oembed.go\<close>, and the record of a view (\<open>view.go\<close>,
  \<open>video_helpers.go\<close>). A page is the data its template is given; the templates' text is not modelled, nor
  \<open>initials\<close> (upper case of any letter). The analysis of user agents and the place of an address are libraries.
\<close>

subsection \<open>Who watches\<close>

record agents =
  uaBrowser :: "string \<Rightarrow> string"
  uaMobile :: "string \<Rightarrow> bool"
  geoLookup :: "string \<Rightarrow> string \<times> string" \<comment> \<open>\<open>('''', '''')\<close> without a resolver\<close>

record view_request =
  rq_ip :: string
  rq_userAgent :: string
  rq_referer :: string
  rq_cookies :: cookies

text \<open>\<open>strings.ToLower\<close> matters here only where it makes letters of ASCII, see \<^const>\<open>slug_lower\<close>.\<close>

definition categorizeReferrer :: "string \<Rightarrow> string" where
  "categorizeReferrer referer =
     (if referer = [] then ''Direct''
      else let lower = slug_lower referer in
        if contains lower ''mail'' \<or> contains lower ''outlook'' \<or> contains lower ''proton'' then ''Email''
        else if contains lower ''slack'' then ''Slack''
        else if contains lower ''twitter'' \<or> contains lower ''x.com'' then ''Twitter''
        else if contains lower ''linkedin'' then ''LinkedIn''
        else ''Other'')"

definition parseBrowser :: "agents \<Rightarrow> string \<Rightarrow> string" where
  "parseBrowser ag userAgent =
     (if userAgent = [] then ''Other''
      else let name = uaBrowser ag userAgent in
        if contains name ''Edge'' then ''Edge'' else if contains name ''Chrome'' then ''Chrome''
        else if contains name ''Firefox'' then ''Firefox'' else if contains name ''Safari'' then ''Safari'' else ''Other'')"

definition parseDevice :: "agents \<Rightarrow> string \<Rightarrow> string" where
  "parseDevice ag userAgent =
     (if userAgent = [] then ''Desktop''
      else let lower = slug_lower userAgent in
        if uaMobile ag userAgent then
          if contains lower ''ipad'' \<or> contains lower ''tablet'' \<or> (contains lower ''android'' \<and> \<not> contains lower ''mobile'')
            then ''Tablet'' else ''Mobile''
        else ''Desktop'')"

definition viewerUserIDFromRequest :: "jwt_lib \<Rightarrow> config \<Rightarrow> time \<Rightarrow> cookies \<Rightarrow> string" where
  "viewerUserIDFromRequest j h t cs = (case r_Cookie cs ''refresh_token'' of None \<Rightarrow> []
     | Some tok \<Rightarrow> (case ValidateToken j t (hmacSecret h) tok of None \<Rightarrow> []
         | Some cl \<Rightarrow> if cl_TokenType cl \<noteq> ''refresh'' then [] else cl_UserID cl))"

text \<open>The goroutine's row is computed from the request; its time is that of the insert.\<close>

definition recordViewAsync :: "jwt_lib \<Rightarrow> crypto \<Rightarrow> agents \<Rightarrow> config \<Rightarrow> view_request \<Rightarrow> video \<Rightarrow> user \<Rightarrow> unit prog" where
  "recordViewAsync j cy ag h rq v u = do {
     w \<leftarrow> State_Monad.get;
     spawn (JobRecordView \<lparr>vw_video_id = v_id v, vw_viewer_hash = viewerHash cy (rq_ip rq) (rq_userAgent rq),
         vw_referrer = categorizeReferrer (rq_referer rq), vw_browser = parseBrowser ag (rq_userAgent rq),
         vw_device = parseDevice ag (rq_userAgent rq), vw_country = fst (geoLookup ag (rq_ip rq)),
         vw_city = snd (geoLookup ag (rq_ip rq)), vw_created_at = 0\<rparr>
       u (v_title v) (v_share_token v) (viewerUserIDFromRequest j h (now w) (rq_cookies rq)) (v_view_notification v))
   }"

definition run_record_view :: "config \<Rightarrow> video_view \<Rightarrow> user \<Rightarrow> string \<Rightarrow> string \<Rightarrow> string \<Rightarrow> string option \<Rightarrow> unit prog" where
  "run_record_view h row owner title token viewerUserID mode = do {
     _ \<leftarrow> exec_world (\<lambda>w. if vw_video_id row \<in> v_id ` set (videos w)
       then w\<lparr>video_views := video_views w @ [row\<lparr>vw_created_at := now w\<rparr>]\<rparr> else w);
     resolveAndNotify h (vw_video_id row) owner title viewerUserID mode
   }"

subsection \<open>The row of a share link\<close>

text \<open>The settings of the workspace for its videos, of the owner for the others.\<close>

definition base_branding :: "world \<Rightarrow> video \<Rightarrow> branding" where
  "base_branding w v =
     (case find_where (\<lambda>r. case v_organization_id v of None \<Rightarrow> ub_user_id r = v_user_id v \<and> ub_organization_id r = None
        | Some g \<Rightarrow> ub_organization_id r = Some g) (user_branding w)
      of None \<Rightarrow> no_branding | Some r \<Rightarrow> ub_branding r)"

definition shared_video :: "string \<Rightarrow> (db_error + (video \<times> user \<times> branding)) prog" where
  "shared_video shareToken = select_row (\<lambda>w. case find_where (watchable shareToken) (videos w) of None \<Rightarrow> None
     | Some v \<Rightarrow> map_option (\<lambda>u. (v, u, base_branding w v)) (find_where (\<lambda>u. u_id u = v_user_id v) (users w)))"

definition expired :: "time \<Rightarrow> video \<Rightarrow> bool" where
  "expired t v \<longleftrightarrow> (case v_share_expires_at v of None \<Rightarrow> False | Some e \<Rightarrow> e < t)"

definition page_branding :: "services \<Rightarrow> branding \<Rightarrow> video \<Rightarrow> branding_config prog" where
  "page_branding sv base v = resolveBranding sv base ((v_branding v)\<lparr>b_CustomCSS := None\<rparr>)"

definition signed_or_empty :: "services \<Rightarrow> string option \<Rightarrow> string prog" where
  "signed_or_empty sv key = do {
     u \<leftarrow> sign_thumbnail sv key;
     State_Monad.return (case_option [] (\<lambda>u. u) u)
   }"

subsection \<open>The watch response\<close>

record watch_response =
  wr_Title :: string
  wr_VideoURL :: string
  wr_Duration :: int
  wr_Creator :: string
  wr_CreatedAt :: time
  wr_ContentType :: string
  wr_ThumbnailURL :: string
  wr_TranscriptStatus :: work_status
  wr_TranscriptURL :: string
  wr_Segments :: "transcript_segment list"
  wr_Branding :: branding_config
  wr_CtaText :: "string option"
  wr_CtaUrl :: "string option"
  wr_Summary :: string
  wr_Chapters :: "(string \<times> float64) list"
  wr_SummaryStatus :: work_status
  wr_Document :: string
  wr_DocumentStatus :: work_status

abbreviation or_empty :: "'a list option \<Rightarrow> 'a list" where "or_empty x \<equiv> case_option [] (\<lambda>y. y) x"

text \<open>\<open>poll\<close>: the query parameter asks for the transcript only; such a request is not a view.\<close>

definition Watch :: "jwt_lib \<Rightarrow> crypto \<Rightarrow> agents \<Rightarrow> config \<Rightarrow> services \<Rightarrow> view_request \<Rightarrow> bool \<Rightarrow> string \<Rightarrow> watch_response response prog" where
  "Watch j cy ag h sv rq poll shareToken = do {
     row \<leftarrow> shared_video shareToken;
     w \<leftarrow> State_Monad.get;
     case row of Inl _ \<Rightarrow> State_Monad.return (WriteError 404 ''video not found'')
     | Inr (v, u, base) \<Rightarrow>
       if expired (now w) v then State_Monad.return (WriteError 410 ''link expired'')
       else case enforceWatchAccess cy h (rq_cookies rq) shareToken (v_share_password v) (v_email_gate_enabled v) of
         Some resp \<Rightarrow> State_Monad.return resp
       | None \<Rightarrow> do {
           branding \<leftarrow> page_branding sv base v;
           (if poll then State_Monad.return () else recordViewAsync j cy ag h rq v u);
           e \<leftarrow> call;
           if e \<noteq> None then State_Monad.return (WriteError 500 ''failed to generate video URL'')
           else do {
             thumb \<leftarrow> signed_or_empty sv (v_thumbnail_key v);
             transcript \<leftarrow> signed_or_empty sv (v_transcript_key v);
             State_Monad.return (WriteJSON 200 \<lparr>wr_Title = v_title v, wr_VideoURL = download_url sv (v_file_key v) [],
               wr_Duration = v_duration v, wr_Creator = u_name u, wr_CreatedAt = v_created_at v, wr_ContentType = v_content_type v,
               wr_ThumbnailURL = thumb, wr_TranscriptStatus = v_transcript_status v, wr_TranscriptURL = transcript,
               wr_Segments = or_empty (v_transcript_json v), wr_Branding = branding, wr_CtaText = v_cta_text v,
               wr_CtaUrl = v_cta_url v, wr_Summary = or_empty (v_summary v), wr_Chapters = or_empty (v_chapters v),
               wr_SummaryStatus = v_summary_status v, wr_Document = or_empty (v_document v),
               wr_DocumentStatus = v_document_status v\<rparr>) } }
   }"

text \<open>The name of the file is the title and the extension of the content type.\<close>

definition download_answer :: "services \<Rightarrow> video \<Rightarrow> string response prog" where
  "download_answer sv v = do {
     e \<leftarrow> call;
     State_Monad.return (if e \<noteq> None then WriteError 500 ''failed to generate download URL''
       else WriteJSON 200 (download_url sv (v_file_key v) (v_title v @ extensionForContentType (v_content_type v))))
   }"

definition Download :: "services \<Rightarrow> rctx \<Rightarrow> string \<Rightarrow> string response prog" where
  "Download sv c videoID = do {
     row \<leftarrow> select_row (\<lambda>w. find_where (orgVideoFilter c videoID (\<lambda>v. v_status v = Ready)) (videos w));
     case row of Inl _ \<Rightarrow> State_Monad.return (WriteError 404 ''video not found'')
     | Inr v \<Rightarrow> download_answer sv v
   }"

definition GetTranscript :: "rctx \<Rightarrow> string \<Rightarrow> (work_status \<times> transcript_segment list) response prog" where
  "GetTranscript c videoID = do {
     row \<leftarrow> select_row (\<lambda>w. find_where (orgVideoFilter c videoID live) (videos w));
     State_Monad.return (case row of Inl _ \<Rightarrow> WriteError 404 ''video not found''
       | Inr v \<Rightarrow> WriteJSON 200 (v_transcript_status v, or_empty (v_transcript_json v)))
   }"

definition WatchDownload :: "crypto \<Rightarrow> config \<Rightarrow> services \<Rightarrow> cookies \<Rightarrow> string \<Rightarrow> string response prog" where
  "WatchDownload cy h sv cs shareToken = do {
     row \<leftarrow> select_row (\<lambda>w. find_where (watchable shareToken) (videos w));
     w \<leftarrow> State_Monad.get;
     case row of Inl _ \<Rightarrow> State_Monad.return (WriteError 404 ''video not found'')
     | Inr v \<Rightarrow>
       if \<not> v_download_enabled v then State_Monad.return (WriteError 403 ''downloads are disabled for this video'')
       else if expired (now w) v then State_Monad.return (WriteError 410 ''link expired'')
       else case enforceWatchAccess cy h cs shareToken (v_share_password v) (v_email_gate_enabled v) of
         Some resp \<Rightarrow> State_Monad.return resp
       | None \<Rightarrow> download_answer sv v
   }"

record oembed_response =
  oe_Title :: string
  oe_Duration :: int
  oe_ThumbnailURL :: string
  oe_AuthorName :: string
  oe_WatchURL :: string
  oe_HTML :: string
  oe_CreatedAt :: time

definition OEmbed :: "crypto \<Rightarrow> config \<Rightarrow> services \<Rightarrow> cookies \<Rightarrow> string \<Rightarrow> oembed_response response prog" where
  "OEmbed cy h sv cs shareToken = do {
     row \<leftarrow> shared_video shareToken;
     w \<leftarrow> State_Monad.get;
     case row of Inl _ \<Rightarrow> State_Monad.return (WriteError 404 ''video not found'')
     | Inr (v, u, _) \<Rightarrow>
       if expired (now w) v then State_Monad.return (WriteError 410 ''link expired'')
       else case enforceWatchAccess cy h cs shareToken (v_share_password v) (v_email_gate_enabled v) of
         Some resp \<Rightarrow> State_Monad.return resp
       | None \<Rightarrow> do {
           thumb \<leftarrow> signed_or_empty sv (v_thumbnail_key v);
           State_Monad.return (WriteJSON 200 \<lparr>oe_Title = v_title v, oe_Duration = v_duration v, oe_ThumbnailURL = thumb,
             oe_AuthorName = u_name u, oe_WatchURL = baseURL h @ ''/watch/'' @ shareToken,
             oe_HTML = ''<iframe src='' @ [CHR 0x22] @ baseURL h @ ''/embed/'' @ shareToken @ [CHR 0x22] @ '' width='' @ [CHR 0x22] @
               ''640'' @ [CHR 0x22] @ '' height='' @ [CHR 0x22] @ ''360'' @ [CHR 0x22] @ '' frameborder='' @ [CHR 0x22] @ ''0'' @ [CHR 0x22] @
               '' allowfullscreen></iframe>'', oe_CreatedAt = v_created_at v\<rparr>) }
   }"

subsection \<open>The pages\<close>

definition formatDuration :: "int \<Rightarrow> string" where
  "formatDuration n =
     (if n \<ge> 3600 then itoa (n div 3600) @ '':'' @ pad0 2 (itoa ((n mod 3600) div 60)) @ '':'' @ pad0 2 (itoa (n mod 60))
      else itoa (n sdiv 60) @ '':'' @ pad0 2 (itoa (n smod 60)))"

definition formatISO8601Duration :: "int \<Rightarrow> string" where
  "formatISO8601Duration n =
     (if n \<le> 0 then []
      else let hr = n div 3600; m = (n mod 3600) div 60; s = n mod 60 in
        if hr > 0 then ''PT'' @ itoa hr @ ''H'' @ itoa m @ ''M'' @ itoa s @ ''S''
        else if m > 0 then ''PT'' @ itoa m @ ''M'' @ itoa s @ ''S''
        else ''PT'' @ itoa s @ ''S'')"

text \<open>The keys and values of the object; the upload date is the row's, its text is not modelled.\<close>

definition buildVideoObjectJSONLD :: "string \<Rightarrow> string \<Rightarrow> string \<Rightarrow> string \<Rightarrow> int \<Rightarrow> bool \<Rightarrow> bool \<Rightarrow> (string \<times> string) list" where
  "buildVideoObjectJSONLD title description base shareToken duration downloadEnabled hasThumbnail =
     [(''@context'', ''https://schema.org''), (''@type'', ''VideoObject''), (''name'', title), (''description'', description),
      (''embedUrl'', base @ ''/embed/'' @ shareToken)] @
     (if hasThumbnail then [(''thumbnailUrl'', base @ ''/api/watch/'' @ shareToken @ ''/thumbnail'')] else []) @
     (if formatISO8601Duration duration \<noteq> [] then [(''duration'', formatISO8601Duration duration)] else []) @
     (if downloadEnabled then [(''contentUrl'', base @ ''/api/watch/'' @ shareToken @ ''/download'')] else [])"

text \<open>\<open>strings.Count\<close> of a non-empty text is one less than the number of parts between its occurrences.\<close>

definition count_text :: "string \<Rightarrow> string \<Rightarrow> nat" where
  "count_text s sep = length (split s sep) - 1"

definition injectScriptNonce :: "string \<Rightarrow> string \<Rightarrow> string" where
  "injectScriptNonce scriptTag nonce =
     (if scriptTag = [] then []
      else if \<not> has_prefix scriptTag ''<script'' \<or> count_text scriptTag ''<script'' \<noteq> 1 then []
      else ''<script nonce='' @ [CHR 0x22] @ nonce @ [CHR 0x22] @ drop 7 scriptTag)"

record watch_page_data =
  wp_Title :: string
  wp_VideoURL :: string
  wp_Creator :: string
  wp_Date :: time
  wp_ThumbnailURL :: string
  wp_VideoID :: string
  wp_CommentMode :: string
  wp_TranscriptURL :: string
  wp_TranscriptStatus :: work_status
  wp_Segments :: "transcript_segment list"
  wp_ContentType :: string
  wp_Branding :: branding_config
  wp_AnalyticsScript :: string
  wp_DownloadEnabled :: bool
  wp_CtaText :: string
  wp_CtaUrl :: string
  wp_Summary :: string
  wp_Chapters :: "(string \<times> float64) list"
  wp_SummaryStatus :: work_status
  wp_Description :: string
  wp_Duration :: int
  wp_HasThumbnail :: bool
  wp_JSONLD :: "(string \<times> string) list"
  wp_SubscriptionPlan :: string

datatype watch_page = WatchNotFound | WatchExpired | WatchFailed
  | WatchPassword string branding_config \<comment> \<open>the title and the look\<close>
  | WatchEmail string
  | WatchProcessing string branding_config string string \<comment> \<open>title, look, script, plan\<close>
  | WatchVideo watch_page_data

definition watch_description :: "video \<Rightarrow> user \<Rightarrow> string" where
  "watch_description v u =
     (if or_empty (v_summary v) \<noteq> [] then or_empty (v_summary v)
      else if v_duration v > 0 then ''Video by '' @ u_name u @ '' ('' @ formatDuration (v_duration v) @ '')''
      else v_title v)"

text \<open>The branding is resolved before any check; the password is asked before the address.\<close>

definition WatchPage :: "jwt_lib \<Rightarrow> crypto \<Rightarrow> agents \<Rightarrow> config \<Rightarrow> services \<Rightarrow> string \<Rightarrow> view_request \<Rightarrow> string \<Rightarrow> watch_page prog" where
  "WatchPage j cy ag h sv nonce rq shareToken = do {
     row \<leftarrow> shared_video shareToken;
     case row of Inl _ \<Rightarrow> State_Monad.return WatchNotFound
     | Inr (v, u, base) \<Rightarrow> do {
         branding \<leftarrow> page_branding sv base v;
         w \<leftarrow> State_Monad.get;
         if expired (now w) v then State_Monad.return WatchExpired
         else if (case v_share_password v of None \<Rightarrow> False
             | Some p \<Rightarrow> \<not> hasValidWatchCookie cy (rq_cookies rq) (hmacSecret h) shareToken p)
           then State_Monad.return (WatchPassword (v_title v) branding)
         else if v_email_gate_enabled v \<and> hasValidEmailGateCookie cy (rq_cookies rq) (hmacSecret h) shareToken = None
           then State_Monad.return (WatchEmail (v_title v))
         else do {
           recordViewAsync j cy ag h rq v u;
           if v_status v = Processing
             then State_Monad.return (WatchProcessing (v_title v) branding (injectScriptNonce (analyticsScript h) nonce) (u_plan u))
           else do {
             e \<leftarrow> call;
             if e \<noteq> None then State_Monad.return WatchFailed
             else do {
               thumb \<leftarrow> signed_or_empty sv (v_thumbnail_key v);
               transcript \<leftarrow> signed_or_empty sv (v_transcript_key v);
               State_Monad.return (WatchVideo \<lparr>wp_Title = v_title v, wp_VideoURL = download_url sv (v_file_key v) [],
                 wp_Creator = u_name u, wp_Date = v_created_at v, wp_ThumbnailURL = thumb, wp_VideoID = v_id v,
                 wp_CommentMode = v_comment_mode v, wp_TranscriptURL = transcript, wp_TranscriptStatus = v_transcript_status v,
                 wp_Segments = or_empty (v_transcript_json v), wp_ContentType = v_content_type v, wp_Branding = branding,
                 wp_AnalyticsScript = injectScriptNonce (analyticsScript h) nonce, wp_DownloadEnabled = v_download_enabled v,
                 wp_CtaText = or_empty (v_cta_text v), wp_CtaUrl = or_empty (v_cta_url v), wp_Summary = or_empty (v_summary v),
                 wp_Chapters = or_empty (v_chapters v), wp_SummaryStatus = v_summary_status v,
                 wp_Description = watch_description v u, wp_Duration = v_duration v, wp_HasThumbnail = (v_thumbnail_key v \<noteq> None),
                 wp_JSONLD = buildVideoObjectJSONLD (v_title v) (watch_description v u) (baseURL h) shareToken (v_duration v)
                   (v_download_enabled v) (v_thumbnail_key v \<noteq> None), wp_SubscriptionPlan = u_plan u\<rparr>) } } } }
   }"

text \<open>The thumbnail: a redirect, the plain 404 of \<open>http.NotFound\<close>, or the answer of a gate.\<close>

datatype thumbnail_answer = ThumbNotFound | ThumbDenied "unit response" | ThumbRedirect string

definition WatchThumbnail :: "crypto \<Rightarrow> config \<Rightarrow> services \<Rightarrow> cookies \<Rightarrow> string \<Rightarrow> thumbnail_answer prog" where
  "WatchThumbnail cy h sv cs shareToken = do {
     row \<leftarrow> select_row (\<lambda>w. find_where (watchable shareToken) (videos w));
     w \<leftarrow> State_Monad.get;
     case row of Inl _ \<Rightarrow> State_Monad.return ThumbNotFound
     | Inr v \<Rightarrow>
       if expired (now w) v then State_Monad.return ThumbNotFound
       else case enforceWatchAccess cy h cs shareToken (v_share_password v) (v_email_gate_enabled v) of
         Some resp \<Rightarrow> State_Monad.return (ThumbDenied resp)
       | None \<Rightarrow> (case v_thumbnail_key v of None \<Rightarrow> State_Monad.return ThumbNotFound
           | Some k \<Rightarrow> do {
               e \<leftarrow> call;
               State_Monad.return (if e \<noteq> None then ThumbNotFound else ThumbRedirect (download_url sv k [])) })
   }"

record embed_page_data =
  em_Title :: string
  em_VideoURL :: string
  em_ThumbnailURL :: string
  em_TranscriptURL :: string
  em_ContentType :: string
  em_CtaText :: string
  em_CtaUrl :: string
  em_Chapters :: "(string \<times> float64) list"

datatype embed_page = EmbedNotFound | EmbedExpired | EmbedFailed | EmbedPassword string | EmbedEmail string
  | EmbedProcessing string | EmbedVideo embed_page_data

definition EmbedPage :: "jwt_lib \<Rightarrow> crypto \<Rightarrow> agents \<Rightarrow> config \<Rightarrow> services \<Rightarrow> view_request \<Rightarrow> string \<Rightarrow> embed_page prog" where
  "EmbedPage j cy ag h sv rq shareToken = do {
     row \<leftarrow> shared_video shareToken;
     w \<leftarrow> State_Monad.get;
     case row of Inl _ \<Rightarrow> State_Monad.return EmbedNotFound
     | Inr (v, u, _) \<Rightarrow>
       if expired (now w) v then State_Monad.return EmbedExpired
       else if (case v_share_password v of None \<Rightarrow> False
           | Some p \<Rightarrow> \<not> hasValidWatchCookie cy (rq_cookies rq) (hmacSecret h) shareToken p)
         then State_Monad.return (EmbedPassword (v_title v))
       else if v_email_gate_enabled v \<and> hasValidEmailGateCookie cy (rq_cookies rq) (hmacSecret h) shareToken = None
         then State_Monad.return (EmbedEmail (v_title v))
       else do {
         recordViewAsync j cy ag h rq v u;
         if v_status v = Processing then State_Monad.return (EmbedProcessing (v_title v))
         else do {
           e \<leftarrow> call;
           if e \<noteq> None then State_Monad.return EmbedFailed
           else do {
             thumb \<leftarrow> signed_or_empty sv (v_thumbnail_key v);
             transcript \<leftarrow> signed_or_empty sv (v_transcript_key v);
             State_Monad.return (EmbedVideo \<lparr>em_Title = v_title v, em_VideoURL = download_url sv (v_file_key v) [],
               em_ThumbnailURL = thumb, em_TranscriptURL = transcript, em_ContentType = v_content_type v,
               em_CtaText = or_empty (v_cta_text v), em_CtaUrl = or_empty (v_cta_url v), em_Chapters = or_empty (v_chapters v)\<rparr>) } } }
   }"

subsection \<open>Content only behind the gates\<close>

definition video_gates :: "crypto \<Rightarrow> config \<Rightarrow> cookies \<Rightarrow> string \<Rightarrow> world \<Rightarrow> bool" where
  "video_gates cy h cs shareToken w \<longleftrightarrow> (\<exists>v \<in> set (videos w). watchable shareToken v \<and> \<not> expired (now w) v \<and>
     (\<forall>p. v_share_password v = Some p \<longrightarrow> hasValidWatchCookie cy cs (hmacSecret h) shareToken p) \<and>
     (v_email_gate_enabled v \<longrightarrow> hasValidEmailGateCookie cy cs (hmacSecret h) shareToken \<noteq> None))"

lemma video_gatesI:
  "v \<in> set (videos w) \<Longrightarrow> watchable shareToken v \<Longrightarrow> \<not> expired (now w) v \<Longrightarrow>
   enforceWatchAccess cy h cs shareToken (v_share_password v) (v_email_gate_enabled v) = None \<Longrightarrow> video_gates cy h cs shareToken w"
  unfolding video_gates_def enforceWatchAccess_def by (intro bexI [of _ v]) (auto split: option.splits if_splits)

lemma enforce_none: "enforceWatchAccess cy h cs shareToken sp eg = None \<longleftrightarrow>
    (case sp of None \<Rightarrow> True | Some p \<Rightarrow> hasValidWatchCookie cy cs (hmacSecret h) shareToken p) \<and>
    (eg \<longrightarrow> hasValidEmailGateCookie cy cs (hmacSecret h) shareToken \<noteq> None)"
  by (auto simp: enforceWatchAccess_def split: option.splits)

lemma enforce_never_answers [simp]: "enforceWatchAccess cy h cs shareToken sp eg \<noteq> Some (WriteJSON n x)"
  by (simp add: enforceWatchAccess_def)

lemma signed_or_empty_wp: "(\<And>x t. jobs t = jobs w \<Longrightarrow> Q x t) \<Longrightarrow> wp (signed_or_empty sv key) Q w"
  unfolding signed_or_empty_def sign_thumbnail_def by (auto split: option.split)

lemma page_branding_wp: "(\<And>x t. jobs t = jobs w \<Longrightarrow> now t = now w \<Longrightarrow> Q x t) \<Longrightarrow> wp (page_branding sv base v) Q w"
  unfolding page_branding_def resolveBranding_def Let_def by (auto split: option.split)

lemma recordViewAsync_wp: "(\<And>t. Q () t) \<Longrightarrow> wp (recordViewAsync j cy ag h rq v u) Q w"
  unfolding recordViewAsync_def by simp

lemma shared_video_wp:
  assumes "\<And>e t. t = tick w \<Longrightarrow> Q (Inl e) t"
    and "\<And>v u b t. v \<in> set (videos w) \<Longrightarrow> watchable shareToken v \<Longrightarrow> t = tick w \<Longrightarrow> Q (Inr (v, u, b)) t"
  shows "wp (shared_video shareToken) Q w"
  unfolding shared_video_def
  by (auto split: option.split intro!: assms)

text \<open>Each of the six answers below is given, and a view recorded, only when the gates are passed.\<close>

lemma Watch_gated:
  "wp (Watch j cy ag h sv rq poll shareToken) (\<lambda>resp t. jobs t \<noteq> jobs w \<or> (\<exists>x. resp = WriteJSON 200 x) \<longrightarrow>
     video_gates cy h (rq_cookies rq) shareToken w) w"
  unfolding Watch_def wp_bind
proof (rule shared_video_wp, goal_cases)
  case (2 v u b t)
  have gates: "video_gates cy h (rq_cookies rq) shareToken w"
    if "\<not> expired (now w) v" "enforceWatchAccess cy h (rq_cookies rq) shareToken (v_share_password v) (v_email_gate_enabled v) = None"
    using 2 that by (intro video_gatesI)
  show ?case using 2
    by (auto split: option.split simp: gates intro!: page_branding_wp signed_or_empty_wp recordViewAsync_wp)
qed auto

lemma WatchDownload_gated:
  "wp (WatchDownload cy h sv cs shareToken) (\<lambda>resp t. (\<exists>x. resp = WriteJSON 200 x) \<longrightarrow> video_gates cy h cs shareToken w) w"
  unfolding WatchDownload_def download_answer_def
  by (auto split: option.split intro: video_gatesI)

lemma OEmbed_gated:
  "wp (OEmbed cy h sv cs shareToken) (\<lambda>resp t. (\<exists>x. resp = WriteJSON 200 x) \<longrightarrow> video_gates cy h cs shareToken w) w"
  unfolding OEmbed_def wp_bind
  by (rule shared_video_wp) (auto split: option.split intro: video_gatesI intro!: signed_or_empty_wp)

lemma WatchThumbnail_gated:
  "wp (WatchThumbnail cy h sv cs shareToken) (\<lambda>resp t. (\<exists>x. resp = ThumbRedirect x) \<longrightarrow> video_gates cy h cs shareToken w) w"
  unfolding WatchThumbnail_def
  by (auto split: option.split intro: video_gatesI)

lemma gates_spelled:
  assumes "v \<in> set (videos w)" "watchable shareToken v" "\<not> expired (now w) v"
    "\<not> (case v_share_password v of None \<Rightarrow> False | Some p \<Rightarrow> \<not> hasValidWatchCookie cy cs (hmacSecret h) shareToken p)"
    "\<not> (v_email_gate_enabled v \<and> hasValidEmailGateCookie cy cs (hmacSecret h) shareToken = None)"
  shows "video_gates cy h cs shareToken w"
  using assms unfolding video_gates_def by (intro bexI [of _ v]) (auto split: option.splits)

definition watch_page_shows :: "watch_page \<Rightarrow> bool" where
  "watch_page_shows p \<longleftrightarrow> (case p of WatchVideo _ \<Rightarrow> True | WatchProcessing _ _ _ _ \<Rightarrow> True | _ \<Rightarrow> False)"

lemma WatchPage_gated:
  "wp (WatchPage j cy ag h sv nonce rq shareToken) (\<lambda>resp t. jobs t \<noteq> jobs w \<or> watch_page_shows resp \<longrightarrow>
     video_gates cy h (rq_cookies rq) shareToken w) w"
  unfolding WatchPage_def wp_bind
proof (rule shared_video_wp, goal_cases)
  case (2 v u b t)
  note gates = gates_spelled [OF 2(1,2), where cs = "rq_cookies rq" and cy = cy and h = h]
  show ?case
    unfolding sum.case prod.case wp_bind
    apply (rule page_branding_wp)
    using 2 gates
    by (simp split: if_split) (auto simp: watch_page_shows_def intro!: signed_or_empty_wp recordViewAsync_wp)
qed (auto simp: watch_page_shows_def)

lemma EmbedPage_gated:
  "wp (EmbedPage j cy ag h sv rq shareToken) (\<lambda>resp t. jobs t \<noteq> jobs w \<or> (\<exists>x. resp = EmbedVideo x) \<or> (\<exists>x. resp = EmbedProcessing x) \<longrightarrow>
     video_gates cy h (rq_cookies rq) shareToken w) w"
  unfolding EmbedPage_def wp_bind
proof (rule shared_video_wp, goal_cases)
  case (2 v u b t)
  note gates = gates_spelled [OF 2(1,2), where cs = "rq_cookies rq" and cy = cy and h = h]
  show ?case
    using 2 gates
    by (simp split: if_split) (auto intro!: signed_or_empty_wp recordViewAsync_wp)
qed auto

text \<open>The owner's reads: only videos the caller may act on.\<close>

lemma Download_scoped:
  "wp (Download sv c videoID) (\<lambda>resp t. \<forall>x. resp = WriteJSON 200 x \<longrightarrow> (\<exists>v \<in> set (videos w). v_id v = videoID \<and> in_scope c v \<and>
     v_status v = Ready \<and> x = download_url sv (v_file_key v) (v_title v @ extensionForContentType (v_content_type v)))) w"
  unfolding Download_def download_answer_def
  by (auto split: option.split simp: scoped_filter dest!: find_where_Some)

subsection \<open>Small functions\<close>

text \<open>The clock shows the seconds it was given.\<close>

lemma formatDuration_parts:
  assumes "0 \<le> n"
  shows "\<exists>m s. 0 \<le> s \<and> s < 60 \<and> n = m * 60 + s \<and>
    formatDuration n = (if n < 3600 then itoa m else itoa (m div 60) @ '':'' @ pad0 2 (itoa (m mod 60))) @ '':'' @ pad0 2 (itoa s)"
proof (rule exI [of _ "n div 60"], rule exI [of _ "n mod 60"], intro conjI)
  have "n mod 3600 = 60 * (n div 60 mod 60) + n mod 60" using zmod_zmult2_eq [of 60 n 60] by simp
  then have "n mod 3600 div 60 = n div 60 mod 60" by simp
  moreover have "n div 3600 = n div 60 div 60" by (simp add: zdiv_zmult2_eq [symmetric])
  moreover have "n sdiv 60 = n div 60" "n smod 60 = n mod 60" using assms
    by (simp_all add: signed_divide_int_def signed_modulo_int_def sgn_if)
  ultimately show "formatDuration n = (if n < 3600 then itoa (n div 60) else itoa (n div 60 div 60) @ '':'' @ pad0 2 (itoa (n div 60 mod 60)))
      @ '':'' @ pad0 2 (itoa (n mod 60))"
    by (simp add: formatDuration_def)
qed simp_all

text \<open>A referrer of dropbox.com is counted as Twitter: the name ends in \<open>x.com\<close>.\<close>

lemma dropbox_is_twitter: "categorizeReferrer ''https://www.dropbox.com/scl/'' = ''Twitter''"
  by code_simp

text \<open>A second script tag in capitals is emitted, without the nonce.\<close>

lemma second_script_passes:
  "injectScriptNonce ''<script src=a></script><SCRIPT src=b></SCRIPT>'' ''N'' =
     ''<script nonce='' @ [CHR 0x22] @ ''N'' @ [CHR 0x22] @ '' src=a></script><SCRIPT src=b></SCRIPT>''"
  by code_simp

end
