(* ===== verification/Sharing_Facts.thy ===== *)
theory Sharing_Facts
  imports Watch_Pages Playlists Branding Account_Facts
begin

text \<open>
  What a link gives away: the properties of the public side that span the watch pages, the comments, the playlists
  and the branding.
\<close>

subsection \<open>A protected video stays closed\<close>


text \<open>An open video is downloaded; with a password on it, and no cookie, none of the six endpoints opens.\<close>

definition sample_locked :: world where
  "sample_locked = sample_ready\<lparr>videos := [sample_video\<lparr>v_share_password := Some ''$2a$pw''\<rparr>]\<rparr>"

lemma locked_gates: "\<not> video_gates sample_crypto sample_config [] ''tok1'' sample_locked"
  by (simp add: video_gates_def sample_locked_def hasValidWatchCookie_def)


subsection \<open>Comments\<close>

text \<open>
  C23: A visitor's post adds one comment at most, and only past the gates: the video of the link is live and has not
  expired, the visitor has the cookie of its password; comments are on, the text is neither empty nor longer than the
  limit, a private comment has a known author, a reaction has no name, and every other comment has the name and the
  address the mode of the video asks for.
\<close>

theorem comment_post_gated:
  "wp (PostWatchComment j cy h real4 cs authHeader shareToken newID body) (comment_added cy h cs shareToken w) w"
  by (rule PostWatchComment_wp)

text \<open>
  C24: Private comments are for the owner: the public list of comments shows one only to a caller whose access token names
  the owner of the video, past the gates of the link; and a deletion removes exactly the comment it names, of a video
  the caller created in the current workspace, or nothing.
\<close>

theorem private_comments_owner_only:
  "wp (ListWatchComments j cy h cs authHeader shareToken) (\<lambda>resp t. shows_private resp \<longrightarrow>
     (\<exists>v \<in> set (videos w). comment_gates cy h cs shareToken (now w) v \<and> v_user_id v \<noteq> [] \<and>
        optionalUserID j h (now w) authHeader = v_user_id v)) w \<and>
   wp (DeleteComment c videoID commentID) (\<lambda>resp t.
     comments t = (if resp = WriteHeader 204 then del_where (\<lambda>r. c_id r = commentID \<and> c_video_id r = videoID) (comments w) else comments w) \<and>
     (resp = WriteHeader 204 \<longrightarrow> (\<exists>v \<in> set (videos w). created_here c videoID v))) w"
  by (intro conjI ListWatchComments_wp DeleteComment_wp)

text \<open>A private comment of the owner's video: anonymous visitors get no list with it, and the owner deletes it.\<close>

definition sample_commented :: world where
  "sample_commented = sample_ready\<lparr>comments := [\<lparr>c_id = ''c1'', c_video_id = ''v1'', c_user_id = Some ''u2'', c_author_name = ''Eve'',
     c_author_email = [], c_body = ''hi'', c_is_private = True, c_video_timestamp = None, c_created_at = 0\<rparr>]\<rparr>"

lemma private_comments_owner_only_witness:
  "wp (ListWatchComments sample_jwt sample_crypto sample_config [] [] ''tok1'') (\<lambda>resp t. \<not> shows_private resp) sample_commented \<and>
   fst (run_state (DeleteComment sample_caller ''v1'' ''c1'') sample_commented) = WriteHeader 204 \<and>
   comments (snd (run_state (DeleteComment sample_caller ''v1'' ''c1'') sample_commented)) = []"
proof -
  note rule = private_comments_owner_only [where j = sample_jwt and cy = sample_crypto and h = sample_config and cs = "[]"
      and authHeader = "[]" and shareToken = "''tok1''" and c = sample_caller and videoID = "''v1''" and commentID = "''c1''"
      and w = sample_commented]
  have "optionalUserID sample_jwt sample_config (now sample_commented) [] = []" by (simp add: optionalUserID_def)
  with rule have hidden: "wp (ListWatchComments sample_jwt sample_crypto sample_config [] [] ''tok1'')
      (\<lambda>resp t. \<not> shows_private resp) sample_commented"
    by (auto elim!: wp_mono)
  have run: "fst (run_state (DeleteComment sample_caller ''v1'' ''c1'') sample_commented) = WriteHeader 204"
    by (simp add: DeleteComment_def run_db_stmt run_simps sample_commented_def sample_ready_def created_here_def sample_world_def empty_world_def
        Let_def orgScope_def sample_caller_def)
  with rule have "comments (snd (run_state (DeleteComment sample_caller ''v1'' ''c1'') sample_commented)) = []"
    by (simp add: wp_def split_beta) (simp add: sample_commented_def del_where_def)
  with hidden run show ?thesis by blast
qed


subsection \<open>Playlists\<close>

text \<open>
  C22: Playlists stay consistent: every handler keeps the keys of playlists and of their entries unique, and every entry of
  a playlist a video of the playlist's own user, whatever the requests are and whichever statements fail.
\<close>

theorem playlists_stay_consistent:
  "preserves playlists_ok (CreatePlaylist h c newID created) \<and> preserves playlists_ok (UpdatePlaylist cy c playlistID newToken changes) \<and>
   preserves playlists_ok (DeletePlaylist c playlistID) \<and> preserves playlists_ok (AddPlaylistVideos c playlistID added) \<and>
   preserves playlists_ok (RemovePlaylistVideo c playlistID videoID) \<and> preserves playlists_ok (ReorderPlaylistVideos c playlistID items)"
  by (intro conjI CreatePlaylist_ok UpdatePlaylist_ok DeletePlaylist_ok AddPlaylistVideos_ok RemovePlaylistVideo_ok ReorderPlaylistVideos_ok)

lemma playlist_page_iff:
  assumes "faults w = []"
  shows "fst (run_state (playlist_page_for cy h sv cs shareToken descr) w) = PageVideos title txt items \<longleftrightarrow>
    (\<exists>p. find_where (shared_at shareToken) (playlists w) = Some p \<and> playlist_gates cy h cs shareToken p \<and>
       title = p_title p \<and> txt = descr p \<and>
       items = map (\<lambda>(r, v). item_of sv v) (playlist_rows w (p_id p) (\<lambda>v. v_status v \<in> {Ready, Processing})))"
proof (cases "find_where (shared_at shareToken) (playlists w)")
  case None
  with assms show ?thesis by (simp add: playlist_page_for_def run_simps)
next
  case (Some p)
  show ?thesis
  proof (cases "playlist_gates cy h cs shareToken p")
    case True
    have "wp (playlist_page_for cy h sv cs shareToken descr) (\<lambda>page t. page = PageVideos (p_title p) (descr p)
       (map (\<lambda>(r, v). item_of sv v) (playlist_rows w (p_id p) (\<lambda>v. v_status v \<in> {Ready, Processing})))) w"
      unfolding playlist_page_for_def
      using assms Some True wp_mono [OF loadPlaylistVideos_all [OF assms, of sv "p_id p"]]
      by (auto simp: playlist_gates_def split: option.split)
    then have "fst (run_state (playlist_page_for cy h sv cs shareToken descr) w) = PageVideos (p_title p) (descr p)
       (map (\<lambda>(r, v). item_of sv v) (playlist_rows w (p_id p) (\<lambda>v. v_status v \<in> {Ready, Processing})))"
      by (simp add: wp_def split_beta)
    with Some True show ?thesis by auto
  next
    case False
    have "shared_at shareToken p" using Some by (auto dest: find_where_Some)
    with assms Some False have "wp (playlist_page_for cy h sv cs shareToken descr) (\<lambda>page t. page \<noteq> PageVideos title txt items) w"
      unfolding playlist_page_for_def by (auto simp: playlist_gates_def split: option.split)
    with Some False show ?thesis by (auto simp: wp_def split_beta)
  qed
qed


text \<open>A shared playlist of one video, open to everyone.\<close>

definition sample_playlist :: playlist where
  "sample_playlist = \<lparr>p_id = ''p1'', p_user_id = ''u1'', p_title = ''Course'', p_description = None, p_share_token = Some ''pt'',
     p_is_shared = True, p_share_password = None, p_require_email = False, p_position = 0, p_created_at = 0, p_updated_at = 0\<rparr>"

definition sample_shared :: world where
  "sample_shared = sample_ready\<lparr>playlists := [sample_playlist],
     playlist_videos := [\<lparr>pv_playlist_id = ''p1'', pv_video_id = ''v1'', pv_position = 0\<rparr>]\<rparr>"


subsection \<open>Branding\<close>

lemma row_of_branding_ok: "branding_ok w \<Longrightarrow> check_branding (base_branding w v) = []"
  by (auto simp: branding_ok_def base_branding_def split: option.split dest: find_where_Some)



end
