(* ===== verification/Analytics.thy ===== *)
theory Analytics
  imports Watch_Pages
begin

text \<open>
  What viewers do and what owners see of it (\<open>internal/video/video_analytics.go\<close>, \<open>video_analytics_dashboard.go\<close>): the three
  events of the player, the analytics of a video and the dashboard. Times count from 1970 in UTC, which is also the
  time zone of the session; a date is its number of days. The order of groups of the same size is that of their
  first rows.
\<close>

subsection \<open>Events of the player\<close>

text \<open>None of them asks for the gates of the video.\<close>

definition lookupVideoByShareToken :: "string \<Rightarrow> (db_error + string) prog" where
  "lookupVideoByShareToken shareToken = select_row (\<lambda>w. map_option v_id (find_where (watchable shareToken) (videos w)))"

definition RecordCTAClick :: "crypto \<Rightarrow> string \<Rightarrow> string \<Rightarrow> string \<Rightarrow> unit response prog" where
  "RecordCTAClick cy ip userAgent shareToken = do {
     r \<leftarrow> lookupVideoByShareToken shareToken;
     case r of Inl _ \<Rightarrow> State_Monad.return (WriteError 404 ''video not found'')
     | Inr videoID \<Rightarrow> do {
         spawn (JobCtaClick videoID (viewerHash cy ip userAgent));
         State_Monad.return (WriteHeader 204) }
   }"

definition RecordMilestone :: "crypto \<Rightarrow> string \<Rightarrow> string \<Rightarrow> string \<Rightarrow> int option \<Rightarrow> unit response prog" where
  "RecordMilestone cy ip userAgent shareToken body = (case body of
     None \<Rightarrow> State_Monad.return bad_body
   | Some m \<Rightarrow>
     if m \<notin> {25, 50, 75, 100} then State_Monad.return (WriteError 400 ''milestone must be 25, 50, 75, or 100'')
     else do {
       r \<leftarrow> lookupVideoByShareToken shareToken;
       case r of Inl _ \<Rightarrow> State_Monad.return (WriteError 404 ''video not found'')
       | Inr videoID \<Rightarrow> do {
           spawn (JobMilestone videoID (viewerHash cy ip userAgent) m);
           State_Monad.return (WriteHeader 204) } })"

definition RecordSegments :: "string \<Rightarrow> int list option \<Rightarrow> unit response prog" where
  "RecordSegments shareToken body = (case body of
     None \<Rightarrow> State_Monad.return bad_body
   | Some segs \<Rightarrow>
     if segs = [] \<or> length segs > 50 then State_Monad.return (WriteHeader 204)
     else do {
       r \<leftarrow> lookupVideoByShareToken shareToken;
       case r of Inl _ \<Rightarrow> State_Monad.return (WriteError 404 ''video not found'')
       | Inr videoID \<Rightarrow> do {
           spawn (JobSegments videoID segs);
           State_Monad.return (WriteHeader 204) } })"

text \<open>The goroutines. \<open>json\<close> is the text of the event, from title and viewer.\<close>

definition event_hook :: "hook_env \<Rightarrow> crypto \<Rightarrow> config \<Rightarrow> (string \<Rightarrow> string) \<Rightarrow> string \<Rightarrow> string \<Rightarrow> unit prog" where
  "event_hook e cy h json event videoID =
     (if \<not> hasWebhookClient h then State_Monad.return ()
      else do {
        row \<leftarrow> select_row (\<lambda>w. find_where (\<lambda>v. v_id v = videoID) (videos w));
        case row of Inl _ \<Rightarrow> State_Monad.return ()
        | Inr v \<Rightarrow> run_webhook e cy (v_user_id v) event (json (v_title v)) })"

abbreviation video_there :: "string \<Rightarrow> world \<Rightarrow> bool" where
  "video_there videoID w \<equiv> videoID \<in> v_id ` set (videos w)"

definition run_cta_click :: "hook_env \<Rightarrow> crypto \<Rightarrow> config \<Rightarrow> (string \<Rightarrow> string) \<Rightarrow> string \<Rightarrow> string \<Rightarrow> unit prog" where
  "run_cta_click e cy h json videoID hash = do {
     _ \<leftarrow> exec_world (\<lambda>w. if video_there videoID w then w\<lparr>cta_clicks := cta_clicks w @
       [\<lparr>cc_video_id = videoID, cc_viewer_hash = hash, cc_created_at = now w\<rparr>]\<rparr> else w);
     event_hook e cy h json ''video.cta_click'' videoID
   }"

text \<open>\<open>ON CONFLICT DO NOTHING\<close>: a milestone of a viewer is stored once.\<close>

definition run_milestone :: "hook_env \<Rightarrow> crypto \<Rightarrow> config \<Rightarrow> (string \<Rightarrow> string) \<Rightarrow> string \<Rightarrow> string \<Rightarrow> int \<Rightarrow> unit prog" where
  "run_milestone e cy h json videoID hash m = do {
     _ \<leftarrow> exec_world (\<lambda>w. if video_there videoID w \<and>
         \<not> list_ex (\<lambda>r. vm_video_id r = videoID \<and> vm_viewer_hash r = hash \<and> vm_milestone r = m) (view_milestones w)
       then w\<lparr>view_milestones := view_milestones w @
         [\<lparr>vm_video_id = videoID, vm_viewer_hash = hash, vm_milestone = m, vm_created_at = now w\<rparr>]\<rparr> else w);
     event_hook e cy h json ''video.milestone'' videoID
   }"

definition count_segment :: "string \<Rightarrow> int \<Rightarrow> world \<Rightarrow> world" where
  "count_segment videoID seg w =
     (let P = (\<lambda>r. se_video_id r = videoID \<and> se_segment_index r = seg) in
      if \<not> video_there videoID w then w
      else if list_ex P (segment_engagement w) then
        (if list_ex (\<lambda>r. P r \<and> \<not> int4 (se_watch_count r + 1)) (segment_engagement w) then w
         else w\<lparr>segment_engagement := upd_where P (\<lambda>r. r\<lparr>se_watch_count := se_watch_count r + 1\<rparr>) (segment_engagement w)\<rparr>)
      else w\<lparr>segment_engagement := segment_engagement w @
        [\<lparr>se_video_id = videoID, se_segment_index = seg, se_watch_count = 1\<rparr>]\<rparr>)"

definition run_segments :: "string \<Rightarrow> int list \<Rightarrow> unit prog" where
  "run_segments videoID segs = do {
     _ \<leftarrow> State_Monad.traverse_list (\<lambda>seg. if seg < 0 \<or> seg \<ge> 50 then State_Monad.return (Inr ())
       else exec_world (count_segment videoID seg)) segs;
     State_Monad.return ()
   }"

subsection \<open>Views by day\<close>

abbreviation day_of :: "time \<Rightarrow> int" where "day_of t \<equiv> t div days 1"

text \<open>The number of days of a range, 0 for all of them.\<close>

definition range_days :: "string \<Rightarrow> int option" where
  "range_days raw = (let r = (if raw = [] then ''7d'' else raw) in
     if r = ''7d'' then Some 7 else if r = ''30d'' then Some 30 else if r = ''90d'' then Some 90
     else if r = ''all'' then Some 0 else None)"

text \<open>The zero time of Go is in the year 1; the dashboard starts in 2020.\<close>

definition range_since :: "time \<Rightarrow> time \<Rightarrow> int \<Rightarrow> time" where
  "range_since start t n = (if n > 0 then days (day_of t - (n - 1)) else start)"

definition zero_time :: time where "zero_time = seconds (-62135596800)"
definition dashboard_start :: time where "dashboard_start = seconds 1577836800"

record daily_views =
  dv_Date :: int
  dv_Views :: nat
  dv_UniqueViews :: nat

definition unique_viewers :: "video_view list \<Rightarrow> nat" where
  "unique_viewers rows = length (remdups (map vw_viewer_hash rows))"

definition day_row :: "video_view list \<Rightarrow> int \<Rightarrow> daily_views" where
  "day_row rows d = (let today = filter (\<lambda>r. day_of (vw_created_at r) = d) rows in
     \<lparr>dv_Date = d, dv_Views = length today, dv_UniqueViews = unique_viewers today\<rparr>)"

text \<open>\<open>GROUP BY day ORDER BY day\<close>.\<close>

definition group_days :: "video_view list \<Rightarrow> daily_views list" where
  "group_days rows = map (day_row rows) (sort (remdups (map (\<lambda>r. day_of (vw_created_at r)) rows)))"

text \<open>A range of days has an entry for each day, all days only those with a view.\<close>

definition fill_days :: "int \<Rightarrow> int \<Rightarrow> daily_views list \<Rightarrow> daily_views list" where
  "fill_days today n rows =
     (let dataByDate = map_of (map (\<lambda>r. (dv_Date r, r)) rows) in
      if n > 0 then map (\<lambda>i. case dataByDate (today - i) of Some r \<Rightarrow> r
          | None \<Rightarrow> \<lparr>dv_Date = today - i, dv_Views = 0, dv_UniqueViews = 0\<rparr>) (rev [0..n - 1])
      else sort_key dv_Date rows)"

subsection \<open>The summary\<close>

record analytics_summary =
  as_TotalViews :: nat
  as_UniqueViews :: nat
  as_ViewsToday :: nat
  as_AverageDailyViews :: float64
  as_PeakDay :: "int option" \<comment> \<open>\<open>None\<close> for the empty text\<close>
  as_PeakDayViews :: nat
  as_TotalCtaClicks :: nat
  as_CtaClickRate :: float64

text \<open>\<open>math.Round\<close>: to the nearest, halves away from zero.\<close>

definition f_round :: "float64 \<Rightarrow> float64" where
  "f_round x = (if x < 0 then - of_int \<lfloor>- x + 1/2\<rfloor> else of_int \<lfloor>x + 1/2\<rfloor>)"

definition f_of_nat :: "nat \<Rightarrow> float64" where "f_of_nat n = f_of_int (int n)"

definition add_day :: "int \<Rightarrow> daily_views \<Rightarrow> analytics_summary \<Rightarrow> analytics_summary" where
  "add_day today d s =
     (let s = s\<lparr>as_TotalViews := as_TotalViews s + dv_Views d, as_UniqueViews := as_UniqueViews s + dv_UniqueViews d\<rparr>;
          s = (if dv_Date d = today then s\<lparr>as_ViewsToday := dv_Views d\<rparr> else s)
      in if dv_Views d > as_PeakDayViews s then s\<lparr>as_PeakDayViews := dv_Views d, as_PeakDay := Some (dv_Date d)\<rparr> else s)"

definition empty_summary :: analytics_summary where
  "empty_summary = \<lparr>as_TotalViews = 0, as_UniqueViews = 0, as_ViewsToday = 0, as_AverageDailyViews = 0, as_PeakDay = None,
     as_PeakDayViews = 0, as_TotalCtaClicks = 0, as_CtaClickRate = 0\<rparr>"

definition computeSummary :: "daily_views list \<Rightarrow> int \<Rightarrow> analytics_summary" where
  "computeSummary daily today =
     (let s = fold (add_day today) daily empty_summary in
      if daily \<noteq> [] \<and> as_TotalViews s > 0
        then s\<lparr>as_AverageDailyViews := f_div (f_round (f_mul (f_div (f_of_nat (as_TotalViews s)) (f_of_nat (length daily))) 10)) 10\<rparr>
      else s)"

subsection \<open>The analytics of a video\<close>

record milestone_counts =
  mc_Reached25 :: nat
  mc_Reached50 :: nat
  mc_Reached75 :: nat
  mc_Reached100 :: nat

record viewer_info =
  vi_Email :: string
  vi_FirstViewedAt :: time
  vi_ViewCount :: nat
  vi_Completion :: int
  vi_Country :: string
  vi_City :: string

record segment_data =
  sd_Segment :: int
  sd_WatchCount :: int
  sd_Intensity :: float64

record trend_data =
  td_Views :: "float64 option"
  td_UniqueViews :: "float64 option"

record analytics_response =
  an_Summary :: analytics_summary
  an_Daily :: "daily_views list"
  an_Milestones :: milestone_counts
  an_Viewers :: "viewer_info list"
  an_Heatmap :: "segment_data list"
  an_Trends :: "trend_data option"
  an_Referrers :: "(string \<times> nat \<times> float64) list"
  an_Browsers :: "(string \<times> float64) list"
  an_Devices :: "(string \<times> float64) list"

text \<open>\<open>GROUP BY .. ORDER BY cnt DESC\<close> of one column.\<close>

definition group_count :: "('r \<Rightarrow> 'k) \<Rightarrow> 'r list \<Rightarrow> ('k \<times> nat) list" where
  "group_count f rows = sort_key (\<lambda>(k, n). - int n)
     (map (\<lambda>k. (k, count_where (\<lambda>r. f r = k) rows)) (rev (remdups (rev (map f rows)))))"

text \<open>\<open>LEFT JOIN\<close>: a row without a partner stays, once.\<close>

definition left_join :: "('a \<Rightarrow> 'b \<Rightarrow> bool) \<Rightarrow> 'a list \<Rightarrow> 'b list \<Rightarrow> ('a \<times> 'b option) list" where
  "left_join P xs ys = concat (map (\<lambda>x. case filter (P x) ys of [] \<Rightarrow> [(x, None)] | m \<Rightarrow> map (\<lambda>y. (x, Some y)) m) xs)"

definition max_text :: "(string \<Rightarrow> nat) \<Rightarrow> string list \<Rightarrow> string" where
  "max_text collation xs = (if xs = [] then [] else last (sort_key collation xs))"

text \<open>The query of the viewers, one group for each address of the video.\<close>

definition viewer_group :: "(string \<Rightarrow> nat) \<Rightarrow> world \<Rightarrow> video_viewer \<Rightarrow> viewer_info" where
  "viewer_group collation w vv =
     (let rows = left_join (\<lambda>(v, _) m. vm_video_id m = vv_video_id v \<and> vm_viewer_hash m = vv_viewer_hash v)
            (left_join (\<lambda>v r. vw_video_id r = vv_video_id v \<and> vw_viewer_hash r = vv_viewer_hash v) [vv] (video_views w))
            (view_milestones w);
          views = List.map_filter (snd \<circ> fst) rows;
          reached = map vm_milestone (List.map_filter snd rows)
      in \<lparr>vi_Email = vv_email vv, vi_FirstViewedAt = vv_created_at vv, vi_ViewCount = length views,
          vi_Completion = (if reached = [] then 0 else fold max (tl reached) (hd reached)),
          vi_Country = max_text collation (map vw_country views), vi_City = max_text collation (map vw_city views)\<rparr>)"

definition viewers_of :: "(string \<Rightarrow> nat) \<Rightarrow> string \<Rightarrow> world \<Rightarrow> viewer_info list" where
  "viewers_of collation videoID w = map (viewer_group collation w)
     (sort_key (\<lambda>v. - vv_created_at v) (filter (\<lambda>v. vv_video_id v = videoID) (video_viewers w)))"

definition milestones_of :: "view_milestone list \<Rightarrow> milestone_counts" where
  "milestones_of rows =
     (let n = (\<lambda>m. length (remdups (map vm_viewer_hash (filter (\<lambda>r. vm_milestone r = m) rows)))) in
      \<lparr>mc_Reached25 = n 25, mc_Reached50 = n 50, mc_Reached75 = n 75, mc_Reached100 = n 100\<rparr>)"

definition heatmap_of :: "segment_count list \<Rightarrow> segment_data list" where
  "heatmap_of rows =
     (let mx = foldl max 0 (map se_watch_count rows) in
      map (\<lambda>r. \<lparr>sd_Segment = se_segment_index r, sd_WatchCount = se_watch_count r,
        sd_Intensity = (if mx > 0 then f_div (f_of_int (se_watch_count r)) (f_of_int mx) else 0)\<rparr>) rows)"

definition referrers_of :: "(string \<times> nat) list \<Rightarrow> (string \<times> nat \<times> float64) list" where
  "referrers_of gs = (let total = sum_list (map snd gs) in
     map (\<lambda>(s, n). (s, n, if total > 0 then f_mul (f_div (f_of_nat n) (f_of_nat total)) 100 else 0)) gs)"

definition breakdown_of :: "(string \<times> nat) list \<Rightarrow> (string \<times> float64) list" where
  "breakdown_of gs = (let total = sum_list (map snd gs) in
     if total > 0 then map (\<lambda>(s, n). (s, f_div (f_round (f_mul (f_div (f_of_nat n) (f_of_nat total)) 1000)) 10)) gs else [])"

definition change_percent :: "nat \<Rightarrow> nat \<Rightarrow> float64 option" where
  "change_percent n prev = (if prev > 0
     then Some (f_mul (f_div (f_sub (f_of_nat n) (f_of_nat prev)) (f_of_nat prev)) 100) else None)"

abbreviation views_in :: "string \<Rightarrow> (time \<Rightarrow> bool) \<Rightarrow> world \<Rightarrow> video_view list" where
  "views_in videoID T w \<equiv> filter (\<lambda>r. vw_video_id r = videoID \<and> T (vw_created_at r)) (video_views w)"

text \<open>A query whose failure leaves a default.\<close>

definition query_or :: "'a \<Rightarrow> (world \<Rightarrow> 'a) \<Rightarrow> 'a prog" where
  "query_or d q = do { r \<leftarrow> select_rows q; State_Monad.return (case r of Inl _ \<Rightarrow> d | Inr x \<Rightarrow> x) }"

text \<open>Whose analytics: any video of the current workspace, else any the caller made.\<close>

definition analytics_scope :: "rctx \<Rightarrow> string \<Rightarrow> video \<Rightarrow> bool" where
  "analytics_scope c videoID v \<longleftrightarrow> v_id v = videoID \<and> v_status v \<noteq> Deleted \<and>
     (if OrgID c \<noteq> [] then v_organization_id v = Some (OrgID c) else v_user_id v = UserID c)"

definition trends_of :: "string \<Rightarrow> time \<Rightarrow> int \<Rightarrow> analytics_summary \<Rightarrow> trend_data option prog" where
  "trends_of videoID since n s =
     (if n > 0 \<and> as_TotalViews s > 0 then do {
        (views, unique) \<leftarrow> query_or (0, 0) (\<lambda>w. let rows = views_in videoID (\<lambda>t. since - days n \<le> t \<and> t < since) w in
          (length rows, unique_viewers rows));
        State_Monad.return (Some \<lparr>td_Views = change_percent (as_TotalViews s) views,
          td_UniqueViews = change_percent (as_UniqueViews s) unique\<rparr>) }
      else State_Monad.return None)"

definition analytics_body :: "(string \<Rightarrow> nat) \<Rightarrow> string \<Rightarrow> bool \<Rightarrow> int \<Rightarrow> time \<Rightarrow> time \<Rightarrow> daily_views list
    \<Rightarrow> analytics_response response prog" where
  "analytics_body collation videoID emailGate n t since daily = do {
     clicks \<leftarrow> query_or 0 (count_where (\<lambda>r. cc_video_id r = videoID \<and> since \<le> cc_created_at r) \<circ> cta_clicks);
     milestones \<leftarrow> query_or (milestones_of []) (milestones_of \<circ> filter (\<lambda>r. vm_video_id r = videoID \<and> since \<le> vm_created_at r) \<circ> view_milestones);
     viewers \<leftarrow> (if emailGate then query_or [] (viewers_of collation videoID) else State_Monad.return []);
     let s = (computeSummary daily (day_of t))\<lparr>as_TotalCtaClicks := clicks\<rparr>;
     let s = (if as_TotalViews s > 0
       then s\<lparr>as_CtaClickRate := f_div (f_of_nat clicks) (f_of_nat (as_TotalViews s))\<rparr> else s);
     heatmap \<leftarrow> query_or [] (heatmap_of \<circ> sort_key se_segment_index \<circ> filter (\<lambda>r. se_video_id r = videoID) \<circ> segment_engagement);
     refs \<leftarrow> query_or [] (group_count vw_referrer \<circ> views_in videoID (\<lambda>x. since \<le> x));
     browsers \<leftarrow> query_or [] (group_count vw_browser \<circ> views_in videoID (\<lambda>x. since \<le> x));
     devices \<leftarrow> query_or [] (group_count vw_device \<circ> views_in videoID (\<lambda>x. since \<le> x));
     trends \<leftarrow> trends_of videoID since n s;
     State_Monad.return (WriteJSON 200 \<lparr>an_Summary = s, an_Daily = daily, an_Milestones = milestones, an_Viewers = viewers,
       an_Heatmap = heatmap, an_Trends = trends, an_Referrers = referrers_of refs, an_Browsers = breakdown_of browsers,
       an_Devices = breakdown_of devices\<rparr>)
   }"

definition Analytics :: "(string \<Rightarrow> nat) \<Rightarrow> rctx \<Rightarrow> string \<Rightarrow> string \<Rightarrow> analytics_response response prog" where
  "Analytics collation c videoID rangeParam = do {
     row \<leftarrow> select_row (\<lambda>w. find_where (analytics_scope c videoID) (videos w));
     case row of Inl _ \<Rightarrow> State_Monad.return (WriteError 404 ''video not found'')
     | Inr v \<Rightarrow> (case range_days rangeParam of
         None \<Rightarrow> State_Monad.return (WriteError 400 ''invalid range: must be 7d, 30d, 90d, or all'')
       | Some n \<Rightarrow> do {
           w \<leftarrow> State_Monad.get;
           let t = now w;
           let since = range_since zero_time t n;
           r \<leftarrow> select_rows (group_days \<circ> views_in videoID (\<lambda>x. since \<le> x));
           case r of Inl _ \<Rightarrow> State_Monad.return (WriteError 500 ''failed to query analytics'')
           | Inr rows \<Rightarrow> analytics_body collation videoID (v_email_gate_enabled v) n t since (fill_days (day_of t) n rows) })
   }"

text \<open>The export: the rows of the file after its header line.\<close>

definition AnalyticsExport :: "rctx \<Rightarrow> string \<Rightarrow> string \<Rightarrow> daily_views list response prog" where
  "AnalyticsExport c videoID rangeParam = do {
     row \<leftarrow> select_row (\<lambda>w. find_where (analytics_scope c videoID) (videos w));
     case row of Inl _ \<Rightarrow> State_Monad.return (WriteError 404 ''video not found'')
     | Inr v \<Rightarrow> (case range_days rangeParam of
         None \<Rightarrow> State_Monad.return (WriteError 400 ''invalid range'')
       | Some n \<Rightarrow> do {
           w \<leftarrow> State_Monad.get;
           r \<leftarrow> select_rows (group_days \<circ> views_in videoID (\<lambda>x. range_since zero_time (now w) n \<le> x));
           State_Monad.return (case r of Inl _ \<Rightarrow> WriteError 500 ''failed to query'' | Inr rows \<Rightarrow> WriteJSON 200 rows) })
   }"

subsection \<open>The dashboard\<close>

record dashboard_top_video =
  dt_ID :: string
  dt_Title :: string
  dt_Views :: nat
  dt_UniqueViews :: nat
  dt_ThumbnailURL :: string
  dt_Completion :: int

record dashboard_response =
  da_TotalViews :: nat
  da_UniqueViews :: nat
  da_AvgDailyViews :: float64
  da_TotalVideos :: nat
  da_TotalWatchTimeSeconds :: int
  da_AvgCompletion :: float64
  da_Daily :: "daily_views list"
  da_TopVideos :: "dashboard_top_video list"

definition owner_filter :: "rctx \<Rightarrow> video \<Rightarrow> bool" where
  "owner_filter c v \<longleftrightarrow> (if OrgID c \<noteq> [] then v_organization_id v = Some (OrgID c) else v_user_id v = UserID c)"

text \<open>\<open>video_views JOIN videos\<close>.\<close>

definition owned_views :: "rctx \<Rightarrow> time \<Rightarrow> world \<Rightarrow> (video_view \<times> video) list" where
  "owned_views c since w = concat (map (\<lambda>r. map (Pair r) (filter (\<lambda>v. v_id v = vw_video_id r \<and> owner_filter c v) (videos w)))
     (filter (\<lambda>r. since \<le> vw_created_at r) (video_views w)))"

definition max_milestone :: "view_milestone list \<Rightarrow> int" where
  "max_milestone rows = foldl max 0 (map vm_milestone rows)"

definition top_video :: "world \<Rightarrow> time \<Rightarrow> video \<Rightarrow> dashboard_top_video" where
  "top_video w since v =
     (let rows = left_join (\<lambda>(x, _) m. vm_video_id m = v_id x)
            (left_join (\<lambda>x r. vw_video_id r = v_id x \<and> since \<le> vw_created_at r) [v] (video_views w)) (view_milestones w);
          views = List.map_filter (snd \<circ> fst) rows
      in \<lparr>dt_ID = v_id v, dt_Title = v_title v, dt_Views = length views, dt_UniqueViews = unique_viewers views,
          dt_ThumbnailURL = (if v_thumbnail_key v \<in> {None, Some []} then [] else ''/api/watch/'' @ v_share_token v @ ''/thumbnail''),
          dt_Completion = max_milestone (List.map_filter snd rows)\<rparr>)"

definition top_videos :: "rctx \<Rightarrow> time \<Rightarrow> world \<Rightarrow> dashboard_top_video list" where
  "top_videos c since w = take 10 (sort_key (\<lambda>d. - int (dt_Views d))
     (map (top_video w since) (filter (\<lambda>v. owner_filter c v \<and> v_status v \<noteq> Deleted) (videos w))))"

text \<open>\<open>avg4\<close> is Postgres' average of integers, read as a float.\<close>

definition completions :: "rctx \<Rightarrow> world \<Rightarrow> int list" where
  "completions c w = map (\<lambda>v. max_milestone (filter (\<lambda>m. vm_video_id m = v_id v) (view_milestones w)))
     (filter (\<lambda>v. owner_filter c v \<and> v_status v \<noteq> Deleted) (videos w))"

definition days_in_range :: "time \<Rightarrow> time \<Rightarrow> int \<Rightarrow> int" where
  "days_in_range t since n = max 1 (if n = 0 then day_of t - day_of since + 1 else n)"

definition AnalyticsDashboard :: "(int list \<Rightarrow> float64) \<Rightarrow> rctx \<Rightarrow> string \<Rightarrow> dashboard_response response prog" where
  "AnalyticsDashboard avg4 c rangeParam = (case range_days rangeParam of
     None \<Rightarrow> State_Monad.return (WriteError 400 ''invalid range: must be 7d, 30d, 90d, or all'')
   | Some n \<Rightarrow> do {
       w \<leftarrow> State_Monad.get;
       let t = now w;
       let since = range_since dashboard_start t n;
       r1 \<leftarrow> select_rows (\<lambda>w. (length (owned_views c since w), unique_viewers (map fst (owned_views c since w))));
       case r1 of Inl _ \<Rightarrow> State_Monad.return (WriteError 500 ''failed to query view summary'')
       | Inr (views, unique) \<Rightarrow> do {
           r2 \<leftarrow> select_rows (count_where (owner_filter c) \<circ> videos);
           case r2 of Inl _ \<Rightarrow> State_Monad.return (WriteError 500 ''failed to count videos'')
           | Inr totalVideos \<Rightarrow> do {
               watched \<leftarrow> query_or 0 (\<lambda>w. sum_list (map (v_duration \<circ> snd) (owned_views c since w)));
               avgC \<leftarrow> query_or 0 (\<lambda>w. if completions c w = [] then 0 else avg4 (completions c w));
               r3 \<leftarrow> select_rows (\<lambda>w. group_days (map fst (owned_views c since w)));
               case r3 of Inl _ \<Rightarrow> State_Monad.return (WriteError 500 ''failed to query daily views'')
               | Inr rows \<Rightarrow> do {
                   r4 \<leftarrow> select_rows (top_videos c since);
                   State_Monad.return (case r4 of Inl _ \<Rightarrow> WriteError 500 ''failed to query top videos''
                     | Inr tops \<Rightarrow> WriteJSON 200 \<lparr>da_TotalViews = views, da_UniqueViews = unique,
                         da_AvgDailyViews = f_div (f_round (f_mul (f_div (f_of_nat views) (f_of_int (days_in_range t since n))) 10)) 10,
                         da_TotalVideos = totalVideos, da_TotalWatchTimeSeconds = watched, da_AvgCompletion = avgC,
                         da_Daily = fill_days (day_of t) n rows, da_TopVideos = tops\<rparr>) } } } })"

definition DashboardExport :: "rctx \<Rightarrow> string \<Rightarrow> daily_views list response prog" where
  "DashboardExport c rangeParam = (case range_days rangeParam of
     None \<Rightarrow> State_Monad.return (WriteError 400 ''invalid range'')
   | Some n \<Rightarrow> do {
       w \<leftarrow> State_Monad.get;
       r \<leftarrow> select_rows (\<lambda>u. group_days (map fst (owned_views c (range_since dashboard_start (now w) n) u)));
       State_Monad.return (case r of Inl _ \<Rightarrow> WriteError 500 ''failed to query'' | Inr rows \<Rightarrow> WriteJSON 200 rows) })"

end

