(* ===== verification/Analytics_Facts.thy ===== *)
theory Analytics_Facts
  imports Analytics
begin

text \<open>
  What the analytics guarantee: the tables of events satisfy their checks, every view of a range is counted once,
  the summary is that of the days, intensities are shares of the most watched segment; and where the numbers are
  not what they say.
\<close>

subsection \<open>The tables of events\<close>

definition milestone_ok :: "int \<Rightarrow> bool" where "milestone_ok m \<longleftrightarrow> m \<in> {25, 50, 75, 100}"

text \<open>The \<open>CHECK\<close>s, keys and integer types of the three tables, and what the waiting jobs would insert.\<close>

definition events_ok :: "world \<Rightarrow> bool" where
  "events_ok w \<longleftrightarrow> (\<forall>r \<in> set (view_milestones w). milestone_ok (vm_milestone r)) \<and>
     distinct (map (\<lambda>r. (vm_video_id r, vm_viewer_hash r, vm_milestone r)) (view_milestones w)) \<and>
     (\<forall>r \<in> set (segment_engagement w). 0 \<le> se_segment_index r \<and> se_segment_index r < 50 \<and> 1 \<le> se_watch_count r \<and> int4 (se_watch_count r)) \<and>
     distinct (map (\<lambda>r. (se_video_id r, se_segment_index r)) (segment_engagement w)) \<and>
     (\<forall>v hash m. JobMilestone v hash m \<in> set (jobs w) \<longrightarrow> milestone_ok m)"

declare wp_return_eta [simp]

lemma events_ok_cong:
  "view_milestones t = view_milestones w \<Longrightarrow> segment_engagement t = segment_engagement w \<Longrightarrow> jobs t = jobs w \<Longrightarrow> events_ok w \<Longrightarrow> events_ok t"
  by (simp add: events_ok_def)

lemma events_ok_tick [simp]: "events_ok (tick w) = events_ok w"
  by (simp add: events_ok_def)

lemma events_ok_effects [simp]: "events_ok (w\<lparr>effects := x\<rparr>) = events_ok w" "events_ok (w\<lparr>webhook_deliveries := y\<rparr>) = events_ok w"
  "events_ok (w\<lparr>cta_clicks := z\<rparr>) = events_ok w"
  by (simp_all add: events_ok_def)

lemma dispatch_from_events: "events_ok w \<Longrightarrow> wp (dispatch_from e userID url event body sig left lastErr) (\<lambda>_. events_ok) w"
proof (induction left arbitrary: lastErr w)
  case (Suc left)
  then show ?case unfolding dispatch_from.simps doPost_def logDelivery_def Let_def
    by (auto split: sum.split prod.split option.split)
qed simp

lemma event_hook_events: "events_ok w \<Longrightarrow> wp (event_hook e cy h json event videoID) (\<lambda>_. events_ok) w"
  unfolding event_hook_def run_webhook_def LookupConfigByUserID_def Dispatch_def
  by (auto split: option.split sum.split prod.split intro!: wp_mono [OF dispatch_from_events])

lemma recorders_events:
  "preserves events_ok (RecordCTAClick cy ip ua token)" "preserves events_ok (RecordMilestone cy ip ua token body)"
  "preserves events_ok (RecordSegments token segs)"
  unfolding preserves_wp RecordCTAClick_def RecordMilestone_def RecordSegments_def lookupVideoByShareToken_def
  by (auto split: option.split sum.split) (auto simp: events_ok_def milestone_ok_def)

lemma run_cta_click_events: "preserves events_ok (run_cta_click e cy h json videoID hash)"
  unfolding preserves_wp run_cta_click_def
  by (auto split: option.split intro!: event_hook_events)

lemma run_milestone_events:
  assumes "events_ok w" "JobMilestone videoID hash m \<in> set (jobs w)"
  shows "wp (run_milestone e cy h json videoID hash m) (\<lambda>_. events_ok) w"
proof -
  have "milestone_ok m" using assms by (auto simp: events_ok_def)
  with assms(1) have "events_ok (w\<lparr>view_milestones := view_milestones w @
      [\<lparr>vm_video_id = videoID, vm_viewer_hash = hash, vm_milestone = m, vm_created_at = t\<rparr>]\<rparr>)"
    if "\<not> list_ex (\<lambda>r. vm_video_id r = videoID \<and> vm_viewer_hash r = hash \<and> vm_milestone r = m) (view_milestones w)" for t
    using that by (auto simp: events_ok_def list_ex_iff)
  from this [of "now w"] assms(1) show ?thesis unfolding run_milestone_def wp_bind wp_exec_world
    by (simp split: option.split) (intro conjI impI event_hook_events; simp add: events_ok_def)
qed

lemma count_segment_events:
  assumes "events_ok w" "0 \<le> seg" "seg < 50"
  shows "events_ok (count_segment videoID seg w)"
proof -
  define P where "P = (\<lambda>r :: segment_count. se_video_id r = videoID \<and> se_segment_index r = seg)"
  have "distinct (map (\<lambda>r. (se_video_id r, se_segment_index r)) (upd_where P (\<lambda>r. r\<lparr>se_watch_count := se_watch_count r + 1\<rparr>) (segment_engagement w)))"
    if "distinct (map (\<lambda>r. (se_video_id r, se_segment_index r)) (segment_engagement w))"
    using that by (simp add: map_upd_where)
  then show ?thesis using assms unfolding count_segment_def Let_def P_def [symmetric]
    by (auto simp: events_ok_def list_ex_iff P_def int4_def elim!: in_upd_whereE split: if_splits)
qed

lemma run_segments_events: "preserves events_ok (run_segments videoID segs)"
proof -
  have "wp (State_Monad.traverse_list (\<lambda>seg. if seg < 0 \<or> seg \<ge> 50 then State_Monad.return (Inr ())
      else exec_world (count_segment videoID seg)) segs) (\<lambda>_. events_ok) w" if "events_ok w" for w
    using that
  proof (induction segs arbitrary: w)
    case (Cons seg segs)
    then show ?case
      by (auto split: option.split intro!: Cons.IH wp_mono [OF Cons.IH] count_segment_events [of "tick w"])
  qed simp
  then show ?thesis unfolding preserves_wp run_segments_def by simp
qed

text \<open>What the player does to a world: its requests, in any order, and the goroutines they started, whenever they run.\<close>

inductive player_reaches :: "world \<Rightarrow> world \<Rightarrow> bool" for w0 where
  start: "player_reaches w0 w0"
| click: "player_reaches w0 w \<Longrightarrow> player_reaches w0 (snd (run_state (RecordCTAClick cy ip ua token) w))"
| milestone: "player_reaches w0 w \<Longrightarrow> player_reaches w0 (snd (run_state (RecordMilestone cy ip ua token body) w))"
| segments: "player_reaches w0 w \<Longrightarrow> player_reaches w0 (snd (run_state (RecordSegments token body) w))"
| clicked: "player_reaches w0 w \<Longrightarrow> JobCtaClick videoID hash \<in> set (jobs w) \<Longrightarrow>
    player_reaches w0 (snd (run_state (run_cta_click e cy h json videoID hash) w))"
| reached: "player_reaches w0 w \<Longrightarrow> JobMilestone videoID hash m \<in> set (jobs w) \<Longrightarrow>
    player_reaches w0 (snd (run_state (run_milestone e cy h json videoID hash m) w))"
| watched: "player_reaches w0 w \<Longrightarrow> JobSegments videoID segs \<in> set (jobs w) \<Longrightarrow>
    player_reaches w0 (snd (run_state (run_segments videoID segs) w))"

lemma preserves_snd: "preserves P m \<Longrightarrow> P w \<Longrightarrow> P (snd (run_state m w))"
  by (auto simp: preserves_def split_beta)

text \<open>
  C13: The tables of the player's events are well typed: whatever viewers send and in whatever order the goroutines run, a
  stored milestone is 25, 50, 75 or 100 and once per viewer, a counted segment lies in 0 to 49, once per video, with a
  count from 1 up that fits the integer column.
\<close>

theorem player_events_typed:
  assumes "player_reaches w0 w" "events_ok w0"
  shows "events_ok w"
  using assms
proof induction
  case (reached w videoID hash m e cy h json)
  then show ?case using run_milestone_events [of w videoID hash m e cy h json] by (simp add: wp_def split_beta)
qed (simp_all add: preserves_snd [OF recorders_events(1)] preserves_snd [OF recorders_events(2)] preserves_snd [OF recorders_events(3)]
    preserves_snd [OF run_cta_click_events] preserves_snd [OF run_segments_events])

text \<open>A viewer sends two segments, one of them out of range, and the goroutine stores one.\<close>

lemma player_events_typed_witness:
  "\<exists>w. player_reaches sample_ready w \<and> events_ok w \<and>
     segment_engagement w = [\<lparr>se_video_id = ''v1'', se_segment_index = 7, se_watch_count = 1\<rparr>]"
proof -
  let ?a = "snd (run_state (RecordSegments ''tok1'' (Some [7, 50])) sample_ready)"
  let ?b = "snd (run_state (run_segments ''v1'' [7, 50]) ?a)"
  have a: "?a = sample_ready\<lparr>jobs := [JobSegments ''v1'' [7, 50]]\<rparr>"
    by (simp add: RecordSegments_def lookupVideoByShareToken_def run_simps sample_ready_def sample_world_def empty_world_def)
  have "player_reaches sample_ready ?a" by (intro player_reaches.segments player_reaches.start)
  then have reach: "player_reaches sample_ready ?b" by (rule player_reaches.watched) (simp add: a)
  have "events_ok sample_ready" by (simp add: events_ok_def sample_ready_def sample_world_def empty_world_def)
  with reach have "events_ok ?b" by (rule player_events_typed)
  moreover have "segment_engagement ?b = [\<lparr>se_video_id = ''v1'', se_segment_index = 7, se_watch_count = 1\<rparr>]"
    unfolding a by (simp add: run_segments_def run_simps count_segment_def sample_ready_def sample_world_def empty_world_def
        State_Monad.traverse_list.simps Let_def)
  ultimately show ?thesis using reach by blast
qed

subsection \<open>Every view is counted once\<close>

lemma sum_over_days:
  "distinct ds \<Longrightarrow> sum_list (map (\<lambda>d. length (filter (\<lambda>r. f r = d) rows)) ds) = length (filter (\<lambda>r. f r \<in> set ds) rows)"
proof (induction rows)
  case (Cons r rows)
  have "sum_list (map (\<lambda>d. length (filter (\<lambda>x. f x = d) (r # rows))) ds) =
    sum_list (map (\<lambda>d. (if f r = d then 1 else 0) + length (filter (\<lambda>x. f x = d) rows)) ds)"
    by (intro arg_cong [where f = sum_list] map_cong) auto
  also have "\<dots> = sum_list (map (\<lambda>d. if f r = d then 1 else 0) ds) + length (filter (\<lambda>x. f x \<in> set ds) rows)"
    using Cons by (simp add: sum_list_addf)
  also have "sum_list (map (\<lambda>d. if f r = d then 1 else 0) ds) = (if f r \<in> set ds then 1 else 0 :: nat)"
    using Cons.prems by (induction ds) auto
  finally show ?case by auto
qed simp

lemma group_days_lookup:
  "map_of (map (\<lambda>r. (dv_Date r, r)) (group_days rows)) d =
     (if d \<in> (\<lambda>r. day_of (vw_created_at r)) ` set rows then Some (day_row rows d) else None)"
proof -
  have key: "map (\<lambda>r. (dv_Date r, r)) (group_days rows) =
      map (\<lambda>d. (d, day_row rows d)) (sort (remdups (map (\<lambda>r. day_of (vw_created_at r)) rows)))"
    by (simp add: group_days_def day_row_def Let_def)
  show ?thesis unfolding key map_of_map_restrict [of "day_row rows", unfolded comp_def]
    by (simp add: restrict_map_def)
qed

lemma day_row_empty: "d \<notin> (\<lambda>r. day_of (vw_created_at r)) ` set rows \<Longrightarrow> day_row rows d = \<lparr>dv_Date = d, dv_Views = 0, dv_UniqueViews = 0\<rparr>"
proof -
  assume "d \<notin> (\<lambda>r. day_of (vw_created_at r)) ` set rows"
  then have "filter (\<lambda>r. day_of (vw_created_at r) = d) rows = []" by (auto simp: filter_empty_conv)
  then show ?thesis by (simp add: day_row_def unique_viewers_def)
qed

lemma fill_days_rows: "0 < n \<Longrightarrow> fill_days today n (group_days rows) = map (\<lambda>i. day_row rows (today - i)) (rev [0..n - 1])"
  unfolding fill_days_def Let_def group_days_lookup by (simp add: day_row_empty)

lemma group_days_sorted: "sort_key dv_Date (group_days rows) = group_days rows"
proof -
  have "map dv_Date (group_days rows) = sort (remdups (map (\<lambda>r. day_of (vw_created_at r)) rows))"
    by (simp add: group_days_def day_row_def Let_def comp_def)
  then show ?thesis by (intro sort_key_id_if_sorted) simp
qed

lemma fill_days_total:
  assumes "0 \<le> n" "n = 0 \<or> (\<forall>r \<in> set rows. today - (n - 1) \<le> day_of (vw_created_at r) \<and> day_of (vw_created_at r) \<le> today)"
  shows "sum_list (map dv_Views (fill_days today n (group_days rows))) = length rows"
    and "0 < n \<Longrightarrow> map dv_Date (fill_days today n (group_days rows)) = [today - (n - 1)..today]"
proof -
  have views: "map dv_Views (map (day_row rows) ds) = map (\<lambda>d. length (filter (\<lambda>r. day_of (vw_created_at r) = d) rows)) ds" for ds
    by (simp add: day_row_def Let_def)
  have dates: "map ((-) today) (rev [0..n - 1]) = [today - (n - 1)..today]" if "0 < n"
  proof (rule nth_equalityI)
    fix i assume i: "i < length (map ((-) today) (rev [0..n - 1]))"
    then show "map ((-) today) (rev [0..n - 1]) ! i = [today - (n - 1)..today] ! i"
      using that by (simp add: rev_nth nth_upto)
  qed (use that in simp)
  have filled: "fill_days today n (group_days rows) = map (day_row rows) [today - (n - 1)..today]" if "0 < n"
    unfolding fill_days_rows [OF that] dates [OF that, symmetric] by simp
  show "sum_list (map dv_Views (fill_days today n (group_days rows))) = length rows"
  proof (cases "n = 0")
    case True
    then have "fill_days today n (group_days rows) = group_days rows"
      using group_days_sorted by (simp add: fill_days_def)
    moreover have "sum_list (map dv_Views (group_days rows)) = length (filter (\<lambda>r. day_of (vw_created_at r) \<in>
        set (sort (remdups (map (\<lambda>r. day_of (vw_created_at r)) rows)))) rows)"
      unfolding group_days_def views by (rule sum_over_days) simp
    moreover have "filter (\<lambda>r. day_of (vw_created_at r) \<in> set (sort (remdups (map (\<lambda>r. day_of (vw_created_at r)) rows)))) rows = rows"
      by (rule filter_True) simp
    ultimately show ?thesis by simp
  next
    case False
    with assms have "0 < n" by simp
    show ?thesis unfolding filled [OF \<open>0 < n\<close>] views
      using assms(2) False by (simp add: sum_over_days)
  qed
  show "map dv_Date (fill_days today n (group_days rows)) = [today - (n - 1)..today]" if "0 < n"
    unfolding filled [OF that] by (simp add: day_row_def Let_def comp_def)
qed

text \<open>The summary is that of the days.\<close>

lemma computeSummary_fold:
  "as_TotalViews (fold (add_day today) ds s) = as_TotalViews s + sum_list (map dv_Views ds)"
  "as_UniqueViews (fold (add_day today) ds s) = as_UniqueViews s + sum_list (map dv_UniqueViews ds)"
  "as_PeakDayViews (fold (add_day today) ds s) = foldl max (as_PeakDayViews s) (map dv_Views ds)"
  by (induction ds arbitrary: s) (auto simp: add_day_def Let_def max_def)

lemma computeSummary_totals:
  "as_TotalViews (computeSummary ds today) = sum_list (map dv_Views ds)"
  "as_UniqueViews (computeSummary ds today) = sum_list (map dv_UniqueViews ds)"
  "as_PeakDayViews (computeSummary ds today) = foldl max 0 (map dv_Views ds)"
  by (simp_all add: computeSummary_def Let_def computeSummary_fold empty_summary_def)

text \<open>The day of the peak is one that has as many views.\<close>

lemma peak_day_fold:
  "as_PeakDay s = None \<and> as_PeakDayViews s = 0 \<or> (\<exists>d \<in> D. as_PeakDay s = Some (dv_Date d) \<and> dv_Views d = as_PeakDayViews s) \<Longrightarrow> set ds \<subseteq> D \<Longrightarrow>
   (let r = fold (add_day today) ds s in as_PeakDay r = None \<and> as_PeakDayViews r = 0 \<or>
     (\<exists>d \<in> D. as_PeakDay r = Some (dv_Date d) \<and> dv_Views d = as_PeakDayViews r))"
proof (induction ds arbitrary: s)
  case (Cons d ds)
  have "as_PeakDay (add_day today d s) = None \<and> as_PeakDayViews (add_day today d s) = 0 \<or>
      (\<exists>x \<in> D. as_PeakDay (add_day today d s) = Some (dv_Date x) \<and> dv_Views x = as_PeakDayViews (add_day today d s))"
    using Cons.prems by (auto simp: add_day_def Let_def)
  from Cons.IH [OF this] Cons.prems(2) show ?case by simp
qed (simp add: Let_def)

lemma peak_day:
  "as_PeakDay (computeSummary ds today) = None \<and> as_PeakDayViews (computeSummary ds today) = 0 \<or>
   (\<exists>d \<in> set ds. as_PeakDay (computeSummary ds today) = Some (dv_Date d) \<and> dv_Views d = as_PeakDayViews (computeSummary ds today))"
  using peak_day_fold [of empty_summary "set ds" ds today]
  by (simp add: computeSummary_def Let_def empty_summary_def split: if_splits)

subsection \<open>Intensities\<close>

lemma foldl_max_upper: "(x :: int) \<in> set xs \<Longrightarrow> x \<le> foldl max a xs" "a \<le> foldl max a xs"
proof -
  have *: "a \<le> foldl max a xs" for a :: int and xs by (induction xs arbitrary: a) (auto intro: order_trans [OF max.cobounded1])
  show "x \<in> set xs \<Longrightarrow> x \<le> foldl max a xs"
    by (induction xs arbitrary: a) (auto intro: order_trans [OF max.cobounded2 *])
  show "a \<le> foldl max a xs" by (rule *)
qed

lemma foldl_max_le: "(\<And>x. x \<in> set xs \<Longrightarrow> x \<le> b) \<Longrightarrow> a \<le> b \<Longrightarrow> foldl max a xs \<le> (b :: int)"
  by (induction xs arbitrary: a) auto

lemma heatmap_bounds:
  assumes "\<forall>r \<in> set rows. 1 \<le> se_watch_count r \<and> int4 (se_watch_count r)" "s \<in> set (heatmap_of rows)"
  shows "0 \<le> sd_Intensity s \<and> sd_Intensity s \<le> 1 \<and> (sd_WatchCount s = foldl max 0 (map se_watch_count rows) \<longrightarrow> sd_Intensity s = 1)"
proof -
  let ?m = "foldl max 0 (map se_watch_count rows)"
  from assms(2) obtain r where r: "r \<in> set rows" "sd_WatchCount s = se_watch_count r"
    "sd_Intensity s = (if ?m > 0 then f_div (f_of_int (se_watch_count r)) (f_of_int ?m) else 0)"
    by (auto simp: heatmap_of_def Let_def)
  have m: "se_watch_count r \<le> ?m" using r(1) by (intro foldl_max_upper) auto
  have big: "?m \<le> 2 ^ 53" using assms(1) by (intro foldl_max_le) (auto simp: int4_def intro: order_trans [of _ "2 ^ 31"])
  have pos: "0 < ?m" "1 \<le> se_watch_count r" using m assms(1) r(1) by force+
  have exact: "f_of_int (se_watch_count r) = of_int (se_watch_count r)" "f_of_int ?m = of_int ?m"
    using m big pos by (auto intro!: f_of_int_exact)
  have "0 \<le> (of_int (se_watch_count r) / of_int ?m :: rat)" "(of_int (se_watch_count r) / of_int ?m :: rat) \<le> 1"
    using m pos by (simp_all add: divide_le_eq)
  then have "rnd64 0 \<le> rnd64 (of_int (se_watch_count r) / of_int ?m)" "rnd64 (of_int (se_watch_count r) / of_int ?m) \<le> rnd64 1"
    by (blast intro: rnd64_mono)+
  moreover have "rnd64 1 = 1" using rnd64_of_int [of 1] by simp
  ultimately show ?thesis using r(2,3) pos exact by (simp add: f_div_def)
qed

subsection \<open>The analytics as a whole\<close>

lemma query_or_wp: "(\<And>x t. now t = now w \<Longrightarrow> Q x t) \<Longrightarrow> wp (query_or d q) Q w"
  unfolding query_or_def by (auto split: option.split)

text \<open>The summary of the answer is that of its days, and the clicks do not change it.\<close>

definition consistent :: "int \<Rightarrow> daily_views list \<Rightarrow> analytics_response \<Rightarrow> bool" where
  "consistent today daily x \<longleftrightarrow> an_Daily x = daily \<and> as_TotalViews (an_Summary x) = sum_list (map dv_Views daily) \<and>
     as_PeakDayViews (an_Summary x) = foldl max 0 (map dv_Views daily)"

lemma analytics_body_wp:
  "wp (analytics_body collation videoID emailGate n t since daily) (\<lambda>r u. \<exists>x. r = WriteJSON 200 x \<and> consistent (day_of t) daily x) w"
  unfolding analytics_body_def trends_of_def Let_def
  by (auto simp: consistent_def computeSummary_totals split: prod.split intro!: query_or_wp)

text \<open>
  C31: The analytics of a video count every view of the range exactly once: with no view from the future, an answer has
  one entry for each day of the range, in order and up to today, and both the days together and the total of the
  summary are the number of recorded views since the start of the range.
\<close>

theorem analytics_count_views:
  assumes "\<forall>r \<in> set (video_views w). vw_created_at r \<le> now w"
  shows "wp (Analytics collation c videoID rangeParam) (\<lambda>r u. \<forall>x. r = WriteJSON 200 x \<longrightarrow>
    (\<exists>n. range_days rangeParam = Some n \<and> (0 < n \<longrightarrow> map dv_Date (an_Daily x) = [day_of (now w) - (n - 1)..day_of (now w)]) \<and>
       sum_list (map dv_Views (an_Daily x)) = length (views_in videoID (\<lambda>t. range_since zero_time (now w) n \<le> t) w) \<and>
       as_TotalViews (an_Summary x) = length (views_in videoID (\<lambda>t. range_since zero_time (now w) n \<le> t) w))) w"
proof -
  have nn: "0 \<le> n" if "range_days rangeParam = Some n" for n
    using that by (auto simp: range_days_def Let_def split: if_splits)
  let ?rows = "\<lambda>n. views_in videoID (\<lambda>t. range_since zero_time (now w) n \<le> t) w"
  have window: "n = 0 \<or> (\<forall>r \<in> set (?rows n). day_of (now w) - (n - 1) \<le> day_of (vw_created_at r) \<and> day_of (vw_created_at r) \<le> day_of (now w))"
    if "range_days rangeParam = Some n" for n
  proof (cases "n = 0")
    case False
    with nn [OF that] have n: "0 < n" by simp
    show ?thesis
    proof (intro disjI2 ballI conjI)
      fix r assume r: "r \<in> set (?rows n)"
      then have "days (day_of (now w) - (n - 1)) \<le> vw_created_at r" using n by (simp add: range_since_def)
      then have "days (day_of (now w) - (n - 1)) div days 1 \<le> day_of (vw_created_at r)" by (intro zdiv_mono1) simp_all
      then show "day_of (now w) - (n - 1) \<le> day_of (vw_created_at r)" by simp
      show "day_of (vw_created_at r) \<le> day_of (now w)" using r assms by (intro zdiv_mono1) auto
    qed
  qed simp
  note counted = fill_days_total [OF nn window]
  have body: "wp (analytics_body collation videoID g n (now w) since (fill_days (day_of (now w)) n (group_days (?rows n))))
      (\<lambda>r u. \<forall>x. r = WriteJSON 200 x \<longrightarrow> (0 < n \<longrightarrow> map dv_Date (an_Daily x) = [day_of (now w) - (n - 1)..day_of (now w)]) \<and>
       sum_list (map dv_Views (an_Daily x)) = length (?rows n) \<and> as_TotalViews (an_Summary x) = length (?rows n)) t"
    if "range_days rangeParam = Some n" for n g since t
    by (rule wp_mono [OF analytics_body_wp]) (use counted [OF that that] in \<open>auto simp: consistent_def\<close>)
  show ?thesis unfolding Analytics_def Let_def
    by (simp split: option.split) (auto elim!: wp_mono dest!: body)
qed

text \<open>One view an hour ago, seen in the week that ends today.\<close>

definition sample_viewed :: world where
  "sample_viewed = sample_ready\<lparr>video_views := [\<lparr>vw_video_id = ''v1'', vw_viewer_hash = ''h'', vw_referrer = ''Direct'',
     vw_browser = ''Firefox'', vw_device = ''Desktop'', vw_country = [], vw_city = [], vw_created_at = days 40 - hours 1\<rparr>]\<rparr>"

lemma analytics_count_views_witness:
  "wp (Analytics length sample_caller ''v1'' []) (\<lambda>r u. \<exists>x. r = WriteJSON 200 x \<and>
     map dv_Date (an_Daily x) = [34..40] \<and> as_TotalViews (an_Summary x) = 1) sample_viewed"
proof -
  have past: "\<forall>r \<in> set (video_views sample_viewed). vw_created_at r \<le> now sample_viewed"
    by (simp add: sample_viewed_def sample_ready_def sample_world_def empty_world_def)
  have week: "range_days [] = Some 7" by code_simp
  have today: "now sample_viewed = days 40" by (simp add: sample_viewed_def sample_ready_def sample_world_def empty_world_def)
  have "length (views_in ''v1'' (\<lambda>t. range_since zero_time (days 40) 7 \<le> t) sample_viewed) = 1"
    by (simp add: sample_viewed_def range_since_def)
  moreover have "wp (Analytics length sample_caller ''v1'' []) (\<lambda>r u. \<exists>x. r = WriteJSON 200 x) sample_viewed"
    unfolding Analytics_def Let_def
    by (auto simp: week analytics_scope_def sample_viewed_def sample_ready_def sample_world_def empty_world_def sample_caller_def
        intro!: wp_mono [OF analytics_body_wp])
  ultimately show ?thesis
    using analytics_count_views [OF past, of length sample_caller "''v1''" "[]"]
    by (simp add: week today wp_def split_beta) fastforce
qed

subsection \<open>What modelling showed\<close>

text \<open>
  The query of the viewers joins views with milestones, so a viewer's views are counted once for each milestone
  they reached.
\<close>

lemma map_filter_append: "List.map_filter f (a @ b) = List.map_filter f a @ List.map_filter f b"
  by (simp add: List.map_filter_def)

lemma joined_views_one:
  "List.map_filter (snd \<circ> fst) (left_join Q [(x, y)] ms) =
     (case y of None \<Rightarrow> [] | Some r \<Rightarrow> replicate (max 1 (length (filter (Q (x, y)) ms))) r)"
proof -
  have none: "List.map_filter (snd \<circ> fst) (map (\<lambda>z. ((x, None), Some z)) l) = []" for l
    by (induction l) (simp_all add: List.map_filter_def)
  have some: "List.map_filter (snd \<circ> fst) (map (\<lambda>z. ((x, Some r), Some z)) l) = replicate (length l) r" for l r
    by (induction l) (simp_all add: List.map_filter_def)
  show ?thesis
  proof (cases "filter (Q (x, y)) ms")
    case Nil
    then show ?thesis by (cases y) (simp_all add: left_join_def List.map_filter_def)
  next
    case (Cons z zs)
    then have "left_join Q [(x, y)] ms = map (\<lambda>z. ((x, y), Some z)) (z # zs)" by (simp add: left_join_def)
    with Cons show ?thesis by (cases y) (simp_all only: none some option.case, simp)
  qed
qed

lemma left_join_append: "left_join Q (a @ b) ms = left_join Q a ms @ left_join Q b ms"
  by (simp add: left_join_def)

lemma joined_views:
  assumes "\<And>y. Q (x, y) = R"
  shows "length (List.map_filter (snd \<circ> fst) (left_join Q (left_join P [x] ys) ms)) = length (filter (P x) ys) * max 1 (length (filter R ms))"
proof -
  have many: "length (List.map_filter (snd \<circ> fst) (left_join Q (map (\<lambda>y. (x, Some y)) rs) ms)) = length rs * max 1 (length (filter R ms))" for rs
  proof (induction rs)
    case (Cons r rs)
    have split: "map (\<lambda>y. (x, Some y)) (r # rs) = [(x, Some r)] @ map (\<lambda>y. (x, Some y)) rs" by simp
    show ?case unfolding split left_join_append map_filter_append joined_views_one length_append Cons.IH
      by (simp add: assms)
  qed (simp add: left_join_def List.map_filter_def)
  have "left_join P [x] ys = (if filter (P x) ys = [] then [(x, None)] else map (\<lambda>y. (x, Some y)) (filter (P x) ys))"
    by (simp add: left_join_def split: list.split)
  then show ?thesis using many [of "filter (P x) ys"] by (simp add: joined_views_one)
qed

lemma viewer_views_multiplied:
  "vi_ViewCount (viewer_group collation w vv) =
     length (filter (\<lambda>r. vw_video_id r = vv_video_id vv \<and> vw_viewer_hash r = vv_viewer_hash vv) (video_views w)) *
     max 1 (length (filter (\<lambda>m. vm_video_id m = vv_video_id vv \<and> vm_viewer_hash m = vv_viewer_hash vv) (view_milestones w)))"
  unfolding viewer_group_def Let_def viewer_info.simps by (rule joined_views) simp

text \<open>The same of the videos of the dashboard, with the milestones of all viewers.\<close>

lemma top_video_views_multiplied:
  "dt_Views (top_video w since v) =
     length (filter (\<lambda>r. vw_video_id r = v_id v \<and> since \<le> vw_created_at r) (video_views w)) *
     max 1 (length (filter (\<lambda>m. vm_video_id m = v_id v) (view_milestones w)))"
  unfolding top_video_def Let_def dashboard_top_video.simps by (rule joined_views) simp

text \<open>
  The summary adds up the unique viewers of the days, the trend compares that with the unique viewers of the whole
  period before: one viewer who comes every day of both weeks is a rise of 600 percent.
\<close>

lemma unique_trend_inflated:
  assumes "0 < n" "n \<le> 90" "\<forall>i \<in> {0..<n}. \<exists>r \<in> set rows. day_of (vw_created_at r) = today - i"
    and "\<forall>r \<in> set rows. vw_viewer_hash r = hash" "prev \<noteq> []" "\<forall>r \<in> set prev. vw_viewer_hash r = hash"
  shows "change_percent (as_UniqueViews (computeSummary (fill_days today n (group_days rows)) today)) (unique_viewers prev) =
    Some (of_int (100 * (n - 1)))"
proof -
  have same: "unique_viewers rs = 1" if "rs \<noteq> []" "\<forall>r \<in> set rs. vw_viewer_hash r = hash" for rs
  proof -
    have "set (map vw_viewer_hash rs) = {hash}" using that by (cases rs) auto
    then show ?thesis unfolding unique_viewers_def by (metis card.empty card_insert_disjoint empty_iff finite.emptyI length_remdups_card_conv One_nat_def)
  qed
  have "dv_UniqueViews (day_row rows (today - i)) = 1" if "i \<in> {0..<n}" for i
  proof -
    from that assms(3) obtain r where "r \<in> set rows" "day_of (vw_created_at r) = today - i" by blast
    then have "filter (\<lambda>r. day_of (vw_created_at r) = today - i) rows \<noteq> []" by (auto simp: filter_empty_conv)
    with same [of "filter (\<lambda>r. day_of (vw_created_at r) = today - i) rows"] assms(4) show ?thesis
      by (simp add: day_row_def Let_def)
  qed
  then have "map dv_UniqueViews (fill_days today n (group_days rows)) = map (\<lambda>i. 1) (rev [0..n - 1])"
    unfolding fill_days_rows [OF assms(1)] by simp
  then have u: "as_UniqueViews (computeSummary (fill_days today n (group_days rows)) today) = nat n"
    using assms(1) by (simp add: computeSummary_totals map_replicate_const sum_list_replicate)
  have "f_of_nat (nat n) = of_int n" "f_of_nat 1 = 1" using assms(1,2) by (simp_all add: f_of_nat_def f_of_int_exact)
  moreover have "f_sub (of_int n) 1 = of_int (n - 1)" "f_div (of_int (n - 1)) 1 = of_int (n - 1)"
    "f_mul (of_int (n - 1)) 100 = of_int (100 * (n - 1))"
    using assms(1,2) rnd64_of_int [of "n - 1"] rnd64_of_int [of "100 * (n - 1)"]
    by (simp_all add: f_sub_def f_div_def f_mul_def algebra_simps)
  ultimately show ?thesis unfolding u same [OF assms(5,6)] change_percent_def by simp
qed

text \<open>
  Outside a workspace the analytics ask only who made the video: somebody who has left a workspace still reads the
  numbers, and the addresses of the viewers, of the videos they made there. Every other read of a video refuses.
\<close>

lemma analytics_after_leaving:
  assumes "faults w = []" "videos w = [v]" "v_user_id v = UserID c" "v_organization_id v = Some g" "v_status v \<noteq> Deleted" "OrgID c = []"
    and "\<forall>m \<in> set (members w). \<not> (m_user_id m = UserID c \<and> m_organization_id m = g)"
  shows "wp (Analytics collation c (v_id v) []) (\<lambda>r t. (\<exists>x. r = WriteJSON 200 x) ) w"
    and "wp (GetTranscript c (v_id v)) (\<lambda>r t. r = WriteError 404 ''video not found'') w"
  unfolding Analytics_def GetTranscript_def Let_def
  using assms(1-6) by (auto simp: analytics_scope_def range_days_def Let_def scoped_filter in_scope_def intro!: wp_mono [OF analytics_body_wp])

end
