(* ===== verification/Mail.thy ===== *)
theory Mail
  imports Go_Strings
begin

text \<open>
  Outgoing mail (\<open>internal/email/email.go\<close>): who may be written to, the text of each message, the checks of its
  headers and the way it takes (Listmonk, SMTP, sendmail, or none). A send returns what left the process and the
  error. \<open>strings.ToLower\<close> and \<open>strings.EqualFold\<close> are parameters, and so are the answers of the servers.
\<close>

subsection \<open>Configuration\<close>

record mail_config =
  ml_BaseURL :: string \<comment> \<open>of Listmonk\<close>
  ml_FromAddress :: string
  ml_Allowlist :: "string list"
  ml_DeveloperEmail :: string
  ml_SMTPHost :: string
  ml_SMTPPort :: int
  ml_SMTPUsername :: string
  ml_SMTPTLS :: string
  ml_SendmailEnabled :: bool
  ml_TemplateIDs :: "string \<Rightarrow> int" \<comment> \<open>by the name of the field\<close>

definition defaultFromAddress :: string where "defaultFromAddress = ''noreply@sendrec.eu''"

text \<open>The modes are ASCII; everything else becomes the default.\<close>

definition normalizeSMTPTLS :: "(string \<Rightarrow> string) \<Rightarrow> string \<Rightarrow> string" where
  "normalizeSMTPTLS ToLower v = (let v = ToLower (trim_space v) in
     if v \<in> {''starttls'', ''tls'', ''auto'', ''none''} then v else ''starttls'')"

text \<open>The configuration a client works with, and whether it found \<open>sendmail\<close> at the start.\<close>

definition New_mail :: "(string \<Rightarrow> string) \<Rightarrow> bool \<Rightarrow> mail_config \<Rightarrow> mail_config \<times> bool" where
  "New_mail ToLower onPath cfg =
     (cfg\<lparr>ml_SMTPTLS := normalizeSMTPTLS ToLower (ml_SMTPTLS cfg),
        ml_SMTPPort := (if ml_SMTPPort cfg = 0 then 587 else ml_SMTPPort cfg),
        ml_FromAddress := (if ml_FromAddress cfg = [] then defaultFromAddress else ml_FromAddress cfg)\<rparr>,
      ml_SendmailEnabled cfg \<and> onPath)"

definition HasBackend :: "mail_config \<times> bool \<Rightarrow> bool" where
  "HasBackend c \<longleftrightarrow> ml_BaseURL (fst c) \<noteq> [] \<or> ml_SMTPHost (fst c) \<noteq> [] \<or> snd c"

subsection \<open>Recipients\<close>

definition ParseAllowlist :: "string \<Rightarrow> string list" where
  "ParseAllowlist s = (if s = [] then [] else filter (\<lambda>p. p \<noteq> []) (map trim_space (split s '','')))"

definition isAllowed :: "(string \<Rightarrow> string) \<Rightarrow> mail_config \<Rightarrow> string \<Rightarrow> bool" where
  "isAllowed ToLower cfg recipient \<longleftrightarrow> ml_DeveloperEmail cfg \<noteq> [] \<or> ml_Allowlist cfg = [] \<or>
     list_ex (\<lambda>entry. let e = ToLower entry in
       if has_prefix e ''@'' then has_suffix (ToLower recipient) e else ToLower recipient = e) (ml_Allowlist cfg)"

definition resolveRecipient :: "mail_config \<Rightarrow> string \<Rightarrow> string" where
  "resolveRecipient cfg email = (if ml_DeveloperEmail cfg \<noteq> [] then ml_DeveloperEmail cfg else email)"

subsection \<open>Messages\<close>

datatype tx_value = TxText string | TxDigest "(string \<times> nat \<times> nat \<times> string) list" | TxRetention "(string \<times> string) list"

record tx_request =
  tx_SubscriberEmail :: string
  tx_TemplateID :: int
  tx_Body :: string
  tx_Data :: "(string \<times> tx_value) list"
  tx_subject :: string

definition crlf :: string where "crlf = [CHR 0x0D, CHR 0x0A]"

text \<open>The message of SMTP and sendmail: five header lines, an empty one, the body.\<close>

definition message_text :: "string \<Rightarrow> string \<Rightarrow> string \<Rightarrow> string \<Rightarrow> string" where
  "message_text from to subject htmlBody =
     join [''From: '' @ from, ''To: '' @ to, ''Subject: '' @ subject, ''MIME-Version: 1.0'',
       ''Content-Type: text/html; charset=UTF-8'', [], htmlBody] crlf"

definition rejectCRLF :: "string \<Rightarrow> string \<Rightarrow> string option" where
  "rejectCRLF field v = (if list_ex (\<lambda>c. c = CHR 0x0D \<or> c = CHR 0x0A) v
     then Some (''invalid '' @ field @ '' header: contains CR/LF'') else None)"

definition validateMessageHeaders :: "string \<Rightarrow> string \<Rightarrow> string \<Rightarrow> string option" where
  "validateMessageHeaders from to subject =
     (case rejectCRLF ''From'' from of Some e \<Rightarrow> Some e
      | None \<Rightarrow> (case rejectCRLF ''To'' to of Some e \<Rightarrow> Some e | None \<Rightarrow> rejectCRLF ''Subject'' subject))"

subsection \<open>Transports\<close>

text \<open>What leaves the process; the flag tells whether the connection was encrypted.\<close>

datatype mail_event = Subscribe string string | Listmonk tx_request
  | SmtpAuth bool | SmtpMail bool string string | SmtpData bool string | Sendmail string

text \<open>The answers: \<open>Some\<close> is an error.\<close>

record mail_env =
  subscribers :: "string \<Rightarrow> string list option" \<comment> \<open>what the search lists, \<open>None\<close> when it failed\<close>
  listmonk_status :: "tx_request \<Rightarrow> string + int"
  smtp_dial :: "string option"
  smtp_greeting :: "string option"
  offers_STARTTLS :: bool
  starttls_error :: "string option"
  auth_error :: "string option"
  mail_error :: "string option"
  rcpt_error :: "string option"
  data_error :: "string option"
  sendmail_there :: bool
  sendmail_error :: "string option"

type_synonym sent = "mail_event list \<times> string option"

text \<open>One step of the dialogue after another, up to the first error.\<close>

definition and_then :: "sent \<Rightarrow> sent \<Rightarrow> sent" where
  "and_then a b = (case a of (es, Some e) \<Rightarrow> (es, Some e) | (es, None) \<Rightarrow> (es @ fst b, snd b))"

text \<open>
  \<open>smtp.PlainAuth\<close> of the standard library refuses to send a password over an open connection, unless the server
  is this machine.
\<close>

definition plain_auth :: "mail_env \<Rightarrow> mail_config \<Rightarrow> bool \<Rightarrow> sent" where
  "plain_auth e cfg secure =
     (if \<not> secure \<and> ml_SMTPHost cfg \<notin> {''localhost'', ''127.0.0.1'', ''::1''} then ([], Some ''smtp auth: unencrypted connection'')
      else ([SmtpAuth secure], map_option (\<lambda>x. ''smtp auth: '' @ x) (auth_error e)))"

definition sendViaSMTP :: "mail_env \<Rightarrow> mail_config \<Rightarrow> string \<Rightarrow> string \<Rightarrow> string \<Rightarrow> sent" where
  "sendViaSMTP e cfg to subject htmlBody =
     (let mode = ml_SMTPTLS cfg;
          upgrade = (mode = ''starttls'' \<or> mode = ''auto'') \<and> offers_STARTTLS e;
          secure = (mode = ''tls'' \<or> upgrade)
      in and_then ([], map_option (\<lambda>x. ''smtp dial: '' @ x) (smtp_dial e))
        (and_then ([], map_option (\<lambda>x. ''smtp client: '' @ x) (smtp_greeting e))
        (and_then ([], if upgrade then map_option (\<lambda>x. ''smtp starttls: '' @ x) (starttls_error e)
             else if mode = ''starttls''
               then Some ''smtp: server does not support STARTTLS (set SMTP_TLS=auto or none to allow plaintext)'' else None)
        (and_then (if ml_SMTPUsername cfg = [] then ([], None) else plain_auth e cfg secure)
        (and_then ([SmtpMail secure (ml_FromAddress cfg) to], case mail_error e of Some x \<Rightarrow> Some (''smtp mail from: '' @ x)
             | None \<Rightarrow> map_option (\<lambda>x. ''smtp rcpt to: '' @ x) (rcpt_error e))
          ([SmtpData secure (message_text (ml_FromAddress cfg) to subject htmlBody)],
           map_option (\<lambda>x. ''smtp data: '' @ x) (data_error e)))))))"

definition sendViaSendmail :: "mail_env \<Rightarrow> mail_config \<Rightarrow> string \<Rightarrow> string \<Rightarrow> string \<Rightarrow> sent" where
  "sendViaSendmail e cfg to subject htmlBody =
     (if \<not> sendmail_there e then ([], None)
      else ([Sendmail (message_text (ml_FromAddress cfg) to subject htmlBody)], map_option (\<lambda>x. ''sendmail: '' @ x) (sendmail_error e)))"

text \<open>Listmonk first, when it is configured, with sendmail as its fallback; else SMTP, else sendmail, else nothing.\<close>

definition sendTx :: "mail_env \<Rightarrow> mail_config \<times> bool \<Rightarrow> tx_request \<Rightarrow> sent" where
  "sendTx e c body0 =
     (let cfg = fst c; sendmailAvailable = snd c;
          body = body0\<lparr>tx_SubscriberEmail := resolveRecipient cfg (tx_SubscriberEmail body0)\<rparr>;
          to = tx_SubscriberEmail body;
          fallback = (\<lambda>err. if sendmailAvailable
            then (Listmonk body # fst (sendViaSendmail e cfg to (tx_subject body) (tx_Body body)),
                  snd (sendViaSendmail e cfg to (tx_subject body) (tx_Body body)))
            else ([Listmonk body], Some err))
      in case validateMessageHeaders (ml_FromAddress cfg) to (tx_subject body) of
        Some err \<Rightarrow> ([], Some err)
      | None \<Rightarrow>
        if ml_BaseURL cfg = [] then
          if ml_SMTPHost cfg \<noteq> [] then sendViaSMTP e cfg to (tx_subject body) (tx_Body body)
          else if sendmailAvailable then sendViaSendmail e cfg to (tx_subject body) (tx_Body body)
          else ([], None)
        else (case listmonk_status e body of
            Inl err \<Rightarrow> fallback (''listmonk send: '' @ err)
          | Inr status \<Rightarrow> if status \<noteq> 200 then fallback (''listmonk send: status '' @ itoa status) else ([Listmonk body], None)))"

definition ensureSubscriber :: "(string \<Rightarrow> string \<Rightarrow> bool) \<Rightarrow> mail_env \<Rightarrow> mail_config \<Rightarrow> string \<Rightarrow> string \<Rightarrow> mail_event list" where
  "ensureSubscriber EqualFold e cfg email name =
     (let to = resolveRecipient cfg email in
      if (case subscribers e to of None \<Rightarrow> False | Some found \<Rightarrow> list_ex (\<lambda>s. EqualFold s to) found) then []
      else [Subscribe to name])"


subsection \<open>The messages of the program\<close>

text \<open>A Listmonk installation needs its subscriber first; a template set in the configuration replaces the default one.\<close>

definition send_message :: "(string \<Rightarrow> string \<Rightarrow> bool) \<Rightarrow> mail_env \<Rightarrow> mail_config \<times> bool \<Rightarrow> string \<Rightarrow> string \<Rightarrow> string
    \<Rightarrow> (string \<times> tx_value) list \<Rightarrow> string \<Rightarrow> string \<Rightarrow> sent" where
  "send_message EqualFold e c toEmail toName template data subject body =
     (let (es, err) = sendTx e c \<lparr>tx_SubscriberEmail = toEmail, tx_TemplateID = ml_TemplateIDs (fst c) template,
            tx_Body = body, tx_Data = data, tx_subject = subject\<rparr>
      in ((if ml_BaseURL (fst c) \<noteq> [] then ensureSubscriber EqualFold e (fst c) toEmail toName else []) @ es, err))"

definition nothing_sent :: sent where "nothing_sent = ([], None)"

definition SendPasswordReset :: "(string \<Rightarrow> string) \<Rightarrow> (string \<Rightarrow> string \<Rightarrow> bool) \<Rightarrow> mail_env \<Rightarrow> mail_config \<times> bool
    \<Rightarrow> string \<Rightarrow> string \<Rightarrow> string \<Rightarrow> sent" where
  "SendPasswordReset ToLower EqualFold e c toEmail toName resetLink =
     (if \<not> isAllowed ToLower (fst c) toEmail then nothing_sent
      else send_message EqualFold e c toEmail toName ''TemplateID''
        [(''resetLink'', TxText resetLink), (''name'', TxText toName)] ''Reset your password''
        (''<p>Hi '' @ toName @ '',</p><p>Click the link below to reset your password:</p><p><a href=\"'' @ resetLink @
         ''\">Reset password</a></p>''))"

definition SendCommentNotification :: "(string \<Rightarrow> string) \<Rightarrow> (string \<Rightarrow> string \<Rightarrow> bool) \<Rightarrow> mail_env \<Rightarrow> mail_config \<times> bool
    \<Rightarrow> string \<Rightarrow> string \<Rightarrow> string \<Rightarrow> string \<Rightarrow> string \<Rightarrow> string \<Rightarrow> sent" where
  "SendCommentNotification ToLower EqualFold e c toEmail toName videoTitle commentAuthor commentBody watchURL =
     (if \<not> isAllowed ToLower (fst c) toEmail then nothing_sent
      else send_message EqualFold e c toEmail toName ''CommentTemplateID''
        [(''name'', TxText toName), (''videoTitle'', TxText videoTitle), (''commentAuthor'', TxText commentAuthor),
         (''commentBody'', TxText commentBody), (''watchURL'', TxText watchURL)] ''New comment on your video''
        (''<p>Hi '' @ toName @ '',</p><p><strong>'' @ commentAuthor @ ''</strong> commented on your video <strong>'' @
         videoTitle @ ''</strong>:</p><blockquote>'' @ commentBody @ ''</blockquote><p><a href=\"'' @ watchURL @
         ''\">View video</a></p>''))"

definition SendViewNotification :: "(string \<Rightarrow> string) \<Rightarrow> (string \<Rightarrow> string \<Rightarrow> bool) \<Rightarrow> mail_env \<Rightarrow> mail_config \<times> bool
    \<Rightarrow> string \<Rightarrow> string \<Rightarrow> string \<Rightarrow> string \<Rightarrow> int \<Rightarrow> sent" where
  "SendViewNotification ToLower EqualFold e c toEmail toName videoTitle watchURL viewCount =
     (if \<not> isAllowed ToLower (fst c) toEmail then nothing_sent
      else send_message EqualFold e c toEmail toName ''ViewTemplateID''
        [(''name'', TxText toName), (''videoTitle'', TxText videoTitle), (''watchURL'', TxText watchURL),
         (''viewCount'', TxText (itoa viewCount)), (''isDigest'', TxText ''false'')] ''Your video was viewed''
        (''<p>Hi '' @ toName @ '',</p><p>Your video <strong>'' @ videoTitle @ ''</strong> has been viewed '' @
         itoa viewCount @ '' time(s).</p><p><a href=\"'' @ watchURL @ ''\">View video</a></p>''))"

text \<open>The messages that do not ask the allowlist.\<close>

definition SendConfirmation :: "(string \<Rightarrow> string \<Rightarrow> bool) \<Rightarrow> mail_env \<Rightarrow> mail_config \<times> bool
    \<Rightarrow> string \<Rightarrow> string \<Rightarrow> string \<Rightarrow> sent" where
  "SendConfirmation EqualFold e c toEmail toName confirmLink =
     send_message EqualFold e c toEmail toName ''ConfirmTemplateID''
       [(''confirmLink'', TxText confirmLink), (''name'', TxText toName)] ''Confirm your email''
       (''<p>Hi '' @ toName @ '',</p><p>Please confirm your email address by clicking the link below:</p><p><a href=\"'' @
        confirmLink @ ''\">Confirm email</a></p>'')"

definition SendWelcome :: "(string \<Rightarrow> string \<Rightarrow> bool) \<Rightarrow> mail_env \<Rightarrow> mail_config \<times> bool
    \<Rightarrow> string \<Rightarrow> string \<Rightarrow> string \<Rightarrow> sent" where
  "SendWelcome EqualFold e c toEmail toName dashboardURL =
     send_message EqualFold e c toEmail toName ''WelcomeTemplateID''
       [(''name'', TxText toName), (''dashboardURL'', TxText dashboardURL),
        (''githubURL'', TxText ''https://github.com/sendrec/sendrec'')] ''Welcome to SendRec''
       (''<p>Hi '' @ toName @ '',</p><p>Welcome to SendRec! Your account is ready.</p><p><a href=\"'' @ dashboardURL @
        ''\">Go to dashboard</a></p>'' @
        ''<p style=\"margin-top:16px;font-size:13px;color:#64748b;\">SendRec is open source. If you find it useful, <a href=\"https://github.com/sendrec/sendrec\">star us on GitHub</a>!</p>'')"

definition SendOnboardingDay2 :: "(string \<Rightarrow> string \<Rightarrow> bool) \<Rightarrow> mail_env \<Rightarrow> mail_config \<times> bool
    \<Rightarrow> string \<Rightarrow> string \<Rightarrow> string \<Rightarrow> sent" where
  "SendOnboardingDay2 EqualFold e c toEmail toName dashboardURL =
     send_message EqualFold e c toEmail toName ''OnboardingDay2TemplateID''
       [(''name'', TxText toName), (''dashboardURL'', TxText dashboardURL)] ''Ready to share your first video?''
       (''<p>Hi '' @ toName @ '',</p><p>Ready to share your first video? Record and share in seconds.</p><p><a href=\"'' @
        dashboardURL @ ''\">Get started</a></p>'')"

text \<open>An em dash, in UTF-8.\<close>

definition em_dash :: string where "em_dash = [CHR 0xE2, CHR 0x80, CHR 0x94]"

definition SendOnboardingDay7 :: "(string \<Rightarrow> string \<Rightarrow> bool) \<Rightarrow> mail_env \<Rightarrow> mail_config \<times> bool
    \<Rightarrow> string \<Rightarrow> string \<Rightarrow> string \<Rightarrow> sent" where
  "SendOnboardingDay7 EqualFold e c toEmail toName dashboardURL =
     send_message EqualFold e c toEmail toName ''OnboardingDay7TemplateID''
       [(''name'', TxText toName), (''dashboardURL'', TxText dashboardURL)] ''Unlock more with SendRec Pro''
       (''<p>Hi '' @ toName @ '',</p><p>Unlock more with SendRec Pro '' @ em_dash @
        '' longer recordings, custom branding, and more.</p><p><a href=\"'' @ dashboardURL @ ''\">Learn more</a></p>'')"

definition SendDigestNotification :: "(string \<Rightarrow> string) \<Rightarrow> (string \<Rightarrow> string \<Rightarrow> bool) \<Rightarrow> mail_env \<Rightarrow> mail_config \<times> bool
    \<Rightarrow> string \<Rightarrow> string \<Rightarrow> (string \<times> nat \<times> nat \<times> string) list \<Rightarrow> sent" where
  "SendDigestNotification ToLower EqualFold e c toEmail toName vs =
     (if \<not> isAllowed ToLower (fst c) toEmail then nothing_sent
      else let totalViews = itoa (int (\<Sum>(t, n, m, u)\<leftarrow>vs. n)); totalComments = itoa (int (\<Sum>(t, n, m, u)\<leftarrow>vs. m)) in
        send_message EqualFold e c toEmail toName ''ViewTemplateID''
        [(''name'', TxText toName), (''isDigest'', TxText ''true''), (''totalViews'', TxText totalViews),
         (''totalComments'', TxText totalComments), (''videos'', TxDigest vs)] ''Your weekly video digest''
        (''<p>Hi '' @ toName @ '',</p><p>Your videos received '' @ totalViews @ '' view(s) and '' @ totalComments @
         '' comment(s) this week.</p>''))"

definition SendOrgInvite :: "(string \<Rightarrow> string \<Rightarrow> bool) \<Rightarrow> mail_env \<Rightarrow> mail_config \<times> bool
    \<Rightarrow> string \<Rightarrow> string \<Rightarrow> string \<Rightarrow> string \<Rightarrow> sent" where
  "SendOrgInvite EqualFold e c toEmail orgName inviterName acceptLink =
     send_message EqualFold e c toEmail [] ''OrgInviteTemplateID''
       [(''orgName'', TxText orgName), (''inviterName'', TxText inviterName), (''acceptLink'', TxText acceptLink)]
       (''Join '' @ orgName @ '' on SendRec'')
       (''<p>Hi,</p><p><strong>'' @ inviterName @ ''</strong> has invited you to join <strong>'' @ orgName @
        ''</strong> on SendRec.</p><p><a href=\"'' @ acceptLink @ ''\">Accept invitation</a></p>'')"

definition SendRetentionWarning :: "(string \<Rightarrow> string \<Rightarrow> bool) \<Rightarrow> mail_env \<Rightarrow> mail_config \<times> bool
    \<Rightarrow> string \<Rightarrow> (string \<times> string) list \<Rightarrow> string \<Rightarrow> sent" where
  "SendRetentionWarning EqualFold e c toEmail vs expiryDate =
     send_message EqualFold e c toEmail [] ''RetentionWarningTemplateID''
       [(''videos'', TxRetention vs), (''expiryDate'', TxText expiryDate)] ''Videos scheduled for deletion''
       (''<p>Hi,</p><p>The following videos will be deleted on <strong>'' @ expiryDate @ ''</strong>: '' @
        join (map fst vs) '', '' @ ''.</p><p>Upgrade your plan to keep them.</p>'')"


subsection \<open>What a receiver reads\<close>

text \<open>
  A reader of messages that lets CR, LF or both end a line: the header lines, up to the first empty line, and the
  body after it.
\<close>

fun read_line :: "string \<Rightarrow> string \<times> string" where
  "read_line [] = ([], [])"
| "read_line (c # s) = (if c = CHR 0x0A then ([], s)
     else if c = CHR 0x0D then ([], case s of [] \<Rightarrow> [] | d # t \<Rightarrow> if d = CHR 0x0A then t else s)
     else (let (l, r) = read_line s in (c # l, r)))"

lemma read_line_shorter: "read_line s = (l, r) \<Longrightarrow> l \<noteq> [] \<Longrightarrow> length r < length s"
proof (induction s arbitrary: l r)
  case (Cons c s)
  obtain l' r' where line: "read_line s = (l', r')" by (cases "read_line s")
  show ?case
  proof (cases "l' = []")
    case True
    have "length r' \<le> length s" using line True
      by (cases s) (auto split: if_splits list.splits prod.splits)
    with Cons.prems line show ?thesis by (auto split: if_splits)
  next
    case False
    with Cons.IH line have "length r' < length s" by simp
    with Cons.prems line show ?thesis by (auto split: if_splits)
  qed
qed simp

function read_headers :: "string \<Rightarrow> string list \<times> string" where
  "read_headers s = (let (l, r) = read_line s in
     if l = [] then ([], r) else (let (hs, body) = read_headers r in (l # hs, body)))"
  by auto
termination
  by (relation "measure length") (auto dest: read_line_shorter [OF sym])

declare read_headers.simps [simp del]

definition one_line :: "string \<Rightarrow> bool" where
  "one_line v \<longleftrightarrow> (\<forall>c\<in>set v. c \<noteq> CHR 0x0D \<and> c \<noteq> CHR 0x0A)"

lemma rejectCRLF_None [simp]: "rejectCRLF field v = None \<longleftrightarrow> one_line v"
  by (auto simp: rejectCRLF_def one_line_def list_ex_iff)

lemma validateMessageHeaders_None [simp]:
  "validateMessageHeaders from to subject = None \<longleftrightarrow> one_line from \<and> one_line to \<and> one_line subject"
  unfolding validateMessageHeaders_def by (auto simp: rejectCRLF_def one_line_def list_ex_iff)

lemma validate_one_line: "one_line from \<Longrightarrow> one_line to \<Longrightarrow> one_line subject \<Longrightarrow> validateMessageHeaders from to subject = None"
  by simp

lemma read_line_newline: "one_line a \<Longrightarrow> read_line (a @ crlf @ r) = (a, r)"
  by (induction a) (auto simp: one_line_def crlf_def)

lemma read_headers_line: "one_line a \<Longrightarrow> a \<noteq> [] \<Longrightarrow>
    read_headers (a @ crlf @ r) = (a # fst (read_headers r), snd (read_headers r))"
  by (subst read_headers.simps) (simp add: read_line_newline split: prod.split)

lemma read_headers_end: "read_headers (crlf @ r) = ([], r)"
  using read_line_newline [of "[]" r] by (simp add: read_headers.simps one_line_def)

lemma read_message:
  assumes "one_line from" "one_line to" "one_line subject"
  shows "read_headers (message_text from to subject body) =
    ([''From: '' @ from, ''To: '' @ to, ''Subject: '' @ subject, ''MIME-Version: 1.0'',
      ''Content-Type: text/html; charset=UTF-8''], body)"
proof -
  have lines: "one_line (''From: '' @ from)" "one_line (''To: '' @ to)" "one_line (''Subject: '' @ subject)"
    "one_line ''MIME-Version: 1.0''" "one_line ''Content-Type: text/html; charset=UTF-8''"
    using assms by (simp_all add: one_line_def)
  have msg: "message_text from to subject body = (''From: '' @ from) @ crlf @ (''To: '' @ to) @ crlf @
    (''Subject: '' @ subject) @ crlf @ ''MIME-Version: 1.0'' @ crlf @
    ''Content-Type: text/html; charset=UTF-8'' @ crlf @ crlf @ body"
    by (simp add: message_text_def)
  show ?thesis
    unfolding msg
    by (simp only: read_headers_line [OF lines(1)] read_headers_line [OF lines(2)] read_headers_line [OF lines(3)]
        read_headers_line [OF lines(4)] read_headers_line [OF lines(5)] read_headers_end append_is_Nil_conv
        list.distinct simp_thms fst_conv snd_conv)
qed

subsection \<open>What leaves the process\<close>

text \<open>The messages of a run, and whether an event crossed the network unencrypted.\<close>

definition message_of :: "mail_event \<Rightarrow> string list" where
  "message_of ev = (case ev of SmtpData s m \<Rightarrow> [m] | Sendmail m \<Rightarrow> [m] | _ \<Rightarrow> [])"

definition in_clear :: "mail_event \<Rightarrow> bool" where
  "in_clear ev = (case ev of SmtpAuth s \<Rightarrow> \<not> s | SmtpMail s f t \<Rightarrow> \<not> s | SmtpData s m \<Rightarrow> \<not> s | _ \<Rightarrow> False)"

text \<open>The address an event names; \<open>sendmail -t\<close> reads it in the headers.\<close>

definition goes_to :: "mail_event \<Rightarrow> string option" where
  "goes_to ev = (case ev of Subscribe a n \<Rightarrow> Some a | Listmonk b \<Rightarrow> Some (tx_SubscriberEmail b) | SmtpMail s f t \<Rightarrow> Some t
     | Sendmail m \<Rightarrow> Some (drop (length ''To: '') (fst (read_headers m) ! 1)) | _ \<Rightarrow> None)"

lemma and_then_guard:
  "ev \<in> set (fst (and_then ([], err) b)) \<Longrightarrow> err = None \<and> ev \<in> set (fst b)"
  by (cases err) (auto simp: and_then_def split: prod.splits option.splits)

lemma and_then_events: "ev \<in> set (fst (and_then a b)) \<Longrightarrow> ev \<in> set (fst a) \<or> ev \<in> set (fst b)"
  by (auto simp: and_then_def split: prod.splits option.splits)

lemma sendViaSMTP_event:
  assumes "ev \<in> set (fst (sendViaSMTP e cfg to subject body))"
  shows "\<exists>secure. (ev = SmtpAuth secure \<and> (secure \<or> ml_SMTPHost cfg \<in> {''localhost'', ''127.0.0.1'', ''::1''})
      \<or> ev = SmtpMail secure (ml_FromAddress cfg) to
      \<or> ev = SmtpData secure (message_text (ml_FromAddress cfg) to subject body))
    \<and> (secure \<or> ml_SMTPTLS cfg \<notin> {''starttls'', ''tls''})"
proof -
  let ?upgrade = "(ml_SMTPTLS cfg = ''starttls'' \<or> ml_SMTPTLS cfg = ''auto'') \<and> offers_STARTTLS e"
  let ?secure = "ml_SMTPTLS cfg = ''tls'' \<or> ?upgrade"
  have "(if ?upgrade then map_option (\<lambda>x. ''smtp starttls: '' @ x) (starttls_error e)
      else if ml_SMTPTLS cfg = ''starttls''
        then Some ''smtp: server does not support STARTTLS (set SMTP_TLS=auto or none to allow plaintext)'' else None) = None"
    using assms unfolding sendViaSMTP_def Let_def by (elim and_then_guard [THEN conjE]) assumption
  then have kept: "?secure \<or> ml_SMTPTLS cfg \<notin> {''starttls'', ''tls''}" by (auto split: if_splits)
  have "(ev = SmtpAuth ?secure \<and> (?secure \<or> ml_SMTPHost cfg \<in> {''localhost'', ''127.0.0.1'', ''::1''})
      \<or> ev = SmtpMail ?secure (ml_FromAddress cfg) to
      \<or> ev = SmtpData ?secure (message_text (ml_FromAddress cfg) to subject body))"
    using assms unfolding sendViaSMTP_def Let_def
    by (auto dest!: and_then_events simp: plain_auth_def split: if_splits)
  with kept show ?thesis by blast
qed

lemma sendTx_event:
  assumes ev: "ev \<in> set (fst (sendTx e c b))" and to: "to = resolveRecipient (fst c) (tx_SubscriberEmail b)"
  shows "one_line (ml_FromAddress (fst c)) \<and> one_line to \<and> one_line (tx_subject b) \<and>
    (ev = Listmonk (b\<lparr>tx_SubscriberEmail := to\<rparr>)
     \<or> ev = Sendmail (message_text (ml_FromAddress (fst c)) to (tx_subject b) (tx_Body b))
     \<or> ev \<in> set (fst (sendViaSMTP e (fst c) to (tx_subject b) (tx_Body b))))"
proof (cases "validateMessageHeaders (ml_FromAddress (fst c)) to (tx_subject b)")
  case (Some err)
  with ev show ?thesis by (simp add: sendTx_def Let_def to)
next
  case None
  have "ev = Listmonk (b\<lparr>tx_SubscriberEmail := to\<rparr>)
     \<or> ev = Sendmail (message_text (ml_FromAddress (fst c)) to (tx_subject b) (tx_Body b))
     \<or> ev \<in> set (fst (sendViaSMTP e (fst c) to (tx_subject b) (tx_Body b)))"
    using ev None [unfolded to]
    by (auto simp: sendTx_def Let_def sendViaSendmail_def to simp del: validateMessageHeaders_None
        split: if_splits sum.splits)
  with None show ?thesis by simp
qed


lemma ensureSubscriber_event:
  "ev \<in> set (ensureSubscriber EqualFold e cfg email name) \<Longrightarrow> ev = Subscribe (resolveRecipient cfg email) name"
  by (auto simp: ensureSubscriber_def Let_def split: if_splits)

lemma send_message_event:
  assumes "ev \<in> set (fst (send_message EqualFold e c toEmail toName template data subject body))"
  defines "to \<equiv> resolveRecipient (fst c) toEmail"
  shows "ev = Subscribe to toName
    \<or> one_line (ml_FromAddress (fst c)) \<and> one_line to \<and> one_line subject \<and>
      ((\<exists>b. ev = Listmonk b \<and> tx_SubscriberEmail b = to)
       \<or> ev = Sendmail (message_text (ml_FromAddress (fst c)) to subject body)
       \<or> ev \<in> set (fst (sendViaSMTP e (fst c) to subject body)))"
proof -
  let ?b = "\<lparr>tx_SubscriberEmail = toEmail, tx_TemplateID = ml_TemplateIDs (fst c) template,
            tx_Body = body, tx_Data = data, tx_subject = subject\<rparr>"
  have "ev = Subscribe to toName \<or> ev \<in> set (fst (sendTx e c ?b))"
    using assms(1) by (auto simp: send_message_def to_def split: prod.splits if_splits dest: ensureSubscriber_event)
  then show ?thesis
  proof
    assume "ev \<in> set (fst (sendTx e c ?b))"
    from sendTx_event [OF this, of to] show ?thesis by (auto simp: to_def)
  qed simp
qed

text \<open>
  C27: No mail carries a header its sender did not write: whatever names, titles and addresses the callers pass in, a
  message that leaves by SMTP or sendmail has five header lines, from the configured sender to the one recipient, and
  its body comes after the empty line (\<open>rejectCRLF\<close> is asked before any of the transports).
\<close>

theorem mail_headers:
  assumes "ev \<in> set (fst (send_message EqualFold e c toEmail toName template data subject body))"
    and "m \<in> set (message_of ev)"
  shows "read_headers m =
    ([''From: '' @ ml_FromAddress (fst c), ''To: '' @ resolveRecipient (fst c) toEmail, ''Subject: '' @ subject,
      ''MIME-Version: 1.0'', ''Content-Type: text/html; charset=UTF-8''], body)"
  using send_message_event [OF assms(1)] assms(2)
  by (auto simp: message_of_def read_message dest!: sendViaSMTP_event split: mail_event.splits)

text \<open>
  C30: Outgoing mail stays encrypted unless the configuration says otherwise: with any value of \<open>SMTP_TLS\<close> other than
  \<open>auto\<close> and \<open>none\<close>, typing errors included, nothing goes to the SMTP server in the clear, not the password, not the
  addresses, not the message; and in every mode the password goes in the clear to this machine only.
\<close>

theorem mail_encrypted:
  assumes "ev \<in> set (fst (send_message EqualFold e (New_mail ToLower onPath cfg) toEmail toName template data subject body))"
    and "in_clear ev"
  shows "ToLower (trim_space (ml_SMTPTLS cfg)) \<in> {''auto'', ''none''} \<and>
    (ev = SmtpAuth False \<longrightarrow> ml_SMTPHost cfg \<in> {''localhost'', ''127.0.0.1'', ''::1''})"
proof -
  let ?c = "New_mail ToLower onPath cfg"
  have "ev \<in> set (fst (sendViaSMTP e (fst ?c) (resolveRecipient (fst ?c) toEmail) subject body))"
    using send_message_event [OF assms(1)] assms(2) by (auto simp: in_clear_def)
  from sendViaSMTP_event [OF this] assms(2) show ?thesis
    by (auto simp: in_clear_def New_mail_def normalizeSMTPTLS_def Let_def split: if_splits)
qed

definition mailed :: "sent \<Rightarrow> string list" where
  "mailed s = concat (map (\<lambda>ev. case goes_to ev of None \<Rightarrow> [] | Some a \<Rightarrow> [a]) (fst s))"

lemma mailed_send_message:
  assumes "a \<in> set (mailed (send_message EqualFold e c toEmail toName template data subject body))"
  shows "a = resolveRecipient (fst c) toEmail"
proof -
  from assms obtain ev where ev: "ev \<in> set (fst (send_message EqualFold e c toEmail toName template data subject body))"
      "goes_to ev = Some a"
    by (auto simp: mailed_def split: option.splits)
  from send_message_event [OF ev(1)] ev(2) show ?thesis
    by (auto simp: goes_to_def read_message dest!: sendViaSMTP_event)
qed

lemmas send_defs = SendPasswordReset_def SendCommentNotification_def SendViewNotification_def SendConfirmation_def
  SendWelcome_def SendOnboardingDay2_def SendOnboardingDay7_def SendDigestNotification_def SendOrgInvite_def
  SendRetentionWarning_def

text \<open>
  Who a notification reaches: with a developer's address set, every mail of a reset, a comment, a view or a digest
  goes to it alone; without one, to the address asked for, and only when the allowlist is empty or names it or its
  domain.
\<close>

theorem notification_recipients:
  assumes "s \<in> {SendPasswordReset ToLower EqualFold e c toEmail toName link,
      SendCommentNotification ToLower EqualFold e c toEmail toName title author comment link,
      SendViewNotification ToLower EqualFold e c toEmail toName title link n,
      SendDigestNotification ToLower EqualFold e c toEmail toName vs}"
    and "a \<in> set (mailed s)"
  shows "if ml_DeveloperEmail (fst c) \<noteq> [] then a = ml_DeveloperEmail (fst c)
    else a = toEmail \<and> (ml_Allowlist (fst c) = [] \<or> (\<exists>entry\<in>set (ml_Allowlist (fst c)). ToLower toEmail = ToLower entry \<or>
      has_prefix (ToLower entry) ''@'' \<and> has_suffix (ToLower toEmail) (ToLower entry)))"
proof -
  have none: "mailed nothing_sent = []" by (simp add: mailed_def nothing_sent_def)
  from assms have to: "a = resolveRecipient (fst c) toEmail"
    by (auto simp: send_defs none Let_def split: if_splits dest: mailed_send_message)
  from assms have allowed: "isAllowed ToLower (fst c) toEmail"
    by (auto simp: send_defs none Let_def split: if_splits)
  show ?thesis
    using allowed unfolding to
    by (auto simp: isAllowed_def resolveRecipient_def list_ex_iff Let_def split: if_splits)
qed


subsection \<open>Instances\<close>

text \<open>A relay that offers STARTTLS and takes everything; a configuration that writes to one company only.\<close>

definition sample_relay :: "string list option \<Rightarrow> mail_env" where
  "sample_relay found = \<lparr>subscribers = (\<lambda>_. found), listmonk_status = (\<lambda>_. Inr 200), smtp_dial = None, smtp_greeting = None,
     offers_STARTTLS = True, starttls_error = None, auth_error = None, mail_error = None, rcpt_error = None,
     data_error = None, sendmail_there = True, sendmail_error = None\<rparr>"

definition sample_mail :: mail_config where
  "sample_mail = \<lparr>ml_BaseURL = [], ml_FromAddress = ''noreply@sendrec.eu'', ml_Allowlist = [''@acme.eu''], ml_DeveloperEmail = [],
     ml_SMTPHost = ''mx.acme.eu'', ml_SMTPPort = 587, ml_SMTPUsername = ''acme'', ml_SMTPTLS = ''auto'',
     ml_SendmailEnabled = False, ml_TemplateIDs = (\<lambda>_. 0)\<rparr>"

lemmas mail_simps = send_message_def sendTx_def sendViaSMTP_def and_then_def plain_auth_def sample_relay_def sample_mail_def
  resolveRecipient_def one_line_def message_of_def Let_def validate_one_line

lemma mail_headers_witness:
  "\<exists>ev m. ev \<in> set (fst (send_message (=) (sample_relay None) (sample_mail, False) ''ann@acme.eu'' [] ''OrgInviteTemplateID''
        [] ''Join Acme on SendRec'' ''<p>Hi,</p>'')) \<and> m \<in> set (message_of ev)
     \<and> read_headers m = ([''From: noreply@sendrec.eu'', ''To: ann@acme.eu'', ''Subject: Join Acme on SendRec'',
          ''MIME-Version: 1.0'', ''Content-Type: text/html; charset=UTF-8''], ''<p>Hi,</p>'')"
proof -
  let ?m = "message_text ''noreply@sendrec.eu'' ''ann@acme.eu'' ''Join Acme on SendRec'' ''<p>Hi,</p>''"
  have ev: "SmtpData True ?m \<in> set (fst (send_message (=) (sample_relay None) (sample_mail, False) ''ann@acme.eu'' []
      ''OrgInviteTemplateID'' [] ''Join Acme on SendRec'' ''<p>Hi,</p>''))"
    by (simp add: mail_simps)
  have m: "?m \<in> set (message_of (SmtpData True ?m))" by (simp add: message_of_def)
  from mail_headers [OF ev m] ev m show ?thesis
    by (intro exI [of _ "SmtpData True ?m"] exI [of _ ?m]) (simp add: sample_mail_def resolveRecipient_def)
qed

lemma mail_encrypted_witness:
  "\<exists>ev. in_clear ev \<and> ev \<in> set (fst (send_message (=) (sample_relay None\<lparr>offers_STARTTLS := False\<rparr>)
      (New_mail (\<lambda>s. s) False (sample_mail\<lparr>ml_SMTPUsername := []\<rparr>)) ''ann@acme.eu'' [] [] [] ''Hi'' ''Hi''))
    \<and> trim_space (ml_SMTPTLS (sample_mail\<lparr>ml_SMTPUsername := []\<rparr>)) \<in> {''auto'', ''none''}"
proof -
  let ?ev = "SmtpMail False ''noreply@sendrec.eu'' ''ann@acme.eu''"
  have mode: "normalizeSMTPTLS (\<lambda>s. s) ''auto'' = ''auto''" by code_simp
  have ev: "?ev \<in> set (fst (send_message (=) (sample_relay None\<lparr>offers_STARTTLS := False\<rparr>)
      (New_mail (\<lambda>s. s) False (sample_mail\<lparr>ml_SMTPUsername := []\<rparr>)) ''ann@acme.eu'' [] [] [] ''Hi'' ''Hi''))"
    by (simp add: mail_simps New_mail_def mode)
  have clear: "in_clear ?ev" by (simp add: in_clear_def)
  from mail_encrypted [OF ev clear] ev clear show ?thesis by blast
qed

lemma notification_recipients_witness:
  "\<exists>a. a \<in> set (mailed (SendPasswordReset (\<lambda>s. s) (=) (sample_relay None) (sample_mail, False) ''ann@acme.eu'' ''Ann'' ''/r''))
    \<and> (if ml_DeveloperEmail sample_mail \<noteq> [] then a = ml_DeveloperEmail sample_mail
       else a = ''ann@acme.eu'' \<and> (ml_Allowlist sample_mail = [] \<or> (\<exists>entry\<in>set (ml_Allowlist sample_mail).
         ''ann@acme.eu'' = entry \<or> has_prefix entry ''@'' \<and> has_suffix ''ann@acme.eu'' entry)))"
proof -
  let ?s = "SendPasswordReset (\<lambda>s. s) (=) (sample_relay None) (sample_mail, False) ''ann@acme.eu'' ''Ann'' ''/r''"
  have "isAllowed (\<lambda>s. s) sample_mail ''ann@acme.eu''" by code_simp
  then have a: "''ann@acme.eu'' \<in> set (mailed ?s)"
    by (simp add: SendPasswordReset_def mailed_def goes_to_def mail_simps)
  from notification_recipients [of ?s "\<lambda>s. s" "(=)" "sample_relay None" "(sample_mail, False)" "''ann@acme.eu''" "''Ann''" "''/r''",
      OF _ a] a show ?thesis unfolding fst_conv by blast
qed

text \<open>The allowlist does not hold for the other messages: an invitation leaves for an address outside of it.\<close>

lemma invitation_ignores_allowlist:
  "\<not> isAllowed (\<lambda>s. s) sample_mail ''eve@else.org''"
  "''eve@else.org'' \<in> set (mailed (SendOrgInvite (=) (sample_relay None) (sample_mail, False) ''eve@else.org'' ''Acme'' ''Ann'' ''/i''))"
proof -
  show "\<not> isAllowed (\<lambda>s. s) sample_mail ''eve@else.org''" by code_simp
  show "''eve@else.org'' \<in> set (mailed (SendOrgInvite (=) (sample_relay None) (sample_mail, False) ''eve@else.org'' ''Acme'' ''Ann'' ''/i''))"
    by (simp add: SendOrgInvite_def mailed_def goes_to_def mail_simps)
qed

end
