(* ===== verification/Outreach.thy ===== *)
theory Outreach
  imports Notifications Mail "HOL-Library.AList" "HOL-Library.Multiset"
begin

text \<open>
  What the program sends of its own accord: the daily digest (\<open>internal/video/digest_worker.go\<close>), the onboarding
  mails (\<open>onboarding_worker.go\<close>), the texts of the Slack client (\<open>internal/slack/slack.go\<close>) and the notifier that
  fans out to several others (\<open>internal/notify/multi.go\<close>).
\<close>

subsection \<open>The digest\<close>

text \<open>The worker sleeps until nine o'clock UTC; the day has 24 hours.\<close>

definition digestHourUTC :: int where "digestHourUTC = 9"

definition durationUntilNextRun :: "time \<Rightarrow> time" where
  "durationUntilNextRun t =
     (let run = t div hours 24 * hours 24 + hours digestHourUTC;
          run = (if \<not> run > t then run + hours 24 else run)
      in run - t)"

definition recent :: "world \<Rightarrow> time \<Rightarrow> bool" where
  "recent w t \<longleftrightarrow> t \<ge> now w - hours 24"

text \<open>The two aggregates of the query, for one video.\<close>

definition digest_views :: "world \<Rightarrow> video \<Rightarrow> nat" where
  "digest_views w v = (if (case v_view_notification v of None \<Rightarrow> ''digest'' | Some m \<Rightarrow> m) = ''digest''
     then count_where (\<lambda>x. vw_video_id x = v_id v \<and> recent w (vw_created_at x)) (video_views w) else 0)"

definition digest_comments :: "world \<Rightarrow> video \<Rightarrow> nat" where
  "digest_comments w v = count_where (\<lambda>c. c_video_id c = v_id v \<and> recent w (c_created_at c) \<and> \<not> c_is_private c) (comments w)"

definition wants_digest :: "world \<Rightarrow> string \<Rightarrow> bool" where
  "wants_digest w userID \<longleftrightarrow>
     (case prefs_of userID w of None \<Rightarrow> ''off'' | Some p \<Rightarrow> np_view_notification p) = ''digest''"

text \<open>The rows of one user, most viewed first; between users their order does not matter.\<close>

definition digest_rows :: "world \<Rightarrow> (video \<times> user) list" where
  "digest_rows w = sort_key (\<lambda>(v, u). - int (digest_views w v)) (sort_key (\<lambda>(v, u). - int (digest_comments w v))
     (filter (\<lambda>(v, u). v_status v \<noteq> Deleted \<and> wants_digest w (v_user_id v) \<and> (digest_views w v > 0 \<or> digest_comments w v > 0))
       [(v, u). v \<leftarrow> videos w, u \<leftarrow> users w, u_id u = v_user_id v]))"

record userDigest =
  ud_email :: string
  ud_name :: string
  ud_videos :: "(string \<times> nat \<times> nat \<times> string) list"

definition digest_summary :: "world \<Rightarrow> string \<Rightarrow> video \<Rightarrow> string \<times> nat \<times> nat \<times> string" where
  "digest_summary w siteURL v = (v_title v, digest_views w v, digest_comments w v, siteURL @ ''/watch/'' @ v_share_token v)"

text \<open>One row of the loop that fills the map of the users.\<close>

definition add_to_digest :: "world \<Rightarrow> string \<Rightarrow> video \<times> user \<Rightarrow> (string \<times> userDigest) list \<Rightarrow> (string \<times> userDigest) list" where
  "add_to_digest w siteURL row digests = (case row of (v, u) \<Rightarrow>
     let d = (case map_of digests (v_user_id v) of
           None \<Rightarrow> \<lparr>ud_email = u_email u, ud_name = u_name u, ud_videos = []\<rparr> | Some d \<Rightarrow> d)
     in AList.update (v_user_id v) (d\<lparr>ud_videos := ud_videos d @ [digest_summary w siteURL v]\<rparr>) digests)"

text \<open>Go visits a map in no particular order: \<open>visit\<close> arranges the entries.\<close>

definition processDigest :: "((string \<times> userDigest) list \<Rightarrow> (string \<times> userDigest) list) \<Rightarrow> string \<Rightarrow> unit prog" where
  "processDigest visit siteURL = do {
     r \<leftarrow> select_rows (\<lambda>w. fold (add_to_digest w siteURL) (digest_rows w) []);
     case r of Inl _ \<Rightarrow> State_Monad.return ()
     | Inr digests \<Rightarrow> do {
         _ \<leftarrow> State_Monad.traverse_list (\<lambda>(userID, d). service (EmailDigest (ud_email d) (ud_videos d))) (visit digests);
         State_Monad.return () }
   }"

subsection \<open>Onboarding\<close>

definition due_day2 :: "world \<Rightarrow> user \<Rightarrow> bool" where
  "due_day2 w u \<longleftrightarrow> u_email_verified u \<and> u_created_at u < now w - days 2 \<and> u_day2_sent_at u = None \<and>
     \<not> list_ex (\<lambda>v. v_user_id v = u_id u) (videos w)"

definition due_day7 :: "world \<Rightarrow> user \<Rightarrow> bool" where
  "due_day7 w u \<longleftrightarrow> u_email_verified u \<and> u_created_at u < now w - days 7 \<and> u_day7_sent_at u = None \<and> u_plan u = ''free''"

text \<open>Mail and mark: a failed mail leaves the user for the next run, a failed mark does so too.\<close>

definition onboard :: "nat \<Rightarrow> (world \<Rightarrow> user \<Rightarrow> user) \<Rightarrow> user \<Rightarrow> unit prog" where
  "onboard day stamp u = do {
     e \<leftarrow> service (EmailOnboarding day (u_email u));
     if e \<noteq> None then State_Monad.return ()
     else do {
       _ \<leftarrow> exec_world (\<lambda>w. w\<lparr>users := upd_where (\<lambda>x. u_id x = u_id u) (stamp w) (users w)\<rparr>);
       State_Monad.return () } }"

definition process_onboarding :: "nat \<Rightarrow> (world \<Rightarrow> user \<Rightarrow> bool) \<Rightarrow> (world \<Rightarrow> user \<Rightarrow> user) \<Rightarrow> unit prog" where
  "process_onboarding day due stamp = do {
     r \<leftarrow> select_rows (\<lambda>w. take 50 (filter (due w) (users w)));
     case r of Inl _ \<Rightarrow> State_Monad.return ()
     | Inr us \<Rightarrow> do { _ \<leftarrow> State_Monad.traverse_list (onboard day stamp) us; State_Monad.return () }
   }"

definition processOnboardingDay2 :: "unit prog" where
  "processOnboardingDay2 = process_onboarding 2 due_day2 (\<lambda>w u. u\<lparr>u_day2_sent_at := Some (now w)\<rparr>)"

definition processOnboardingDay7 :: "unit prog" where
  "processOnboardingDay7 = process_onboarding 7 due_day7 (\<lambda>w u. u\<lparr>u_day7_sent_at := Some (now w)\<rparr>)"

text \<open>One tick of the worker.\<close>

definition onboarding_tick :: "unit prog" where
  "onboarding_tick = do { processOnboardingDay2; processOnboardingDay7 }"

subsection \<open>Slack\<close>

text \<open>The blocks of a message: a section with one text, or a context with several.\<close>

datatype slack_block = SlackSection string | SlackContext "string list"

definition lookupWebhookURL :: "string \<Rightarrow> (db_error + string) prog" where
  "lookupWebhookURL userEmail = select_row (\<lambda>w. case find_where (\<lambda>p. np_slack_webhook_url p \<noteq> None \<and>
       list_ex (\<lambda>u. u_id u = np_user_id p \<and> u_email u = userEmail) (users w)) (notification_preferences w) of
     None \<Rightarrow> None | Some p \<Rightarrow> np_slack_webhook_url p)"

text \<open>The post of a message and its failures, which are logged only: what is posted, and where.\<close>

definition slack_post :: "string \<Rightarrow> slack_block list \<Rightarrow> (string \<times> slack_block list) option prog" where
  "slack_post toEmail blocks = do {
     row \<leftarrow> lookupWebhookURL toEmail;
     State_Monad.return (case row of Inl _ \<Rightarrow> None | Inr url \<Rightarrow> Some (url, blocks))
   }"

definition line_feed :: string where "line_feed = [CHR 0x0A]"

definition slack_link :: "string \<Rightarrow> string \<Rightarrow> string" where
  "slack_link url title = ''<'' @ url @ ''|'' @ title @ ''>''"

definition slack_SendViewNotification :: "string \<Rightarrow> string \<Rightarrow> string \<Rightarrow> int \<Rightarrow> (string \<times> slack_block list) option prog" where
  "slack_SendViewNotification toEmail videoTitle watchURL viewCount = slack_post toEmail
     [SlackSection ('':eyes: *Someone viewed your video*'' @ line_feed @ slack_link watchURL videoTitle),
      SlackContext [itoa viewCount @ '' '' @ (if viewCount = 1 then ''view'' else ''views'') @ '' so far'']]"

definition slack_SendCommentNotification :: "string \<Rightarrow> string \<Rightarrow> string \<Rightarrow> string \<Rightarrow> string
    \<Rightarrow> (string \<times> slack_block list) option prog" where
  "slack_SendCommentNotification toEmail videoTitle commentAuthor commentBody watchURL = slack_post toEmail
     [SlackSection ('':speech_balloon: *New comment on your video*'' @ line_feed @ slack_link watchURL videoTitle),
      SlackSection (''*'' @ commentAuthor @ ''* said:'' @ line_feed @ ''> '' @ commentBody)]"

text \<open>A bullet and an em dash, in UTF-8.\<close>

definition digest_line :: "string \<times> nat \<times> nat \<times> string \<Rightarrow> string" where
  "digest_line s = (case s of (title, views, ncomments, url) \<Rightarrow>
     [CHR 0xE2, CHR 0x80, CHR 0xA2] @ '' '' @ slack_link url title @ '' '' @ em_dash @ '' '' @ itoa (int views) @ '' views'' @
     (if ncomments > 0 then '', '' @ itoa (int ncomments) @ '' comments'' else []))"

definition slack_SendDigestNotification :: "string \<Rightarrow> (string \<times> nat \<times> nat \<times> string) list
    \<Rightarrow> (string \<times> slack_block list) option prog" where
  "slack_SendDigestNotification toEmail vs = slack_post toEmail
     [SlackSection ('':bar_chart: *Daily video digest*'' @ line_feed @ join (map digest_line vs) line_feed)]"

definition SendTestMessage :: "slack_block list" where
  "SendTestMessage = [SlackSection ('':white_check_mark: *SendRec is connected!*'' @ line_feed @
     ''Slack notifications are working. You'' @ [CHR 0x27] @
     ''ll receive messages here when someone views or comments on your videos.'')]"

subsection \<open>Several notifiers\<close>

text \<open>Every one is asked; an error of one of them is logged and stays with it.\<close>

definition multi_notify :: "('a \<Rightarrow> string option prog) list \<Rightarrow> 'a \<Rightarrow> string option prog" where
  "multi_notify notifiers x = do {
     _ \<leftarrow> State_Monad.traverse_list (\<lambda>n. n x) notifiers;
     State_Monad.return None
   }"


subsection \<open>When the digest runs\<close>

text \<open>
  The digest worker never sleeps past a run: from any time, it waits more than nothing and at most a day, wakes at
  nine o'clock UTC, and no nine o'clock lies in between.
\<close>

theorem next_digest_run:
  "0 < durationUntilNextRun t \<and> durationUntilNextRun t \<le> hours 24 \<and> (t + durationUntilNextRun t) mod hours 24 = hours 9 \<and>
    \<not> (\<exists>s. t < s \<and> s < t + durationUntilNextRun t \<and> s mod hours 24 = hours 9)"
proof -
  define q where "q = t div 86400000000"
  define r where "r = t mod 86400000000"
  have r: "0 \<le> r" "r < 86400000000" and t: "t = q * 86400000000 + r" by (simp_all add: q_def r_def)
  have wait: "durationUntilNextRun t = (if r < 32400000000 then 32400000000 - r else 118800000000 - r)"
    unfolding durationUntilNextRun_def digestHourUTC_def Let_def using r by (simp add: t)
  have at_nine: "(t + durationUntilNextRun t) mod 86400000000 = 32400000000"
  proof (cases "r < 32400000000")
    case True
    then have "t + durationUntilNextRun t = 32400000000 + q * 86400000000" using t wait by simp
    then show ?thesis by (simp only: mod_mult_self1) simp
  next
    case False
    then have "t + durationUntilNextRun t = 32400000000 + (q + 1) * 86400000000" using t wait by (simp add: algebra_simps)
    then show ?thesis by (simp only: mod_mult_self1) simp
  qed
  have "False" if s: "t < s" "s < t + durationUntilNextRun t" "s mod 86400000000 = 32400000000" for s
  proof -
    define p where "p = s div 86400000000"
    have p: "s = p * 86400000000 + 32400000000" using s(3) p_def by (metis div_mult_mod_eq)
    show False
    proof (cases "r < 32400000000")
      case True
      with s p t wait have "p < q" by simp
      with s(1) p t r show False by linarith
    next
      case False
      with s p t wait have "p < q + 1" by simp
      with s(1) p t False show False by linarith
    qed
  qed
  with wait at_nine r show ?thesis by auto
qed

subsection \<open>One digest for everyone who had visitors\<close>

lemma map_sort_key: "map g (sort_key (f \<circ> g) xs) = sort_key f (map g xs)"
proof -
  have "map g (insort_key (f \<circ> g) x ys) = insort_key f (g x) (map g ys)" for x ys by (induction ys) auto
  then show ?thesis by (induction xs) auto
qed

text \<open>The reference: what the digest of a user says, and who gets one.\<close>

definition digest_of :: "world \<Rightarrow> string \<Rightarrow> user \<Rightarrow> (string \<times> nat \<times> nat \<times> string) list" where
  "digest_of w siteURL u = map (digest_summary w siteURL)
     (sort_key (\<lambda>v. - int (digest_views w v)) (sort_key (\<lambda>v. - int (digest_comments w v))
       (filter (\<lambda>v. v_user_id v = u_id u \<and> v_status v \<noteq> Deleted \<and> wants_digest w (u_id u) \<and>
          (digest_views w v > 0 \<or> digest_comments w v > 0)) (videos w))))"

definition user_digest :: "world \<Rightarrow> string \<Rightarrow> (video \<times> user) list \<Rightarrow> user \<Rightarrow> userDigest" where
  "user_digest w siteURL rows u = \<lparr>ud_email = u_email u, ud_name = u_name u,
     ud_videos = map (digest_summary w siteURL) (filter (\<lambda>v. v_user_id v = u_id u) (map fst rows))\<rparr>"

text \<open>The map after the loop: a key for every user with a row, and under it the digest of that user.\<close>

lemma fold_digest:
  assumes "\<And>v u. (v, u) \<in> set rows \<Longrightarrow> u_id u = v_user_id v \<and> u \<in> U" "inj_on u_id U"
  shows "distinct (map fst (fold (add_to_digest w siteURL) rows [])) \<and>
    set (map fst (fold (add_to_digest w siteURL) rows [])) = u_id ` snd ` set rows \<and>
    (\<forall>(v, u) \<in> set rows. map_of (fold (add_to_digest w siteURL) rows []) (u_id u) = Some (user_digest w siteURL rows u))"
  using assms(1)
proof (induction rows rule: rev_induct)
  case (snoc row rows)
  obtain v u where row: "row = (v, u)" by (cases row)
  define D where "D = fold (add_to_digest w siteURL) rows []"
  have "distinct (map fst D) \<and> set (map fst D) = u_id ` snd ` set rows \<and>
      (\<forall>(v, u) \<in> set rows. map_of D (u_id u) = Some (user_digest w siteURL rows u))"
    unfolding D_def by (rule snoc.IH) (use snoc.prems in auto)
  then have D: "distinct (map fst D)" "set (map fst D) = u_id ` snd ` set rows"
    "\<And>v u. (v, u) \<in> set rows \<Longrightarrow> map_of D (u_id u) = Some (user_digest w siteURL rows u)" by auto
  have u: "u_id u = v_user_id v" "u \<in> U" using snoc.prems [of v u] row by auto
  have old: "(case map_of D (v_user_id v) of None \<Rightarrow> \<lparr>ud_email = u_email u, ud_name = u_name u, ud_videos = []\<rparr> | Some d \<Rightarrow> d)
      = user_digest w siteURL rows u"
  proof (cases "u_id u \<in> u_id ` snd ` set rows")
    case True
    then obtain v' u' where m: "(v', u') \<in> set rows" "u_id u' = u_id u" by force
    have "u' \<in> U" using snoc.prems [of v' u'] m(1) by simp
    with inj_onD [OF assms(2) m(2)] u(2) have "u' = u" by blast
    with D(3) [OF m(1)] have "map_of D (v_user_id v) = Some (user_digest w siteURL rows u)" by (simp add: u(1))
    then show ?thesis by simp
  next
    case False
    then have "map_of D (u_id u) = None" using D(2) by (metis map_of_eq_None_iff list.set_map)
    moreover have "v_user_id v' \<noteq> u_id u" if "(v', u') \<in> set rows" for v' u'
    proof -
      have "u_id u' \<in> u_id ` snd ` set rows" using that by force
      moreover have "u_id u' = v_user_id v'" using snoc.prems that by simp
      ultimately show ?thesis using False by metis
    qed
    then have "filter (\<lambda>v. v_user_id v = u_id u) (map fst rows) = []" by (force simp: filter_empty_conv)
    ultimately show ?thesis using u by (simp add: user_digest_def)
  qed
  have step: "fold (add_to_digest w siteURL) (rows @ [row]) [] = AList.update (u_id u) (user_digest w siteURL (rows @ [row]) u) D"
    using old u by (simp add: D_def row add_to_digest_def Let_def user_digest_def)
  have same: "user_digest w siteURL (rows @ [row]) u' = user_digest w siteURL rows u'" if "u_id u' \<noteq> u_id u" for u'
    using that u by (auto simp: user_digest_def row)
  have "map_of (AList.update (u_id u) (user_digest w siteURL (rows @ [row]) u) D) (u_id u') = Some (user_digest w siteURL (rows @ [row]) u')"
    if "(v', u') \<in> set (rows @ [row])" for v' u'
  proof (cases "u_id u' = u_id u")
    case True
    have "u' \<in> U" using snoc.prems that by blast
    with inj_onD [OF assms(2) True] u(2) have "u' = u" by blast
    then show ?thesis by (simp add: AList.update_conv')
  next
    case False
    with that row have "(v', u') \<in> set rows" by auto
    with D(3) False same show ?thesis by (simp add: AList.update_conv')
  qed
  moreover have "distinct (map fst (AList.update (u_id u) (user_digest w siteURL (rows @ [row]) u) D))"
    using D(1) by (rule AList.distinct_update)
  moreover have "set (map fst (AList.update (u_id u) (user_digest w siteURL (rows @ [row]) u) D)) = u_id ` snd ` set (rows @ [row])"
    using D(2) by (simp add: AList.dom_update row)
  ultimately show ?case unfolding step by blast
qed simp


lemma filter_the_one: "distinct (map f xs) \<Longrightarrow> x \<in> set xs \<Longrightarrow> filter (\<lambda>y. f y = f x) xs = [x]"
proof (induction xs)
  case (Cons y ys)
  show ?case
  proof (cases "y = x")
    case True
    from Cons.prems(1) True have "f x \<notin> f ` set ys" by simp
    then have "filter (\<lambda>z. f z = f x) ys = []" by (auto simp: filter_empty_conv) (metis image_eqI)
    with True show ?thesis by simp
  next
    case False
    with Cons.prems have "x \<in> set ys" by simp
    with Cons.prems(1) have "f y \<noteq> f x" by force
    with Cons \<open>x \<in> set ys\<close> show ?thesis by simp
  qed
qed simp

definition digest_due :: "world \<Rightarrow> video \<Rightarrow> bool" where
  "digest_due w v \<longleftrightarrow> v_status v \<noteq> Deleted \<and> wants_digest w (v_user_id v) \<and> (digest_views w v > 0 \<or> digest_comments w v > 0)"

lemma own_rows:
  assumes "distinct (map u_id (users w))" "u \<in> set (users w)"
  shows "map (digest_summary w siteURL) (filter (\<lambda>v. v_user_id v = u_id u) (map fst (digest_rows w))) = digest_of w siteURL u"
proof -
  have pairs: "filter (\<lambda>v. v_user_id v = u_id u) (map fst (filter (\<lambda>(v, u). digest_due w v)
      [(v, u). v \<leftarrow> vs, u \<leftarrow> users w, u_id u = v_user_id v])) = filter (\<lambda>v. v_user_id v = u_id u \<and> digest_due w v) vs" for vs
  proof (induction vs)
    case (Cons v vs)
    have join: "[(v, x). x \<leftarrow> us, u_id x = v_user_id v] = map (Pair v) (filter (\<lambda>x. u_id x = v_user_id v) us)" for us
      by (induction us) auto
    have "filter (\<lambda>v. v_user_id v = u_id u) (map fst (filter (\<lambda>(v, u). digest_due w v) (map (Pair v)
        (filter (\<lambda>x. u_id x = v_user_id v) (users w))))) = filter (\<lambda>v. v_user_id v = u_id u \<and> digest_due w v) [v]"
      using filter_the_one [OF assms] by (cases "digest_due w v") (auto simp: filter_empty_conv filter_map o_def)
    with Cons.IH show ?case by (simp add: join)
  qed simp
  have keys: "(\<lambda>(v, u :: user). f v) = f \<circ> fst" for f :: "video \<Rightarrow> int" by auto
  have "map fst (digest_rows w) = sort_key (\<lambda>v. - int (digest_views w v)) (sort_key (\<lambda>v. - int (digest_comments w v))
      (map fst (filter (\<lambda>(v, u). digest_due w v) [(v, u). v \<leftarrow> videos w, u \<leftarrow> users w, u_id u = v_user_id v])))"
    by (simp only: digest_rows_def digest_due_def keys map_sort_key)
  moreover have "(\<lambda>v. v_user_id v = u_id u \<and> digest_due w v) = (\<lambda>v. v_user_id v = u_id u \<and> v_status v \<noteq> Deleted
      \<and> wants_digest w (u_id u) \<and> (digest_views w v > 0 \<or> digest_comments w v > 0))"
    by (auto simp: digest_due_def)
  ultimately show ?thesis by (simp only: digest_of_def filter_sort pairs)
qed

lemma in_digest_rows:
  "(v, u) \<in> set (digest_rows w) \<longleftrightarrow> v \<in> set (videos w) \<and> u \<in> set (users w) \<and> u_id u = v_user_id v \<and> digest_due w v"
  by (auto simp: digest_rows_def digest_due_def)

lemma digest_of_nonempty:
  "digest_of w siteURL u \<noteq> [] \<longleftrightarrow> (\<exists>v \<in> set (videos w). v_user_id v = u_id u \<and> digest_due w v)"
proof -
  have "sort_key f xs = [] \<longleftrightarrow> xs = []" for f :: "video \<Rightarrow> int" and xs by (metis length_0_conv length_sort)
  then show ?thesis by (auto simp: digest_of_def digest_due_def filter_empty_conv)
qed

lemma wp_services:
  "faults w = [] \<Longrightarrow> wp (State_Monad.traverse_list (\<lambda>x. service (f x)) xs) (\<lambda>_ t. t = w\<lparr>effects := effects w @ map f xs\<rparr>) w"
proof (induction xs arbitrary: w)
  case (Cons x xs)
  have "wp (State_Monad.traverse_list (\<lambda>x. service (f x)) xs)
      (\<lambda>_ t. t = w\<lparr>effects := effects w @ map f (x # xs)\<rparr>) (w\<lparr>effects := effects w @ [f x]\<rparr>)"
    by (rule wp_mono [OF Cons.IH]) (use Cons.prems in auto)
  with Cons.prems show ?case unfolding State_Monad.traverse_list.simps by (simp add: wp_return_eta)
qed (simp add: State_Monad.traverse_list.simps)



subsection \<open>Onboarding mails\<close>

lemma wp_onboard:
  assumes "faults w = []" and stamp: "\<And>t. now t = now w \<Longrightarrow> stamp t = f"
    and f: "\<And>u. u_id (f u) = u_id u" "\<And>u. f (f u) = f u"
  shows "wp (State_Monad.traverse_list (onboard day stamp) us) (\<lambda>_ t.
    t = w\<lparr>effects := effects w @ map (\<lambda>u. EmailOnboarding day (u_email u)) us,
         users := map (\<lambda>x. if u_id x \<in> u_id ` set us then f x else x) (users w)\<rparr>) w"
  using assms(1) stamp
proof (induction us arbitrary: w)
  case Nil
  then show ?case by (simp add: State_Monad.traverse_list.simps)
next
  case (Cons u us w)
  let ?w = "w\<lparr>effects := effects w @ [EmailOnboarding day (u_email u)], users := upd_where (\<lambda>x. u_id x = u_id u) f (users w)\<rparr>"
  have "wp (State_Monad.traverse_list (onboard day stamp) us) (\<lambda>_ t.
      t = w\<lparr>effects := effects w @ map (\<lambda>u. EmailOnboarding day (u_email u)) (u # us),
         users := map (\<lambda>x. if u_id x \<in> u_id ` set (u # us) then f x else x) (users w)\<rparr>) ?w"
    by (rule wp_mono [OF Cons.IH]) (use Cons.prems f in \<open>auto simp: upd_where_def\<close>)
  moreover have "stamp (w\<lparr>effects := e\<rparr>) = f" for e using Cons.prems(2) by simp
  ultimately show ?case
    unfolding State_Monad.traverse_list.simps onboard_def using Cons.prems(1) by (simp add: wp_return_eta)
qed

lemma filter_not_taken:
  assumes "distinct (map f xs)"
  shows "filter (\<lambda>x. f x \<notin> f ` set (take n xs)) xs = drop n xs"
proof -
  have "distinct (map f (take n xs @ drop n xs))" using assms by simp
  then have "filter (\<lambda>x. f x \<notin> f ` set (take n xs)) (take n xs @ drop n xs) = drop n xs"
    unfolding map_append distinct_append filter_append
    by (auto simp: filter_empty_conv filter_id_conv disjoint_iff)
  then show ?thesis by simp
qed

lemma process_onboarding_wp:
  assumes "faults w = []" "distinct (map u_id (users w))" "\<And>t. now t = now w \<Longrightarrow> stamp t = f"
    and "\<And>u. u_id (f u) = u_id u" "\<And>u. f (f u) = f u"
    and due: "\<And>t. now t = now w \<Longrightarrow> videos t = videos w \<Longrightarrow> due t = due w" "\<And>u. \<not> due w (f u)"
  shows "wp (process_onboarding day due stamp) (\<lambda>_ t.
    effects t = effects w @ map (\<lambda>u. EmailOnboarding day (u_email u)) (take 50 (filter (due w) (users w))) \<and>
    filter (due t) (users t) = drop 50 (filter (due w) (users w))) w"
proof -
  let ?us = "take 50 (filter (due w) (users w))"
  let ?t = "w\<lparr>effects := effects w @ map (\<lambda>u. EmailOnboarding day (u_email u)) ?us,
         users := map (\<lambda>x. if u_id x \<in> u_id ` set ?us then f x else x) (users w)\<rparr>"
  have "filter (due w) (map (\<lambda>x. if u_id x \<in> u_id ` set ?us then f x else x) xs) =
      filter (\<lambda>x. u_id x \<notin> u_id ` set ?us) (filter (due w) xs)" for xs
    using due(2) by (induction xs) auto
  also have "filter (\<lambda>x. u_id x \<notin> u_id ` set ?us) (filter (due w) (users w)) = drop 50 (filter (due w) (users w))"
    by (rule filter_not_taken) (rule distinct_map_filter [OF assms(2)])
  finally have left: "filter (due ?t) (users ?t) = drop 50 (filter (due w) (users w))"
    using due(1) [of ?t] by simp
  show ?thesis
    unfolding process_onboarding_def using assms(1) left
    by (auto intro!: wp_mono [OF wp_onboard [OF assms(1,3,4,5)]])
qed

text \<open>
  The onboarding mails form a queue that moves: a run without failures mails the first fifty users who are due, each
  once, and leaves exactly the others due, on the second day and on the seventh; nobody is mailed twice, and nobody
  who stays due is passed over for good.
\<close>

theorem onboarding_queue:
  assumes "faults w = []" "distinct (map u_id (users w))"
  shows "wp processOnboardingDay2 (\<lambda>_ t.
      effects t = effects w @ map (\<lambda>u. EmailOnboarding 2 (u_email u)) (take 50 (filter (due_day2 w) (users w))) \<and>
      filter (due_day2 t) (users t) = drop 50 (filter (due_day2 w) (users w))) w
    \<and> wp processOnboardingDay7 (\<lambda>_ t.
      effects t = effects w @ map (\<lambda>u. EmailOnboarding 7 (u_email u)) (take 50 (filter (due_day7 w) (users w))) \<and>
      filter (due_day7 t) (users t) = drop 50 (filter (due_day7 w) (users w))) w"
proof
  show "wp processOnboardingDay2 (\<lambda>_ t.
      effects t = effects w @ map (\<lambda>u. EmailOnboarding 2 (u_email u)) (take 50 (filter (due_day2 w) (users w))) \<and>
      filter (due_day2 t) (users t) = drop 50 (filter (due_day2 w) (users w))) w"
    unfolding processOnboardingDay2_def
    by (rule process_onboarding_wp [OF assms, where f = "\<lambda>u. u\<lparr>u_day2_sent_at := Some (now w)\<rparr>"])
      (auto simp: due_day2_def fun_eq_iff)
  show "wp processOnboardingDay7 (\<lambda>_ t.
      effects t = effects w @ map (\<lambda>u. EmailOnboarding 7 (u_email u)) (take 50 (filter (due_day7 w) (users w))) \<and>
      filter (due_day7 t) (users t) = drop 50 (filter (due_day7 w) (users w))) w"
    unfolding processOnboardingDay7_def
    by (rule process_onboarding_wp [OF assms, where f = "\<lambda>u. u\<lparr>u_day7_sent_at := Some (now w)\<rparr>"])
      (auto simp: due_day7_def fun_eq_iff)
qed

subsection \<open>Slack and several notifiers\<close>

text \<open>A Slack message goes to the webhook of a user with that address, as the user set it.\<close>

lemma slack_post_wp:
  "wp (slack_post toEmail blocks) (\<lambda>r t. effects t = effects w \<and> (\<forall>url bs. r = Some (url, bs) \<longrightarrow> bs = blocks \<and>
    (\<exists>p \<in> set (notification_preferences w). \<exists>u \<in> set (users w). np_slack_webhook_url p = Some url \<and>
       u_id u = np_user_id p \<and> u_email u = toEmail))) w"
  unfolding slack_post_def lookupWebhookURL_def
  by (auto simp: list_ex_iff split: option.splits dest!: find_where_Some)

text \<open>Every notifier is asked, whatever the ones before it answered.\<close>

lemma multi_notify_all:
  assumes "\<And>n u. n \<in> set ns \<Longrightarrow> wp (n x) (\<lambda>_ t. asked t = asked u @ [n]) u"
  shows "wp (multi_notify ns x) (\<lambda>r t. r = None \<and> asked t = asked w @ ns) w"
proof -
  have "wp (State_Monad.traverse_list (\<lambda>n. n x) ns) (\<lambda>_ t. asked t = asked w @ ns) w"
    using assms
  proof (induction ns arbitrary: w)
    case (Cons n ns w)
    have "wp (n x) (\<lambda>_ t. wp (State_Monad.traverse_list (\<lambda>n. n x) ns) (\<lambda>_ t. asked t = asked w @ n # ns) t) w"
      by (rule wp_mono [OF Cons.prems], simp, rule wp_mono [OF Cons.IH]) (use Cons.prems in auto)
    then show ?case unfolding State_Monad.traverse_list.simps wp_bind by (elim wp_mono) (simp add: wp_return_eta)
  qed (simp add: State_Monad.traverse_list.simps)
  then show ?thesis unfolding multi_notify_def by (auto elim!: wp_mono)
qed


subsection \<open>Instances\<close>

text \<open>One user who wants the digest, one video, viewed an hour ago.\<close>

definition sample_digest :: world where
  "sample_digest = sample_world\<lparr>videos := [sample_video],
     notification_preferences := [\<lparr>np_user_id = ''u1'', np_view_notification = ''digest'', np_slack_webhook_url = None,
       np_webhook_url = None, np_webhook_secret = None\<rparr>],
     video_views := [\<lparr>vw_video_id = ''v1'', vw_viewer_hash = ''h'', vw_referrer = ''Direct'', vw_browser = ''Firefox'',
       vw_device = ''Desktop'', vw_country = [], vw_city = [], vw_created_at = days 40 - hours 1\<rparr>]\<rparr>"


lemma onboarding_queue_witness:
  "wp processOnboardingDay2 (\<lambda>_ t. effects t = [EmailOnboarding 2 ''a@x''] \<and> filter (due_day2 t) (users t) = []) sample_world \<and>
   wp processOnboardingDay7 (\<lambda>_ t. effects t = [EmailOnboarding 7 ''a@x''] \<and> filter (due_day7 t) (users t) = []) sample_world"
proof -
  have clean: "faults sample_world = []" "distinct (map u_id (users sample_world))" by (simp_all add: sample_defs)
  have due: "take 50 (filter (due_day2 sample_world) (users sample_world)) = [sample_user]"
    "take 50 (filter (due_day7 sample_world) (users sample_world)) = [sample_user]"
    "drop 50 (filter (due_day2 sample_world) (users sample_world)) = []"
    "drop 50 (filter (due_day7 sample_world) (users sample_world)) = []"
    by (simp_all add: due_day2_def due_day7_def sample_defs)
  have address: "u_email sample_user = ''a@x''" "effects sample_world = []" by (simp_all add: sample_defs)
  show ?thesis
    using onboarding_queue [OF clean] unfolding due by (simp add: address)
qed

end
