(* ===== verification/Sso_Providers.thy ===== *)
theory Sso_Providers
  imports Policy Encodings
begin

text \<open>
  Identity providers (\<open>internal/sso/sso.go\<close>, \<open>oidc.go\<close>, \<open>github.go\<close>, \<open>saml.go\<close>) and secrets at rest
  (\<open>internal/integration/integration.go\<close>). The protocol libraries (OAuth2, OpenID Connect, SAML), the HTTP calls
  and AES-GCM are parameters; what is modelled is what the code makes of their answers.
\<close>

subsection \<open>Secrets at rest\<close>

text \<open>AES-GCM: key, nonce and text; \<open>Open_sealed\<close> answers nothing when the seal does not fit.\<close>

record aead =
  Seal :: "string \<Rightarrow> string \<Rightarrow> string \<Rightarrow> string"
  Open_sealed :: "string \<Rightarrow> string \<Rightarrow> string \<Rightarrow> string option"

definition NonceSize :: nat where "NonceSize = 12"

definition aes_key :: "string \<Rightarrow> bool" where
  "aes_key key \<longleftrightarrow> length key \<in> {16, 24, 32}"

text \<open>\<open>nonce\<close> are the random bytes.\<close>

definition Encrypt :: "aead \<Rightarrow> string \<Rightarrow> string option \<Rightarrow> string \<Rightarrow> string option" where
  "Encrypt g key nonce plaintext =
     (if \<not> aes_key key then None
      else case nonce of None \<Rightarrow> None | Some n \<Rightarrow> Some (StdEncode (n @ Seal g key n plaintext)))"

definition Decrypt :: "aead \<Rightarrow> string \<Rightarrow> string \<Rightarrow> string option" where
  "Decrypt g key ciphertext = (case StdDecode ciphertext of
     None \<Rightarrow> None
   | Some data \<Rightarrow>
     if \<not> aes_key key then None
     else if length data < NonceSize then None
     else Open_sealed g key (take NonceSize data) (drop NonceSize data))"

definition MaskToken :: "string \<Rightarrow> string" where
  "MaskToken token =
     (if token = [] then []
      else if length token \<le> 4 then replicate (length token) CHR ''*''
      else take 4 token @ replicate 6 CHR ''*'')"

text \<open>The law of an authenticated cipher, for one key: what was sealed opens again.\<close>

definition opens_sealed :: "aead \<Rightarrow> string \<Rightarrow> bool" where
  "opens_sealed g key \<longleftrightarrow> (\<forall>n p. length n = NonceSize \<longrightarrow> Open_sealed g key n (Seal g key n p) = Some p)"

lemma Decrypt_Encrypt:
  "opens_sealed g key \<Longrightarrow> length n = NonceSize \<Longrightarrow> Encrypt g key (Some n) p = Some c \<Longrightarrow> Decrypt g key c = Some p"
  by (auto simp: Encrypt_def Decrypt_def StdDecode_Encode opens_sealed_def split: if_splits)

subsection \<open>What a provider tells\<close>

record user_info =
  ui_ExternalID :: string
  ui_Email :: string
  ui_Name :: string

text \<open>\<open>Exchange\<close> turns the code of the callback into a user, or fails.\<close>

record provider =
  AuthURL :: "string \<Rightarrow> string"
  Exchange :: "string \<Rightarrow> user_info option"

text \<open>\<open>generateState\<close>: \<open>random\<close> are the 32 random bytes, \<open>None\<close> when the generator fails.\<close>

definition generateState :: "string option \<Rightarrow> string option" where
  "generateState random = map_option RawURLEncode random"

definition valid_utf8 :: "string \<Rightarrow> bool" where
  "valid_utf8 s \<longleftrightarrow> to_valid_utf8 s = s"

definition MaxNameLength :: nat where "MaxNameLength = 100"

function drop_broken :: "string \<Rightarrow> string" where
  "drop_broken s = (if s = [] \<or> valid_utf8 s then s else drop_broken (butlast s))"
  by pat_completeness auto

termination by (relation "measure length") auto

declare drop_broken.simps [simp del]

definition clampName :: "string \<Rightarrow> string" where
  "clampName name = (if length name \<le> MaxNameLength then name else drop_broken (take MaxNameLength name))"

subsection \<open>OpenID Connect\<close>

record oidc_config =
  oc_IssuerURL :: string
  oc_ClientID :: string
  oc_ClientSecret :: string
  oc_RedirectURL :: string
  oc_AllowedEmailDomains :: "string list"

record id_claims =
  ic_Subject :: string
  ic_Email :: string
  ic_EmailVerified :: bool
  ic_Name :: string

text \<open>
  \<open>NewProvider\<close> tells whether discovery at an issuer succeeds. \<open>oauth_exchange\<close> gives the token of a code and the
  ID token it carries, \<open>verified_claims\<close> the claims of an ID token whose signature, issuer, audience and expiry were
  checked, \<open>userinfo_claims\<close> what the userinfo endpoint answers for a token. \<open>ToLower\<close> is that of \<open>strings\<close>.
\<close>

record oidc_lib =
  discovers :: "string \<Rightarrow> bool"
  AuthCodeURL :: "oidc_config \<Rightarrow> string \<Rightarrow> string"
  oauth_exchange :: "oidc_config \<Rightarrow> string \<Rightarrow> (string \<times> string option) option"
  verified_claims :: "oidc_config \<Rightarrow> string \<Rightarrow> id_claims option"
  userinfo_claims :: "oidc_config \<Rightarrow> string \<Rightarrow> id_claims option"
  lower_case :: "string \<Rightarrow> string"

definition normalizeDomains :: "(string \<Rightarrow> string) \<Rightarrow> string list \<Rightarrow> string list" where
  "normalizeDomains lower ds = filter (\<lambda>d. d \<noteq> []) (map (\<lambda>d. lower (trim_prefix (trim_space d) ''@'')) ds)"

text \<open>The text after the last at sign.\<close>

definition mail_domain :: "string \<Rightarrow> string" where
  "mail_domain email = rev (takeWhile (\<lambda>c. c \<noteq> CHR ''@'') (rev email))"

datatype refusal = NotVerified | Malformed | NotInList

definition checkEmailAllowed :: "(string \<Rightarrow> string) \<Rightarrow> string list \<Rightarrow> string \<Rightarrow> bool \<Rightarrow> refusal option" where
  "checkEmailAllowed lower allowed email emailVerified =
     (if allowed = [] then None
      else if \<not> emailVerified then Some NotVerified
      else if CHR ''@'' \<notin> set email \<or> mail_domain email = [] then Some Malformed
      else if lower (mail_domain email) \<in> set allowed then None
      else Some NotInList)"

definition claims_user :: "oidc_lib \<Rightarrow> oidc_config \<Rightarrow> id_claims \<Rightarrow> user_info option" where
  "claims_user l cfg cl =
     (case checkEmailAllowed (lower_case l) (normalizeDomains (lower_case l) (oc_AllowedEmailDomains cfg))
         (ic_Email cl) (ic_EmailVerified cl) of
        Some _ \<Rightarrow> None
      | None \<Rightarrow> Some \<lparr>ui_ExternalID = ic_Subject cl, ui_Email = ic_Email cl, ui_Name = ic_Name cl\<rparr>)"

definition extractFromIDToken :: "oidc_lib \<Rightarrow> oidc_config \<Rightarrow> string \<Rightarrow> user_info option" where
  "extractFromIDToken l cfg raw = Option.bind (verified_claims l cfg raw) (claims_user l cfg)"

definition extractFromUserInfo :: "oidc_lib \<Rightarrow> oidc_config \<Rightarrow> string \<Rightarrow> user_info option" where
  "extractFromUserInfo l cfg token = Option.bind (userinfo_claims l cfg token) (claims_user l cfg)"

definition oidc_Exchange :: "oidc_lib \<Rightarrow> oidc_config \<Rightarrow> string \<Rightarrow> user_info option" where
  "oidc_Exchange l cfg code = (case oauth_exchange l cfg code of
     None \<Rightarrow> None
   | Some (token, Some raw) \<Rightarrow> if raw \<noteq> [] then extractFromIDToken l cfg raw else extractFromUserInfo l cfg token
   | Some (token, None) \<Rightarrow> extractFromUserInfo l cfg token)"

definition oidc_provider :: "oidc_lib \<Rightarrow> oidc_config \<Rightarrow> provider" where
  "oidc_provider l cfg = \<lparr>AuthURL = AuthCodeURL l cfg, Exchange = oidc_Exchange l cfg\<rparr>"

text \<open>Discovery is tried again with the slash at the end of the issuer toggled.\<close>

definition trim_right :: "char set \<Rightarrow> string \<Rightarrow> string" where
  "trim_right cs s = rev (dropWhile (\<lambda>c. c \<in> cs) (rev s))"

definition toggled :: "string \<Rightarrow> string" where
  "toggled issuer = (if has_suffix issuer ''/'' then trim_right {CHR ''/''} issuer else issuer @ ''/'')"

definition NewOIDCProvider :: "oidc_lib \<Rightarrow> oidc_config \<Rightarrow> provider option" where
  "NewOIDCProvider l cfg =
     (if discovers l (oc_IssuerURL cfg) then Some (oidc_provider l cfg)
      else if discovers l (toggled (oc_IssuerURL cfg)) then Some (oidc_provider l (cfg\<lparr>oc_IssuerURL := toggled (oc_IssuerURL cfg)\<rparr>))
      else None)"

text \<open>Whoever gets past a list of domains has a verified address in one of them.\<close>

lemma allowed_domain:
  assumes "oidc_Exchange l cfg code = Some info" "normalizeDomains (lower_case l) (oc_AllowedEmailDomains cfg) \<noteq> []"
  shows "lower_case l (mail_domain (ui_Email info)) \<in> set (normalizeDomains (lower_case l) (oc_AllowedEmailDomains cfg)) \<and>
    (\<exists>cl. ic_EmailVerified cl \<and> ic_Email cl = ui_Email info \<and> ic_Subject cl = ui_ExternalID info \<and>
       ((\<exists>raw. verified_claims l cfg raw = Some cl) \<or> (\<exists>token. userinfo_claims l cfg token = Some cl)))"
proof -
  have user: "lower_case l (mail_domain (ui_Email info)) \<in> set (normalizeDomains (lower_case l) (oc_AllowedEmailDomains cfg)) \<and>
      ic_EmailVerified cl \<and> ic_Email cl = ui_Email info \<and> ic_Subject cl = ui_ExternalID info"
    if "claims_user l cfg cl = Some info" for cl
    using that assms(2) unfolding claims_user_def checkEmailAllowed_def by (auto split: if_splits option.splits)
  from assms(1) have "(\<exists>raw. extractFromIDToken l cfg raw = Some info) \<or> (\<exists>token. extractFromUserInfo l cfg token = Some info)"
    unfolding oidc_Exchange_def by (auto split: option.splits prod.splits if_splits)
  then show ?thesis
    using user unfolding extractFromIDToken_def extractFromUserInfo_def by (fastforce simp: bind_eq_Some_conv)
qed

subsection \<open>GitHub\<close>

record github_user =
  gu_ID :: int
  gu_Login :: string
  gu_Name :: string

definition displayName :: "github_user \<Rightarrow> string" where
  "displayName u = (if gu_Name u \<noteq> [] then gu_Name u else gu_Login u)"

record github_email =
  ge_Email :: string
  ge_Primary :: bool
  ge_Verified :: bool

text \<open>The answers to \<open>/user\<close> and \<open>/user/emails\<close> for a token: nothing unless the status is 200 and the body decodes.\<close>

record github_api =
  github_token :: "string \<Rightarrow> string option"
  github_auth_url :: "string \<Rightarrow> string"
  fetchUser :: "string \<Rightarrow> github_user option"
  fetchEmails :: "string \<Rightarrow> github_email list option"

definition fetchPrimaryEmail :: "github_api \<Rightarrow> string \<Rightarrow> string option" where
  "fetchPrimaryEmail g token = (case fetchEmails g token of None \<Rightarrow> None
     | Some es \<Rightarrow> map_option ge_Email (find_where (\<lambda>e. ge_Primary e \<and> ge_Verified e) es))"

definition github_Exchange :: "github_api \<Rightarrow> string \<Rightarrow> user_info option" where
  "github_Exchange g code = (case github_token g code of None \<Rightarrow> None
     | Some token \<Rightarrow> (case fetchUser g token of None \<Rightarrow> None
       | Some u \<Rightarrow> (case fetchPrimaryEmail g token of None \<Rightarrow> None
         | Some email \<Rightarrow> Some \<lparr>ui_ExternalID = itoa (gu_ID u), ui_Email = email, ui_Name = displayName u\<rparr>)))"

definition NewGitHubProvider :: "github_api \<Rightarrow> provider" where
  "NewGitHubProvider g = \<lparr>AuthURL = github_auth_url g, Exchange = github_Exchange g\<rparr>"

subsection \<open>SAML\<close>

record saml_config =
  sa_EntityID :: string
  sa_SSOURL :: string
  sa_Certificate :: string

text \<open>Decoded metadata: the services (binding, location) and the keys (use, certificates) of each \<open>IDPSSODescriptor\<close>.\<close>

record saml_idp =
  si_services :: "(string \<times> string) list"
  si_keys :: "(string \<times> string list) list"

record saml_metadata =
  sm_EntityID :: string
  sm_IDPs :: "saml_idp list"

record assertion =
  as_attributes :: "(string \<times> string list) list list"
  as_NameID :: "string option"

text \<open>
  \<open>SAMLResponse_parse\<close> gives the assertion of a response whose signature, destination, times and \<open>InResponseTo\<close>
  (one of the request ids, where there are any) were checked for the configuration and its ACS address.
\<close>

record saml_lib =
  unmarshal_metadata :: "string \<Rightarrow> saml_metadata option"
  http_get :: "string \<Rightarrow> (int \<times> string option) option" \<comment> \<open>status and body\<close>
  ParseCertificate :: "string \<Rightarrow> bool"
  url_parses :: "string \<Rightarrow> bool"
  AuthnRequest :: "saml_config \<Rightarrow> string \<Rightarrow> string \<Rightarrow> (string \<times> string) option" \<comment> \<open>ACS, state; address and id\<close>
  ParseResponse :: "saml_config \<Rightarrow> string \<Rightarrow> string \<Rightarrow> string list \<Rightarrow> assertion option"
  sp_metadata :: "saml_config \<Rightarrow> string \<Rightarrow> string \<Rightarrow> string option"

definition HTTPRedirectBinding :: string where
  "HTTPRedirectBinding = ''urn:oasis:names:tc:SAML:2.0:bindings:HTTP-Redirect''"

definition HTTPPostBinding :: string where
  "HTTPPostBinding = ''urn:oasis:names:tc:SAML:2.0:bindings:HTTP-POST''"

text \<open>The second argument is \<open>postURL\<close> so far.\<close>

fun sso_url_from :: "string \<Rightarrow> (string \<times> string) list \<Rightarrow> string" where
  "sso_url_from post [] = post"
| "sso_url_from post ((binding, loc) # ss) =
     (if binding = HTTPRedirectBinding then loc
      else if binding = HTTPPostBinding \<and> post = [] then sso_url_from loc ss
      else sso_url_from post ss)"

definition findSSOURL :: "(string \<times> string) list \<Rightarrow> string" where
  "findSSOURL = sso_url_from []"

definition findSigningCertificate :: "(string \<times> string list) list \<Rightarrow> string" where
  "findSigningCertificate ks =
     (case filter (\<lambda>d. d \<noteq> []) (map trim_space (concat (map snd (filter (\<lambda>(usage, _). usage = ''signing'' \<or> usage = []) ks)))) of
        [] \<Rightarrow> [] | d # _ \<Rightarrow> d)"

definition ParseSAMLMetadataFromXML :: "saml_lib \<Rightarrow> string \<Rightarrow> saml_config option" where
  "ParseSAMLMetadataFromXML l data = (case unmarshal_metadata l data of
     None \<Rightarrow> None
   | Some d \<Rightarrow> (case sm_IDPs d of [] \<Rightarrow> None
     | idp # _ \<Rightarrow>
       let ssoURL = findSSOURL (si_services idp); cert = findSigningCertificate (si_keys idp) in
       if ssoURL = [] \<or> cert = [] then None
       else Some \<lparr>sa_EntityID = sm_EntityID d, sa_SSOURL = ssoURL, sa_Certificate = cert\<rparr>))"

definition maxMetadataSize :: nat where "maxMetadataSize = 2 ^ 20"

definition ParseSAMLMetadataFromURL :: "saml_lib \<Rightarrow> string \<Rightarrow> saml_config option" where
  "ParseSAMLMetadataFromURL l metadataURL = (case http_get l metadataURL of
     None \<Rightarrow> None
   | Some (status, body) \<Rightarrow>
     if status \<noteq> 200 then None
     else Option.bind body (\<lambda>b. ParseSAMLMetadataFromXML l (take maxMetadataSize b)))"

definition parseCertificate :: "saml_lib \<Rightarrow> string \<Rightarrow> bool" where
  "parseCertificate l certBase64 =
     (case RawStdDecode (trim_right {CHR ''=''} (filter (\<lambda>c. c \<notin> {CHR '' '', CHR 0x0A, CHR 0x0D, CHR 0x09}) certBase64)) of
        None \<Rightarrow> False | Some der \<Rightarrow> ParseCertificate l der)"

definition metadataPath :: "string \<Rightarrow> string \<Rightarrow> string" where
  "metadataPath base orgID = base @ ''/api/auth/saml/'' @ orgID @ ''/metadata''"

definition acsPath :: "string \<Rightarrow> string \<Rightarrow> string" where
  "acsPath base orgID = base @ ''/api/auth/saml/'' @ orgID @ ''/acs''"

text \<open>Whether a provider can be built of a configuration.\<close>

definition NewSAMLProvider :: "saml_lib \<Rightarrow> string \<Rightarrow> string \<Rightarrow> saml_config \<Rightarrow> bool" where
  "NewSAMLProvider l base orgID cfg \<longleftrightarrow> parseCertificate l (sa_Certificate cfg) \<and>
     url_parses l (metadataPath base orgID) \<and> url_parses l (acsPath base orgID)"

definition emailAttributeNames :: "string list" where
  "emailAttributeNames = [''http://schemas.xmlsoap.org/ws/2005/05/identity/claims/emailaddress'', ''email'', ''Email'', ''mail'']"

definition nameAttributeNames :: "string list" where
  "nameAttributeNames = [''http://schemas.xmlsoap.org/ws/2005/05/identity/claims/name'', ''displayName'', ''name'', ''Name'',
     ''http://schemas.xmlsoap.org/ws/2005/05/identity/claims/givenname'']"

definition extractAttribute :: "assertion \<Rightarrow> string list \<Rightarrow> string" where
  "extractAttribute a names =
     (case find_where (\<lambda>(n, vs). n \<in> set names \<and> vs \<noteq> [] \<and> hd vs \<noteq> []) (concat (as_attributes a)) of
        None \<Rightarrow> [] | Some (_, vs) \<Rightarrow> hd vs)"

definition assertion_user :: "assertion \<Rightarrow> user_info option" where
  "assertion_user a =
     (let attr = extractAttribute a emailAttributeNames;
          nameID = case_option [] (\<lambda>x. x) (as_NameID a);
          email = (if attr = [] \<and> nameID \<noteq> [] \<and> contains nameID ''@'' then nameID else attr)
      in if email = [] then None
         else Some \<lparr>ui_ExternalID = (if nameID = [] then email else nameID), ui_Email = email,
           ui_Name = extractAttribute a nameAttributeNames\<rparr>)"

definition ExchangeWithRequestID :: "saml_lib \<Rightarrow> string \<Rightarrow> string \<Rightarrow> saml_config \<Rightarrow> string \<Rightarrow> string \<Rightarrow> user_info option" where
  "ExchangeWithRequestID l base orgID cfg samlResponse requestID =
     Option.bind (ParseResponse l cfg (acsPath base orgID) samlResponse [requestID]) assertion_user"

lemma assertion_user_email: "assertion_user a = Some info \<Longrightarrow> ui_Email info \<noteq> [] \<and> ui_ExternalID info \<noteq> []"
  unfolding assertion_user_def Let_def by (auto split: if_splits)

end
