(* ===== verification/Sso.thy ===== *)
theory Sso
  imports Sso_Providers Organizations "HOL-Library.Char_ord" "HOL-Library.List_Lexorder"
begin

text \<open>
  Single sign-on (\<open>internal/sso/handler.go\<close>, \<open>handler_oidc.go\<close>, \<open>handler_saml.go\<close>): the social providers, the
  sign-in of a workspace by OpenID Connect or SAML, its configuration, the identities of an account and the token of
  a workspace for SCIM. Which account an identity signs in to is decided by \<open>resolveUser\<close>.
\<close>

record sso_env =
  se_db :: org_env
  se_jwt :: jwt_lib
  se_jwtSecret :: string
  se_baseURL :: string
  se_secureCookies :: bool
  se_providers :: "(string \<times> provider) list"
  se_aead :: aead
  se_encryptionKey :: string
  se_oidc :: oidc_lib
  se_saml :: saml_lib

text \<open>Random values of one request: the bytes of a state, the key of a new account, the id of a refresh token, a nonce.\<close>

record fresh =
  fr_state :: "string option"
  fr_userID :: string
  fr_tokenID :: "string option"
  fr_nonce :: "string option"

subsection \<open>Answers\<close>

datatype sso_reply = Refused int string | LoginError string | LoginToken string | ToProvider string

text \<open>A reply, the cookies set with it and, after a sign-in, the account it is for.\<close>

record sso_answer =
  an_reply :: sso_reply
  an_cookies :: "cookie list"
  an_user :: "string option"

definition plain :: "cookie list \<Rightarrow> sso_reply \<Rightarrow> sso_answer" where
  "plain cks r = \<lparr>an_reply = r, an_cookies = cks, an_user = None\<rparr>"

text \<open>Where a redirect goes.\<close>

fun redirect_url :: "string \<Rightarrow> sso_reply \<Rightarrow> string option" where
  "redirect_url base (Refused n m) = None"
| "redirect_url base (LoginError m) = Some (base @ ''/login?sso_error='' @ QueryEscape m)"
| "redirect_url base (LoginToken t) = Some (base @ ''/login?sso_token='' @ QueryEscape t)"
| "redirect_url base (ToProvider u) = Some u"

definition flow_cookie :: "string \<Rightarrow> string \<Rightarrow> bool \<Rightarrow> string \<Rightarrow> int \<Rightarrow> cookie" where
  "flow_cookie name v sec sameSite age = \<lparr>ck_Name = name, ck_Value = sanitizeCookieValue v, ck_Path = ''/'', ck_MaxAge = age,
     ck_HttpOnly = True, ck_Secure = sec, ck_SameSite = sameSite\<rparr>"

definition Providers :: "sso_env \<Rightarrow> string list response" where
  "Providers e = WriteJSON 200 (sort (remdups (map fst (se_providers e))))"

subsection \<open>The account of an identity\<close>

definition find_identity :: "string \<Rightarrow> string \<Rightarrow> world \<Rightarrow> external_identity option" where
  "find_identity provider externalID w =
     find_where (\<lambda>i. ei_provider i = provider \<and> ei_external_id i = externalID) (external_identities w)"

text \<open>\<open>ON CONFLICT (provider, external_id) DO NOTHING\<close>; the account must exist.\<close>

definition link_identity :: "string \<Rightarrow> string \<Rightarrow> string \<Rightarrow> string \<Rightarrow> (db_error + unit) prog" where
  "link_identity userID provider externalID email = db_stmt (\<lambda>w.
     if find_identity provider externalID w \<noteq> None then (Inr (), w)
     else if userID \<notin> u_id ` set (users w) then (Inl (DbFail ''violates foreign key constraint''), w)
     else (Inr (), w\<lparr>external_identities := external_identities w @
       [\<lparr>ei_user_id = userID, ei_provider = provider, ei_external_id = externalID, ei_email = email, ei_created_at = now w\<rparr>]\<rparr>))"

text \<open>\<open>ON CONFLICT (email) DO UPDATE SET email = EXCLUDED.email RETURNING id\<close>\<close>

definition upsert_user :: "(time \<Rightarrow> user) \<Rightarrow> (db_error + string) prog" where
  "upsert_user mk = db_stmt (\<lambda>w. case find_where (\<lambda>u. u_email u = u_email (mk (now w))) (users w) of
     Some u \<Rightarrow> (Inr (u_id u), w)
   | None \<Rightarrow> if u_id (mk (now w)) \<in> u_id ` set (users w) then (Inl UniqueViolation, w)
       else (Inr (u_id (mk (now w))), w\<lparr>users := users w @ [mk (now w)]\<rparr>))"

definition wrapped :: "string \<Rightarrow> string \<Rightarrow> (db_error + unit) \<Rightarrow> string + string" where
  "wrapped msg userID r = (case r of Inl err \<Rightarrow> Inl (msg @ db_error_text err) | Inr _ \<Rightarrow> Inr userID)"

definition resolveUser :: "string \<Rightarrow> string \<Rightarrow> user_info \<Rightarrow> (string + string) prog" where
  "resolveUser providerName newID info = do {
     row \<leftarrow> select_row (find_identity providerName (ui_ExternalID info));
     case row of Inr i \<Rightarrow> State_Monad.return (Inr (ei_user_id i))
     | Inl _ \<Rightarrow> do {
         row \<leftarrow> select_row (\<lambda>w. find_where (\<lambda>u. u_email u = ui_Email info) (users w));
         case row of
           Inr u \<Rightarrow>
             if \<not> u_email_verified u then State_Monad.return (Inl ''email not verified'')
             else do {
               r \<leftarrow> link_identity (u_id u) providerName (ui_ExternalID info) (ui_Email info);
               State_Monad.return (wrapped ''link identity: '' (u_id u) r) }
         | Inl _ \<Rightarrow> do {
             row \<leftarrow> upsert_user (new_user newID (ui_Email info) [] (clampName (ui_Name info)) True);
             case row of Inl err \<Rightarrow> State_Monad.return (Inl (''create user: '' @ db_error_text err))
             | Inr userID \<Rightarrow> do {
                 r \<leftarrow> link_identity userID providerName (ui_ExternalID info) (ui_Email info);
                 State_Monad.return (wrapped ''create identity: '' userID r) } } }
   }"

subsection \<open>Signing in\<close>

definition start_session :: "sso_env \<Rightarrow> fresh \<Rightarrow> cookie list \<Rightarrow> string \<Rightarrow> sso_answer prog" where
  "start_session e f cks userID = do {
     r \<leftarrow> IssueTokens (se_jwt e) (se_jwtSecret e) (fr_tokenID f) userID;
     State_Monad.return (case r of None \<Rightarrow> plain cks (LoginError ''failed to create session'')
       | Some (access, refresh) \<Rightarrow> \<lparr>an_reply = LoginToken access,
           an_cookies = cks @ SetRefreshTokenCookie refresh (se_secureCookies e), an_user = Some userID\<rparr>)
   }"

definition Initiate :: "sso_env \<Rightarrow> fresh \<Rightarrow> string \<Rightarrow> sso_answer" where
  "Initiate e f providerName = (case map_of (se_providers e) providerName of
     None \<Rightarrow> plain [] (Refused 404 ''unknown SSO provider'')
   | Some p \<Rightarrow> (case generateState (fr_state f) of
       None \<Rightarrow> plain [] (Refused 500 ''failed to initiate SSO'')
     | Some state \<Rightarrow> plain [flow_cookie ''sso_state'' state (se_secureCookies e) ''Lax'' 300] (ToProvider (AuthURL p state))))"

text \<open>The query of a callback, each parameter empty when it is absent.\<close>

record callback =
  cb_error :: string
  cb_error_description :: string
  cb_state :: string
  cb_code :: string

definition denied :: "callback \<Rightarrow> string" where
  "denied q = (if cb_error_description q = [] then ''login was denied'' else cb_error_description q)"

definition cleared :: "sso_env \<Rightarrow> string \<Rightarrow> cookie" where
  "cleared e name = flow_cookie name [] (se_secureCookies e) ''Lax'' (-1)"

definition Callback :: "sso_env \<Rightarrow> fresh \<Rightarrow> cookies \<Rightarrow> string \<Rightarrow> callback \<Rightarrow> sso_answer prog" where
  "Callback e f cs providerName q = (case map_of (se_providers e) providerName of
     None \<Rightarrow> State_Monad.return (plain [] (LoginError ''unknown provider''))
   | Some p \<Rightarrow>
     if cb_error q \<noteq> [] then State_Monad.return (plain [] (LoginError (denied q)))
     else case r_Cookie cs ''sso_state'' of
       None \<Rightarrow> State_Monad.return (plain [] (LoginError ''missing state cookie''))
     | Some expected \<Rightarrow>
       let cks = [cleared e ''sso_state''] in
       if cb_state q = [] \<or> cb_state q \<noteq> expected then State_Monad.return (plain cks (LoginError ''invalid state parameter''))
       else if cb_code q = [] then State_Monad.return (plain cks (LoginError ''missing authorization code''))
       else case Exchange p (cb_code q) of
         None \<Rightarrow> State_Monad.return (plain cks (LoginError ''authentication failed''))
       | Some info \<Rightarrow> do {
           r \<leftarrow> resolveUser providerName (fr_userID f) info;
           case r of Inl err \<Rightarrow> State_Monad.return (plain cks (LoginError err))
           | Inr userID \<Rightarrow> start_session e f cks userID })"

subsection \<open>Signing in to a workspace\<close>

text \<open>\<open>INSERT .. ON CONFLICT DO NOTHING\<close>; both ends must exist.\<close>

definition join_as_member :: "org_env \<Rightarrow> string \<Rightarrow> string \<Rightarrow> (db_error + unit) prog" where
  "join_as_member d orgID userID = with_uuid d orgID (db_stmt (\<lambda>w. let i = the (uuid_in d orgID) in
     if list_ex (\<lambda>m. m_organization_id m = i \<and> m_user_id m = userID) (members w) then (Inr (), w)
     else if i \<notin> o_id ` set (organizations w) \<or> userID \<notin> u_id ` set (users w)
       then (Inl (DbFail ''violates foreign key constraint''), w)
     else (Inr (), w\<lparr>members := members w @
       [\<lparr>m_organization_id = i, m_user_id = userID, m_role = ''member'', m_joined_at = now w\<rparr>]\<rparr>)))"

definition sso_config_of :: "org_env \<Rightarrow> string \<Rightarrow> world \<Rightarrow> sso_config option" where
  "sso_config_of d orgID w = find_where (\<lambda>c. uuid_in d orgID = Some (sc_organization_id c)) (sso_configs w)"

text \<open>What both workspace callbacks do with a user: resolve, join (a failure is logged), start the session.\<close>

definition enter_workspace :: "sso_env \<Rightarrow> fresh \<Rightarrow> cookie list \<Rightarrow> string \<Rightarrow> user_info \<Rightarrow> sso_answer prog" where
  "enter_workspace e f cks orgID info = do {
     r \<leftarrow> resolveUser orgID (fr_userID f) info;
     case r of Inl err \<Rightarrow> State_Monad.return (plain cks (LoginError err))
     | Inr userID \<Rightarrow> do {
         _ \<leftarrow> join_as_member (se_db e) orgID userID;
         start_session e f cks userID }
   }"

definition org_redirect :: "sso_env \<Rightarrow> string" where
  "org_redirect e = se_baseURL e @ ''/api/auth/sso/org/callback''"

definition oidc_columns :: "sso_config \<Rightarrow> (string \<times> string \<times> string) option" where
  "oidc_columns c = (case (sc_issuer_url c, sc_client_id c, sc_client_secret_encrypted c) of
     (Some i, Some cid, Some s) \<Rightarrow> Some (i, cid, s) | _ \<Rightarrow> None)"

definition saml_columns :: "sso_config \<Rightarrow> saml_config option" where
  "saml_columns c = (case (sc_saml_entity_id c, sc_saml_sso_url c, sc_saml_certificate c) of
     (Some i, Some u, Some s) \<Rightarrow> Some \<lparr>sa_EntityID = i, sa_SSOURL = u, sa_Certificate = s\<rparr> | _ \<Rightarrow> None)"

definition org_provider :: "sso_env \<Rightarrow> string \<times> string \<times> string \<Rightarrow> provider option" where
  "org_provider e cols = (case cols of (issuer, clientID, encrypted) \<Rightarrow>
     Option.bind (Decrypt (se_aead e) (se_encryptionKey e) encrypted) (\<lambda>secret.
       NewOIDCProvider (se_oidc e) \<lparr>oc_IssuerURL = issuer, oc_ClientID = clientID, oc_ClientSecret = secret,
         oc_RedirectURL = org_redirect e, oc_AllowedEmailDomains = []\<rparr>))"

definition OrgCallback :: "sso_env \<Rightarrow> fresh \<Rightarrow> cookies \<Rightarrow> callback \<Rightarrow> sso_answer prog" where
  "OrgCallback e f cs q =
     (if cb_error q \<noteq> [] then State_Monad.return (plain [] (LoginError (denied q)))
      else case r_Cookie cs ''sso_state'' of
        None \<Rightarrow> State_Monad.return (plain [] (LoginError ''missing state cookie''))
      | Some expected \<Rightarrow> (case r_Cookie cs ''sso_org'' of
          None \<Rightarrow> State_Monad.return (plain [] (LoginError ''missing organization cookie''))
        | Some orgID \<Rightarrow>
          let cks = [cleared e ''sso_state'', cleared e ''sso_org''] in
          if cb_state q = [] \<or> cb_state q \<noteq> expected then State_Monad.return (plain cks (LoginError ''invalid state parameter''))
          else if cb_code q = [] then State_Monad.return (plain cks (LoginError ''missing authorization code''))
          else do {
            row \<leftarrow> with_uuid (se_db e) orgID (select_row (sso_config_of (se_db e) orgID));
            case row of Inl _ \<Rightarrow> State_Monad.return (plain cks (LoginError ''SSO configuration not found''))
            | Inr c \<Rightarrow> (case oidc_columns c of
                None \<Rightarrow> State_Monad.return (plain cks (LoginError ''SSO configuration is not OIDC''))
              | Some cols \<Rightarrow> (case Option.bind (org_provider e cols) (\<lambda>p. Exchange p (cb_code q)) of
                  None \<Rightarrow> State_Monad.return (plain cks (LoginError ''authentication failed''))
                | Some info \<Rightarrow> enter_workspace e f cks orgID info)) }))"

text \<open>\<open>strings.SplitN(value, "|", 2)\<close>: the state and, when there is a bar, the id of the request.\<close>

definition split_state :: "string \<Rightarrow> string \<times> string" where
  "split_state v = (takeWhile (\<lambda>c. c \<noteq> CHR ''|'') v, drop 1 (dropWhile (\<lambda>c. c \<noteq> CHR ''|'') v))"

definition saml_flow_cookie :: "string \<Rightarrow> int \<Rightarrow> cookie" where
  "saml_flow_cookie v age = flow_cookie ''sso_state'' v True ''None'' age"

text \<open>The form of the callback, \<open>None\<close> when it does not parse: \<open>SAMLResponse\<close> and \<open>RelayState\<close>.\<close>

definition OrgSAMLCallback :: "sso_env \<Rightarrow> fresh \<Rightarrow> cookies \<Rightarrow> string \<Rightarrow> (string \<times> string) option \<Rightarrow> sso_answer prog" where
  "OrgSAMLCallback e f cs orgID form = (case form of
     None \<Rightarrow> State_Monad.return (plain [] (LoginError ''invalid form data''))
   | Some (samlResponse, relayState) \<Rightarrow> (case r_Cookie cs ''sso_state'' of
       None \<Rightarrow> State_Monad.return (plain [] (LoginError ''missing state cookie''))
     | Some v \<Rightarrow>
       let cks = [saml_flow_cookie [] (-1)] in
       if relayState = [] \<or> relayState \<noteq> fst (split_state v)
         then State_Monad.return (plain cks (LoginError ''invalid state parameter''))
       else do {
         row \<leftarrow> with_uuid (se_db e) orgID (select_row (sso_config_of (se_db e) orgID));
         case row of Inl _ \<Rightarrow> State_Monad.return (plain cks (LoginError ''SSO configuration not found''))
         | Inr c \<Rightarrow>
           if sc_provider c \<noteq> ''saml'' then State_Monad.return (plain cks (LoginError ''SSO configuration is not SAML''))
           else case saml_columns c of
             None \<Rightarrow> State_Monad.return (plain cks (LoginError ''incomplete SAML configuration''))
           | Some cfg \<Rightarrow>
             if \<not> NewSAMLProvider (se_saml e) (se_baseURL e) orgID cfg
               then State_Monad.return (plain cks (LoginError ''authentication failed''))
             else case ExchangeWithRequestID (se_saml e) (se_baseURL e) orgID cfg samlResponse (snd (split_state v)) of
               None \<Rightarrow> State_Monad.return (plain cks (LoginError ''authentication failed''))
             | Some info \<Rightarrow> enter_workspace e f cks orgID info }))"

text \<open>The configuration of a workspace the address is a member of.\<close>

definition sso_for_email :: "org_env \<Rightarrow> string \<Rightarrow> string \<Rightarrow> world \<Rightarrow> sso_config option" where
  "sso_for_email d email orgFilter w = find_where (\<lambda>c.
     (orgFilter = [] \<or> uuid_in d orgFilter = Some (sc_organization_id c)) \<and>
     list_ex (\<lambda>g. o_id g = sc_organization_id c) (organizations w) \<and>
     list_ex (\<lambda>m. m_organization_id m = sc_organization_id c \<and>
       list_ex (\<lambda>u. u_id u = m_user_id m \<and> u_email u = email) (users w)) (members w)) (sso_configs w)"

definition initiate_saml :: "sso_env \<Rightarrow> string \<Rightarrow> sso_config \<Rightarrow> sso_answer" where
  "initiate_saml e state c = (case saml_columns c of
     None \<Rightarrow> plain [] (Refused 500 ''incomplete SAML configuration'')
   | Some cfg \<Rightarrow>
     if \<not> NewSAMLProvider (se_saml e) (se_baseURL e) (sc_organization_id c) cfg then plain [] (Refused 500 ''failed to initiate SSO'')
     else case AuthnRequest (se_saml e) cfg (acsPath (se_baseURL e) (sc_organization_id c)) state of
       None \<Rightarrow> plain [] (Refused 500 ''failed to initiate SSO'')
     | Some (url, requestID) \<Rightarrow> plain [saml_flow_cookie (state @ ''|'' @ requestID) 300] (ToProvider url))"

definition initiate_oidc :: "sso_env \<Rightarrow> string \<Rightarrow> sso_config \<Rightarrow> sso_answer" where
  "initiate_oidc e state c = (case oidc_columns c of
     None \<Rightarrow> plain [] (Refused 500 ''incomplete OIDC configuration'')
   | Some cols \<Rightarrow> (case org_provider e cols of
       None \<Rightarrow> plain [] (Refused 500 ''failed to initiate SSO'')
     | Some p \<Rightarrow> plain [flow_cookie ''sso_state'' state (se_secureCookies e) ''Lax'' 300,
         flow_cookie ''sso_org'' (sc_organization_id c) (se_secureCookies e) ''Lax'' 300] (ToProvider (AuthURL p state))))"

definition InitiateOrgSSO :: "sso_env \<Rightarrow> fresh \<Rightarrow> string \<Rightarrow> string \<Rightarrow> sso_answer prog" where
  "InitiateOrgSSO e f email orgFilter =
     (if email = [] then State_Monad.return (plain [] (Refused 400 ''email is required''))
      else do {
        row \<leftarrow> (if orgFilter \<noteq> [] then with_uuid (se_db e) orgFilter (select_row (sso_for_email (se_db e) email orgFilter))
          else select_row (sso_for_email (se_db e) email orgFilter));
        State_Monad.return (case row of
            Inl _ \<Rightarrow> plain [] (Refused 404 (if orgFilter \<noteq> [] then ''no SSO configuration found for this workspace''
              else ''no SSO configuration found for this email''))
          | Inr c \<Rightarrow> (case generateState (fr_state f) of
              None \<Rightarrow> plain [] (Refused 500 ''failed to initiate SSO'')
            | Some state \<Rightarrow> if sc_provider c = ''saml'' then initiate_saml e state c else initiate_oidc e state c))
      })"

definition SPMetadata :: "sso_env \<Rightarrow> string \<Rightarrow> string response prog" where
  "SPMetadata e orgID = do {
     row \<leftarrow> with_uuid (se_db e) orgID (select_row (\<lambda>w. find_where (\<lambda>c. uuid_in (se_db e) orgID = Some (sc_organization_id c) \<and>
         sc_provider c = ''saml'') (sso_configs w)));
     State_Monad.return (case row of
         Inl NoRows \<Rightarrow> WriteError 404 ''SAML configuration not found''
       | Inl _ \<Rightarrow> WriteError 500 ''failed to load SAML configuration''
       | Inr c \<Rightarrow> (case saml_columns c of None \<Rightarrow> WriteError 404 ''incomplete SAML configuration''
         | Some cfg \<Rightarrow>
           if \<not> NewSAMLProvider (se_saml e) (se_baseURL e) orgID cfg then WriteError 500 ''failed to generate SP metadata''
           else case sp_metadata (se_saml e) cfg (metadataPath (se_baseURL e) orgID) (acsPath (se_baseURL e) orgID) of
             None \<Rightarrow> WriteError 500 ''failed to generate SP metadata'' | Some xml \<Rightarrow> WriteJSON 200 xml))
   }"

end
