(* ===== verification/Sso_Config.thy ===== *)
theory Sso_Config
  imports Sso
begin

text \<open>
  What an account and a workspace administer of their sign-in (\<open>internal/sso/handler.go\<close> and the two
  \<open>save...Config\<close> functions): the configuration of the workspace, the identities of the account, the token for SCIM.
\<close>

subsection \<open>The configuration of a workspace\<close>

record sso_config_request =
  rq_Provider :: string
  rq_IssuerURL :: string
  rq_ClientID :: string
  rq_ClientSecret :: string
  rq_EnforceSSO :: bool
  rq_SAMLMetadataURL :: string
  rq_SAMLMetadataXML :: string

text \<open>\<open>ON CONFLICT (organization_id) DO UPDATE\<close> sets every column but the key; the workspace must exist.\<close>

definition upsert_sso :: "sso_config \<Rightarrow> (db_error + unit) prog" where
  "upsert_sso c = db_stmt (\<lambda>w.
     if list_ex (\<lambda>x. sc_organization_id x = sc_organization_id c) (sso_configs w)
       then (Inr (), w\<lparr>sso_configs := upd_where (\<lambda>x. sc_organization_id x = sc_organization_id c) (\<lambda>_. c) (sso_configs w)\<rparr>)
     else if sc_organization_id c \<notin> o_id ` set (organizations w) then (Inl (DbFail ''violates foreign key constraint''), w)
     else (Inr (), w\<lparr>sso_configs := sso_configs w @ [c]\<rparr>))"

definition saved :: "(db_error + unit) \<Rightarrow> string response" where
  "saved r = (case r of Inl _ \<Rightarrow> WriteError 500 ''failed to save SSO config'' | Inr _ \<Rightarrow> WriteJSON 200 ''ok'')"

definition oidc_row :: "string \<Rightarrow> sso_config_request \<Rightarrow> string \<Rightarrow> sso_config" where
  "oidc_row i req secret = \<lparr>sc_organization_id = i, sc_provider = ''oidc'', sc_issuer_url = Some (rq_IssuerURL req),
     sc_client_id = Some (rq_ClientID req), sc_client_secret_encrypted = Some secret, sc_enforce_sso = rq_EnforceSSO req,
     sc_saml_metadata_url = None, sc_saml_entity_id = None, sc_saml_sso_url = None, sc_saml_certificate = None,
     sc_saml_metadata_xml = None\<rparr>"

definition saml_row :: "string \<Rightarrow> sso_config_request \<Rightarrow> saml_config \<Rightarrow> sso_config" where
  "saml_row i req cfg = \<lparr>sc_organization_id = i, sc_provider = ''saml'', sc_issuer_url = None, sc_client_id = None,
     sc_client_secret_encrypted = None, sc_enforce_sso = rq_EnforceSSO req, sc_saml_metadata_url = Some (rq_SAMLMetadataURL req),
     sc_saml_entity_id = Some (sa_EntityID cfg), sc_saml_sso_url = Some (sa_SSOURL cfg), sc_saml_certificate = Some (sa_Certificate cfg),
     sc_saml_metadata_xml = Some (rq_SAMLMetadataXML req)\<rparr>"

text \<open>An empty secret keeps the stored one; scanning a null column into a string fails too.\<close>

definition saveOIDCConfig :: "sso_env \<Rightarrow> fresh \<Rightarrow> string \<Rightarrow> sso_config_request \<Rightarrow> string response prog" where
  "saveOIDCConfig e f orgID req =
     (if rq_IssuerURL req = [] \<or> rq_ClientID req = [] then State_Monad.return (WriteError 400 ''issuer_url and client_id are required'')
      else do {
        secret \<leftarrow> (if rq_ClientSecret req = [] then do {
            row \<leftarrow> with_uuid (se_db e) orgID (select_row (sso_config_of (se_db e) orgID));
            State_Monad.return (case row of
                Inl _ \<Rightarrow> Inl (WriteError 400 ''client_secret is required'')
              | Inr c \<Rightarrow> (case sc_client_secret_encrypted c of None \<Rightarrow> Inl (WriteError 400 ''client_secret is required'')
                  | Some s \<Rightarrow> Inr s)) }
          else State_Monad.return (case Encrypt (se_aead e) (se_encryptionKey e) (fr_nonce f) (rq_ClientSecret req) of
              None \<Rightarrow> Inl (WriteError 500 ''failed to save SSO config'') | Some s \<Rightarrow> Inr s));
        case secret of Inl resp \<Rightarrow> State_Monad.return resp
        | Inr s \<Rightarrow> do {
            r \<leftarrow> with_uuid (se_db e) orgID (upsert_sso (oidc_row (the (uuid_in (se_db e) orgID)) req s));
            State_Monad.return (saved r) }
      })"

definition saveSAMLConfig :: "sso_env \<Rightarrow> string \<Rightarrow> sso_config_request \<Rightarrow> string response prog" where
  "saveSAMLConfig e orgID req =
     (if rq_SAMLMetadataURL req = [] \<and> rq_SAMLMetadataXML req = []
        then State_Monad.return (WriteError 400 ''saml_metadata_url or saml_metadata_xml is required'')
      else case (if rq_SAMLMetadataXML req \<noteq> [] then ParseSAMLMetadataFromXML (se_saml e) (rq_SAMLMetadataXML req)
          else ParseSAMLMetadataFromURL (se_saml e) (rq_SAMLMetadataURL req)) of
        None \<Rightarrow> State_Monad.return (WriteError 400 (if rq_SAMLMetadataXML req \<noteq> [] then ''invalid SAML metadata XML''
          else ''failed to fetch SAML metadata from URL''))
      | Some cfg \<Rightarrow> do {
          r \<leftarrow> with_uuid (se_db e) orgID (upsert_sso (saml_row (the (uuid_in (se_db e) orgID)) req cfg));
          State_Monad.return (saved r) })"

text \<open>The role a member has; every failure counts as none.\<close>

definition role_in :: "org_env \<Rightarrow> string \<Rightarrow> string \<Rightarrow> string option prog" where
  "role_in d orgID userID = do {
     row \<leftarrow> with_uuid d orgID (select_row (\<lambda>w. find_where (member_of d orgID userID) (members w)));
     State_Monad.return (map_option m_role (row_of row))
   }"

definition SaveConfig :: "sso_env \<Rightarrow> fresh \<Rightarrow> string \<Rightarrow> string \<Rightarrow> sso_config_request option \<Rightarrow> string response prog" where
  "SaveConfig e f userID orgID body = do {
     role \<leftarrow> role_in (se_db e) orgID userID;
     if role \<noteq> Some ''owner'' \<and> role \<noteq> Some ''admin'' then State_Monad.return (WriteError 403 ''admin or owner role required'')
     else case body of None \<Rightarrow> State_Monad.return bad_body
     | Some req \<Rightarrow> if rq_Provider req = ''saml'' then saveSAMLConfig e orgID req else saveOIDCConfig e f orgID req
   }"

record sso_config_response =
  sp_Provider :: string
  sp_IssuerURL :: string
  sp_ClientID :: string
  sp_ClientSecret :: string
  sp_EnforceSSO :: bool
  sp_Configured :: bool
  sp_SAMLMetadataURL :: string
  sp_SAMLEntityID :: string
  sp_SAMLSSOURL :: string
  sp_SPMetadataURL :: string

definition not_configured :: sso_config_response where
  "not_configured = \<lparr>sp_Provider = [], sp_IssuerURL = [], sp_ClientID = [], sp_ClientSecret = [], sp_EnforceSSO = False,
     sp_Configured = False, sp_SAMLMetadataURL = [], sp_SAMLEntityID = [], sp_SAMLSSOURL = [], sp_SPMetadataURL = []\<rparr>"

abbreviation or_empty :: "string option \<Rightarrow> string" where
  "or_empty x \<equiv> case_option [] (\<lambda>s. s) x"

definition config_answer :: "sso_env \<Rightarrow> string \<Rightarrow> sso_config \<Rightarrow> sso_config_response" where
  "config_answer e orgID c =
     (let base = not_configured\<lparr>sp_Provider := sc_provider c, sp_EnforceSSO := sc_enforce_sso c, sp_Configured := True\<rparr> in
      if sc_provider c = ''saml'' then base\<lparr>sp_SAMLMetadataURL := or_empty (sc_saml_metadata_url c),
        sp_SAMLEntityID := or_empty (sc_saml_entity_id c), sp_SAMLSSOURL := or_empty (sc_saml_sso_url c),
        sp_SPMetadataURL := metadataPath (se_baseURL e) orgID\<rparr>
      else base\<lparr>sp_IssuerURL := or_empty (sc_issuer_url c), sp_ClientID := or_empty (sc_client_id c), sp_ClientSecret := ''******''\<rparr>)"

definition GetConfig :: "sso_env \<Rightarrow> string \<Rightarrow> sso_config_response response prog" where
  "GetConfig e orgID = do {
     row \<leftarrow> with_uuid (se_db e) orgID (select_row (sso_config_of (se_db e) orgID));
     State_Monad.return (case row of
         Inl NoRows \<Rightarrow> WriteJSON 200 not_configured
       | Inl _ \<Rightarrow> WriteError 500 ''failed to load SSO config''
       | Inr c \<Rightarrow> WriteJSON 200 (config_answer e orgID c))
   }"

definition DeleteConfig :: "sso_env \<Rightarrow> string \<Rightarrow> string \<Rightarrow> string response prog" where
  "DeleteConfig e userID orgID = do {
     role \<leftarrow> role_in (se_db e) orgID userID;
     if role \<noteq> Some ''owner'' then State_Monad.return (WriteError 403 ''owner role required'')
     else do {
       r \<leftarrow> with_uuid (se_db e) orgID (exec_world (\<lambda>w. w\<lparr>sso_configs :=
           del_where (\<lambda>c. uuid_in (se_db e) orgID = Some (sc_organization_id c)) (sso_configs w)\<rparr>));
       State_Monad.return (case r of Inl _ \<Rightarrow> WriteError 500 ''failed to delete SSO config'' | Inr _ \<Rightarrow> WriteJSON 200 ''ok'') }
   }"

subsection \<open>The identities of an account\<close>

record identity_response =
  ir_Provider :: string
  ir_ExternalID :: string
  ir_Email :: string
  ir_CreatedAt :: time

definition identities_of :: "string \<Rightarrow> world \<Rightarrow> external_identity list" where
  "identities_of userID w = filter (\<lambda>i. ei_user_id i = userID) (external_identities w)"

text \<open>The answer tells also whether the account has a password.\<close>

definition ListIdentities :: "string \<Rightarrow> (identity_response list \<times> bool) response prog" where
  "ListIdentities userID =
     (if userID = [] then State_Monad.return (WriteError 401 ''authentication required'')
      else do {
        row \<leftarrow> select_row (\<lambda>w. find_where (\<lambda>u. u_id u = userID) (users w));
        case row of Inl _ \<Rightarrow> State_Monad.return (WriteError 500 ''failed to list identities'')
        | Inr u \<Rightarrow> do {
            r \<leftarrow> select_rows (\<lambda>w. sort_key ei_created_at (identities_of userID w));
            State_Monad.return (case r of Inl _ \<Rightarrow> WriteError 500 ''failed to list identities''
              | Inr is \<Rightarrow> WriteJSON 200 (map (\<lambda>i. \<lparr>ir_Provider = ei_provider i, ir_ExternalID = ei_external_id i,
                  ir_Email = ei_email i, ir_CreatedAt = ei_created_at i\<rparr>) is, u_password u \<noteq> [])) } })"

definition UnlinkIdentity :: "string \<Rightarrow> string \<Rightarrow> string response prog" where
  "UnlinkIdentity userID providerName =
     (if userID = [] then State_Monad.return (WriteError 401 ''authentication required'')
      else do {
        row \<leftarrow> select_row (\<lambda>w. find_where (\<lambda>u. u_id u = userID) (users w));
        case row of Inl _ \<Rightarrow> State_Monad.return (WriteError 500 ''failed to unlink identity'')
        | Inr u \<Rightarrow> do {
            r \<leftarrow> select_rows (\<lambda>w. length (identities_of userID w));
            case r of Inl _ \<Rightarrow> State_Monad.return (WriteError 500 ''failed to unlink identity'')
            | Inr identityCount \<Rightarrow>
              if u_password u = [] \<and> identityCount \<le> 1
                then State_Monad.return (WriteError 400 ''cannot unlink last identity without a password set'')
              else do {
                r \<leftarrow> exec_world (\<lambda>w. w\<lparr>external_identities :=
                    del_where (\<lambda>i. ei_user_id i = userID \<and> ei_provider i = providerName) (external_identities w)\<rparr>);
                State_Monad.return (case r of Inl _ \<Rightarrow> WriteError 500 ''failed to unlink identity'' | Inr _ \<Rightarrow> WriteJSON 200 ''ok'') } } })"

subsection \<open>The token for SCIM\<close>

text \<open>Nothing when the caller administers a workspace of the business plan, else the answer.\<close>

definition ensureSCIMAdminAccess :: "org_env \<Rightarrow> string \<Rightarrow> string \<Rightarrow> 'b response option prog" where
  "ensureSCIMAdminAccess d orgID userID = do {
     row \<leftarrow> with_uuid d orgID (select_row (\<lambda>w. Option.bind (find_where (member_of d orgID userID) (members w)) (\<lambda>m.
         map_option (\<lambda>g. (m_role m, o_plan g)) (find_where (\<lambda>g. o_id g = m_organization_id m) (organizations w)))));
     State_Monad.return (case row of
         Inl NoRows \<Rightarrow> Some (WriteError 403 ''admin or owner role required'')
       | Inl _ \<Rightarrow> Some (WriteError 500 ''failed to load organization access'')
       | Inr (role, plan) \<Rightarrow>
         if role \<noteq> ''owner'' \<and> role \<noteq> ''admin'' then Some (WriteError 403 ''admin or owner role required'')
         else if plan \<noteq> ''business'' then Some (WriteError 403 ''business plan required'') else None)
   }"

definition upsert_scim_token :: "string \<Rightarrow> string \<Rightarrow> (db_error + unit) prog" where
  "upsert_scim_token i h = db_stmt (\<lambda>w.
     if list_ex (\<lambda>t. st_organization_id t = i) (scim_tokens w)
       then (Inr (), w\<lparr>scim_tokens := upd_where (\<lambda>t. st_organization_id t = i)
         (\<lambda>t. t\<lparr>st_token_hash := h, st_created_at := now w\<rparr>) (scim_tokens w)\<rparr>)
     else if i \<notin> o_id ` set (organizations w) then (Inl (DbFail ''violates foreign key constraint''), w)
     else (Inr (), w\<lparr>scim_tokens := scim_tokens w @ [\<lparr>st_organization_id = i, st_token_hash = h, st_created_at = now w\<rparr>]\<rparr>))"

text \<open>\<open>random\<close> are the 32 random bytes; the answer shows the token, the row its hash.\<close>

definition GenerateSCIMToken :: "crypto \<Rightarrow> org_env \<Rightarrow> string option \<Rightarrow> string \<Rightarrow> string \<Rightarrow> string response prog" where
  "GenerateSCIMToken cy d random userID orgID = do {
     early \<leftarrow> ensureSCIMAdminAccess d orgID userID;
     case early of Some resp \<Rightarrow> State_Monad.return resp
     | None \<Rightarrow> (case random of None \<Rightarrow> State_Monad.return (WriteError 500 ''generate token failed'')
       | Some bytes \<Rightarrow>
         let token = ''scim_'' @ EncodeToString bytes in do {
           r \<leftarrow> with_uuid d orgID (upsert_scim_token (the (uuid_in d orgID)) (hashToken cy token));
           State_Monad.return (case r of Inl _ \<Rightarrow> WriteError 500 ''save token failed'' | Inr _ \<Rightarrow> WriteJSON 200 token) })
   }"

definition RevokeSCIMToken :: "org_env \<Rightarrow> string \<Rightarrow> string \<Rightarrow> string response prog" where
  "RevokeSCIMToken d userID orgID = do {
     early \<leftarrow> ensureSCIMAdminAccess d orgID userID;
     case early of Some resp \<Rightarrow> State_Monad.return resp
     | None \<Rightarrow> do {
         r \<leftarrow> with_uuid d orgID (exec_world (\<lambda>w. w\<lparr>scim_tokens :=
             del_where (\<lambda>t. uuid_in d orgID = Some (st_organization_id t)) (scim_tokens w)\<rparr>));
         State_Monad.return (case r of Inl _ \<Rightarrow> WriteError 500 ''revoke token failed'' | Inr _ \<Rightarrow> WriteJSON 200 ''SCIM token revoked'') }
   }"

definition GetSCIMToken :: "org_env \<Rightarrow> string \<Rightarrow> string \<Rightarrow> time option response prog" where
  "GetSCIMToken d userID orgID = do {
     early \<leftarrow> ensureSCIMAdminAccess d orgID userID;
     case early of Some resp \<Rightarrow> State_Monad.return resp
     | None \<Rightarrow> do {
         row \<leftarrow> with_uuid d orgID (select_row (\<lambda>w.
             find_where (\<lambda>t. uuid_in d orgID = Some (st_organization_id t)) (scim_tokens w)));
         State_Monad.return (case row of Inr t \<Rightarrow> WriteJSON 200 (Some (st_created_at t))
           | Inl NoRows \<Rightarrow> WriteJSON 200 None | Inl _ \<Rightarrow> WriteError 500 ''failed to load token status'') }
   }"

end
