(* ===== verification/Scim.thy ===== *)
theory Scim
  imports Sso_Config
begin

text \<open>
  Provisioning (\<open>internal/scim/\<close>): an identity provider creates, reads, changes and removes the accounts of a
  workspace with a bearer token. A path names a workspace and an account by text; the statements take it through the
  database's \<open>uuid_in\<close>, except that \<open>external_identities.provider\<close> is text.

  Three queries compare one parameter with a text column and with a key: PostgreSQL takes the parameter for text at
  the first comparison and then has no operator between a key and a text. \<open>mixes_types\<close> tells whether the database
  accepts such a statement.
\<close>

record scim_env =
  sc_db :: org_env
  sc_crypto :: crypto
  sc_baseURL :: string
  mixes_types :: bool

record scim_name =
  sn_Formatted :: string
  sn_GivenName :: string
  sn_FamilyName :: string

record scim_user =
  su_ID :: string
  su_ExternalID :: string
  su_UserName :: string
  su_Name :: scim_name
  su_Emails :: "(string \<times> bool) list"
  su_Active :: bool
  su_Location :: string

subsection \<open>Who calls\<close>

definition BearerAuth :: "scim_env \<Rightarrow> string \<Rightarrow> string \<Rightarrow> 'b response option prog" where
  "BearerAuth s orgID authHeader =
     (if \<not> has_prefix authHeader ''Bearer '' then State_Monad.return (Some (WriteError 401 ''missing or invalid Authorization header''))
      else do {
        row \<leftarrow> with_uuid (sc_db s) orgID (select_row (\<lambda>w.
            Option.bind (find_where (\<lambda>t. uuid_in (sc_db s) orgID = Some (st_organization_id t)) (scim_tokens w)) (\<lambda>t.
              map_option (\<lambda>g. (st_token_hash t, o_plan g)) (find_where (\<lambda>g. o_id g = st_organization_id t) (organizations w)))));
        State_Monad.return (case row of
            Inl NoRows \<Rightarrow> Some (WriteError 401 ''SCIM not configured for this organization'')
          | Inl _ \<Rightarrow> Some (WriteError 500 ''internal error'')
          | Inr (storedHash, plan) \<Rightarrow>
            if plan \<noteq> ''business'' then Some (WriteError 403 ''business plan required'')
            else if hashToken (sc_crypto s) (trim_prefix authHeader ''Bearer '') \<noteq> storedHash
              then Some (WriteError 401 ''invalid token'')
            else None)
      })"

text \<open>The middleware around a handler (\<open>server.go\<close>).\<close>

definition with_bearer :: "scim_env \<Rightarrow> string \<Rightarrow> string \<Rightarrow> 'b response prog \<Rightarrow> 'b response prog" where
  "with_bearer s orgID authHeader handler = do {
     early \<leftarrow> BearerAuth s orgID authHeader;
     case early of Some resp \<Rightarrow> State_Monad.return resp | None \<Rightarrow> handler
   }"

subsection \<open>Statements\<close>

definition failing :: "string \<Rightarrow> (db_error + 'a) prog" where
  "failing msg = do { f \<leftarrow> call; State_Monad.return (Inl (DbFail (case f of Some x \<Rightarrow> x | None \<Rightarrow> msg))) }"

text \<open>A statement about the account a text denotes.\<close>

definition for_key :: "string option \<Rightarrow> (string \<Rightarrow> (db_error + 'a) prog) \<Rightarrow> (db_error + 'a) prog" where
  "for_key key m = (case key of None \<Rightarrow> failing ''invalid input syntax for type uuid'' | Some k \<Rightarrow> m k)"

definition mixed_query :: "scim_env \<Rightarrow> (db_error + 'a) prog \<Rightarrow> (db_error + 'a) prog" where
  "mixed_query s m = (if mixes_types s then m else failing ''operator does not exist: uuid = text'')"

definition setMembership :: "scim_env \<Rightarrow> string \<Rightarrow> string option \<Rightarrow> bool \<Rightarrow> (db_error + unit) prog" where
  "setMembership s orgID key active = for_key key (\<lambda>userID.
     if active then join_as_member (sc_db s) orgID userID
     else with_uuid (sc_db s) orgID (exec_world (\<lambda>w. w\<lparr>members :=
       del_where (member_of (sc_db s) orgID userID) (members w)\<rparr>)))"

definition upsertExternalIdentity :: "string option \<Rightarrow> string \<Rightarrow> string \<Rightarrow> string \<Rightarrow> (db_error + unit) prog" where
  "upsertExternalIdentity key orgID externalID email = for_key key (\<lambda>userID. link_identity userID orgID externalID email)"

text \<open>\<open>UPDATE users SET ..\<close> with the address, the name or both; addresses are unique.\<close>

definition updateUserProfile :: "string option \<Rightarrow> string option \<Rightarrow> string option \<Rightarrow> (db_error + unit) prog" where
  "updateUserProfile key email name =
     (if email = None \<and> name = None then State_Monad.return (Inr ())
      else for_key key (\<lambda>userID. db_stmt (\<lambda>w.
        if list_ex (\<lambda>u. u_id u = userID) (users w) \<and>
           list_ex (\<lambda>u. u_id u \<noteq> userID \<and> Some (u_email u) = email) (users w) then (Inl UniqueViolation, w)
        else (Inr (), w\<lparr>users := upd_where (\<lambda>u. u_id u = userID)
          (\<lambda>u. u\<lparr>u_email := case_option (u_email u) (\<lambda>x. x) email, u_name := case_option (u_name u) (\<lambda>x. x) name\<rparr>) (users w)\<rparr>))))"

text \<open>The account of a new identity, with whether it was made; \<open>None\<close> is an error.\<close>

definition resolveUser_scim :: "string \<Rightarrow> string \<Rightarrow> string \<Rightarrow> string \<Rightarrow> string \<Rightarrow> (string \<times> bool) option prog" where
  "resolveUser_scim orgID newID externalID email name = do {
     row \<leftarrow> select_row (find_identity orgID externalID);
     case row of Inr i \<Rightarrow> State_Monad.return (Some (ei_user_id i, False))
     | Inl NoRows \<Rightarrow> do {
         row \<leftarrow> select_row (\<lambda>w. find_where (\<lambda>u. u_email u = email) (users w));
         case row of
           Inr u \<Rightarrow>
             if \<not> u_email_verified u then State_Monad.return None
             else do {
               r \<leftarrow> link_identity (u_id u) orgID externalID email;
               State_Monad.return (case r of Inl _ \<Rightarrow> None | Inr _ \<Rightarrow> Some (u_id u, False)) }
         | Inl NoRows \<Rightarrow> do {
             row \<leftarrow> upsert_user (new_user newID email [] name True);
             case row of Inl _ \<Rightarrow> State_Monad.return None
             | Inr userID \<Rightarrow> do {
                 r \<leftarrow> link_identity userID orgID externalID email;
                 State_Monad.return (case r of Inl _ \<Rightarrow> None | Inr _ \<Rightarrow> Some (userID, True)) } }
         | Inl _ \<Rightarrow> State_Monad.return None }
     | Inl _ \<Rightarrow> State_Monad.return None
   }"

subsection \<open>Reading accounts\<close>

text \<open>The left joins: one row for each identity an account has with the workspace, one without any for a mere member.\<close>

definition scim_rows :: "scim_env \<Rightarrow> string \<Rightarrow> world \<Rightarrow> (user \<times> string \<times> bool) list" where
  "scim_rows s orgID w = concat (map (\<lambda>u.
     let links = filter (\<lambda>i. ei_user_id i = u_id u \<and> ei_provider i = orgID) (external_identities w);
         active = list_ex (member_of (sc_db s) orgID (u_id u)) (members w)
     in if links = [] then (if active then [(u, [], True)] else [])
        else map (\<lambda>i. (u, ei_external_id i, active)) links) (users w))"

definition scimUser :: "scim_env \<Rightarrow> string \<Rightarrow> user \<times> string \<times> bool \<Rightarrow> scim_user" where
  "scimUser s orgID row = (case row of (u, externalID, active) \<Rightarrow>
     \<lparr>su_ID = u_id u, su_ExternalID = externalID, su_UserName = u_email u,
      su_Name = \<lparr>sn_Formatted = u_name u, sn_GivenName = [], sn_FamilyName = []\<rparr>, su_Emails = [(u_email u, True)],
      su_Active = active, su_Location = sc_baseURL s @ ''/api/organizations/'' @ orgID @ ''/scim/v2/Users/'' @ u_id u\<rparr>)"

definition fetchSCIMUser :: "scim_env \<Rightarrow> string option \<Rightarrow> string \<Rightarrow> (db_error + scim_user) prog" where
  "fetchSCIMUser s key orgID = mixed_query s (for_key key (\<lambda>userID. with_uuid (sc_db s) orgID (select_row (\<lambda>w.
     map_option (scimUser s orgID) (find_where (\<lambda>(u, _). u_id u = userID) (scim_rows s orgID w))))))"

definition fetched :: "scim_env \<Rightarrow> string \<Rightarrow> string option \<Rightarrow> scim_user response prog" where
  "fetched s orgID key = do {
     row \<leftarrow> fetchSCIMUser s key orgID;
     State_Monad.return (case row of Inl _ \<Rightarrow> WriteError 404 ''User not found'' | Inr u \<Rightarrow> WriteJSON 200 u)
   }"

definition GetUser_scim :: "scim_env \<Rightarrow> string \<Rightarrow> string \<Rightarrow> scim_user response prog" where
  "GetUser_scim s orgID userID = fetched s orgID (uuid_in (sc_db s) userID)"

text \<open>\<open>userName eq "address"\<close>; anything else is no filter.\<close>

definition parseUserNameFilter :: "string \<Rightarrow> string" where
  "parseUserNameFilter flt = (case index_of flt '' eq '' of
     None \<Rightarrow> []
   | Some n \<Rightarrow>
     if trim_space (take n flt) \<noteq> ''userName'' then []
     else trim_right {CHR 0x22} (dropWhile (\<lambda>c. c = CHR 0x22) (trim_space (drop (n + 4) flt))))"

definition scim_count :: "string \<Rightarrow> int" where
  "scim_count raw = (case Atoi raw of Some v \<Rightarrow> if 0 < v \<and> v \<le> 100 then v else 100 | None \<Rightarrow> 100)"

definition scim_start :: "string \<Rightarrow> int" where
  "scim_start raw = (case Atoi raw of Some v \<Rightarrow> if 0 < v then v else 1 | None \<Rightarrow> 1)"

record scim_list =
  sl_TotalResults :: nat
  sl_ItemsPerPage :: nat
  sl_StartIndex :: int
  sl_Resources :: "scim_user list"

text \<open>\<open>collation\<close> is the order of the database on addresses.\<close>

definition ListUsers :: "scim_env \<Rightarrow> (string \<Rightarrow> nat) \<Rightarrow> string \<Rightarrow> string \<Rightarrow> string \<Rightarrow> string \<Rightarrow> scim_list response prog" where
  "ListUsers s collation orgID countText startText flt =
     (let email = parseUserNameFilter flt;
          rows = (\<lambda>w. filter (\<lambda>(u, _). email = [] \<or> u_email u = email) (scim_rows s orgID w))
      in do {
        r \<leftarrow> mixed_query s (with_uuid (sc_db s) orgID (select_rows (\<lambda>w. length (rows w))));
        case r of Inl _ \<Rightarrow> State_Monad.return (WriteError 500 ''query failed'')
        | Inr count \<Rightarrow> do {
            r \<leftarrow> mixed_query s (with_uuid (sc_db s) orgID (select_rows (\<lambda>w.
                take (nat (scim_count countText)) (drop (nat (scim_start startText - 1))
                  (sort_key (\<lambda>(u, _). collation (u_email u)) (rows w))))));
            State_Monad.return (case r of Inl _ \<Rightarrow> WriteError 500 ''query failed''
              | Inr rs \<Rightarrow> WriteJSON 200 \<lparr>sl_TotalResults = count, sl_ItemsPerPage = length rs, sl_StartIndex = scim_start startText,
                  sl_Resources = map (scimUser s orgID) rs\<rparr>) } })"

subsection \<open>Creating one\<close>

definition request_email :: "scim_user \<Rightarrow> string" where
  "request_email req = (if su_UserName req = [] \<and> su_Emails req \<noteq> [] then fst (hd (su_Emails req)) else su_UserName req)"

definition formattedName :: "scim_name \<Rightarrow> string" where
  "formattedName n =
     (if sn_Formatted n \<noteq> [] then sn_Formatted n
      else if sn_GivenName n = [] then []
      else if sn_FamilyName n = [] then sn_GivenName n
      else sn_GivenName n @ '' '' @ sn_FamilyName n)"

definition CreateUser :: "scim_env \<Rightarrow> string \<Rightarrow> string \<Rightarrow> scim_user option \<Rightarrow> scim_user response prog" where
  "CreateUser s newID orgID body = (case body of
     None \<Rightarrow> State_Monad.return (WriteError 400 ''invalid JSON'')
   | Some req \<Rightarrow>
     let email = request_email req; name = formattedName (su_Name req);
         externalID = (if su_ExternalID req = [] then email else su_ExternalID req) in
     if email = [] then State_Monad.return (WriteError 400 ''userName or emails required'')
     else if validate_Name name \<noteq> [] then State_Monad.return (WriteError 400 (validate_Name name))
     else do {
       r \<leftarrow> resolveUser_scim orgID newID externalID email name;
       case r of None \<Rightarrow> State_Monad.return (WriteError 500 ''provision user failed'')
       | Some (userID, created) \<Rightarrow> do {
           r \<leftarrow> setMembership s orgID (Some userID) True;
           case r of Inl _ \<Rightarrow> State_Monad.return (WriteError 500 ''add member failed'')
           | Inr _ \<Rightarrow> do {
               row \<leftarrow> fetchSCIMUser s (Some userID) orgID;
               State_Monad.return (case row of Inl _ \<Rightarrow> WriteError 500 ''fetch user failed''
                 | Inr u \<Rightarrow> WriteJSON (if created then 201 else 200) u) } } })"

subsection \<open>Changing and removing one\<close>

record scim_update =
  pu_Email :: "string option"
  pu_Name :: "string option"
  pu_Active :: "bool option"
  pu_ExternalID :: "string option"

definition no_update :: scim_update where
  "no_update = \<lparr>pu_Email = None, pu_Name = None, pu_Active = None, pu_ExternalID = None\<rparr>"

text \<open>One after the other, up to the first that fails.\<close>

definition applyUserUpdate :: "scim_env \<Rightarrow> string \<Rightarrow> string option \<Rightarrow> scim_update \<Rightarrow> (db_error + unit) prog" where
  "applyUserUpdate s orgID key upd = do {
     r \<leftarrow> updateUserProfile key (pu_Email upd) (pu_Name upd);
     case r of Inl e \<Rightarrow> State_Monad.return (Inl e)
     | Inr _ \<Rightarrow> do {
         r \<leftarrow> (case pu_Active upd of None \<Rightarrow> State_Monad.return (Inr ()) | Some a \<Rightarrow> setMembership s orgID key a);
         case r of Inl e \<Rightarrow> State_Monad.return (Inl e)
         | Inr _ \<Rightarrow> (case pu_ExternalID upd of None \<Rightarrow> State_Monad.return (Inr ())
             | Some x \<Rightarrow> upsertExternalIdentity key orgID x (case_option [] (\<lambda>e. e) (pu_Email upd))) }
   }"

text \<open>A value of the request; \<open>JOther\<close> is also what an absent value or \<open>null\<close> counts as.\<close>

record scim_operation =
  op_Op :: string
  op_Path :: string
  op_Value :: json

fun json_string :: "json \<Rightarrow> string option" where
  "json_string (JString x) = Some x" | "json_string _ = None"

fun json_bool :: "json \<Rightarrow> bool option" where
  "json_bool (JBool b) = Some b" | "json_bool _ = None"

fun json_object :: "json \<Rightarrow> (string \<times> json) list option" where
  "json_object (JObject ms) = Some ms" | "json_object _ = None"

text \<open>An absent member is fine and gives nothing, one of the wrong type is an error.\<close>

definition typed_member :: "(json \<Rightarrow> 'a option) \<Rightarrow> string \<Rightarrow> (string \<times> json) list \<Rightarrow> 'a option option" where
  "typed_member f k ms = (case json_member k ms of None \<Rightarrow> Some None | Some v \<Rightarrow> map_option Some (f v))"

definition parse_object :: "(string \<times> json) list \<Rightarrow> scim_update option" where
  "parse_object ms = (case typed_member json_bool ''active'' ms of None \<Rightarrow> None
     | Some active \<Rightarrow> (case typed_member json_string ''userName'' ms of None \<Rightarrow> None
       | Some email \<Rightarrow>
         (case (case Option.bind (json_member ''name'' ms) json_object of None \<Rightarrow> Some None
             | Some ns \<Rightarrow> typed_member json_string ''formatted'' ns) of None \<Rightarrow> None
          | Some name \<Rightarrow> (case typed_member json_string ''externalId'' ms of None \<Rightarrow> None
             | Some ext \<Rightarrow> Some \<lparr>pu_Email = email, pu_Name = name, pu_Active = active, pu_ExternalID = ext\<rparr>))))"

definition parsePatchOperation :: "scim_operation \<Rightarrow> scim_update option" where
  "parsePatchOperation p =
     (if op_Path p \<noteq> [] then
        if op_Path p = ''active'' then map_option (\<lambda>b. no_update\<lparr>pu_Active := Some b\<rparr>) (json_bool (op_Value p))
        else if op_Path p = ''name.formatted'' then map_option (\<lambda>n. no_update\<lparr>pu_Name := Some n\<rparr>) (json_string (op_Value p))
        else if op_Path p = ''userName'' then map_option (\<lambda>n. no_update\<lparr>pu_Email := Some n\<rparr>) (json_string (op_Value p))
        else Some no_update
      else Option.bind (json_object (op_Value p)) parse_object)"

text \<open>The loop over the operations: an answer that ends it, or whether one of them deactivated the account.\<close>

fun patch_all :: "scim_env \<Rightarrow> string \<Rightarrow> string option \<Rightarrow> bool \<Rightarrow> scim_operation list \<Rightarrow> (scim_user response + bool) prog" where
  "patch_all s orgID key noContent [] = State_Monad.return (Inr noContent)"
| "patch_all s orgID key noContent (p # ps) =
     (if \<not> EqualFold (sc_db s) (op_Op p) ''replace'' then patch_all s orgID key noContent ps
      else case parsePatchOperation p of
        None \<Rightarrow> State_Monad.return (Inl (WriteError 400 ''invalid patch operation''))
      | Some upd \<Rightarrow>
        if (case pu_Name upd of None \<Rightarrow> False | Some n \<Rightarrow> validate_Name n \<noteq> [])
          then State_Monad.return (Inl (WriteError 400 (validate_Name (the (pu_Name upd)))))
        else do {
          r \<leftarrow> applyUserUpdate s orgID key upd;
          case r of Inl _ \<Rightarrow> State_Monad.return (Inl (WriteError 500 ''update user failed''))
          | Inr _ \<Rightarrow> patch_all s orgID key (noContent \<or> pu_Active upd = Some False) ps })"

definition PatchUser :: "scim_env \<Rightarrow> string \<Rightarrow> string \<Rightarrow> scim_operation list option \<Rightarrow> scim_user response prog" where
  "PatchUser s orgID userID body = (case body of
     None \<Rightarrow> State_Monad.return (WriteError 400 ''invalid JSON'')
   | Some ops \<Rightarrow> do {
       r \<leftarrow> patch_all s orgID (uuid_in (sc_db s) userID) False ops;
       case r of Inl resp \<Rightarrow> State_Monad.return resp
       | Inr True \<Rightarrow> State_Monad.return (WriteHeader 204)
       | Inr False \<Rightarrow> fetched s orgID (uuid_in (sc_db s) userID) })"

abbreviation unless_empty :: "string \<Rightarrow> string option" where
  "unless_empty x \<equiv> if x = [] then None else Some x"

definition ReplaceUser :: "scim_env \<Rightarrow> string \<Rightarrow> string \<Rightarrow> scim_user option \<Rightarrow> scim_user response prog" where
  "ReplaceUser s orgID userID body = (case body of
     None \<Rightarrow> State_Monad.return (WriteError 400 ''invalid JSON'')
   | Some req \<Rightarrow>
     let email = request_email req; name = formattedName (su_Name req) in
     if email = [] then State_Monad.return (WriteError 400 ''userName or emails required'')
     else if name \<noteq> [] \<and> validate_Name name \<noteq> [] then State_Monad.return (WriteError 400 (validate_Name name))
     else do {
       r \<leftarrow> applyUserUpdate s orgID (uuid_in (sc_db s) userID) \<lparr>pu_Email = Some email, pu_Name = unless_empty name,
         pu_Active = Some (su_Active req), pu_ExternalID = unless_empty (su_ExternalID req)\<rparr>;
       case r of Inl _ \<Rightarrow> State_Monad.return (WriteError 500 ''replace user failed'')
       | Inr _ \<Rightarrow> fetched s orgID (uuid_in (sc_db s) userID) })"

definition DeleteUser :: "scim_env \<Rightarrow> string \<Rightarrow> string \<Rightarrow> scim_user response prog" where
  "DeleteUser s orgID userID = do {
     r \<leftarrow> setMembership s orgID (uuid_in (sc_db s) userID) False;
     State_Monad.return (case r of Inl _ \<Rightarrow> WriteError 500 ''delete user failed'' | Inr _ \<Rightarrow> WriteHeader 204)
   }"

text \<open>The two fixed answers: what the service supports and the one resource type, by its attributes.\<close>

definition supported :: "(string \<times> bool) list" where
  "supported = [(''patch'', True), (''bulk'', False), (''filter'', True), (''changePassword'', False), (''sort'', False), (''etag'', False)]"

definition user_attributes :: "string list" where
  "user_attributes = [''userName'', ''name'', ''emails'', ''active'', ''externalId'']"

definition ServiceProviderConfig :: "(string \<times> bool) list response" where
  "ServiceProviderConfig = WriteJSON 200 supported"

definition Schemas :: "string list response" where
  "Schemas = WriteJSON 200 user_attributes"

end
