(* ===== verification/Identity_Facts.thy ===== *)
theory Identity_Facts
  imports Scim Account_Facts
begin

text \<open>
  What single sign-on and provisioning promise: who is signed in and why, which accounts, identities and memberships
  a request may touch, and what modelling showed of accounts that belong to others.
\<close>

subsection \<open>Who is signed in\<close>

text \<open>Why an account is signed in for what a provider told.\<close>

definition vouched :: "world \<Rightarrow> string \<Rightarrow> string \<Rightarrow> user_info \<Rightarrow> string \<Rightarrow> bool" where
  "vouched w provider newID info uid \<longleftrightarrow>
     (\<exists>i \<in> set (external_identities w). ei_provider i = provider \<and> ei_external_id i = ui_ExternalID info \<and> ei_user_id i = uid) \<or>
     (\<exists>u \<in> set (users w). u_email u = ui_Email info \<and> u_id u = uid \<and> (u_email_verified u \<or> faults w \<noteq> [])) \<or>
     (uid = newID \<and> newID \<notin> u_id ` set (users w))"

lemma fault_there: "next_fault w = Some msg \<Longrightarrow> faults w \<noteq> []"
  by auto

lemma later_fault_there: "next_fault (tick w) = Some msg \<Longrightarrow> faults w \<noteq> []"
  by (auto simp: next_fault_def tick_def split: list.splits)

lemma find_identity_tick [simp]: "find_identity p x (tick w) = find_identity p x w"
  by (simp add: find_identity_def)

lemma find_identityD:
  "find_identity p x w = Some i \<Longrightarrow> i \<in> set (external_identities w) \<and> ei_provider i = p \<and> ei_external_id i = x"
  unfolding find_identity_def by (auto dest: find_where_SomeD)

lemma wrapped_Inr: "wrapped msg u r = Inr v \<longleftrightarrow> r = Inr () \<and> v = u"
  by (cases r) (auto simp: wrapped_def)

lemma upsert_user_wp:
  "wp (upsert_user mk) (\<lambda>r t. \<forall>uid. r = Inr uid \<longrightarrow>
     (\<exists>u \<in> set (users w). u_id u = uid \<and> u_email u = u_email (mk (now w))) \<and> t = tick w \<or>
     uid = u_id (mk (now w)) \<and> uid \<notin> u_id ` set (users w) \<and> u_email (mk (now w)) \<notin> u_email ` set (users w) \<and>
       t = (tick w)\<lparr>users := users w @ [mk (now w)]\<rparr>) w"
  unfolding upsert_user_def by (auto simp: find_where_None split: option.split)

lemma resolveUser_wp:
  "wp (resolveUser provider newID info) (\<lambda>r t. \<forall>uid. r = Inr uid \<longrightarrow> vouched w provider newID info uid) w"
proof -
  have found: "vouched w provider newID info (ei_user_id i)" if "find_identity provider (ui_ExternalID info) w = Some i" for i
    using find_identityD [OF that] by (auto simp: vouched_def)
  have user: "vouched w provider newID info (u_id u)"
    if "find_where (\<lambda>u. u_email u = ui_Email info) (users w) = Some u" "u_email_verified u" for u
    using find_where_SomeD [OF that(1)] that(2) by (auto simp: vouched_def)
  have made: "wp (upsert_user (new_user newID (ui_Email info) [] nm True))
      (\<lambda>r t. \<forall>uid. r = Inr uid \<longrightarrow> vouched w provider newID info uid) v"
    if "users v = users w" "(\<exists>u \<in> set (users w). u_email u = ui_Email info) \<longrightarrow> faults w \<noteq> []" for nm v
    using upsert_user_wp [of "new_user newID (ui_Email info) [] nm True" v]
    by (rule wp_mono) (use that in \<open>auto simp: new_user_def vouched_def\<close>)
  have link: "wp (link_identity a b c d) Q v" if "\<And>r t. Q r t" for a b c d Q v
    using that by (rule wp_run)
  have upsert: "wp (upsert_user (new_user newID (ui_Email info) [] nm True)) Q v"
    if "users v = users w" "(\<exists>u \<in> set (users w). u_email u = ui_Email info) \<longrightarrow> faults w \<noteq> []"
      "\<And>r t. (\<forall>uid. r = Inr uid \<longrightarrow> vouched w provider newID info uid) \<Longrightarrow> Q r t" for nm v Q
    using made [OF that(1,2)] that(3) by (rule wp_mono)
  show ?thesis
    unfolding resolveUser_def
    by (intro wp_walk link upsert) (auto simp: wrapped_Inr found user find_where_None dest: fault_there later_fault_there)
qed

lemma vouched_same:
  "users v = users w \<Longrightarrow> external_identities v = external_identities w \<Longrightarrow> (faults v \<noteq> [] \<longrightarrow> faults w \<noteq> []) \<Longrightarrow>
   vouched v p n info uid \<Longrightarrow> vouched w p n info uid"
  unfolding vouched_def by auto

lemma resolved:
  "(\<And>r t. (\<forall>uid. r = Inr uid \<longrightarrow> vouched w provider newID info uid) \<Longrightarrow> Q r t) \<Longrightarrow>
   users v = users w \<Longrightarrow> external_identities v = external_identities w \<Longrightarrow> (faults v \<noteq> [] \<longrightarrow> faults w \<noteq> []) \<Longrightarrow>
   wp (resolveUser provider newID info) Q v"
  using vouched_same [of v w] by (intro wp_mono [OF resolveUser_wp]) blast

lemma start_session_wp:
  "wp (start_session e f cks userID) (\<lambda>a t. \<forall>uid. an_user a = Some uid \<longrightarrow> uid = userID \<and>
     (\<exists>tid. fr_tokenID f = Some tid \<and> refresh_tokens t = refresh_tokens w @
        [\<lparr>rt_token_id = tid, rt_user_id = uid, rt_expires_at = now w + RefreshTokenDuration, rt_revoked = False\<rparr>])) w"
  unfolding start_session_def IssueTokens_def insert_refresh_def plain_def
  by (auto split: option.split sum.split)

lemma plain_user [simp]: "an_user (plain cks r) = None"
  by (simp add: plain_def)

lemma session: "(\<And>a t. (\<forall>uid. an_user a = Some uid \<longrightarrow> uid = userID) \<Longrightarrow> Q a t) \<Longrightarrow> wp (start_session e f cks userID) Q w"
  by (rule wp_mono [OF start_session_wp]) blast

lemma entered:
  assumes "\<And>a t. (\<forall>uid. an_user a = Some uid \<longrightarrow> vouched w orgID (fr_userID f) info uid) \<Longrightarrow> Q a t"
    and "users v = users w" "external_identities v = external_identities w" "faults v \<noteq> [] \<longrightarrow> faults w \<noteq> []"
  shows "wp (enter_workspace e f cks orgID info) Q v"
proof -
  have step: "wp (join_as_member (se_db e) orgID userID) (\<lambda>_. wp (start_session e f cks userID) Q) t"
    if "vouched w orgID (fr_userID f) info userID" for userID t
    by (rule wp_run, rule session, rule assms(1)) (use that in blast)
  show ?thesis
    unfolding enter_workspace_def
    by (intro wp_walk resolved [where w = w] assms(2-4)) (auto intro!: assms(1) step split: sum.split)
qed

text \<open>The state of a callback is that of the cookie the flow was started with.\<close>

definition same_flow :: "cookies \<Rightarrow> string \<Rightarrow> bool" where
  "same_flow cs state \<longleftrightarrow> state \<noteq> [] \<and> r_Cookie cs ''sso_state'' = Some state"

lemma Callback_vouched:
  "wp (Callback e f cs p q) (\<lambda>a t. \<forall>uid. an_user a = Some uid \<longrightarrow> same_flow cs (cb_state q) \<and>
     (\<exists>pr info. map_of (se_providers e) p = Some pr \<and> Exchange pr (cb_code q) = Some info \<and>
        vouched w p (fr_userID f) info uid)) w"
  unfolding Callback_def same_flow_def
  by (intro wp_walk resolved [where w = w] session) (auto split: sum.splits)

lemma sso_config_of_tick [simp]: "sso_config_of d g (tick w) = sso_config_of d g w"
  by (simp add: sso_config_of_def)

lemma config_found:
  assumes "\<And>c t. sso_config_of d g w = Some c \<Longrightarrow> t = tick w \<Longrightarrow> Q (Inr c) t" "\<And>x t. Q (Inl x) t"
  shows "wp (with_uuid d g (select_row (sso_config_of d g))) Q w"
  unfolding with_uuid_def using assms by (auto split: option.split)

lemma tick_faults_nil: "faults w = [] \<Longrightarrow> faults (tick w) = []"
  by (auto simp: tick_def)

text \<open>What the provider of a workspace told for the code of a callback, or the identity provider in a SAML response.\<close>

definition told_by_oidc :: "sso_env \<Rightarrow> world \<Rightarrow> cookies \<Rightarrow> string \<Rightarrow> string \<Rightarrow> user_info \<Rightarrow> bool" where
  "told_by_oidc e w cs code orgID info \<longleftrightarrow> r_Cookie cs ''sso_org'' = Some orgID \<and>
     (\<exists>c cols pr. sso_config_of (se_db e) orgID w = Some c \<and> oidc_columns c = Some cols \<and> org_provider e cols = Some pr \<and>
        Exchange pr code = Some info)"

definition told_by_saml :: "sso_env \<Rightarrow> world \<Rightarrow> string \<Rightarrow> string \<Rightarrow> string \<Rightarrow> user_info \<Rightarrow> bool" where
  "told_by_saml e w orgID answer requestID info \<longleftrightarrow>
     (\<exists>c cfg. sso_config_of (se_db e) orgID w = Some c \<and> sc_provider c = ''saml'' \<and> saml_columns c = Some cfg \<and>
        ExchangeWithRequestID (se_saml e) (se_baseURL e) orgID cfg answer requestID = Some info)"

lemma OrgCallback_vouched:
  "wp (OrgCallback e f cs q) (\<lambda>a t. \<forall>uid. an_user a = Some uid \<longrightarrow> same_flow cs (cb_state q) \<and>
     (\<exists>orgID info. told_by_oidc e w cs (cb_code q) orgID info \<and> vouched w orgID (fr_userID f) info uid)) w"
proof -
  have told: "told_by_oidc e w cs code orgID info"
    if "r_Cookie cs ''sso_org'' = Some orgID" "sso_config_of (se_db e) orgID w = Some c" "oidc_columns c = Some cols"
      "Option.bind (org_provider e cols) (\<lambda>p. Exchange p code) = Some info" for code orgID c cols info
    using that unfolding told_by_oidc_def bind_eq_Some_conv by blast
  show ?thesis
    unfolding OrgCallback_def same_flow_def
    by (intro wp_walk config_found entered [where w = w]) (auto simp: tick_faults_nil dest: told)
qed

lemma OrgSAMLCallback_vouched:
  "wp (OrgSAMLCallback e f cs org form) (\<lambda>a t. \<forall>uid. an_user a = Some uid \<longrightarrow>
     (\<exists>answer state v info. form = Some (answer, state) \<and> state \<noteq> [] \<and> r_Cookie cs ''sso_state'' = Some v \<and>
        fst (split_state v) = state \<and> told_by_saml e w org answer (snd (split_state v)) info \<and>
        vouched w org (fr_userID f) info uid)) w"
proof -
  have told: "told_by_saml e w org answer requestID info"
    if "sso_config_of (se_db e) org w = Some c" "sc_provider c = ''saml''" "saml_columns c = Some cfg"
      "ExchangeWithRequestID (se_saml e) (se_baseURL e) org cfg answer requestID = Some info" for c cfg answer requestID info
    using that unfolding told_by_saml_def by blast
  show ?thesis
    unfolding OrgSAMLCallback_def
    by (intro wp_walk config_found entered [where w = w]) (auto simp: tick_faults_nil dest: told)
qed



text \<open>A new account by the code of a registered provider.\<close>

definition sample_info :: user_info where
  "sample_info = \<lparr>ui_ExternalID = ''42'', ui_Email = ''ann@acme.eu'', ui_Name = ''Ann''\<rparr>"

definition sample_idp :: provider where
  "sample_idp = \<lparr>AuthURL = (\<lambda>s. ''https://idp/'' @ s), Exchange = (\<lambda>c. if c = ''code'' then Some sample_info else None)\<rparr>"

definition sample_uuid :: org_env where
  "sample_uuid = \<lparr>uuid_in = Some, EqualFold = (=), org_baseURL = ''https://app'', hasEmailSender = True\<rparr>"

definition sample_sso :: "(string \<times> provider) list \<Rightarrow> aead \<Rightarrow> oidc_lib \<Rightarrow> saml_lib \<Rightarrow> sso_env" where
  "sample_sso ps g l m = \<lparr>se_db = sample_uuid, se_jwt = sample_jwt, se_jwtSecret = ''s'', se_baseURL = ''https://app'',
     se_secureCookies = True, se_providers = ps, se_aead = g, se_encryptionKey = replicate 32 CHR ''k'', se_oidc = l, se_saml = m\<rparr>"

definition sample_fresh :: fresh where
  "sample_fresh = \<lparr>fr_state = Some ''random'', fr_userID = ''n1'', fr_tokenID = Some ''t9'', fr_nonce = None\<rparr>"

definition sample_callback :: callback where
  "sample_callback = \<lparr>cb_error = [], cb_error_description = [], cb_state = ''st'', cb_code = ''code''\<rparr>"

lemmas sso_samples = sample_sso_def sample_fresh_def sample_callback_def sample_idp_def sample_info_def sample_uuid_def


subsection \<open>What modelling showed of signing in\<close>

text \<open>
  A workspace chooses its provider, and what that provider tells counts for every account: whoever administers a
  workspace signs in as any verified account whose address they know, member or not.
\<close>

lemma idp_signs_in_as_anyone:
  assumes "faults w = []" "same_flow cs (cb_state q)" "cb_error q = []" "cb_code q \<noteq> []" "r_Cookie cs ''sso_org'' = Some orgID"
    and "sso_config_of (se_db e) orgID w = Some c" "oidc_columns c = Some cols" "org_provider e cols = Some pr"
    and "Exchange pr (cb_code q) = Some info" "find_identity orgID (ui_ExternalID info) w = None"
    and "find_where (\<lambda>u. u_email u = ui_Email info) (users w) = Some u" "u_email_verified u"
    and "fr_tokenID f = Some tid" "tid \<notin> rt_token_id ` set (refresh_tokens w)"
  shows "an_user (fst (run_state (OrgCallback e f cs q) w)) = Some (u_id u)"
proof -
  have g: "uuid_in (se_db e) orgID \<noteq> None" using assms(6) find_where_Some unfolding sso_config_of_def by fastforce
  have u: "u_id u \<in> u_id ` set (users w)" using assms(11) by auto
  have "wp (OrgCallback e f cs q) (\<lambda>a t. an_user a = Some (u_id u)) w"
    unfolding OrgCallback_def enter_workspace_def resolveUser_def link_identity_def join_as_member_def start_session_def
      IssueTokens_def insert_refresh_def with_uuid_def Let_def
    using assms g u by (auto simp: same_flow_def wrapped_def split: if_splits option.splits)
  then show ?thesis by (simp add: wp_def split_beta)
qed


subsection \<open>What provisioning may touch\<close>

definition same_but_profile :: "string option \<Rightarrow> user \<Rightarrow> user \<Rightarrow> bool" where
  "same_but_profile key a b \<longleftrightarrow> b = a \<or> (Some (u_id a) = key \<and> b = a\<lparr>u_email := u_email b, u_name := u_name b\<rparr>)"

definition fresh_account :: "user \<Rightarrow> bool" where
  "fresh_account u \<longleftrightarrow> u_password u = [] \<and> u_email_verified u \<and> u_plan u = ''free''"

text \<open>
  Memberships of this workspace only, and only as a member; identities of this workspace are added; of the accounts,
  new ones without a password and the profile of the named one; nothing else.
\<close>

definition scim_may :: "scim_env \<Rightarrow> string \<Rightarrow> string option \<Rightarrow> world \<Rightarrow> world \<Rightarrow> bool" where
  "scim_may s orgID key w t \<longleftrightarrow>
     del_where (\<lambda>m. uuid_in (sc_db s) orgID = Some (m_organization_id m)) (members t) =
       del_where (\<lambda>m. uuid_in (sc_db s) orgID = Some (m_organization_id m)) (members w) \<and>
     (\<forall>m \<in> set (members t). m \<in> set (members w) \<or> m_role m = ''member'') \<and>
     (\<exists>new. external_identities t = external_identities w @ new \<and> (\<forall>i \<in> set new. ei_provider i = orgID)) \<and>
     rows_rel (same_but_profile key) (users w) (users t) \<and>
     (\<forall>n. length (users w) \<le> n \<and> n < length (users t) \<longrightarrow> fresh_account (users t ! n)) \<and>
     t\<lparr>members := members w, external_identities := external_identities w, users := users w, faults := faults w\<rparr> = w"

lemma same_but_profile_refl: "same_but_profile key a a"
  by (simp add: same_but_profile_def)

lemma same_but_profile_trans: "same_but_profile key a b \<Longrightarrow> same_but_profile key b c \<Longrightarrow> same_but_profile key a c"
  unfolding same_but_profile_def by (cases a; cases b; cases c) auto

lemma fresh_account_profile: "same_but_profile key a b \<Longrightarrow> fresh_account a \<Longrightarrow> fresh_account b"
  unfolding same_but_profile_def fresh_account_def by (cases a; cases b) auto

lemma back_twice:
  "v\<lparr>members := a, external_identities := b, users := c, faults := d\<rparr> =
   (v\<lparr>members := a', external_identities := b', users := c', faults := d'\<rparr>)
     \<lparr>members := a, external_identities := b, users := c, faults := d\<rparr>"
  by simp

text \<open>A relation of states that lets a statement pass over its turn, and the statements that write nothing.\<close>

locale tick_relation = step_relation R for R :: "world \<Rightarrow> world \<Rightarrow> bool" +
  assumes tick: "R w (tick w)"
begin

lemma select: "state_io_rel R (select_row q)" "state_io_rel R (select_rows q')" "state_io_rel R call"
  by (auto simp: state_io_rel_def run_simps tick split: option.split)

lemma stmt: "(\<And>w. R w (snd (f w))) \<Longrightarrow> state_io_rel R (db_stmt f)"
  unfolding state_io_rel_def run_db_stmt using tick trans by (metis (no_types, lifting) option.case_eq_if snd_conv)

lemma exec: "(\<And>w. R w (f w)) \<Longrightarrow> state_io_rel R (exec_world f)"
  unfolding exec_world_def by (rule stmt) simp

lemma failing: "state_io_rel R (failing msg)"
  unfolding failing_def by (intro walk select)

lemma wrapped:
  "state_io_rel R m \<Longrightarrow> state_io_rel R (with_uuid d text m)"
  "state_io_rel R m \<Longrightarrow> state_io_rel R (mixed_query s' m)"
  "(\<And>k. k' = Some k \<Longrightarrow> state_io_rel R (g k)) \<Longrightarrow> state_io_rel R (for_key k' g)"
  unfolding with_uuid_def mixed_query_def for_key_def
  by (auto intro!: walk select failing split: option.split)

end

text \<open>
  The requests of provisioning as a walk over the statements they are made of: whatever a relation of states allows the
  statements, it allows the handlers.
\<close>

locale provisioning_walk = tick_relation R for R :: "world \<Rightarrow> world \<Rightarrow> bool" +
  fixes s :: scim_env and orgID :: string and key :: "string option"
  assumes link: "state_io_rel R (link_identity userID orgID externalID email)"
    and upsert: "state_io_rel R (upsert_user (new_user newID email [] name True))"
    and profile: "state_io_rel R (updateUserProfile key email' name')"
    and join: "state_io_rel R (join_as_member (sc_db s) orgID userID)"
    and leave: "state_io_rel R (exec_world (\<lambda>w. w\<lparr>members := del_where (member_of (sc_db s) orgID userID) (members w)\<rparr>))"
begin

lemma membership: "state_io_rel R (setMembership s orgID k active)"
  unfolding setMembership_def by (intro wrapped walk join leave)

lemma identity: "state_io_rel R (upsertExternalIdentity k orgID externalID email)"
  unfolding upsertExternalIdentity_def by (intro wrapped link)

lemma apply_update: "state_io_rel R (applyUserUpdate s orgID key upd)"
  unfolding applyUserUpdate_def by (intro walk profile membership identity)

lemma fetch: "state_io_rel R (fetchSCIMUser s k g)"
  unfolding fetchSCIMUser_def by (intro wrapped select)

lemma fetched: "state_io_rel R (fetched s g k)"
  unfolding fetched_def by (intro walk fetch)

lemma patch: "state_io_rel R (patch_all s orgID key b ops)"
  by (induction ops arbitrary: b) (auto intro!: walk apply_update)

lemma case_db:
  "state_io_rel R m \<Longrightarrow> state_io_rel R n \<Longrightarrow> (\<And>msg. state_io_rel R (f msg)) \<Longrightarrow>
   state_io_rel R (case x of NoRows \<Rightarrow> m | UniqueViolation \<Rightarrow> n | DbFail msg \<Rightarrow> f msg)"
  by (cases x) auto

lemma case_truth: "state_io_rel R m \<Longrightarrow> state_io_rel R n \<Longrightarrow> state_io_rel R (case b of True \<Rightarrow> m | False \<Rightarrow> n)"
  by (cases b) auto

lemma resolve: "state_io_rel R (resolveUser_scim orgID newID externalID email name)"
  unfolding resolveUser_scim_def by (intro walk select link upsert case_db)

lemma CreateUser: "state_io_rel R (CreateUser s newID orgID body)"
  unfolding CreateUser_def by (intro walk resolve membership fetch)

lemma PatchUser:
  assumes "uuid_in (sc_db s) userID = key" shows "state_io_rel R (PatchUser s orgID userID body)"
  unfolding PatchUser_def assms by (intro walk patch case_truth fetched)

lemma ReplaceUser:
  assumes "uuid_in (sc_db s) userID = key" shows "state_io_rel R (ReplaceUser s orgID userID body)"
  unfolding ReplaceUser_def assms by (intro walk apply_update fetched)

lemma DeleteUser: "state_io_rel R (DeleteUser s orgID userID)"
  unfolding DeleteUser_def by (intro walk membership)

end

lemma scim_may_refl: "scim_may s orgID key w w"
  by (auto simp: scim_may_def rows_rel_refl same_but_profile_refl)

lemma scim_may_trans:
  assumes a: "scim_may s orgID key w t" and b: "scim_may s orgID key t v"
  shows "scim_may s orgID key w v"
proof -
  have users: "rows_rel (same_but_profile key) (users w) (users v)"
  proof (rule rows_rel_trans)
    show "rows_rel (same_but_profile key) (users w) (users t)" "rows_rel (same_but_profile key) (users t) (users v)"
      using a b unfolding scim_may_def by blast+
  qed (rule same_but_profile_trans)
  have new: "fresh_account (users v ! n)" if "length (users w) \<le> n" "n < length (users v)" for n
  proof (cases "n < length (users t)")
    case True
    then have "fresh_account (users t ! n)" "same_but_profile key (users t ! n) (users v ! n)"
      using a b that unfolding scim_may_def rows_rel_def by blast+
    then show ?thesis by (rule fresh_account_profile [rotated])
  next
    case False
    then show ?thesis using b that unfolding scim_may_def by (simp add: not_less)
  qed
  let ?undo = "\<lambda>w t. t\<lparr>members := members w, external_identities := external_identities w, users := users w, faults := faults w\<rparr>"
  have restored: "?undo w t = w" "?undo t v = t" using a b unfolding scim_may_def by blast+
  have "?undo w v = ?undo w (?undo t v)" by (rule back_twice)
  then have rest: "?undo w v = w" unfolding restored .
  show ?thesis
    using a b users new rest unfolding scim_may_def by (intro conjI) (simp, blast, auto)
qed

lemma scim_may_tick: "scim_may s orgID key w (tick w)"
  by (cases w) (auto simp: scim_may_def rows_rel_refl same_but_profile_refl tick_def)

interpretation turn: tick_relation "scim_may s orgID key" for s orgID key
  by unfold_locales (fact scim_may_refl scim_may_trans scim_may_tick)+

lemmas scim_may_same = scim_may_def rows_rel_refl same_but_profile_refl

interpretation may: provisioning_walk "scim_may s orgID key" s orgID key for s orgID key
proof unfold_locales
  show "state_io_rel (scim_may s orgID key) (link_identity userID orgID externalID email)" for userID externalID email
    unfolding link_identity_def by (rule turn.stmt) (auto simp: scim_may_same)
  show "state_io_rel (scim_may s orgID key) (upsert_user (new_user newID email [] name True))" for newID email name
    unfolding upsert_user_def
    by (rule turn.stmt) (auto simp: scim_may_same rows_rel_append new_user_def fresh_account_def nth_append split: option.split)
  show "state_io_rel (scim_may s orgID key) (updateUserProfile key email name)" for email name
    unfolding updateUserProfile_def
    by (auto intro!: turn.walk turn.wrapped turn.stmt rows_rel_upd simp: scim_may_same same_but_profile_def)
  show "state_io_rel (scim_may s orgID key) (join_as_member (sc_db s) orgID userID)" for userID
    unfolding join_as_member_def Let_def with_uuid_def
    by (auto intro!: turn.walk turn.select turn.stmt simp: scim_may_same del_where_def)
  show "state_io_rel (scim_may s orgID key) (exec_world (\<lambda>w. w\<lparr>members := del_where (member_of (sc_db s) orgID userID) (members w)\<rparr>))" for userID
    by (rule turn.exec) (auto simp: scim_may_same del_where_def member_of_def intro!: filter_cong)
qed

text \<open>The bearer token of a workspace on the business plan.\<close>

definition bearer_of :: "scim_env \<Rightarrow> string \<Rightarrow> string \<Rightarrow> world \<Rightarrow> bool" where
  "bearer_of s orgID authHeader w \<longleftrightarrow>
     (\<exists>token t g. authHeader = ''Bearer '' @ token \<and> t \<in> set (scim_tokens w) \<and> g \<in> set (organizations w) \<and>
        uuid_in (sc_db s) orgID = Some (st_organization_id t) \<and> o_id g = st_organization_id t \<and> o_plan g = ''business'' \<and>
        st_token_hash t = hashToken (sc_crypto s) token)"


lemma bearer_wp:
  "wp (BearerAuth s orgID authHeader) (\<lambda>r t. (t = w \<or> t = tick w) \<and> (r = None \<longrightarrow> bearer_of s orgID authHeader w)) w"
proof -
  have ok: "bearer_of s orgID authHeader w"
    if "has_prefix authHeader ''Bearer ''" "find_where (\<lambda>t. uuid_in (sc_db s) orgID = Some (st_organization_id t)) (scim_tokens w) = Some t"
      "find_where (\<lambda>g. o_id g = st_organization_id t) (organizations w) = Some g" "o_plan g = ''business''"
      "hashToken (sc_crypto s) (trim_prefix authHeader ''Bearer '') = st_token_hash t" for t g
  proof -
    have "authHeader = ''Bearer '' @ trim_prefix authHeader ''Bearer ''"
      using that(1) by (metis append_take_drop_id has_prefix_def trim_prefix_def)
    then show ?thesis
      using that(4,5) find_where_Some [OF that(2)] find_where_Some [OF that(3)] unfolding bearer_of_def by metis
  qed
  show ?thesis
    unfolding BearerAuth_def with_uuid_def
    by (auto simp: bind_eq_Some_conv bind_eq_None_conv split: option.split if_split intro: ok)
qed

text \<open>A request may change something, and only with the token of the workspace.\<close>

definition provisions :: "scim_env \<Rightarrow> string \<Rightarrow> string \<Rightarrow> string option \<Rightarrow> world \<Rightarrow> world \<Rightarrow> bool" where
  "provisions s orgID authHeader key w t \<longleftrightarrow> scim_may s orgID key w t \<and>
     (t\<lparr>faults := faults w\<rparr> \<noteq> w \<longrightarrow> bearer_of s orgID authHeader w)"

lemma with_bearer_wp:
  assumes "state_io_rel (scim_may s orgID key) m"
  shows "wp (with_bearer s orgID authHeader m) (\<lambda>_. provisions s orgID authHeader key w) w"
proof -
  have idle: "provisions s orgID authHeader key w t" if "t = w \<or> t = tick w" for t
    using that scim_may_tick [of s orgID key w] scim_may_refl [of s orgID key w] by (auto simp: provisions_def tick_def)
  have run: "wp m (\<lambda>_. provisions s orgID authHeader key w) t" if "t = w \<or> t = tick w" "bearer_of s orgID authHeader w" for t
  proof (rule wp_mono [OF wp_rel [OF assms]])
    fix r :: 'a and v assume "scim_may s orgID key t v"
    then show "provisions s orgID authHeader key w v"
      using that scim_may_tick [of s orgID key w] scim_may_trans [of s orgID key w t v] unfolding provisions_def by blast
  qed
  show ?thesis
    unfolding with_bearer_def wp_bind
    by (rule wp_mono [OF bearer_wp]) (auto intro: idle run split: option.split)
qed

text \<open>
  C7: Provisioning stays with its workspace: a request changes something only with the bearer token of a workspace on the
  business plan, and then at most memberships of that workspace (new ones as a plain member), identities of that
  workspace, new accounts without a password, and the address and name of the account it names; no other table, no
  password, no session.
\<close>

theorem provisioning_scope:
  "wp (with_bearer s orgID authHeader (CreateUser s newID orgID body)) (\<lambda>_. provisions s orgID authHeader None w) w \<and>
   wp (with_bearer s orgID authHeader (PatchUser s orgID userID ops))
     (\<lambda>_. provisions s orgID authHeader (uuid_in (sc_db s) userID) w) w \<and>
   wp (with_bearer s orgID authHeader (ReplaceUser s orgID userID body))
     (\<lambda>_. provisions s orgID authHeader (uuid_in (sc_db s) userID) w) w \<and>
   wp (with_bearer s orgID authHeader (DeleteUser s orgID userID)) (\<lambda>_. provisions s orgID authHeader None w) w"
  by (intro conjI with_bearer_wp may.CreateUser may.PatchUser may.ReplaceUser may.DeleteUser refl)


subsection \<open>Accounts, identities and memberships stay consistent\<close>

text \<open>
  Keys and addresses are unique, an identity belongs to one account that exists, and nobody is a member twice.
\<close>

definition accounts_ok :: "world \<Rightarrow> bool" where
  "accounts_ok w \<longleftrightarrow> distinct (map u_id (users w)) \<and> distinct (map u_email (users w)) \<and>
     distinct (map (\<lambda>i. (ei_provider i, ei_external_id i)) (external_identities w)) \<and>
     (\<forall>i \<in> set (external_identities w). ei_user_id i \<in> u_id ` set (users w)) \<and>
     distinct (map (\<lambda>m. (m_organization_id m, m_user_id m)) (members w))"

abbreviation stays_ok :: "world \<Rightarrow> world \<Rightarrow> bool" where
  "stays_ok w t \<equiv> accounts_ok w \<longrightarrow> accounts_ok t"

lemma distinct_emails_upd:
  assumes "distinct (map u_email us)" "distinct (map u_id us)"
    and "\<forall>u \<in> set us. u_id u \<noteq> k \<longrightarrow> Some (u_email u) \<noteq> email"
  shows "distinct (map u_email (upd_where (\<lambda>u. u_id u = k)
    (\<lambda>u. u\<lparr>u_email := case_option (u_email u) (\<lambda>x. x) email, u_name := nm u\<rparr>) us))"
  using assms
proof (induction us)
  case (Cons v us)
  let ?f = "\<lambda>u. u\<lparr>u_email := case_option (u_email u) (\<lambda>x. x) email, u_name := nm u\<rparr>"
  have rest: "upd_where (\<lambda>u. u_id u = k) ?f us = us" if "u_id v = k"
    using Cons.prems(2) that by (intro upd_where_none) (auto simp: image_iff)
  show ?case
  proof (cases "u_id v = k")
    case True
    have "u_id u \<noteq> k" if "u \<in> set us" for u using Cons.prems(2) True that by (auto simp: image_iff)
    then show ?thesis using Cons.prems True unfolding upd_where_Cons rest [OF True]
      by (cases email) (auto simp del: upd_where_Cons)
  next
    case False
    have old: "u_email u \<noteq> u_email v" if "u \<in> set us" for u using Cons.prems(1) that by (auto simp: image_iff)
    have "u_email v \<notin> u_email ` set (upd_where (\<lambda>u. u_id u = k) ?f us)"
      using old Cons.prems(3) False by (cases email) (auto simp: set_upd_where dest: sym)
    then show ?thesis using Cons False by simp
  qed
qed simp

lemma profile_ok:
  "stays_ok w (snd (if list_ex (\<lambda>u. u_id u = k) (users w) \<and> list_ex (\<lambda>u. u_id u \<noteq> k \<and> Some (u_email u) = email) (users w)
      then (r1, w)
      else (r2, w\<lparr>users := upd_where (\<lambda>u. u_id u = k)
        (\<lambda>u. u\<lparr>u_email := case_option (u_email u) (\<lambda>x. x) email, u_name := case_option (u_name u) (\<lambda>x. x) name\<rparr>) (users w)\<rparr>)))"
proof (cases "list_ex (\<lambda>u. u_id u = k) (users w)")
  case True
  let ?f = "\<lambda>u. u\<lparr>u_email := case_option (u_email u) (\<lambda>x. x) email, u_name := case_option (u_name u) (\<lambda>x. x) name\<rparr>"
  have ids: "map u_id (upd_where P ?f us) = map u_id us" for P us by (rule map_upd_where) simp
  then have set_ids: "u_id ` set (upd_where P ?f us) = u_id ` set us" for P us by (metis list.set_map)
  show ?thesis using True
    by (auto simp: accounts_ok_def ids set_ids list_ex_iff intro!: distinct_emails_upd)
next
  case False
  then have "upd_where (\<lambda>u. u_id u = k) f (users w) = users w" for f by (intro upd_where_none) (auto simp: list_ex_iff)
  then show ?thesis using False by simp
qed

interpretation still: tick_relation stays_ok
  by unfold_locales (auto simp: accounts_ok_def)

interpretation ok: provisioning_walk stays_ok s orgID key for s orgID key
proof unfold_locales
  show "state_io_rel stays_ok (link_identity userID orgID externalID email)" for userID externalID email
    unfolding link_identity_def
    by (rule still.stmt) (auto simp: accounts_ok_def find_identity_def find_where_None)
  show "state_io_rel stays_ok (upsert_user (new_user newID email [] name True))" for newID email name
    unfolding upsert_user_def
    by (rule still.stmt) (auto simp: accounts_ok_def find_where_None new_user_def split: option.split)
  show "state_io_rel stays_ok (updateUserProfile key email name)" for email name
    unfolding updateUserProfile_def by (intro still.walk still.wrapped still.stmt profile_ok)
  show "state_io_rel stays_ok (join_as_member (sc_db s) orgID userID)" for userID
    unfolding join_as_member_def Let_def with_uuid_def
    by (intro still.walk still.select still.stmt) (auto simp: accounts_ok_def list_ex_iff)
  show "state_io_rel stays_ok (exec_world (\<lambda>w. w\<lparr>members := del_where (member_of (sc_db s) orgID userID) (members w)\<rparr>))" for userID
    by (rule still.exec) (auto simp: accounts_ok_def distinct_map_del_where)
qed


lemma still_resolve: "state_io_rel stays_ok (resolveUser p newID info)"
  unfolding resolveUser_def by (intro still.walk still.select ok.link ok.upsert)

lemma still_session: "state_io_rel stays_ok (start_session e f cks userID)"
  unfolding start_session_def IssueTokens_def insert_refresh_def
  by (intro still.walk still.stmt) (auto simp: accounts_ok_def)

lemma still_join: "state_io_rel stays_ok (join_as_member d orgID userID)"
  using ok.join [of "\<lparr>sc_db = d, sc_crypto = undefined, sc_baseURL = [], mixes_types = True\<rparr>"] by simp

lemma still_enter: "state_io_rel stays_ok (enter_workspace e f cks orgID info)"
  unfolding enter_workspace_def by (intro still.walk still_resolve still_join still_session)

lemma still_callbacks:
  "state_io_rel stays_ok (Callback e f cs p q)"
  "state_io_rel stays_ok (OrgCallback e f cs q)"
  "state_io_rel stays_ok (OrgSAMLCallback e f cs org form)"
  unfolding Callback_def OrgCallback_def OrgSAMLCallback_def
  by (intro still.walk still.wrapped still.select still_resolve still_session still_enter)+

lemma still_unlink: "state_io_rel stays_ok (UnlinkIdentity userID p)"
  unfolding UnlinkIdentity_def
  by (intro still.walk still.select still.exec) (auto simp: accounts_ok_def distinct_map_del_where)

text \<open>One request of either service; between two the clock runs on and other calls may fail.\<close>

inductive signs_in_or_provisions :: "sso_env \<Rightarrow> scim_env \<Rightarrow> world \<Rightarrow> world \<Rightarrow> bool" for e s where
  callback: "signs_in_or_provisions e s w (snd (run_state (Callback e f cs p q) w))"
| org_callback: "signs_in_or_provisions e s w (snd (run_state (OrgCallback e f cs q) w))"
| saml_callback: "signs_in_or_provisions e s w (snd (run_state (OrgSAMLCallback e f cs org form) w))"
| unlink: "signs_in_or_provisions e s w (snd (run_state (UnlinkIdentity userID p) w))"
| create: "signs_in_or_provisions e s w (snd (run_state (CreateUser s newID orgID body) w))"
| patch: "signs_in_or_provisions e s w (snd (run_state (PatchUser s orgID userID ops) w))"
| replace: "signs_in_or_provisions e s w (snd (run_state (ReplaceUser s orgID userID body) w))"
| delete: "signs_in_or_provisions e s w (snd (run_state (DeleteUser s orgID userID) w))"
| elsewhere: "signs_in_or_provisions e s w (w\<lparr>now := t, faults := fs\<rparr>)"

lemma stays_run: "state_io_rel stays_ok m \<Longrightarrow> accounts_ok w \<Longrightarrow> accounts_ok (snd (run_state m w))"
  by (auto simp: state_io_rel_def)

lemma accounts_ok_clock: "accounts_ok (w\<lparr>now := t, faults := fs\<rparr>) = accounts_ok w"
  by (simp add: accounts_ok_def)

interpretation identity_service: machine accounts_ok "signs_in_or_provisions e s" accounts_ok for e s
proof unfold_locales
  show "accounts_ok t" if "accounts_ok w" "signs_in_or_provisions e s w t" for w t
    using that(2,1)
    by cases (auto intro!: stays_run still_callbacks still_unlink ok.CreateUser ok.PatchUser [OF refl] ok.ReplaceUser [OF refl]
        ok.DeleteUser simp: accounts_ok_clock)
qed




subsection \<open>The token of a workspace\<close>


text \<open>The requests that make and revoke a token are an admin's, of a workspace on the business plan.\<close>

definition token_admin :: "org_env \<Rightarrow> string \<Rightarrow> string \<Rightarrow> world \<Rightarrow> bool" where
  "token_admin d orgID userID w \<longleftrightarrow> (\<exists>m g. find_where (member_of d orgID userID) (members w) = Some m \<and>
     m_role m \<in> {''owner'', ''admin''} \<and>
     find_where (\<lambda>g. o_id g = m_organization_id m) (organizations w) = Some g \<and> o_plan g = ''business'')"

lemma admin_wp:
  "wp (ensureSCIMAdminAccess d orgID userID) (\<lambda>r t. (\<exists>c m. r = Some (WriteError c m)) \<or>
     r = None \<and> token_admin d orgID userID w \<and> token_admin d orgID userID t) w"
  unfolding ensureSCIMAdminAccess_def with_uuid_def token_admin_def
  by (auto simp: bind_eq_Some_conv bind_eq_None_conv split: option.split if_split)

lemma token_admin_key: "token_admin d orgID userID w \<Longrightarrow> \<exists>i g. uuid_in d orgID = Some i \<and>
    find_where (\<lambda>g. o_id g = i) (organizations w) = Some g \<and> o_plan g = ''business''"
proof -
  assume "token_admin d orgID userID w"
  then obtain m g where *: "find_where (member_of d orgID userID) (members w) = Some m"
      "find_where (\<lambda>g. o_id g = m_organization_id m) (organizations w) = Some g" "o_plan g = ''business''"
    unfolding token_admin_def by blast
  from find_where_Some [OF *(1)] * show ?thesis by (simp add: member_of_def)
qed

text \<open>The row of the workspace holds the hash of the token, and the plan allows it.\<close>

definition lets_in :: "scim_env \<Rightarrow> string \<Rightarrow> string \<Rightarrow> world \<Rightarrow> bool" where
  "lets_in s orgID token w \<longleftrightarrow> (\<exists>t g. find_where (\<lambda>t. uuid_in (sc_db s) orgID = Some (st_organization_id t)) (scim_tokens w) = Some t \<and>
     st_token_hash t = hashToken (sc_crypto s) token \<and>
     find_where (\<lambda>g. o_id g = st_organization_id t) (organizations w) = Some g \<and> o_plan g = ''business'')"

lemma lets_inD:
  "lets_in s orgID token w \<Longrightarrow>
    fst (run_state (BearerAuth s orgID (''Bearer '' @ token)) (w\<lparr>faults := []\<rparr>)) = (None :: unit response option)"
  unfolding lets_in_def BearerAuth_def with_uuid_def has_prefix_def trim_prefix_def
  apply (clarsimp simp: run_simps)
  apply (drule find_where_Some)
  apply (auto simp: run_simps)
  done

lemma upsert_wp:
  "wp (upsert_scim_token i h) (\<lambda>r t. r = Inr () \<longrightarrow> organizations t = organizations w \<and>
     (\<exists>row. find_where (\<lambda>t. i = st_organization_id t) (scim_tokens t) = Some row \<and> st_organization_id row = i \<and> st_token_hash row = h)) w"
proof -
  have upd: "\<exists>row. find_where (\<lambda>t. i = st_organization_id t) (upd_where (\<lambda>t. st_organization_id t = i)
      (\<lambda>t. t\<lparr>st_token_hash := h, st_created_at := c\<rparr>) rows) = Some row \<and> st_organization_id row = i \<and> st_token_hash row = h"
    if "list_ex (\<lambda>t. st_organization_id t = i) rows" for c rows i
    using that by (induction rows) auto
  have new: "find_where (\<lambda>t. i = st_organization_id t) rows = None" if "\<not> list_ex (\<lambda>t. st_organization_id t = i) rows" for rows
    using that by (auto simp: find_where_None list_ex_iff)
  show ?thesis unfolding upsert_scim_token_def by (auto simp: find_where_append new intro: upd split: if_split option.split)
qed

lemma revoke_shuts:
  assumes "token_admin (sc_db s) orgID userID w"
  shows "wp (with_uuid (sc_db s) orgID (exec_world (\<lambda>w. w\<lparr>scim_tokens :=
      del_where (\<lambda>t. uuid_in (sc_db s) orgID = Some (st_organization_id t)) (scim_tokens w)\<rparr>)))
    (\<lambda>r t. r = Inr () \<longrightarrow> (\<forall>authHeader. wp (BearerAuth s orgID authHeader) (\<lambda>r _. r \<noteq> (None :: unit response option)) t)) w"
proof -
  have none: "find_where (\<lambda>t. uuid_in (sc_db s) orgID = Some (st_organization_id t))
      (del_where (\<lambda>t. uuid_in (sc_db s) orgID = Some (st_organization_id t)) rows) = None" for rows
    by (auto simp: find_where_None del_where_def)
  show ?thesis using token_admin_key [OF assms]
    by (auto simp: BearerAuth_def with_uuid_def none split: option.split)
qed

lemma generate_lets_in:
  assumes "token_admin (sc_db s) orgID userID w"
  shows "wp (with_uuid (sc_db s) orgID (upsert_scim_token (the (uuid_in (sc_db s) orgID)) (hashToken (sc_crypto s) token)))
    (\<lambda>r t. r = Inr () \<longrightarrow> lets_in s orgID token t) w"
proof -
  obtain i g where key: "uuid_in (sc_db s) orgID = Some i"
      "find_where (\<lambda>g. o_id g = i) (organizations w) = Some g" "o_plan g = ''business''"
    using token_admin_key [OF assms] by auto
  then have "wp (upsert_scim_token i (hashToken (sc_crypto s) token)) (\<lambda>r t. r = Inr () \<longrightarrow> lets_in s orgID token t) w"
    by (intro wp_mono [OF upsert_wp]) (auto simp: lets_in_def)
  then show ?thesis by (simp add: key with_uuid_def)
qed

lemma generate_wp:
  "wp (GenerateSCIMToken (sc_crypto s) (sc_db s) random userID orgID) (\<lambda>r t. \<forall>token. r = WriteJSON 200 token \<longrightarrow>
     token_admin (sc_db s) orgID userID w \<and> lets_in s orgID token t) w"
  unfolding GenerateSCIMToken_def wp_bind
  by (rule wp_mono [OF admin_wp])
    (auto simp: Let_def wp_bind split: option.split sum.split intro!: wp_mono [OF generate_lets_in])

text \<open>
  C19: A token for provisioning is made by an admin of a workspace on the business plan and lets its bearer in at once;
  once it is revoked, by an admin as well, no header gets past the middleware of that workspace.
\<close>

theorem scim_token_lifecycle:
  "wp (GenerateSCIMToken (sc_crypto s) (sc_db s) random userID orgID) (\<lambda>r t. \<forall>token. r = WriteJSON 200 token \<longrightarrow>
     token_admin (sc_db s) orgID userID w \<and>
     fst (run_state (BearerAuth s orgID (''Bearer '' @ token)) (t\<lparr>faults := []\<rparr>)) = (None :: unit response option)) w \<and>
   wp (RevokeSCIMToken (sc_db s) userID orgID) (\<lambda>r t. r = WriteJSON 200 ''SCIM token revoked'' \<longrightarrow>
     token_admin (sc_db s) orgID userID w \<and>
     (\<forall>authHeader. wp (BearerAuth s orgID authHeader) (\<lambda>r _. r \<noteq> (None :: unit response option)) t)) w"
proof
  show "wp (GenerateSCIMToken (sc_crypto s) (sc_db s) random userID orgID) (\<lambda>r t. \<forall>token. r = WriteJSON 200 token \<longrightarrow>
     token_admin (sc_db s) orgID userID w \<and>
     fst (run_state (BearerAuth s orgID (''Bearer '' @ token)) (t\<lparr>faults := []\<rparr>)) = (None :: unit response option)) w"
    by (rule wp_mono [OF generate_wp]) (blast intro: lets_inD)
  show "wp (RevokeSCIMToken (sc_db s) userID orgID) (\<lambda>r t. r = WriteJSON 200 ''SCIM token revoked'' \<longrightarrow>
     token_admin (sc_db s) orgID userID w \<and>
     (\<forall>authHeader. wp (BearerAuth s orgID authHeader) (\<lambda>r _. r \<noteq> (None :: unit response option)) t)) w"
    unfolding RevokeSCIMToken_def wp_bind
    by (rule wp_mono [OF admin_wp])
      (auto simp: Let_def wp_bind split: sum.split intro!: wp_mono [OF revoke_shuts])
qed

definition sample_workspace :: world where
  "sample_workspace = (empty_world 0)\<lparr>
     organizations := [\<lparr>o_id = ''g1'', o_name = ''Team'', o_slug = ''team'', o_plan = ''business'', o_subscription_id = None,
       o_customer_id = None, o_retention_days = 0, o_created_at = 0, o_updated_at = 0\<rparr>],
     members := [\<lparr>m_organization_id = ''g1'', m_user_id = ''u1'', m_role = ''admin'', m_joined_at = 0\<rparr>]\<rparr>"

abbreviation sample_scim :: "crypto \<Rightarrow> scim_env" where
  "sample_scim c \<equiv> \<lparr>sc_db = sample_uuid, sc_crypto = c, sc_baseURL = ''https://app'', mixes_types = True\<rparr>"

text \<open>An admin makes a token, which opens the provisioning endpoints.\<close>

lemma scim_token_lifecycle_witness:
  "\<forall>c. (case run_state (GenerateSCIMToken c sample_uuid (Some ''x'') ''u1'' ''g1'') sample_workspace of (r, t) \<Rightarrow>
     r = WriteJSON 200 (''scim_'' @ EncodeToString ''x'') \<and>
     fst (run_state (BearerAuth (sample_scim c) ''g1'' (''Bearer scim_'' @ EncodeToString ''x'')) (t\<lparr>faults := []\<rparr>)) =
       (None :: unit response option))"
proof
  fix c
  have "fst (run_state (GenerateSCIMToken c sample_uuid (Some ''x'') ''u1'' ''g1'') sample_workspace) =
      WriteJSON 200 (''scim_'' @ EncodeToString ''x'')"
    by (simp add: Let_def GenerateSCIMToken_def ensureSCIMAdminAccess_def upsert_scim_token_def with_uuid_def sample_workspace_def
        sample_uuid_def empty_world_def member_of_def run_simps run_db_stmt)
  then show "case run_state (GenerateSCIMToken c sample_uuid (Some ''x'') ''u1'' ''g1'') sample_workspace of (r, t) \<Rightarrow>
     r = WriteJSON 200 (''scim_'' @ EncodeToString ''x'') \<and>
     fst (run_state (BearerAuth (sample_scim c) ''g1'' (''Bearer scim_'' @ EncodeToString ''x'')) (t\<lparr>faults := []\<rparr>)) =
       (None :: unit response option)"
    using scim_token_lifecycle [THEN conjunct1, of "sample_scim c" "Some ''x''" "''u1''" "''g1''" sample_workspace]
    unfolding wp_def by (simp add: split_beta)
qed

subsection \<open>What modelling showed of provisioning\<close>

text \<open>
  The account of a path need not belong to the workspace: any workspace with a token changes the address of any
  account, and with it where a link to reset the password goes.
\<close>

lemma scim_takes_account:
  assumes "faults w = []" "uuid_in (sc_db s) userID = Some (u_id u)" "u \<in> set (users w)" "EqualFold (sc_db s) (op_Op p) ''replace''"
    and "op_Path p = ''userName''" "op_Value p = JString email" "email \<notin> u_email ` set (users w)"
  shows "u\<lparr>u_email := email\<rparr> \<in> set (users (snd (run_state (PatchUser s orgID userID (Some [p])) w)))"
proof -
  have free: "\<not> list_ex (\<lambda>v. u_id v \<noteq> u_id u \<and> Some (u_email v) = Some email) (users w)"
    using assms(7) by (auto simp: list_ex_iff)
  have hit: "(\<lambda>u. u\<lparr>u_email := email, u_name := u_name u\<rparr>) u \<in>
      set (upd_where (\<lambda>v. u_id v = u_id u) (\<lambda>u. u\<lparr>u_email := email, u_name := u_name u\<rparr>) (users w))"
    using assms(3) by (intro upd_where_hit) auto
  have "wp (PatchUser s orgID userID (Some [p])) (\<lambda>_ t. u\<lparr>u_email := email\<rparr> \<in> set (users t)) w"
    unfolding PatchUser_def applyUserUpdate_def updateUserProfile_def fetched_def fetchSCIMUser_def mixed_query_def for_key_def
      with_uuid_def failing_def
    using assms free hit
    by (auto simp: parsePatchOperation_def applyUserUpdate_def updateUserProfile_def for_key_def no_update_def split: option.split)
  then show ?thesis by (simp add: wp_def split_beta)
qed

text \<open>The last owner of a workspace is removed as easily as anybody.\<close>

lemma scim_removes_owner:
  assumes "faults w = []" "uuid_in (sc_db s) orgID = Some g" "uuid_in (sc_db s) userID = Some u"
    and "\<forall>m \<in> set (members w). m_organization_id m = g \<and> m_role m = ''owner'' \<longrightarrow> m_user_id m = u"
  shows "wp (DeleteUser s orgID userID) (\<lambda>r t. r = WriteHeader 204 \<and>
    (\<forall>m \<in> set (members t). m_organization_id m = g \<longrightarrow> m_role m \<noteq> ''owner'')) w"
  unfolding DeleteUser_def setMembership_def for_key_def with_uuid_def using assms by (auto simp: member_of_def)

text \<open>A removed account keeps its identity, and the next sign-in at the provider makes it a member again.\<close>

lemma removed_account_returns:
  assumes "faults w = []" "uuid_in (sc_db s) orgID = Some g" "uuid_in (se_db e) orgID = Some g" "g \<in> o_id ` set (organizations w)"
    and "find_identity orgID (ui_ExternalID info) w = Some i" "ei_user_id i \<in> u_id ` set (users w)"
  shows "wp (do { _ \<leftarrow> DeleteUser s orgID userID; enter_workspace e f cks orgID info }) (\<lambda>r t.
    list_ex (\<lambda>m. m_organization_id m = g \<and> m_user_id m = ei_user_id i) (members t)) w"
proof -
  have keeps: "wp (start_session e f cks u) (\<lambda>_ t. members t = members v) v" for u v
    unfolding start_session_def IssueTokens_def insert_refresh_def by (auto split: option.split sum.split)
  have stays: "wp (start_session e f cks u) (\<lambda>_ t. list_ex P (members t)) v" if "list_ex P (members v)" for P u v
    using keeps by (rule wp_mono) (use that in simp)
  have enter: "wp (enter_workspace e f cks orgID info) (\<lambda>r t.
      list_ex (\<lambda>m. m_organization_id m = g \<and> m_user_id m = ei_user_id i) (members t)) v"
    if "faults v = []" "find_identity orgID (ui_ExternalID info) v = Some i" "organizations v = organizations w" "users v = users w" for v
    unfolding enter_workspace_def resolveUser_def join_as_member_def with_uuid_def Let_def
    using assms that by (auto intro!: stays)
  show ?thesis
    unfolding wp_bind DeleteUser_def setMembership_def for_key_def with_uuid_def failing_def
    using assms(1,2,5) by (auto intro!: enter simp: find_identity_def split: option.split)
qed

text \<open>
  On a database that refuses the mixed parameter nothing can be read: an account is provisioned and the answer is an
  error, so the identity provider tries again for ever.
\<close>

lemma refused_query: "\<not> mixes_types s \<Longrightarrow> wp (mixed_query s m) (\<lambda>r t. \<exists>x. r = Inl x) w"
  unfolding mixed_query_def failing_def by simp

lemma scim_reads_fail:
  assumes "\<not> mixes_types s"
  shows "wp (GetUser_scim s orgID userID) (\<lambda>r t. r = WriteError 404 ''User not found'') w"
    and "wp (ListUsers s collation orgID countText startText flt) (\<lambda>r t. r = WriteError 500 ''query failed'') w"
    and "wp (CreateUser s newID orgID body) (\<lambda>r t. \<exists>n m. r = WriteError n m) w"
proof -
  show "wp (GetUser_scim s orgID userID) (\<lambda>r t. r = WriteError 404 ''User not found'') w"
    unfolding GetUser_scim_def fetched_def fetchSCIMUser_def wp_bind by (rule wp_mono [OF refused_query [OF assms]]) auto
  show "wp (ListUsers s collation orgID countText startText flt) (\<lambda>r t. r = WriteError 500 ''query failed'') w"
    unfolding ListUsers_def Let_def wp_bind by (rule wp_mono [OF refused_query [OF assms]]) auto
  have fetch: "wp (fetchSCIMUser s k orgID) (\<lambda>row. wp (State_Monad.return (case row of Inl _ \<Rightarrow> WriteError 500 ''fetch user failed''
      | Inr u \<Rightarrow> WriteJSON c u)) (\<lambda>r t. \<exists>n m. r = WriteError n m)) v" for k c v
    unfolding fetchSCIMUser_def by (rule wp_mono [OF refused_query [OF assms]]) auto
  have skip: "(\<And>r t. Q r t) \<Longrightarrow> wp (resolveUser_scim a b c d n) Q v"
    "(\<And>r t. Q' r t) \<Longrightarrow> wp (setMembership s a k act) Q' v" for a b c d n k act Q Q' v
    by (simp_all add: wp_run)
  show "wp (CreateUser s newID orgID body) (\<lambda>r t. \<exists>n m. r = WriteError n m) w"
    unfolding CreateUser_def by (intro wp_walk skip fetch) simp_all
qed

subsection \<open>What modelling showed of identities\<close>

text \<open>A provider that tells no address gives everybody the same account: that of the empty address.\<close>

lemma no_address_shared:
  assumes "faults w = []" "find_where (\<lambda>u. u_email u = []) (users w) = Some u" "u_email_verified u"
    and "ui_Email info = []" "find_identity p (ui_ExternalID info) w = None"
  shows "fst (run_state (resolveUser p newID info) w) = Inr (u_id u)"
proof -
  have "u_id u \<in> u_id ` set (users w)" using assms(2) by auto
  then show ?thesis using assms by (simp add: resolveUser_def run_simps run_db_stmt link_identity_def wrapped_def)
qed

text \<open>When the lookup of the address fails, an account whose address was never confirmed is signed in.\<close>

lemma unverified_on_failure:
  assumes "faults w = [None, Some msg]" "find_identity p (ui_ExternalID info) w = None"
    and "find_where (\<lambda>u. u_email u = ui_Email info) (users w) = Some u" "\<not> u_email_verified u"
  shows "fst (run_state (resolveUser p newID info) w) = Inr (u_id u)"
proof -
  have "u_id u \<in> u_id ` set (users w)" using assms(3) by auto
  then show ?thesis using assms(1-3)
    by (simp add: resolveUser_def run_simps run_db_stmt link_identity_def wrapped_def upsert_user_def new_user_def next_fault_def tick_def
        find_identity_def)
qed

text \<open>
  Unlinking counts the identities and then removes all of one provider: with two at the same provider an account
  without a password loses its last way in.
\<close>

lemma last_identities_unlinked:
  assumes "faults w = []" "userID \<noteq> []" "find_where (\<lambda>u. u_id u = userID) (users w) = Some u"
    and "length (identities_of userID w) = 2" "\<forall>i \<in> set (identities_of userID w). ei_provider i = p"
  shows "wp (UnlinkIdentity userID p) (\<lambda>r t. r = WriteJSON 200 ''ok'' \<and> identities_of userID t = []) w"
  unfolding UnlinkIdentity_def using assms
  by (auto simp: identities_of_def del_where_def filter_empty_conv)

end
