(* ===== verification/Integrations.thy ===== *)
theory Integrations
  imports Sso_Providers
begin

text \<open>
  Issue trackers (\<open>internal/integration/handler.go\<close>, \<open>github.go\<close>, \<open>jira.go\<close>): the configuration of a user, whose
  tokens are enc at rest and masked when shown, and the issues filed for a video. The HTTP exchange and AES-GCM
  are parameters. A configuration is a JSON object.
\<close>

type_synonym tracker_config = "string \<rightharpoonup> json"

text \<open>
  The answer to a request: its status and what the decoders of the two clients read in its body (\<open>None\<close> when the
  body does not decode). \<open>exchange\<close> answers nothing when there is no connection; \<open>requestable\<close> tells the error of
  \<open>http.NewRequestWithContext\<close> for a url.
\<close>

record tracker_reply =
  tr_StatusCode :: int
  tr_github :: "(string \<times> int) option" \<comment> \<open>\<open>html_url\<close>, \<open>number\<close>\<close>
  tr_jira :: "string option" \<comment> \<open>\<open>key\<close>\<close>

record tracker_env =
  tk_aead :: aead
  tk_encKey :: string
  tk_baseURL :: string
  requestable :: "string \<Rightarrow> string option"
  exchange_get :: "string \<Rightarrow> string \<Rightarrow> tracker_reply option" \<comment> \<open>url, \<open>Authorization\<close>\<close>
  exchange_post :: "string \<Rightarrow> string \<Rightarrow> issue_payload \<Rightarrow> tracker_reply option"

subsection \<open>Configurations\<close>

definition validProviders :: "string list" where
  "validProviders = [''github'', ''jira'']"

definition tokenFields :: "string \<Rightarrow> string list" where
  "tokenFields provider = (if provider = ''github'' then [''token''] else if provider = ''jira'' then [''api_token''] else [])"

definition requiredFields :: "string \<Rightarrow> string list option" where
  "requiredFields provider =
     (if provider = ''github'' then Some [''token'', ''owner'', ''repo'']
      else if provider = ''jira'' then Some [''base_url'', ''email'', ''api_token'', ''project_key''] else None)"

definition stringVal :: "tracker_config \<Rightarrow> string \<Rightarrow> string" where
  "stringVal m key = (case m key of Some (JString s) \<Rightarrow> s | _ \<Rightarrow> [])"

text \<open>The error of the first field that is missing, \<open>None\<close> when there is none.\<close>

definition validateConfig :: "string \<Rightarrow> tracker_config \<Rightarrow> string option" where
  "validateConfig provider config = (case requiredFields provider of
     None \<Rightarrow> Some (''unsupported provider: '' @ provider)
   | Some required \<Rightarrow> map_option (\<lambda>field. ''missing required field: '' @ field) (find (\<lambda>field. stringVal config field = []) required))"

definition isMasked :: "string \<Rightarrow> bool" where
  "isMasked val \<longleftrightarrow> has_suffix val ''******''"

text \<open>A function over the token fields: empty fields stay, the first failure ends it.\<close>

fun map_tokens :: "(string \<Rightarrow> string \<Rightarrow> string option) \<Rightarrow> string list \<Rightarrow> tracker_config \<Rightarrow> tracker_config option" where
  "map_tokens f [] config = Some config"
| "map_tokens f (field # rest) config =
     (let val = stringVal config field in
      if val = [] then map_tokens f rest config
      else case f field val of None \<Rightarrow> None | Some x \<Rightarrow> map_tokens f rest (config(field \<mapsto> JString x)))"

definition decryptTokenFields :: "tracker_env \<Rightarrow> string \<Rightarrow> tracker_config \<Rightarrow> tracker_config option" where
  "decryptTokenFields e provider = map_tokens (\<lambda>_ val. Decrypt (tk_aead e) (tk_encKey e) val) (tokenFields provider)"

definition shown_token :: "tracker_env \<Rightarrow> string \<Rightarrow> string" where
  "shown_token e val = (case Decrypt (tk_aead e) (tk_encKey e) val of None \<Rightarrow> MaskToken val | Some t \<Rightarrow> MaskToken t)"

definition maskTokenFields :: "tracker_env \<Rightarrow> string \<Rightarrow> tracker_config \<Rightarrow> tracker_config" where
  "maskTokenFields e provider config =
     (case map_tokens (\<lambda>_ val. Some (shown_token e val)) (tokenFields provider) config of Some c \<Rightarrow> c | None \<Rightarrow> config)"

definition loadConfig :: "tracker_env \<Rightarrow> string \<Rightarrow> string \<Rightarrow> (string + tracker_config) prog" where
  "loadConfig e userID provider = do {
     row \<leftarrow> select_row (\<lambda>w. find_where (\<lambda>i. in_user_id i = userID \<and> in_provider i = provider) (user_integrations w));
     State_Monad.return (case row of Inl _ \<Rightarrow> Inl ''integration not found''
       | Inr i \<Rightarrow> (case decryptTokenFields e provider (in_config i) of
           None \<Rightarrow> Inl ''decryption error'' | Some config \<Rightarrow> Inr config))
   }"

text \<open>
  Masked tokens stand for the ones already saved. \<open>nonces\<close> are the random bytes drawn for a field, if the generator
  gives any.
\<close>

definition encrypt_field :: "tracker_env \<Rightarrow> (string \<Rightarrow> string option) \<Rightarrow> tracker_config option \<Rightarrow> string \<Rightarrow> string \<Rightarrow> string option" where
  "encrypt_field e nonces existing field val = (case existing of
     Some old \<Rightarrow> Encrypt (tk_aead e) (tk_encKey e) (nonces field) (if isMasked val then stringVal old field else val)
   | None \<Rightarrow> Encrypt (tk_aead e) (tk_encKey e) (nonces field) val)"

definition preserveOrEncryptTokens :: "tracker_env \<Rightarrow> (string \<Rightarrow> string option) \<Rightarrow> string \<Rightarrow> string \<Rightarrow> tracker_config \<Rightarrow>
    tracker_config option prog" where
  "preserveOrEncryptTokens e nonces userID provider config =
     (if list_ex (\<lambda>field. stringVal config field \<noteq> [] \<and> isMasked (stringVal config field)) (tokenFields provider) then do {
        r \<leftarrow> loadConfig e userID provider;
        State_Monad.return (case r of Inl _ \<Rightarrow> None
          | Inr existing \<Rightarrow> map_tokens (encrypt_field e nonces (Some existing)) (tokenFields provider) config)
      } else State_Monad.return (map_tokens (encrypt_field e nonces None) (tokenFields provider) config))"

subsection \<open>Requests on the settings\<close>

text \<open>\<open>INSERT .. ON CONFLICT (user_id, provider) DO UPDATE\<close>.\<close>

definition upsert_integration :: "string \<Rightarrow> string \<Rightarrow> string \<Rightarrow> tracker_config \<Rightarrow> (db_error + unit) prog" where
  "upsert_integration newID userID provider config = exec_world (\<lambda>w.
     if list_ex (\<lambda>i. in_user_id i = userID \<and> in_provider i = provider) (user_integrations w)
       then w\<lparr>user_integrations := upd_where (\<lambda>i. in_user_id i = userID \<and> in_provider i = provider)
         (\<lambda>i. i\<lparr>in_config := config, in_updated_at := now w\<rparr>) (user_integrations w)\<rparr>
     else w\<lparr>user_integrations := user_integrations w @ [\<lparr>in_id = newID, in_user_id = userID, in_provider = provider,
         in_config = config, in_created_at = now w, in_updated_at = now w\<rparr>]\<rparr>)"

text \<open>\<open>None\<close> stands for a body that does not decode.\<close>

definition SaveIntegration :: "tracker_env \<Rightarrow> (string \<Rightarrow> string option) \<Rightarrow> string \<Rightarrow> string \<Rightarrow> string \<Rightarrow> tracker_config option \<Rightarrow>
    string response prog" where
  "SaveIntegration e nonces newID userID provider body =
     (if provider \<notin> set validProviders then State_Monad.return (WriteError 400 (''unsupported provider: '' @ provider))
      else case body of None \<Rightarrow> State_Monad.return (WriteError 400 ''invalid request body'')
      | Some config \<Rightarrow>
        case validateConfig provider config of Some err \<Rightarrow> State_Monad.return (WriteError 400 err)
        | None \<Rightarrow> do {
            enc \<leftarrow> preserveOrEncryptTokens e nonces userID provider config;
            case enc of None \<Rightarrow> State_Monad.return (WriteError 500 ''encryption error'')
            | Some config \<Rightarrow> do {
                r \<leftarrow> upsert_integration newID userID provider config;
                State_Monad.return (case r of Inl _ \<Rightarrow> WriteError 500 ''internal server error'' | Inr _ \<Rightarrow> WriteJSON 200 ''ok'') } })"

definition ListIntegrations :: "tracker_env \<Rightarrow> string \<Rightarrow> integration_row list response prog" where
  "ListIntegrations e userID = do {
     r \<leftarrow> select_rows (\<lambda>w. sort_key in_created_at (filter (\<lambda>i. in_user_id i = userID) (user_integrations w)));
     State_Monad.return (case r of Inl _ \<Rightarrow> WriteError 500 ''internal server error''
       | Inr is \<Rightarrow> WriteJSON 200 (map (\<lambda>i. i\<lparr>in_config := maskTokenFields e (in_provider i) (in_config i)\<rparr>) is))
   }"

definition DeleteIntegration :: "string \<Rightarrow> string \<Rightarrow> string response prog" where
  "DeleteIntegration userID provider =
     (if provider \<notin> set validProviders then State_Monad.return (WriteError 400 (''unsupported provider: '' @ provider))
      else do {
        r \<leftarrow> exec_world (\<lambda>w. w\<lparr>user_integrations :=
            del_where (\<lambda>i. in_user_id i = userID \<and> in_provider i = provider) (user_integrations w)\<rparr>);
        State_Monad.return (case r of Inl _ \<Rightarrow> WriteError 500 ''internal server error'' | Inr _ \<Rightarrow> WriteHeader 204) })"

subsection \<open>The clients\<close>

datatype creator =
    GitHubClient string string string \<comment> \<open>token, owner, repository\<close>
  | JiraClient string string string string \<comment> \<open>base url, email, token, project\<close>

definition NewJiraClient :: "string \<Rightarrow> string \<Rightarrow> string \<Rightarrow> string \<Rightarrow> creator" where
  "NewJiraClient base email apiToken projectKey = JiraClient (trim_right {CHR ''/''} base) email apiToken projectKey"

definition newCreator :: "string \<Rightarrow> tracker_config \<Rightarrow> string + creator" where
  "newCreator provider config =
     (if provider = ''github'' then
        Inr (GitHubClient (stringVal config ''token'') (stringVal config ''owner'') (stringVal config ''repo''))
      else if provider = ''jira'' then
        Inr (NewJiraClient (stringVal config ''base_url'') (stringVal config ''email'') (stringVal config ''api_token'')
          (stringVal config ''project_key''))
      else Inl (''unsupported provider: '' @ provider))"

definition tracker_github_api :: string where "tracker_github_api = ''https://api.github.com''"

fun tracker_auth :: "creator \<Rightarrow> string" where
  "tracker_auth (GitHubClient token owner repo) = ''Bearer '' @ token"
| "tracker_auth (JiraClient base email apiToken projectKey) = ''Basic '' @ StdEncode (email @ '':'' @ apiToken)"

definition checkProviderResponse :: "int \<Rightarrow> string option" where
  "checkProviderResponse status =
     (if 200 \<le> status \<and> status < 300 then None
      else if status = 401 then Some ''authentication failed, check your API token''
      else if status = 404 then Some ''project/repo not found, check your configuration''
      else if status = 429 then Some ''rate limited, try again in a moment''
      else Some (''provider returned status '' @ itoa status))"

definition apiGet :: "tracker_env \<Rightarrow> string \<Rightarrow> string \<Rightarrow> string option" where
  "apiGet e token path =
     (case requestable e (tracker_github_api @ path) of Some err \<Rightarrow> Some err
      | None \<Rightarrow> (case exchange_get e (tracker_github_api @ path) (''Bearer '' @ token) of
          None \<Rightarrow> Some ''could not connect to GitHub''
        | Some resp \<Rightarrow>
          if tr_StatusCode resp = 401 then Some ''authentication failed, check your token''
          else if tr_StatusCode resp = 404 then Some ''not found''
          else if 400 \<le> tr_StatusCode resp then Some (''GitHub API error: '' @ itoa (tr_StatusCode resp)) else None))"

fun ValidateConfig :: "tracker_env \<Rightarrow> creator \<Rightarrow> string option" where
  "ValidateConfig e (GitHubClient token owner repo) = (case apiGet e token ''/user'' of
     Some err \<Rightarrow> Some err
   | None \<Rightarrow> (case apiGet e token (''/repos/'' @ owner @ ''/'' @ repo) of
       Some _ \<Rightarrow> Some ''repository not found or not accessible'' | None \<Rightarrow> None))"
| "ValidateConfig e (JiraClient base email apiToken projectKey) =
     (case requestable e (base @ ''/rest/api/3/myself'') of Some err \<Rightarrow> Some err
      | None \<Rightarrow> (case exchange_get e (base @ ''/rest/api/3/myself'') (tracker_auth (JiraClient base email apiToken projectKey)) of
          None \<Rightarrow> Some ''could not connect to Jira''
        | Some resp \<Rightarrow>
          if tr_StatusCode resp = 401 then Some ''authentication failed, check your email and API token''
          else if 400 \<le> tr_StatusCode resp then Some (''jira API error: '' @ itoa (tr_StatusCode resp)) else None))"

subsection \<open>Issues\<close>

record issue_request =
  iq_Title :: string
  iq_Description :: string
  iq_VideoURL :: string

abbreviation nl2 :: string where "nl2 \<equiv> [CHR 0x0A, CHR 0x0A]"

definition formatGitHubBody :: "issue_request \<Rightarrow> string" where
  "formatGitHubBody req = ''**Video:** '' @ iq_VideoURL req @ nl2 @
     (if iq_Description req = [] then []
      else ''<details>'' @ [CHR 0x0A] @ ''<summary>Transcript</summary>'' @ nl2 @ iq_Description req @ nl2 @ ''</details>'')"

definition buildADFDescription :: "issue_request \<Rightarrow> adf" where
  "buildADFDescription req = ADFDoc (ADFParagraph [ADFInlineCard (iq_VideoURL req)] #
     (if iq_Description req = [] then []
      else [ADFParagraph [ADFText ''Transcript:''], ADFCodeBlock [ADFText (iq_Description req)]]))"

text \<open>The url of an issue and its key; \<open>Inl\<close> the error. The exchange is recorded when there was a connection.\<close>

definition file_issue :: "tracker_env \<Rightarrow> string \<Rightarrow> string \<Rightarrow> string \<Rightarrow> issue_payload \<Rightarrow> (string + tracker_reply) prog" where
  "file_issue e service_name url auth payload =
     (case requestable e url of Some err \<Rightarrow> State_Monad.return (Inl err)
      | None \<Rightarrow> (case exchange_post e url auth payload of
          None \<Rightarrow> State_Monad.return (Inl (''could not connect to '' @ service_name))
        | Some resp \<Rightarrow> do {
            modify (\<lambda>w. w\<lparr>effects := effects w @ [IssuePost url auth payload]\<rparr>);
            State_Monad.return (case checkProviderResponse (tr_StatusCode resp) of Some err \<Rightarrow> Inl err | None \<Rightarrow> Inr resp) }))"

fun issue_url :: "creator \<Rightarrow> string" where
  "issue_url (GitHubClient token owner repo) = tracker_github_api @ ''/repos/'' @ owner @ ''/'' @ repo @ ''/issues''"
| "issue_url (JiraClient base email apiToken projectKey) = base @ ''/rest/api/3/issue''"

fun issue_body :: "creator \<Rightarrow> issue_request \<Rightarrow> issue_payload" where
  "issue_body (GitHubClient token owner repo) req = GitHubIssue (iq_Title req) (formatGitHubBody req)"
| "issue_body (JiraClient base email apiToken projectKey) req =
     JiraIssue projectKey (iq_Title req) (buildADFDescription req) ''Task''"

fun create_issue :: "tracker_env \<Rightarrow> creator \<Rightarrow> issue_request \<Rightarrow> (string + string \<times> string) prog" where
  "create_issue e (GitHubClient token owner repo) req =
     (let c = GitHubClient token owner repo in do {
        r \<leftarrow> file_issue e ''GitHub'' (issue_url c) (tracker_auth c) (issue_body c req);
        State_Monad.return (case r of Inl err \<Rightarrow> Inl err
          | Inr resp \<Rightarrow> (case tr_github resp of None \<Rightarrow> Inl ''invalid response from GitHub''
              | Some (html_url, number) \<Rightarrow> Inr (html_url, ''#'' @ itoa number))) })"
| "create_issue e (JiraClient base email apiToken projectKey) req =
     (let c = JiraClient base email apiToken projectKey in do {
        r \<leftarrow> file_issue e ''Jira'' (issue_url c) (tracker_auth c) (issue_body c req);
        State_Monad.return (case r of Inl err \<Rightarrow> Inl err
          | Inr resp \<Rightarrow> (case tr_jira resp of None \<Rightarrow> Inl ''invalid response from Jira''
              | Some key \<Rightarrow> Inr (base @ ''/browse/'' @ key, key))) })"

text \<open>The texts of a transcript with blanks between them, cut at \<open>maxLen\<close> bytes.\<close>

fun transcript_text :: "nat \<Rightarrow> string \<Rightarrow> transcript_segment list \<Rightarrow> string" where
  "transcript_text maxLen result [] = result"
| "transcript_text maxLen result (seg # segs) =
     (let result = (if result \<noteq> [] then result @ '' '' else result) @ seg_text seg in
      if maxLen \<le> length result then take maxLen result else transcript_text maxLen result segs)"

definition extractTranscriptText :: "transcript_segment list option \<Rightarrow> nat \<Rightarrow> string" where
  "extractTranscriptText transcriptJSON maxLen = (case transcriptJSON of None \<Rightarrow> [] | Some segs \<Rightarrow> transcript_text maxLen [] segs)"

definition issue_scope :: "rctx \<Rightarrow> string \<Rightarrow> video \<Rightarrow> bool" where
  "issue_scope c videoID v \<longleftrightarrow>
     (if OrgID c \<noteq> [] then
        if IsAdminOrOwner (OrgRole c) then v_id v = videoID \<and> v_organization_id v = Some (OrgID c)
        else v_id v = videoID \<and> v_user_id v = UserID c \<and> v_organization_id v = Some (OrgID c)
      else v_id v = videoID \<and> v_user_id v = UserID c \<and> v_organization_id v = None)"

definition TestIntegration :: "tracker_env \<Rightarrow> string \<Rightarrow> string \<Rightarrow> string response prog" where
  "TestIntegration e userID provider = do {
     r \<leftarrow> loadConfig e userID provider;
     State_Monad.return (case r of Inl err \<Rightarrow> WriteError 404 err
       | Inr config \<Rightarrow> (case newCreator provider config of Inl err \<Rightarrow> WriteError 400 err
           | Inr creator \<Rightarrow> (case ValidateConfig e creator of Some err \<Rightarrow> WriteError 400 err | None \<Rightarrow> WriteJSON 200 ''ok'')))
   }"

definition issue_of :: "tracker_env \<Rightarrow> video \<Rightarrow> issue_request" where
  "issue_of e v = \<lparr>iq_Title = v_title v, iq_Description = extractTranscriptText (v_transcript_json v) 500,
     iq_VideoURL = tk_baseURL e @ ''/watch/'' @ v_share_token v\<rparr>"

definition CreateIssue :: "tracker_env \<Rightarrow> rctx \<Rightarrow> string \<Rightarrow> string option \<Rightarrow> (string \<times> string) response prog" where
  "CreateIssue e c videoID body = do {
     row \<leftarrow> select_row (\<lambda>w. find_where (issue_scope c videoID) (videos w));
     case row of Inl _ \<Rightarrow> State_Monad.return (WriteError 404 ''video not found'')
     | Inr v \<Rightarrow>
       if body = None \<or> body = Some [] then State_Monad.return (WriteError 400 ''provider is required'')
       else do {
         r \<leftarrow> loadConfig e (UserID c) (the body);
         case r of Inl _ \<Rightarrow> State_Monad.return (WriteError 404 ''integration not configured'')
         | Inr config \<Rightarrow>
           (case newCreator (the body) config of Inl err \<Rightarrow> State_Monad.return (WriteError 400 err)
            | Inr creator \<Rightarrow> do {
                r \<leftarrow> create_issue e creator (issue_of e v);
                State_Monad.return (case r of Inl err \<Rightarrow> WriteError 502 err | Inr resp \<Rightarrow> WriteJSON 200 resp) }) }
   }"

end
