(* ===== verification/Integration_Facts.thy ===== *)
theory Integration_Facts
  imports Integrations
begin

text \<open>
  What holds of issue trackers: a token comes back as it was saved and is shown masked only, and an issue is filed for
  a video in the caller's scope with the caller's own configuration.
\<close>

subsection \<open>Tokens\<close>

lemma StdEncode_empty: "StdEncode s = [] \<longleftrightarrow> s = []"
proof -
  have "StdEncode [] = []" by code_simp
  moreover have "s = []" if "StdEncode s = []"
  proof -
    have "StdDecode [] = Some []" by code_simp
    then show ?thesis using StdDecode_Encode [of s] that by simp
  qed
  ultimately show ?thesis by auto
qed

lemma token_field: "provider \<in> set validProviders \<Longrightarrow> tokenFields provider = [hd (tokenFields provider)]"
  by (auto simp: validProviders_def tokenFields_def)

lemma stringVal_upd [simp]: "stringVal (config(f \<mapsto> JString x)) f = x"
  by (simp add: stringVal_def)

lemma stringVal_self: "stringVal config f \<noteq> [] \<Longrightarrow> config(f \<mapsto> JString (stringVal config f)) = config"
  by (auto simp: stringVal_def fun_eq_iff split: option.splits json.splits)

lemma has_token:
  "provider \<in> set validProviders \<Longrightarrow> validateConfig provider config = None \<Longrightarrow> stringVal config (hd (tokenFields provider)) \<noteq> []"
  by (auto simp: validProviders_def tokenFields_def validateConfig_def requiredFields_def split: if_splits)

lemma map_tokens_one:
  "tokenFields provider = [f] \<Longrightarrow> stringVal config f \<noteq> [] \<Longrightarrow>
    map_tokens g (tokenFields provider) config = map_option (\<lambda>x. config(f \<mapsto> JString x)) (g f (stringVal config f))"
  by (simp add: Let_def split: option.split)

definition sound_nonces :: "(string \<Rightarrow> string option) \<Rightarrow> bool" where
  "sound_nonces nonces \<longleftrightarrow> (\<forall>f n. nonces f = Some n \<longrightarrow> length n = NonceSize)"

lemma sealed_field:
  assumes "opens_sealed (tk_aead e) (tk_encKey e)" "sound_nonces nonces" "tokenFields provider = [f]"
    and "Encrypt (tk_aead e) (tk_encKey e) (nonces f) x = Some c"
  shows "decryptTokenFields e provider (config(f \<mapsto> JString c)) = Some (config(f \<mapsto> JString x))"
proof -
  obtain n where n: "nonces f = Some n" "length n = NonceSize"
    using assms(2,4) by (auto simp: Encrypt_def sound_nonces_def split: if_splits option.splits)
  then have "Decrypt (tk_aead e) (tk_encKey e) c = Some x" using assms(1,4) by (auto intro: Decrypt_Encrypt)
  moreover have "c \<noteq> []"
    using assms(4) n by (auto simp: Encrypt_def StdEncode_empty NonceSize_def split: if_splits)
  ultimately show ?thesis unfolding decryptTokenFields_def
    by (subst map_tokens_one [OF assms(3)]) (simp_all)
qed

definition loaded :: "tracker_env \<Rightarrow> string \<Rightarrow> string \<Rightarrow> world \<Rightarrow> tracker_config option" where
  "loaded e userID provider w =
     Option.bind (find_where (\<lambda>i. in_user_id i = userID \<and> in_provider i = provider) (user_integrations w))
       (\<lambda>i. decryptTokenFields e provider (in_config i))"

lemma loadConfig_wp:
  "wp (loadConfig e userID provider) (\<lambda>r t. t = tick w \<and> (\<forall>config. r = Inr config \<longrightarrow> loaded e userID provider w = Some config)) w"
  unfolding loadConfig_def by (auto simp: loaded_def split: option.split)

lemma loadConfig_run:
  "fst (run_state (loadConfig e userID provider) (w\<lparr>faults := []\<rparr>)) =
    (case find_where (\<lambda>i. in_user_id i = userID \<and> in_provider i = provider) (user_integrations w) of
       None \<Rightarrow> Inl ''integration not found''
     | Some _ \<Rightarrow> (case loaded e userID provider w of None \<Rightarrow> Inl ''decryption error'' | Some config \<Rightarrow> Inr config))"
  by (auto simp: loadConfig_def loaded_def run_simps split: option.split)

text \<open>The token a request stands for: its own, or for a mask the one saved before.\<close>

definition meant_token :: "tracker_env \<Rightarrow> string \<Rightarrow> string \<Rightarrow> tracker_config \<Rightarrow> world \<Rightarrow> string" where
  "meant_token e userID provider config w =
     (let val = stringVal config (hd (tokenFields provider)) in
      if isMasked val then (case loaded e userID provider w of Some old \<Rightarrow> stringVal old (hd (tokenFields provider)) | None \<Rightarrow> [])
      else val)"

lemma preserve_wp:
  assumes "opens_sealed (tk_aead e) (tk_encKey e)" "sound_nonces nonces" "provider \<in> set validProviders"
    and "validateConfig provider config = None"
  shows "wp (preserveOrEncryptTokens e nonces userID provider config) (\<lambda>r t. (t = w \<or> t = tick w) \<and> (\<forall>enc. r = Some enc \<longrightarrow>
    decryptTokenFields e provider enc =
      Some (config(hd (tokenFields provider) \<mapsto> JString (meant_token e userID provider config w))))) w"
proof -
  let ?f = "hd (tokenFields provider)"
  note one = token_field [OF assms(3)] and val = has_token [OF assms(3,4)]
  have opened: "decryptTokenFields e provider enc = Some (config(?f \<mapsto> JString x))"
    if "map_tokens (encrypt_field e nonces old) (tokenFields provider) config = Some enc"
      "encrypt_field e nonces old ?f (stringVal config ?f) = Encrypt (tk_aead e) (tk_encKey e) (nonces ?f) x" for enc old x
    using that map_tokens_one [OF one val] sealed_field [OF assms(1,2) one] by auto
  show ?thesis
  proof (cases "isMasked (stringVal config ?f)")
    case True
    then have "list_ex (\<lambda>field. stringVal config field \<noteq> [] \<and> isMasked (stringVal config field)) (tokenFields provider)"
      using val by (subst one) simp
    then show ?thesis unfolding preserveOrEncryptTokens_def using True
      by (auto intro!: wp_mono [OF loadConfig_wp] opened simp: encrypt_field_def meant_token_def split: sum.splits)
  next
    case False
    then have "\<not> list_ex (\<lambda>field. stringVal config field \<noteq> [] \<and> isMasked (stringVal config field)) (tokenFields provider)"
      by (subst one) simp
    then show ?thesis unfolding preserveOrEncryptTokens_def using False
      by (auto intro!: opened simp: encrypt_field_def meant_token_def)
  qed
qed

lemma upsert_integration_wp:
  "wp (upsert_integration newID userID provider enc) (\<lambda>r t. r = Inr () \<longrightarrow>
    (\<exists>i. find_where (\<lambda>i. in_user_id i = userID \<and> in_provider i = provider) (user_integrations t) = Some i \<and> in_config i = enc)) w"
proof -
  have upd: "\<exists>i. find_where (\<lambda>i. in_user_id i = userID \<and> in_provider i = provider)
      (upd_where (\<lambda>i. in_user_id i = userID \<and> in_provider i = provider) (\<lambda>i. i\<lparr>in_config := enc, in_updated_at := c\<rparr>) rows) = Some i \<and>
      in_config i = enc"
    if "list_ex (\<lambda>i. in_user_id i = userID \<and> in_provider i = provider) rows" for rows c
    using that by (induction rows) auto
  have new: "find_where (\<lambda>i. in_user_id i = userID \<and> in_provider i = provider) rows = None"
    if "\<not> list_ex (\<lambda>i. in_user_id i = userID \<and> in_provider i = provider) rows" for rows
    using that by (auto simp: find_where_None list_ex_iff)
  show ?thesis unfolding upsert_integration_def
    by (auto simp: find_where_append new intro: upd split: if_split option.split)
qed

text \<open>What is listed shows masks only, and the caller's own.\<close>

lemma listed_tokens_masked:
  "wp (ListIntegrations e userID) (\<lambda>r t. \<forall>rows. r = WriteJSON 200 rows \<longrightarrow> (\<forall>i \<in> set rows.
    in_user_id i = userID \<and> (\<forall>f \<in> set (tokenFields (in_provider i)). stringVal (in_config i) f = [] \<or>
      (\<exists>secret. stringVal (in_config i) f = MaskToken secret)))) w"
proof -
  have masks: "stringVal (maskTokenFields e p m) f = [] \<or> (\<exists>secret. stringVal (maskTokenFields e p m) f = MaskToken secret)"
    if "f \<in> set (tokenFields p)" for p m f
  proof -
    have "tokenFields p = [f]" using that by (auto simp: tokenFields_def split: if_splits)
    then show ?thesis
      by (cases "stringVal m f = []") (auto simp: maskTokenFields_def shown_token_def Let_def split: option.split)
  qed
  show ?thesis unfolding ListIntegrations_def by (auto dest: masks split: option.split)
qed


definition sample_tracker :: tracker_env where
  "sample_tracker = \<lparr>tk_aead = \<lparr>Seal = (\<lambda>_ _ p. rev p), Open_sealed = (\<lambda>_ _ c. Some (rev c))\<rparr>, tk_encKey = replicate 32 CHR ''k'',
     tk_baseURL = ''https://app'', requestable = (\<lambda>_. None), exchange_get = (\<lambda>_ _. None), exchange_post = (\<lambda>_ _ _. None)\<rparr>"

definition sample_tracker_config :: tracker_config where
  "sample_tracker_config = [''token'' \<mapsto> JString ''ghp_secret'', ''owner'' \<mapsto> JString ''acme'', ''repo'' \<mapsto> JString ''web'']"


subsection \<open>Issues\<close>

lemma issue_scope_in_scope: "issue_scope c videoID v \<longleftrightarrow> v_id v = videoID \<and> in_scope c v"
  by (auto simp: issue_scope_def in_scope_def)

lemma transcript_text_cut: "length result \<le> n \<Longrightarrow> length (transcript_text n result segs) \<le> n"
  by (induction n result segs rule: transcript_text.induct) (auto simp: Let_def)

lemma description_cut: "length (extractTranscriptText segs n) \<le> n"
  by (simp add: extractTranscriptText_def transcript_text_cut split: option.split)

lemma file_issue_wp:
  assumes "\<And>err. Q (Inl err) w"
    and "\<And>r. Q r (w\<lparr>effects := effects w @ [IssuePost url auth payload]\<rparr>)"
  shows "wp (file_issue e name url auth payload) Q w"
  unfolding file_issue_def using assms by (cases "requestable e url"; cases "exchange_post e url auth payload") simp_all

lemma create_issue_wp:
  assumes "\<And>err. Q (Inl err) w"
    and "\<And>r. Q r (w\<lparr>effects := effects w @ [IssuePost (issue_url cr) (tracker_auth cr) (issue_body cr req)]\<rparr>)"
  shows "wp (create_issue e cr req) Q w"
  using assms by (cases cr) (simp_all add: Let_def, (rule file_issue_wp, simp_all)+)

text \<open>The request that files an issue about a video with the caller's configuration of a provider.\<close>

definition issue_sent :: "tracker_env \<Rightarrow> rctx \<Rightarrow> string \<Rightarrow> world \<Rightarrow> video \<Rightarrow> effect \<Rightarrow> bool" where
  "issue_sent e c provider w v eff \<longleftrightarrow> (\<exists>config cr. loaded e (UserID c) provider w = Some config \<and>
     newCreator provider config = Inr cr \<and> length (iq_Description (issue_of e v)) \<le> 500 \<and>
     eff = IssuePost (issue_url cr) (tracker_auth cr) (issue_body cr (issue_of e v)))"

text \<open>
  C29: Filing an issue changes nothing here. At most one request leaves, to the tracker of the caller's own
  configuration and with its credentials, about a video in the caller's scope; the excerpt of the transcript in it has
  at most 500 bytes. An answer of success means that it left.
\<close>

theorem issues_in_scope:
  "wp (CreateIssue e c videoID body) (\<lambda>r t. t\<lparr>faults := []\<rparr> = w\<lparr>faults := []\<rparr> \<and> 400 \<le> status_code r \<or>
    (\<exists>v eff. v \<in> set (videos w) \<and> v_id v = videoID \<and> in_scope c v \<and> issue_sent e c (the body) w v eff \<and>
       t\<lparr>faults := []\<rparr> = w\<lparr>faults := [], effects := effects w @ [eff]\<rparr>)) w"
proof -
  define Q :: "(string \<times> string) response \<Rightarrow> world \<Rightarrow> bool" where
    "Q r t \<longleftrightarrow> t\<lparr>faults := []\<rparr> = w\<lparr>faults := []\<rparr> \<and> 400 \<le> status_code r \<or>
      (\<exists>v eff. v \<in> set (videos w) \<and> v_id v = videoID \<and> in_scope c v \<and> issue_sent e c (the body) w v eff \<and>
        t\<lparr>faults := []\<rparr> = w\<lparr>faults := [], effects := effects w @ [eff]\<rparr>)" for r t
  have err: "Q (WriteError k m) (tick w)" "Q (WriteError k m) (tick (tick w))" if "400 \<le> k" for k m
    using that by (simp_all add: Q_def tick_def)
  have sent: "Q r ((tick (tick w))\<lparr>effects := effects w @ [IssuePost (issue_url cr) (tracker_auth cr) (issue_body cr (issue_of e v))]\<rparr>)"
    if "find_where (issue_scope c videoID) (videos w) = Some v" "loaded e (UserID c) (the body) (tick w) = Some config"
      "newCreator (the body) config = Inr cr" for v config cr r
    unfolding Q_def
  proof (intro disjI2 exI conjI)
    show "v \<in> set (videos w)" "v_id v = videoID" "in_scope c v" using find_where_Some [OF that(1)] by (auto simp: issue_scope_in_scope)
    show "issue_sent e c (the body) w v (IssuePost (issue_url cr) (tracker_auth cr) (issue_body cr (issue_of e v)))"
      using that(2,3) by (auto simp: issue_sent_def loaded_def issue_of_def description_cut)
  qed (simp add: tick_def)
  have "wp (CreateIssue e c videoID body) Q w"
    unfolding CreateIssue_def
    by (auto intro!: wp_mono [OF loadConfig_wp] create_issue_wp err sent split: option.split sum.splits) simp_all
  then show ?thesis unfolding Q_def .
qed

subsection \<open>What modelling showed\<close>

text \<open>
  The mask of a token of at most four characters does not count as one: saving what was listed replaces the token by
  asterisks.
\<close>

lemma short_token_lost:
  assumes "length secret \<le> 4" "stringVal config (hd (tokenFields provider)) = MaskToken secret"
  shows "meant_token e userID provider config w = replicate (length secret) CHR ''*''"
proof -
  have "\<not> isMasked (MaskToken secret)" using assms(1) by (auto simp: MaskToken_def isMasked_def has_suffix_def)
  then show ?thesis using assms by (simp add: meant_token_def MaskToken_def)
qed

text \<open>An issue is filed about a deleted video too.\<close>

lemma issue_scope_ignores_status: "issue_scope c videoID (v\<lparr>v_status := s\<rparr>) = issue_scope c videoID v"
  by (simp add: issue_scope_def)

end
