(* ===== verification/Transcribers.thy ===== *)
theory Transcribers
  imports Workers VTT Encodings "HOL-Library.Word"
begin

text \<open>
  The transcribers (\<open>transcriber_factory.go\<close>, \<open>transcriber_local.go\<close>, \<open>transcriber_openai.go\<close>,
  \<open>transcriber_deepgram.go\<close>): how one is chosen from the environment, what it sends, and the segments it makes of the
  answer. The programs and services themselves, \<open>strings.ToLower\<close> and \<open>strconv.ParseFloat\<close> are parameters.
\<close>

subsection \<open>The choice (\<open>transcriber_factory.go\<close>)\<close>

text \<open>\<open>time.Duration\<close>: nanoseconds in a signed word of 64 bits.\<close>

type_synonym duration = "64 word"

definition seconds_of :: "int \<Rightarrow> duration" where
  "seconds_of secs = of_int secs * 1000000000"

definition parseTimeoutEnv :: "string \<Rightarrow> duration" where
  "parseTimeoutEnv raw = (let v = trim_space raw in
     if v = [] then 0
     else case Atoi v of None \<Rightarrow> 0 | Some secs \<Rightarrow> if secs \<le> 0 then 0 else seconds_of secs)"

datatype engine =
    LocalWhisper
  | OpenAIWhisper string string string duration \<comment> \<open>base url, key, model, timeout\<close>
  | Deepgram string string duration \<comment> \<open>key, model, timeout\<close>

definition newOpenAIWhisper :: "string \<Rightarrow> string \<Rightarrow> string \<Rightarrow> duration \<Rightarrow> engine" where
  "newOpenAIWhisper base apiKey model timeout =
     OpenAIWhisper (trim_suffix (if base = [] then ''https://api.openai.com'' else base) ''/'') apiKey
       (if model = [] then ''whisper-1'' else model) (if timeout = 0 then seconds_of 300 else timeout)"

definition newDeepgram :: "string \<Rightarrow> string \<Rightarrow> duration \<Rightarrow> engine" where
  "newDeepgram apiKey model timeout =
     Deepgram apiKey (if model = [] then ''nova-3'' else model) (if timeout = 0 then seconds_of 300 else timeout)"

text \<open>\<open>None\<close> is the error of a setup that cannot work; a variable that is not set reads as the empty text.\<close>

definition NewTranscriberFromEnv :: "(string \<Rightarrow> string) \<Rightarrow> (string \<Rightarrow> string) \<Rightarrow> engine option" where
  "NewTranscriberFromEnv ToLower Getenv =
     (let provider = ToLower (trim_space (Getenv ''TRANSCRIPTION_PROVIDER'')); key = Getenv ''TRANSCRIPTION_API_KEY'' in
      if provider = [] \<or> provider = ''local'' then Some LocalWhisper
      else if provider = ''openai'' then
        if key = [] then None
        else Some (newOpenAIWhisper (Getenv ''TRANSCRIPTION_API_URL'') key (Getenv ''TRANSCRIPTION_MODEL'')
          (parseTimeoutEnv (Getenv ''TRANSCRIPTION_TIMEOUT_SECONDS'')))
      else if provider = ''deepgram'' then
        if key = [] then None
        else Some (newDeepgram key (Getenv ''TRANSCRIPTION_MODEL'') (parseTimeoutEnv (Getenv ''TRANSCRIPTION_TIMEOUT_SECONDS'')))
      else None)"

fun Name :: "engine \<Rightarrow> string" where
  "Name LocalWhisper = ''local-whisper''"
| "Name (OpenAIWhisper base key model timeout) = ''openai-whisper:'' @ model"
| "Name (Deepgram key model timeout) = ''deepgram:'' @ model"

text \<open>\<open>whisper\<close>: the program is on the path and its model is there.\<close>

fun Available :: "bool \<Rightarrow> engine \<Rightarrow> bool" where
  "Available whisper LocalWhisper \<longleftrightarrow> whisper"
| "Available whisper (OpenAIWhisper base key model timeout) \<longleftrightarrow> key \<noteq> []"
| "Available whisper (Deepgram key model timeout) \<longleftrightarrow> key \<noteq> []"

subsection \<open>Segments\<close>

text \<open>The loop all three share: blank texts are dropped, the others trimmed.\<close>

definition spoken :: "(float64 \<times> float64 \<times> string) list \<Rightarrow> transcript_segment list" where
  "spoken parts = map (\<lambda>(s, t, x). \<lparr>seg_start = s, seg_end = t, seg_text = trim_space x, seg_speaker = []\<rparr>)
     (filter (\<lambda>(s, t, x). trim_space x \<noteq> []) parts)"

definition whole_text :: "string \<Rightarrow> transcript_segment" where
  "whole_text x = \<lparr>seg_start = 0, seg_end = 0, seg_text = trim_space x, seg_speaker = []\<rparr>"

subsection \<open>Local (\<open>transcriber_local.go\<close>)\<close>

definition whisperModelPath :: "(string \<Rightarrow> string) \<Rightarrow> string" where
  "whisperModelPath Getenv = (let p = Getenv ''WHISPER_MODEL_PATH'' in if p \<noteq> [] then p else ''/models/ggml-small.bin'')"

definition whisper_args :: "(string \<Rightarrow> string) \<Rightarrow> string \<Rightarrow> string \<Rightarrow> string \<Rightarrow> string list" where
  "whisper_args Getenv audioPath outputPrefix language =
     [''-m'', whisperModelPath Getenv, ''-f'', audioPath, ''--output-json'', ''-of'', outputPrefix, ''-t'', ''2'', ''-l'', language]"

text \<open>\<open>strings.Replace(ts, ",", ".", 1)\<close>.\<close>

fun first_comma :: "string \<Rightarrow> string" where
  "first_comma [] = []"
| "first_comma (c # s) = (if c = CHR '','' then CHR ''.'' # s else c # first_comma s)"

definition parseTimestampToSeconds :: "(string \<Rightarrow> float64 option) \<Rightarrow> string \<Rightarrow> float64" where
  "parseTimestampToSeconds parse_float ts =
     (if ts = [] then 0
      else case map parse_float (split (first_comma ts) '':'') of
        [Some h, Some m, Some s] \<Rightarrow> f_add (f_add (f_mul h 3600) (f_mul m 60)) s
      | _ \<Rightarrow> 0)"

text \<open>The file the program writes: times and texts; \<open>None\<close> when it fails or leaves nothing readable.\<close>

definition parseWhisperJSON :: "(string \<Rightarrow> float64 option) \<Rightarrow> (string \<times> string \<times> string) list option \<Rightarrow>
    transcript_segment list attempt_result" where
  "parseWhisperJSON parse_float data = (case data of None \<Rightarrow> Failed
     | Some result \<Rightarrow> Ok (spoken (map (\<lambda>(s, t, x). (parseTimestampToSeconds parse_float s, parseTimestampToSeconds parse_float t, x)) result)))"

subsection \<open>Services (\<open>transcriber_openai.go\<close>, \<open>transcriber_deepgram.go\<close>)\<close>

text \<open>What is sent beside the audio: url, \<open>Authorization\<close>, and the fields of the form.\<close>

record speech_request =
  sq_url :: string
  sq_Authorization :: string
  sq_fields :: "(string \<times> string) list"

definition openai_request :: "string \<Rightarrow> string \<Rightarrow> string \<Rightarrow> string \<Rightarrow> speech_request" where
  "openai_request base apiKey model language =
     \<lparr>sq_url = base @ ''/v1/audio/transcriptions'', sq_Authorization = ''Bearer '' @ apiKey,
      sq_fields = [(''model'', model), (''response_format'', ''verbose_json'')] @
        (if language \<noteq> [] \<and> language \<noteq> ''auto'' then [(''language'', language)] else [])\<rparr>"

text \<open>\<open>url.Values.Encode\<close> writes the parameters in the order of their names.\<close>

definition deepgram_request :: "string \<Rightarrow> string \<Rightarrow> string \<Rightarrow> speech_request" where
  "deepgram_request apiKey model language =
     \<lparr>sq_url = ''https://api.deepgram.com/v1/listen?'' @
        (if language = [] \<or> language = ''auto'' then ''detect_language=true'' else ''language='' @ QueryEscape language) @
        ''&model='' @ QueryEscape model @ ''&paragraphs=true&punctuate=true&smart_format=true'',
      sq_Authorization = ''Token '' @ apiKey, sq_fields = []\<rparr>"

record openai_answer =
  oa_Text :: string
  oa_Segments :: "(float64 \<times> float64 \<times> string) list"

record deepgram_alternative =
  da_Transcript :: string
  da_Paragraphs :: "(float64 \<times> float64 \<times> string) list list" \<comment> \<open>the sentences of each\<close>

text \<open>
  An exchange: \<open>None\<close> when the audio cannot be read or the exchange fails, else the status and the body as the
  decoder reads it.
\<close>

type_synonym 'a answered = "(int \<times> 'a option) option"

definition decoded :: "'a answered \<Rightarrow> 'a option" where
  "decoded reply = (case reply of Some (status, body) \<Rightarrow> if status = 200 then body else None | None \<Rightarrow> None)"

definition openai_segments :: "openai_answer answered \<Rightarrow> transcript_segment list attempt_result" where
  "openai_segments reply = (case decoded reply of None \<Rightarrow> Failed
     | Some parsed \<Rightarrow>
       if trim_space (oa_Text parsed) = [] \<and> oa_Segments parsed = [] then NoAudio
       else let segments = spoken (oa_Segments parsed) in
         Ok (if segments = [] \<and> trim_space (oa_Text parsed) \<noteq> [] then [whole_text (oa_Text parsed)] else segments))"

text \<open>The body holds the alternatives of each channel.\<close>

definition deepgram_segments :: "deepgram_alternative list list answered \<Rightarrow> transcript_segment list attempt_result" where
  "deepgram_segments reply = (case decoded reply of None \<Rightarrow> Failed
     | Some [] \<Rightarrow> NoAudio
     | Some ([] # _) \<Rightarrow> NoAudio
     | Some ((alt # _) # _) \<Rightarrow>
       if trim_space (da_Transcript alt) = [] then NoAudio
       else let segments = spoken (concat (da_Paragraphs alt)) in
         Ok (if segments = [] then [whole_text (da_Transcript alt)] else segments))"

text \<open>The world a transcriber works in: the program and the services, for an audio file.\<close>

record speech_env =
  whisper_installed :: bool
  parse_float :: "string \<Rightarrow> float64 option"
  run_whisper :: "string \<Rightarrow> string \<Rightarrow> (string \<times> string \<times> string) list option" \<comment> \<open>audio, language\<close>
  ask_openai :: "string \<Rightarrow> duration \<Rightarrow> speech_request \<Rightarrow> openai_answer answered"
  ask_deepgram :: "string \<Rightarrow> duration \<Rightarrow> speech_request \<Rightarrow> deepgram_alternative list list answered"

fun Transcribe :: "speech_env \<Rightarrow> engine \<Rightarrow> string \<Rightarrow> string \<Rightarrow> transcript_segment list attempt_result" where
  "Transcribe e LocalWhisper audio language = parseWhisperJSON (parse_float e) (run_whisper e audio language)"
| "Transcribe e (OpenAIWhisper base key model timeout) audio language =
     openai_segments (ask_openai e audio timeout (openai_request base key model language))"
| "Transcribe e (Deepgram key model timeout) audio language =
     deepgram_segments (ask_deepgram e audio timeout (deepgram_request key model language))"

text \<open>The transcriber the worker is given (\<^typ>\<open>transcriber\<close>); \<open>found\<close> is the probe for a stream.\<close>

definition transcriber_of :: "speech_env \<Rightarrow> (string \<Rightarrow> bool) \<Rightarrow> engine option \<Rightarrow> transcriber" where
  "transcriber_of e found engine = \<lparr>available = (case engine of None \<Rightarrow> False | Some t \<Rightarrow> Available (whisper_installed e) t),
     stream_found = found,
     transcribe = (\<lambda>fileKey language. case engine of None \<Rightarrow> Failed | Some t \<Rightarrow> Transcribe e t fileKey language)\<rparr>"

end
