(* ===== verification/Transcriber_Facts.thy ===== *)
theory Transcriber_Facts
  imports Transcribers Worker_Facts
begin

text \<open>
  What the transcribers give the worker, whichever is configured: segments of trimmed text with none blank, so that
  what a tick of the transcription worker stores is of that kind; and when they report that there was no sound.
\<close>

subsection \<open>Trimmed text\<close>

lemma trim_left_aux_done:
  "\<forall>p \<in> set sp. p \<noteq> [] \<Longrightarrow> length s \<le> n \<Longrightarrow> find (has_prefix (trim_left_aux n sp s)) sp = None"
proof (induction n arbitrary: s)
  case 0
  then show ?case by (auto simp: find_None_iff has_prefix_def)
next
  case (Suc n)
  show ?case
  proof (cases "find (has_prefix s) sp")
    case (Some p)
    then have "p \<in> set sp" by (auto simp: find_Some_iff)
    then have "p \<noteq> []" using Suc.prems(1) by blast
    then have "1 \<le> length p" by (cases p) simp_all
    then have "length (drop (length p) s) \<le> n" using Suc.prems(2) unfolding length_drop by linarith
    with Suc Some show ?thesis by simp
  qed simp
qed

lemma trim_left_aux_fixed: "find (has_prefix s) sp = None \<Longrightarrow> trim_left_aux n sp s = s"
  by (cases n) simp_all

lemma space_runes_nonempty: "p \<in> set space_runes \<Longrightarrow> p \<noteq> []"
  by (auto simp: space_runes_def)

lemma has_prefix_shorter: "has_prefix s p \<Longrightarrow> has_prefix (s @ t) p"
  by (auto dest!: has_prefixE)

lemma trim_space_idem: "trim_space (trim_space s) = trim_space s"
proof -
  define l where "l = trim_left_aux (length s) space_runes s"
  define r where "r = trim_left_aux (length l) (map rev space_runes) (rev l)"
  have s: "trim_space s = rev r" by (simp add: trim_space_def Let_def l_def r_def)
  have l: "find (has_prefix l) space_runes = None"
    unfolding l_def by (intro trim_left_aux_done) (auto dest: space_runes_nonempty)
  have r: "find (has_prefix r) (map rev space_runes) = None"
    unfolding r_def by (intro trim_left_aux_done) (auto dest: space_runes_nonempty)
  obtain q where "rev l = q @ r" unfolding r_def using trim_left_aux_suffix by blast
  then have "l = rev r @ rev q" by (metis rev_append rev_rev_ident)
  then have "find (has_prefix (rev r)) space_runes = None"
    using l by (auto simp: find_None_iff dest: has_prefix_shorter)
  then have "trim_space (rev r) = rev r" using r by (simp add: trim_space_def Let_def trim_left_aux_fixed)
  then show ?thesis by (simp only: s)
qed

subsection \<open>What a transcriber promises\<close>

definition speech :: "transcript_segment list \<Rightarrow> bool" where
  "speech segs \<longleftrightarrow> (\<forall>s \<in> set segs. seg_text s \<noteq> [] \<and> trim_space (seg_text s) = seg_text s)"

text \<open>What a row's transcript may become.\<close>

definition heard :: "video \<Rightarrow> video \<Rightarrow> bool" where
  "heard a b \<longleftrightarrow> v_id b = v_id a \<and> (v_transcript_json b = v_transcript_json a \<or> (\<exists>segs. v_transcript_json b = Some segs \<and> speech segs))"

interpretation heard: video_relation heard
  by unfold_locales (auto simp: heard_def)

abbreviation all_heard :: "world \<Rightarrow> world \<Rightarrow> bool" where
  "all_heard w t \<equiv> rows_rel heard (videos w) (videos t)"

lemma mark_heard: "state_io_rel all_heard (mark transcript_queue vid s)"
  unfolding mark_def logged_def by (intro heard.walk_all) (auto simp: heard_def transcript_queue_def)

locale speech_engine =
  fixes hear :: "string \<Rightarrow> string \<Rightarrow> transcript_segment list attempt_result"
  assumes trimmed: "hear audio language = Ok segs \<Longrightarrow> speech segs"
begin

lemma store_heard:
  assumes "speech segs"
  shows "state_io_rel all_heard (store_transcript h vid key segs)"
proof -
  have mark: "wp (mark transcript_queue vid WFailed) (\<lambda>_. all_heard w) (tick w)" for w
    using wp_rel [OF mark_heard, of vid WFailed "tick w"] by simp
  have "wp (store_transcript h vid key segs) (\<lambda>_. all_heard w) w" for w
    unfolding store_transcript_def logged_def using assms
    by (auto simp: upd_where_upd_where heard_def mark [simplified] split: option.split intro!: rows_rel_upd)
  then show ?thesis by (simp add: wp_io_rel)
qed

lemma process_heard:
  assumes "transcribe t = hear"
  shows "state_io_rel all_heard (processTranscription h t vid fk uid tok lang)"
proof -
  have audio: "state_io_rel all_heard (extractAudioAt t fk)"
    unfolding extractAudioAt_def by (intro heard.walk_all)
  have result: "state_io_rel all_heard (case (if b then hear fk lang else Failed) of Ok y \<Rightarrow> f y | NoAudio \<Rightarrow> m | Failed \<Rightarrow> n)"
    if "\<And>y. speech y \<Longrightarrow> state_io_rel all_heard (f y)" "state_io_rel all_heard m" "state_io_rel all_heard n" for b f m n
    using that trimmed [of fk lang] by (cases "hear fk lang") simp_all
  show ?thesis
    unfolding processTranscription_def Let_def attempt_def attempt_upload_def assms
    by (intro heard.walk_all case_result result audio mark_heard store_heard) simp_all
qed

lemma tick_heard:
  assumes "transcribe t = hear"
  shows "state_io_rel all_heard (processNextTranscription h t)"
proof -
  have claim: "state_io_rel all_heard (claim transcript_queue)"
    by (auto simp: state_io_rel_def claim_def run_db_stmt Let_def heard_def transcript_queue_def heard.Q_refl rows_rel_refl
        split: option.split intro!: rows_rel_upd)
  show ?thesis
    unfolding processNextTranscription_def reset_overdue_def logged_def
    by (intro heard.walk_all claim process_heard assms) (auto simp: heard_def transcript_queue_def)
qed

end

subsection \<open>The transcribers\<close>

lemma spoken_speech: "speech (spoken parts)"
  by (auto simp: speech_def spoken_def trim_space_idem)

lemma whole_speech: "trim_space x \<noteq> [] \<Longrightarrow> speech [whole_text x]"
  by (simp add: speech_def whole_text_def trim_space_idem)

lemma openai_speech: "openai_segments reply = Ok segs \<Longrightarrow> speech segs"
  by (auto simp: openai_segments_def Let_def spoken_speech whole_speech split: option.splits if_splits)

lemma deepgram_speech: "deepgram_segments reply = Ok segs \<Longrightarrow> speech segs"
  by (auto simp: deepgram_segments_def Let_def spoken_speech whole_speech split: option.splits list.splits if_splits)

lemma whisper_speech: "parseWhisperJSON pf data = Ok segs \<Longrightarrow> speech segs"
  by (auto simp: parseWhisperJSON_def spoken_speech split: option.splits)

lemma Transcribe_speech: "Transcribe e t audio language = Ok segs \<Longrightarrow> speech segs"
  by (cases t) (auto dest: openai_speech deepgram_speech whisper_speech)

interpretation configured: speech_engine "transcribe (transcriber_of e found engine)" for e found engine
  by unfold_locales (auto simp: transcriber_of_def Transcribe_speech split: option.splits)

text \<open>
  Whichever transcriber the environment configures, a tick of the transcription worker stores no blank text: every
  row keeps its transcript or gets one whose texts are trimmed and not empty.
\<close>

theorem transcripts_hold_speech:
  "wp (processNextTranscription h (transcriber_of e found (NewTranscriberFromEnv ToLower Getenv))) (\<lambda>_ t.
     \<forall>i < length (videos w). v_id (videos t ! i) = v_id (videos w ! i) \<and>
       (v_transcript_json (videos t ! i) = v_transcript_json (videos w ! i) \<or>
        (\<exists>segs. v_transcript_json (videos t ! i) = Some segs \<and> (\<forall>s \<in> set segs. seg_text s \<noteq> [] \<and> trim_space (seg_text s) = seg_text s)))) w"
  by (rule wp_mono [OF wp_rel [OF configured.tick_heard [OF refl]]]) (auto simp: rows_rel_def heard_def speech_def)

definition sample_speech :: speech_env where
  "sample_speech = \<lparr>whisper_installed = False, parse_float = (\<lambda>_. None), run_whisper = (\<lambda>_ _. None),
     ask_openai = (\<lambda>_ _ _. Some (200, Some \<lparr>oa_Text = ''Hi'', oa_Segments = [(0, 1, '' Hi ''), (1, 2, '' '')]\<rparr>)),
     ask_deepgram = (\<lambda>_ _ _. None)\<rparr>"

definition sample_variables :: "string \<Rightarrow> string" where
  "sample_variables name = (if name = ''TRANSCRIPTION_PROVIDER'' then ''openai''
     else if name = ''TRANSCRIPTION_API_KEY'' then ''k'' else [])"

text \<open>A pending video, the OpenAI service: the row has no transcript or one without blank texts.\<close>

lemma transcripts_hold_speech_witness:
  "let v = videos (snd (run_state (processNextTranscription sample_config
      (transcriber_of sample_speech (\<lambda>_. True) (NewTranscriberFromEnv id sample_variables))) sample_pending)) ! 0 in
    v_transcript_json v = v_transcript_json sample_video \<or>
    (\<exists>segs. v_transcript_json v = Some segs \<and> list_all (\<lambda>s. seg_text s \<noteq> []) segs)"
  using transcripts_hold_speech [of sample_config sample_speech "\<lambda>_. True" id sample_variables sample_pending]
  unfolding wp_def by (auto simp: Let_def split_beta sample_pending_def list_all_iff)

subsection \<open>The setup\<close>

text \<open>A service is set up with a key only, and then counts as available.\<close>

lemma service_has_key:
  "NewTranscriberFromEnv ToLower Getenv = Some t \<Longrightarrow> t \<noteq> LocalWhisper \<Longrightarrow> Available whisper t"
  by (auto simp: NewTranscriberFromEnv_def Let_def newOpenAIWhisper_def newDeepgram_def split: if_splits)

text \<open>A timeout of up to 292 years is the one that was asked for; a longer one wraps around, here to a time in the past.\<close>

lemma timeout_exact:
  assumes "Atoi (trim_space raw) = Some secs" "0 < secs" "secs \<le> 9223372036"
  shows "sint (parseTimeoutEnv raw) = secs * 1000000000"
proof -
  have "trim_space raw \<noteq> []" using assms(1) by (auto simp: Atoi_def Let_def has_prefix_def)
  then have "parseTimeoutEnv raw = seconds_of secs" using assms by (simp add: parseTimeoutEnv_def)
  moreover have "seconds_of secs = of_int (secs * 1000000000)" by (simp add: seconds_of_def)
  moreover have "sint (of_int (secs * 1000000000) :: 64 word) = secs * 1000000000"
    using assms(2,3) by (simp only: signed_of_int) (simp add: signed_take_bit_int_eq_self)
  ultimately show ?thesis by (simp only:)
qed

lemma timeout_wraps: "sint (parseTimeoutEnv ''9223372037'') < 0"
proof -
  have "Atoi (trim_space ''9223372037'') = Some 9223372037" "trim_space ''9223372037'' \<noteq> []" by code_simp+
  then have "parseTimeoutEnv ''9223372037'' = seconds_of 9223372037" by (simp add: parseTimeoutEnv_def)
  then show ?thesis by (simp add: seconds_of_def)
qed

text \<open>The local program never reports that there was no sound: a recording without speech gets an empty transcript.\<close>

lemma local_never_silent: "Transcribe e LocalWhisper audio language \<noteq> NoAudio"
  by (simp add: parseWhisperJSON_def split: option.split)

lemma local_silence_ready:
  "run_whisper e audio language = Some [(s, t, '' '')] \<Longrightarrow> Transcribe e LocalWhisper audio language = Ok []"
  by (simp add: parseWhisperJSON_def spoken_def) code_simp

end
