(* ===== verification/Routes.thy ===== *)
theory Routes
  imports Scim Rate_Limit
begin

text \<open>
  The wiring of the server (\<open>internal/server/server.go\<close>, \<open>security.go\<close>): the table of routes with the middlewares
  each runs through, outermost first, what these do to a request, and the headers of every answer. Which entry of the
  table a request meets is the router's business (chi); the handlers are those of the other theories.
\<close>

subsection \<open>Middlewares\<close>

datatype limiter_id = AuthLimiter | VideoLimiter | WatchAuthLimiter | CommentLimiter | CommentReadLimiter | WatchLimiter

type_synonym limiters = "limiter_id \<Rightarrow> Limiter"

fun start_limiter :: limiters where
  "start_limiter AuthLimiter = NewLimiter (rnd64 0.5) 5"
| "start_limiter VideoLimiter = NewLimiter 2 10"
| "start_limiter WatchAuthLimiter = NewLimiter (rnd64 0.5) 5"
| "start_limiter CommentLimiter = NewLimiter (rnd64 0.2) 3"
| "start_limiter CommentReadLimiter = NewLimiter 5 20"
| "start_limiter WatchLimiter = NewLimiter 5 20"

text \<open>
  \<open>Throttle\<close> is the middleware of a limiter, \<open>MaxBody\<close> is \<open>maxBodySize\<close>, \<open>SignedIn\<close> the one of the accounts,
  \<open>KeyOrSignedIn\<close> is \<open>apiKeyOrJWTMiddleware\<close>, \<open>InOrganization\<close> is \<open>organization.Middleware\<close>, \<open>Writer\<close> is
  \<open>RequireWriter\<close> and \<open>ScimBearer\<close> is \<open>scim.BearerAuth\<close>.
\<close>

datatype guard = Throttle limiter_id | MaxBody int | SignedIn | KeyOrSignedIn | InOrganization | Writer | ScimBearer

record server_env =
  sv_jwt :: jwt_lib
  sv_auth :: auth_config
  sv_crypto :: crypto
  sv_org :: org_env
  sv_scim :: scim_env
  sv_limits :: bool \<comment> \<open>\<open>ratelimit.Enabled\<close>\<close>

text \<open>What the middlewares read of a request; the two times are the limiter's readings of the clock.\<close>

record http_request =
  hq_ip :: string
  hq_Authorization :: string
  hq_Organization :: string
  hq_orgId :: string
  hq_since :: int
  hq_seen :: int

text \<open>What a request has when it gets through: who calls, in which workspace, and the cap on its body.\<close>

record passed =
  pa_ctx :: rctx
  pa_cap :: "int option"

definition nobody :: passed where
  "nobody = \<lparr>pa_ctx = \<lparr>UserID = [], OrgID = [], OrgRole = []\<rparr>, pa_cap = None\<rparr>"

definition maxBodySize :: "int \<Rightarrow> passed \<Rightarrow> passed" where
  "maxBodySize maxBytes p = p\<lparr>pa_cap := Some (case pa_cap p of None \<Rightarrow> maxBytes | Some n \<Rightarrow> min n maxBytes)\<rparr>"

definition as_user :: "string \<Rightarrow> passed \<Rightarrow> passed" where
  "as_user userID p = p\<lparr>pa_ctx := (pa_ctx p)\<lparr>UserID := userID\<rparr>\<rparr>"

fun run_guard :: "server_env \<Rightarrow> http_request \<Rightarrow> guard \<Rightarrow> passed \<Rightarrow> limiters \<Rightarrow> (('b response + passed) \<times> limiters) prog" where
  "run_guard e q (Throttle l) p ls = State_Monad.return
     (case Rate_Limit.Middleware (sv_limits e) (ls l) (hq_ip q) (hq_since q) (hq_seen q) p of
        (Inl status, l') \<Rightarrow> (Inl (WriteError status ''too many requests''), ls(l := l'))
      | (Inr p, l') \<Rightarrow> (Inr p, ls(l := l')))"
| "run_guard e q (MaxBody n) p ls = State_Monad.return (Inr (maxBodySize n p), ls)"
| "run_guard e q SignedIn p ls = do {
     x \<leftarrow> auth_Middleware (sv_jwt e) (sv_auth e) (hq_Authorization q);
     State_Monad.return (case x of Inl resp \<Rightarrow> Inl resp | Inr userID \<Rightarrow> Inr (as_user userID p), ls) }"
| "run_guard e q KeyOrSignedIn p ls = do {
     x \<leftarrow> apiKeyOrJWTMiddleware (sv_jwt e) (sv_auth e) (sv_crypto e) (hq_Authorization q);
     State_Monad.return (case x of Inl resp \<Rightarrow> Inl resp | Inr userID \<Rightarrow> Inr (as_user userID p), ls) }"
| "run_guard e q InOrganization p ls = do {
     x \<leftarrow> org_Middleware (sv_org e) (UserID (pa_ctx p)) (hq_Organization q);
     State_Monad.return (case x of Inl resp \<Rightarrow> Inl resp | Inr c \<Rightarrow> Inr (p\<lparr>pa_ctx := c\<rparr>), ls) }"
| "run_guard e q Writer p ls = State_Monad.return
     (case RequireWriter (pa_ctx p) of Some resp \<Rightarrow> Inl resp | None \<Rightarrow> Inr p, ls)"
| "run_guard e q ScimBearer p ls = do {
     early \<leftarrow> BearerAuth (sv_scim e) (hq_orgId q) (hq_Authorization q);
     State_Monad.return (case early of Some resp \<Rightarrow> Inl resp | None \<Rightarrow> Inr p, ls) }"

fun run_guards :: "server_env \<Rightarrow> http_request \<Rightarrow> guard list \<Rightarrow> passed \<Rightarrow> limiters \<Rightarrow> (('b response + passed) \<times> limiters) prog" where
  "run_guards e q [] p ls = State_Monad.return (Inr p, ls)"
| "run_guards e q (g # gs) p ls = do {
     (x, ls) \<leftarrow> run_guard e q g p ls;
     case x of Inl resp \<Rightarrow> State_Monad.return (Inl resp, ls) | Inr p \<Rightarrow> run_guards e q gs p ls
   }"

subsection \<open>Routes\<close>

datatype http_method = GET | POST | PUT | PATCH | DELETE

record route =
  rt_method :: http_method
  rt_path :: string
  rt_guards :: "guard list"
  rt_handler :: string

definition route_group :: "guard list \<Rightarrow> (http_method \<times> string \<times> string) list \<Rightarrow> route list" where
  "route_group gs entries = map (\<lambda>(m, path, handler). \<lparr>rt_method = m, rt_path = path, rt_guards = gs, rt_handler = handler\<rparr>) entries"

definition small_body :: int where "small_body = 64 * 1024"

definition plain_routes :: "route list" where
  "plain_routes =
   route_group []
     [(GET, ''/api/health'', ''server.handleHealth''),
      (GET, ''/robots.txt'', ''server.handleRobotsTxt'')]"

definition docs_routes :: "route list" where
  "docs_routes =
   route_group []
     [(GET, ''/api/docs'', ''docs.HandleDocs''),
      (GET, ''/api/docs/openapi.yaml'', ''docs.HandleSpec'')]"

definition auth_routes :: "route list" where
  "auth_routes =
   route_group [Throttle AuthLimiter, MaxBody small_body]
     [(POST, ''/api/auth/register'', ''auth.Register''),
      (POST, ''/api/auth/login'', ''auth.Login''),
      (POST, ''/api/auth/refresh'', ''auth.Refresh''),
      (POST, ''/api/auth/logout'', ''auth.Logout''),
      (POST, ''/api/auth/forgot-password'', ''auth.ForgotPassword''),
      (POST, ''/api/auth/reset-password'', ''auth.ResetPassword''),
      (POST, ''/api/auth/confirm-email'', ''auth.ConfirmEmail''),
      (POST, ''/api/auth/resend-confirmation'', ''auth.ResendConfirmation'')]"

definition sso_routes :: "route list" where
  "sso_routes =
   route_group [Throttle AuthLimiter]
     [(GET, ''/api/auth/sso/providers'', ''sso.Providers''),
      (GET, ''/api/auth/sso/org'', ''sso.InitiateOrgSSO''),
      (GET, ''/api/auth/sso/org/callback'', ''sso.OrgCallback''),
      (GET, ''/api/auth/sso/{provider}'', ''sso.Initiate''),
      (GET, ''/api/auth/sso/{provider}/callback'', ''sso.Callback''),
      (POST, ''/api/auth/saml/{orgId}/acs'', ''sso.OrgSAMLCallback''),
      (GET, ''/api/auth/saml/{orgId}/metadata'', ''sso.SPMetadata'')]"

definition scim_routes :: "route list" where
  "scim_routes =
   route_group [ScimBearer]
     [(GET, ''/api/organizations/{orgId}/scim/v2/ServiceProviderConfig'', ''scim.ServiceProviderConfig''),
      (GET, ''/api/organizations/{orgId}/scim/v2/Schemas'', ''scim.Schemas''),
      (GET, ''/api/organizations/{orgId}/scim/v2/Users'', ''scim.ListUsers''),
      (GET, ''/api/organizations/{orgId}/scim/v2/Users/{id}'', ''scim.GetUser''),
      (POST, ''/api/organizations/{orgId}/scim/v2/Users'', ''scim.CreateUser''),
      (PUT, ''/api/organizations/{orgId}/scim/v2/Users/{id}'', ''scim.ReplaceUser''),
      (PATCH, ''/api/organizations/{orgId}/scim/v2/Users/{id}'', ''scim.PatchUser''),
      (DELETE, ''/api/organizations/{orgId}/scim/v2/Users/{id}'', ''scim.DeleteUser'')]"

definition user_routes :: "route list" where
  "user_routes =
   route_group [SignedIn, MaxBody small_body]
     [(GET, ''/api/user'', ''auth.GetUser''),
      (PATCH, ''/api/user'', ''auth.UpdateUser''),
      (GET, ''/api/user/identities'', ''sso.ListIdentities''),
      (DELETE, ''/api/user/identities/{provider}'', ''sso.UnlinkIdentity'')]"

definition organization_routes :: "route list" where
  "organization_routes =
   route_group [SignedIn, MaxBody small_body]
     [(GET, ''/api/organizations'', ''organization.List''),
      (POST, ''/api/organizations'', ''organization.Create''),
      (GET, ''/api/organizations/{orgId}'', ''organization.Get''),
      (PATCH, ''/api/organizations/{orgId}'', ''organization.Update''),
      (DELETE, ''/api/organizations/{orgId}'', ''organization.Delete''),
      (GET, ''/api/organizations/{orgId}/members'', ''organization.ListMembers''),
      (DELETE, ''/api/organizations/{orgId}/members/{userId}'', ''organization.RemoveMember''),
      (PATCH, ''/api/organizations/{orgId}/members/{userId}'', ''organization.UpdateMemberRole''),
      (POST, ''/api/organizations/{orgId}/invites'', ''organization.SendInvite''),
      (GET, ''/api/organizations/{orgId}/invites'', ''organization.ListInvites''),
      (DELETE, ''/api/organizations/{orgId}/invites/{inviteId}'', ''organization.RevokeInvite'')]"

definition organization_billing_routes :: "route list" where
  "organization_billing_routes =
   route_group [SignedIn, MaxBody small_body]
     [(GET, ''/api/organizations/{orgId}/billing'', ''billing.GetOrgBilling''),
      (POST, ''/api/organizations/{orgId}/billing/checkout'', ''billing.CreateOrgCheckout''),
      (DELETE, ''/api/organizations/{orgId}/billing'', ''billing.CancelOrgSubscription'')]"

definition organization_sso_routes :: "route list" where
  "organization_sso_routes =
   route_group [SignedIn, MaxBody small_body]
     [(GET, ''/api/organizations/{orgId}/sso'', ''sso.GetConfig''),
      (PUT, ''/api/organizations/{orgId}/sso'', ''sso.SaveConfig''),
      (DELETE, ''/api/organizations/{orgId}/sso'', ''sso.DeleteConfig''),
      (GET, ''/api/organizations/{orgId}/scim-token'', ''sso.GetSCIMToken''),
      (POST, ''/api/organizations/{orgId}/scim-token'', ''sso.GenerateSCIMToken''),
      (DELETE, ''/api/organizations/{orgId}/scim-token'', ''sso.RevokeSCIMToken'')]"

definition invite_routes :: "route list" where
  "invite_routes =
   route_group [SignedIn, MaxBody small_body]
     [(POST, ''/api/invites/accept'', ''organization.AcceptInvite'')]"

definition settings_routes :: "route list" where
  "settings_routes =
   route_group [SignedIn, MaxBody small_body]
     [(GET, ''/api/settings/notifications'', ''video.GetNotificationPreferences''),
      (PUT, ''/api/settings/notifications'', ''video.PutNotificationPreferences''),
      (POST, ''/api/settings/notifications/test-slack'', ''video.TestSlackWebhook''),
      (POST, ''/api/settings/notifications/test-webhook'', ''video.TestWebhook''),
      (POST, ''/api/settings/notifications/regenerate-webhook-secret'', ''video.RegenerateWebhookSecret''),
      (GET, ''/api/settings/notifications/webhook-deliveries'', ''video.ListWebhookDeliveries''),
      (GET, ''/api/settings/branding'', ''video.GetBrandingSettings''),
      (PUT, ''/api/settings/branding'', ''video.PutBrandingSettings''),
      (POST, ''/api/settings/branding/logo'', ''video.UploadBrandingLogo''),
      (DELETE, ''/api/settings/branding/logo'', ''video.DeleteBrandingLogo''),
      (POST, ''/api/settings/api-keys'', ''auth.GenerateAPIKey''),
      (GET, ''/api/settings/api-keys'', ''auth.ListAPIKeys''),
      (DELETE, ''/api/settings/api-keys/{id}'', ''auth.DeleteAPIKey'')]"

definition settings_billing_routes :: "route list" where
  "settings_billing_routes =
   route_group [SignedIn, MaxBody small_body]
     [(GET, ''/api/settings/billing'', ''billing.GetBilling''),
      (POST, ''/api/settings/billing/checkout'', ''billing.CreateCheckout''),
      (POST, ''/api/settings/billing/cancel'', ''billing.CancelSubscription'')]"

definition settings_integration_routes :: "route list" where
  "settings_integration_routes =
   route_group [SignedIn, MaxBody small_body]
     [(GET, ''/api/settings/integrations'', ''integration.List''),
      (PUT, ''/api/settings/integrations/{provider}'', ''integration.Save''),
      (DELETE, ''/api/settings/integrations/{provider}'', ''integration.Delete''),
      (POST, ''/api/settings/integrations/{provider}/test'', ''integration.Test'')]"

definition video_list_routes :: "route list" where
  "video_list_routes =
   route_group [Throttle VideoLimiter, MaxBody small_body, KeyOrSignedIn, InOrganization]
     [(GET, ''/api/videos'', ''video.List'')]"

definition video_read_routes :: "route list" where
  "video_read_routes =
   route_group [Throttle VideoLimiter, MaxBody small_body, SignedIn, InOrganization]
     [(GET, ''/api/videos/limits'', ''video.Limits''),
      (GET, ''/api/videos/{id}/download'', ''video.Download''),
      (GET, ''/api/videos/{id}/comments'', ''video.ListOwnerComments''),
      (GET, ''/api/videos/{id}/analytics'', ''video.Analytics''),
      (GET, ''/api/videos/{id}/analytics/export'', ''video.AnalyticsExport''),
      (GET, ''/api/videos/{id}/branding'', ''video.GetVideoBranding'')]"

definition video_write_routes :: "route list" where
  "video_write_routes =
   route_group [Throttle VideoLimiter, MaxBody small_body, SignedIn, InOrganization, Writer]
     [(POST, ''/api/videos'', ''video.Create''),
      (POST, ''/api/videos/upload'', ''video.Upload''),
      (POST, ''/api/videos/batch/delete'', ''video.BatchDelete''),
      (POST, ''/api/videos/batch/folder'', ''video.BatchSetFolder''),
      (POST, ''/api/videos/batch/tags'', ''video.BatchSetTags''),
      (PATCH, ''/api/videos/{id}'', ''video.Update''),
      (DELETE, ''/api/videos/{id}'', ''video.Delete''),
      (POST, ''/api/videos/{id}/extend'', ''video.Extend''),
      (POST, ''/api/videos/{id}/trim'', ''video.Trim''),
      (POST, ''/api/videos/{id}/retranscribe'', ''video.Retranscribe''),
      (PUT, ''/api/videos/{id}/password'', ''video.SetPassword''),
      (PUT, ''/api/videos/{id}/comment-mode'', ''video.SetCommentMode''),
      (DELETE, ''/api/videos/{id}/comments/{commentId}'', ''video.DeleteComment''),
      (PUT, ''/api/videos/{id}/notifications'', ''video.SetVideoNotification''),
      (PUT, ''/api/videos/{id}/download-enabled'', ''video.SetDownloadEnabled''),
      (PUT, ''/api/videos/{id}/link-expiry'', ''video.SetLinkExpiry''),
      (PUT, ''/api/videos/{id}/branding'', ''video.SetVideoBranding''),
      (POST, ''/api/videos/{id}/thumbnail'', ''video.UploadThumbnail''),
      (DELETE, ''/api/videos/{id}/thumbnail'', ''video.ResetThumbnail''),
      (PUT, ''/api/videos/{id}/cta'', ''video.SetCTA''),
      (PUT, ''/api/videos/{id}/email-gate'', ''video.SetEmailGate''),
      (POST, ''/api/videos/{id}/summarize'', ''video.Summarize''),
      (POST, ''/api/videos/{id}/generate-document'', ''video.GenerateDocument''),
      (PUT, ''/api/videos/{id}/folder'', ''video.SetVideoFolder''),
      (PUT, ''/api/videos/{id}/tags'', ''video.SetVideoTags''),
      (POST, ''/api/videos/{id}/remove-segments'', ''video.RemoveSegments''),
      (POST, ''/api/videos/{id}/detect-silence'', ''video.DetectSilence''),
      (PUT, ''/api/videos/{id}/dismiss-title'', ''video.DismissTitle''),
      (PUT, ''/api/videos/{id}/pin'', ''video.TogglePin''),
      (POST, ''/api/videos/{id}/transfer'', ''video.Transfer''),
      (POST, ''/api/videos/{id}/create-issue'', ''integration.CreateIssue'')]"

definition transcript_read_routes :: "route list" where
  "transcript_read_routes =
   route_group [Throttle VideoLimiter, SignedIn, InOrganization]
     [(GET, ''/api/videos/{id}/transcript'', ''video.GetTranscript'')]"

definition transcript_write_routes :: "route list" where
  "transcript_write_routes =
   route_group [Throttle VideoLimiter, SignedIn, InOrganization, MaxBody (int MaxTranscriptUploadBytes + 1024), Writer]
     [(POST, ''/api/videos/{id}/transcript'', ''video.UploadTranscript'')]"

definition dashboard_routes :: "route list" where
  "dashboard_routes =
   route_group [SignedIn, InOrganization]
     [(GET, ''/api/analytics/dashboard'', ''video.AnalyticsDashboard''),
      (GET, ''/api/analytics/dashboard/export'', ''video.DashboardExport'')]"

definition folder_read_routes :: "route list" where
  "folder_read_routes =
   route_group [SignedIn, InOrganization, MaxBody small_body]
     [(GET, ''/api/folders'', ''video.ListFolders'')]"

definition folder_write_routes :: "route list" where
  "folder_write_routes =
   route_group [SignedIn, InOrganization, MaxBody small_body, Writer]
     [(POST, ''/api/folders'', ''video.CreateFolder''),
      (PUT, ''/api/folders/{id}'', ''video.UpdateFolder''),
      (DELETE, ''/api/folders/{id}'', ''video.DeleteFolder'')]"

definition tag_read_routes :: "route list" where
  "tag_read_routes =
   route_group [SignedIn, InOrganization, MaxBody small_body]
     [(GET, ''/api/tags'', ''video.ListTags'')]"

definition tag_write_routes :: "route list" where
  "tag_write_routes =
   route_group [SignedIn, InOrganization, MaxBody small_body, Writer]
     [(POST, ''/api/tags'', ''video.CreateTag''),
      (PUT, ''/api/tags/{id}'', ''video.UpdateTag''),
      (DELETE, ''/api/tags/{id}'', ''video.DeleteTag'')]"

definition playlist_read_routes :: "route list" where
  "playlist_read_routes =
   route_group [SignedIn, MaxBody small_body]
     [(GET, ''/api/playlists'', ''video.ListPlaylists''),
      (GET, ''/api/playlists/{id}'', ''video.GetPlaylist'')]"

definition playlist_write_routes :: "route list" where
  "playlist_write_routes =
   route_group [SignedIn, MaxBody small_body, Writer]
     [(POST, ''/api/playlists'', ''video.CreatePlaylist''),
      (PATCH, ''/api/playlists/{id}'', ''video.UpdatePlaylist''),
      (DELETE, ''/api/playlists/{id}'', ''video.DeletePlaylist''),
      (POST, ''/api/playlists/{id}/videos'', ''video.AddPlaylistVideos''),
      (DELETE, ''/api/playlists/{id}/videos/{videoId}'', ''video.RemovePlaylistVideo''),
      (PATCH, ''/api/playlists/{id}/videos/reorder'', ''video.ReorderPlaylistVideos'')]"

definition watch_routes :: "route list" where
  "watch_routes =
   route_group [Throttle WatchLimiter]
     [(GET, ''/api/watch/{shareToken}'', ''video.Watch''),
      (GET, ''/api/watch/{shareToken}/download'', ''video.WatchDownload'')] @
   route_group [Throttle WatchAuthLimiter, MaxBody small_body]
     [(POST, ''/api/watch/{shareToken}/verify'', ''video.VerifyWatchPassword'')] @
   route_group [Throttle CommentReadLimiter]
     [(GET, ''/api/watch/{shareToken}/comments'', ''video.ListWatchComments'')] @
   route_group [Throttle CommentLimiter, MaxBody small_body]
     [(POST, ''/api/watch/{shareToken}/comments'', ''video.PostWatchComment'')] @
   route_group [Throttle WatchAuthLimiter, MaxBody small_body]
     [(POST, ''/api/watch/{shareToken}/identify'', ''video.IdentifyViewer'')] @
   route_group [Throttle WatchLimiter, MaxBody small_body]
     [(POST, ''/api/watch/{shareToken}/cta-click'', ''video.RecordCTAClick''),
      (POST, ''/api/watch/{shareToken}/milestone'', ''video.RecordMilestone''),
      (POST, ''/api/watch/{shareToken}/segments'', ''video.RecordSegments'')] @
   route_group [Throttle WatchLimiter]
     [(GET, ''/api/watch/{shareToken}/thumbnail'', ''video.WatchThumbnail''),
      (GET, ''/api/videos/{shareToken}/oembed'', ''video.OEmbed'')]"

definition page_routes :: "route list" where
  "page_routes =
   route_group []
     [(GET, ''/watch/{shareToken}'', ''video.WatchPage''),
      (GET, ''/embed/{shareToken}'', ''video.EmbedPage''),
      (GET, ''/watch/playlist/{shareToken}'', ''video.PlaylistWatchPage''),
      (GET, ''/embed/playlist/{shareToken}'', ''video.PlaylistEmbedPage'')] @
   route_group [Throttle WatchAuthLimiter, MaxBody small_body]
     [(POST, ''/api/watch/playlist/{shareToken}/verify'', ''video.VerifyPlaylistWatchPassword''),
      (POST, ''/api/watch/playlist/{shareToken}/identify'', ''video.IdentifyPlaylistViewer'')]"

definition creem_routes :: "route list" where
  "creem_routes =
   route_group []
     [(POST, ''/api/webhooks/creem'', ''billing.Webhook'')]"

text \<open>
  The parts a server has: the handlers come with the database, those of billing with a key of the payment provider as
  well, the documentation when it is enabled.
\<close>

record server_parts =
  with_docs :: bool
  with_db :: bool
  with_billing :: bool

definition routes :: "server_parts \<Rightarrow> route list" where
  "routes s = plain_routes @ (if with_docs s then docs_routes else []) @
     (if \<not> with_db s then []
      else auth_routes @ sso_routes @ scim_routes @ user_routes @ organization_routes @ organization_sso_routes @ invite_routes @
        settings_routes @ settings_integration_routes @ video_list_routes @ video_read_routes @ video_write_routes @
        transcript_read_routes @ transcript_write_routes @ dashboard_routes @ folder_read_routes @ folder_write_routes @
        tag_read_routes @ tag_write_routes @ playlist_read_routes @ playlist_write_routes @ watch_routes @ page_routes @
        (if with_billing s then organization_billing_routes @ settings_billing_routes @ creem_routes else []))"

text \<open>A request that meets a route.\<close>

definition serve :: "server_env \<Rightarrow> http_request \<Rightarrow> route \<Rightarrow> (passed \<Rightarrow> 'b response prog) \<Rightarrow> limiters \<Rightarrow>
    ('b response \<times> limiters) prog" where
  "serve e q r handler ls = do {
     (x, ls) \<leftarrow> run_guards e q (rt_guards r) nobody ls;
     case x of Inl resp \<Rightarrow> State_Monad.return (resp, ls)
     | Inr p \<Rightarrow> do { resp \<leftarrow> handler p; State_Monad.return (resp, ls) }
   }"

subsection \<open>The setup (\<open>New\<close>)\<close>

record server_config =
  sf_DB :: bool
  sf_BaseURL :: string
  sf_EnableDocs :: bool
  sf_CreemAPIKey :: string
  sf_GoogleClientID :: string
  sf_GoogleClientSecret :: string
  sf_GoogleAllowedDomains :: "string list"
  sf_MicrosoftClientID :: string
  sf_MicrosoftClientSecret :: string
  sf_GitHubSSOClientID :: string
  sf_S3PublicEndpoint :: string
  sf_AllowedFrameAncestors :: string

definition server_baseURL :: "server_config \<Rightarrow> string" where
  "server_baseURL cfg = (if sf_BaseURL cfg = [] then ''http://localhost:8080'' else sf_BaseURL cfg)"

definition server_secureCookies :: "server_config \<Rightarrow> bool" where
  "server_secureCookies cfg = has_prefix (server_baseURL cfg) ''https://''"

definition parts_of :: "server_config \<Rightarrow> server_parts" where
  "parts_of cfg = \<lparr>with_docs = sf_EnableDocs cfg, with_db = sf_DB cfg, with_billing = sf_DB cfg \<and> sf_CreemAPIKey cfg \<noteq> []\<rparr>"

text \<open>The providers everybody may sign in with; one that cannot be reached is left out. \<open>github\<close> is the client of GitHub.\<close>

definition global_oidc :: "oidc_lib \<Rightarrow> string \<Rightarrow> string \<Rightarrow> string \<Rightarrow> string \<Rightarrow> string \<Rightarrow> string list \<Rightarrow> (string \<times> provider) list" where
  "global_oidc l base name issuer clientID secret domains =
     (if clientID = [] then []
      else case NewOIDCProvider l \<lparr>oc_IssuerURL = issuer, oc_ClientID = clientID, oc_ClientSecret = secret,
          oc_RedirectURL = base @ ''/api/auth/sso/'' @ name @ ''/callback'', oc_AllowedEmailDomains = domains\<rparr> of
        None \<Rightarrow> [] | Some p \<Rightarrow> [(name, p)])"

definition global_providers :: "oidc_lib \<Rightarrow> github_api \<Rightarrow> server_config \<Rightarrow> (string \<times> provider) list" where
  "global_providers l github cfg =
     (if \<not> sf_DB cfg then []
      else global_oidc l (server_baseURL cfg) ''google'' ''https://accounts.google.com''
          (sf_GoogleClientID cfg) (sf_GoogleClientSecret cfg) (sf_GoogleAllowedDomains cfg) @
        global_oidc l (server_baseURL cfg) ''microsoft'' ''https://login.microsoftonline.com/common/v2.0''
          (sf_MicrosoftClientID cfg) (sf_MicrosoftClientSecret cfg) [] @
        (if sf_GitHubSSOClientID cfg = [] then [] else [(''github'', NewGitHubProvider github)]))"

subsection \<open>Headers (\<open>security.go\<close>)\<close>

definition hasHTTPS :: "string \<Rightarrow> bool" where
  "hasHTTPS base \<longleftrightarrow> 8 \<le> length base \<and> take 8 base = ''https://''"

definition quoted :: "string \<Rightarrow> string" where
  "quoted s = [CHR 0x27] @ s @ [CHR 0x27]"

definition frame_ancestors :: "string \<Rightarrow> string \<Rightarrow> string" where
  "frame_ancestors allowed path =
     (if has_prefix path ''/embed/'' then ''*''
      else quoted ''self'' @ (if allowed = [] then [] else '' '' @ allowed))"

definition content_policy :: "server_config \<Rightarrow> string \<Rightarrow> string \<Rightarrow> string" where
  "content_policy cfg nonce path =
     (let storage = (if sf_S3PublicEndpoint cfg = [] then [] else '' '' @ sf_S3PublicEndpoint cfg) in
      ''default-src '' @ quoted ''self'' @ ''; img-src '' @ quoted ''self'' @ '' data:'' @ storage @
      ''; media-src '' @ quoted ''self'' @ '' data:'' @ storage @
      ''; script-src '' @ quoted ''self'' @ '' '' @ quoted (''nonce-'' @ nonce) @
      ''; style-src '' @ quoted ''self'' @ '' '' @ quoted (''nonce-'' @ nonce) @
      ''; connect-src '' @ quoted ''self'' @ storage @
      ''; frame-ancestors '' @ frame_ancestors (sf_AllowedFrameAncestors cfg) path @ '';'')"

definition GenerateNonce :: "string option \<Rightarrow> string" where
  "GenerateNonce random = (case random of None \<Rightarrow> [] | Some b \<Rightarrow> RawURLEncode b)"

definition securityHeaders :: "server_config \<Rightarrow> string option \<Rightarrow> string \<Rightarrow> (string \<times> string) list" where
  "securityHeaders cfg random path =
     [(''Referrer-Policy'', ''no-referrer''),
      (''X-Content-Type-Options'', ''nosniff''),
      (''X-Frame-Options'', ''SAMEORIGIN''),
      (''Permissions-Policy'', ''camera=self, microphone=self, geolocation=(), screen-wake-lock=(), display-capture=self''),
      (''Content-Security-Policy'', content_policy cfg (GenerateNonce random) path)] @
     (if sf_BaseURL cfg \<noteq> [] \<and> hasHTTPS (sf_BaseURL cfg)
      then [(''Strict-Transport-Security'', ''max-age=31536000; includeSubDomains'')] else [])"

text \<open>\<open>handleHealth\<close>: whether the database answers, when there is one; registration, badge and version.\<close>

definition handleHealth :: "bool \<Rightarrow> bool \<Rightarrow> bool \<Rightarrow> string \<Rightarrow> (bool \<times> bool \<times> string) response prog" where
  "handleHealth has_pinger registration badge version = do {
     e \<leftarrow> (if has_pinger then call else State_Monad.return None);
     State_Monad.return (if e \<noteq> None then WriteHeader 503 else WriteJSON 200 (registration, badge, version))
   }"

end
