(* ===== verification/Route_Facts.thy ===== *)
theory Route_Facts
  imports Routes Organization_Facts Identity_Facts
begin

text \<open>
  What the table of routes gives: which routes are open, and that behind any other one the handler runs for a known
  caller only, in a workspace of theirs, and for writes not for a viewer.
\<close>

subsection \<open>What a guard vouches for\<close>

definition token_user :: "server_env \<Rightarrow> http_request \<Rightarrow> world \<Rightarrow> string \<Rightarrow> bool" where
  "token_user e q w userID \<longleftrightarrow> (\<exists>token cl. hq_Authorization q = ''Bearer '' @ token \<and>
     ValidateToken (sv_jwt e) (now w) (jwtSecret (sv_auth e)) token = Some cl \<and> cl_TokenType cl = ''access'' \<and> cl_UserID cl = userID)"

definition key_user :: "server_env \<Rightarrow> http_request \<Rightarrow> world \<Rightarrow> string \<Rightarrow> bool" where
  "key_user e q w userID \<longleftrightarrow> (\<exists>token k. hq_Authorization q = ''Bearer '' @ token \<and> k \<in> set (api_keys w) \<and>
     ak_key_hash k = HashAPIKey (sv_crypto e) token \<and> ak_user_id k = userID)"

definition in_workspace :: "server_env \<Rightarrow> http_request \<Rightarrow> world \<Rightarrow> rctx \<Rightarrow> bool" where
  "in_workspace e q w c \<longleftrightarrow> (if hq_Organization q = [] then OrgID c = []
     else OrgID c = hq_Organization q \<and>
       (\<exists>m \<in> set (members w). member_of (sv_org e) (hq_Organization q) (UserID c) m \<and> m_role m = OrgRole c))"

fun vouches :: "server_env \<Rightarrow> http_request \<Rightarrow> world \<Rightarrow> rctx \<Rightarrow> guard \<Rightarrow> bool" where
  "vouches e q w c SignedIn \<longleftrightarrow> token_user e q w (UserID c)"
| "vouches e q w c KeyOrSignedIn \<longleftrightarrow> token_user e q w (UserID c) \<or> key_user e q w (UserID c)"
| "vouches e q w c InOrganization \<longleftrightarrow> in_workspace e q w c"
| "vouches e q w c Writer \<longleftrightarrow> OrgID c = [] \<or> OrgRole c \<noteq> ''viewer''"
| "vouches e q w c ScimBearer \<longleftrightarrow> (\<exists>token. hq_Authorization q = ''Bearer '' @ token \<and> lets_in (sv_scim e) (hq_orgId q) token w)"
| "vouches e q w c _ \<longleftrightarrow> True"

text \<open>The guards touch nothing but the queue of background work (a used API key is noted).\<close>

definition untouched :: "world \<Rightarrow> world \<Rightarrow> bool" where
  "untouched w t \<longleftrightarrow> t\<lparr>faults := [], jobs := []\<rparr> = w\<lparr>faults := [], jobs := []\<rparr>"

lemma untouched_refl [simp]: "untouched w w"
  by (simp add: untouched_def)

lemma untouched_trans: "untouched w t \<Longrightarrow> untouched t u \<Longrightarrow> untouched w u"
  by (simp add: untouched_def)

lemma untouched_tick [simp]: "untouched w (tick w)"
  by (simp add: untouched_def tick_def)

lemma untouched_fields:
  assumes "untouched w t"
  shows "now t = now w" "members t = members w" "organizations t = organizations w" "api_keys t = api_keys w" "scim_tokens t = scim_tokens w"
proof -
  from assms have eq: "t\<lparr>faults := [], jobs := []\<rparr> = w\<lparr>faults := [], jobs := []\<rparr>" by (simp add: untouched_def)
  show "now t = now w" "members t = members w" "organizations t = organizations w" "api_keys t = api_keys w" "scim_tokens t = scim_tokens w"
    using arg_cong [OF eq, of now] arg_cong [OF eq, of members] arg_cong [OF eq, of organizations] arg_cong [OF eq, of api_keys]
      arg_cong [OF eq, of scim_tokens] by simp_all
qed

lemma vouches_untouched:
  assumes "untouched w t"
  shows "vouches e q t c g = vouches e q w c g"
  using untouched_fields [OF assms]
  by (cases g) (simp_all add: token_user_def key_user_def in_workspace_def lets_in_def)

definition passes :: "server_env \<Rightarrow> http_request \<Rightarrow> guard \<Rightarrow> passed \<Rightarrow> world \<Rightarrow> passed \<Rightarrow> bool" where
  "passes e q g p w p' \<longleftrightarrow> vouches e q w (pa_ctx p') g \<and>
     (g \<notin> {SignedIn, KeyOrSignedIn} \<longrightarrow> UserID (pa_ctx p') = UserID (pa_ctx p)) \<and>
     (g \<noteq> InOrganization \<longrightarrow> OrgID (pa_ctx p') = OrgID (pa_ctx p) \<and> OrgRole (pa_ctx p') = OrgRole (pa_ctx p))"

lemma auth_Middleware_wp:
  "wp (auth_Middleware j a h) (\<lambda>x t. t = w \<and> ((\<exists>m. x = Inl (WriteError 401 m)) \<or> (\<exists>userID. x = Inr userID \<and>
     (\<exists>token cl. h = ''Bearer '' @ token \<and> ValidateToken j (now w) (jwtSecret a) token = Some cl \<and> cl_TokenType cl = ''access'' \<and>
        cl_UserID cl = userID)))) w"
  unfolding auth_Middleware_def by (auto simp: trim_prefix_def dest!: has_prefixE split: option.split)

lemma LookupAPIKey_wp:
  "wp (LookupAPIKey cy token) (\<lambda>x t. untouched w t \<and> (\<forall>userID. x = Some userID \<longrightarrow>
     (\<exists>k \<in> set (api_keys w). ak_key_hash k = HashAPIKey cy token \<and> ak_user_id k = userID))) w"
  unfolding LookupAPIKey_def by (auto simp: untouched_def tick_def split: option.split)

lemma apiKeyOrJWT_wp:
  "wp (apiKeyOrJWTMiddleware (sv_jwt e) (sv_auth e) (sv_crypto e) (hq_Authorization q)) (\<lambda>x t. untouched w t \<and>
     ((\<exists>m. x = Inl (WriteError 401 m)) \<or> (\<exists>userID. x = Inr userID \<and> (token_user e q w userID \<or> key_user e q w userID)))) w"
proof -
  have jwt: "wp (auth_Middleware (sv_jwt e) (sv_auth e) (hq_Authorization q)) (\<lambda>x t. untouched w t \<and>
     ((\<exists>m. x = Inl (WriteError 401 m)) \<or> (\<exists>userID. x = Inr userID \<and> (token_user e q w userID \<or> key_user e q w userID)))) v"
    if "untouched w v" for v
    using that untouched_fields(1) [OF that] by (intro wp_mono [OF auth_Middleware_wp]) (auto simp: token_user_def)
  show ?thesis
  proof (cases "has_prefix (hq_Authorization q) ''Bearer ''")
    case True
    then obtain token where h: "hq_Authorization q = ''Bearer '' @ token" by (blast dest: has_prefixE)
    then have token: "trim_prefix (hq_Authorization q) ''Bearer '' = token" by (simp add: trim_prefix_def has_prefix_def)
    have key: "key_user e q w userID"
      if "\<exists>k \<in> set (api_keys w). ak_key_hash k = HashAPIKey (sv_crypto e) token \<and> ak_user_id k = userID" for userID
      using that h unfolding key_user_def by blast
    show ?thesis unfolding apiKeyOrJWTMiddleware_def wp_bind using True
      by (simp only: if_True token) (rule wp_mono [OF LookupAPIKey_wp], auto intro: jwt key split: option.split)
  next
    case False
    then show ?thesis unfolding apiKeyOrJWTMiddleware_def by (simp add: jwt)
  qed
qed

lemma org_Middleware_wp:
  "wp (org_Middleware (sv_org e) userID (hq_Organization q)) (\<lambda>x t. untouched w t \<and>
     ((\<exists>k m. x = Inl (WriteError k m) \<and> 400 \<le> k) \<or> (\<exists>c. x = Inr c \<and> UserID c = userID \<and> in_workspace e q w c))) w"
  unfolding org_Middleware_def with_uuid_def
  by (auto simp: in_workspace_def split: option.split dest!: find_where_Some)

lemma BearerAuth_wp:
  "wp (BearerAuth s orgID h) (\<lambda>x t. untouched w t \<and>
     ((\<exists>k m. x = Some (WriteError k m) \<and> 400 \<le> k) \<or> (x = None \<and> (\<exists>token. h = ''Bearer '' @ token \<and> lets_in s orgID token w)))) w"
proof (cases "has_prefix h ''Bearer ''")
  case True
  then obtain token where h: "h = ''Bearer '' @ token" by (blast dest: has_prefixE)
  have "trim_prefix (''Bearer '' @ token) ''Bearer '' = token" by (simp add: trim_prefix_def has_prefix_def)
  then show ?thesis unfolding BearerAuth_def with_uuid_def h lets_in_def
    by (auto simp: bind_eq_Some_conv bind_eq_None_conv split: option.split)
qed (simp add: BearerAuth_def)

lemma run_guard_wp:
  "wp (run_guard e q g p ls) (\<lambda>(x, ls') t. untouched w t \<and>
     (case x of Inl resp \<Rightarrow> 400 \<le> status_code resp | Inr p' \<Rightarrow> passes e q g p w p')) w"
proof (cases g)
  case (Throttle l)
  then show ?thesis
    by (auto simp: passes_def Rate_Limit.Middleware_def split: prod.split sum.split if_split)
next
  case SignedIn
  then show ?thesis unfolding run_guard.simps wp_bind
    by (simp only: run_guard.simps wp_bind)
      (rule wp_mono [OF auth_Middleware_wp], auto simp: passes_def token_user_def as_user_def)
next
  case KeyOrSignedIn
  then show ?thesis
    by (simp only: run_guard.simps wp_bind) (rule wp_mono [OF apiKeyOrJWT_wp], auto simp: passes_def as_user_def)
next
  case InOrganization
  then show ?thesis
    by (simp only: run_guard.simps wp_bind) (rule wp_mono [OF org_Middleware_wp], auto simp: passes_def)
next
  case ScimBearer
  then show ?thesis
    by (simp only: run_guard.simps wp_bind) (rule wp_mono [OF BearerAuth_wp], auto simp: passes_def)
qed (auto simp: passes_def maxBodySize_def RequireWriter_def)

subsection \<open>Chains of guards\<close>

definition no_identity :: "guard list \<Rightarrow> bool" where
  "no_identity gs \<longleftrightarrow> SignedIn \<notin> set gs \<and> KeyOrSignedIn \<notin> set gs"

text \<open>Who calls is settled before the workspace, and the workspace before the role in it.\<close>

fun orderly :: "guard list \<Rightarrow> bool" where
  "orderly [] \<longleftrightarrow> True"
| "orderly (g # gs) \<longleftrightarrow> orderly gs \<and>
     (g \<in> {SignedIn, KeyOrSignedIn, InOrganization} \<longrightarrow> no_identity gs) \<and>
     (g \<in> {InOrganization, Writer} \<longrightarrow> InOrganization \<notin> set gs)"

definition settles :: "guard list \<Rightarrow> passed \<Rightarrow> passed \<Rightarrow> bool" where
  "settles gs p p' \<longleftrightarrow> (no_identity gs \<longrightarrow> UserID (pa_ctx p') = UserID (pa_ctx p)) \<and>
     (InOrganization \<notin> set gs \<longrightarrow> OrgID (pa_ctx p') = OrgID (pa_ctx p) \<and> OrgRole (pa_ctx p') = OrgRole (pa_ctx p))"

lemma vouches_settled:
  "orderly (g # gs) \<Longrightarrow> vouches e q w (pa_ctx p) g \<Longrightarrow> settles gs p p' \<Longrightarrow> vouches e q w (pa_ctx p') g"
  by (cases g) (simp_all add: settles_def in_workspace_def)

lemma settles_Cons: "passes e q g p w p1 \<Longrightarrow> settles gs p1 p2 \<Longrightarrow> settles (g # gs) p p2"
  by (auto simp: passes_def settles_def no_identity_def)

definition got_through :: "server_env \<Rightarrow> http_request \<Rightarrow> guard list \<Rightarrow> passed \<Rightarrow> world \<Rightarrow> passed \<Rightarrow> bool" where
  "got_through e q gs p w p' \<longleftrightarrow> settles gs p p' \<and> (\<forall>g \<in> set gs. vouches e q w (pa_ctx p') g)"

lemma got_through_Cons:
  "orderly (g # gs) \<Longrightarrow> passes e q g p v p1 \<Longrightarrow> untouched w v \<Longrightarrow> got_through e q gs p1 w p2 \<Longrightarrow> got_through e q (g # gs) p w p2"
proof -
  assume ord: "orderly (g # gs)" and p: "passes e q g p v p1" and u: "untouched w v" and rest: "got_through e q gs p1 w p2"
  then have st: "settles gs p1 p2" by (simp add: got_through_def)
  have "vouches e q w (pa_ctx p1) g" using p vouches_untouched [OF u] by (simp add: passes_def)
  then have "vouches e q w (pa_ctx p2) g" using vouches_settled [OF ord _ st] by simp
  with rest settles_Cons [OF p st] show "got_through e q (g # gs) p w p2" by (simp add: got_through_def)
qed

lemma run_guards_wp:
  "orderly gs \<Longrightarrow> untouched w v \<Longrightarrow> wp (run_guards e q gs p ls) (\<lambda>(x, ls') t. untouched w t \<and>
     (case x of Inl resp \<Rightarrow> 400 \<le> status_code resp | Inr p' \<Rightarrow> got_through e q gs p w p')) v"
proof (induction gs arbitrary: p ls v)
  case Nil
  then show ?case by (simp add: got_through_def settles_def)
next
  case (Cons g gs)
  from Cons.prems have ord: "orderly gs" by simp
  have next_guard: "wp (run_guards e q gs p1 ls1) (\<lambda>(x, ls') t. untouched w t \<and>
      (case x of Inl resp \<Rightarrow> 400 \<le> status_code (resp :: 'a response) | Inr p' \<Rightarrow> got_through e q (g # gs) p w p')) v1"
    if "untouched v v1" "passes e q g p v p1" for p1 ls1 v1
    by (rule wp_mono [OF Cons.IH [OF ord untouched_trans [OF Cons.prems(2) that(1)]]])
      (auto split: sum.splits intro: got_through_Cons [OF Cons.prems(1) that(2) Cons.prems(2)])
  show ?case unfolding run_guards.simps wp_bind
    by (rule wp_mono [OF run_guard_wp])
      (auto simp: untouched_trans [OF Cons.prems(2)] next_guard split: sum.splits)
qed

subsection \<open>The table\<close>

definition open_path :: "string \<Rightarrow> bool" where
  "open_path path \<longleftrightarrow> path \<in> {''/api/health'', ''/robots.txt'', ''/api/docs'', ''/api/docs/openapi.yaml'', ''/api/webhooks/creem''} \<or>
     list_ex (has_prefix path) [''/api/auth/'', ''/api/watch/'', ''/watch/'', ''/embed/''] \<or> has_suffix path ''/oembed''"

definition workspace_write :: "route \<Rightarrow> bool" where
  "workspace_write r \<longleftrightarrow> rt_method r \<noteq> GET \<and> list_ex (has_prefix (rt_path r)) [''/api/videos'', ''/api/folders'', ''/api/tags'']"

definition route_ok :: "route \<Rightarrow> bool" where
  "route_ok r \<longleftrightarrow> orderly (rt_guards r) \<and>
     (open_path (rt_path r) \<or> SignedIn \<in> set (rt_guards r) \<or> KeyOrSignedIn \<in> set (rt_guards r) \<or> ScimBearer \<in> set (rt_guards r)) \<and>
     (workspace_write r \<longrightarrow> Writer \<in> set (rt_guards r) \<and> InOrganization \<in> set (rt_guards r))"

definition for_known :: "guard list \<Rightarrow> bool" where
  "for_known gs \<longleftrightarrow> orderly gs \<and> (SignedIn \<in> set gs \<or> KeyOrSignedIn \<in> set gs \<or> ScimBearer \<in> set gs)"

lemma write_group:
  "for_known gs \<and> Writer \<in> set gs \<and> InOrganization \<in> set gs \<Longrightarrow> list_all route_ok (route_group gs entries)"
  by (auto simp: route_group_def route_ok_def for_known_def list_all_iff)

lemma read_group:
  "for_known gs \<and> list_all (\<lambda>(m, path, h). m = GET) entries \<Longrightarrow> list_all route_ok (route_group gs entries)"
  by (auto simp: route_group_def route_ok_def for_known_def list_all_iff workspace_write_def)

lemma other_group:
  "for_known gs \<and> list_all (\<lambda>(m, path, h). \<not> list_ex (has_prefix path) [''/api/videos'', ''/api/folders'', ''/api/tags'']) entries \<Longrightarrow>
    list_all route_ok (route_group gs entries)"
  by (fastforce simp: route_group_def route_ok_def for_known_def list_all_iff workspace_write_def)

lemma open_group:
  "orderly gs \<and> list_all (\<lambda>(m, path, h). open_path path \<and>
      (m \<noteq> GET \<longrightarrow> \<not> list_ex (has_prefix path) [''/api/videos'', ''/api/folders'', ''/api/tags''])) entries \<Longrightarrow>
    list_all route_ok (route_group gs entries)"
  by (fastforce simp: route_group_def route_ok_def for_known_def list_all_iff workspace_write_def)

lemma write_tables:
  "list_all route_ok video_write_routes" "list_all route_ok transcript_write_routes"
  "list_all route_ok folder_write_routes" "list_all route_ok tag_write_routes"
  unfolding video_write_routes_def transcript_write_routes_def folder_write_routes_def tag_write_routes_def list_all_append
  by (intro conjI write_group; simp add: for_known_def no_identity_def)+

lemma read_tables:
  "list_all route_ok video_list_routes" "list_all route_ok video_read_routes"
  "list_all route_ok transcript_read_routes" "list_all route_ok dashboard_routes"
  "list_all route_ok folder_read_routes" "list_all route_ok tag_read_routes"
  unfolding video_list_routes_def video_read_routes_def transcript_read_routes_def dashboard_routes_def
    folder_read_routes_def tag_read_routes_def list_all_append
  by (intro conjI read_group; simp add: for_known_def no_identity_def)+

lemma other_tables:
  "list_all route_ok scim_routes" "list_all route_ok user_routes" "list_all route_ok organization_routes"
  "list_all route_ok organization_sso_routes" "list_all route_ok invite_routes" "list_all route_ok settings_routes"
  "list_all route_ok settings_integration_routes" "list_all route_ok playlist_read_routes"
  "list_all route_ok playlist_write_routes" "list_all route_ok organization_billing_routes"
  "list_all route_ok settings_billing_routes"
  unfolding scim_routes_def user_routes_def organization_routes_def organization_sso_routes_def invite_routes_def
    settings_routes_def settings_integration_routes_def playlist_read_routes_def playlist_write_routes_def
    organization_billing_routes_def settings_billing_routes_def list_all_append
  by (intro conjI other_group; simp add: for_known_def no_identity_def has_prefix_def)+

lemma open_tables:
  "list_all route_ok plain_routes" "list_all route_ok docs_routes" "list_all route_ok auth_routes"
  "list_all route_ok sso_routes" "list_all route_ok watch_routes" "list_all route_ok page_routes"
  "list_all route_ok creem_routes"
  unfolding plain_routes_def docs_routes_def auth_routes_def sso_routes_def watch_routes_def page_routes_def
    creem_routes_def list_all_append
  by (intro conjI open_group; simp add: no_identity_def has_prefix_def has_suffix_def open_path_def)+

lemma routes_ok: "r \<in> set (routes s) \<Longrightarrow> route_ok r"
proof -
  have "list_all route_ok (routes s)"
    by (simp add: routes_def write_tables read_tables other_tables open_tables)
  then show "r \<in> set (routes s) \<Longrightarrow> route_ok r" by (simp add: list_all_iff)
qed

subsection \<open>What a handler may rely on\<close>

definition known_caller :: "server_env \<Rightarrow> http_request \<Rightarrow> world \<Rightarrow> rctx \<Rightarrow> bool" where
  "known_caller e q w c \<longleftrightarrow> token_user e q w (UserID c) \<or> key_user e q w (UserID c) \<or>
     (\<exists>token. hq_Authorization q = ''Bearer '' @ token \<and> lets_in (sv_scim e) (hq_orgId q) token w)"

definition entered :: "server_env \<Rightarrow> http_request \<Rightarrow> route \<Rightarrow> world \<Rightarrow> passed \<Rightarrow> bool" where
  "entered e q r w p \<longleftrightarrow> known_caller e q w (pa_ctx p) \<and>
     (workspace_write r \<longrightarrow> in_workspace e q w (pa_ctx p) \<and> (OrgID (pa_ctx p) = [] \<or> OrgRole (pa_ctx p) \<noteq> ''viewer''))"

lemma got_through_entered:
  assumes "route_ok r" "\<not> open_path (rt_path r)" "got_through e q (rt_guards r) nobody w p"
  shows "entered e q r w p"
proof -
  have v: "vouches e q w (pa_ctx p) g" if "g \<in> set (rt_guards r)" for g
    using assms(3) that by (simp add: got_through_def)
  have "known_caller e q w (pa_ctx p)"
    using assms(1,2) v [of SignedIn] v [of KeyOrSignedIn] v [of ScimBearer] by (auto simp: route_ok_def known_caller_def)
  moreover have "in_workspace e q w (pa_ctx p) \<and> (OrgID (pa_ctx p) = [] \<or> OrgRole (pa_ctx p) \<noteq> ''viewer'')" if "workspace_write r"
    using assms(1) that v [of InOrganization] v [of Writer] by (auto simp: route_ok_def)
  ultimately show ?thesis by (simp add: entered_def)
qed

text \<open>
  C5: Outside the open part of the surface (health, documentation, sign-in, shared pages, payment callbacks) a handler
  runs only for a caller known by an access token, an API key or a provisioning token, on a database the guards left
  as it was; a write to videos, folders or tags runs only in a workspace the caller is a member of, or in none, and
  not for a viewer. Any other request is answered with an error, without running the handler.
\<close>

theorem routes_guarded:
  assumes "r \<in> set (routes s)" "\<not> open_path (rt_path r)"
  shows "wp (serve e q r handler ls) (\<lambda>(resp, ls') t. untouched w t \<and> 400 \<le> status_code resp \<or>
    (\<exists>p v. untouched w v \<and> entered e q r w p \<and> run_state (handler p) v = (resp, t))) w"
proof -
  have ok: "route_ok r" by (rule routes_ok [OF assms(1)])
  then have ord: "orderly (rt_guards r)" by (simp add: route_ok_def)
  have run: "wp (handler p) (\<lambda>resp t. \<exists>p v. untouched w v \<and> entered e q r w p \<and> run_state (handler p) v = (resp, t)) v"
    if "untouched w v" "entered e q r w p" for p v
    using that by (intro wp_run) blast
  show ?thesis unfolding serve_def wp_bind
    by (rule wp_mono [OF run_guards_wp [OF ord untouched_refl]])
      (auto simp: wp_return_eta intro!: wp_mono [OF run] got_through_entered [OF ok assms(2)] split: sum.splits)
qed

text \<open>Without an \<open>Authorization\<close> header nobody reads an account.\<close>

lemma routes_guarded_witness:
  "\<forall>e ls. 400 \<le> status_code (fst (fst (run_state
    (serve e \<lparr>hq_ip = ''192.0.2.1'', hq_Authorization = [], hq_Organization = [], hq_orgId = [], hq_since = 0, hq_seen = 0\<rparr>
      \<lparr>rt_method = GET, rt_path = ''/api/user'', rt_guards = [SignedIn, MaxBody small_body], rt_handler = ''auth.GetUser''\<rparr>
      (\<lambda>_. State_Monad.return (WriteJSON 200 ())) ls) (empty_world 0))))"
proof (intro allI)
  fix e ls
  let ?r = "\<lparr>rt_method = GET, rt_path = ''/api/user'', rt_guards = [SignedIn, MaxBody small_body], rt_handler = ''auth.GetUser''\<rparr>"
  let ?q = "\<lparr>hq_ip = ''192.0.2.1'', hq_Authorization = [], hq_Organization = [], hq_orgId = [], hq_since = 0, hq_seen = 0\<rparr>"
  have r: "?r \<in> set (routes \<lparr>with_docs = False, with_db = True, with_billing = False\<rparr>)"
    by (simp add: routes_def user_routes_def route_group_def)
  have shut: "\<not> open_path (rt_path ?r)" by (simp add: open_path_def has_prefix_def has_suffix_def)
  have "\<not> known_caller e ?q (empty_world 0) c" for c by (simp add: known_caller_def token_user_def key_user_def)
  then show "400 \<le> status_code (fst (fst (run_state (serve e ?q ?r (\<lambda>_. State_Monad.return (WriteJSON 200 ())) ls) (empty_world 0))))"
    using routes_guarded [OF r shut, of e ?q "\<lambda>_. State_Monad.return (WriteJSON 200 ())" ls "empty_world 0"]
    unfolding wp_def entered_def by (auto simp: split_beta)
qed

text \<open>
  The guard against viewers does nothing on playlists: these routes never learn of a workspace, so whoever is signed
  in gets through.
\<close>

lemma playlist_writer_idle:
  assumes "r \<in> set playlist_write_routes" "token_user e q w u"
  shows "fst (fst (run_state (run_guards e q (rt_guards r) nobody ls) w)) =
    (Inr \<lparr>pa_ctx = \<lparr>UserID = u, OrgID = [], OrgRole = []\<rparr>, pa_cap = Some small_body\<rparr> :: unit response + passed)"
proof -
  obtain token cl where t: "hq_Authorization q = ''Bearer '' @ token"
      "ValidateToken (sv_jwt e) (now w) (jwtSecret (sv_auth e)) token = Some cl" "cl_TokenType cl = ''access''" "cl_UserID cl = u"
    using assms(2) by (auto simp: token_user_def)
  have "rt_guards r = [SignedIn, MaxBody small_body, Writer]"
    using assms(1) by (auto simp: playlist_write_routes_def route_group_def)
  then show ?thesis using t
    by (simp add: run_simps auth_Middleware_def has_prefix_def trim_prefix_def as_user_def maxBodySize_def nobody_def RequireWriter_def)
qed

text \<open>The pages that record a view are not throttled.\<close>

lemma pages_unthrottled:
  "r \<in> set page_routes \<Longrightarrow> rt_method r = GET \<Longrightarrow> rt_guards r = []"
  by (auto simp: page_routes_def route_group_def)

text \<open>Only pages meant for it may be framed by anybody.\<close>

lemma framing:
  "frame_ancestors allowed path = ''*'' \<longleftrightarrow> has_prefix path ''/embed/''"
  by (simp add: frame_ancestors_def quoted_def)

end
