(* ===== verification/Spec2Isabelle.thy ===== *)
theory Spec2Isabelle
  imports Segments Media_Facts Worker_Facts Video_Settings Watch_Auth VTT Rate_Limit Encoder_Slots Languages
    Video_Crud_Facts Cleanup_Facts Batch_Transfer Folders_Tags Account_Facts Organization_Facts Billing_Facts
    Sharing_Facts Analytics_Facts Outreach Identity_Facts Integration_Facts Transcriber_Facts Route_Facts
begin

text \<open>
  A model of the server of SendRec, the Go code under \<open>src/internal\<close>, and what can be proved of it.

  The program. A user records a video in the browser, the server (\<open>server/server.go\<close>) hands out an address to upload
  it to the object store, background jobs trim, cut, compose, transcode and normalize it with ffmpeg, workers transcribe
  and summarize it with outside services, and viewers see it on public pages guarded by a password, an e-mail gate and an
  expiry. Around that: accounts with passwords, sessions, API keys and single sign-on, workspaces with roles, invitations
  and provisioning, plans and payments, folders, tags, playlists, comments, branding, analytics, notifications, digests,
  issue trackers, and sweeps that delete what has to go.

  The shape of the model. Everything shares one state, the record \<open>world\<close> of \<open>World\<close>: the tables of the database as
  lists of rows in the order of insertion, the clock, the goroutines that were started and have not run (\<open>jobs\<close>), the
  calls made on outside services (\<open>effects\<close>), and the outcomes the next calls have in store (\<open>faults\<close>). A handler,
  job or worker tick is a function into the state monad (\<open>prog\<close>), written statement by statement in the order of the
  Go function, with every early return; its answer is a \<open>response\<close>: status with a message, or status with a body. A SQL
  statement is one atomic step that may fail (with any message, leaving the tables as they were); a call on an outside
  service may fail as well. A request body is \<open>None\<close> when it does not decode. Libraries and services (hashing, bcrypt,
  JWT, HMAC, AES-GCM, OAuth2, OpenID Connect, SAML, net/url, HTTP exchanges, ffmpeg, Unicode case folding) are arguments
  of the definitions that use them; a property that needs a law of theirs has it as a hypothesis. Values drawn at random
  are arguments too.

  Foundations. \<open>Prelude\<close>: operations on tables, the locale \<open>step_relation\<close> by which a program is walked from statement
  to statement, the locale \<open>machine\<close> for reachable states, lemma collections. \<open>Go_Strings\<close>: byte strings and the parts of
  \<open>strings\<close>, \<open>strconv\<close>, \<open>fmt\<close> that are used. \<open>Encodings\<close>: base64, query escapes, JSON values, with the round trip of
  base64. \<open>Float64\<close>: binary64 as rationals with rounding, with the locale \<open>rounding\<close> of its order laws. \<open>World\<close>: the
  state, statements, weakest preconditions (\<open>wp\<close>) with the rules that walk through a handler, and the locales
  \<open>video_relation\<close> and \<open>row_invariant\<close>: what happens to single rows of videos under a whole program. \<open>Policy\<close>: plans
  (\<open>plans/\<close>), roles (\<open>organization/role.go\<close>), limits of fields (\<open>validate/validate.go\<close>), the scope of a caller
  (\<open>orgVideoFilter\<close> of \<open>video/video_query.go\<close>), configuration and services.

  Videos. \<open>Video_Crud\<close>, \<open>Video_Crud_Facts\<close>: \<open>video_crud.go\<close> (create, upload, finalize, rename, trim, delete).
  \<open>Segments\<close>: \<open>remove_segments.go\<close>, \<open>silence.go\<close>, \<open>encoder_params.go\<close>. \<open>Media_Jobs\<close>, \<open>Media_Facts\<close>: the jobs of
  \<open>trim.go\<close>, \<open>composite.go\<close>, \<open>transcode.go\<close>, \<open>normalize.go\<close>, \<open>probe.go\<close>, \<open>thumbnail.go\<close> and the sweep of
  \<open>stuck_processing.go\<close>. \<open>Encoder_Slots\<close>: the semaphore of \<open>encoder_slots.go\<close> as a step relation over goroutines.
  \<open>Cleanup\<close>, \<open>Cleanup_Facts\<close>: \<open>cleanup.go\<close>, \<open>retention_worker.go\<close>, the retrying delete. \<open>Video_Settings\<close>:
  \<open>video_settings.go\<close>. \<open>Batch_Transfer\<close>: \<open>batch.go\<close>, \<open>transfer.go\<close>. \<open>Folders_Tags\<close>: \<open>folder.go\<close>, \<open>tag.go\<close>. \<open>VTT\<close>:
  \<open>vtt_parse.go\<close> and the writer. \<open>Languages\<close>: \<open>languages/\<close>. \<open>Workers\<close>, \<open>Worker_Facts\<close>: the queues of
  \<open>transcribe_worker.go\<close>, \<open>summary_worker.go\<close>, \<open>document_worker.go\<close>, instances of the locale \<open>work_queue\<close>.
  \<open>Transcribers\<close>, \<open>Transcriber_Facts\<close>: the three transcribers and their factory, instances of \<open>speech_engine\<close>.

  Viewers. \<open>Watch_Auth\<close>: \<open>watch_auth.go\<close> with the cookies of \<open>net/http\<close>. \<open>Viewing\<close>, \<open>Watch_Pages\<close>: lists, pages,
  downloads, views (\<open>video_query.go\<close>, \<open>watch_page.go\<close>, \<open>embed_page.go\<close>, \<open>view.go\<close>, \<open>oembed.go\<close>). \<open>Playlists\<close>:
  \<open>playlist.go\<close> and its pages. \<open>Comments\<close>, \<open>Branding\<close>: the files of that name. \<open>Sharing_Facts\<close>: what holds of all of
  these. \<open>Analytics\<close>, \<open>Analytics_Facts\<close>: \<open>video_analytics.go\<close>, \<open>video_analytics_dashboard.go\<close>.

  People. \<open>Accounts\<close>, \<open>Account_Facts\<close>: \<open>auth/\<close>. \<open>Organizations\<close>, \<open>Organization_Facts\<close>: \<open>organization/\<close>. \<open>Billing\<close>,
  \<open>Billing_Facts\<close>: \<open>billing/\<close>. \<open>Sso_Providers\<close>, \<open>Sso\<close>, \<open>Sso_Config\<close>: \<open>sso/\<close>, from what a provider tells to the account
  and its session. \<open>Scim\<close>: \<open>scim/\<close>. \<open>Identity_Facts\<close>: what holds of signing in and provisioning together; the two
  relations it needs are walked once, in the locale \<open>provisioning_walk\<close>. \<open>Notifications\<close>: \<open>notification.go\<close>,
  \<open>webhook/\<close>. \<open>Mail\<close>: \<open>email/\<close>. \<open>Outreach\<close>: digests, onboarding, Slack (\<open>digest_worker.go\<close>, \<open>onboarding_worker.go\<close>,
  \<open>slack/\<close>, \<open>notify/\<close>). \<open>Integrations\<close>, \<open>Integration_Facts\<close>: \<open>integration/\<close>. \<open>Rate_Limit\<close>: \<open>ratelimit/\<close>,
  \<open>httputil/clientip.go\<close>. \<open>Routes\<close>, \<open>Route_Facts\<close>: the table of routes with their middlewares, and the headers
  (\<open>server/\<close>); here the middlewares of the other theories are composed the way the server does.
\<close>

text \<open>
  What is proved. The properties stand in the theories named \<open>.._Facts\<close>, and at the end of \<open>Segments\<close>, \<open>Encoder_Slots\<close>,
  \<open>Rate_Limit\<close>, \<open>Batch_Transfer\<close>, \<open>Notifications\<close>, \<open>Viewing\<close>, \<open>Mail\<close>, \<open>Outreach\<close>, \<open>VTT\<close> and \<open>Watch_Auth\<close>; each has an
  identifier in the text before it. By theme:

  (1) Life of a video: an upload is accepted within the quota of the month and finalized only with the object that was
  announced; trimming and cutting accept exactly the requests that leave a video, and end with a ready row of the new
  length; whatever fails, an editing job settles the row it claimed; deleting marks the row and hands every object to the
  purge; the retention sweep deletes only what was due and announced.
  (2) Who sees what: every public way to a video asks for status, expiry, password and e-mail gate; cookies open what they
  were issued for; playlists show exactly their rows; private comments stay with the owner; lists keep to the scope of the
  caller; the numbers of the analytics are those of the rows.
  (3) Who may do what: routes outside the open part of the surface run their handler for a known caller only, and writes
  not for viewers; transfers, issues and settings keep to the scope; a workspace keeps an owner; invitations admit the
  invited; a sign-in through a provider yields the account the provider vouches for; provisioning stays in its workspace;
  accounts, identities and memberships stay consistent under all of it; refresh tokens work once; a reset ends sessions.
  (4) Outside services: a webhook is tried at most three times and logged each time, never to an internal address; mail
  has no foreign headers and no plain text where encryption is required; plans change once per signed event; tokens of
  trackers come back as saved.
  (5) Resources: encodes are bounded by the slots, buckets by their burst, every release returns.

  Each theory also proves the cases in which the code does not do what it is for (the sections on what modelling showed);
  these are theorems about the same definitions.

  Bounds and recursion. Loops over lists are structural. \<open>dispatch_from\<close> counts down the three attempts of a delivery and
  the retrying delete its three, as the code does; \<open>trim_left_aux\<close> and \<open>split_aux\<close> carry the length of the text as
  fuel, which is enough because every round takes at least one byte (\<open>split_aux_complete\<close>, \<open>trim_left_aux_done\<close>);
  \<open>read_headers\<close>, \<open>strip_tags\<close>, \<open>drop_broken\<close> and \<open>itoa_nat\<close> terminate by a measure. Worker loops are the repetition
  of one tick. Numbers the database keeps in 4 bytes fail outside their range where a statement can take them there;
  durations of the environment are words of 64 bits; Go's \<open>int\<close> is 64 bits and otherwise unbounded here where no
  request can come near its end.

  Not modelled. The HTML, CSS and browser script of the pages (most of \<open>watch_page.go\<close>, \<open>playlist_watch.go\<close>,
  \<open>playlist_embed.go\<close>, \<open>embed_page.go\<close>, all of \<open>player_shared.go\<close>): a page is the data its template gets. The catalogue
  \<open>FieldLimits\<close>. The text of times in answers. Matching of paths (chi), the file server (\<open>spa.go\<close>), request logging,
  \<open>storage/\<close>, \<open>database/\<close>, \<open>geoip/\<close>, \<open>docs/\<close> and \<open>cmd/sendrec/main.go\<close>, which call libraries and start the process.
  The HTTP exchange of the language model and of Slack. A text with a NUL byte, which PostgreSQL refuses, is a failed
  statement. Identifiers in requests are taken as the canonical text of a key, except for workspaces, single sign-on and
  provisioning, where their parsing is an argument. Foreign keys fail where it is written; deletions cascade where a
  handler deletes. Two statements of a handler may be separated by steps of others only where a theory says so (the race
  of two refreshes, the slots); everywhere else a handler runs as a whole.
\<close>

end
